(* ===== verification/Prelude.thy ===== *)
theory Prelude
  imports Main "HOL-Library.AList" "HOL-Library.Sublist" "HOL-Library.Word" "HOL-Library.List_Lexorder" "HOL-Library.Char_ord"
begin

text \<open>
  Shared vocabulary of the development: Go's errors as values of a sum type, Go's
  association maps, time and duration arithmetic, and the functions of Go's \<^verbatim>\<open>strings\<close>
  and \<^verbatim>\<open>net\<close> packages that the sources call.  The collections \<open>go_simps\<close> (equations of
  the standard-library functions) and \<open>res_simps\<close> (inversion of the error monad)
  are what the component theories hand to the simplifier.
\<close>

named_theorems go_simps "equations of the modelled standard-library functions"
named_theorems res_simps "inversion of the result combinators"

section \<open>Errors\<close>

text \<open>
  The sentinel errors of \<^verbatim>\<open>domain/errors.go\<close>, \<^verbatim>\<open>auth/errors.go\<close>, \<^verbatim>\<open>agent/errors.go\<close>,
  \<^verbatim>\<open>ports\<close>, \<^verbatim>\<open>balancer/balancer.go\<close> and \<^verbatim>\<open>agenthost/bootstrap.go\<close>.
\<close>

datatype sentinel =
    ErrNoProxy | ErrNoPool | ErrNoMatchingRule | ErrNotFound | ErrAgentExists
  | ErrUserExists | ErrTokenMustExpire
  | ErrInvalidCredentials | ErrInvalidToken | ErrInvalidBootstrapToken
  | ErrAlreadyInitialized | ErrLastAdmin | ErrWeakPassword | ErrInvalidRegistrationToken
  | ErrAgentNotFound | ErrAgentRequired | ErrTokenRequired
  | ErrChangeEventInvalid | ErrBalancerNotFound
  | ErrAgentUnauthenticated | ErrBootstrapConfig | ErrBootstrapState

text \<open>An argument of a format string.\<close>

datatype fmt_arg = FStr string | FInt int

text \<open>The status codes of gRPC.\<close>

datatype grpc_code =
    CodeOK | CodeCanceled | CodeUnknown | CodeInvalidArgument | CodeDeadlineExceeded | CodeNotFound
  | CodeAlreadyExists | CodePermissionDenied | CodeResourceExhausted | CodeFailedPrecondition | CodeAborted
  | CodeOutOfRange | CodeUnimplemented | CodeInternal | CodeUnavailable | CodeDataLoss | CodeUnauthenticated

text \<open>
  A Go error: a sentinel, \<^verbatim>\<open>fmt.Errorf\<close> with its format and arguments, the same with one
  or two wrapped errors (\<^verbatim>\<open>%w\<close>), the two structured errors of \<^verbatim>\<open>controlplane/api/errors.go\<close>,
  a gRPC status with the format, the arguments and the error printed (not wrapped) in its message,
  and an error raised by code outside the repository, of which only its identity is known.
\<close>

datatype err =
    Sentinel sentinel
  | Errorf string "fmt_arg list"
  | Wrapf string "fmt_arg list" err
  | Wrapf2 string err err
  | ResourceInUseError string string "(string \<times> string) list"
  | ResourceMissingRefError string string string string
  | StatusError grpc_code string "fmt_arg list" "err option"
  | External string

fun errors_Is :: "err \<Rightarrow> sentinel \<Rightarrow> bool" where
  "errors_Is (Sentinel s) t = (s = t)"
| "errors_Is (Wrapf _ _ e) t = errors_Is e t"
| "errors_Is (Wrapf2 _ e f) t = (errors_Is e t \<or> errors_Is f t)"
| "errors_Is _ t = False"

type_synonym 'a result = "err + 'a"

definition bind_res :: "'a result \<Rightarrow> ('a \<Rightarrow> 'b result) \<Rightarrow> 'b result" where
  "bind_res r f = (case r of Inl e \<Rightarrow> Inl e | Inr x \<Rightarrow> f x)"

definition wrap :: "(err \<Rightarrow> err) \<Rightarrow> 'a result \<Rightarrow> 'a result" where
  "wrap w r = (case r of Inl e \<Rightarrow> Inl (w e) | Inr x \<Rightarrow> Inr x)"

definition guard_res :: "bool \<Rightarrow> err \<Rightarrow> unit result" where
  "guard_res b e = (if b then Inr () else Inl e)"

definition is_ok :: "'a result \<Rightarrow> bool" where
  "is_ok r = (case r of Inl _ \<Rightarrow> False | Inr _ \<Rightarrow> True)"

lemma bind_res_simps [simp]:
  "bind_res (Inl e) f = Inl e"
  "bind_res (Inr x) f = f x"
  by (simp_all add: bind_res_def)

lemma wrap_simps [simp]:
  "wrap w (Inl e) = Inl (w e)"
  "wrap w (Inr x) = Inr x"
  by (simp_all add: wrap_def)

lemma is_ok_simps [simp]:
  "is_ok (Inr x)" "\<not> is_ok (Inl e)"
  by (simp_all add: is_ok_def)

lemma bind_res_Inr_iff [res_simps]:
  "bind_res r f = Inr y \<longleftrightarrow> (\<exists>x. r = Inr x \<and> f x = Inr y)"
  by (cases r) simp_all

lemma bind_res_Inl_iff [res_simps]:
  "bind_res r f = Inl e \<longleftrightarrow> r = Inl e \<or> (\<exists>x. r = Inr x \<and> f x = Inl e)"
  by (cases r) simp_all

lemma wrap_Inr_iff [res_simps]: "wrap w r = Inr x \<longleftrightarrow> r = Inr x"
  by (cases r) simp_all

lemma wrap_Inl_iff [res_simps]: "wrap w r = Inl e \<longleftrightarrow> (\<exists>f. r = Inl f \<and> e = w f)"
  by (cases r) auto

lemma guard_res_Inr_iff [res_simps]: "guard_res b e = Inr x \<longleftrightarrow> b"
  by (simp add: guard_res_def)

lemma guard_res_Inl_iff [res_simps]: "guard_res b e = Inl f \<longleftrightarrow> \<not> b \<and> f = e"
  by (auto simp: guard_res_def)

lemma is_ok_iff [res_simps]: "is_ok r \<longleftrightarrow> (\<exists>x. r = Inr x)"
  by (cases r) simp_all

text \<open>Go's \<^verbatim>\<open>for _, x := range xs { if err := f(x); err != nil { return err } }\<close>.\<close>

fun check_all :: "('a \<Rightarrow> unit result) \<Rightarrow> 'a list \<Rightarrow> unit result" where
  "check_all f [] = Inr ()"
| "check_all f (x # xs) = bind_res (f x) (\<lambda>_. check_all f xs)"

lemma check_all_Inr_iff [res_simps]:
  "check_all f xs = Inr u \<longleftrightarrow> (\<forall>x \<in> set xs. f x = Inr ())"
  by (induction xs) (auto simp: res_simps)

section \<open>Operations on a state\<close>

text \<open>
  A method that reads and changes state and may fail: it returns its result and the state it
  leaves.  \<open>bind_op\<close> is Go's \<^verbatim>\<open>x, err := m(); if err != nil { return err }\<close>, \<open>lift_op\<close> a step that
  does not touch the state, \<open>read_op\<close> one that only reads it.
\<close>

type_synonym ('s, 'a) op = "'s \<Rightarrow> 'a result \<times> 's"

definition bind_op :: "('s, 'a) op \<Rightarrow> ('a \<Rightarrow> ('s, 'b) op) \<Rightarrow> ('s, 'b) op" where
  "bind_op m f s = (case m s of (Inl e, s') \<Rightarrow> (Inl e, s') | (Inr x, s') \<Rightarrow> f x s')"

definition lift_op :: "'a result \<Rightarrow> ('s, 'a) op" where
  "lift_op r s = (r, s)"

definition read_op :: "('s \<Rightarrow> 'a result) \<Rightarrow> ('s, 'a) op" where
  "read_op f s = (f s, s)"

definition wrap_op :: "(err \<Rightarrow> err) \<Rightarrow> ('s, 'a) op \<Rightarrow> ('s, 'a) op" where
  "wrap_op w m s = (case m s of (r, s') \<Rightarrow> (wrap w r, s'))"

definition guard_op :: "bool \<Rightarrow> err \<Rightarrow> ('s, unit) op" where
  "guard_op b e = lift_op (guard_res b e)"

named_theorems op_simps "unfolding of operations on a state"

lemma lift_op_apply [simp, op_simps]: "lift_op r s = (r, s)"
  by (simp add: lift_op_def)

lemma read_op_apply [simp, op_simps]: "read_op f s = (f s, s)"
  by (simp add: read_op_def)

lemma guard_op_apply [simp, op_simps]: "guard_op b e s = (guard_res b e, s)"
  by (simp add: guard_op_def)

lemma wrap_op_apply [op_simps]: "wrap_op w m s = (wrap w (fst (m s)), snd (m s))"
  by (simp add: wrap_op_def split: prod.splits)

lemma bind_op_read [simp]: "bind_op (read_op f) g s = (case f s of Inl e \<Rightarrow> (Inl e, s) | Inr x \<Rightarrow> g x s)"
  by (simp add: bind_op_def split: sum.splits)

lemma bind_op_lift [simp]: "bind_op (lift_op r) g s = (case r of Inl e \<Rightarrow> (Inl e, s) | Inr x \<Rightarrow> g x s)"
  by (simp add: bind_op_def split: sum.splits)

lemma bind_op_guard [simp]: "bind_op (guard_op b e) g s = (if b then g () s else (Inl e, s))"
  by (simp add: bind_op_def guard_res_def)

lemma bind_op_Inr_iff [res_simps]:
  "bind_op m f s = (Inr y, s'') \<longleftrightarrow> (\<exists>x s'. m s = (Inr x, s') \<and> f x s' = (Inr y, s''))"
  by (cases "m s"; cases "fst (m s)") (auto simp: bind_op_def)

lemma bind_op_Inl_iff [res_simps]:
  "bind_op m f s = (Inl e, s'') \<longleftrightarrow>
     m s = (Inl e, s'') \<or> (\<exists>x s'. m s = (Inr x, s') \<and> f x s' = (Inl e, s''))"
  by (cases "m s"; cases "fst (m s)") (auto simp: bind_op_def)

lemma wrap_op_Inr_iff [res_simps]: "wrap_op w m s = (Inr x, s') \<longleftrightarrow> m s = (Inr x, s')"
  by (auto simp: wrap_op_def res_simps split: prod.splits)

lemma wrap_op_Inl_iff [res_simps]: "wrap_op w m s = (Inl e, s') \<longleftrightarrow> (\<exists>f. m s = (Inl f, s') \<and> e = w f)"
  by (auto simp: wrap_op_def res_simps split: prod.splits)

text \<open>
  \<open>keeps I m\<close>: the operation preserves the invariant, whether it succeeds or fails.
\<close>

definition keeps :: "('s \<Rightarrow> bool) \<Rightarrow> ('s, 'a) op \<Rightarrow> bool" where
  "keeps I m \<longleftrightarrow> (\<forall>s. I s \<longrightarrow> I (snd (m s)))"

lemma keepsI: "(\<And>s. I s \<Longrightarrow> I (snd (m s))) \<Longrightarrow> keeps I m"
  by (simp add: keeps_def)

lemma keepsD: "keeps I m \<Longrightarrow> I s \<Longrightarrow> I (snd (m s))"
  by (simp add: keeps_def)

lemma keeps_read [intro, simp]: "keeps I (read_op f)"
  by (simp add: keeps_def)

lemma keeps_lift [intro, simp]: "keeps I (lift_op r)"
  by (simp add: keeps_def)

lemma keeps_guard [intro, simp]: "keeps I (guard_op b e)"
  by (simp add: keeps_def)

lemma keeps_wrap [intro]: "keeps I m \<Longrightarrow> keeps I (wrap_op w m)"
  by (simp add: keeps_def wrap_op_apply)

lemma keeps_bind [intro]:
  assumes "keeps I m" "\<And>x. keeps I (f x)"
  shows "keeps I (bind_op m f)"
proof (rule keepsI)
  fix s assume "I s"
  with assms(1) have "I (snd (m s))" by (rule keepsD)
  with assms(2) show "I (snd (bind_op m f s))"
    by (auto simp: bind_op_def keeps_def split: prod.splits sum.splits)
qed

text \<open>A loop over a list that stops at the first error.\<close>

fun each_op :: "('a \<Rightarrow> ('s, unit) op) \<Rightarrow> 'a list \<Rightarrow> ('s, unit) op" where
  "each_op f [] = lift_op (Inr ())"
| "each_op f (x # xs) = bind_op (f x) (\<lambda>_. each_op f xs)"

lemma each_op_read: "each_op (\<lambda>x. read_op (g x)) xs = read_op (\<lambda>s. check_all (\<lambda>x. g x s) xs)"
  by (induction xs) (auto simp: fun_eq_iff bind_res_def bind_op_def split: sum.splits)

text \<open>
  Weakest preconditions: \<open>wp m Q E s\<close> holds when \<open>m\<close>, run in \<open>s\<close>, ends in a state with \<open>Q\<close> if it
  succeeds and with \<open>E\<close> if it fails.  The rules in \<open>wp_intros\<close> reduce an operation to its steps.
\<close>

definition wp :: "('s, 'a) op \<Rightarrow> ('a \<Rightarrow> 's \<Rightarrow> bool) \<Rightarrow> (err \<Rightarrow> 's \<Rightarrow> bool) \<Rightarrow> 's \<Rightarrow> bool" where
  "wp m Q E s = (case m s of (Inl e, s') \<Rightarrow> E e s' | (Inr x, s') \<Rightarrow> Q x s')"

named_theorems wp_intros "rules for weakest preconditions"

lemma wpI: "(\<And>x s'. m s = (Inr x, s') \<Longrightarrow> Q x s') \<Longrightarrow> (\<And>e s'. m s = (Inl e, s') \<Longrightarrow> E e s') \<Longrightarrow> wp m Q E s"
  by (auto simp: wp_def split: prod.splits sum.splits)

lemma wpD: "wp m Q E s \<Longrightarrow> m s = (Inr x, s') \<Longrightarrow> Q x s'"
  by (simp add: wp_def)

lemma wp_Inl: "wp m Q E s \<Longrightarrow> m s = (Inl e, s') \<Longrightarrow> E e s'"
  by (simp add: wp_def)

lemma wp_state: "wp m (\<lambda>_. P) (\<lambda>_. P) s \<Longrightarrow> P (snd (m s))"
  by (auto simp: wp_def split: prod.splits sum.splits)

lemma wp_bind [wp_intros]: "wp m (\<lambda>x. wp (f x) Q E) E s \<Longrightarrow> wp (bind_op m f) Q E s"
  by (auto simp: wp_def bind_op_def split: prod.splits sum.splits)

lemma wp_read [wp_intros]:
  "(\<And>x. f s = Inr x \<Longrightarrow> Q x s) \<Longrightarrow> (\<And>e. f s = Inl e \<Longrightarrow> E e s) \<Longrightarrow> wp (read_op f) Q E s"
  by (auto intro: wpI)

lemma wp_lift [wp_intros]:
  "(\<And>x. r = Inr x \<Longrightarrow> Q x s) \<Longrightarrow> (\<And>e. r = Inl e \<Longrightarrow> E e s) \<Longrightarrow> wp (lift_op r) Q E s"
  by (auto intro: wpI)

lemma wp_guard [wp_intros]: "(b \<Longrightarrow> Q () s) \<Longrightarrow> (\<not> b \<Longrightarrow> E e s) \<Longrightarrow> wp (guard_op b e) Q E s"
  by (auto intro!: wpI simp: res_simps)

lemma wp_wrap [wp_intros]: "wp m Q (\<lambda>e. E (w e)) s \<Longrightarrow> wp (wrap_op w m) Q E s"
  by (auto simp: wp_def wrap_op_def split: prod.splits sum.splits)

lemma wp_if [wp_intros]: "(b \<Longrightarrow> wp m Q E s) \<Longrightarrow> (\<not> b \<Longrightarrow> wp n Q E s) \<Longrightarrow> wp (if b then m else n) Q E s"
  by simp

lemma wp_conseq:
  "wp m Q E s \<Longrightarrow> (\<And>x s'. Q x s' \<Longrightarrow> Q' x s') \<Longrightarrow> (\<And>e s'. E e s' \<Longrightarrow> E' e s') \<Longrightarrow> wp m Q' E' s"
  by (auto simp: wp_def split: prod.splits sum.splits)

section \<open>Maps, time\<close>

text \<open>
  A Go \<^verbatim>\<open>map[string]string\<close> is an association list.  Reading an absent key yields the
  empty string, and \<^verbatim>\<open>len\<close> counts the entries.
\<close>

type_synonym labels = "(string \<times> string) list"

definition go_get :: "labels \<Rightarrow> string \<Rightarrow> string" where
  "go_get m k = (case map_of m k of None \<Rightarrow> [] | Some v \<Rightarrow> v)"

text \<open>
  Instants and durations count nanoseconds; the zero \<^verbatim>\<open>time.Time\<close> is instant 0.
  \<^verbatim>\<open>Time.Sub\<close> saturates at the ends of \<^verbatim>\<open>int64\<close>, and \<^verbatim>\<open>int64\<close> arithmetic wraps.
\<close>

type_synonym time = int
type_synonym duration = int

definition zero_time :: time where "zero_time = 0"

definition IsZero :: "time \<Rightarrow> bool" where "IsZero t \<longleftrightarrow> t = zero_time"

definition Second :: duration where "Second = 1000000000"
definition Minute :: duration where "Minute = 60 * Second"

definition min_int64 :: int where "min_int64 = - (2 ^ 63)"
definition max_int64 :: int where "max_int64 = 2 ^ 63 - 1"

definition time_Sub :: "time \<Rightarrow> time \<Rightarrow> duration" where
  "time_Sub t u = max min_int64 (min max_int64 (t - u))"

definition wrap64 :: "int \<Rightarrow> int" where
  "wrap64 i = (i + 2 ^ 63) mod 2 ^ 64 - 2 ^ 63"

lemma wrap64_id: "min_int64 \<le> i \<Longrightarrow> i \<le> max_int64 \<Longrightarrow> wrap64 i = i"
  by (simp add: wrap64_def min_int64_def max_int64_def)

lemma wrap64_range: "min_int64 \<le> wrap64 i \<and> wrap64 i \<le> max_int64"
proof -
  have "0 \<le> (i + 2 ^ 63) mod 2 ^ 64" and "(i + 2 ^ 63) mod 2 ^ 64 < (2::int) ^ 64"
    by simp_all
  then show ?thesis by (simp add: wrap64_def min_int64_def max_int64_def)
qed

lemma time_Sub_small:
  "min_int64 \<le> t - u \<Longrightarrow> t - u \<le> max_int64 \<Longrightarrow> time_Sub t u = t - u"
  by (simp add: time_Sub_def)

lemma time_Sub_mono: "t \<le> t' \<Longrightarrow> time_Sub t u \<le> time_Sub t' u"
  by (simp add: time_Sub_def)

end
