(* ===== verification/Go_Strings.thy ===== *)
theory Go_Strings
  imports Prelude
begin

text \<open>
  The functions of Go's \<^verbatim>\<open>strings\<close>, \<^verbatim>\<open>net\<close>, \<^verbatim>\<open>net/textproto\<close>, \<^verbatim>\<open>unicode/utf8\<close> and
  \<^verbatim>\<open>path/filepath\<close> packages that the routing rules and the repositories call, over byte
  strings.  Case folding (\<^verbatim>\<open>strings.ToLower\<close>, \<^verbatim>\<open>strings.EqualFold\<close>) is the ASCII fragment:
  bytes from 0x80 up are left alone, where Go also folds the letters of other scripts.
\<close>

section \<open>Bytes\<close>

definition byte :: "char \<Rightarrow> nat" where
  "byte c = of_char c"

definition is_upper :: "char \<Rightarrow> bool" where
  "is_upper c \<longleftrightarrow> 65 \<le> byte c \<and> byte c \<le> 90"

definition is_lower :: "char \<Rightarrow> bool" where
  "is_lower c \<longleftrightarrow> 97 \<le> byte c \<and> byte c \<le> 122"

definition is_digit :: "char \<Rightarrow> bool" where
  "is_digit c \<longleftrightarrow> 48 \<le> byte c \<and> byte c \<le> 57"

definition to_lower :: "char \<Rightarrow> char" where
  "to_lower c = (if is_upper c then char_of (byte c + 32) else c)"

definition to_upper :: "char \<Rightarrow> char" where
  "to_upper c = (if is_lower c then char_of (byte c - 32) else c)"

lemma byte_less: "byte c < 256"
  by (simp add: byte_def)

lemma byte_char_of: "n < 256 \<Longrightarrow> byte (char_of n) = n"
  by (simp add: byte_def)

lemma to_lower_idem [simp]: "to_lower (to_lower c) = to_lower c"
  by (auto simp: to_lower_def is_upper_def byte_def)

section \<open>Package strings\<close>

definition HasPrefix :: "string \<Rightarrow> string \<Rightarrow> bool" where
  "HasPrefix s p = prefix p s"

definition HasSuffix :: "string \<Rightarrow> string \<Rightarrow> bool" where
  "HasSuffix s p = suffix p s"

definition TrimPrefix :: "string \<Rightarrow> string \<Rightarrow> string" where
  "TrimPrefix s p = (if prefix p s then drop (length p) s else s)"

definition Contains :: "string \<Rightarrow> string \<Rightarrow> bool" where
  "Contains s t = sublist t s"

definition ToLower :: "string \<Rightarrow> string" where
  "ToLower = map to_lower"

definition EqualFold :: "string \<Rightarrow> string \<Rightarrow> bool" where
  "EqualFold s t \<longleftrightarrow> map to_lower s = map to_lower t"

text \<open>\<^verbatim>\<open>strings.SplitN\<close> for a one-byte separator and a positive count.\<close>

fun SplitN :: "char \<Rightarrow> nat \<Rightarrow> string \<Rightarrow> string list" where
  "SplitN c 0 s = []"
| "SplitN c (Suc 0) s = [s]"
| "SplitN c (Suc (Suc n)) s =
     (if c \<in> set s
      then takeWhile (\<lambda>x. x \<noteq> c) s # SplitN c (Suc n) (tl (dropWhile (\<lambda>x. x \<noteq> c) s))
      else [s])"

lemma SplitN_two:
  "SplitN c 2 s =
     (if c \<in> set s then [takeWhile (\<lambda>x. x \<noteq> c) s, tl (dropWhile (\<lambda>x. x \<noteq> c) s)] else [s])"
  by (simp add: numeral_2_eq_2)

lemma takeWhile_neq_append: "c \<notin> set a \<Longrightarrow> takeWhile (\<lambda>x. x \<noteq> c) (a @ c # b) = a"
  by (induction a) auto

lemma dropWhile_neq_append: "c \<notin> set a \<Longrightarrow> dropWhile (\<lambda>x. x \<noteq> c) (a @ c # b) = c # b"
  by (induction a) auto

lemma SplitN_two_append [go_simps]: "c \<notin> set a \<Longrightarrow> SplitN c 2 (a @ c # b) = [a, b]"
  by (simp add: SplitN_two takeWhile_neq_append dropWhile_neq_append)

fun index_byte :: "char \<Rightarrow> string \<Rightarrow> nat option" where
  "index_byte c [] = None"
| "index_byte c (x # xs) = (if x = c then Some 0 else map_option Suc (index_byte c xs))"

definition last_index_byte :: "char \<Rightarrow> string \<Rightarrow> nat option" where
  "last_index_byte c s = map_option (\<lambda>i. length s - 1 - i) (index_byte c (rev s))"

lemma index_byte_None [simp]: "index_byte c s = None \<longleftrightarrow> c \<notin> set s"
  by (induction s) auto

lemma index_byte_append: "c \<notin> set a \<Longrightarrow> index_byte c (a @ c # b) = Some (length a)"
  by (induction a) auto

lemma last_index_byte_None [simp]: "last_index_byte c s = None \<longleftrightarrow> c \<notin> set s"
  by (simp add: last_index_byte_def)

lemma last_index_byte_append:
  "c \<notin> set b \<Longrightarrow> last_index_byte c (a @ c # b) = Some (length a)"
  by (simp add: last_index_byte_def index_byte_append)

section \<open>Package net: SplitHostPort and JoinHostPort\<close>

definition missingPort :: err where
  "missingPort = Errorf ''missing port in address'' []"

definition tooManyColons :: err where
  "tooManyColons = Errorf ''too many colons in address'' []"

definition SplitHostPort :: "string \<Rightarrow> (string \<times> string) result" where
  "SplitHostPort hp =
    (case last_index_byte CHR '':'' hp of
       None \<Rightarrow> Inl missingPort
     | Some i \<Rightarrow>
       bind_res
         (if hd hp = CHR ''['' then
            (case index_byte CHR '']'' hp of
               None \<Rightarrow> Inl (Errorf ''missing ']' in address'' [])
             | Some e \<Rightarrow>
                 if e + 1 = length hp then Inl missingPort
                 else if e + 1 = i then Inr (take (e - 1) (drop 1 hp), 1, e + 1)
                 else if hp ! (e + 1) = CHR '':'' then Inl tooManyColons
                 else Inl missingPort)
          else if CHR '':'' \<in> set (take i hp) then Inl tooManyColons
          else Inr (take i hp, 0, 0))
         (\<lambda>(host, j, k).
            if CHR ''['' \<in> set (drop j hp) then Inl (Errorf ''unexpected '[' in address'' [])
            else if CHR '']'' \<in> set (drop k hp) then Inl (Errorf ''unexpected ']' in address'' [])
            else Inr (host, drop (i + 1) hp)))"

definition JoinHostPort :: "string \<Rightarrow> string \<Rightarrow> string" where
  "JoinHostPort host port =
     (if CHR '':'' \<in> set host then ''['' @ host @ '']:'' @ port else host @ '':'' @ port)"

definition no_brackets :: "string \<Rightarrow> bool" where
  "no_brackets s \<longleftrightarrow> CHR ''['' \<notin> set s \<and> CHR '']'' \<notin> set s"

lemma SplitHostPort_plain [go_simps]:
  assumes "CHR '':'' \<notin> set h" "no_brackets h" "CHR '':'' \<notin> set p" "no_brackets p"
  shows "SplitHostPort (h @ CHR '':'' # p) = Inr (h, p)"
proof -
  have "hd (h @ CHR '':'' # p) \<noteq> CHR ''[''"
    using assms by (cases h) (auto simp: no_brackets_def)
  then show ?thesis
    using assms by (simp add: SplitHostPort_def last_index_byte_append no_brackets_def)
qed

lemma SplitHostPort_no_colon [go_simps]:
  "CHR '':'' \<notin> set h \<Longrightarrow> SplitHostPort h = Inl missingPort"
  by (simp add: SplitHostPort_def iffD2 [OF last_index_byte_None])

lemma SplitHostPort_bracketed [go_simps]:
  assumes "no_brackets h" "CHR '':'' \<notin> set p" "no_brackets p"
  shows "SplitHostPort (CHR ''['' # h @ CHR '']'' # CHR '':'' # p) = Inr (h, p)"
proof -
  let ?hp = "CHR ''['' # h @ CHR '']'' # CHR '':'' # p"
  have "last_index_byte CHR '':'' ?hp = Some (length h + 2)"
    using last_index_byte_append [of "CHR '':''" p "CHR ''['' # h @ [CHR '']'']"] assms by simp
  moreover have "index_byte CHR '']'' ?hp = Some (length h + 1)"
    using index_byte_append [of "CHR '']''" "CHR ''['' # h"] assms
    by (simp add: no_brackets_def)
  ultimately show ?thesis
    using assms by (simp add: SplitHostPort_def no_brackets_def)
qed

lemma SplitHostPort_JoinHostPort:
  assumes "no_brackets h" "CHR '':'' \<notin> set p" "no_brackets p"
  shows "SplitHostPort (JoinHostPort h p) = Inr (h, p)"
  using assms by (simp add: JoinHostPort_def go_simps)

section \<open>Package textproto: header names\<close>

definition valid_header_byte :: "char \<Rightarrow> bool" where
  "valid_header_byte c \<longleftrightarrow>
     is_upper c \<or> is_lower c \<or> is_digit c \<or> c \<in> set ''!#$%&*+-.^_|~'' \<or> byte c = 39 \<or> byte c = 96"

fun canonical_bytes :: "bool \<Rightarrow> string \<Rightarrow> string" where
  "canonical_bytes up [] = []"
| "canonical_bytes up (c # cs) =
     (if up then to_upper c else to_lower c) # canonical_bytes (c = CHR ''-'') cs"

definition CanonicalMIMEHeaderKey :: "string \<Rightarrow> string" where
  "CanonicalMIMEHeaderKey s = (if \<forall>c \<in> set s. valid_header_byte c then canonical_bytes True s else s)"

text \<open>A request header maps canonical names to their values; \<^verbatim>\<open>Get\<close> returns the first or \<^verbatim>\<open>""\<close>.\<close>

type_synonym header = "(string \<times> string list) list"

definition Header_Get :: "header \<Rightarrow> string \<Rightarrow> string" where
  "Header_Get h k =
     (case map_of h (CanonicalMIMEHeaderKey k) of
        None \<Rightarrow> [] | Some [] \<Rightarrow> [] | Some (v # _) \<Rightarrow> v)"

section \<open>Packages fmt and strconv: decimal numbers\<close>

fun dec :: "nat \<Rightarrow> string" where
  "dec n = (if n < 10 then [char_of (48 + n)] else dec (n div 10) @ [char_of (48 + n mod 10)])"

declare dec.simps [simp del]

definition digits_val :: "string \<Rightarrow> nat" where
  "digits_val s = fold (\<lambda>c v. v * 10 + (byte c - 48)) s 0"

text \<open>\<^verbatim>\<open>strconv.ParseUint(s, 10, 16)\<close>.\<close>

definition ParseUint16 :: "string \<Rightarrow> nat result" where
  "ParseUint16 s =
     (if s = [] \<or> \<not> (\<forall>c \<in> set s. is_digit c) then Inl (Errorf ''strconv.ParseUint: invalid syntax'' [FStr s])
      else if 65535 < digits_val s then Inl (Errorf ''strconv.ParseUint: value out of range'' [FStr s])
      else Inr (digits_val s))"

lemma dec_digits: "c \<in> set (dec n) \<Longrightarrow> is_digit c"
proof (induction n rule: dec.induct)
  case (1 n)
  then show ?case
    by (subst (asm) (2) dec.simps) (auto simp: is_digit_def byte_def split: if_splits)
qed

lemma dec_nonempty: "dec n \<noteq> []"
  by (subst dec.simps) simp

lemma digits_val_dec: "digits_val (dec n) = n"
proof (induction n rule: dec.induct)
  case (1 n)
  then show ?case
    by (subst dec.simps) (auto simp: digits_val_def byte_def)
qed

lemma ParseUint16_dec: "n \<le> 65535 \<Longrightarrow> ParseUint16 (dec n) = Inr n"
  using dec_digits [of _ n] by (auto simp: ParseUint16_def digits_val_dec dec_nonempty)

lemma ParseUint16_range: "ParseUint16 s = Inr n \<Longrightarrow> n < 65536"
  by (auto simp: ParseUint16_def split: if_splits)

lemma dec_no_sep: "CHR '':'' \<notin> set (dec n) \<and> no_brackets (dec n)"
  using dec_digits [of _ n] by (force simp: no_brackets_def is_digit_def byte_def)

end
