(* ===== verification/Domain.thy ===== *)
theory Domain
  imports Go_Strings
begin

text \<open>
  The resources of \<^verbatim>\<open>internal/application/core/domain\<close> (the router has a theory of its own):
  their structs as records with the source's fields, the validity of their enumerations, and
  their \<^verbatim>\<open>Validate\<close> methods, one branch per early return.  The lemmas characterise each
  validation by the resources it accepts.
\<close>

section \<open>Timestamps and protocols\<close>

record timestamps =
  CreatedAt :: time
  UpdatedAt :: time

definition zero_timestamps :: timestamps where
  "zero_timestamps = \<lparr>CreatedAt = zero_time, UpdatedAt = zero_time\<rparr>"

type_synonym protocol = string

definition ProtocolHTTP :: protocol where "ProtocolHTTP = ''http''"
definition ProtocolHTTPS :: protocol where "ProtocolHTTPS = ''https''"
definition ProtocolSOCKS5 :: protocol where "ProtocolSOCKS5 = ''socks5''"
definition DefaultProtocol :: protocol where "DefaultProtocol = ProtocolHTTP"

definition Protocol_IsValid :: "protocol \<Rightarrow> bool" where
  "Protocol_IsValid p \<longleftrightarrow> p = ProtocolHTTP \<or> p = ProtocolHTTPS \<or> p = ProtocolSOCKS5"

lemmas protocol_defs = ProtocolHTTP_def ProtocolHTTPS_def ProtocolSOCKS5_def DefaultProtocol_def

section \<open>Entrypoints\<close>

record entrypoint =
  ep_ts :: timestamps
  ep_Id :: string
  ep_Title :: string
  ep_Protocol :: protocol
  ep_Host :: string
  ep_Port :: "16 word"
  ep_FlowId :: string

definition ListenAddr :: "entrypoint \<Rightarrow> string" where
  "ListenAddr e = ep_Host e @ '':'' @ dec (unat (ep_Port e))"

definition Entrypoint_Validate :: "entrypoint \<Rightarrow> unit result" where
  "Entrypoint_Validate e =
     (if \<not> Protocol_IsValid (ep_Protocol e) then Inl (Errorf ''invalid protocol: %q'' [FStr (ep_Protocol e)])
      else if ep_Host e = [] then Inl (Errorf ''host is required'' [])
      else if ep_Port e = 0 then Inl (Errorf ''port is required'' [])
      else Inr ())"

lemma Entrypoint_Validate_ok [res_simps]:
  "Entrypoint_Validate e = Inr u \<longleftrightarrow>
     Protocol_IsValid (ep_Protocol e) \<and> ep_Host e \<noteq> [] \<and> ep_Port e \<noteq> 0"
  by (simp add: Entrypoint_Validate_def)

section \<open>Proxies\<close>

record basic_auth =
  auth_User :: string
  auth_Pass :: string

record proxy =
  proxy_ts :: timestamps
  proxy_Id :: string
  proxy_Protocol :: protocol
  proxy_Host :: string
  proxy_Port :: "16 word"
  proxy_Auth :: "basic_auth option"
  proxy_Labels :: labels

definition Proxy_Addr :: "proxy \<Rightarrow> string" where
  "Proxy_Addr p = proxy_Host p @ '':'' @ dec (unat (proxy_Port p))"

definition HasAuth :: "proxy \<Rightarrow> bool" where
  "HasAuth p = (case proxy_Auth p of None \<Rightarrow> False | Some a \<Rightarrow> auth_User a \<noteq> [] \<or> auth_Pass a \<noteq> [])"

definition Proxy_Validate :: "proxy \<Rightarrow> unit result" where
  "Proxy_Validate p =
     (if \<not> Protocol_IsValid (proxy_Protocol p) then Inl (Errorf ''invalid protocol: %q'' [FStr (proxy_Protocol p)])
      else if proxy_Host p = [] then Inl (Errorf ''host is required'' [])
      else if proxy_Port p = 0 then Inl (Errorf ''port is required'' [])
      else Inr ())"

lemma Proxy_Validate_ok [res_simps]:
  "Proxy_Validate p = Inr u \<longleftrightarrow>
     Protocol_IsValid (proxy_Protocol p) \<and> proxy_Host p \<noteq> [] \<and> proxy_Port p \<noteq> 0"
  by (simp add: Proxy_Validate_def)

text \<open>
  \<^verbatim>\<open>url.URL\<close> as far as the sources read it: the scheme, the \<^verbatim>\<open>host:port\<close> part and the user
  information with its optional password.  The parser and the printer of \<^verbatim>\<open>net/url\<close> are
  parameters of the functions that call them.
\<close>

record url =
  url_Scheme :: string
  url_Host :: string
  url_User :: "(string \<times> string option) option"

definition Proxy_URL :: "proxy \<Rightarrow> url" where
  "Proxy_URL p =
     \<lparr>url_Scheme = proxy_Protocol p,
      url_Host = Proxy_Addr p,
      url_User = (case proxy_Auth p of
                    Some a \<Rightarrow> if HasAuth p then Some (auth_User a, Some (auth_Pass a)) else None
                  | None \<Rightarrow> None)\<rparr>"

definition bareProxyURL :: "(url \<Rightarrow> string) \<Rightarrow> string \<Rightarrow> string" where
  "bareProxyURL url_String str =
     (case SplitN CHR '':'' 4 str of
        [h, p, u, w] \<Rightarrow>
          if h \<noteq> [] \<and> p \<noteq> [] \<and> u \<noteq> []
          then url_String \<lparr>url_Scheme = DefaultProtocol, url_Host = JoinHostPort h p,
                           url_User = Some (u, Some w)\<rparr>
          else DefaultProtocol @ ''://'' @ str
      | _ \<Rightarrow> DefaultProtocol @ ''://'' @ str)"

definition NewProxyFromURL ::
  "(string \<Rightarrow> url result) \<Rightarrow> (url \<Rightarrow> string) \<Rightarrow> string \<Rightarrow> proxy result" where
  "NewProxyFromURL url_Parse url_String str =
     (let str = (if Contains str ''://'' then str else bareProxyURL url_String str) in
      bind_res (wrap (Wrapf ''url parse: %w'' []) (url_Parse str)) (\<lambda>parsed.
      bind_res (wrap (Wrapf ''parsing host:port: %w'' []) (SplitHostPort (url_Host parsed))) (\<lambda>(host, portStr).
      bind_res (wrap (Wrapf ''port parsing: %w'' []) (ParseUint16 portStr)) (\<lambda>port.
      Inr \<lparr>proxy_ts = zero_timestamps, proxy_Id = [], proxy_Protocol = url_Scheme parsed,
           proxy_Host = host, proxy_Port = of_nat port,
           proxy_Auth = (case url_User parsed of
                           None \<Rightarrow> None
                         | Some (u, w) \<Rightarrow>
                             Some \<lparr>auth_User = u, auth_Pass = (case w of None \<Rightarrow> [] | Some w \<Rightarrow> w)\<rparr>),
           proxy_Labels = []\<rparr>))))"

section \<open>Pools\<close>

type_synonym pool_type = string

definition PoolTypeStatic :: pool_type where "PoolTypeStatic = ''static''"
definition PoolTypeDynamic :: pool_type where "PoolTypeDynamic = ''dynamic''"

lemmas pool_type_defs = PoolTypeStatic_def PoolTypeDynamic_def

definition PoolType_IsValid :: "pool_type \<Rightarrow> bool" where
  "PoolType_IsValid t \<longleftrightarrow> t = PoolTypeStatic \<or> t = PoolTypeDynamic"

record pool_member =
  member_ProxyId :: string
  member_Weight :: int

record pool =
  pool_ts :: timestamps
  pool_Id :: string
  pool_Title :: string
  pool_Type :: pool_type
  pool_Labels :: labels
  pool_Members :: "pool_member list"
  pool_Selector :: "labels option"
  pool_hasProxiesResolved :: bool
  pool_resolvedProxies :: "proxy list"

definition MemberProxyIds :: "pool \<Rightarrow> string list" where
  "MemberProxyIds p = map member_ProxyId (pool_Members p)"

definition LoadResolvedProxies :: "pool \<Rightarrow> proxy list \<Rightarrow> pool" where
  "LoadResolvedProxies p proxies = p\<lparr>pool_hasProxiesResolved := True, pool_resolvedProxies := proxies\<rparr>"

fun check_members :: "string \<Rightarrow> string list \<Rightarrow> nat \<Rightarrow> pool_member list \<Rightarrow> unit result" where
  "check_members pid seen i [] = Inr ()"
| "check_members pid seen i (m # ms) =
     (if member_ProxyId m = [] then
        Inl (Errorf ''static pool %q member[%d]: proxy_id is required'' [FStr pid, FInt (int i)])
      else if member_Weight m < 1 then
        Inl (Errorf ''static pool %q member %q: weight must be >= 1'' [FStr pid, FStr (member_ProxyId m)])
      else if member_ProxyId m \<in> set seen then
        Inl (Errorf ''static pool %q has duplicate proxy_id %q'' [FStr pid, FStr (member_ProxyId m)])
      else check_members pid (member_ProxyId m # seen) (Suc i) ms)"

definition Pool_Validate :: "pool \<Rightarrow> unit result" where
  "Pool_Validate p =
     (if pool_Id p = [] then Inl (Errorf ''pool id is required'' [])
      else if \<not> PoolType_IsValid (pool_Type p) then Inl (Errorf ''invalid pool type: %q'' [FStr (pool_Type p)])
      else if pool_Type p = PoolTypeStatic then
        (if pool_Members p = [] then
           Inl (Errorf ''static pool %q requires at least one member'' [FStr (pool_Id p)])
         else if pool_Selector p \<noteq> None then
           Inl (Errorf ''static pool %q must not have selector'' [FStr (pool_Id p)])
         else check_members (pool_Id p) [] 0 (pool_Members p))
      else
        (if pool_Selector p = None \<or> pool_Selector p = Some [] then
           Inl (Errorf ''dynamic pool %q requires selector with at least one allow label'' [FStr (pool_Id p)])
         else if pool_Members p \<noteq> [] then
           Inl (Errorf ''dynamic pool %q must not have members'' [FStr (pool_Id p)])
         else Inr ()))"

lemma check_members_ok:
  "check_members pid seen i ms = Inr u \<longleftrightarrow>
     (\<forall>m \<in> set ms. member_ProxyId m \<noteq> [] \<and> 1 \<le> member_Weight m) \<and>
     distinct (map member_ProxyId ms) \<and> set seen \<inter> set (map member_ProxyId ms) = {}"
  by (induction ms arbitrary: seen i) auto

text \<open>What a static pool, respectively a dynamic pool, must look like to be accepted.\<close>

definition static_pool_ok :: "pool \<Rightarrow> bool" where
  "static_pool_ok p \<longleftrightarrow> pool_Type p = PoolTypeStatic \<and> pool_Members p \<noteq> [] \<and> pool_Selector p = None \<and>
     distinct (MemberProxyIds p) \<and>
     (\<forall>m \<in> set (pool_Members p). member_ProxyId m \<noteq> [] \<and> 1 \<le> member_Weight m)"

definition dynamic_pool_ok :: "pool \<Rightarrow> bool" where
  "dynamic_pool_ok p \<longleftrightarrow> pool_Type p = PoolTypeDynamic \<and> pool_Members p = [] \<and>
     (\<exists>allow. pool_Selector p = Some allow \<and> allow \<noteq> [])"

lemma Pool_Validate_ok [res_simps]:
  "Pool_Validate p = Inr u \<longleftrightarrow> pool_Id p \<noteq> [] \<and> (static_pool_ok p \<or> dynamic_pool_ok p)"
  by (auto simp: Pool_Validate_def static_pool_ok_def dynamic_pool_ok_def PoolType_IsValid_def
      check_members_ok MemberProxyIds_def pool_type_defs)

section \<open>Balancers, flows\<close>

type_synonym balancer_type = string

definition BalancerTypeRoundRobin :: balancer_type where "BalancerTypeRoundRobin = ''round-robin''"
definition BalancerTypeWeighted :: balancer_type where "BalancerTypeWeighted = ''weighted''"
definition BalancerTypeLeastBytes :: balancer_type where "BalancerTypeLeastBytes = ''least-bytes''"
definition DefaultLeastBytesResetInterval :: duration where "DefaultLeastBytesResetInterval = Minute"

lemmas balancer_type_defs =
  BalancerTypeRoundRobin_def BalancerTypeWeighted_def BalancerTypeLeastBytes_def

definition BalancerType_IsValid :: "balancer_type \<Rightarrow> bool" where
  "BalancerType_IsValid b \<longleftrightarrow>
     b = BalancerTypeRoundRobin \<or> b = BalancerTypeWeighted \<or> b = BalancerTypeLeastBytes"

record load_balancer =
  lb_ts :: timestamps
  lb_Id :: string
  lb_Title :: string
  lb_Type :: balancer_type
  lb_PoolId :: string
  lb_ResetInterval :: duration

record balancer_result =
  result_ProxyId :: string
  result_Bytes :: int

record flow =
  flow_ts :: timestamps
  flow_Id :: string
  flow_RouterId :: string
  flow_BalancerId :: string

section \<open>Users, agents, tokens, principals\<close>

type_synonym role = string

definition RoleAdmin :: role where "RoleAdmin = ''admin''"
definition RoleMember :: role where "RoleMember = ''member''"

lemmas role_defs = RoleAdmin_def RoleMember_def

definition Role_IsValid :: "role \<Rightarrow> bool" where
  "Role_IsValid r \<longleftrightarrow> r = RoleAdmin \<or> r = RoleMember"

record user =
  user_ts :: timestamps
  user_Id :: string
  user_PasswordHash :: string
  user_Role :: role

definition IsAdmin :: "user \<Rightarrow> bool" where
  "IsAdmin u \<longleftrightarrow> user_Role u = RoleAdmin"

definition User_Validate :: "user \<Rightarrow> unit result" where
  "User_Validate u =
     (if user_Id u = [] then Inl (Errorf ''username is required'' [])
      else if \<not> Role_IsValid (user_Role u) then Inl (Errorf ''invalid role: %q'' [FStr (user_Role u)])
      else if user_PasswordHash u = [] then Inl (Errorf ''password hash is required'' [])
      else Inr ())"

lemma User_Validate_ok [res_simps]:
  "User_Validate u = Inr v \<longleftrightarrow>
     user_Id u \<noteq> [] \<and> Role_IsValid (user_Role u) \<and> user_PasswordHash u \<noteq> []"
  by (simp add: User_Validate_def)

datatype agent_status = AgentStatusActive | AgentStatusPassive | AgentStatusDisconnected

record agent =
  agent_ts :: timestamps
  agent_Id :: string
  agent_Hostname :: string
  agent_Version :: string
  agent_Labels :: labels
  agent_LastHeartbeat :: "time option"

definition Agent_Validate :: "agent \<Rightarrow> unit result" where
  "Agent_Validate a =
     (if agent_Id a = [] then Inl (Errorf ''agent ID is required'' [])
      else if \<exists>kv \<in> set (agent_Labels a). fst kv = [] then Inl (Errorf ''label keys must be non-empty'' [])
      else Inr ())"

lemma Agent_Validate_ok [res_simps]:
  "Agent_Validate a = Inr u \<longleftrightarrow> agent_Id a \<noteq> [] \<and> (\<forall>kv \<in> set (agent_Labels a). fst kv \<noteq> [])"
  by (auto simp: Agent_Validate_def)

definition Agent_Status :: "agent \<Rightarrow> time \<Rightarrow> duration \<Rightarrow> agent_status" where
  "Agent_Status a now threshold =
     (case agent_LastHeartbeat a of
        None \<Rightarrow> AgentStatusPassive
      | Some hb \<Rightarrow> if time_Sub now hb > threshold then AgentStatusDisconnected else AgentStatusActive)"

record token =
  token_ts :: timestamps
  token_Hash :: string
  token_UserId :: string
  token_AgentId :: string
  token_ExpiresAt :: "time option"

definition Token_IsExpired :: "token \<Rightarrow> time \<Rightarrow> bool" where
  "Token_IsExpired t now = (case token_ExpiresAt t of None \<Rightarrow> False | Some e \<Rightarrow> e < now)"

definition Token_Validate :: "token \<Rightarrow> unit result" where
  "Token_Validate t =
     (if token_AgentId t \<noteq> [] \<and> token_UserId t \<noteq> [] then
        Inl (Errorf ''userID and agentID both cannot be filled'' [])
      else if token_UserId t = [] \<and> token_AgentId t = [] then
        Inl (Errorf ''either userID or agentID must be filled'' [])
      else Inr ())"

lemma Token_Validate_ok [res_simps]:
  "Token_Validate t = Inr u \<longleftrightarrow> (token_UserId t = []) \<noteq> (token_AgentId t = [])"
  by (auto simp: Token_Validate_def)

record registration_token =
  rtok_ts :: timestamps
  rtok_Hash :: string
  rtok_ExpiresAt :: "time option"

definition RegistrationToken_IsExpired :: "registration_token \<Rightarrow> time \<Rightarrow> bool" where
  "RegistrationToken_IsExpired t now = (case rtok_ExpiresAt t of None \<Rightarrow> False | Some e \<Rightarrow> e < now)"

datatype principal_kind = PrincipalKindUser | PrincipalKindAgent | PrincipalKindUnknown

record principal =
  principal_User :: "user option"
  principal_Agent :: "agent option"

text \<open>A nil \<^verbatim>\<open>*Principal\<close> receiver is \<open>None\<close>.\<close>

definition Principal_Kind :: "principal option \<Rightarrow> principal_kind" where
  "Principal_Kind p =
     (case p of
        None \<Rightarrow> PrincipalKindUnknown
      | Some p \<Rightarrow>
          if principal_User p \<noteq> None then PrincipalKindUser
          else if principal_Agent p \<noteq> None then PrincipalKindAgent
          else PrincipalKindUnknown)"

section \<open>Listing parameters\<close>

definition DefaultMaxPageSize :: int where "DefaultMaxPageSize = 100"

record list_params =
  PageSize :: int
  Cursor :: string

record 'a list_result =
  Items :: "'a list"
  NextCursor :: string
  TotalCount :: int

text \<open>Each listing operation of the services caps the page size before it reaches storage.\<close>

definition cap_page :: "list_params \<Rightarrow> list_params" where
  "cap_page p = (if PageSize p > DefaultMaxPageSize then p\<lparr>PageSize := DefaultMaxPageSize\<rparr> else p)"

definition all_params :: list_params where
  "all_params = \<lparr>PageSize = 0, Cursor = []\<rparr>"

lemma cap_page_all [simp]: "cap_page all_params = all_params"
  by (simp add: cap_page_def all_params_def DefaultMaxPageSize_def)

section \<open>Sample resources\<close>

text \<open>Small well-formed resources at which the witnesses of the theories below evaluate.\<close>

definition sample_proxy :: "string \<Rightarrow> proxy" where
  "sample_proxy i = \<lparr>proxy_ts = zero_timestamps, proxy_Id = i, proxy_Protocol = ProtocolHTTP,
     proxy_Host = ''upstream'', proxy_Port = 3128, proxy_Auth = None, proxy_Labels = [(''zone'', ''eu'')]\<rparr>"

definition sample_pool :: "string \<Rightarrow> (string \<times> int) list \<Rightarrow> pool" where
  "sample_pool i ms = \<lparr>pool_ts = zero_timestamps, pool_Id = i, pool_Title = [], pool_Type = PoolTypeStatic,
     pool_Labels = [], pool_Members = map (\<lambda>(p, w). \<lparr>member_ProxyId = p, member_Weight = w\<rparr>) ms,
     pool_Selector = None, pool_hasProxiesResolved = True,
     pool_resolvedProxies = map (\<lambda>(p, w). sample_proxy p) ms\<rparr>"

definition sample_balancer :: "string \<Rightarrow> balancer_type \<Rightarrow> string \<Rightarrow> load_balancer" where
  "sample_balancer i t p = \<lparr>lb_ts = zero_timestamps, lb_Id = i, lb_Title = [], lb_Type = t, lb_PoolId = p,
     lb_ResetInterval = 0\<rparr>"

lemma sample_simps [simp]:
  "proxy_Id (sample_proxy i) = i"
  "pool_Type (sample_pool i ms) = PoolTypeStatic" "pool_hasProxiesResolved (sample_pool i ms)"
  "pool_Id (sample_pool i ms) = i" "pool_Selector (sample_pool i ms) = None"
  "pool_Members (sample_pool i ms) = map (\<lambda>(p, w). \<lparr>member_ProxyId = p, member_Weight = w\<rparr>) ms"
  "pool_resolvedProxies (sample_pool i ms) = map (\<lambda>(p, w). sample_proxy p) ms"
  "lb_Id (sample_balancer i t p) = i" "lb_Type (sample_balancer i t p) = t" "lb_PoolId (sample_balancer i t p) = p"
  by (simp_all add: sample_proxy_def sample_pool_def sample_balancer_def)

end
