(* ===== verification/Glob.thy ===== *)
theory Glob
  imports Go_Strings
begin

text \<open>
  \<^verbatim>\<open>filepath.Match\<close> of Go's standard library, as \<^verbatim>\<open>RouterCondition.evaluate\<close> uses it for
  \<^verbatim>\<open>host\<close> patterns: the pattern is cut into chunks between stars, each chunk is matched at the
  current position, and a chunk after a star may first skip bytes other than the separator.
  \<open>None\<close> is \<^verbatim>\<open>ErrBadPattern\<close>.  The lemmas show that it always terminates, that a pattern
  without metacharacters matches exactly itself, and that a star followed by such a pattern
  matches exactly the names that end in it.
\<close>

section \<open>Decoding UTF-8\<close>

type_synonym rune = nat

definition RuneError :: rune where "RuneError = 65533"

definition cont :: "nat \<Rightarrow> nat \<Rightarrow> char \<Rightarrow> bool" where
  "cont lo hi c \<longleftrightarrow> lo \<le> byte c \<and> byte c \<le> hi"

text \<open>\<^verbatim>\<open>utf8.DecodeRuneInString\<close>: the rune and its width; invalid encodings have width 1.\<close>

definition DecodeRune :: "string \<Rightarrow> rune \<times> nat" where
  "DecodeRune s =
    (case s of
       [] \<Rightarrow> (RuneError, 0)
     | c0 # cs \<Rightarrow>
       let b0 = byte c0; bad = (RuneError, 1) in
       if b0 < 128 then (b0, 1)
       else if 194 \<le> b0 \<and> b0 \<le> 223 then
         (case cs of
            c1 # _ \<Rightarrow> if cont 128 191 c1 then ((b0 - 192) * 64 + (byte c1 - 128), 2) else bad
          | _ \<Rightarrow> bad)
       else if 224 \<le> b0 \<and> b0 \<le> 239 then
         (case cs of
            c1 # c2 # _ \<Rightarrow>
              if cont (if b0 = 224 then 160 else 128) (if b0 = 237 then 159 else 191) c1
                 \<and> cont 128 191 c2
              then ((b0 - 224) * 4096 + (byte c1 - 128) * 64 + (byte c2 - 128), 3) else bad
          | _ \<Rightarrow> bad)
       else if 240 \<le> b0 \<and> b0 \<le> 244 then
         (case cs of
            c1 # c2 # c3 # _ \<Rightarrow>
              if cont (if b0 = 240 then 144 else 128) (if b0 = 244 then 143 else 191) c1
                 \<and> cont 128 191 c2 \<and> cont 128 191 c3
              then ((b0 - 240) * 262144 + (byte c1 - 128) * 4096 + (byte c2 - 128) * 64
                    + (byte c3 - 128), 4) else bad
          | _ \<Rightarrow> bad)
       else bad)"

lemma DecodeRune_width: "s \<noteq> [] \<Longrightarrow> 0 < snd (DecodeRune s)"
  by (auto simp: DecodeRune_def Let_def split: list.splits)

section \<open>The matcher\<close>

text \<open>\<^verbatim>\<open>getEsc\<close> reads a possibly escaped character of a class; the class cannot end after it.\<close>

definition getEsc :: "string \<Rightarrow> (rune \<times> string) option" where
  "getEsc chunk =
    (case chunk of
       [] \<Rightarrow> None
     | c # cs \<Rightarrow>
       if c = CHR ''-'' \<or> c = CHR '']'' then None
       else
         let chunk' = (if c = CHR 0x5C then cs else chunk) in
         if chunk' = [] then None
         else
           let (r, n) = DecodeRune chunk'; rest = drop n chunk' in
           if (r = RuneError \<and> n = 1) \<or> rest = [] then None else Some (r, rest))"

lemma getEsc_length: "getEsc chunk = Some (r, rest) \<Longrightarrow> length rest < length chunk"
proof -
  assume esc: "getEsc chunk = Some (r, rest)"
  define chunk' where "chunk' = (if hd chunk = CHR 0x5C then tl chunk else chunk)"
  from esc have ne: "chunk' \<noteq> []" and rest: "rest = drop (snd (DecodeRune chunk')) chunk'"
    and le: "length chunk' \<le> length chunk"
    by (auto simp: getEsc_def chunk'_def Let_def split: list.splits if_splits prod.splits)
  from DecodeRune_width [OF ne] ne rest have "length rest < length chunk'" by simp
  with le show ?thesis by simp
qed

function parse_ranges :: "bool \<Rightarrow> bool \<Rightarrow> rune \<Rightarrow> string \<Rightarrow> (bool \<times> string) option" where
  "parse_ranges seen m r chunk =
    (if seen \<and> chunk \<noteq> [] \<and> hd chunk = CHR '']'' then Some (m, tl chunk)
     else
       case getEsc chunk of
         None \<Rightarrow> None
       | Some (lo, chunk1) \<Rightarrow>
           if hd chunk1 = CHR ''-'' then
             (case getEsc (tl chunk1) of
                None \<Rightarrow> None
              | Some (hi, chunk2) \<Rightarrow> parse_ranges True (m \<or> (lo \<le> r \<and> r \<le> hi)) r chunk2)
           else parse_ranges True (m \<or> (lo \<le> r \<and> r \<le> lo)) r chunk1)"
  by pat_completeness auto
termination
  by (relation "measure (\<lambda>(seen, m, r, chunk). length chunk)")
     (auto dest!: getEsc_length)

declare parse_ranges.simps [simp del]

lemma parse_ranges_length: "parse_ranges seen m r chunk = Some (b, rest) \<Longrightarrow> length rest < length chunk"
proof (induction seen m r chunk rule: parse_ranges.induct)
  case (1 seen m r chunk)
  show ?case
  proof (cases "seen \<and> chunk \<noteq> [] \<and> hd chunk = CHR '']''")
    case True
    with "1.prems" show ?thesis by (auto simp: parse_ranges.simps [of True m r chunk])
  next
    case False
    with "1.prems" obtain lo chunk1 where esc: "getEsc chunk = Some (lo, chunk1)"
      by (cases "getEsc chunk") (auto simp: parse_ranges.simps [of seen m r chunk])
    have len1: "length chunk1 < length chunk" by (rule getEsc_length [OF esc])
    show ?thesis
    proof (cases "hd chunk1 = CHR ''-''")
      case True
      with "1.prems" False esc obtain hi chunk2 where esc2: "getEsc (tl chunk1) = Some (hi, chunk2)"
        and rec: "parse_ranges True (m \<or> (lo \<le> r \<and> r \<le> hi)) r chunk2 = Some (b, rest)"
        by (cases "getEsc (tl chunk1)") (auto simp: parse_ranges.simps [of seen m r chunk] split: if_splits)
      have "length rest < length chunk2"
        using "1.IH"(1) [OF False esc refl True esc2 refl rec] .
      with getEsc_length [OF esc2] len1 show ?thesis by simp
    next
      case False': False
      with "1.prems" False esc
      have rec: "parse_ranges True (m \<or> (lo \<le> r \<and> r \<le> lo)) r chunk1 = Some (b, rest)"
        by (simp add: parse_ranges.simps [of seen m r chunk] split: if_splits)
      have "length rest < length chunk1"
        using "1.IH"(2) [OF False esc refl False' rec] .
      with len1 show ?thesis by simp
    qed
  qed
qed

text \<open>
  \<^verbatim>\<open>matchChunk\<close>: \<open>None\<close> is a bad pattern, \<open>Some None\<close> no match, \<open>Some (Some t)\<close> a match
  that leaves \<open>t\<close>.  After a failure the chunk is still parsed, without reading the name.
\<close>

function matchChunk :: "bool \<Rightarrow> string \<Rightarrow> string \<Rightarrow> string option option" where
  "matchChunk failed [] s = Some (if failed then None else Some s)"
| "matchChunk failed (c # cs) s =
    (let failed = (failed \<or> s = []) in
     if c = CHR ''['' then
       let (r, n) = (if failed then (0, 0) else DecodeRune s);
           s = drop n s;
           negated = (cs \<noteq> [] \<and> hd cs = CHR ''^'');
           cs' = (if negated then tl cs else cs)
       in (case parse_ranges False False r cs' of
             None \<Rightarrow> None
           | Some (m, rest) \<Rightarrow> matchChunk (failed \<or> m = negated) rest s)
     else if c = CHR ''?'' then
       (if failed then matchChunk True cs s
        else matchChunk (hd s = CHR ''/'') cs (drop (snd (DecodeRune s)) s))
     else if c = CHR 0x5C then
       (case cs of
          [] \<Rightarrow> None
        | d # ds \<Rightarrow> if failed then matchChunk True ds s
                    else matchChunk (d \<noteq> hd s) ds (tl s))
     else if failed then matchChunk True cs s
     else matchChunk (c \<noteq> hd s) cs (tl s))"
  by pat_completeness auto
termination
  by (relation "measure (\<lambda>(failed, chunk, s). length chunk)")
     (auto dest!: parse_ranges_length split: if_splits)

fun scan_chunk :: "bool \<Rightarrow> string \<Rightarrow> string \<times> string" where
  "scan_chunk inr [] = ([], [])"
| "scan_chunk inr (c # cs) =
    (if c = CHR 0x5C then
       (case cs of
          [] \<Rightarrow> ([c], [])
        | d # ds \<Rightarrow> apfst (\<lambda>a. c # d # a) (scan_chunk inr ds))
     else if c = CHR ''['' then apfst (Cons c) (scan_chunk True cs)
     else if c = CHR '']'' then apfst (Cons c) (scan_chunk False cs)
     else if c = CHR ''*'' \<and> \<not> inr then ([], c # cs)
     else apfst (Cons c) (scan_chunk inr cs))"

text \<open>\<^verbatim>\<open>scanChunk\<close>: whether stars lead the pattern, the chunk up to the next star, the rest.\<close>

definition scanChunk :: "string \<Rightarrow> bool \<times> string \<times> string" where
  "scanChunk p =
     (p \<noteq> [] \<and> hd p = CHR ''*'', scan_chunk False (dropWhile (\<lambda>c. c = CHR ''*'') p))"

lemma scan_chunk_fst_snd: "fst (scan_chunk inr p) @ snd (scan_chunk inr p) = p"
proof (induction inr p rule: scan_chunk.induct)
  case (1 inr)
  then show ?case by simp
next
  case (2 inr c cs)
  then show ?case by (cases cs) simp_all
qed

lemma scan_chunk_append: "scan_chunk inr p = (a, b) \<Longrightarrow> p = a @ b"
  using scan_chunk_fst_snd [of inr p] by simp

lemma scan_chunk_Nil: "fst (scan_chunk False (c # p)) = [] \<Longrightarrow> c = CHR ''*''"
  by (cases p) (simp_all split: if_splits)

lemma scanChunk_shrinks:
  assumes "scanChunk p = (star, chunk, rest)" "p \<noteq> []"
  shows "length rest < length p"
proof -
  let ?q = "dropWhile (\<lambda>c. c = CHR ''*'') p"
  from assms have sc: "scan_chunk False ?q = (chunk, rest)" and st: "star \<longleftrightarrow> hd p = CHR ''*''"
    by (auto simp: scanChunk_def)
  from scan_chunk_append [OF sc] have len: "length ?q = length chunk + length rest" by simp
  show ?thesis
  proof (cases star)
    case True
    with st assms(2) have "length ?q < length p"
      by (cases p) (auto simp: length_dropWhile_le less_Suc_eq_le)
    with len show ?thesis by simp
  next
    case False
    with st assms(2) have q: "?q = p" by (cases p) auto
    have "chunk \<noteq> []"
      using scan_chunk_Nil [of "hd p" "tl p"] sc q False st assms(2) by auto
    with len q show ?thesis by (cases chunk) auto
  qed
qed

text \<open>
  The inner loop after a star: skip \<open>i + 1\<close> bytes, none of them the separator before the
  last one skipped.  \<open>fin\<close> says that the chunk is the last one, which must exhaust the name.
\<close>

fun skip_match :: "string \<Rightarrow> bool \<Rightarrow> string \<Rightarrow> string option option" where
  "skip_match chunk fin [] = Some None"
| "skip_match chunk fin (c # name) =
    (if c = CHR ''/'' then Some None
     else case matchChunk False chunk name of
            None \<Rightarrow> None
          | Some None \<Rightarrow> skip_match chunk fin name
          | Some (Some t) \<Rightarrow>
              if fin \<and> t \<noteq> [] then skip_match chunk fin name else Some (Some t))"

function Match :: "string \<Rightarrow> string \<Rightarrow> bool option" where
  "Match pattern name =
    (if pattern = [] then Some (name = [])
     else
       let (star, chunk, rest) = scanChunk pattern in
       if star \<and> chunk = [] then Some (CHR ''/'' \<notin> set name)
       else
         case matchChunk False chunk name of
           None \<Rightarrow> None
         | Some m \<Rightarrow>
             (case m of
                Some t \<Rightarrow>
                  if t = [] \<or> rest \<noteq> [] then Match rest t
                  else if star then
                    (case skip_match chunk (rest = []) name of
                       None \<Rightarrow> None | Some None \<Rightarrow> Some False | Some (Some t) \<Rightarrow> Match rest t)
                  else Some False
              | None \<Rightarrow>
                  if star then
                    (case skip_match chunk (rest = []) name of
                       None \<Rightarrow> None | Some None \<Rightarrow> Some False | Some (Some t) \<Rightarrow> Match rest t)
                  else Some False))"
  by pat_completeness auto
termination
  by (relation "measure (\<lambda>(pattern, name). length pattern)")
     (auto simp: scanChunk_shrinks [OF sym])

declare Match.simps [simp del]

section \<open>Literal patterns and leading stars\<close>

definition literal :: "string \<Rightarrow> bool" where
  "literal p \<longleftrightarrow> (\<forall>c \<in> set p. c \<noteq> CHR ''*'' \<and> c \<noteq> CHR ''?'' \<and> c \<noteq> CHR ''['' \<and> c \<noteq> CHR '']''
                          \<and> c \<noteq> CHR 0x5C)"

lemma literal_simps [simp]:
  "literal []"
  "literal (c # p) \<longleftrightarrow> c \<noteq> CHR ''*'' \<and> c \<noteq> CHR ''?'' \<and> c \<noteq> CHR ''['' \<and> c \<noteq> CHR '']''
                     \<and> c \<noteq> CHR 0x5C \<and> literal p"
  by (auto simp: literal_def)

lemma matchChunk_failed_literal: "literal p \<Longrightarrow> matchChunk True p s = Some None"
  by (induction p arbitrary: s) (auto simp: Let_def)

lemma matchChunk_literal:
  "literal p \<Longrightarrow> matchChunk False p s = Some (if prefix p s then Some (drop (length p) s) else None)"
proof (induction p arbitrary: s)
  case Nil
  then show ?case by simp
next
  case (Cons c p)
  show ?case
  proof (cases s)
    case Nil
    with Cons.prems show ?thesis by (simp add: Let_def matchChunk_failed_literal)
  next
    case (Cons a s')
    with Cons.prems Cons.IH [of s'] show ?thesis
      by (cases "c = a") (simp_all add: Let_def matchChunk_failed_literal)
  qed
qed

lemma scan_chunk_literal: "literal p \<Longrightarrow> scan_chunk False p = (p, [])"
  by (induction p) auto

lemma scanChunk_literal: "literal p \<Longrightarrow> scanChunk p = (False, p, [])"
  by (cases p) (auto simp: scanChunk_def scan_chunk_literal)

lemma Match_literal: "literal p \<Longrightarrow> Match p s = Some (s = p)"
proof (cases "p = []")
  case True
  then show ?thesis by (simp add: Match.simps)
next
  case False
  assume lit: "literal p"
  show ?thesis
  proof (cases "prefix p s")
    case True
    then obtain t where "s = p @ t" by (auto simp: prefix_def)
    with lit False show ?thesis
      by (simp add: Match.simps [of p] Match.simps [of "[]"] scanChunk_literal matchChunk_literal)
  next
    case False': False
    with lit False show ?thesis
      by (auto simp: Match.simps [of p] scanChunk_literal matchChunk_literal)
  qed
qed

lemma skip_match_literal:
  "literal p \<Longrightarrow>
   skip_match p True s =
     Some (if \<exists>u v. s = u @ v @ p \<and> v \<noteq> [] \<and> u = [] \<and> CHR ''/'' \<notin> set v then Some [] else None)"
proof (induction s)
  case Nil
  then show ?case by simp
next
  case (Cons c s)
  have split: "(\<exists>v. c # s = v @ p \<and> v \<noteq> [] \<and> CHR ''/'' \<notin> set v) \<longleftrightarrow>
      c \<noteq> CHR ''/'' \<and> (s = p \<or> (\<exists>v. s = v @ p \<and> v \<noteq> [] \<and> CHR ''/'' \<notin> set v))"
    by (auto simp: Cons_eq_append_conv)
  have pre: "prefix p s \<and> drop (length p) s = [] \<longleftrightarrow> s = p"
    by (auto simp: prefix_def)
  show ?case
    using Cons.prems Cons.IH split pre
    by (auto simp: matchChunk_literal)
qed

text \<open>A leading star in front of a literal matches exactly the names that end in it.\<close>

lemma Match_star_literal:
  assumes "literal p"
  shows "Match (CHR ''*'' # p) s = Some (\<exists>u. s = u @ p \<and> CHR ''/'' \<notin> set u)"
proof (cases "p = []")
  case True
  then show ?thesis by (simp add: Match.simps [of "[CHR ''*'']"] scanChunk_def)
next
  case False
  have "dropWhile (\<lambda>c. c = CHR ''*'') p = p"
    using False assms by (cases p) auto
  then have sc: "scanChunk (CHR ''*'' # p) = (True, p, [])"
    using assms by (simp add: scanChunk_def scan_chunk_literal)
  have sk: "skip_match p True s =
      Some (if \<exists>v. s = v @ p \<and> v \<noteq> [] \<and> CHR ''/'' \<notin> set v then Some [] else None)"
    using skip_match_literal [OF assms, of s] by simp
  have eq: "(\<exists>u. s = u @ p \<and> CHR ''/'' \<notin> set u) \<longleftrightarrow>
      s = p \<or> (\<exists>v. s = v @ p \<and> v \<noteq> [] \<and> CHR ''/'' \<notin> set v)"
    by auto
  have ne: "s = p \<longleftrightarrow> prefix p s \<and> drop (length p) s = []"
    by (auto simp: prefix_def)
  show ?thesis
    unfolding eq Match.simps [of "CHR ''*'' # p"]
    using False ne by (auto simp: sc matchChunk_literal [OF assms] sk Match.simps [of "[]"])
qed

end
