(* ===== verification/Routing.thy ===== *)
theory Routing
  imports Domain Glob
begin

text \<open>
  \<^verbatim>\<open>domain/router.go\<close>: routing rules, their validation and compilation, and the evaluation of
  a request.  \<^verbatim>\<open>regexp\<close> is a parameter (\<open>regexp_lib\<close>); a compiled expression is identified by
  its source, and a nil \<^verbatim>\<open>re\<close> field is \<open>None\<close>.  \<^verbatim>\<open>Compile\<close> mutates the router in place and
  may stop half way, so it returns the router it leaves behind together with its error.
  The lemmas relate evaluation to a specification that does not mention compiled fields.
\<close>

section \<open>Data\<close>

type_synonym match_type = string

definition MatchTypeHost :: match_type where "MatchTypeHost = ''host''"
definition MatchTypeHostSuffix :: match_type where "MatchTypeHostSuffix = ''host_suffix''"
definition MatchTypePathPrefix :: match_type where "MatchTypePathPrefix = ''path_prefix''"
definition MatchTypePathRegex :: match_type where "MatchTypePathRegex = ''path_regex''"
definition MatchTypeMethod :: match_type where "MatchTypeMethod = ''method''"
definition MatchTypeHeader :: match_type where "MatchTypeHeader = ''header''"
definition MatchTypeCatchAll :: match_type where "MatchTypeCatchAll = ''catch_all''"

lemmas match_type_defs = MatchTypeHost_def MatchTypeHostSuffix_def MatchTypePathPrefix_def
  MatchTypePathRegex_def MatchTypeMethod_def MatchTypeHeader_def MatchTypeCatchAll_def

definition MatchType_IsValid :: "match_type \<Rightarrow> bool" where
  "MatchType_IsValid m \<longleftrightarrow>
     m \<in> {MatchTypeHost, MatchTypeHostSuffix, MatchTypePathPrefix, MatchTypePathRegex,
          MatchTypeMethod, MatchTypeHeader, MatchTypeCatchAll}"

record router_condition =
  cond_Type :: match_type
  cond_Value :: string
  cond_re :: "string option"

record router_match =
  match_Type :: match_type
  match_Value :: string
  match_All :: "router_condition list"
  match_Any :: "router_condition list"
  match_Not :: "router_condition option"
  match_re :: "string option"

record router_rule =
  rule_Id :: string
  rule_Match :: router_match
  rule_Target :: string

record router =
  router_ts :: timestamps
  router_Id :: string
  router_Title :: string
  router_Description :: string
  router_Rules :: "router_rule list"

record request =
  req_Host :: string
  req_Path :: string
  req_Method :: string
  req_Header :: header

text \<open>\<^verbatim>\<open>regexp.Compile\<close> (its error, if any) and \<^verbatim>\<open>Regexp.MatchString\<close> by the expression.\<close>

record regexp_lib =
  re_error :: "string \<Rightarrow> err option"
  re_MatchString :: "string \<Rightarrow> string \<Rightarrow> bool"

section \<open>Compilation\<close>

text \<open>A loop over a slice whose body updates the element in place and may return an error.\<close>

fun update_each :: "('a \<Rightarrow> 'a \<times> unit result) \<Rightarrow> 'a list \<Rightarrow> 'a list \<times> unit result" where
  "update_each f [] = ([], Inr ())"
| "update_each f (x # xs) =
     (case f x of
        (x', Inl e) \<Rightarrow> (x' # xs, Inl e)
      | (x', Inr _) \<Rightarrow> (case update_each f xs of (xs', r) \<Rightarrow> (x' # xs', r)))"

definition Condition_compile :: "regexp_lib \<Rightarrow> router_condition \<Rightarrow> router_condition \<times> unit result" where
  "Condition_compile R c =
     (if cond_Type c \<noteq> MatchTypePathRegex then (c, Inr ())
      else case re_error R (cond_Value c) of
             Some e \<Rightarrow> (c, Inl (Wrapf ''path_regex: %w'' [] e))
           | None \<Rightarrow> (c\<lparr>cond_re := Some (cond_Value c)\<rparr>, Inr ()))"

definition Match_compile :: "regexp_lib \<Rightarrow> router_match \<Rightarrow> router_match \<times> unit result" where
  "Match_compile R m =
     (case (if match_Type m = MatchTypePathRegex
            then case re_error R (match_Value m) of
                   Some e \<Rightarrow> (m, Inl (Wrapf ''path_regex: %w'' [] e))
                 | None \<Rightarrow> (m\<lparr>match_re := Some (match_Value m)\<rparr>, Inr ())
            else (m, Inr ())) of
        (m, Inl e) \<Rightarrow> (m, Inl e)
      | (m, Inr _) \<Rightarrow>
        (case update_each (Condition_compile R) (match_All m) of
           (cs, Inl e) \<Rightarrow> (m\<lparr>match_All := cs\<rparr>, Inl (Wrapf ''all: %w'' [] e))
         | (cs, Inr _) \<Rightarrow>
           let m = m\<lparr>match_All := cs\<rparr> in
           (case update_each (Condition_compile R) (match_Any m) of
              (cs, Inl e) \<Rightarrow> (m\<lparr>match_Any := cs\<rparr>, Inl (Wrapf ''any: %w'' [] e))
            | (cs, Inr _) \<Rightarrow>
              let m = m\<lparr>match_Any := cs\<rparr> in
              (case match_Not m of
                 None \<Rightarrow> (m, Inr ())
               | Some c \<Rightarrow>
                   (case Condition_compile R c of
                      (c', Inl e) \<Rightarrow> (m\<lparr>match_Not := Some c'\<rparr>, Inl (Wrapf ''not: %w'' [] e))
                    | (c', Inr _) \<Rightarrow> (m\<lparr>match_Not := Some c'\<rparr>, Inr ()))))))"

definition rule_compile :: "regexp_lib \<Rightarrow> router_rule \<Rightarrow> router_rule \<times> unit result" where
  "rule_compile R rule =
     (case Match_compile R (rule_Match rule) of
        (m, r) \<Rightarrow> (rule\<lparr>rule_Match := m\<rparr>, wrap (Wrapf ''rule %q: %w'' [FStr (rule_Id rule)]) r))"

definition Router_Compile :: "regexp_lib \<Rightarrow> router \<Rightarrow> router \<times> unit result" where
  "Router_Compile R r =
     (case update_each (rule_compile R) (router_Rules r) of
        (rules, res) \<Rightarrow> (r\<lparr>router_Rules := rules\<rparr>, res))"

section \<open>Validation\<close>

definition check_cond_types :: "string \<Rightarrow> string \<Rightarrow> router_condition list \<Rightarrow> unit result" where
  "check_cond_types msg rid =
     check_all (\<lambda>c. guard_res (MatchType_IsValid (cond_Type c)) (Errorf msg [FStr rid, FStr (cond_Type c)]))"

definition validateRule :: "router_rule \<Rightarrow> unit result" where
  "validateRule r =
     (let m = rule_Match r;
          hasType = (match_Type m \<noteq> [] \<and> MatchType_IsValid (match_Type m)) in
      bind_res (guard_res (hasType \<or> match_All m \<noteq> [] \<or> match_Any m \<noteq> [])
        (Errorf ''rule %q: match must define type, all, or any'' [FStr (rule_Id r)])) (\<lambda>_.
      bind_res (guard_res (\<not> (hasType \<and> match_Type m \<noteq> MatchTypeCatchAll \<and> match_Value m = []))
        (Errorf ''rule %q: match type %q requires a value'' [FStr (rule_Id r), FStr (match_Type m)])) (\<lambda>_.
      bind_res (check_cond_types ''rule %q: invalid condition type %q in all'' (rule_Id r) (match_All m)) (\<lambda>_.
      bind_res (check_cond_types ''rule %q: invalid condition type %q in any'' (rule_Id r) (match_Any m)) (\<lambda>_.
      bind_res (case match_Not m of
                  None \<Rightarrow> Inr ()
                | Some c \<Rightarrow> guard_res (MatchType_IsValid (cond_Type c))
                    (Errorf ''rule %q: invalid condition type %q in not'' [FStr (rule_Id r), FStr (cond_Type c)])) (\<lambda>_.
      guard_res (rule_Target r \<noteq> []) (Errorf ''rule %q: target is required'' [FStr (rule_Id r)])))))))"

definition Router_Validate :: "regexp_lib \<Rightarrow> router \<Rightarrow> router \<times> unit result" where
  "Router_Validate R r =
     (case check_all validateRule (router_Rules r) of
        Inl e \<Rightarrow> (r, Inl e)
      | Inr _ \<Rightarrow> Router_Compile R r)"

section \<open>Evaluation\<close>

definition hostWithoutPort :: "string \<Rightarrow> string" where
  "hostWithoutPort hp = (case SplitHostPort hp of Inl _ \<Rightarrow> hp | Inr (h, _) \<Rightarrow> h)"

definition Condition_evaluate :: "regexp_lib \<Rightarrow> router_condition \<Rightarrow> request \<Rightarrow> bool" where
  "Condition_evaluate R c r =
     (if cond_Type c = MatchTypeCatchAll then True
      else if cond_Type c = MatchTypeHost then
        (case Match (cond_Value c) (hostWithoutPort (req_Host r)) of None \<Rightarrow> False | Some b \<Rightarrow> b)
      else if cond_Type c = MatchTypeHostSuffix then
        (let host = hostWithoutPort (req_Host r);
             suf = (if HasPrefix (cond_Value c) ''.'' then cond_Value c else ''.'' @ cond_Value c)
         in host = TrimPrefix suf ''.'' \<or> HasSuffix host suf)
      else if cond_Type c = MatchTypePathPrefix then HasPrefix (req_Path r) (cond_Value c)
      else if cond_Type c = MatchTypePathRegex then
        (case cond_re c of None \<Rightarrow> False | Some e \<Rightarrow> re_MatchString R e (req_Path r))
      else if cond_Type c = MatchTypeMethod then EqualFold (req_Method r) (cond_Value c)
      else if cond_Type c = MatchTypeHeader then
        (case SplitN CHR '':'' 2 (cond_Value c) of
           [k, v] \<Rightarrow> Header_Get (req_Header r) k = v
         | _ \<Rightarrow> False)
      else False)"

definition Match_Evaluate :: "regexp_lib \<Rightarrow> router_match \<Rightarrow> request \<Rightarrow> bool" where
  "Match_Evaluate R m r =
     (if (case match_Not m of Some c \<Rightarrow> Condition_evaluate R c r | None \<Rightarrow> False) then False
      else if MatchType_IsValid (match_Type m) then
        Condition_evaluate R \<lparr>cond_Type = match_Type m, cond_Value = match_Value m, cond_re = match_re m\<rparr> r
      else if match_All m \<noteq> [] then list_all (\<lambda>c. Condition_evaluate R c r) (match_All m)
      else if match_Any m \<noteq> [] then list_ex (\<lambda>c. Condition_evaluate R c r) (match_Any m)
      else False)"

fun resolve_rules :: "regexp_lib \<Rightarrow> router_rule list \<Rightarrow> request \<Rightarrow> string option" where
  "resolve_rules R [] req = None"
| "resolve_rules R (rule # rules) req =
     (if Match_Evaluate R (rule_Match rule) req then Some (rule_Target rule)
      else resolve_rules R rules req)"

definition Router_Resolve :: "regexp_lib \<Rightarrow> router \<Rightarrow> request \<Rightarrow> string option" where
  "Router_Resolve R r req = resolve_rules R (router_Rules r) req"

section \<open>Specification of matching\<close>

text \<open>
  What a condition means, read off its type and value alone: a regular expression matches by
  its source, and the compiled field plays no part.
\<close>

definition cond_spec :: "regexp_lib \<Rightarrow> match_type \<Rightarrow> string \<Rightarrow> request \<Rightarrow> bool" where
  "cond_spec R t v r =
     Condition_evaluate R \<lparr>cond_Type = t, cond_Value = v, cond_re = Some v\<rparr> r"

definition match_spec :: "regexp_lib \<Rightarrow> router_match \<Rightarrow> request \<Rightarrow> bool" where
  "match_spec R m r \<longleftrightarrow>
     (\<forall>c. match_Not m = Some c \<longrightarrow> \<not> cond_spec R (cond_Type c) (cond_Value c) r) \<and>
     (if MatchType_IsValid (match_Type m) then cond_spec R (match_Type m) (match_Value m) r
      else if match_All m \<noteq> [] then \<forall>c \<in> set (match_All m). cond_spec R (cond_Type c) (cond_Value c) r
      else \<exists>c \<in> set (match_Any m). cond_spec R (cond_Type c) (cond_Value c) r)"

text \<open>Erasing the compiled fields gives the persisted form of a router.\<close>

definition strip_cond :: "router_condition \<Rightarrow> router_condition" where
  "strip_cond c = c\<lparr>cond_re := None\<rparr>"

definition strip_match :: "router_match \<Rightarrow> router_match" where
  "strip_match m = m\<lparr>match_All := map strip_cond (match_All m), match_Any := map strip_cond (match_Any m),
                     match_Not := map_option strip_cond (match_Not m), match_re := None\<rparr>"

definition strip_rule :: "router_rule \<Rightarrow> router_rule" where
  "strip_rule r = r\<lparr>rule_Match := strip_match (rule_Match r)\<rparr>"

definition strip_router :: "router \<Rightarrow> router" where
  "strip_router r = r\<lparr>router_Rules := map strip_rule (router_Rules r)\<rparr>"

definition cond_compiled :: "router_condition \<Rightarrow> bool" where
  "cond_compiled c \<longleftrightarrow> (cond_Type c = MatchTypePathRegex \<longrightarrow> cond_re c = Some (cond_Value c))"

definition match_compiled :: "router_match \<Rightarrow> bool" where
  "match_compiled m \<longleftrightarrow>
     (match_Type m = MatchTypePathRegex \<longrightarrow> match_re m = Some (match_Value m)) \<and>
     (\<forall>c \<in> set (match_All m). cond_compiled c) \<and> (\<forall>c \<in> set (match_Any m). cond_compiled c) \<and>
     (\<forall>c. match_Not m = Some c \<longrightarrow> cond_compiled c)"

section \<open>Lemmas\<close>

lemma update_each_ok:
  "update_each f xs = (ys, Inr u) \<longleftrightarrow> (\<forall>x \<in> set xs. snd (f x) = Inr ()) \<and> ys = map (fst \<circ> f) xs"
proof (induction xs arbitrary: ys)
  case Nil
  then show ?case by auto
next
  case (Cons x xs)
  show ?case
  proof (cases "f x")
    case (Pair x' r)
    with Cons.IH show ?thesis
      by (cases r; cases "update_each f xs") auto
  qed
qed

lemma update_each_snd: "snd (update_each f xs) = Inr () \<longleftrightarrow> (\<forall>x \<in> set xs. snd (f x) = Inr ())"
proof (induction xs)
  case Nil
  then show ?case by simp
next
  case (Cons x xs)
  then show ?case by (cases "f x"; cases "snd (f x)") (auto split: prod.splits)
qed

lemma update_each_map:
  assumes "\<And>x. g (fst (f x)) = g x"
  shows "map g (fst (update_each f xs)) = map g xs"
proof (induction xs)
  case Nil
  then show ?case by simp
next
  case (Cons x xs)
  with assms [of x] show ?case
    by (auto split: prod.splits sum.splits)
qed

lemma Condition_compile_strip: "strip_cond (fst (Condition_compile R c)) = strip_cond c"
  by (simp add: Condition_compile_def strip_cond_def split: option.splits)

lemma Condition_compile_ok:
  "snd (Condition_compile R c) = Inr u \<Longrightarrow> cond_compiled (fst (Condition_compile R c))"
  by (auto simp: Condition_compile_def cond_compiled_def split: option.splits if_splits)

lemma compile_conds_strip:
  "map strip_cond (fst (update_each (Condition_compile R) cs)) = map strip_cond cs"
  by (rule update_each_map) (rule Condition_compile_strip)

lemma Match_compile_strip: "strip_match (fst (Match_compile R m)) = strip_match m"
  using compile_conds_strip [of R "match_All m"] compile_conds_strip [of R "match_Any m"]
    Condition_compile_strip [of R]
  by (auto simp: Match_compile_def strip_match_def Let_def split: option.splits sum.splits prod.splits)
     (metis fst_conv)+

lemma rule_compile_strip: "strip_rule (fst (rule_compile R r)) = strip_rule r"
  using Match_compile_strip [of R "rule_Match r"]
  by (auto simp: rule_compile_def strip_rule_def split: prod.splits)

lemma Router_Compile_strip: "strip_router (fst (Router_Compile R r)) = strip_router r"
  using update_each_map [of strip_rule "rule_compile R" "router_Rules r", OF rule_compile_strip]
  by (auto simp: Router_Compile_def strip_router_def split: prod.splits)

lemma compile_conds_ok:
  "update_each (Condition_compile R) cs = (ds, Inr u) \<Longrightarrow> c \<in> set ds \<Longrightarrow> cond_compiled c"
  by (auto simp: update_each_ok intro: Condition_compile_ok)

lemma Condition_compile_pair:
  "Condition_compile R c = (d, Inr u) \<Longrightarrow> cond_compiled d"
  using Condition_compile_ok [of R c u] by simp

lemma Match_compile_ok:
  assumes "snd (Match_compile R m) = Inr u"
  shows "match_compiled (fst (Match_compile R m))"
  using assms
  by (auto simp: Match_compile_def match_compiled_def Let_def
      split: option.splits sum.splits prod.splits if_splits
      dest: compile_conds_ok Condition_compile_pair)

lemma Router_Compile_ok:
  assumes "Router_Compile R r = (r', Inr u)" "rule \<in> set (router_Rules r')"
  shows "match_compiled (rule_Match rule)"
proof -
  from assms(1) obtain rules where up: "update_each (rule_compile R) (router_Rules r) = (rules, Inr u)"
    and r': "r' = r\<lparr>router_Rules := rules\<rparr>"
    by (auto simp: Router_Compile_def split: prod.splits)
  with assms(2) obtain x where ok: "snd (rule_compile R x) = Inr ()" and rule: "rule = fst (rule_compile R x)"
    by (auto simp: update_each_ok)
  from ok have "snd (Match_compile R (rule_Match x)) = Inr ()"
    by (auto simp: rule_compile_def res_simps split: prod.splits)
  then have "match_compiled (fst (Match_compile R (rule_Match x)))" by (rule Match_compile_ok)
  with rule show ?thesis by (simp add: rule_compile_def split: prod.splits)
qed

lemma Condition_evaluate_spec:
  "cond_compiled c \<Longrightarrow> Condition_evaluate R c r = cond_spec R (cond_Type c) (cond_Value c) r"
  by (simp add: cond_spec_def Condition_evaluate_def cond_compiled_def)

lemma Match_Evaluate_spec:
  assumes "match_compiled m"
  shows "Match_Evaluate R m r = match_spec R m r"
proof -
  let ?c = "\<lparr>cond_Type = match_Type m, cond_Value = match_Value m, cond_re = match_re m\<rparr>"
  from assms have "cond_compiled ?c" by (simp add: match_compiled_def cond_compiled_def)
  from Condition_evaluate_spec [OF this, of R r]
  have "Condition_evaluate R ?c r = cond_spec R (match_Type m) (match_Value m) r" by simp
  then show ?thesis
    using assms
    by (auto simp: Match_Evaluate_def match_spec_def match_compiled_def list_all_iff list_ex_iff
        Condition_evaluate_spec split: option.splits)
qed

lemma match_spec_strip: "strip_match m = strip_match m' \<Longrightarrow> match_spec R m r = match_spec R m' r"
proof -
  have "match_spec R (strip_match m) r = match_spec R m r" for m
    by (auto simp: match_spec_def strip_match_def strip_cond_def split: option.splits)
  then show "strip_match m = strip_match m' \<Longrightarrow> ?thesis" by metis
qed

lemma resolve_rules_find:
  "resolve_rules R rules req = map_option rule_Target (find (\<lambda>q. Match_Evaluate R (rule_Match q) req) rules)"
  by (induction rules) simp_all

lemma resolve_rules_first:
  "resolve_rules R rules req = Some t \<longleftrightarrow>
     (\<exists>i < length rules. rule_Target (rules ! i) = t \<and> Match_Evaluate R (rule_Match (rules ! i)) req \<and>
        (\<forall>j < i. \<not> Match_Evaluate R (rule_Match (rules ! j)) req))"
  by (auto simp: resolve_rules_find find_Some_iff)

lemma resolve_rules_None:
  "resolve_rules R rules req = None \<longleftrightarrow> (\<forall>q \<in> set rules. \<not> Match_Evaluate R (rule_Match q) req)"
  by (induction rules) auto

lemma Router_Resolve_target:
  "Router_Resolve R r req = Some t \<Longrightarrow> \<exists>rule \<in> set (router_Rules r). rule_Target rule = t"
  by (auto simp: Router_Resolve_def resolve_rules_first)

lemma hostWithoutPort_plain:
  "CHR '':'' \<notin> set h \<Longrightarrow> hostWithoutPort h = h"
  by (simp add: hostWithoutPort_def go_simps)

lemma hostWithoutPort_port:
  assumes "CHR '':'' \<notin> set h" "no_brackets h"
  shows "hostWithoutPort (h @ '':'' @ dec p) = h"
  using assms dec_no_sep [of p] by (simp add: hostWithoutPort_def go_simps)

section \<open>What validation accepts\<close>

definition rule_ok :: "router_rule \<Rightarrow> bool" where
  "rule_ok r \<longleftrightarrow>
     (let m = rule_Match r in
      (MatchType_IsValid (match_Type m) \<or> match_All m \<noteq> [] \<or> match_Any m \<noteq> []) \<and>
      (MatchType_IsValid (match_Type m) \<longrightarrow> match_Type m = MatchTypeCatchAll \<or> match_Value m \<noteq> []) \<and>
      (\<forall>c \<in> set (match_All m) \<union> set (match_Any m) \<union> set_option (match_Not m). MatchType_IsValid (cond_Type c)) \<and>
      rule_Target r \<noteq> [])"

definition match_patterns :: "router_match \<Rightarrow> string set" where
  "match_patterns m =
     {v. match_Type m = MatchTypePathRegex \<and> v = match_Value m} \<union>
     {cond_Value c | c. c \<in> set (match_All m) \<union> set (match_Any m) \<union> set_option (match_Not m)
                        \<and> cond_Type c = MatchTypePathRegex}"

lemma MatchType_valid_nonempty: "MatchType_IsValid t \<Longrightarrow> t \<noteq> []"
  by (auto simp: MatchType_IsValid_def match_type_defs)

lemma validateRule_ok [res_simps]: "validateRule r = Inr u \<longleftrightarrow> rule_ok r"
  using MatchType_valid_nonempty [of "match_Type (rule_Match r)"]
  by (auto simp: validateRule_def rule_ok_def check_cond_types_def Let_def res_simps split: option.splits)

lemma Condition_compile_snd:
  "snd (Condition_compile R c) = Inr () \<longleftrightarrow>
     (cond_Type c = MatchTypePathRegex \<longrightarrow> re_error R (cond_Value c) = None)"
  by (auto simp: Condition_compile_def split: option.splits)

lemma compile_conds_snd:
  "snd (update_each (Condition_compile R) cs) = Inr () \<longleftrightarrow>
     (\<forall>c \<in> set cs. cond_Type c = MatchTypePathRegex \<longrightarrow> re_error R (cond_Value c) = None)"
  by (auto simp: update_each_snd Condition_compile_snd)

lemma Match_compile_snd:
  "snd (Match_compile R m) = Inr () \<longleftrightarrow> (\<forall>v \<in> match_patterns m. re_error R v = None)"
proof -
  have un: "(\<forall>v \<in> match_patterns m. re_error R v = None) \<longleftrightarrow>
      (match_Type m = MatchTypePathRegex \<longrightarrow> re_error R (match_Value m) = None) \<and>
      snd (update_each (Condition_compile R) (match_All m)) = Inr () \<and>
      snd (update_each (Condition_compile R) (match_Any m)) = Inr () \<and>
      (\<forall>c. match_Not m = Some c \<longrightarrow> snd (Condition_compile R c) = Inr ())"
    by (auto simp: match_patterns_def compile_conds_snd Condition_compile_snd)
  show ?thesis
    unfolding un by (auto simp: Match_compile_def Let_def split: option.splits sum.splits prod.splits)
qed

lemma Router_Compile_snd:
  "snd (Router_Compile R r) = Inr () \<longleftrightarrow>
     (\<forall>rule \<in> set (router_Rules r). \<forall>v \<in> match_patterns (rule_Match rule). re_error R v = None)"
proof -
  have rule: "snd (rule_compile R x) = Inr () \<longleftrightarrow> (\<forall>v \<in> match_patterns (rule_Match x). re_error R v = None)" for x
    unfolding Match_compile_snd [symmetric] by (auto simp: rule_compile_def res_simps split: prod.splits)
  show ?thesis
    using update_each_snd [of "rule_compile R" "router_Rules r"]
    by (cases "update_each (rule_compile R) (router_Rules r)") (auto simp: Router_Compile_def rule)
qed

lemma strip_router_nth:
  assumes "strip_router r = strip_router r'" "i < length (router_Rules r)"
  shows "i < length (router_Rules r')"
    and "rule_Target (router_Rules r ! i) = rule_Target (router_Rules r' ! i)"
    and "strip_match (rule_Match (router_Rules r ! i)) = strip_match (rule_Match (router_Rules r' ! i))"
proof -
  have maps: "map strip_rule (router_Rules r) = map strip_rule (router_Rules r')"
    using arg_cong [OF assms(1), of router_Rules] by (simp add: strip_router_def)
  then show len: "i < length (router_Rules r')"
    using assms(2) by (metis length_map)
  have "strip_rule (router_Rules r ! i) = strip_rule (router_Rules r' ! i)"
    using arg_cong [OF maps, of "\<lambda>xs. xs ! i"] assms(2) len by simp
  then show "rule_Target (router_Rules r ! i) = rule_Target (router_Rules r' ! i)"
    and "strip_match (rule_Match (router_Rules r ! i)) = strip_match (rule_Match (router_Rules r' ! i))"
    by (auto simp: strip_rule_def dest: arg_cong [where f = rule_Target] arg_cong [where f = rule_Match])
qed

lemma Router_Validate_compiled:
  assumes "Router_Validate R r0 = (r, Inr u)"
  shows "strip_router r = strip_router r0"
    and "\<And>rule. rule \<in> set (router_Rules r) \<Longrightarrow> match_compiled (rule_Match rule)"
proof -
  from assms have comp: "Router_Compile R r0 = (r, Inr u)"
    by (auto simp: Router_Validate_def split: sum.splits)
  then show "strip_router r = strip_router r0" using Router_Compile_strip [of R r0] by simp
  show "\<And>rule. rule \<in> set (router_Rules r) \<Longrightarrow> match_compiled (rule_Match rule)"
    using Router_Compile_ok [OF comp] .
qed

text \<open>A compiled router resolves by its rules as they were written, whatever was erased in storage.\<close>

lemma resolve_compiled:
  assumes strip: "strip_router r = strip_router r0"
    and comp: "\<And>rule. rule \<in> set (router_Rules r) \<Longrightarrow> match_compiled (rule_Match rule)"
  shows "Router_Resolve R r req =
    map_option rule_Target (find (\<lambda>q. match_spec R (rule_Match q) req) (router_Rules r0))"
proof -
  have len: "length (router_Rules r) = length (router_Rules r0)"
    using arg_cong [OF strip, of "\<lambda>r. length (router_Rules r)"] by (simp add: strip_router_def)
  have ev: "i < length (router_Rules r) \<Longrightarrow> Match_Evaluate R (rule_Match (router_Rules r ! i)) req =
      match_spec R (rule_Match (router_Rules r0 ! i)) req" for i
    using Match_Evaluate_spec [OF comp] match_spec_strip [OF strip_router_nth(3) [OF strip]] by simp
  have tgt: "map (\<lambda>q. (Match_Evaluate R (rule_Match q) req, rule_Target q)) (router_Rules r) =
      map (\<lambda>q. (match_spec R (rule_Match q) req, rule_Target q)) (router_Rules r0)"
    by (rule nth_equalityI) (auto simp: len ev [unfolded len] strip_router_nth(2) [OF strip, unfolded len])
  have find_map: "map_option t (find p xs) = map_option snd (find fst (map (\<lambda>q. (p q, t q)) xs))"
    for p :: "router_rule \<Rightarrow> bool" and t :: "router_rule \<Rightarrow> string" and xs
    by (induction xs) auto
  show ?thesis
    unfolding Router_Resolve_def resolve_rules_find
    by (subst find_map) (simp add: tgt find_map)
qed

section \<open>Properties\<close>

text \<open>
  C2.  once \<^verbatim>\<open>Router.Validate\<close> has accepted a router, \<^verbatim>\<open>Resolve\<close> returns the target of the first
  rule whose match, read as it was written (negation, then the shorthand type, then \<^verbatim>\<open>all\<close>, then
  \<^verbatim>\<open>any\<close>, with regular expressions matched by their source), accepts the request; it finds
  nothing exactly when no rule accepts it.
\<close>

theorem router_resolve_first_match:
  assumes "Router_Validate R r0 = (r, Inr ())"
  shows "Router_Resolve R r req =
    map_option rule_Target (find (\<lambda>q. match_spec R (rule_Match q) req) (router_Rules r0))"
  using resolve_compiled [OF Router_Validate_compiled [OF assms]] .

definition ex_regexp :: regexp_lib where
  "ex_regexp = \<lparr>re_error = (\<lambda>e. if e = ''('' then Some (External ''bad regexp'') else None),
                re_MatchString = (\<lambda>e s. sublist e s)\<rparr>"

definition ex_cond :: "string \<Rightarrow> string \<Rightarrow> router_condition" where
  "ex_cond t v = \<lparr>cond_Type = t, cond_Value = v, cond_re = None\<rparr>"

definition ex_router :: router where
  "ex_router = \<lparr>router_ts = zero_timestamps, router_Id = ''r'', router_Title = [], router_Description = [],
     router_Rules =
      [\<lparr>rule_Id = ''a'', rule_Match = \<lparr>match_Type = [], match_Value = [],
           match_All = [ex_cond ''path_regex'' ''api'', ex_cond ''method'' ''get''], match_Any = [],
           match_Not = Some (ex_cond ''host_suffix'' ''internal''), match_re = None\<rparr>, rule_Target = ''b1''\<rparr>,
       \<lparr>rule_Id = ''b'', rule_Match = \<lparr>match_Type = ''catch_all'', match_Value = [], match_All = [],
           match_Any = [], match_Not = None, match_re = None\<rparr>, rule_Target = ''b2''\<rparr>]\<rparr>"

definition ex_request :: request where
  "ex_request = \<lparr>req_Host = ''shop.example.com:8080'', req_Path = ''/v1/api/x'', req_Method = ''GET'', req_Header = []\<rparr>"

lemma ex_router_validates:
  "Router_Validate ex_regexp ex_router = (fst (Router_Validate ex_regexp ex_router), Inr ())"
  by code_simp

theorem router_resolve_first_match_witness:
  "Router_Resolve ex_regexp (fst (Router_Validate ex_regexp ex_router)) ex_request = Some ''b1'' \<and>
   map_option rule_Target
     (find (\<lambda>q. match_spec ex_regexp (rule_Match q) ex_request) (router_Rules ex_router)) = Some ''b1''"
proof -
  have "Router_Resolve ex_regexp (fst (Router_Validate ex_regexp ex_router)) ex_request = Some ''b1''"
    by code_simp
  then show ?thesis
    using router_resolve_first_match [OF ex_router_validates, of ex_request] by simp
qed

text \<open>
  \<^verbatim>\<open>Router.Validate\<close> accepts a router exactly when every rule has a type, \<^verbatim>\<open>all\<close> or \<^verbatim>\<open>any\<close>, a value
  where its type needs one, only known condition types and a target, and every regular
  expression of the router compiles.
\<close>

theorem router_validate_accepts:
  "snd (Router_Validate R r) = Inr () \<longleftrightarrow>
     list_all (\<lambda>rule. rule_ok rule \<and> {v \<in> match_patterns (rule_Match rule). re_error R v \<noteq> None} = {})
       (router_Rules r)"
  using Router_Compile_snd [of R r] check_all_Inr_iff [of validateRule "router_Rules r" "()"]
  by (cases "check_all validateRule (router_Rules r)")
     (auto simp: Router_Validate_def validateRule_ok list_all_iff)

text \<open>
  A \<^verbatim>\<open>host_suffix\<close> condition accepts a host, with or without a port, exactly when it is the
  configured domain or ends in a dot followed by it; a host that merely ends in the same letters
  is refused.
\<close>

theorem host_suffix_matches_domain:
  assumes "CHR '':'' \<notin> set h" "no_brackets h" "\<not> HasPrefix d ''.''"
    and "req_Host r = h \<or> req_Host r = h @ '':'' @ dec p"
  shows "Condition_evaluate R \<lparr>cond_Type = MatchTypeHostSuffix, cond_Value = d, cond_re = re\<rparr> r \<longleftrightarrow>
         h = d \<or> (\<exists>u. h = u @ ''.'' @ d)"
proof -
  have "hostWithoutPort (req_Host r) = h"
    using assms hostWithoutPort_plain hostWithoutPort_port by auto
  then show ?thesis
    using assms(3)
    by (simp add: Condition_evaluate_def match_type_defs HasPrefix_def TrimPrefix_def HasSuffix_def suffix_def)
qed

theorem host_suffix_matches_domain_witness:
  "Condition_evaluate ex_regexp \<lparr>cond_Type = MatchTypeHostSuffix, cond_Value = ''example.com'', cond_re = None\<rparr>
     ex_request \<and> ''shop.example.com'' = ''shop'' @ ''.'' @ ''example.com''"
proof -
  have d: "req_Host ex_request = ''shop.example.com'' @ '':'' @ dec 8080"
    by (simp add: ex_request_def dec.simps char_of_def bit_0)
  have "Condition_evaluate ex_regexp \<lparr>cond_Type = MatchTypeHostSuffix, cond_Value = ''example.com'', cond_re = None\<rparr>
     ex_request \<longleftrightarrow> ''shop.example.com'' = ''example.com'' \<or> (\<exists>u. ''shop.example.com'' = u @ ''.'' @ ''example.com'')"
    by (rule host_suffix_matches_domain [where p = 8080]) (simp_all add: d no_brackets_def HasPrefix_def)
  moreover have "''shop.example.com'' = ''shop'' @ ''.'' @ ''example.com''" by simp
  ultimately show ?thesis by blast
qed

text \<open>
  a \<^verbatim>\<open>host\<close> condition whose pattern is one star and a literal (such as \<^verbatim>\<open>*.example.com\<close>) accepts
  exactly the hosts that end in the literal with no slash before it, and a pattern without
  metacharacters accepts exactly the host it spells.
\<close>

theorem host_glob_matches:
  assumes "CHR '':'' \<notin> set h" "no_brackets h" "literal d"
    and "req_Host r = h \<or> req_Host r = h @ '':'' @ dec p"
  shows "(Condition_evaluate R \<lparr>cond_Type = MatchTypeHost, cond_Value = CHR ''*'' # d, cond_re = re\<rparr> r \<longleftrightarrow>
            (\<exists>u. h = u @ d \<and> CHR ''/'' \<notin> set u)) \<and>
         (Condition_evaluate R \<lparr>cond_Type = MatchTypeHost, cond_Value = d, cond_re = re\<rparr> r \<longleftrightarrow> h = d)"
proof -
  have "hostWithoutPort (req_Host r) = h"
    using assms hostWithoutPort_plain hostWithoutPort_port by auto
  then show ?thesis
    using Match_star_literal [OF assms(3), of h] Match_literal [OF assms(3), of h]
    by (simp add: Condition_evaluate_def match_type_defs)
qed

theorem host_glob_matches_witness:
  "Condition_evaluate ex_regexp \<lparr>cond_Type = MatchTypeHost, cond_Value = ''*.example.com'', cond_re = None\<rparr> ex_request
   \<and> \<not> Condition_evaluate ex_regexp \<lparr>cond_Type = MatchTypeHost, cond_Value = ''.example.com'', cond_re = None\<rparr> ex_request"
proof -
  have d: "req_Host ex_request = ''shop.example.com'' @ '':'' @ dec 8080"
    by (simp add: ex_request_def dec.simps char_of_def bit_0)
  have lit: "literal ''.example.com''" by simp
  have m: "(Condition_evaluate ex_regexp \<lparr>cond_Type = MatchTypeHost, cond_Value = CHR ''*'' # ''.example.com'', cond_re = None\<rparr> ex_request
       \<longleftrightarrow> (\<exists>u. ''shop.example.com'' = u @ ''.example.com'' \<and> CHR ''/'' \<notin> set u)) \<and>
      (Condition_evaluate ex_regexp \<lparr>cond_Type = MatchTypeHost, cond_Value = ''.example.com'', cond_re = None\<rparr> ex_request
       \<longleftrightarrow> ''shop.example.com'' = ''.example.com'')"
    by (rule host_glob_matches [where p = 8080, OF _ _ lit]) (simp_all add: d no_brackets_def)
  have "''shop.example.com'' = ''shop'' @ ''.example.com'' \<and> CHR ''/'' \<notin> set ''shop''" by simp
  with m show ?thesis by fastforce
qed

end
