(* ===== verification/Schema.thy ===== *)
theory Schema
  imports Routing "HOL-Library.Multiset"
begin

text \<open>
  \<^verbatim>\<open>internal/schema\<close>: the declarative specifications that \<^verbatim>\<open>Apply\<close> accepts, their validation,
  their conversion to domain resources (\<^verbatim>\<open>controlplane/api\<close>'s \<^verbatim>\<open>...FromSpecV1\<close> functions) and
  the order in which the documents of one file are applied.  \<^verbatim>\<open>time.ParseDuration\<close> is a
  parameter of the functions that call it.
\<close>

section \<open>Metadata and raw resources\<close>

record metadata =
  meta_Name :: string
  meta_Labels :: labels

record raw_resource =
  raw_Kind :: string
  raw_Version :: string
  raw_Metadata :: metadata
  raw_SpecRaw :: string

definition Key :: "raw_resource \<Rightarrow> string" where
  "Key r = raw_Kind r @ ''/'' @ raw_Version r"

definition applyKindRank :: "(string \<times> nat) list" where
  "applyKindRank = [(''Proxy'', 0), (''Pool'', 1), (''LoadBalancer'', 2), (''Router'', 3), (''Flow'', 4),
                    (''Entrypoint'', 5)]"

definition rank_of :: "raw_resource \<Rightarrow> nat" where
  "rank_of r = (case map_of applyKindRank (raw_Kind r) of Some k \<Rightarrow> k | None \<Rightarrow> length applyKindRank)"

text \<open>\<^verbatim>\<open>slices.SortStableFunc\<close> by rank is the library's stable \<open>sort_key\<close>.\<close>

definition SortByApplyOrder :: "raw_resource list \<Rightarrow> raw_resource list" where
  "SortByApplyOrder rs = (if length rs < 2 then rs else sort_key rank_of rs)"

section \<open>Proxy specifications\<close>

record proxy_spec =
  pxs_URL :: string
  pxs_Protocol :: string
  pxs_Host :: string
  pxs_Port :: "16 word"
  pxs_Auth :: "basic_auth option"

definition ProxySpecV1_Validate :: "proxy_spec \<Rightarrow> unit result" where
  "ProxySpecV1_Validate s =
     (if pxs_URL s \<noteq> [] then Inr ()
      else if pxs_Protocol s = [] then Inl (Errorf ''spec.protocol is required when url is not provided'' [])
      else if pxs_Host s = [] then Inl (Errorf ''spec.host is required when url is not provided'' [])
      else if pxs_Port s = 0 then Inl (Errorf ''spec.port is required when url is not provided'' [])
      else Inr ())"

definition authFromSpec :: "basic_auth option \<Rightarrow> basic_auth option" where
  "authFromSpec a = (case a of None \<Rightarrow> None | Some s \<Rightarrow> Some \<lparr>auth_User = auth_User s, auth_Pass = auth_Pass s\<rparr>)"

definition proxyFromSpecV1 ::
  "(string \<Rightarrow> proxy result) \<Rightarrow> metadata \<Rightarrow> proxy_spec \<Rightarrow> proxy result" where
  "proxyFromSpecV1 fromURL meta spec =
     (if pxs_URL spec \<noteq> [] then
        bind_res (wrap (Wrapf ''parsing URL: %q %w'' [FStr (pxs_URL spec)]) (fromURL (pxs_URL spec))) (\<lambda>proxy.
          Inr (proxy\<lparr>proxy_Id := meta_Name meta, proxy_Labels := meta_Labels meta\<rparr>))
      else
        Inr \<lparr>proxy_ts = zero_timestamps, proxy_Id = meta_Name meta, proxy_Protocol = pxs_Protocol spec,
             proxy_Host = pxs_Host spec, proxy_Port = pxs_Port spec, proxy_Auth = authFromSpec (pxs_Auth spec),
             proxy_Labels = meta_Labels meta\<rparr>)"

section \<open>Pool specifications\<close>

record pool_member_spec =
  pms_ProxyId :: string
  pms_Weight :: "int option"

record pool_spec =
  pls_Title :: string
  pls_Type :: string
  pls_Members :: "pool_member_spec list"
  pls_Selector :: "labels option"

definition ResolvedWeight :: "pool_member_spec \<Rightarrow> int" where
  "ResolvedWeight m = (case pms_Weight m of None \<Rightarrow> 1 | Some w \<Rightarrow> w)"

fun check_member_specs :: "string list \<Rightarrow> nat \<Rightarrow> pool_member_spec list \<Rightarrow> unit result" where
  "check_member_specs seen i [] = Inr ()"
| "check_member_specs seen i (m # ms) =
     (if pms_ProxyId m = [] then Inl (Errorf ''spec.members[%d].proxy_id is required'' [FInt (int i)])
      else if (case pms_Weight m of None \<Rightarrow> False | Some w \<Rightarrow> w < 1) then
        Inl (Errorf ''spec.members[%d].weight must be >= 1'' [FInt (int i)])
      else if pms_ProxyId m \<in> set seen then
        Inl (Errorf ''spec.members has duplicate proxy_id %q'' [FStr (pms_ProxyId m)])
      else check_member_specs (pms_ProxyId m # seen) (Suc i) ms)"

definition PoolSpecV1_Validate :: "pool_spec \<Rightarrow> unit result" where
  "PoolSpecV1_Validate s =
     (if pls_Type s = [] then Inl (Errorf ''spec.type is required'' [])
      else if pls_Type s \<noteq> ''static'' \<and> pls_Type s \<noteq> ''dynamic'' then
        Inl (Errorf ''spec.type must be \"static\" or \"dynamic\", got %q'' [FStr (pls_Type s)])
      else if pls_Type s = ''static'' then
        (if pls_Members s = [] then Inl (Errorf ''spec.members is required for static pool'' [])
         else if pls_Selector s \<noteq> None then Inl (Errorf ''spec.selector must not be set for static pool'' [])
         else check_member_specs [] 0 (pls_Members s))
      else
        (if pls_Selector s = None \<or> pls_Selector s = Some [] then
           Inl (Errorf ''spec.selector.allow is required for dynamic pool'' [])
         else if pls_Members s \<noteq> [] then Inl (Errorf ''spec.members must not be set for dynamic pool'' [])
         else Inr ()))"

text \<open>
  For a dynamic pool the code dereferences the selector, which the validation before it has
  shown to be present; \<open>None\<close> is the nil dereference (a panic).
\<close>

definition poolFromSpecV1 :: "metadata \<Rightarrow> pool_spec \<Rightarrow> pool option" where
  "poolFromSpecV1 meta spec =
     (let p = \<lparr>pool_ts = zero_timestamps, pool_Id = meta_Name meta, pool_Title = pls_Title spec,
               pool_Type = pls_Type spec, pool_Labels = meta_Labels meta, pool_Members = [],
               pool_Selector = None, pool_hasProxiesResolved = False, pool_resolvedProxies = []\<rparr> in
      if pls_Type spec = PoolTypeStatic then
        Some (p\<lparr>pool_Members :=
          map (\<lambda>m. \<lparr>member_ProxyId = pms_ProxyId m, member_Weight = ResolvedWeight m\<rparr>) (pls_Members spec)\<rparr>)
      else if pls_Type spec = PoolTypeDynamic then
        (case pls_Selector spec of
           None \<Rightarrow> None
         | Some allow \<Rightarrow> Some (p\<lparr>pool_Selector := Some allow\<rparr>))
      else Some p)"

section \<open>Balancer specifications\<close>

record balancer_spec =
  bls_Title :: string
  bls_Type :: string
  bls_PoolId :: string
  bls_ResetInterval :: string

definition BalancerSpecV1_Validate :: "(string \<Rightarrow> duration result) \<Rightarrow> balancer_spec \<Rightarrow> unit result" where
  "BalancerSpecV1_Validate ParseDuration s =
     (if bls_Type s = [] then Inl (Errorf ''spec.type is required'' [])
      else if bls_Type s \<noteq> ''round-robin'' \<and> bls_Type s \<noteq> ''weighted'' \<and> bls_Type s \<noteq> ''least-bytes'' then
        Inl (Errorf ''spec.type must be one of round-robin, weighted, least-bytes; got %q'' [FStr (bls_Type s)])
      else if bls_PoolId s = [] then Inl (Errorf ''spec.pool_id is required'' [])
      else if bls_ResetInterval s \<noteq> [] then
        (if bls_Type s \<noteq> ''least-bytes'' then
           Inl (Errorf ''spec.reset_interval is only valid for type least-bytes'' [])
         else
           bind_res (wrap (Wrapf ''spec.reset_interval: %w'' []) (ParseDuration (bls_ResetInterval s))) (\<lambda>d.
             if d \<le> 0 then Inl (Errorf ''spec.reset_interval must be > 0'' []) else Inr ()))
      else Inr ())"

definition ResolvedResetInterval :: "(string \<Rightarrow> duration result) \<Rightarrow> balancer_spec \<Rightarrow> duration" where
  "ResolvedResetInterval ParseDuration s =
     (if bls_ResetInterval s = [] then DefaultLeastBytesResetInterval
      else case ParseDuration (bls_ResetInterval s) of
             Inl _ \<Rightarrow> DefaultLeastBytesResetInterval
           | Inr d \<Rightarrow> if d \<le> 0 then DefaultLeastBytesResetInterval else d)"

section \<open>Router, flow and entrypoint specifications\<close>

record condition_spec =
  cs_Type :: string
  cs_Value :: string

record match_spec_v1 =
  ms_Type :: string
  ms_Value :: string
  ms_All :: "condition_spec list"
  ms_Any :: "condition_spec list"
  ms_Not :: "condition_spec option"

record rule_spec =
  rs_Id :: string
  rs_Match :: match_spec_v1
  rs_Target :: string

record router_spec =
  rts_Title :: string
  rts_Description :: string
  rts_Rules :: "rule_spec list"

definition check_rule_spec :: "nat \<times> rule_spec \<Rightarrow> unit result" where
  "check_rule_spec ir =
     (case ir of (i, rule) \<Rightarrow>
        let m = rs_Match rule in
        if rs_Id rule = [] then Inl (Errorf ''spec.rules[%d].id is required'' [FInt (int i)])
        else if rs_Target rule = [] then Inl (Errorf ''spec.rules[%d].target is required'' [FInt (int i)])
        else if ms_Type m = [] \<and> ms_All m = [] \<and> ms_Any m = [] then
          Inl (Errorf ''spec.rules[%d].match must define type, all, or any'' [FInt (int i)])
        else if ms_Type m \<noteq> [] \<and> ms_Type m \<noteq> ''catch_all'' \<and> ms_Value m = [] then
          Inl (Errorf ''spec.rules[%d].match type %q requires a value'' [FInt (int i), FStr (ms_Type m)])
        else Inr ())"

definition RouterSpecV1_Validate :: "router_spec \<Rightarrow> unit result" where
  "RouterSpecV1_Validate s =
     (if rts_Rules s = [] then Inl (Errorf ''spec.rules is required'' [])
      else check_all check_rule_spec (enumerate 0 (rts_Rules s)))"

definition condFromSpec :: "condition_spec \<Rightarrow> router_condition" where
  "condFromSpec c = \<lparr>cond_Type = cs_Type c, cond_Value = cs_Value c, cond_re = None\<rparr>"

definition matchFromSpec :: "match_spec_v1 \<Rightarrow> router_match" where
  "matchFromSpec m =
     \<lparr>match_Type = ms_Type m, match_Value = ms_Value m, match_All = map condFromSpec (ms_All m),
      match_Any = map condFromSpec (ms_Any m), match_Not = map_option condFromSpec (ms_Not m), match_re = None\<rparr>"

definition routerFromSpecV1 :: "metadata \<Rightarrow> router_spec \<Rightarrow> router" where
  "routerFromSpecV1 meta spec =
     \<lparr>router_ts = zero_timestamps, router_Id = meta_Name meta, router_Title = rts_Title spec,
      router_Description = rts_Description spec,
      router_Rules = map (\<lambda>r. \<lparr>rule_Id = rs_Id r, rule_Match = matchFromSpec (rs_Match r), rule_Target = rs_Target r\<rparr>)
        (rts_Rules spec)\<rparr>"

record flow_spec =
  fls_RouterId :: string
  fls_BalancerId :: string

definition FlowSpecV1_Validate :: "flow_spec \<Rightarrow> unit result" where
  "FlowSpecV1_Validate s =
     (if fls_RouterId s = [] \<and> fls_BalancerId s = [] then
        Inl (Errorf ''spec must define router_id or balancer_id'' [])
      else Inr ())"

record entrypoint_spec =
  eps_Title :: string
  eps_Protocol :: string
  eps_Host :: string
  eps_Port :: "16 word"
  eps_FlowId :: string

definition EntrypointSpecV1_Validate :: "entrypoint_spec \<Rightarrow> unit result" where
  "EntrypointSpecV1_Validate s =
     (if eps_Protocol s = [] then Inl (Errorf ''spec.protocol is required'' [])
      else if eps_Host s = [] then Inl (Errorf ''spec.host is required'' [])
      else if eps_Port s = 0 then Inl (Errorf ''spec.port is required'' [])
      else if eps_FlowId s = [] then Inl (Errorf ''spec.flow_id is required'' [])
      else Inr ())"

section \<open>Lemmas\<close>

lemma check_member_specs_ok:
  "check_member_specs seen i ms = Inr u \<longleftrightarrow>
     (\<forall>m \<in> set ms. pms_ProxyId m \<noteq> [] \<and> 1 \<le> ResolvedWeight m) \<and>
     distinct (map pms_ProxyId ms) \<and> set seen \<inter> set (map pms_ProxyId ms) = {}"
  by (induction ms arbitrary: seen i) (auto simp: ResolvedWeight_def split: option.splits)

lemma FlowSpecV1_Validate_ok [res_simps]:
  "FlowSpecV1_Validate s = Inr u \<longleftrightarrow> fls_RouterId s \<noteq> [] \<or> fls_BalancerId s \<noteq> []"
  by (auto simp: FlowSpecV1_Validate_def)

lemma PoolSpecV1_Validate_ok:
  assumes "PoolSpecV1_Validate spec = Inr u"
  shows "\<exists>p. poolFromSpecV1 meta spec = Some p \<and> pool_Id p = meta_Name meta \<and>
             (static_pool_ok p \<or> dynamic_pool_ok p) \<and> \<not> pool_hasProxiesResolved p \<and> pool_resolvedProxies p = []"
  using assms
  by (auto simp: PoolSpecV1_Validate_def poolFromSpecV1_def static_pool_ok_def dynamic_pool_ok_def
      check_member_specs_ok MemberProxyIds_def pool_type_defs comp_def split: if_splits)

lemma strip_condFromSpec [simp]: "strip_cond (condFromSpec c) = condFromSpec c"
  by (simp add: strip_cond_def condFromSpec_def)

lemma routerFromSpecV1_strip: "strip_router (routerFromSpecV1 meta spec) = routerFromSpecV1 meta spec"
  by (simp add: strip_router_def routerFromSpecV1_def strip_rule_def strip_match_def matchFromSpec_def
      option.map_comp comp_def)

section \<open>Properties\<close>

text \<open>
  \<^verbatim>\<open>SortByApplyOrder\<close> returns the same documents, ordered so that no document comes before
  one whose kind it may reference (proxy, pool, balancer, router, flow, entrypoint, then unknown
  kinds), and documents of the same kind keep their order.
\<close>

theorem apply_order_sorted_stable:
  "mset (SortByApplyOrder rs) = mset rs \<and> sorted (map rank_of (SortByApplyOrder rs)) \<and>
   filter (\<lambda>r. raw_Kind r = k) (SortByApplyOrder rs) = filter (\<lambda>r. raw_Kind r = k) rs"
proof (cases "length rs < 2")
  case True
  then have "sorted (map rank_of rs)" by (cases rs) (auto simp: less_Suc_eq_le)
  with True show ?thesis by (simp add: SortByApplyOrder_def)
next
  case False
  let ?k = "case map_of applyKindRank k of Some j \<Rightarrow> j | None \<Rightarrow> length applyKindRank"
  have "filter (\<lambda>r. raw_Kind r = k) xs = filter (\<lambda>r. raw_Kind r = k) (filter (\<lambda>r. rank_of r = ?k) xs)" for xs
    by (auto simp: rank_of_def intro: filter_cong)
  then have "filter (\<lambda>r. raw_Kind r = k) (sort_key rank_of rs) = filter (\<lambda>r. raw_Kind r = k) rs"
    by (metis sort_key_stable)
  with False show ?thesis by (simp add: SortByApplyOrder_def)
qed

text \<open>
  a pool specification that passes \<^verbatim>\<open>PoolSpecV1.Validate\<close> converts to a domain pool without
  dereferencing a missing selector, and under a non-empty name that pool passes \<^verbatim>\<open>Pool.Validate\<close>,
  with every weight at least 1 and the declared members in their order.
\<close>

theorem pool_spec_converts_to_valid_pool:
  assumes "PoolSpecV1_Validate spec = Inr ()" "meta_Name meta \<noteq> []"
  shows "\<exists>p. poolFromSpecV1 meta spec = Some p \<and> Pool_Validate p = Inr () \<and>
             MemberProxyIds p = (if pls_Type spec = ''static'' then map pms_ProxyId (pls_Members spec) else [])"
proof -
  obtain p where p: "poolFromSpecV1 meta spec = Some p" "pool_Id p = meta_Name meta"
    "static_pool_ok p \<or> dynamic_pool_ok p"
    using PoolSpecV1_Validate_ok [OF assms(1), of meta] by blast
  moreover from p assms have "Pool_Validate p = Inr ()" by (simp add: res_simps)
  moreover from p(1) have "MemberProxyIds p = (if pls_Type spec = ''static'' then map pms_ProxyId (pls_Members spec) else [])"
    by (auto simp: poolFromSpecV1_def MemberProxyIds_def pool_type_defs comp_def Let_def split: if_splits option.splits)
  ultimately show ?thesis by blast
qed

definition ex_pool_spec :: pool_spec where
  "ex_pool_spec = \<lparr>pls_Title = [], pls_Type = ''static'',
     pls_Members = [\<lparr>pms_ProxyId = ''p1'', pms_Weight = Some 3\<rparr>, \<lparr>pms_ProxyId = ''p2'', pms_Weight = None\<rparr>],
     pls_Selector = None\<rparr>"

theorem pool_spec_converts_to_valid_pool_witness:
  "\<exists>p. poolFromSpecV1 \<lparr>meta_Name = ''pool'', meta_Labels = []\<rparr> ex_pool_spec = Some p \<and> Pool_Validate p = Inr () \<and>
       MemberProxyIds p = [''p1'', ''p2'']"
proof -
  have v: "PoolSpecV1_Validate ex_pool_spec = Inr ()"
    by (simp add: PoolSpecV1_Validate_def ex_pool_spec_def)
  show ?thesis
    using pool_spec_converts_to_valid_pool [OF v, of "\<lparr>meta_Name = ''pool'', meta_Labels = []\<rparr>"]
    by (simp add: ex_pool_spec_def)
qed

end
