(* ===== verification/Ports.thy ===== *)
theory Ports
  imports Schema
begin

text \<open>
  \<^verbatim>\<open>internal/ports\<close> and the filters of \<^verbatim>\<open>domain/filters.go\<close>: the interfaces between the services
  and what they run on.  A Go interface value is a record of its methods; the contracts of the
  repositories are locales over those records, stated against an abstract store of one finite map
  per resource kind.  Every law allows a call to fail: a failed call changes nothing.
\<close>

section \<open>Filters\<close>

record proxy_filter =
  pf_Search :: string
  pf_Protocol :: string
  pf_Labels :: labels

record pool_filter =
  plf_Search :: string
  plf_Type :: string
  plf_ProxyId :: string

record balancer_filter =
  bf_Search :: string
  bf_Type :: string
  bf_PoolId :: string

record router_filter =
  rf_Search :: string
  rf_TargetBalancerId :: string
  rf_HasCatchAll :: "bool option"

record entrypoint_filter =
  ef_Search :: string
  ef_Protocol :: string
  ef_Host :: string
  ef_FlowId :: string

record flow_filter =
  ff_Search :: string
  ff_RouterId :: string
  ff_BalancerId :: string
  ff_Mode :: string

record user_filter =
  uf_Search :: string
  uf_Role :: string

record agent_filter =
  af_Search :: string
  af_Labels :: labels

text \<open>A missing predicate accepts everything.\<close>

definition accepts :: "('a \<Rightarrow> bool) option \<Rightarrow> 'a \<Rightarrow> bool" where
  "accepts p x = (case p of None \<Rightarrow> True | Some f \<Rightarrow> f x)"

section \<open>Change events\<close>

type_synonym resource_type = string
type_synonym change_kind = string

definition ResourceTypeEntrypoint :: resource_type where "ResourceTypeEntrypoint = ''entrypoint''"
definition ResourceTypeFlow :: resource_type where "ResourceTypeFlow = ''flow''"
definition ResourceTypeRouter :: resource_type where "ResourceTypeRouter = ''router''"
definition ResourceTypeProxy :: resource_type where "ResourceTypeProxy = ''proxy''"
definition ResourceTypePool :: resource_type where "ResourceTypePool = ''pool''"
definition ResourceTypeBalancer :: resource_type where "ResourceTypeBalancer = ''balancer''"

definition ResourceType_IsValid :: "resource_type \<Rightarrow> bool" where
  "ResourceType_IsValid t \<longleftrightarrow>
     t = ResourceTypeEntrypoint \<or> t = ResourceTypeFlow \<or> t = ResourceTypeRouter \<or>
     t = ResourceTypeProxy \<or> t = ResourceTypePool \<or> t = ResourceTypeBalancer"

definition ChangeKindSaved :: change_kind where "ChangeKindSaved = ''saved''"
definition ChangeKindDeleted :: change_kind where "ChangeKindDeleted = ''deleted''"

definition ChangeKind_IsValid :: "change_kind \<Rightarrow> bool" where
  "ChangeKind_IsValid k \<longleftrightarrow> k = ChangeKindSaved \<or> k = ChangeKindDeleted"

lemmas resource_type_defs = ResourceTypeEntrypoint_def ResourceTypeFlow_def ResourceTypeRouter_def
  ResourceTypeProxy_def ResourceTypePool_def ResourceTypeBalancer_def
lemmas change_kind_defs = ChangeKindSaved_def ChangeKindDeleted_def

record change_event =
  event_ID :: string
  event_ResourceType :: resource_type
  event_ChangeKind :: change_kind

definition ChangeEvent_Validate :: "change_event \<Rightarrow> unit result" where
  "ChangeEvent_Validate e =
     (if event_ID e = [] then Inl (Wrapf ''id is empty: %w'' [] (Sentinel ErrChangeEventInvalid))
      else if \<not> ResourceType_IsValid (event_ResourceType e) then
        Inl (Wrapf ''resource type %q is invalid: %w'' [FStr (event_ResourceType e)] (Sentinel ErrChangeEventInvalid))
      else if \<not> ChangeKind_IsValid (event_ChangeKind e) then
        Inl (Wrapf ''change kind %q is invalid: %w'' [FStr (event_ChangeKind e)] (Sentinel ErrChangeEventInvalid))
      else Inr ())"

lemma ChangeEvent_Validate_ok [res_simps]:
  "ChangeEvent_Validate e = Inr u \<longleftrightarrow>
     event_ID e \<noteq> [] \<and> ResourceType_IsValid (event_ResourceType e) \<and> ChangeKind_IsValid (event_ChangeKind e)"
  by (simp add: ChangeEvent_Validate_def)

section \<open>Repository ports\<close>

record ('r, 'f, 'db) repository =
  port_List :: "list_params \<Rightarrow> 'f \<Rightarrow> 'db \<Rightarrow> 'r list_result result"
  port_Find :: "string \<Rightarrow> 'db \<Rightarrow> 'r result"
  port_Save :: "'r \<Rightarrow> ('db, unit) op"
  port_Delete :: "string \<Rightarrow> ('db, unit) op"

text \<open>
  The contract of one repository against a store \<open>'st\<close>, of which \<open>sel\<close> and \<open>upd\<close> are the kind's
  component: \<open>key\<close> is the resource's identifier, \<open>persist\<close> what storage keeps of it, \<open>filt\<close> the
  predicate of a filter.
\<close>

locale repo_contract =
  fixes R :: "('r, 'f, 'db, 'm) repository_scheme"
    and abs :: "'db \<Rightarrow> 'st"
    and sel :: "'st \<Rightarrow> string \<rightharpoonup> 'r"
    and upd :: "((string \<rightharpoonup> 'r) \<Rightarrow> (string \<rightharpoonup> 'r)) \<Rightarrow> 'st \<Rightarrow> 'st"
    and key :: "'r \<Rightarrow> string"
    and persist :: "'r \<Rightarrow> 'r"
    and filt :: "'f \<Rightarrow> ('r \<Rightarrow> bool) option"
  assumes find_ok: "port_Find R i db = Inr r \<Longrightarrow> sel (abs db) i = Some r"
    and find_missing: "port_Find R i db = Inl e \<Longrightarrow> errors_Is e ErrNotFound \<Longrightarrow> sel (abs db) i = None"
    and save_ok: "port_Save R r db = (Inr u, db') \<Longrightarrow> abs db' = upd (\<lambda>m. m(key r \<mapsto> persist r)) (abs db)"
    and save_fail: "port_Save R r db = (Inl e, db') \<Longrightarrow> abs db' = abs db"
    and delete_ok: "port_Delete R i db = (Inr u, db') \<Longrightarrow> abs db' = upd (\<lambda>m. m(i := None)) (abs db)"
    and delete_fail: "port_Delete R i db = (Inl e, db') \<Longrightarrow> abs db' = abs db"
    and list_all: "port_List R all_params f db = Inr res \<Longrightarrow>
          set (Items res) = {r \<in> ran (sel (abs db)). accepts (filt f) r}"
    and list_total: "port_List R all_params f db = Inr res \<Longrightarrow>
          TotalCount res = int (card {i. \<exists>r. sel (abs db) i = Some r \<and> accepts (filt f) r})"
    and finite_store: "finite (dom (sel (abs db)))"
begin

lemma save_cases:
  "abs (snd (port_Save R r db)) = abs db \<or> abs (snd (port_Save R r db)) = upd (\<lambda>m. m(key r \<mapsto> persist r)) (abs db)"
  using save_ok [of r db] save_fail [of r db] by (cases "port_Save R r db"; cases "fst (port_Save R r db)") auto

lemma delete_cases:
  "abs (snd (port_Delete R i db)) = abs db \<or> abs (snd (port_Delete R i db)) = upd (\<lambda>m. m(i := None)) (abs db)"
  using delete_ok [of i db] delete_fail [of i db] by (cases "port_Delete R i db"; cases "fst (port_Delete R i db)") auto

lemma list_empty:
  assumes "port_List R all_params f db = Inr res" "Items res = []" "sel (abs db) i = Some r"
  shows "\<not> accepts (filt f) r"
  using list_all [OF assms(1)] assms(2,3) by (auto simp: ran_def)

end

section \<open>The abstract store\<close>

record store =
  st_proxies :: "string \<rightharpoonup> proxy"
  st_pools :: "string \<rightharpoonup> pool"
  st_balancers :: "string \<rightharpoonup> load_balancer"
  st_routers :: "string \<rightharpoonup> router"
  st_flows :: "string \<rightharpoonup> flow"
  st_entrypoints :: "string \<rightharpoonup> entrypoint"
  st_users :: "string \<rightharpoonup> user"
  st_agents :: "string \<rightharpoonup> agent"
  st_tokens :: "string \<rightharpoonup> token"
  st_registration_tokens :: "string \<rightharpoonup> registration_token"

text \<open>
  What storage keeps of a resource: everything but the unexported fields, the resolved proxies of
  a pool and the compiled expressions of a router.
\<close>

definition persist_pool :: "pool \<Rightarrow> pool" where
  "persist_pool p = p\<lparr>pool_hasProxiesResolved := False, pool_resolvedProxies := []\<rparr>"

lemma persist_pool_simps [simp]:
  "pool_Id (persist_pool p) = pool_Id p" "pool_Type (persist_pool p) = pool_Type p"
  "pool_Members (persist_pool p) = pool_Members p" "pool_Selector (persist_pool p) = pool_Selector p"
  "pool_ts (persist_pool p) = pool_ts p"
  by (simp_all add: persist_pool_def)

lemma strip_router_simps [simp]:
  "router_Id (strip_router r) = router_Id r" "router_ts (strip_router r) = router_ts r"
  "map rule_Target (router_Rules (strip_router r)) = map rule_Target (router_Rules r)"
  by (simp_all add: strip_router_def strip_rule_def)

section \<open>Ports with more operations\<close>

record 'db user_repository = "(user, user_filter, 'db) repository" +
  user_Count :: "'db \<Rightarrow> int result"
  user_Create :: "user \<Rightarrow> ('db, unit) op"

record 'db agent_repository = "(agent, agent_filter, 'db) repository" +
  agent_Create :: "agent \<Rightarrow> ('db, unit) op"

record 'db proxy_repository = "(proxy, proxy_filter, 'db) repository" +
  proxy_GetByIds :: "string list \<Rightarrow> 'db \<Rightarrow> proxy list result"
  proxy_FindByLabels :: "labels \<Rightarrow> 'db \<Rightarrow> proxy list result"

record 'db token_repository =
  tok_Find :: "string \<Rightarrow> 'db \<Rightarrow> token result"
  tok_Save :: "time \<Rightarrow> token \<Rightarrow> ('db, unit) op"
  tok_Delete :: "string \<Rightarrow> ('db, unit) op"
  tok_DeleteByUserId :: "string \<Rightarrow> ('db, unit) op"
  tok_DeleteByAgentId :: "string \<Rightarrow> ('db, unit) op"

record 'db registration_token_repository =
  rtr_Save :: "time \<Rightarrow> registration_token \<Rightarrow> ('db, unit) op"
  rtr_Consume :: "string \<Rightarrow> ('db, registration_token) op"

text \<open>Creation succeeds only on a free identifier, and reports a taken one.\<close>

locale create_contract = repo_contract R abs sel upd key persist filt
  for R :: "('r, 'f, 'db, 'm) repository_scheme" and abs :: "'db \<Rightarrow> 'st" and sel upd key persist filt +
  fixes create :: "'r \<Rightarrow> ('db, unit) op" and taken :: sentinel
  assumes create_ok: "create r db = (Inr u, db') \<Longrightarrow>
        sel (abs db) (key r) = None \<and> abs db' = upd (\<lambda>m. m(key r \<mapsto> persist r)) (abs db)"
    and create_fail: "create r db = (Inl e, db') \<Longrightarrow> abs db' = abs db"
begin

lemma create_cases:
  "abs (snd (create r db)) = abs db \<or>
   (sel (abs db) (key r) = None \<and> abs (snd (create r db)) = upd (\<lambda>m. m(key r \<mapsto> persist r)) (abs db))"
  using create_ok [of r db] create_fail [of r db] by (cases "create r db"; cases "fst (create r db)") auto

end

definition without :: "(string \<rightharpoonup> 'r) \<Rightarrow> ('r \<Rightarrow> bool) \<Rightarrow> (string \<rightharpoonup> 'r)" where
  "without m P i = (case m i of None \<Rightarrow> None | Some r \<Rightarrow> if P r then None else Some r)"

lemma without_Some [simp]: "without m P i = Some r \<longleftrightarrow> m i = Some r \<and> \<not> P r"
  by (auto simp: without_def split: option.splits)

locale token_contract =
  fixes T :: "'db token_repository" and abs :: "'db \<Rightarrow> store"
  assumes tok_find_ok: "tok_Find T h db = Inr t \<Longrightarrow> st_tokens (abs db) h = Some t"
    and tok_find_missing: "tok_Find T h db = Inl e \<Longrightarrow> errors_Is e ErrNotFound \<Longrightarrow> st_tokens (abs db) h = None"
    and tok_save_ok: "tok_Save T now t db = (Inr u, db') \<Longrightarrow>
          \<exists>w \<in> {None, Some t}. abs db' = st_tokens_update (\<lambda>m. m(token_Hash t := w)) (abs db)"
    and tok_save_live: "tok_Save T now t db = (Inr u, db') \<Longrightarrow>
          (\<And>x. token_ExpiresAt t = Some x \<Longrightarrow> Second \<le> time_Sub x now) \<Longrightarrow>
          abs db' = st_tokens_update (\<lambda>m. m(token_Hash t \<mapsto> t)) (abs db)"
    and tok_save_expired: "tok_Save T now t db = (Inr u, db') \<Longrightarrow> token_ExpiresAt t = Some x \<Longrightarrow> 0 < time_Sub x now"
    and tok_save_fail: "tok_Save T now t db = (Inl e, db') \<Longrightarrow> abs db' = abs db"
    and tok_delete_ok: "tok_Delete T h db = (Inr u, db') \<Longrightarrow> abs db' = st_tokens_update (\<lambda>m. m(h := None)) (abs db)"
    and tok_delete_fail: "tok_Delete T h db = (Inl e, db') \<Longrightarrow> abs db' = abs db"
    and tok_delete_user_ok: "tok_DeleteByUserId T i db = (Inr u, db') \<Longrightarrow>
          abs db' = st_tokens_update (\<lambda>m. without m (\<lambda>t. token_UserId t = i)) (abs db)"
    and tok_delete_user_fail: "tok_DeleteByUserId T i db = (Inl e, db') \<Longrightarrow> abs db' = abs db"
    and tok_delete_agent_ok: "tok_DeleteByAgentId T i db = (Inr u, db') \<Longrightarrow>
          abs db' = st_tokens_update (\<lambda>m. without m (\<lambda>t. token_AgentId t = i)) (abs db)"
    and tok_delete_agent_fail: "tok_DeleteByAgentId T i db = (Inl e, db') \<Longrightarrow> abs db' = abs db"

text \<open>
  \<^verbatim>\<open>Consume\<close> finds and deletes in one step: whoever gets the token has removed it.
\<close>

locale registration_token_contract =
  fixes G :: "'db registration_token_repository" and abs :: "'db \<Rightarrow> store"
  assumes rtr_save_ok: "rtr_Save G now t db = (Inr u, db') \<Longrightarrow>
          \<exists>w \<in> {None, Some t}. abs db' = st_registration_tokens_update (\<lambda>m. m(rtok_Hash t := w)) (abs db)"
    and rtr_save_fail: "rtr_Save G now t db = (Inl e, db') \<Longrightarrow> abs db' = abs db"
    and rtr_consume_ok: "rtr_Consume G h db = (Inr t, db') \<Longrightarrow>
          st_registration_tokens (abs db) h = Some t \<and>
          abs db' = st_registration_tokens_update (\<lambda>m. m(h := None)) (abs db)"
    and rtr_consume_fail: "rtr_Consume G h db = (Inl e, db') \<Longrightarrow> abs db' = abs db"

end
