(* ===== verification/ControlPlane.thy ===== *)
theory ControlPlane
  imports Ports
begin

text \<open>
  \<^verbatim>\<open>application/controlplane/api\<close>: the service that applies, reads, lists and deletes resources.
  The service is a record of its ports; a method is an operation on the storage and the event
  publisher's state.  \<^verbatim>\<open>time.Now()\<close> and \<^verbatim>\<open>ulid.Make()\<close> are arguments, as are the library functions
  the conversions call.
\<close>

section \<open>Service\<close>

record ('db, 'ps) service =
  svc_proxyRepo :: "'db proxy_repository"
  svc_poolRepo :: "(pool, pool_filter, 'db) repository"
  svc_lbRepo :: "(load_balancer, balancer_filter, 'db) repository"
  svc_routerRepo :: "(router, router_filter, 'db) repository"
  svc_flowRepo :: "(flow, flow_filter, 'db) repository"
  svc_epRepo :: "(entrypoint, entrypoint_filter, 'db) repository"
  svc_Publish :: "change_event \<Rightarrow> ('ps, unit) op"

record libs =
  lib_ParseDuration :: "string \<Rightarrow> duration result"
  lib_url_Parse :: "string \<Rightarrow> url result"
  lib_url_String :: "url \<Rightarrow> string"
  lib_regexp :: regexp_lib

type_synonym ('db, 'ps, 'a) svc_op = "('db \<times> 'ps, 'a) op"

definition on_db :: "('db, 'a) op \<Rightarrow> ('db, 'ps, 'a) svc_op" where
  "on_db m s = (case m (fst s) of (r, db) \<Rightarrow> (r, (db, snd s)))"

definition read_db :: "('db \<Rightarrow> 'a result) \<Rightarrow> ('db, 'ps, 'a) svc_op" where
  "read_db f = read_op (\<lambda>s. f (fst s))"

definition fireEvent :: "('db, 'ps) service \<Rightarrow> string \<Rightarrow> resource_type \<Rightarrow> change_kind \<Rightarrow> ('db, 'ps, unit) svc_op" where
  "fireEvent S i t k s =
     (case svc_Publish S \<lparr>event_ID = i, event_ResourceType = t, event_ChangeKind = k\<rparr> (snd s) of
        (r, ps) \<Rightarrow> (r, (fst s, ps)))"

text \<open>The callers discard the error of \<^verbatim>\<open>fireEvent\<close> and go on.\<close>

definition fire_and_return :: "('db, 'ps) service \<Rightarrow> string \<Rightarrow> resource_type \<Rightarrow> change_kind \<Rightarrow> 'a \<Rightarrow> ('db, 'ps, 'a) svc_op" where
  "fire_and_return S i t k x s = (Inr x, snd (fireEvent S i t k s))"

definition with_name :: "string \<Rightarrow> metadata \<Rightarrow> metadata" where
  "with_name ulid meta = (if meta_Name meta = [] then meta\<lparr>meta_Name := ulid\<rparr> else meta)"

section \<open>Timestamps and references\<close>

definition resolveCreatedAt :: "time \<Rightarrow> err option \<Rightarrow> time \<Rightarrow> time result" where
  "resolveCreatedAt existingCreated findErr now =
     (case findErr of
        None \<Rightarrow> Inr existingCreated
      | Some e \<Rightarrow> if errors_Is e ErrNotFound then Inr now else Inl e)"

definition created_at :: "('r \<Rightarrow> timestamps) \<Rightarrow> 'r result \<Rightarrow> time \<Rightarrow> time result" where
  "created_at ts found now =
     (case found of
        Inr existing \<Rightarrow> resolveCreatedAt (CreatedAt (ts existing)) None now
      | Inl e \<Rightarrow> resolveCreatedAt zero_time (Some e) now)"

definition require :: "'r result \<Rightarrow> err \<Rightarrow> unit result" where
  "require found missing = (case found of Inr _ \<Rightarrow> Inr () | Inl _ \<Rightarrow> Inl missing)"

definition requireProxy :: "('db, 'ps) service \<Rightarrow> string \<Rightarrow> string \<Rightarrow> string \<Rightarrow> ('db, 'ps, unit) svc_op" where
  "requireProxy S applyType applyName i =
     read_db (\<lambda>db. require (port_Find (svc_proxyRepo S) i db) (ResourceMissingRefError applyType applyName ResourceTypeProxy i))"

definition requirePool :: "('db, 'ps) service \<Rightarrow> string \<Rightarrow> string \<Rightarrow> string \<Rightarrow> ('db, 'ps, unit) svc_op" where
  "requirePool S applyType applyName i =
     read_db (\<lambda>db. require (port_Find (svc_poolRepo S) i db) (ResourceMissingRefError applyType applyName ResourceTypePool i))"

definition requireBalancer :: "('db, 'ps) service \<Rightarrow> string \<Rightarrow> string \<Rightarrow> string \<Rightarrow> ('db, 'ps, unit) svc_op" where
  "requireBalancer S applyType applyName i =
     read_db (\<lambda>db. require (port_Find (svc_lbRepo S) i db) (ResourceMissingRefError applyType applyName ResourceTypeBalancer i))"

definition requireRouter :: "('db, 'ps) service \<Rightarrow> string \<Rightarrow> string \<Rightarrow> string \<Rightarrow> ('db, 'ps, unit) svc_op" where
  "requireRouter S applyType applyName i =
     read_db (\<lambda>db. require (port_Find (svc_routerRepo S) i db) (ResourceMissingRefError applyType applyName ResourceTypeRouter i))"

definition requireFlow :: "('db, 'ps) service \<Rightarrow> string \<Rightarrow> string \<Rightarrow> string \<Rightarrow> ('db, 'ps, unit) svc_op" where
  "requireFlow S applyType applyName i =
     read_db (\<lambda>db. require (port_Find (svc_flowRepo S) i db) (ResourceMissingRefError applyType applyName ResourceTypeFlow i))"

definition no_pool_filter :: pool_filter where
  "no_pool_filter = \<lparr>plf_Search = [], plf_Type = [], plf_ProxyId = []\<rparr>"

definition no_balancer_filter :: balancer_filter where
  "no_balancer_filter = \<lparr>bf_Search = [], bf_Type = [], bf_PoolId = []\<rparr>"

definition no_router_filter :: router_filter where
  "no_router_filter = \<lparr>rf_Search = [], rf_TargetBalancerId = [], rf_HasCatchAll = None\<rparr>"

definition no_flow_filter :: flow_filter where
  "no_flow_filter = \<lparr>ff_Search = [], ff_RouterId = [], ff_BalancerId = [], ff_Mode = []\<rparr>"

definition no_entrypoint_filter :: entrypoint_filter where
  "no_entrypoint_filter = \<lparr>ef_Search = [], ef_Protocol = [], ef_Host = [], ef_FlowId = []\<rparr>"

definition in_use :: "resource_type \<Rightarrow> string \<Rightarrow> (string \<times> string) list \<Rightarrow> unit result" where
  "in_use t i deps = (if deps = [] then Inr () else Inl (ResourceInUseError t i deps))"

definition rejectIfPoolsReferenceProxy :: "('db, 'ps) service \<Rightarrow> string \<Rightarrow> ('db, 'ps, unit) svc_op" where
  "rejectIfPoolsReferenceProxy S i =
     read_db (\<lambda>db.
       bind_res (wrap (Wrapf ''checking pools for proxy %q: %w'' [FStr i])
                   (port_List (svc_poolRepo S) all_params (no_pool_filter\<lparr>plf_ProxyId := i\<rparr>) db)) (\<lambda>result.
         in_use ResourceTypeProxy i (map (\<lambda>p. (ResourceTypePool, pool_Id p)) (Items result))))"

definition rejectIfBalancersReferencePool :: "('db, 'ps) service \<Rightarrow> string \<Rightarrow> ('db, 'ps, unit) svc_op" where
  "rejectIfBalancersReferencePool S i =
     read_db (\<lambda>db.
       bind_res (wrap (Wrapf ''checking balancers for pool %q: %w'' [FStr i])
                   (port_List (svc_lbRepo S) all_params (no_balancer_filter\<lparr>bf_PoolId := i\<rparr>) db)) (\<lambda>result.
         in_use ResourceTypePool i (map (\<lambda>b. (ResourceTypeBalancer, lb_Id b)) (Items result))))"

definition rejectIfFlowsOrRoutersReferenceBalancer :: "('db, 'ps) service \<Rightarrow> string \<Rightarrow> ('db, 'ps, unit) svc_op" where
  "rejectIfFlowsOrRoutersReferenceBalancer S i =
     read_db (\<lambda>db.
       bind_res (wrap (Wrapf ''checking flows for balancer %q: %w'' [FStr i])
                   (port_List (svc_flowRepo S) all_params (no_flow_filter\<lparr>ff_BalancerId := i\<rparr>) db)) (\<lambda>flows.
       bind_res (wrap (Wrapf ''checking routers for balancer %q: %w'' [FStr i])
                   (port_List (svc_routerRepo S) all_params (no_router_filter\<lparr>rf_TargetBalancerId := i\<rparr>) db)) (\<lambda>routers.
         in_use ResourceTypeBalancer i
           (map (\<lambda>f. (ResourceTypeFlow, flow_Id f)) (Items flows) @
            map (\<lambda>r. (ResourceTypeRouter, router_Id r)) (Items routers)))))"

definition rejectIfFlowsReferenceRouter :: "('db, 'ps) service \<Rightarrow> string \<Rightarrow> ('db, 'ps, unit) svc_op" where
  "rejectIfFlowsReferenceRouter S i =
     read_db (\<lambda>db.
       bind_res (wrap (Wrapf ''checking flows for router %q: %w'' [FStr i])
                   (port_List (svc_flowRepo S) all_params (no_flow_filter\<lparr>ff_RouterId := i\<rparr>) db)) (\<lambda>result.
         in_use ResourceTypeRouter i (map (\<lambda>f. (ResourceTypeFlow, flow_Id f)) (Items result))))"

definition rejectIfEntrypointsReferenceFlow :: "('db, 'ps) service \<Rightarrow> string \<Rightarrow> ('db, 'ps, unit) svc_op" where
  "rejectIfEntrypointsReferenceFlow S i =
     read_db (\<lambda>db.
       bind_res (wrap (Wrapf ''checking entrypoints for flow %q: %w'' [FStr i])
                   (port_List (svc_epRepo S) all_params (no_entrypoint_filter\<lparr>ef_FlowId := i\<rparr>) db)) (\<lambda>result.
         in_use ResourceTypeFlow i (map (\<lambda>e. (ResourceTypeEntrypoint, ep_Id e)) (Items result))))"

definition rejectIfWeightedBalancersReference :: "('db, 'ps) service \<Rightarrow> string \<Rightarrow> ('db, 'ps, unit) svc_op" where
  "rejectIfWeightedBalancersReference S i =
     read_db (\<lambda>db.
       bind_res (wrap (Wrapf ''checking weighted balancers for pool %q: %w'' [FStr i])
                   (port_List (svc_lbRepo S) all_params
                      (no_balancer_filter\<lparr>bf_PoolId := i, bf_Type := BalancerTypeWeighted\<rparr>) db)) (\<lambda>result.
         case Items result of
           [] \<Rightarrow> Inr ()
         | b # _ \<Rightarrow>
             Inl (Errorf ''pool %q is referenced by weighted balancer %q; change or delete the balancer before making the pool non-static''
                    [FStr i, FStr (lb_Id b)])))"

section \<open>Apply\<close>

text \<open>
  Step 5 of \<^verbatim>\<open>ApplyProxyV1\<close>: a manual update that omits the credentials keeps the stored ones, then
  the timestamps are set.
\<close>

definition keep_auth :: "proxy_spec \<Rightarrow> proxy result \<Rightarrow> proxy \<Rightarrow> proxy" where
  "keep_auth spec found proxy =
     (case found of
        Inl _ \<Rightarrow> proxy
      | Inr existing \<Rightarrow>
          (case proxy_Auth existing of
             None \<Rightarrow> proxy
           | Some a \<Rightarrow>
               if pxs_URL spec = [] \<and> pxs_Auth spec = None
               then proxy\<lparr>proxy_Auth := Some \<lparr>auth_User = auth_User a, auth_Pass = auth_Pass a\<rparr>\<rparr> else proxy))"

definition stamp_proxy :: "proxy_spec \<Rightarrow> time \<Rightarrow> proxy result \<Rightarrow> proxy \<Rightarrow> proxy result" where
  "stamp_proxy spec now found proxy =
     bind_res (wrap (Wrapf ''find proxy: %w'' []) (created_at proxy_ts found now)) (\<lambda>c.
       Inr ((keep_auth spec found proxy)\<lparr>proxy_ts := \<lparr>CreatedAt = c, UpdatedAt = now\<rparr>\<rparr>))"

definition ApplyProxyV1 :: "libs \<Rightarrow> ('db, 'ps) service \<Rightarrow> string \<Rightarrow> time \<Rightarrow> metadata \<Rightarrow> proxy_spec \<Rightarrow> ('db, 'ps, proxy) svc_op" where
  "ApplyProxyV1 L S ulid now meta spec =
     bind_op (lift_op (wrap (Wrapf ''spec validation: %w'' []) (ProxySpecV1_Validate spec))) (\<lambda>_.
     bind_op (lift_op (wrap (Wrapf ''domain conversion: %w'' [])
                (proxyFromSpecV1 (NewProxyFromURL (lib_url_Parse L) (lib_url_String L)) (with_name ulid meta) spec))) (\<lambda>proxy.
     bind_op (lift_op (wrap (Wrapf ''proxy validation: %w'' []) (Proxy_Validate proxy))) (\<lambda>_.
     bind_op (read_db (\<lambda>db. stamp_proxy spec now (port_Find (svc_proxyRepo S) (proxy_Id proxy) db) proxy)) (\<lambda>proxy.
     bind_op (wrap_op (Wrapf ''persisting proxy: %w'' []) (on_db (port_Save (svc_proxyRepo S) proxy))) (\<lambda>_.
     fire_and_return S (proxy_Id proxy) ResourceTypeProxy ChangeKindSaved proxy)))))"

definition ApplyPoolV1 :: "('db, 'ps) service \<Rightarrow> string \<Rightarrow> time \<Rightarrow> metadata \<Rightarrow> pool_spec \<Rightarrow> ('db, 'ps, pool) svc_op" where
  "ApplyPoolV1 S ulid now meta spec =
     bind_op (lift_op (wrap (Wrapf ''spec validation: %w'' []) (PoolSpecV1_Validate spec))) (\<lambda>_.
     bind_op (lift_op (case poolFromSpecV1 (with_name ulid meta) spec of
                         None \<Rightarrow> Inl (External ''panic: nil pointer dereference'') | Some pool \<Rightarrow> Inr pool)) (\<lambda>pool.
     bind_op (lift_op (wrap (Wrapf ''domain validation: %w'' []) (Pool_Validate pool))) (\<lambda>_.
     bind_op (if pool_Type pool = PoolTypeStatic
              then each_op (\<lambda>m. requireProxy S ResourceTypePool (pool_Id pool) (member_ProxyId m)) (pool_Members pool)
              else lift_op (Inr ())) (\<lambda>_.
     bind_op (if pool_Type pool \<noteq> PoolTypeStatic then rejectIfWeightedBalancersReference S (pool_Id pool)
              else lift_op (Inr ())) (\<lambda>_.
     bind_op (read_db (\<lambda>db. wrap (Wrapf ''find pool: %w'' [])
                (created_at pool_ts (port_Find (svc_poolRepo S) (pool_Id pool) db) now))) (\<lambda>c.
     let pool = pool\<lparr>pool_ts := \<lparr>CreatedAt = c, UpdatedAt = now\<rparr>\<rparr> in
     bind_op (wrap_op (Wrapf ''save pool: %w'' []) (on_db (port_Save (svc_poolRepo S) pool))) (\<lambda>_.
     fire_and_return S (pool_Id pool) ResourceTypePool ChangeKindSaved pool)))))))"

text \<open>The struct literals of the next three methods, under the name the metadata carries.\<close>

definition new_balancer :: "metadata \<Rightarrow> balancer_spec \<Rightarrow> load_balancer" where
  "new_balancer meta spec =
     \<lparr>lb_ts = zero_timestamps, lb_Id = meta_Name meta, lb_Title = bls_Title spec, lb_Type = bls_Type spec,
      lb_PoolId = bls_PoolId spec, lb_ResetInterval = 0\<rparr>"

definition with_reset_interval :: "libs \<Rightarrow> balancer_spec \<Rightarrow> load_balancer \<Rightarrow> load_balancer" where
  "with_reset_interval L spec lb =
     (if lb_Type lb = BalancerTypeLeastBytes
      then lb\<lparr>lb_ResetInterval := ResolvedResetInterval (lib_ParseDuration L) spec\<rparr> else lb)"

definition new_flow :: "metadata \<Rightarrow> flow_spec \<Rightarrow> flow" where
  "new_flow meta spec =
     \<lparr>flow_ts = zero_timestamps, flow_Id = meta_Name meta, flow_RouterId = fls_RouterId spec,
      flow_BalancerId = fls_BalancerId spec\<rparr>"

definition new_entrypoint :: "metadata \<Rightarrow> entrypoint_spec \<Rightarrow> entrypoint" where
  "new_entrypoint meta spec =
     \<lparr>ep_ts = zero_timestamps, ep_Id = meta_Name meta, ep_Title = eps_Title spec, ep_Protocol = eps_Protocol spec,
      ep_Host = eps_Host spec, ep_Port = eps_Port spec, ep_FlowId = eps_FlowId spec\<rparr>"

definition ApplyBalancerV1 :: "libs \<Rightarrow> ('db, 'ps) service \<Rightarrow> string \<Rightarrow> time \<Rightarrow> metadata \<Rightarrow> balancer_spec \<Rightarrow> ('db, 'ps, load_balancer) svc_op" where
  "ApplyBalancerV1 L S ulid now meta spec =
     bind_op (lift_op (wrap (Wrapf ''spec validation: %w'' []) (BalancerSpecV1_Validate (lib_ParseDuration L) spec))) (\<lambda>_.
     let lb = new_balancer (with_name ulid meta) spec in
     bind_op (guard_op (BalancerType_IsValid (lb_Type lb))
                (Errorf ''domain validation: invalid balancer type %q'' [FStr (lb_Type lb)])) (\<lambda>_.
     let lb = with_reset_interval L spec lb in
     bind_op (requirePool S ResourceTypeBalancer (lb_Id lb) (lb_PoolId lb)) (\<lambda>_.
     bind_op (if lb_Type lb = BalancerTypeWeighted
              then read_db (\<lambda>db.
                case port_Find (svc_poolRepo S) (lb_PoolId lb) db of
                  Inl _ \<Rightarrow> Inl (ResourceMissingRefError ResourceTypeBalancer (lb_Id lb) ResourceTypePool (lb_PoolId lb))
                | Inr pool \<Rightarrow>
                    guard_res (pool_Type pool = PoolTypeStatic)
                      (Errorf ''weighted balancer requires static pool %q (got %q)'' [FStr (lb_PoolId lb), FStr (pool_Type pool)]))
              else lift_op (Inr ())) (\<lambda>_.
     bind_op (read_db (\<lambda>db. wrap (Wrapf ''find balancer: %w'' [])
                (created_at lb_ts (port_Find (svc_lbRepo S) (lb_Id lb) db) now))) (\<lambda>c.
     let lb = lb\<lparr>lb_ts := \<lparr>CreatedAt = c, UpdatedAt = now\<rparr>\<rparr> in
     bind_op (wrap_op (Wrapf ''save balancer: %w'' []) (on_db (port_Save (svc_lbRepo S) lb))) (\<lambda>_.
     fire_and_return S (lb_Id lb) ResourceTypeBalancer ChangeKindSaved lb))))))"

definition ApplyRouterV1 :: "libs \<Rightarrow> ('db, 'ps) service \<Rightarrow> string \<Rightarrow> time \<Rightarrow> metadata \<Rightarrow> router_spec \<Rightarrow> ('db, 'ps, router) svc_op" where
  "ApplyRouterV1 L S ulid now meta spec =
     bind_op (lift_op (wrap (Wrapf ''spec validation: %w'' []) (RouterSpecV1_Validate spec))) (\<lambda>_.
     case Router_Validate (lib_regexp L) (routerFromSpecV1 (with_name ulid meta) spec) of (router, valid) \<Rightarrow>
     bind_op (lift_op (wrap (Wrapf ''domain validation: %w'' []) valid)) (\<lambda>_.
     bind_op (each_op (\<lambda>rule. requireBalancer S ResourceTypeRouter (router_Id router) (rule_Target rule)) (router_Rules router)) (\<lambda>_.
     bind_op (read_db (\<lambda>db. wrap (Wrapf ''find router: %w'' [])
                (created_at router_ts (port_Find (svc_routerRepo S) (router_Id router) db) now))) (\<lambda>c.
     let router = router\<lparr>router_ts := \<lparr>CreatedAt = c, UpdatedAt = now\<rparr>\<rparr> in
     bind_op (wrap_op (Wrapf ''save router: %w'' []) (on_db (port_Save (svc_routerRepo S) router))) (\<lambda>_.
     fire_and_return S (router_Id router) ResourceTypeRouter ChangeKindSaved router)))))"

definition ApplyFlowV1 :: "('db, 'ps) service \<Rightarrow> string \<Rightarrow> time \<Rightarrow> metadata \<Rightarrow> flow_spec \<Rightarrow> ('db, 'ps, flow) svc_op" where
  "ApplyFlowV1 S ulid now meta spec =
     bind_op (lift_op (wrap (Wrapf ''spec validation: %w'' []) (FlowSpecV1_Validate spec))) (\<lambda>_.
     let flow = new_flow (with_name ulid meta) spec in
     bind_op (if flow_RouterId flow \<noteq> [] then requireRouter S ResourceTypeFlow (flow_Id flow) (flow_RouterId flow)
              else lift_op (Inr ())) (\<lambda>_.
     bind_op (if flow_BalancerId flow \<noteq> [] then requireBalancer S ResourceTypeFlow (flow_Id flow) (flow_BalancerId flow)
              else lift_op (Inr ())) (\<lambda>_.
     bind_op (read_db (\<lambda>db. wrap (Wrapf ''find flow: %w'' [])
                (created_at flow_ts (port_Find (svc_flowRepo S) (flow_Id flow) db) now))) (\<lambda>c.
     let flow = flow\<lparr>flow_ts := \<lparr>CreatedAt = c, UpdatedAt = now\<rparr>\<rparr> in
     bind_op (wrap_op (Wrapf ''save flow: %w'' []) (on_db (port_Save (svc_flowRepo S) flow))) (\<lambda>_.
     fire_and_return S (flow_Id flow) ResourceTypeFlow ChangeKindSaved flow)))))"

definition ApplyEntrypointV1 :: "('db, 'ps) service \<Rightarrow> string \<Rightarrow> time \<Rightarrow> metadata \<Rightarrow> entrypoint_spec \<Rightarrow> ('db, 'ps, entrypoint) svc_op" where
  "ApplyEntrypointV1 S ulid now meta spec =
     bind_op (lift_op (wrap (Wrapf ''spec validation: %w'' []) (EntrypointSpecV1_Validate spec))) (\<lambda>_.
     let ep = new_entrypoint (with_name ulid meta) spec in
     bind_op (lift_op (wrap (Wrapf ''domain validation: %w'' []) (Entrypoint_Validate ep))) (\<lambda>_.
     bind_op (requireFlow S ResourceTypeEntrypoint (ep_Id ep) (ep_FlowId ep)) (\<lambda>_.
     bind_op (read_db (\<lambda>db. wrap (Wrapf ''find entrypoint: %w'' [])
                (created_at ep_ts (port_Find (svc_epRepo S) (ep_Id ep) db) now))) (\<lambda>c.
     let ep = ep\<lparr>ep_ts := \<lparr>CreatedAt = c, UpdatedAt = now\<rparr>\<rparr> in
     bind_op (wrap_op (Wrapf ''save entrypoint: %w'' []) (on_db (port_Save (svc_epRepo S) ep))) (\<lambda>_.
     fire_and_return S (ep_Id ep) ResourceTypeEntrypoint ChangeKindSaved ep)))))"

section \<open>Delete\<close>

definition DeleteProxy :: "('db, 'ps) service \<Rightarrow> string \<Rightarrow> ('db, 'ps, unit) svc_op" where
  "DeleteProxy S name =
     bind_op (guard_op (name \<noteq> []) (Errorf ''proxy name is required'' [])) (\<lambda>_.
     bind_op (rejectIfPoolsReferenceProxy S name) (\<lambda>_.
     bind_op (wrap_op (Wrapf ''delete proxy: %w'' []) (on_db (port_Delete (svc_proxyRepo S) name))) (\<lambda>_.
     fire_and_return S name ResourceTypeProxy ChangeKindDeleted ())))"

definition DeletePool :: "('db, 'ps) service \<Rightarrow> string \<Rightarrow> ('db, 'ps, unit) svc_op" where
  "DeletePool S name =
     bind_op (guard_op (name \<noteq> []) (Errorf ''pool name is required'' [])) (\<lambda>_.
     bind_op (rejectIfBalancersReferencePool S name) (\<lambda>_.
     bind_op (on_db (port_Delete (svc_poolRepo S) name)) (\<lambda>_.
     fire_and_return S name ResourceTypePool ChangeKindDeleted ())))"

definition DeleteBalancer :: "('db, 'ps) service \<Rightarrow> string \<Rightarrow> ('db, 'ps, unit) svc_op" where
  "DeleteBalancer S name =
     bind_op (guard_op (name \<noteq> []) (Errorf ''balancer name is required'' [])) (\<lambda>_.
     bind_op (rejectIfFlowsOrRoutersReferenceBalancer S name) (\<lambda>_.
     bind_op (on_db (port_Delete (svc_lbRepo S) name)) (\<lambda>_.
     fire_and_return S name ResourceTypeBalancer ChangeKindDeleted ())))"

definition DeleteRouter :: "('db, 'ps) service \<Rightarrow> string \<Rightarrow> ('db, 'ps, unit) svc_op" where
  "DeleteRouter S name =
     bind_op (guard_op (name \<noteq> []) (Errorf ''router name is required'' [])) (\<lambda>_.
     bind_op (rejectIfFlowsReferenceRouter S name) (\<lambda>_.
     bind_op (on_db (port_Delete (svc_routerRepo S) name)) (\<lambda>_.
     fire_and_return S name ResourceTypeRouter ChangeKindDeleted ())))"

definition DeleteFlow :: "('db, 'ps) service \<Rightarrow> string \<Rightarrow> ('db, 'ps, unit) svc_op" where
  "DeleteFlow S name =
     bind_op (guard_op (name \<noteq> []) (Errorf ''flow name is required'' [])) (\<lambda>_.
     bind_op (rejectIfEntrypointsReferenceFlow S name) (\<lambda>_.
     bind_op (on_db (port_Delete (svc_flowRepo S) name)) (\<lambda>_.
     fire_and_return S name ResourceTypeFlow ChangeKindDeleted ())))"

definition DeleteEntrypoint :: "('db, 'ps) service \<Rightarrow> string \<Rightarrow> ('db, 'ps, unit) svc_op" where
  "DeleteEntrypoint S name =
     bind_op (guard_op (name \<noteq> []) (Errorf ''entrypoint name is required'' [])) (\<lambda>_.
     bind_op (on_db (port_Delete (svc_epRepo S) name)) (\<lambda>_.
     fire_and_return S name ResourceTypeEntrypoint ChangeKindDeleted ()))"

section \<open>Get and list\<close>

definition GetProxy :: "('db, 'ps) service \<Rightarrow> string \<Rightarrow> 'db \<Rightarrow> proxy result" where
  "GetProxy S name db =
     (if name = [] then Inl (Errorf ''proxy name is required'' [])
      else wrap (Wrapf ''find proxy: %w'' []) (port_Find (svc_proxyRepo S) name db))"

definition GetPool :: "('db, 'ps) service \<Rightarrow> string \<Rightarrow> 'db \<Rightarrow> pool result" where
  "GetPool S name db =
     (if name = [] then Inl (Errorf ''pool name is required'' []) else port_Find (svc_poolRepo S) name db)"

definition GetBalancer :: "('db, 'ps) service \<Rightarrow> string \<Rightarrow> 'db \<Rightarrow> load_balancer result" where
  "GetBalancer S name db =
     (if name = [] then Inl (Errorf ''balancer name is required'' []) else port_Find (svc_lbRepo S) name db)"

definition GetRouter :: "('db, 'ps) service \<Rightarrow> string \<Rightarrow> 'db \<Rightarrow> router result" where
  "GetRouter S name db =
     (if name = [] then Inl (Errorf ''router name is required'' []) else port_Find (svc_routerRepo S) name db)"

definition GetFlow :: "('db, 'ps) service \<Rightarrow> string \<Rightarrow> 'db \<Rightarrow> flow result" where
  "GetFlow S name db =
     (if name = [] then Inl (Errorf ''flow name is required'' []) else port_Find (svc_flowRepo S) name db)"

definition GetEntrypoint :: "('db, 'ps) service \<Rightarrow> string \<Rightarrow> 'db \<Rightarrow> entrypoint result" where
  "GetEntrypoint S name db =
     (if name = [] then Inl (Errorf ''entrypoint name is required'' []) else port_Find (svc_epRepo S) name db)"

definition ListProxies :: "('db, 'ps) service \<Rightarrow> list_params \<Rightarrow> proxy_filter \<Rightarrow> 'db \<Rightarrow> proxy list_result result" where
  "ListProxies S params = port_List (svc_proxyRepo S) (cap_page params)"

definition ListPools :: "('db, 'ps) service \<Rightarrow> list_params \<Rightarrow> pool_filter \<Rightarrow> 'db \<Rightarrow> pool list_result result" where
  "ListPools S params = port_List (svc_poolRepo S) (cap_page params)"

definition ListBalancers :: "('db, 'ps) service \<Rightarrow> list_params \<Rightarrow> balancer_filter \<Rightarrow> 'db \<Rightarrow> load_balancer list_result result" where
  "ListBalancers S params = port_List (svc_lbRepo S) (cap_page params)"

definition ListRouters :: "('db, 'ps) service \<Rightarrow> list_params \<Rightarrow> router_filter \<Rightarrow> 'db \<Rightarrow> router list_result result" where
  "ListRouters S params = port_List (svc_routerRepo S) (cap_page params)"

definition ListFlows :: "('db, 'ps) service \<Rightarrow> list_params \<Rightarrow> flow_filter \<Rightarrow> 'db \<Rightarrow> flow list_result result" where
  "ListFlows S params = port_List (svc_flowRepo S) (cap_page params)"

definition ListEntrypoints :: "('db, 'ps) service \<Rightarrow> list_params \<Rightarrow> entrypoint_filter \<Rightarrow> 'db \<Rightarrow> entrypoint list_result result" where
  "ListEntrypoints S params = port_List (svc_epRepo S) (cap_page params)"

definition GetProxiesByIds :: "('db, 'ps) service \<Rightarrow> string list \<Rightarrow> 'db \<Rightarrow> proxy list result" where
  "GetProxiesByIds S ids db =
     wrap (Wrapf ''get proxies by ids: %q %w'' (map FStr ids)) (proxy_GetByIds (svc_proxyRepo S) ids db)"

definition FindProxiesByLabels :: "('db, 'ps) service \<Rightarrow> labels \<Rightarrow> 'db \<Rightarrow> proxy list result" where
  "FindProxiesByLabels S ls db =
     wrap (Wrapf ''find proxies by labels: %q %w'' (map (\<lambda>kv. FStr (snd kv)) ls)) (proxy_FindByLabels (svc_proxyRepo S) ls db)"

section \<open>Lemmas\<close>

lemma with_name_ne [simp]: "ulid \<noteq> [] \<Longrightarrow> meta_Name (with_name ulid meta) \<noteq> []"
  by (simp add: with_name_def)

lemma proxyFromSpecV1_Id: "proxyFromSpecV1 f meta spec = Inr p \<Longrightarrow> proxy_Id p = meta_Name meta"
  by (auto simp: proxyFromSpecV1_def res_simps split: if_splits)

lemma new_simps [simp]:
  "lb_Id (new_balancer meta bs) = meta_Name meta" "lb_Type (new_balancer meta bs) = bls_Type bs"
  "lb_PoolId (new_balancer meta bs) = bls_PoolId bs"
  "flow_Id (new_flow meta fs) = meta_Name meta" "flow_RouterId (new_flow meta fs) = fls_RouterId fs"
  "flow_BalancerId (new_flow meta fs) = fls_BalancerId fs"
  "ep_Id (new_entrypoint meta es) = meta_Name meta" "ep_FlowId (new_entrypoint meta es) = eps_FlowId es"
  by (simp_all add: new_balancer_def new_flow_def new_entrypoint_def)

lemma with_reset_interval_simps [simp]:
  "lb_Id (with_reset_interval L spec lb) = lb_Id lb" "lb_Type (with_reset_interval L spec lb) = lb_Type lb"
  "lb_PoolId (with_reset_interval L spec lb) = lb_PoolId lb"
  by (simp_all add: with_reset_interval_def)

lemma stamp_validates [simp]:
  "Entrypoint_Validate (e\<lparr>ep_ts := t\<rparr>) = Entrypoint_Validate e" "Pool_Validate (p\<lparr>pool_ts := t\<rparr>) = Pool_Validate p"
  "Pool_Validate (persist_pool p) = Pool_Validate p"
  by (simp_all add: Entrypoint_Validate_def Pool_Validate_def)

lemma poolFromSpecV1_Id: "poolFromSpecV1 meta spec = Some p \<Longrightarrow> pool_Id p = meta_Name meta \<and> \<not> pool_hasProxiesResolved p"
  by (auto simp: poolFromSpecV1_def Let_def split: if_splits option.splits)

lemma Router_Validate_targets:
  "router_Id (fst (Router_Validate R r)) = router_Id r"
  "map rule_Target (router_Rules (fst (Router_Validate R r))) = map rule_Target (router_Rules r)"
proof -
  have "strip_router (fst (Router_Validate R r)) = strip_router r"
    using Router_Compile_strip [of R r] by (auto simp: Router_Validate_def split: sum.splits)
  then show "router_Id (fst (Router_Validate R r)) = router_Id r"
    "map rule_Target (router_Rules (fst (Router_Validate R r))) = map rule_Target (router_Rules r)"
    by (metis strip_router_simps(1), metis strip_router_simps(3))
qed

lemma keep_auth_simps [simp]:
  "proxy_Id (keep_auth spec found p) = proxy_Id p" "proxy_Protocol (keep_auth spec found p) = proxy_Protocol p"
  "proxy_Host (keep_auth spec found p) = proxy_Host p" "proxy_Port (keep_auth spec found p) = proxy_Port p"
  by (simp_all add: keep_auth_def split: sum.splits option.splits)

lemma stamp_proxy_keeps:
  assumes "stamp_proxy spec now found p = Inr p'"
  shows "proxy_Id p' = proxy_Id p" "Proxy_Validate p' = Proxy_Validate p"
  using assms by (auto simp: stamp_proxy_def bind_res_Inr_iff Proxy_Validate_def)

lemma require_Inr [res_simps]: "require r e = Inr u \<longleftrightarrow> (\<exists>x. r = Inr x)"
  by (auto simp: require_def split: sum.splits)

lemma in_use_Inr [res_simps]: "in_use t i deps = Inr u \<longleftrightarrow> deps = []"
  by (simp add: in_use_def)

lemma created_at_Inr [res_simps]:
  "created_at ts found now = Inr c \<longleftrightarrow>
     (\<exists>x. found = Inr x \<and> c = CreatedAt (ts x)) \<or> (\<exists>e. found = Inl e \<and> errors_Is e ErrNotFound \<and> c = now)"
  by (auto simp: created_at_def resolveCreatedAt_def split: sum.splits)

lemma wp_fire: "Q x (snd (fireEvent S i t k s)) \<Longrightarrow> wp (fire_and_return S i t k x) Q E s"
  by (simp add: wp_def fire_and_return_def)

lemma fst_fire [simp]: "fst (snd (fireEvent S i t k s)) = fst s"
  by (simp add: fireEvent_def split: prod.splits)

lemma wp_on_db:
  assumes "\<And>x db. m (fst s) = (Inr x, db) \<Longrightarrow> Q x (db, snd s)" "\<And>e db. m (fst s) = (Inl e, db) \<Longrightarrow> E e (db, snd s)"
  shows "wp (on_db m) Q E s"
  using assms by (auto simp: on_db_def intro!: wpI split: prod.splits)

lemma wp_read_db [wp_intros]:
  "(\<And>x. f (fst s) = Inr x \<Longrightarrow> Q x s) \<Longrightarrow> (\<And>e. f (fst s) = Inl e \<Longrightarrow> E e s) \<Longrightarrow> wp (read_db f) Q E s"
  by (auto simp: read_db_def intro!: wp_read)

lemma each_read_db: "each_op (\<lambda>x. read_db (g x)) xs = read_db (\<lambda>db. check_all (\<lambda>x. g x db) xs)"
  by (simp add: read_db_def each_op_read)

lemma if_read_db: "(if b then read_db f else lift_op (Inr u)) = read_db (\<lambda>db. if b then f db else Inr u)"
  by (auto simp: fun_eq_iff read_db_def)

lemmas op_intros = wp_intros wp_fire wp_on_db
lemmas run_simps = wrap_Inr_iff bind_res_Inr_iff guard_res_Inr_iff check_all_Inr_iff require_Inr in_use_Inr

end
