(* ===== verification/Badger.thy ===== *)
theory Badger
  imports Ports
begin

text \<open>
  \<^verbatim>\<open>adapters/repository/badger\<close>: the repositories over the key-value store Badger.  Badger and
  \<^verbatim>\<open>encoding/json\<close> are not part of the repository: the record \<open>badger\<close> holds the calls the
  sources make and \<open>json\<close> the codec, both are arguments of every definition here, and the locale
  \<open>badger_db\<close> states what the code relies on.  \<^verbatim>\<open>DB.View\<close> and \<^verbatim>\<open>DB.Update\<close> are their documented
  composition of a transaction, the function run in it, and the commit.
\<close>

section \<open>The key-value store and the codec\<close>

text \<open>
  An item is the outcome of reading its value; a key that is not found is \<open>None\<close>.  A value may be
  written with a time to live.  An iterator with a prefix is the list of its items.
\<close>

record ('db, 'txn, 'b) badger =
  NewTransaction :: "'db \<Rightarrow> 'txn"
  Commit :: "'txn \<Rightarrow> 'db \<Rightarrow> unit result \<times> 'db"
  txn_Get :: "'txn \<Rightarrow> string \<Rightarrow> 'b result option result"
  txn_SetEntry :: "string \<Rightarrow> 'b \<Rightarrow> duration option \<Rightarrow> 'txn \<Rightarrow> 'txn result"
  txn_Delete :: "string \<Rightarrow> 'txn \<Rightarrow> 'txn result"
  txn_Iterator :: "'txn \<Rightarrow> string \<Rightarrow> (string \<times> 'b result) list"

definition db_View :: "('db, 'txn, 'b) badger \<Rightarrow> ('txn \<Rightarrow> 'a result) \<Rightarrow> 'db \<Rightarrow> 'a result" where
  "db_View B f db = f (NewTransaction B db)"

definition db_Update :: "('db, 'txn, 'b) badger \<Rightarrow> ('txn \<Rightarrow> ('a \<times> 'txn) result) \<Rightarrow> ('db, 'a) op" where
  "db_Update B f db =
     (case f (NewTransaction B db) of
        Inl e \<Rightarrow> (Inl e, db)
      | Inr (x, txn) \<Rightarrow>
          (case Commit B txn db of (Inl e, db') \<Rightarrow> (Inl e, db') | (Inr _, db') \<Rightarrow> (Inr x, db')))"

record 'a stored_resource =
  StorageVersion :: string
  Kind :: string
  Stored_Labels :: labels
  Spec :: 'a

record ('a, 'b) json =
  Marshal :: "'a stored_resource \<Rightarrow> 'b result"
  Unmarshal :: "'b \<Rightarrow> 'a stored_resource result"

record 'b json_lib =
  json_proxy :: "(proxy, 'b) json"
  json_pool :: "(pool, 'b) json"
  json_balancer :: "(load_balancer, 'b) json"
  json_router :: "(router, 'b) json"
  json_flow :: "(flow, 'b) json"
  json_entrypoint :: "(entrypoint, 'b) json"
  json_user :: "(user, 'b) json"
  json_token :: "(token, 'b) json"
  json_agent :: "(agent, 'b) json"
  json_registration_token :: "(registration_token, 'b) json"

section \<open>Listing with a cursor\<close>

definition containsFold :: "string \<Rightarrow> string \<Rightarrow> bool" where
  "containsFold s substr = Contains (ToLower s) (ToLower substr)"

definition matchesLabels :: "labels \<Rightarrow> labels \<Rightarrow> bool" where
  "matchesLabels actual required \<longleftrightarrow> (\<forall>(k, v) \<in> set required. go_get actual k = v)"

definition at_page_end :: "list_params \<Rightarrow> nat \<Rightarrow> bool" where
  "at_page_end params collected \<longleftrightarrow> PageSize params \<noteq> 0 \<and> int collected \<ge> PageSize params"

text \<open>The loop of the unfiltered path over the items from the cursor on.\<close>

fun collect_page ::
  "string \<Rightarrow> list_params \<Rightarrow> ('b \<Rightarrow> 'a result) \<Rightarrow> nat \<Rightarrow> 'a list_result \<Rightarrow> (string \<times> 'b result) list \<Rightarrow> 'a list_result result" where
  "collect_page pfx params um collected res [] = Inr res"
| "collect_page pfx params um collected res ((key, val) # it) =
     (if at_page_end params collected then Inr (res\<lparr>NextCursor := drop (length pfx) key\<rparr>)
      else bind_res (bind_res val um) (\<lambda>item.
             collect_page pfx params um (Suc collected) (res\<lparr>Items := Items res @ [item]\<rparr>) it))"

text \<open>The loop of the filtered path over all items, with \<^verbatim>\<open>reachedCursor\<close>, \<^verbatim>\<open>collected\<close> and \<^verbatim>\<open>pageFull\<close>.\<close>

fun scan_filtered ::
  "string \<Rightarrow> list_params \<Rightarrow> ('b \<Rightarrow> 'a result) \<Rightarrow> ('a \<Rightarrow> bool) \<Rightarrow> bool \<Rightarrow> nat \<Rightarrow> bool \<Rightarrow>
   'a list_result \<Rightarrow> (string \<times> 'b result) list \<Rightarrow> 'a list_result result" where
  "scan_filtered pfx params um pred reached collected full res [] = Inr res"
| "scan_filtered pfx params um pred reached collected full res ((key, val) # it) =
     bind_res (bind_res val um) (\<lambda>item.
       if \<not> pred item then scan_filtered pfx params um pred reached collected full res it
       else
         let res = res\<lparr>TotalCount := TotalCount res + 1\<rparr>;
             reached' = (reached \<or> pfx @ Cursor params \<le> key)
         in
         if \<not> reached' then scan_filtered pfx params um pred reached' collected full res it
         else if full then scan_filtered pfx params um pred reached' collected full res it
         else if at_page_end params collected then
           scan_filtered pfx params um pred reached' collected True
             (res\<lparr>NextCursor := drop (length pfx) key\<rparr>) it
         else
           scan_filtered pfx params um pred reached' (Suc collected) full
             (res\<lparr>Items := Items res @ [item]\<rparr>) it)"

definition empty_result :: "'a list_result" where
  "empty_result = \<lparr>Items = [], NextCursor = [], TotalCount = 0\<rparr>"

definition seek :: "string \<Rightarrow> (string \<times> 'v) list \<Rightarrow> (string \<times> 'v) list" where
  "seek k it = dropWhile (\<lambda>(key, _). key < k) it"

definition listWithCursor ::
  "('db, 'txn, 'b) badger \<Rightarrow> 'txn \<Rightarrow> string \<Rightarrow> list_params \<Rightarrow> ('b \<Rightarrow> 'a result) \<Rightarrow> ('a \<Rightarrow> bool) option \<Rightarrow> 'a list_result result" where
  "listWithCursor B txn pfx params um predicate =
     (let it = txn_Iterator B txn pfx in
      case predicate of
        None \<Rightarrow>
          collect_page pfx params um 0 (empty_result\<lparr>TotalCount := int (length it)\<rparr>)
            (if Cursor params \<noteq> [] then seek (pfx @ Cursor params) it else it)
      | Some pred \<Rightarrow> scan_filtered pfx params um pred (Cursor params = []) 0 False empty_result it)"

section \<open>What every repository does\<close>

text \<open>
  The repositories repeat the same code for their kind; these are the bodies with the kind's
  codec, key, messages and sentinel as arguments.
\<close>

definition errNotFound :: "string \<Rightarrow> string \<Rightarrow> err" where
  "errNotFound kind i = Wrapf ''%s %q not found: %w'' [FStr kind, FStr i] (Sentinel ErrNotFound)"

definition repo_marshal :: "('a, 'b) json \<Rightarrow> string \<Rightarrow> 'a \<Rightarrow> 'b result" where
  "repo_marshal J kind x = Marshal J \<lparr>StorageVersion = ''v1'', Kind = kind, Stored_Labels = [], Spec = x\<rparr>"

definition repo_unmarshal :: "('a, 'b) json \<Rightarrow> 'b \<Rightarrow> 'a result" where
  "repo_unmarshal J data = bind_res (Unmarshal J data) (\<lambda>stored. Inr (Spec stored))"

definition get_item :: "('db, 'txn, 'b) badger \<Rightarrow> 'txn \<Rightarrow> string \<Rightarrow> err \<Rightarrow> 'b result result" where
  "get_item B txn key notFound =
     bind_res (txn_Get B txn key) (\<lambda>item. case item of None \<Rightarrow> Inl notFound | Some v \<Rightarrow> Inr v)"

definition repo_find_txn :: "('db, 'txn, 'b) badger \<Rightarrow> ('a, 'b) json \<Rightarrow> string \<Rightarrow> err \<Rightarrow> 'txn \<Rightarrow> 'a result" where
  "repo_find_txn B J key notFound txn =
     bind_res (get_item B txn key notFound) (\<lambda>item. bind_res item (repo_unmarshal J))"

definition repo_Find :: "('db, 'txn, 'b) badger \<Rightarrow> ('a, 'b) json \<Rightarrow> string \<Rightarrow> err \<Rightarrow> 'db \<Rightarrow> 'a result" where
  "repo_Find B J key notFound = db_View B (repo_find_txn B J key notFound)"

definition repo_List ::
  "('db, 'txn, 'b) badger \<Rightarrow> ('a, 'b) json \<Rightarrow> string \<Rightarrow> list_params \<Rightarrow> ('a \<Rightarrow> bool) option \<Rightarrow> 'db \<Rightarrow> 'a list_result result" where
  "repo_List B J pfx params predicate =
     db_View B (\<lambda>txn. listWithCursor B txn pfx params (repo_unmarshal J) predicate)"

definition set_only :: "('db, 'txn, 'b) badger \<Rightarrow> string \<Rightarrow> 'b \<Rightarrow> 'txn \<Rightarrow> (unit \<times> 'txn) result" where
  "set_only B key data txn = bind_res (txn_SetEntry B key data None txn) (\<lambda>txn. Inr ((), txn))"

definition repo_Save ::
  "('db, 'txn, 'b) badger \<Rightarrow> ('a, 'b) json \<Rightarrow> string \<Rightarrow> (err \<Rightarrow> err) \<Rightarrow> string \<Rightarrow> 'a \<Rightarrow> ('db, unit) op" where
  "repo_Save B J kind msg key x =
     bind_op (lift_op (wrap msg (repo_marshal J kind x))) (\<lambda>data. db_Update B (set_only B key data))"

definition repo_Create ::
  "('db, 'txn, 'b) badger \<Rightarrow> ('a, 'b) json \<Rightarrow> string \<Rightarrow> (err \<Rightarrow> err) \<Rightarrow> err \<Rightarrow> string \<Rightarrow> 'a \<Rightarrow> ('db, unit) op" where
  "repo_Create B J kind msg exists key x =
     bind_op (lift_op (wrap msg (repo_marshal J kind x))) (\<lambda>data. db_Update B (\<lambda>txn.
       bind_res (txn_Get B txn key) (\<lambda>item.
         case item of Some _ \<Rightarrow> Inl exists | None \<Rightarrow> set_only B key data txn)))"

definition repo_Delete :: "('db, 'txn, 'b) badger \<Rightarrow> string \<Rightarrow> err \<Rightarrow> ('db, unit) op" where
  "repo_Delete B key notFound =
     db_Update B (\<lambda>txn. bind_res (get_item B txn key notFound) (\<lambda>_.
       bind_res (txn_Delete B key txn) (\<lambda>txn. Inr ((), txn))))"

text \<open>Saving with an expiry: \<^verbatim>\<open>time.Until\<close> must be positive, and becomes the time to live.\<close>

definition repo_SaveTTL ::
  "('db, 'txn, 'b) badger \<Rightarrow> ('a, 'b) json \<Rightarrow> string \<Rightarrow> (err \<Rightarrow> err) \<Rightarrow> string \<Rightarrow> time \<Rightarrow> time option \<Rightarrow> 'a \<Rightarrow> ('db, unit) op" where
  "repo_SaveTTL B J kind msg key now expires x =
     bind_op (lift_op (wrap msg (repo_marshal J kind x))) (\<lambda>data. db_Update B (\<lambda>txn.
       case expires of
         None \<Rightarrow> set_only B key data txn
       | Some e \<Rightarrow>
           if time_Sub e now \<le> 0 then Inl (Errorf ''token already expired'' [])
           else bind_res (txn_SetEntry B key data (Some (time_Sub e now)) txn) (\<lambda>txn. Inr ((), txn))))"

section \<open>Predicates of the filters\<close>

definition buildProxyPredicate :: "proxy_filter \<Rightarrow> (proxy \<Rightarrow> bool) option" where
  "buildProxyPredicate f =
     (if pf_Search f = [] \<and> pf_Protocol f = [] \<and> pf_Labels f = [] then None
      else Some (\<lambda>p.
        if pf_Search f \<noteq> [] \<and> \<not> containsFold (proxy_Id p) (pf_Search f) \<and> \<not> containsFold (proxy_Host p) (pf_Search f) then False
        else if pf_Protocol f \<noteq> [] \<and> proxy_Protocol p \<noteq> pf_Protocol f then False
        else if pf_Labels f \<noteq> [] \<and> \<not> matchesLabels (proxy_Labels p) (pf_Labels f) then False
        else True))"

definition buildPoolPredicate :: "pool_filter \<Rightarrow> (pool \<Rightarrow> bool) option" where
  "buildPoolPredicate f =
     (if plf_Search f = [] \<and> plf_Type f = [] \<and> plf_ProxyId f = [] then None
      else Some (\<lambda>p.
        if plf_Search f \<noteq> [] \<and> \<not> containsFold (pool_Id p) (plf_Search f) \<and> \<not> containsFold (pool_Title p) (plf_Search f) then False
        else if plf_Type f \<noteq> [] \<and> pool_Type p \<noteq> plf_Type f then False
        else if plf_ProxyId f \<noteq> [] \<and> \<not> list_ex (\<lambda>m. member_ProxyId m = plf_ProxyId f) (pool_Members p) then False
        else True))"

definition buildBalancerPredicate :: "balancer_filter \<Rightarrow> (load_balancer \<Rightarrow> bool) option" where
  "buildBalancerPredicate f =
     (if bf_Search f = [] \<and> bf_Type f = [] \<and> bf_PoolId f = [] then None
      else Some (\<lambda>lb.
        if bf_Search f \<noteq> [] \<and> \<not> containsFold (lb_Id lb) (bf_Search f) \<and> \<not> containsFold (lb_Title lb) (bf_Search f) \<and>
           \<not> containsFold (lb_Type lb) (bf_Search f) \<and> \<not> containsFold (lb_PoolId lb) (bf_Search f) then False
        else if bf_Type f \<noteq> [] \<and> lb_Type lb \<noteq> bf_Type f then False
        else if bf_PoolId f \<noteq> [] \<and> lb_PoolId lb \<noteq> bf_PoolId f then False
        else True))"

definition routerMatchesSearch :: "router \<Rightarrow> string \<Rightarrow> bool" where
  "routerMatchesSearch r q \<longleftrightarrow>
     containsFold (router_Id r) q \<or> containsFold (router_Title r) q \<or> containsFold (router_Description r) q \<or>
     list_ex (\<lambda>rule.
       containsFold (rule_Id rule) q \<or> containsFold (rule_Target rule) q \<or>
       containsFold (match_Type (rule_Match rule)) q \<or> containsFold (match_Value (rule_Match rule)) q) (router_Rules r)"

definition routerHasCatchAll :: "router \<Rightarrow> bool" where
  "routerHasCatchAll r \<longleftrightarrow> list_ex (\<lambda>rule. match_Type (rule_Match rule) = MatchTypeCatchAll) (router_Rules r)"

definition buildRouterPredicate :: "router_filter \<Rightarrow> (router \<Rightarrow> bool) option" where
  "buildRouterPredicate f =
     (if rf_Search f = [] \<and> rf_TargetBalancerId f = [] \<and> rf_HasCatchAll f = None then None
      else Some (\<lambda>r.
        if rf_Search f \<noteq> [] \<and> \<not> routerMatchesSearch r (rf_Search f) then False
        else if rf_TargetBalancerId f \<noteq> [] \<and> \<not> list_ex (\<lambda>rule. rule_Target rule = rf_TargetBalancerId f) (router_Rules r) then False
        else if (case rf_HasCatchAll f of None \<Rightarrow> False | Some b \<Rightarrow> b \<noteq> routerHasCatchAll r) then False
        else True))"

definition buildEntrypointPredicate :: "entrypoint_filter \<Rightarrow> (entrypoint \<Rightarrow> bool) option" where
  "buildEntrypointPredicate f =
     (if ef_Search f = [] \<and> ef_Protocol f = [] \<and> ef_Host f = [] \<and> ef_FlowId f = [] then None
      else Some (\<lambda>ep.
        if ef_Search f \<noteq> [] \<and> \<not> containsFold (ep_Id ep) (ef_Search f) \<and> \<not> containsFold (ep_Title ep) (ef_Search f) then False
        else if ef_Protocol f \<noteq> [] \<and> ep_Protocol ep \<noteq> ef_Protocol f then False
        else if ef_Host f \<noteq> [] \<and> \<not> containsFold (ep_Host ep) (ef_Host f) then False
        else if ef_FlowId f \<noteq> [] \<and> ep_FlowId ep \<noteq> ef_FlowId f then False
        else True))"

definition buildFlowPredicate :: "flow_filter \<Rightarrow> (flow \<Rightarrow> bool) option" where
  "buildFlowPredicate f =
     (if ff_Search f = [] \<and> ff_RouterId f = [] \<and> ff_BalancerId f = [] \<and> ff_Mode f = [] then None
      else Some (\<lambda>fl.
        if ff_Search f \<noteq> [] \<and> \<not> containsFold (flow_Id fl) (ff_Search f) \<and> \<not> containsFold (flow_RouterId fl) (ff_Search f) \<and>
           \<not> containsFold (flow_BalancerId fl) (ff_Search f) then False
        else if ff_RouterId f \<noteq> [] \<and> flow_RouterId fl \<noteq> ff_RouterId f then False
        else if ff_BalancerId f \<noteq> [] \<and> flow_BalancerId fl \<noteq> ff_BalancerId f then False
        else if ff_Mode f = ''router'' \<and> flow_RouterId fl = [] then False
        else if ff_Mode f = ''direct'' \<and> (flow_RouterId fl \<noteq> [] \<or> flow_BalancerId fl = []) then False
        else True))"

definition buildUserPredicate :: "user_filter \<Rightarrow> (user \<Rightarrow> bool) option" where
  "buildUserPredicate f =
     (if uf_Search f = [] \<and> uf_Role f = [] then None
      else Some (\<lambda>u.
        if uf_Search f \<noteq> [] \<and> \<not> containsFold (user_Id u) (uf_Search f) then False
        else if uf_Role f \<noteq> [] \<and> user_Role u \<noteq> uf_Role f then False
        else True))"

definition buildAgentPredicate :: "agent_filter \<Rightarrow> (agent \<Rightarrow> bool) option" where
  "buildAgentPredicate f =
     (if af_Search f = [] \<and> af_Labels f = [] then None
      else Some (\<lambda>a.
        if af_Search f \<noteq> [] \<and> \<not> containsFold (agent_Id a) (af_Search f) \<and> \<not> containsFold (agent_Hostname a) (af_Search f) then False
        else if af_Labels f \<noteq> [] \<and> \<not> matchesLabels (agent_Labels a) (af_Labels f) then False
        else True))"

section \<open>The repositories\<close>

definition proxyPrefix :: string where "proxyPrefix = ''proxies:''"

definition proxyKey :: "string \<Rightarrow> string" where "proxyKey i = proxyPrefix @ i"

definition ProxyRepository_List ::
  "('db, 'txn, 'b) badger \<Rightarrow> 'b json_lib \<Rightarrow> list_params \<Rightarrow> proxy_filter \<Rightarrow> 'db \<Rightarrow> proxy list_result result" where
  "ProxyRepository_List B J params f = repo_List B (json_proxy J) proxyPrefix params (buildProxyPredicate f)"

definition ProxyRepository_Find :: "('db, 'txn, 'b) badger \<Rightarrow> 'b json_lib \<Rightarrow> string \<Rightarrow> 'db \<Rightarrow> proxy result" where
  "ProxyRepository_Find B J i = repo_Find B (json_proxy J) (proxyKey i) (errNotFound ''proxy'' i)"

definition ProxyRepository_Save :: "('db, 'txn, 'b) badger \<Rightarrow> 'b json_lib \<Rightarrow> proxy \<Rightarrow> ('db, unit) op" where
  "ProxyRepository_Save B J x =
     repo_Save B (json_proxy J) ''Proxy'' (Wrapf ''marshall proxy %q: %w'' [FStr (proxy_Id x)]) (proxyKey (proxy_Id x)) x"

definition ProxyRepository_Delete :: "('db, 'txn, 'b) badger \<Rightarrow> string \<Rightarrow> ('db, unit) op" where
  "ProxyRepository_Delete B i = repo_Delete B (proxyKey i) (errNotFound ''proxy'' i)"

fun get_by_ids :: "('db, 'txn, 'b) badger \<Rightarrow> 'b json_lib \<Rightarrow> 'txn \<Rightarrow> string list \<Rightarrow> proxy list result" where
  "get_by_ids B J txn [] = Inr []"
| "get_by_ids B J txn (i # ids) =
     bind_res (repo_find_txn B (json_proxy J) (proxyKey i) (errNotFound ''proxy'' i) txn) (\<lambda>p.
       bind_res (get_by_ids B J txn ids) (\<lambda>ps. Inr (p # ps)))"

definition ProxyRepository_GetByIds ::
  "('db, 'txn, 'b) badger \<Rightarrow> 'b json_lib \<Rightarrow> string list \<Rightarrow> 'db \<Rightarrow> proxy list result" where
  "ProxyRepository_GetByIds B J ids = db_View B (\<lambda>txn. get_by_ids B J txn ids)"

definition ProxyRepository_FindByLabels ::
  "('db, 'txn, 'b) badger \<Rightarrow> 'b json_lib \<Rightarrow> labels \<Rightarrow> 'db \<Rightarrow> proxy list result" where
  "ProxyRepository_FindByLabels B J ls db =
     bind_res (ProxyRepository_List B J all_params \<lparr>pf_Search = [], pf_Protocol = [], pf_Labels = ls\<rparr> db)
       (\<lambda>result. Inr (Items result))"

definition poolPrefix :: string where "poolPrefix = ''pools:''"

definition poolKey :: "string \<Rightarrow> string" where "poolKey i = poolPrefix @ i"

definition PoolRepository_List ::
  "('db, 'txn, 'b) badger \<Rightarrow> 'b json_lib \<Rightarrow> list_params \<Rightarrow> pool_filter \<Rightarrow> 'db \<Rightarrow> pool list_result result" where
  "PoolRepository_List B J params f = repo_List B (json_pool J) poolPrefix params (buildPoolPredicate f)"

definition PoolRepository_Find :: "('db, 'txn, 'b) badger \<Rightarrow> 'b json_lib \<Rightarrow> string \<Rightarrow> 'db \<Rightarrow> pool result" where
  "PoolRepository_Find B J i = repo_Find B (json_pool J) (poolKey i) (errNotFound ''pool'' i)"

definition PoolRepository_Save :: "('db, 'txn, 'b) badger \<Rightarrow> 'b json_lib \<Rightarrow> pool \<Rightarrow> ('db, unit) op" where
  "PoolRepository_Save B J x =
     repo_Save B (json_pool J) ''Pool'' (Wrapf ''marshal pool %q: %w'' [FStr (pool_Id x)]) (poolKey (pool_Id x)) x"

definition PoolRepository_Delete :: "('db, 'txn, 'b) badger \<Rightarrow> string \<Rightarrow> ('db, unit) op" where
  "PoolRepository_Delete B i = repo_Delete B (poolKey i) (errNotFound ''pool'' i)"

definition balancerPrefix :: string where "balancerPrefix = ''balancers:''"

definition balancerKey :: "string \<Rightarrow> string" where "balancerKey i = balancerPrefix @ i"

definition BalancerRepository_List ::
  "('db, 'txn, 'b) badger \<Rightarrow> 'b json_lib \<Rightarrow> list_params \<Rightarrow> balancer_filter \<Rightarrow> 'db \<Rightarrow> load_balancer list_result result" where
  "BalancerRepository_List B J params f = repo_List B (json_balancer J) balancerPrefix params (buildBalancerPredicate f)"

definition BalancerRepository_Find :: "('db, 'txn, 'b) badger \<Rightarrow> 'b json_lib \<Rightarrow> string \<Rightarrow> 'db \<Rightarrow> load_balancer result" where
  "BalancerRepository_Find B J i = repo_Find B (json_balancer J) (balancerKey i) (errNotFound ''balancer'' i)"

definition BalancerRepository_Save :: "('db, 'txn, 'b) badger \<Rightarrow> 'b json_lib \<Rightarrow> load_balancer \<Rightarrow> ('db, unit) op" where
  "BalancerRepository_Save B J x =
     repo_Save B (json_balancer J) ''LoadBalancer'' (Wrapf ''marshal balancer %q: %w'' [FStr (lb_Id x)]) (balancerKey (lb_Id x)) x"

definition BalancerRepository_Delete :: "('db, 'txn, 'b) badger \<Rightarrow> string \<Rightarrow> ('db, unit) op" where
  "BalancerRepository_Delete B i = repo_Delete B (balancerKey i) (errNotFound ''balancer'' i)"

definition routerPrefix :: string where "routerPrefix = ''routers:''"

definition routerKey :: "string \<Rightarrow> string" where "routerKey i = routerPrefix @ i"

definition RouterRepository_List ::
  "('db, 'txn, 'b) badger \<Rightarrow> 'b json_lib \<Rightarrow> list_params \<Rightarrow> router_filter \<Rightarrow> 'db \<Rightarrow> router list_result result" where
  "RouterRepository_List B J params f = repo_List B (json_router J) routerPrefix params (buildRouterPredicate f)"

definition RouterRepository_Find :: "('db, 'txn, 'b) badger \<Rightarrow> 'b json_lib \<Rightarrow> string \<Rightarrow> 'db \<Rightarrow> router result" where
  "RouterRepository_Find B J i = repo_Find B (json_router J) (routerKey i) (errNotFound ''router'' i)"

definition RouterRepository_Save :: "('db, 'txn, 'b) badger \<Rightarrow> 'b json_lib \<Rightarrow> router \<Rightarrow> ('db, unit) op" where
  "RouterRepository_Save B J x =
     repo_Save B (json_router J) ''Router'' (Wrapf ''marshal router %q: %w'' [FStr (router_Id x)]) (routerKey (router_Id x)) x"

definition RouterRepository_Delete :: "('db, 'txn, 'b) badger \<Rightarrow> string \<Rightarrow> ('db, unit) op" where
  "RouterRepository_Delete B i = repo_Delete B (routerKey i) (errNotFound ''router'' i)"

definition flowPrefix :: string where "flowPrefix = ''flows:''"

definition flowKey :: "string \<Rightarrow> string" where "flowKey i = flowPrefix @ i"

definition FlowRepository_List ::
  "('db, 'txn, 'b) badger \<Rightarrow> 'b json_lib \<Rightarrow> list_params \<Rightarrow> flow_filter \<Rightarrow> 'db \<Rightarrow> flow list_result result" where
  "FlowRepository_List B J params f = repo_List B (json_flow J) flowPrefix params (buildFlowPredicate f)"

definition FlowRepository_Find :: "('db, 'txn, 'b) badger \<Rightarrow> 'b json_lib \<Rightarrow> string \<Rightarrow> 'db \<Rightarrow> flow result" where
  "FlowRepository_Find B J i = repo_Find B (json_flow J) (flowKey i) (errNotFound ''flow'' i)"

definition FlowRepository_Save :: "('db, 'txn, 'b) badger \<Rightarrow> 'b json_lib \<Rightarrow> flow \<Rightarrow> ('db, unit) op" where
  "FlowRepository_Save B J x =
     repo_Save B (json_flow J) ''Flow'' (Wrapf ''marshal flow %q: %w'' [FStr (flow_Id x)]) (flowKey (flow_Id x)) x"

definition FlowRepository_Delete :: "('db, 'txn, 'b) badger \<Rightarrow> string \<Rightarrow> ('db, unit) op" where
  "FlowRepository_Delete B i = repo_Delete B (flowKey i) (errNotFound ''flow'' i)"

definition entrypointPrefix :: string where "entrypointPrefix = ''entrypoints:''"

definition entrypointKey :: "string \<Rightarrow> string" where "entrypointKey i = entrypointPrefix @ i"

definition EntrypointRepository_List ::
  "('db, 'txn, 'b) badger \<Rightarrow> 'b json_lib \<Rightarrow> list_params \<Rightarrow> entrypoint_filter \<Rightarrow> 'db \<Rightarrow> entrypoint list_result result" where
  "EntrypointRepository_List B J params f = repo_List B (json_entrypoint J) entrypointPrefix params (buildEntrypointPredicate f)"

definition EntrypointRepository_Find :: "('db, 'txn, 'b) badger \<Rightarrow> 'b json_lib \<Rightarrow> string \<Rightarrow> 'db \<Rightarrow> entrypoint result" where
  "EntrypointRepository_Find B J i = repo_Find B (json_entrypoint J) (entrypointKey i) (errNotFound ''entrypoint'' i)"

definition EntrypointRepository_Save :: "('db, 'txn, 'b) badger \<Rightarrow> 'b json_lib \<Rightarrow> entrypoint \<Rightarrow> ('db, unit) op" where
  "EntrypointRepository_Save B J x =
     repo_Save B (json_entrypoint J) ''Entrypoint'' (Wrapf ''marshal entrypoint %q: %w'' [FStr (ep_Id x)]) (entrypointKey (ep_Id x)) x"

definition EntrypointRepository_Delete :: "('db, 'txn, 'b) badger \<Rightarrow> string \<Rightarrow> ('db, unit) op" where
  "EntrypointRepository_Delete B i = repo_Delete B (entrypointKey i) (errNotFound ''entrypoint'' i)"

definition userPrefix :: string where "userPrefix = ''users:''"

definition userKey :: "string \<Rightarrow> string" where "userKey i = userPrefix @ i"

definition UserRepository_List ::
  "('db, 'txn, 'b) badger \<Rightarrow> 'b json_lib \<Rightarrow> list_params \<Rightarrow> user_filter \<Rightarrow> 'db \<Rightarrow> user list_result result" where
  "UserRepository_List B J params f = repo_List B (json_user J) userPrefix params (buildUserPredicate f)"

definition UserRepository_Find :: "('db, 'txn, 'b) badger \<Rightarrow> 'b json_lib \<Rightarrow> string \<Rightarrow> 'db \<Rightarrow> user result" where
  "UserRepository_Find B J i = repo_Find B (json_user J) (userKey i) (errNotFound ''user'' i)"

definition UserRepository_Save :: "('db, 'txn, 'b) badger \<Rightarrow> 'b json_lib \<Rightarrow> user \<Rightarrow> ('db, unit) op" where
  "UserRepository_Save B J x =
     repo_Save B (json_user J) ''User'' (Wrapf ''marshall user %q: %w'' [FStr (user_Id x)]) (userKey (user_Id x)) x"

definition UserRepository_Delete :: "('db, 'txn, 'b) badger \<Rightarrow> string \<Rightarrow> ('db, unit) op" where
  "UserRepository_Delete B i = repo_Delete B (userKey i) (errNotFound ''user'' i)"

definition UserRepository_Create :: "('db, 'txn, 'b) badger \<Rightarrow> 'b json_lib \<Rightarrow> user \<Rightarrow> ('db, unit) op" where
  "UserRepository_Create B J x =
     repo_Create B (json_user J) ''User'' (Wrapf ''marshall user %q: %w'' [FStr (user_Id x)]) (Sentinel ErrUserExists) (userKey (user_Id x)) x"

definition UserRepository_Count :: "('db, 'txn, 'b) badger \<Rightarrow> 'db \<Rightarrow> int result" where
  "UserRepository_Count B = db_View B (\<lambda>txn. Inr (int (length (txn_Iterator B txn userPrefix))))"

definition agentPrefix :: string where "agentPrefix = ''agents:''"

definition agentKey :: "string \<Rightarrow> string" where "agentKey i = agentPrefix @ i"

definition AgentRepository_List ::
  "('db, 'txn, 'b) badger \<Rightarrow> 'b json_lib \<Rightarrow> list_params \<Rightarrow> agent_filter \<Rightarrow> 'db \<Rightarrow> agent list_result result" where
  "AgentRepository_List B J params f = repo_List B (json_agent J) agentPrefix params (buildAgentPredicate f)"

definition AgentRepository_Find :: "('db, 'txn, 'b) badger \<Rightarrow> 'b json_lib \<Rightarrow> string \<Rightarrow> 'db \<Rightarrow> agent result" where
  "AgentRepository_Find B J i = repo_Find B (json_agent J) (agentKey i) (errNotFound ''agent'' i)"

definition AgentRepository_Save :: "('db, 'txn, 'b) badger \<Rightarrow> 'b json_lib \<Rightarrow> agent \<Rightarrow> ('db, unit) op" where
  "AgentRepository_Save B J x =
     repo_Save B (json_agent J) ''Agent'' (Wrapf ''marshall agent %q: %w'' [FStr (agent_Id x)]) (agentKey (agent_Id x)) x"

definition AgentRepository_Delete :: "('db, 'txn, 'b) badger \<Rightarrow> string \<Rightarrow> ('db, unit) op" where
  "AgentRepository_Delete B i = repo_Delete B (agentKey i) (errNotFound ''agent'' i)"

definition AgentRepository_Create :: "('db, 'txn, 'b) badger \<Rightarrow> 'b json_lib \<Rightarrow> agent \<Rightarrow> ('db, unit) op" where
  "AgentRepository_Create B J x =
     repo_Create B (json_agent J) ''Agent'' (Wrapf ''marshall agent %q: %w'' [FStr (agent_Id x)]) (Sentinel ErrAgentExists) (agentKey (agent_Id x)) x"

definition tokenPrefix :: string where "tokenPrefix = ''tokens:''"

definition tokenKey :: "string \<Rightarrow> string" where "tokenKey hash = tokenPrefix @ hash"

definition token_notFound :: err where
  "token_notFound = Wrapf ''token not found: %w'' [] (Sentinel ErrNotFound)"

definition TokenRepository_Find :: "('db, 'txn, 'b) badger \<Rightarrow> 'b json_lib \<Rightarrow> string \<Rightarrow> 'db \<Rightarrow> token result" where
  "TokenRepository_Find B J hash = repo_Find B (json_token J) (tokenKey hash) token_notFound"

definition TokenRepository_Save :: "('db, 'txn, 'b) badger \<Rightarrow> 'b json_lib \<Rightarrow> time \<Rightarrow> token \<Rightarrow> ('db, unit) op" where
  "TokenRepository_Save B J now x =
     repo_SaveTTL B (json_token J) ''Token'' (Wrapf ''marshall token: %w'' []) (tokenKey (token_Hash x)) now (token_ExpiresAt x) x"

definition TokenRepository_Delete :: "('db, 'txn, 'b) badger \<Rightarrow> string \<Rightarrow> ('db, unit) op" where
  "TokenRepository_Delete B hash = repo_Delete B (tokenKey hash) token_notFound"

text \<open>The scan of \<^verbatim>\<open>deleteWhere\<close> that collects the matching keys, then the deletions.\<close>

fun matching_keys :: "('b \<Rightarrow> 'a result) \<Rightarrow> ('a \<Rightarrow> bool) \<Rightarrow> (string \<times> 'b result) list \<Rightarrow> string list result" where
  "matching_keys um match [] = Inr []"
| "matching_keys um match ((key, val) # it) =
     bind_res (bind_res val um) (\<lambda>x.
       bind_res (matching_keys um match it) (\<lambda>keys. Inr (if match x then key # keys else keys)))"

fun delete_keys :: "('db, 'txn, 'b) badger \<Rightarrow> string list \<Rightarrow> 'txn \<Rightarrow> (unit \<times> 'txn) result" where
  "delete_keys B [] txn = Inr ((), txn)"
| "delete_keys B (k # ks) txn = bind_res (txn_Delete B k txn) (delete_keys B ks)"

definition deleteWhere :: "('db, 'txn, 'b) badger \<Rightarrow> 'b json_lib \<Rightarrow> (token \<Rightarrow> bool) \<Rightarrow> ('db, unit) op" where
  "deleteWhere B J match =
     db_Update B (\<lambda>txn.
       bind_res (matching_keys (repo_unmarshal (json_token J)) match (txn_Iterator B txn tokenPrefix)) (\<lambda>keys.
         delete_keys B keys txn))"

definition TokenRepository_DeleteByUserId :: "('db, 'txn, 'b) badger \<Rightarrow> 'b json_lib \<Rightarrow> string \<Rightarrow> ('db, unit) op" where
  "TokenRepository_DeleteByUserId B J userId = deleteWhere B J (\<lambda>t. token_UserId t = userId)"

definition TokenRepository_DeleteByAgentId :: "('db, 'txn, 'b) badger \<Rightarrow> 'b json_lib \<Rightarrow> string \<Rightarrow> ('db, unit) op" where
  "TokenRepository_DeleteByAgentId B J agentId = deleteWhere B J (\<lambda>t. token_AgentId t = agentId)"

definition registrationTokenPrefix :: string where "registrationTokenPrefix = ''registration_tokens:''"

definition registrationTokenKey :: "string \<Rightarrow> string" where "registrationTokenKey hash = registrationTokenPrefix @ hash"

definition RegistrationTokenRepository_Save ::
  "('db, 'txn, 'b) badger \<Rightarrow> 'b json_lib \<Rightarrow> time \<Rightarrow> registration_token \<Rightarrow> ('db, unit) op" where
  "RegistrationTokenRepository_Save B J now x =
     (if rtok_ExpiresAt x = None then lift_op (Inl (Sentinel ErrTokenMustExpire))
      else repo_SaveTTL B (json_registration_token J) ''RegistrationToken'' (Wrapf ''marshall registration token: %w'' [])
             (registrationTokenKey (rtok_Hash x)) now (rtok_ExpiresAt x) x)"

definition RegistrationTokenRepository_Consume ::
  "('db, 'txn, 'b) badger \<Rightarrow> 'b json_lib \<Rightarrow> string \<Rightarrow> ('db, registration_token) op" where
  "RegistrationTokenRepository_Consume B J hash =
     db_Update B (\<lambda>txn.
       bind_res (repo_find_txn B (json_registration_token J) (registrationTokenKey hash)
                   (Wrapf ''registration token not found: %w'' [] (Sentinel ErrNotFound)) txn) (\<lambda>token.
       bind_res (txn_Delete B (registrationTokenKey hash) txn) (\<lambda>txn. Inr (token, txn))))"

lemmas prefix_defs = proxyPrefix_def poolPrefix_def balancerPrefix_def routerPrefix_def flowPrefix_def entrypointPrefix_def userPrefix_def agentPrefix_def tokenPrefix_def registrationTokenPrefix_def
lemmas key_defs = proxyKey_def poolKey_def balancerKey_def routerKey_def flowKey_def entrypointKey_def userKey_def agentKey_def tokenKey_def registrationTokenKey_def

section \<open>What a page is\<close>

text \<open>
  The reference for both paths of \<^verbatim>\<open>listWithCursor\<close>: of the matching entries in key order, those
  from the cursor on, as many as the page holds (0 is no limit), and the next identifier.
\<close>

definition page_of :: "string \<Rightarrow> list_params \<Rightarrow> (string \<times> 'a) list \<Rightarrow> 'a list_result" where
  "page_of pfx params kvs =
     (let ys = (if Cursor params = [] then kvs else seek (pfx @ Cursor params) kvs);
          n = nat (PageSize params)
      in if PageSize params = 0 then \<lparr>Items = map snd ys, NextCursor = [], TotalCount = int (length kvs)\<rparr>
         else \<lparr>Items = map snd (take n ys),
               NextCursor = (if n < length ys then drop (length pfx) (fst (ys ! n)) else []),
               TotalCount = int (length kvs)\<rparr>)"

text \<open>The entries of an iterator, decoded.\<close>

definition decodes :: "('b \<Rightarrow> 'a result) \<Rightarrow> (string \<times> 'b result) list \<Rightarrow> (string \<times> 'a) list \<Rightarrow> bool" where
  "decodes um = list_all2 (\<lambda>(k, v) (k', x). k = k' \<and> bind_res v um = Inr x)"

lemma decodes_simps [simp]:
  "decodes um [] kvs \<longleftrightarrow> kvs = []"
  "decodes um ((k, v) # it) kvs \<longleftrightarrow> (\<exists>x kvs'. kvs = (k, x) # kvs' \<and> bind_res v um = Inr x \<and> decodes um it kvs')"
  by (auto simp: decodes_def list_all2_Cons1)

lemma decodes_length: "decodes um it kvs \<Longrightarrow> length kvs = length it"
  by (simp add: decodes_def list_all2_lengthD)

lemma decodes_keys: "decodes um it kvs \<Longrightarrow> map fst kvs = map fst it"
  by (induction it arbitrary: kvs) auto

lemma decodes_seek: "decodes um it kvs \<Longrightarrow> decodes um (seek k it) (seek k kvs)"
  by (induction it arbitrary: kvs) (auto simp: seek_def)

lemma decodes_mem:
  assumes "decodes um it kvs" "distinct (map fst it)"
  shows "(k, x) \<in> set kvs \<longleftrightarrow> (\<exists>v. (k, v) \<in> set it \<and> bind_res v um = Inr x)"
  using assms
proof (induction it arbitrary: kvs)
  case Nil
  then show ?case by simp
next
  case (Cons a it)
  then obtain k' v y kvs' where a: "a = (k', v)" "kvs = (k', y) # kvs'" "bind_res v um = Inr y" "decodes um it kvs'"
    by (cases a) auto
  from Cons.IH [OF a(4)] Cons.prems(2) a show ?case by auto
qed

lemma collect_page_eq:
  assumes "decodes um it kvs"
  shows "collect_page pfx params um n res it = Inr (
    if PageSize params = 0 then res\<lparr>Items := Items res @ map snd kvs\<rparr>
    else res\<lparr>Items := Items res @ map snd (take (nat (PageSize params) - n) kvs),
             NextCursor := (if nat (PageSize params) - n < length kvs
               then drop (length pfx) (fst (kvs ! (nat (PageSize params) - n))) else NextCursor res)\<rparr>)"
  using assms
proof (induction pfx params um n res it arbitrary: kvs rule: collect_page.induct)
  case (1 pfx params um n res)
  then show ?case by simp
next
  case (2 pfx params um n res k v it)
  from "2.prems" obtain x kvs' where kvs: "kvs = (k, x) # kvs'" "bind_res v um = Inr x" "decodes um it kvs'" by auto
  show ?case
  proof (cases "at_page_end params n")
    case True
    then have "nat (PageSize params) - n = 0" "PageSize params \<noteq> 0" by (auto simp: at_page_end_def)
    with True kvs show ?thesis by simp
  next
    case False
    then have "PageSize params = 0 \<or> nat (PageSize params) - n = Suc (nat (PageSize params) - Suc n)"
      by (auto simp: at_page_end_def)
    with False kvs "2.IH" [OF False kvs(3)] show ?thesis by auto
  qed
qed

lemma scan_filtered_eq:
  assumes "decodes um it kvs"
  shows "scan_filtered pfx params um pred reached n full res it = Inr (
    let fs = filter (\<lambda>(k, x). pred x) kvs;
        ys = (if reached then fs else seek (pfx @ Cursor params) fs);
        res = res\<lparr>TotalCount := TotalCount res + int (length fs)\<rparr>
    in if full then res
       else if PageSize params = 0 then res\<lparr>Items := Items res @ map snd ys\<rparr>
       else res\<lparr>Items := Items res @ map snd (take (nat (PageSize params) - n) ys),
             NextCursor := (if nat (PageSize params) - n < length ys
               then drop (length pfx) (fst (ys ! (nat (PageSize params) - n))) else NextCursor res)\<rparr>)"
  using assms
proof (induction pfx params um pred reached n full res it arbitrary: kvs rule: scan_filtered.induct)
  case (1 pfx params um pred reached n full res)
  then show ?case by (simp add: seek_def)
next
  case (2 pfx params um pred reached n full res k v it)
  from "2.prems" obtain x kvs' where kvs: "kvs = (k, x) # kvs'" "bind_res v um = Inr x" "decodes um it kvs'" by auto
  have pe: "at_page_end params n \<Longrightarrow> nat (PageSize params) - n = 0 \<and> PageSize params \<noteq> 0"
    "\<not> at_page_end params n \<Longrightarrow> PageSize params = 0 \<or> nat (PageSize params) - n = Suc (nat (PageSize params) - Suc n)"
    by (auto simp: at_page_end_def)
  let ?reached = "reached \<or> pfx @ Cursor params \<le> k"
  consider "\<not> pred x" | "pred x" "\<not> ?reached" | "pred x" ?reached full
    | "pred x" ?reached "\<not> full" "at_page_end params n" | "pred x" ?reached "\<not> full" "\<not> at_page_end params n" by blast
  then show ?case
  proof cases
    case 1
    with "2.IH"(1) [OF 1 kvs(3)] kvs show ?thesis by (simp add: Let_def seek_def)
  next
    case 2
    then have "(pfx @ Cursor params \<le> k) = False" "k < pfx @ Cursor params" "reached = False" by auto
    with 2 "2.IH"(2) [of x, OF _ refl refl _ kvs(3)] kvs show ?thesis
      by (cases full; cases "PageSize params = 0") (simp_all add: Let_def seek_def algebra_simps)
  next
    case 3
    with "2.IH"(3) [of x, OF _ refl refl _ _ kvs(3)] kvs show ?thesis by (simp add: Let_def algebra_simps)
  next
    case 4
    with "2.IH"(4) [of x, OF _ refl refl _ _ _ kvs(3)] kvs pe(1) show ?thesis by (auto simp: Let_def seek_def not_less algebra_simps)
  next
    case 5
    with "2.IH"(5) [of x, OF _ refl refl _ _ _ kvs(3)] kvs pe(2) show ?thesis
      by (cases "PageSize params = 0") (auto simp: Let_def seek_def not_less algebra_simps)
  qed
qed

text \<open>A listing that succeeds without a limit has decoded every entry.\<close>

lemma collect_page_decodes:
  assumes "collect_page pfx params um n res it = Inr res'" "PageSize params = 0"
  obtains kvs where "decodes um it kvs"
proof -
  from assms have "\<exists>kvs. decodes um it kvs"
  proof (induction pfx params um n res it rule: collect_page.induct)
    case (1 pfx params um n res)
    show ?case by (rule exI [of _ "[]"]) simp
  next
    case (2 pfx params um n res k v it)
    from "2.prems" obtain x where x: "bind_res v um = Inr x" and page: "\<not> at_page_end params n"
      and rec: "collect_page pfx params um (Suc n) (res\<lparr>Items := Items res @ [x]\<rparr>) it = Inr res'"
      by (auto simp: at_page_end_def res_simps)
    from "2.IH" [OF page rec "2.prems"(2)] x show ?case by force
  qed
  then show thesis using that by blast
qed

lemma scan_filtered_decodes:
  assumes "scan_filtered pfx params um pred reached n full res it = Inr res'"
  obtains kvs where "decodes um it kvs"
proof -
  from assms have "\<exists>kvs. decodes um it kvs"
  proof (induction pfx params um pred reached n full res it rule: scan_filtered.induct)
    case (1 pfx params um pred reached n full res)
    show ?case by (rule exI [of _ "[]"]) simp
  next
    case (2 pfx params um pred reached n full res k v it)
    then obtain x where x: "bind_res v um = Inr x" by (cases "bind_res v um") auto
    with "2.prems" have "\<exists>kvs. decodes um it kvs"
      using "2.IH" [of x] by (auto simp: Let_def split: if_splits)
    with x show ?case by force
  qed
  then show thesis using that by blast
qed

lemma listWithCursor_all:
  assumes "listWithCursor B txn pfx all_params um pred = Inr res"
  obtains kvs where "decodes um (txn_Iterator B txn pfx) kvs"
    "Items res = map snd (filter (\<lambda>(k, x). accepts pred x) kvs)"
proof (cases pred)
  case None
  with assms have c: "collect_page pfx all_params um 0 (empty_result\<lparr>TotalCount := int (length (txn_Iterator B txn pfx))\<rparr>)
      (txn_Iterator B txn pfx) = Inr res"
    by (simp add: listWithCursor_def Let_def all_params_def)
  obtain kvs where kvs: "decodes um (txn_Iterator B txn pfx) kvs"
    by (rule collect_page_decodes [OF c]) (auto simp: all_params_def)
  with c collect_page_eq [OF kvs] None show ?thesis
    by (intro that [OF kvs]) (auto simp: all_params_def accepts_def empty_result_def)
next
  case (Some f)
  with assms have c: "scan_filtered pfx all_params um f True 0 False empty_result (txn_Iterator B txn pfx) = Inr res"
    by (simp add: listWithCursor_def Let_def all_params_def)
  obtain kvs where kvs: "decodes um (txn_Iterator B txn pfx) kvs" by (rule scan_filtered_decodes [OF c])
  with c scan_filtered_eq [OF kvs] Some show ?thesis
    by (intro that [OF kvs]) (auto simp: all_params_def accepts_def empty_result_def Let_def)
qed

end
