(* ===== verification/Badger_Store.thy ===== *)
theory Badger_Store
  imports Badger
begin

text \<open>
  The repositories of \<^verbatim>\<open>adapters/repository/badger\<close> against their contracts.  \<open>abs_store\<close> reads the
  key-value pairs as one map per resource kind; the locale \<open>badger_db\<close> states what the code relies
  on of Badger, \<open>badger_store\<close> adds the codec, and the sublocales derive the repository contracts
  of \<open>Ports\<close> from them.  A reference key-value store in memory interprets both locales.
\<close>

section \<open>What a listing returns\<close>

lemma listWithCursor_page:
  assumes "decodes um (txn_Iterator B txn pfx) kvs"
  shows "listWithCursor B txn pfx params um pred = Inr (page_of pfx params (filter (\<lambda>(k, x). accepts pred x) kvs))"
proof (cases pred)
  case None
  let ?it = "if Cursor params \<noteq> [] then seek (pfx @ Cursor params) (txn_Iterator B txn pfx) else txn_Iterator B txn pfx"
  let ?ys = "if Cursor params = [] then kvs else seek (pfx @ Cursor params) kvs"
  have all: "filter (\<lambda>(k, x). accepts None x) kvs = kvs" by (induction kvs) (auto simp: accepts_def)
  have "decodes um ?it ?ys" using assms decodes_seek [OF assms] by simp
  from collect_page_eq [OF this, of pfx params 0] show ?thesis
    unfolding listWithCursor_def page_of_def Let_def using None decodes_length [OF assms] all
    by (cases "PageSize params = 0") (simp_all add: empty_result_def)
next
  case (Some f)
  then show ?thesis
    using scan_filtered_eq [OF assms] by (auto simp: listWithCursor_def page_of_def Let_def accepts_def empty_result_def)
qed

section \<open>What the store contains\<close>

definition abs_map :: "('a, 'b) json \<Rightarrow> string \<Rightarrow> (string \<rightharpoonup> 'b) \<Rightarrow> (string \<rightharpoonup> 'a)" where
  "abs_map J pfx m i =
     (case m (pfx @ i) of None \<Rightarrow> None | Some b \<Rightarrow> (case repo_unmarshal J b of Inl _ \<Rightarrow> None | Inr x \<Rightarrow> Some x))"

lemma abs_map_Some: "abs_map J pfx m i = Some x \<longleftrightarrow> (\<exists>b. m (pfx @ i) = Some b \<and> repo_unmarshal J b = Inr x)"
  by (auto simp: abs_map_def split: option.splits sum.splits)

definition abs_store :: "'b json_lib \<Rightarrow> (string \<rightharpoonup> 'b) \<Rightarrow> store" where
  "abs_store J m =
     \<lparr>st_proxies = abs_map (json_proxy J) proxyPrefix m,
      st_pools = abs_map (json_pool J) poolPrefix m,
      st_balancers = abs_map (json_balancer J) balancerPrefix m,
      st_routers = abs_map (json_router J) routerPrefix m,
      st_flows = abs_map (json_flow J) flowPrefix m,
      st_entrypoints = abs_map (json_entrypoint J) entrypointPrefix m,
      st_users = abs_map (json_user J) userPrefix m,
      st_agents = abs_map (json_agent J) agentPrefix m,
      st_tokens = abs_map (json_token J) tokenPrefix m,
      st_registration_tokens = abs_map (json_registration_token J) registrationTokenPrefix m\<rparr>"

lemma abs_store_sel [simp]:
  "st_proxies (abs_store J m) = abs_map (json_proxy J) proxyPrefix m"
  "st_pools (abs_store J m) = abs_map (json_pool J) poolPrefix m"
  "st_balancers (abs_store J m) = abs_map (json_balancer J) balancerPrefix m"
  "st_routers (abs_store J m) = abs_map (json_router J) routerPrefix m"
  "st_flows (abs_store J m) = abs_map (json_flow J) flowPrefix m"
  "st_entrypoints (abs_store J m) = abs_map (json_entrypoint J) entrypointPrefix m"
  "st_users (abs_store J m) = abs_map (json_user J) userPrefix m"
  "st_agents (abs_store J m) = abs_map (json_agent J) agentPrefix m"
  "st_tokens (abs_store J m) = abs_map (json_token J) tokenPrefix m"
  "st_registration_tokens (abs_store J m) = abs_map (json_registration_token J) registrationTokenPrefix m"
  by (simp_all add: abs_store_def)

text \<open>The kinds do not share keys: a write under one prefix changes one component of the store.\<close>

lemma abs_map_upd:
  "abs_map J pfx (m(pfx @ i := v)) =
     (abs_map J pfx m)(i := (case v of None \<Rightarrow> None | Some b \<Rightarrow> (case repo_unmarshal J b of Inl _ \<Rightarrow> None | Inr x \<Rightarrow> Some x)))"
  by (auto simp: abs_map_def fun_eq_iff)

lemma abs_map_other: "(\<And>j. pfx @ j \<noteq> k) \<Longrightarrow> abs_map J pfx (m(k := v)) = abs_map J pfx m"
  by (auto simp: abs_map_def fun_eq_iff)

lemma abs_store_proxy:
  "abs_store J (m(proxyKey i := v)) =
     (abs_store J m)\<lparr>st_proxies := abs_map (json_proxy J) proxyPrefix (m(proxyKey i := v))\<rparr>"
  unfolding abs_store_def by (simp add: abs_map_other key_defs prefix_defs)

lemma abs_store_pool:
  "abs_store J (m(poolKey i := v)) =
     (abs_store J m)\<lparr>st_pools := abs_map (json_pool J) poolPrefix (m(poolKey i := v))\<rparr>"
  unfolding abs_store_def by (simp add: abs_map_other key_defs prefix_defs)

lemma abs_store_balancer:
  "abs_store J (m(balancerKey i := v)) =
     (abs_store J m)\<lparr>st_balancers := abs_map (json_balancer J) balancerPrefix (m(balancerKey i := v))\<rparr>"
  unfolding abs_store_def by (simp add: abs_map_other key_defs prefix_defs)

lemma abs_store_router:
  "abs_store J (m(routerKey i := v)) =
     (abs_store J m)\<lparr>st_routers := abs_map (json_router J) routerPrefix (m(routerKey i := v))\<rparr>"
  unfolding abs_store_def by (simp add: abs_map_other key_defs prefix_defs)

lemma abs_store_flow:
  "abs_store J (m(flowKey i := v)) =
     (abs_store J m)\<lparr>st_flows := abs_map (json_flow J) flowPrefix (m(flowKey i := v))\<rparr>"
  unfolding abs_store_def by (simp add: abs_map_other key_defs prefix_defs)

lemma abs_store_entrypoint:
  "abs_store J (m(entrypointKey i := v)) =
     (abs_store J m)\<lparr>st_entrypoints := abs_map (json_entrypoint J) entrypointPrefix (m(entrypointKey i := v))\<rparr>"
  unfolding abs_store_def by (simp add: abs_map_other key_defs prefix_defs)

lemma abs_store_user:
  "abs_store J (m(userKey i := v)) =
     (abs_store J m)\<lparr>st_users := abs_map (json_user J) userPrefix (m(userKey i := v))\<rparr>"
  unfolding abs_store_def by (simp add: abs_map_other key_defs prefix_defs)

lemma abs_store_agent:
  "abs_store J (m(agentKey i := v)) =
     (abs_store J m)\<lparr>st_agents := abs_map (json_agent J) agentPrefix (m(agentKey i := v))\<rparr>"
  unfolding abs_store_def by (simp add: abs_map_other key_defs prefix_defs)

lemma abs_store_token:
  "abs_store J (m(tokenKey i := v)) =
     (abs_store J m)\<lparr>st_tokens := abs_map (json_token J) tokenPrefix (m(tokenKey i := v))\<rparr>"
  unfolding abs_store_def by (simp add: abs_map_other key_defs prefix_defs)

lemma abs_store_registrationToken:
  "abs_store J (m(registrationTokenKey i := v)) =
     (abs_store J m)\<lparr>st_registration_tokens := abs_map (json_registration_token J) registrationTokenPrefix (m(registrationTokenKey i := v))\<rparr>"
  unfolding abs_store_def by (simp add: abs_map_other key_defs prefix_defs)

lemmas abs_store_upd = abs_store_proxy abs_store_pool abs_store_balancer abs_store_router abs_store_flow abs_store_entrypoint abs_store_user abs_store_agent abs_store_token abs_store_registrationToken

text \<open>Decoding what was encoded gives the resource back, less its unexported fields.\<close>

definition codec_ok :: "('a, 'b) json \<Rightarrow> ('a \<Rightarrow> 'a) \<Rightarrow> bool" where
  "codec_ok J persist \<longleftrightarrow>
     (\<forall>x b. Marshal J x = Inr b \<longrightarrow> Unmarshal J b = Inr (x\<lparr>Spec := persist (Spec x)\<rparr>))"

definition json_ok :: "'b json_lib \<Rightarrow> bool" where
  "json_ok J \<longleftrightarrow>
     codec_ok (json_proxy J) id \<and> codec_ok (json_pool J) persist_pool \<and> codec_ok (json_balancer J) id \<and>
     codec_ok (json_router J) strip_router \<and> codec_ok (json_flow J) id \<and> codec_ok (json_entrypoint J) id \<and>
     codec_ok (json_user J) id \<and> codec_ok (json_token J) id \<and> codec_ok (json_agent J) id \<and>
     codec_ok (json_registration_token J) id"

lemma repo_marshal_unmarshal:
  assumes "codec_ok J persist" "repo_marshal J kind x = Inr b"
  shows "repo_unmarshal J b = Inr (persist x)"
  using assms by (auto simp: codec_ok_def repo_marshal_def repo_unmarshal_def)

text \<open>An error that is none of the sentinels of this repository.\<close>

definition foreign :: "err \<Rightarrow> bool" where
  "foreign e \<longleftrightarrow> (\<forall>t. \<not> errors_Is e t)"

text \<open>
  What the code relies on of Badger.  \<open>contents\<close> is what a transaction that starts now sees: an
  entry whose time to live has passed is not in it.  Badger counts a time to live in whole
  seconds, so an entry written with less than a second may never be seen.
\<close>

locale badger_db =
  fixes B :: "('db, 'txn, 'b) badger"
    and contents :: "'db \<Rightarrow> string \<rightharpoonup> 'b"
    and txn_contents :: "'txn \<Rightarrow> string \<rightharpoonup> 'b"
  assumes txn_start: "txn_contents (NewTransaction B db) = contents db"
    and txn_finite: "finite (dom (txn_contents txn))"
    and commit_ok: "Commit B txn db = (Inr u, db') \<Longrightarrow> contents db' = txn_contents txn"
    and commit_fail: "Commit B txn db = (Inl e, db') \<Longrightarrow> contents db' = contents db \<and> foreign e"
    and get_none: "txn_Get B txn k = Inr None \<Longrightarrow> txn_contents txn k = None"
    and get_some: "txn_Get B txn k = Inr (Some item) \<Longrightarrow>
          \<exists>v. txn_contents txn k = Some v \<and> (item = Inr v \<or> (\<exists>e. item = Inl e \<and> foreign e))"
    and get_fail: "txn_Get B txn k = Inl e \<Longrightarrow> foreign e"
    and set_ok: "txn_SetEntry B k v ttl txn = Inr txn' \<Longrightarrow> (\<And>d. ttl = Some d \<Longrightarrow> Second \<le> d) \<Longrightarrow>
          txn_contents txn' = (txn_contents txn)(k \<mapsto> v)"
    and set_short: "txn_SetEntry B k v ttl txn = Inr txn' \<Longrightarrow>
          txn_contents txn' = (txn_contents txn)(k \<mapsto> v) \<or> txn_contents txn' = (txn_contents txn)(k := None)"
    and set_fail: "txn_SetEntry B k v ttl txn = Inl e \<Longrightarrow> foreign e"
    and delete_ok: "txn_Delete B k txn = Inr txn' \<Longrightarrow> txn_contents txn' = (txn_contents txn)(k := None)"
    and delete_fail: "txn_Delete B k txn = Inl e \<Longrightarrow> foreign e"
    and iter_keys: "map fst (txn_Iterator B txn p) = sorted_list_of_set {k \<in> dom (txn_contents txn). HasPrefix k p}"
    and iter_value: "(k, item) \<in> set (txn_Iterator B txn p) \<Longrightarrow>
          \<exists>v. txn_contents txn k = Some v \<and> (item = Inr v \<or> (\<exists>e. item = Inl e \<and> foreign e))"
begin

lemma iter_dom:
  assumes "HasPrefix k p" "txn_contents txn k = Some v"
  shows "\<exists>item. (k, item) \<in> set (txn_Iterator B txn p)"
proof -
  have "k \<in> set (map fst (txn_Iterator B txn p))"
    unfolding iter_keys using assms txn_finite [of txn] by (subst set_sorted_list_of_set) (auto intro: finite_subset [OF _ txn_finite])
  then show ?thesis by auto
qed

lemma iter_prefix: "(k, item) \<in> set (txn_Iterator B txn p) \<Longrightarrow> HasPrefix k p"
proof -
  assume "(k, item) \<in> set (txn_Iterator B txn p)"
  then have "k \<in> set (map fst (txn_Iterator B txn p))" by force
  then show ?thesis
    unfolding iter_keys by (subst (asm) set_sorted_list_of_set) (auto intro: finite_subset [OF _ txn_finite])
qed

lemma update_cases:
  assumes "db_Update B f db = (r, db')"
  shows "(contents db' = contents db \<and> (\<exists>e. r = Inl e \<and> (f (NewTransaction B db) = Inl e \<or> foreign e))) \<or>
         (\<exists>x txn. f (NewTransaction B db) = Inr (x, txn) \<and> r = Inr x \<and> contents db' = txn_contents txn)"
  using assms commit_ok commit_fail
  by (fastforce simp: db_Update_def split: sum.splits prod.splits)

lemma repo_find_ok:
  assumes "repo_Find B J (pfx @ i) nf db = Inr x"
  shows "abs_map J pfx (contents db) i = Some x"
  using assms get_some [of "NewTransaction B db" "pfx @ i"] txn_start [of db]
  by (fastforce simp: repo_Find_def db_View_def repo_find_txn_def get_item_def abs_map_def res_simps split: option.splits)

lemma repo_find_missing:
  assumes "repo_Find B J (pfx @ i) nf db = Inl e" "errors_Is e t"
  shows "abs_map J pfx (contents db) i = None"
proof -
  let ?txn = "NewTransaction B db"
  from assms consider "txn_Get B ?txn (pfx @ i) = Inl e" | "txn_Get B ?txn (pfx @ i) = Inr None"
    | "txn_Get B ?txn (pfx @ i) = Inr (Some (Inl e))"
    | v where "txn_Get B ?txn (pfx @ i) = Inr (Some (Inr v))" "repo_unmarshal J v = Inl e"
    by (auto simp: repo_Find_def db_View_def repo_find_txn_def get_item_def res_simps split: option.splits)
  then show ?thesis
  proof cases
    case 1
    with get_fail assms(2) show ?thesis by (auto simp: foreign_def)
  next
    case 2
    from get_none [OF this] show ?thesis by (simp add: abs_map_def txn_start)
  next
    case 3
    from get_some [OF this] assms(2) show ?thesis by (auto simp: foreign_def)
  next
    case 4
    from get_some [OF 4(1)] 4(2) show ?thesis by (auto simp: abs_map_def txn_start)
  qed
qed

lemma repo_save_ok:
  assumes "repo_Save B J kind msg k x db = (Inr u, db')" "codec_ok J persist"
  shows "\<exists>b. contents db' = (contents db)(k \<mapsto> b) \<and> repo_unmarshal J b = Inr (persist x)"
proof -
  from assms(1) obtain b where b: "repo_marshal J kind x = Inr b" "db_Update B (set_only B k b) db = (Inr u, db')"
    by (auto simp: repo_Save_def res_simps split: sum.splits)
  from update_cases [OF b(2)] obtain txn where txn: "set_only B k b (NewTransaction B db) = Inr (u, txn)"
    "contents db' = txn_contents txn" by auto
  then have "txn_contents txn = (contents db)(k \<mapsto> b)"
    using set_ok [of k b None] by (auto simp: set_only_def res_simps txn_start)
  with txn(2) repo_marshal_unmarshal [OF assms(2) b(1)] show ?thesis by auto
qed

lemma repo_save_fail:
  assumes "repo_Save B J kind msg k x db = (Inl e, db')"
  shows "contents db' = contents db"
  using assms by (auto simp: repo_Save_def res_simps split: sum.splits dest!: update_cases)

lemma repo_delete_ok:
  assumes "repo_Delete B k nf db = (Inr u, db')"
  shows "contents db' = (contents db)(k := None)"
  using update_cases [OF assms [unfolded repo_Delete_def]] delete_ok
  by (auto simp: res_simps txn_start)

lemma repo_delete_fail:
  assumes "repo_Delete B k nf db = (Inl e, db')"
  shows "contents db' = contents db"
  using update_cases [OF assms [unfolded repo_Delete_def]] by auto

lemma iter_distinct: "distinct (map fst (txn_Iterator B txn p))"
  by (simp add: iter_keys)

text \<open>The decoded entries of an iterator are the kind's component of the abstract store.\<close>

lemma iter_abs_map:
  assumes "decodes (repo_unmarshal J) (txn_Iterator B txn pfx) kvs"
  shows "(k, x) \<in> set kvs \<longleftrightarrow> (\<exists>i. k = pfx @ i \<and> abs_map J pfx (txn_contents txn) i = Some x)"
proof
  assume "(k, x) \<in> set kvs"
  then obtain item where i: "(k, item) \<in> set (txn_Iterator B txn pfx)" "bind_res item (repo_unmarshal J) = Inr x"
    using decodes_mem [OF assms iter_distinct] by blast
  from iter_prefix [OF i(1)] obtain i where "k = pfx @ i" by (auto simp: HasPrefix_def prefix_def)
  with i iter_value [OF i(1)] show "\<exists>i. k = pfx @ i \<and> abs_map J pfx (txn_contents txn) i = Some x"
    by (auto simp: abs_map_Some res_simps)
next
  assume "\<exists>i. k = pfx @ i \<and> abs_map J pfx (txn_contents txn) i = Some x"
  then obtain i b where k: "k = pfx @ i" "txn_contents txn k = Some b" "repo_unmarshal J b = Inr x"
    by (auto simp: abs_map_Some)
  then obtain item where it: "(k, item) \<in> set (txn_Iterator B txn pfx)"
    using iter_dom [of k pfx txn b] by (auto simp: HasPrefix_def)
  then have "k \<in> fst ` set kvs" using decodes_keys [OF assms] by (metis fst_conv image_eqI image_set)
  then obtain y where "(k, y) \<in> set kvs" by force
  then obtain item' where "(k, item') \<in> set (txn_Iterator B txn pfx)" "bind_res item' (repo_unmarshal J) = Inr y"
    using decodes_mem [OF assms iter_distinct] by blast
  with iter_value k(2,3) have "y = x" by (fastforce simp: res_simps)
  with \<open>(k, y) \<in> set kvs\<close> show "(k, x) \<in> set kvs" by simp
qed

lemma repo_list_all:
  assumes "repo_List B J pfx all_params pred db = Inr res"
  shows "set (Items res) = {r \<in> ran (abs_map J pfx (contents db)). accepts pred r}"
proof -
  from assms obtain kvs where kvs: "decodes (repo_unmarshal J) (txn_Iterator B (NewTransaction B db) pfx) kvs"
    "Items res = map snd (filter (\<lambda>(k, x). accepts pred x) kvs)"
    unfolding repo_List_def db_View_def by (rule listWithCursor_all)
  then have "set (Items res) = {x. (\<exists>k. (k, x) \<in> set kvs) \<and> accepts pred x}" by force
  then show ?thesis
    by (auto simp: iter_abs_map [OF kvs(1)] txn_start ran_def)
qed

lemma repo_list_total:
  assumes "repo_List B J pfx all_params pred db = Inr res"
  shows "TotalCount res = int (card {i. \<exists>r. abs_map J pfx (contents db) i = Some r \<and> accepts pred r})"
proof -
  let ?it = "txn_Iterator B (NewTransaction B db) pfx"
  from assms obtain kvs where kvs: "decodes (repo_unmarshal J) ?it kvs"
    unfolding repo_List_def db_View_def by (rule listWithCursor_all)
  let ?f = "filter (\<lambda>(k, x). accepts pred x) kvs"
  have "TotalCount res = int (length ?f)"
    using assms listWithCursor_page [OF kvs, of all_params pred]
    by (simp add: repo_List_def db_View_def page_of_def all_params_def Let_def)
  moreover have "distinct (map fst ?f)"
    using decodes_keys [OF kvs] iter_distinct [of "NewTransaction B db" pfx] by (simp add: distinct_map_filter)
  then have "length ?f = card (fst ` set ?f)"
    by (metis distinct_card length_map list.set_map)
  moreover have "fst ` set ?f = (\<lambda>i. pfx @ i) ` {i. \<exists>r. abs_map J pfx (contents db) i = Some r \<and> accepts pred r}"
  proof -
    have "fst ` set ?f = {k. \<exists>x. (k, x) \<in> set kvs \<and> accepts pred x}" by force
    also have "\<dots> = {k. \<exists>x. (\<exists>i. k = pfx @ i \<and> abs_map J pfx (contents db) i = Some x) \<and> accepts pred x}"
      unfolding iter_abs_map [OF kvs] txn_start ..
    also have "\<dots> = (\<lambda>i. pfx @ i) ` {i. \<exists>r. abs_map J pfx (contents db) i = Some r \<and> accepts pred r}" by blast
    finally show ?thesis .
  qed
  moreover have "inj (\<lambda>i. pfx @ i)" by (simp add: inj_def)
  ultimately show ?thesis by (simp add: card_image inj_on_def del: set_filter)
qed

lemma abs_map_finite: "finite (dom (abs_map J pfx (contents db)))"
proof -
  have "(\<lambda>i. pfx @ i) ` dom (abs_map J pfx (contents db)) \<subseteq> dom (contents db)"
    by (auto simp: abs_map_Some)
  moreover have "finite (dom (contents db))" using txn_finite [of "NewTransaction B db"] by (simp add: txn_start)
  ultimately show ?thesis by (metis finite_imageD finite_subset inj_on_def same_append_eq)
qed

end

section \<open>The repositories meet their contracts\<close>

locale badger_store = badger_db B contents txn_contents
  for B :: "('db, 'txn, 'b) badger" and contents and txn_contents +
  fixes J :: "'b json_lib"
  assumes json: "json_ok J"
begin

definition st :: "'db \<Rightarrow> store" where
  "st db = abs_store J (contents db)"

lemma codecs:
  "codec_ok (json_proxy J) id" "codec_ok (json_pool J) persist_pool" "codec_ok (json_balancer J) id"
  "codec_ok (json_router J) strip_router" "codec_ok (json_flow J) id" "codec_ok (json_entrypoint J) id"
  "codec_ok (json_user J) id" "codec_ok (json_token J) id" "codec_ok (json_agent J) id"
  "codec_ok (json_registration_token J) id"
  using json by (simp_all add: json_ok_def)

end

text \<open>One proof for the eight repositories that list, find, save and delete.\<close>

context badger_store
begin

lemma repo_contractI:
  assumes ops: "\<And>params f. port_List R params f = repo_List B j pfx params (filt f)"
    "\<And>i. port_Find R i = repo_Find B j (pfx @ i) (nf i)"
    "\<And>x. port_Save R x = repo_Save B j kind (msg x) (pfx @ key x) x"
    "\<And>i. port_Delete R i = repo_Delete B (pfx @ i) (nf i)"
    and codec: "codec_ok j persist"
    and sel: "\<And>m. sel (abs_store J m) = abs_map j pfx m"
    and upd: "\<And>m i v. abs_store J (m(pfx @ i := v)) = upd (\<lambda>_. abs_map j pfx (m(pfx @ i := v))) (abs_store J m)"
    and lens: "\<And>g s. upd (\<lambda>_. g (sel s)) s = upd g s"
  shows "repo_contract R st sel upd key persist filt"
proof
  fix i r db db' e u f res
  have written: "st db' = upd (\<lambda>m. m(i := w)) (st db)"
    if "contents db' = (contents db)(pfx @ i := v)"
      "w = (case v of None \<Rightarrow> None | Some b \<Rightarrow> (case repo_unmarshal j b of Inl _ \<Rightarrow> None | Inr x \<Rightarrow> Some x))" for i v w
    using that lens [of "\<lambda>m. m(i := w)" "st db"] by (simp add: st_def upd abs_map_upd sel)
  show "port_Find R i db = Inr r \<Longrightarrow> sel (st db) i = Some r"
    by (simp add: ops st_def sel repo_find_ok)
  show "port_Find R i db = Inl e \<Longrightarrow> errors_Is e ErrNotFound \<Longrightarrow> sel (st db) i = None"
    by (simp add: ops st_def sel repo_find_missing)
  show "st db' = upd (\<lambda>m. m(key r \<mapsto> persist r)) (st db)" if sv: "port_Save R r db = (Inr u, db')"
  proof -
    from repo_save_ok [OF sv [unfolded ops] codec] obtain b where
      "contents db' = (contents db)(pfx @ key r \<mapsto> b)" "repo_unmarshal j b = Inr (persist r)" by blast
    then show ?thesis by (intro written) auto
  qed
  show "port_Save R r db = (Inl e, db') \<Longrightarrow> st db' = st db"
    by (auto simp: ops st_def dest: repo_save_fail)
  show "port_Delete R i db = (Inr u, db') \<Longrightarrow> st db' = upd (\<lambda>m. m(i := None)) (st db)"
    by (auto simp: ops dest!: repo_delete_ok intro: written)
  show "port_Delete R i db = (Inl e, db') \<Longrightarrow> st db' = st db"
    by (auto simp: ops st_def dest: repo_delete_fail)
  show "port_List R all_params f db = Inr res \<Longrightarrow> set (Items res) = {r \<in> ran (sel (st db)). accepts (filt f) r}"
    by (simp add: ops st_def sel repo_list_all)
  show "port_List R all_params f db = Inr res \<Longrightarrow>
      TotalCount res = int (card {i. \<exists>r. sel (st db) i = Some r \<and> accepts (filt f) r})"
    by (simp add: ops st_def sel repo_list_total)
  show "finite (dom (sel (st db)))" by (simp add: st_def sel abs_map_finite)
qed

end

definition ProxyRepository :: "('db, 'txn, 'b) badger \<Rightarrow> 'b json_lib \<Rightarrow> 'db proxy_repository" where
  "ProxyRepository B J =
     \<lparr>port_List = ProxyRepository_List B J, port_Find = ProxyRepository_Find B J,
      port_Save = ProxyRepository_Save B J, port_Delete = ProxyRepository_Delete B,
      proxy_GetByIds = ProxyRepository_GetByIds B J, proxy_FindByLabels = ProxyRepository_FindByLabels B J\<rparr>"

definition PoolRepository :: "('db, 'txn, 'b) badger \<Rightarrow> 'b json_lib \<Rightarrow> (pool, pool_filter, 'db) repository" where
  "PoolRepository B J =
     \<lparr>port_List = PoolRepository_List B J, port_Find = PoolRepository_Find B J,
      port_Save = PoolRepository_Save B J, port_Delete = PoolRepository_Delete B\<rparr>"

definition BalancerRepository :: "('db, 'txn, 'b) badger \<Rightarrow> 'b json_lib \<Rightarrow> (load_balancer, balancer_filter, 'db) repository" where
  "BalancerRepository B J =
     \<lparr>port_List = BalancerRepository_List B J, port_Find = BalancerRepository_Find B J,
      port_Save = BalancerRepository_Save B J, port_Delete = BalancerRepository_Delete B\<rparr>"

definition RouterRepository :: "('db, 'txn, 'b) badger \<Rightarrow> 'b json_lib \<Rightarrow> (router, router_filter, 'db) repository" where
  "RouterRepository B J =
     \<lparr>port_List = RouterRepository_List B J, port_Find = RouterRepository_Find B J,
      port_Save = RouterRepository_Save B J, port_Delete = RouterRepository_Delete B\<rparr>"

definition FlowRepository :: "('db, 'txn, 'b) badger \<Rightarrow> 'b json_lib \<Rightarrow> (flow, flow_filter, 'db) repository" where
  "FlowRepository B J =
     \<lparr>port_List = FlowRepository_List B J, port_Find = FlowRepository_Find B J,
      port_Save = FlowRepository_Save B J, port_Delete = FlowRepository_Delete B\<rparr>"

definition EntrypointRepository :: "('db, 'txn, 'b) badger \<Rightarrow> 'b json_lib \<Rightarrow> (entrypoint, entrypoint_filter, 'db) repository" where
  "EntrypointRepository B J =
     \<lparr>port_List = EntrypointRepository_List B J, port_Find = EntrypointRepository_Find B J,
      port_Save = EntrypointRepository_Save B J, port_Delete = EntrypointRepository_Delete B\<rparr>"

definition UserRepository :: "('db, 'txn, 'b) badger \<Rightarrow> 'b json_lib \<Rightarrow> 'db user_repository" where
  "UserRepository B J =
     \<lparr>port_List = UserRepository_List B J, port_Find = UserRepository_Find B J,
      port_Save = UserRepository_Save B J, port_Delete = UserRepository_Delete B,
      user_Count = UserRepository_Count B, user_Create = UserRepository_Create B J\<rparr>"

definition AgentRepository :: "('db, 'txn, 'b) badger \<Rightarrow> 'b json_lib \<Rightarrow> 'db agent_repository" where
  "AgentRepository B J =
     \<lparr>port_List = AgentRepository_List B J, port_Find = AgentRepository_Find B J,
      port_Save = AgentRepository_Save B J, port_Delete = AgentRepository_Delete B,
      agent_Create = AgentRepository_Create B J\<rparr>"

definition TokenRepository :: "('db, 'txn, 'b) badger \<Rightarrow> 'b json_lib \<Rightarrow> 'db token_repository" where
  "TokenRepository B J =
     \<lparr>tok_Find = TokenRepository_Find B J, tok_Save = TokenRepository_Save B J, tok_Delete = TokenRepository_Delete B,
      tok_DeleteByUserId = TokenRepository_DeleteByUserId B J, tok_DeleteByAgentId = TokenRepository_DeleteByAgentId B J\<rparr>"

definition RegistrationTokenRepository :: "('db, 'txn, 'b) badger \<Rightarrow> 'b json_lib \<Rightarrow> 'db registration_token_repository" where
  "RegistrationTokenRepository B J =
     \<lparr>rtr_Save = RegistrationTokenRepository_Save B J, rtr_Consume = RegistrationTokenRepository_Consume B J\<rparr>"

lemmas repository_defs =
  ProxyRepository_def ProxyRepository_List_def ProxyRepository_Find_def ProxyRepository_Save_def ProxyRepository_Delete_def
  PoolRepository_def PoolRepository_List_def PoolRepository_Find_def PoolRepository_Save_def PoolRepository_Delete_def
  BalancerRepository_def BalancerRepository_List_def BalancerRepository_Find_def BalancerRepository_Save_def BalancerRepository_Delete_def
  RouterRepository_def RouterRepository_List_def RouterRepository_Find_def RouterRepository_Save_def RouterRepository_Delete_def
  FlowRepository_def FlowRepository_List_def FlowRepository_Find_def FlowRepository_Save_def FlowRepository_Delete_def
  EntrypointRepository_def EntrypointRepository_List_def EntrypointRepository_Find_def EntrypointRepository_Save_def EntrypointRepository_Delete_def
  UserRepository_def UserRepository_List_def UserRepository_Find_def UserRepository_Save_def UserRepository_Delete_def
  AgentRepository_def AgentRepository_List_def AgentRepository_Find_def AgentRepository_Save_def AgentRepository_Delete_def

sublocale badger_store \<subseteq> proxy_repo: repo_contract "ProxyRepository B J" st st_proxies st_proxies_update proxy_Id id buildProxyPredicate
  by (rule repo_contractI [where pfx = proxyPrefix]) (simp_all add: repository_defs codecs proxyKey_def abs_store_proxy [unfolded proxyKey_def])

sublocale badger_store \<subseteq> pool_repo: repo_contract "PoolRepository B J" st st_pools st_pools_update pool_Id persist_pool buildPoolPredicate
  by (rule repo_contractI [where pfx = poolPrefix]) (simp_all add: repository_defs codecs poolKey_def abs_store_pool [unfolded poolKey_def])

sublocale badger_store \<subseteq> balancer_repo: repo_contract "BalancerRepository B J" st st_balancers st_balancers_update lb_Id id buildBalancerPredicate
  by (rule repo_contractI [where pfx = balancerPrefix]) (simp_all add: repository_defs codecs balancerKey_def abs_store_balancer [unfolded balancerKey_def])

sublocale badger_store \<subseteq> router_repo: repo_contract "RouterRepository B J" st st_routers st_routers_update router_Id strip_router buildRouterPredicate
  by (rule repo_contractI [where pfx = routerPrefix]) (simp_all add: repository_defs codecs routerKey_def abs_store_router [unfolded routerKey_def])

sublocale badger_store \<subseteq> flow_repo: repo_contract "FlowRepository B J" st st_flows st_flows_update flow_Id id buildFlowPredicate
  by (rule repo_contractI [where pfx = flowPrefix]) (simp_all add: repository_defs codecs flowKey_def abs_store_flow [unfolded flowKey_def])

sublocale badger_store \<subseteq> entrypoint_repo: repo_contract "EntrypointRepository B J" st st_entrypoints st_entrypoints_update ep_Id id buildEntrypointPredicate
  by (rule repo_contractI [where pfx = entrypointPrefix]) (simp_all add: repository_defs codecs entrypointKey_def abs_store_entrypoint [unfolded entrypointKey_def])

sublocale badger_store \<subseteq> user_repo: repo_contract "UserRepository B J" st st_users st_users_update user_Id id buildUserPredicate
  by (rule repo_contractI [where pfx = userPrefix]) (simp_all add: repository_defs codecs userKey_def abs_store_user [unfolded userKey_def])

sublocale badger_store \<subseteq> agent_repo: repo_contract "AgentRepository B J" st st_agents st_agents_update agent_Id id buildAgentPredicate
  by (rule repo_contractI [where pfx = agentPrefix]) (simp_all add: repository_defs codecs agentKey_def abs_store_agent [unfolded agentKey_def])

section \<open>Users, agents, tokens\<close>

context badger_store
begin

lemma token_written:
  assumes "contents db' = (contents db)(tokenPrefix @ h := v)"
    and "w = (case v of None \<Rightarrow> None | Some b \<Rightarrow> (case repo_unmarshal (json_token J) b of Inl _ \<Rightarrow> None | Inr x \<Rightarrow> Some x))"
  shows "st db' = st_tokens_update (\<lambda>m. m(h := w)) (st db)"
  using assms by (simp add: st_def abs_store_token [unfolded tokenKey_def] abs_map_upd)

lemma registration_token_written:
  assumes "contents db' = (contents db)(registrationTokenPrefix @ h := v)"
    and "w = (case v of None \<Rightarrow> None | Some b \<Rightarrow> (case repo_unmarshal (json_registration_token J) b of Inl _ \<Rightarrow> None | Inr x \<Rightarrow> Some x))"
  shows "st db' = st_registration_tokens_update (\<lambda>m. m(h := w)) (st db)"
  using assms by (simp add: st_def abs_store_registrationToken [unfolded registrationTokenKey_def] abs_map_upd)

lemma create_ok:
  assumes "repo_Create B j kind msg taken k x db = (Inr u, db')" "codec_ok j persist"
  shows "\<exists>b. contents db k = None \<and> contents db' = (contents db)(k \<mapsto> b) \<and> repo_unmarshal j b = Inr (persist x)"
proof -
  let ?f = "\<lambda>b txn. bind_res (txn_Get B txn k) (\<lambda>item. case item of Some _ \<Rightarrow> Inl taken | None \<Rightarrow> set_only B k b txn)"
  from assms(1) obtain b where b: "repo_marshal j kind x = Inr b" "db_Update B (?f b) db = (Inr u, db')"
    by (auto simp: repo_Create_def res_simps split: sum.splits)
  from update_cases [OF b(2)] obtain txn where
    "txn_Get B (NewTransaction B db) k = Inr None" "set_only B k b (NewTransaction B db) = Inr (u, txn)"
    "contents db' = txn_contents txn"
    by (auto simp: res_simps split: option.splits)
  then have "contents db k = None" "contents db' = (contents db)(k \<mapsto> b)"
    using set_ok [of k b None] get_none [of "NewTransaction B db" k] by (auto simp: set_only_def res_simps txn_start)
  with repo_marshal_unmarshal [OF assms(2) b(1)] show ?thesis by auto
qed

lemma create_fail:
  assumes "repo_Create B j kind msg taken k x db = (Inl e, db')"
  shows "contents db' = contents db"
  using assms by (auto simp: repo_Create_def res_simps split: sum.splits dest!: update_cases)

lemma save_ttl_ok:
  assumes "repo_SaveTTL B j kind msg k now expires x db = (Inr u, db')" "codec_ok j persist"
  shows "\<exists>b. repo_unmarshal j b = Inr (persist x) \<and> (\<forall>e. expires = Some e \<longrightarrow> 0 < time_Sub e now) \<and>
    (contents db' = (contents db)(k \<mapsto> b) \<or>
     contents db' = (contents db)(k := None) \<and> (\<exists>e. expires = Some e \<and> time_Sub e now < Second))"
proof -
  let ?f = "\<lambda>b txn. case expires of None \<Rightarrow> set_only B k b txn
       | Some e \<Rightarrow> if time_Sub e now \<le> 0 then Inl (Errorf ''token already expired'' [])
           else bind_res (txn_SetEntry B k b (Some (time_Sub e now)) txn) (\<lambda>txn. Inr ((), txn))"
  from assms(1) obtain b where b: "repo_marshal j kind x = Inr b" "db_Update B (?f b) db = (Inr u, db')"
    by (auto simp: repo_SaveTTL_def res_simps split: sum.splits)
  from update_cases [OF b(2)] obtain txn where
    f: "?f b (NewTransaction B db) = Inr (u, txn)" "contents db' = txn_contents txn" by auto
  from f(1) have live: "\<forall>e. expires = Some e \<longrightarrow> 0 < time_Sub e now" by (auto split: if_splits)
  from f(1) have set: "txn_SetEntry B k b (map_option (\<lambda>e. time_Sub e now) expires) (NewTransaction B db) = Inr txn"
    by (auto simp: set_only_def res_simps split: option.splits if_splits)
  have "contents db' = (contents db)(k \<mapsto> b) \<or>
     contents db' = (contents db)(k := None) \<and> (\<exists>e. expires = Some e \<and> time_Sub e now < Second)"
    using set_ok [OF set] set_short [OF set] f(2) by (cases expires) (auto simp: txn_start not_less)
  with live repo_marshal_unmarshal [OF assms(2) b(1)] show ?thesis by blast
qed

lemma save_ttl_fail:
  assumes "repo_SaveTTL B j kind msg k now expires x db = (Inl e, db')"
  shows "contents db' = contents db"
  using assms by (auto simp: repo_SaveTTL_def res_simps split: sum.splits dest!: update_cases)

lemma matching_keys_ok:
  assumes "matching_keys um match it = Inr ks"
  shows "\<exists>kvs. decodes um it kvs \<and> ks = map fst (filter (\<lambda>(k, x). match x) kvs)"
  using assms
proof (induction um match it arbitrary: ks rule: matching_keys.induct)
  case (1 um match)
  then show ?case by (intro exI [of _ "[]"]) simp
next
  case (2 um match k v it)
  from "2.prems" obtain x ks' where x: "bind_res v um = Inr x" "matching_keys um match it = Inr ks'"
    "ks = (if match x then k # ks' else ks')" by (auto simp: res_simps)
  from "2.IH" [OF x(2)] obtain kvs where "decodes um it kvs" "ks' = map fst (filter (\<lambda>(k, x). match x) kvs)" by blast
  with x show ?case by (intro exI [of _ "(k, x) # kvs"]) auto
qed

lemma delete_keys_ok:
  assumes "delete_keys B ks txn = Inr (u, txn')"
  shows "txn_contents txn' = (\<lambda>k. if k \<in> set ks then None else txn_contents txn k)"
  using assms by (induction ks arbitrary: txn) (auto simp: res_simps fun_eq_iff dest!: delete_ok)

lemma delete_where_ok:
  assumes "deleteWhere B J match db = (Inr u, db')"
  shows "st db' = st_tokens_update (\<lambda>m. without m match) (st db)"
proof -
  let ?txn = "NewTransaction B db"
  from update_cases [OF assms [unfolded deleteWhere_def]] obtain ks txn where
    ks: "matching_keys (repo_unmarshal (json_token J)) match (txn_Iterator B ?txn tokenPrefix) = Inr ks"
    "delete_keys B ks ?txn = Inr (u, txn)" "contents db' = txn_contents txn" by (auto simp: res_simps)
  from matching_keys_ok [OF ks(1)] obtain kvs where
    kvs: "decodes (repo_unmarshal (json_token J)) (txn_Iterator B ?txn tokenPrefix) kvs"
    "ks = map fst (filter (\<lambda>(k, x). match x) kvs)" by blast
  let ?old = "abs_map (json_token J) tokenPrefix (contents db)"
  have "k \<in> set ks \<longleftrightarrow> (\<exists>x. (k, x) \<in> set kvs \<and> match x)" for k unfolding kvs(2) by force
  then have mem: "k \<in> set ks \<longleftrightarrow> (\<exists>h x. k = tokenPrefix @ h \<and> ?old h = Some x \<and> match x)" for k
    unfolding iter_abs_map [OF kvs(1)] txn_start by blast
  have db': "contents db' = (\<lambda>k. if k \<in> set ks then None else contents db k)"
    using delete_keys_ok [OF ks(2)] ks(3) unfolding txn_start by simp
  have "abs_map (json_token J) tokenPrefix (contents db') h = (if tokenPrefix @ h \<in> set ks then None else ?old h)" for h
    by (simp add: abs_map_def db')
  moreover have "tokenPrefix @ h \<in> set ks \<longleftrightarrow> (\<exists>x. ?old h = Some x \<and> match x)" for h by (simp add: mem)
  ultimately have tok: "abs_map (json_token J) tokenPrefix (contents db') = without ?old match"
    by (auto simp: without_def fun_eq_iff split: option.splits)
  have other: "abs_map j pfx (contents db') = abs_map j pfx (contents db)" if "\<And>i h. pfx @ i \<noteq> tokenPrefix @ h" for j pfx
    using that by (simp add: abs_map_def db' mem fun_eq_iff)
  show ?thesis
    unfolding st_def abs_store_def using tok by (simp add: other prefix_defs)
qed

lemma delete_where_fail:
  assumes "deleteWhere B J match db = (Inl e, db')"
  shows "st db' = st db"
  using update_cases [OF assms [unfolded deleteWhere_def]] by (auto simp: st_def)

lemma consume_ok:
  assumes "RegistrationTokenRepository_Consume B J h db = (Inr t, db')"
  shows "st_registration_tokens (st db) h = Some t \<and>
         st db' = st_registration_tokens_update (\<lambda>m. m(h := None)) (st db)"
proof -
  let ?txn = "NewTransaction B db"
    and ?nf = "Wrapf ''registration token not found: %w'' [] (Sentinel ErrNotFound)"
  from update_cases [OF assms [unfolded RegistrationTokenRepository_Consume_def]] obtain txn where
    t: "repo_find_txn B (json_registration_token J) (registrationTokenPrefix @ h) ?nf ?txn = Inr t"
    "txn_Delete B (registrationTokenPrefix @ h) ?txn = Inr txn" "contents db' = txn_contents txn"
    by (auto simp: res_simps registrationTokenKey_def)
  have "abs_map (json_registration_token J) registrationTokenPrefix (contents db) h = Some t"
    using t(1) by (intro repo_find_ok [of _ _ _ ?nf]) (simp add: repo_Find_def db_View_def)
  moreover have "contents db' = (contents db)(registrationTokenPrefix @ h := None)"
    using delete_ok [OF t(2)] t(3) by (simp add: txn_start)
  ultimately show ?thesis using registration_token_written [of db' db h None] by (simp add: st_def)
qed

lemma consume_fail:
  assumes "RegistrationTokenRepository_Consume B J h db = (Inl e, db')"
  shows "st db' = st db"
  using update_cases [OF assms [unfolded RegistrationTokenRepository_Consume_def]] by (auto simp: st_def)

lemma token_save_ok:
  assumes "TokenRepository_Save B J now t db = (Inr u, db')"
  shows "(\<forall>e. token_ExpiresAt t = Some e \<longrightarrow> 0 < time_Sub e now) \<and>
    (st db' = st_tokens_update (\<lambda>m. m(token_Hash t \<mapsto> t)) (st db) \<or>
     st db' = st_tokens_update (\<lambda>m. m(token_Hash t := None)) (st db) \<and>
       (\<exists>e. token_ExpiresAt t = Some e \<and> time_Sub e now < Second))"
  using save_ttl_ok [OF assms [unfolded TokenRepository_Save_def] codecs(8)] token_written [of db' db "token_Hash t"]
  by (fastforce simp: tokenKey_def)

end

sublocale badger_store \<subseteq> token_repo: token_contract "TokenRepository B J" st
proof
  fix h db db' t e u now x i
  show "tok_Find (TokenRepository B J) h db = Inr t \<Longrightarrow> st_tokens (st db) h = Some t"
    by (auto simp: TokenRepository_def TokenRepository_Find_def tokenKey_def st_def dest: repo_find_ok)
  show "tok_Find (TokenRepository B J) h db = Inl e \<Longrightarrow> errors_Is e ErrNotFound \<Longrightarrow> st_tokens (st db) h = None"
    by (auto simp: TokenRepository_def TokenRepository_Find_def tokenKey_def st_def dest: repo_find_missing)
  show "tok_Save (TokenRepository B J) now t db = (Inr u, db') \<Longrightarrow>
          \<exists>w \<in> {None, Some t}. st db' = st_tokens_update (\<lambda>m. m(token_Hash t := w)) (st db)"
    by (auto simp: TokenRepository_def dest: token_save_ok)
  show "tok_Save (TokenRepository B J) now t db = (Inr u, db') \<Longrightarrow>
          (\<And>x. token_ExpiresAt t = Some x \<Longrightarrow> Second \<le> time_Sub x now) \<Longrightarrow>
          st db' = st_tokens_update (\<lambda>m. m(token_Hash t \<mapsto> t)) (st db)"
    by (force simp: TokenRepository_def dest: token_save_ok)
  show "tok_Save (TokenRepository B J) now t db = (Inr u, db') \<Longrightarrow> token_ExpiresAt t = Some x \<Longrightarrow> 0 < time_Sub x now"
    by (auto simp: TokenRepository_def dest: token_save_ok)
  show "tok_Save (TokenRepository B J) now t db = (Inl e, db') \<Longrightarrow> st db' = st db"
    by (auto simp: TokenRepository_def TokenRepository_Save_def st_def dest: save_ttl_fail)
  show "tok_Delete (TokenRepository B J) h db = (Inr u, db') \<Longrightarrow> st db' = st_tokens_update (\<lambda>m. m(h := None)) (st db)"
    by (auto simp: TokenRepository_def TokenRepository_Delete_def tokenKey_def dest!: repo_delete_ok intro: token_written)
  show "tok_Delete (TokenRepository B J) h db = (Inl e, db') \<Longrightarrow> st db' = st db"
    by (auto simp: TokenRepository_def TokenRepository_Delete_def st_def dest: repo_delete_fail)
qed (auto simp: TokenRepository_def TokenRepository_DeleteByUserId_def TokenRepository_DeleteByAgentId_def
      dest: delete_where_ok delete_where_fail)

sublocale badger_store \<subseteq> registration_token_repo: registration_token_contract "RegistrationTokenRepository B J" st
proof
  fix h db db' t e u now
  show "\<exists>w \<in> {None, Some t}. st db' = st_registration_tokens_update (\<lambda>m. m(rtok_Hash t := w)) (st db)"
    if sv: "rtr_Save (RegistrationTokenRepository B J) now t db = (Inr u, db')"
  proof -
    from sv have "repo_SaveTTL B (json_registration_token J) ''RegistrationToken'' (Wrapf ''marshall registration token: %w'' [])
        (registrationTokenPrefix @ rtok_Hash t) now (rtok_ExpiresAt t) t db = (Inr u, db')"
      by (auto simp: RegistrationTokenRepository_def RegistrationTokenRepository_Save_def registrationTokenKey_def split: if_splits)
    from save_ttl_ok [OF this codecs(10)] show ?thesis
      using registration_token_written [of db' db "rtok_Hash t"] by fastforce
  qed
  show "rtr_Save (RegistrationTokenRepository B J) now t db = (Inl e, db') \<Longrightarrow> st db' = st db"
    by (auto simp: RegistrationTokenRepository_def RegistrationTokenRepository_Save_def st_def
        split: if_splits dest: save_ttl_fail)
qed (auto simp: RegistrationTokenRepository_def dest: consume_ok consume_fail)

sublocale badger_store \<subseteq> user_create:
  create_contract "UserRepository B J" st st_users st_users_update user_Id id buildUserPredicate "user_Create (UserRepository B J)" ErrUserExists
proof
  fix r db db' u e
  show "st_users (st db) (user_Id r) = None \<and> st db' = st_users_update (\<lambda>m. m(user_Id r \<mapsto> id r)) (st db)"
    if c: "user_Create (UserRepository B J) r db = (Inr u, db')"
    using create_ok [OF c [simplified UserRepository_def user_repository.simps repository.simps UserRepository_Create_def] codecs(7)]
    by (auto simp: st_def abs_store_user [unfolded userKey_def] userKey_def abs_map_upd abs_map_def)
  show "user_Create (UserRepository B J) r db = (Inl e, db') \<Longrightarrow> st db' = st db"
    by (auto simp: UserRepository_def UserRepository_Create_def st_def dest: create_fail)
qed

sublocale badger_store \<subseteq> agent_create:
  create_contract "AgentRepository B J" st st_agents st_agents_update agent_Id id buildAgentPredicate "agent_Create (AgentRepository B J)" ErrAgentExists
proof
  fix r db db' u e
  show "st_agents (st db) (agent_Id r) = None \<and> st db' = st_agents_update (\<lambda>m. m(agent_Id r \<mapsto> id r)) (st db)"
    if c: "agent_Create (AgentRepository B J) r db = (Inr u, db')"
    using create_ok [OF c [simplified AgentRepository_def agent_repository.simps repository.simps AgentRepository_Create_def] codecs(9)]
    by (auto simp: st_def abs_store_agent [unfolded agentKey_def] agentKey_def abs_map_upd abs_map_def)
  show "agent_Create (AgentRepository B J) r db = (Inl e, db') \<Longrightarrow> st db' = st db"
    by (auto simp: AgentRepository_def AgentRepository_Create_def st_def dest: create_fail)
qed

section \<open>A reference store\<close>

text \<open>
  A key-value store in memory whose reads of the keys in \<open>bad_get\<close> and writes of those in \<open>bad_set\<close>
  fail, and a codec that keeps resources as they are: the two locales hold of them, so the
  contracts have models to evaluate, with and without faults.
\<close>

datatype blob =
    BProxy "proxy stored_resource"
  | BPool "pool stored_resource"
  | BBalancer "load_balancer stored_resource"
  | BRouter "router stored_resource"
  | BFlow "flow stored_resource"
  | BEntrypoint "entrypoint stored_resource"
  | BUser "user stored_resource"
  | BToken "token stored_resource"
  | BAgent "agent stored_resource"
  | BRegistrationToken "registration_token stored_resource"

type_synonym ref_db = "(string \<times> blob) list"

definition ref_iterator :: "(string \<times> 'b) list \<Rightarrow> string \<Rightarrow> (string \<times> 'b result) list" where
  "ref_iterator kvs p =
     map (\<lambda>k. (k, Inr (the (map_of kvs k)))) (sort (remdups (filter (\<lambda>k. HasPrefix k p) (map fst kvs))))"

definition flaky_badger :: "(string \<Rightarrow> bool) \<Rightarrow> (string \<Rightarrow> bool) \<Rightarrow> ((string \<times> 'b) list, (string \<times> 'b) list, 'b) badger" where
  "flaky_badger bad_get bad_set =
     \<lparr>NewTransaction = \<lambda>db. db, Commit = \<lambda>txn db. (Inr (), txn),
      txn_Get = \<lambda>txn k. if bad_get k then Inl (External ''read'') else Inr (map_option Inr (map_of txn k)),
      txn_SetEntry = \<lambda>k v ttl txn. if bad_set k then Inl (External ''write'') else Inr (AList.update k v txn),
      txn_Delete = \<lambda>k txn. Inr (AList.delete k txn),
      txn_Iterator = ref_iterator\<rparr>"

definition ref_badger :: "((string \<times> 'b) list, (string \<times> 'b) list, 'b) badger" where
  "ref_badger = flaky_badger (\<lambda>_. False) (\<lambda>_. False)"

definition ref_codec :: "('a \<Rightarrow> 'a) \<Rightarrow> ('a stored_resource \<Rightarrow> blob) \<Rightarrow> (blob \<Rightarrow> 'a stored_resource option) \<Rightarrow> ('a, blob) json" where
  "ref_codec persist tag untag =
     \<lparr>Marshal = \<lambda>x. Inr (tag (x\<lparr>Spec := persist (Spec x)\<rparr>)),
      Unmarshal = \<lambda>b. (case untag b of None \<Rightarrow> Inl (External ''json'') | Some x \<Rightarrow> Inr x)\<rparr>"

definition ref_json :: "blob json_lib" where
  "ref_json =
     \<lparr>json_proxy = ref_codec id BProxy (\<lambda>b. case b of BProxy x \<Rightarrow> Some x | _ \<Rightarrow> None),
      json_pool = ref_codec persist_pool BPool (\<lambda>b. case b of BPool x \<Rightarrow> Some x | _ \<Rightarrow> None),
      json_balancer = ref_codec id BBalancer (\<lambda>b. case b of BBalancer x \<Rightarrow> Some x | _ \<Rightarrow> None),
      json_router = ref_codec strip_router BRouter (\<lambda>b. case b of BRouter x \<Rightarrow> Some x | _ \<Rightarrow> None),
      json_flow = ref_codec id BFlow (\<lambda>b. case b of BFlow x \<Rightarrow> Some x | _ \<Rightarrow> None),
      json_entrypoint = ref_codec id BEntrypoint (\<lambda>b. case b of BEntrypoint x \<Rightarrow> Some x | _ \<Rightarrow> None),
      json_user = ref_codec id BUser (\<lambda>b. case b of BUser x \<Rightarrow> Some x | _ \<Rightarrow> None),
      json_token = ref_codec id BToken (\<lambda>b. case b of BToken x \<Rightarrow> Some x | _ \<Rightarrow> None),
      json_agent = ref_codec id BAgent (\<lambda>b. case b of BAgent x \<Rightarrow> Some x | _ \<Rightarrow> None),
      json_registration_token = ref_codec id BRegistrationToken (\<lambda>b. case b of BRegistrationToken x \<Rightarrow> Some x | _ \<Rightarrow> None)\<rparr>"

lemma map_of_ref_delete: "map_of (AList.delete k m) = (map_of m)(k := None)"
  by (simp add: delete_conv fun_eq_iff)

interpretation flaky: badger_db "flaky_badger bad_get bad_set" map_of map_of
  for bad_get bad_set
proof
  fix k :: string and item :: "'b result" and txn :: "(string \<times> 'b) list" and p :: string
  show "map fst (txn_Iterator (flaky_badger bad_get bad_set) txn p) = sorted_list_of_set {k \<in> dom (map_of txn). HasPrefix k p}"
    by (simp add: flaky_badger_def ref_iterator_def comp_def dom_map_of_conv_image_fst
        sorted_list_of_set_sort_remdups [symmetric] Collect_conj_eq [symmetric] conj_commute)
  show "(k, item) \<in> set (txn_Iterator (flaky_badger bad_get bad_set) txn p) \<Longrightarrow>
      \<exists>v. map_of txn k = Some v \<and> (item = Inr v \<or> (\<exists>e. item = Inl e \<and> foreign e))"
    by (auto simp: flaky_badger_def ref_iterator_def) (metis map_of_eq_None_iff fst_conv image_eqI not_None_eq option.sel)
qed (auto simp: flaky_badger_def foreign_def update_conv' map_of_ref_delete finite_dom_map_of split: if_splits)

lemma ref_json_ok: "json_ok ref_json"
  by (simp add: json_ok_def ref_json_def ref_codec_def codec_ok_def)

interpretation flaky_store: badger_store "flaky_badger bad_get bad_set" map_of map_of ref_json
  for bad_get bad_set
  by unfold_locales (rule ref_json_ok)

interpretation refdb: badger_db ref_badger map_of map_of
  unfolding ref_badger_def by (rule flaky.badger_db_axioms)

interpretation ref: badger_store ref_badger map_of map_of ref_json
  unfolding ref_badger_def by (rule flaky_store.badger_store_axioms)

section \<open>Pages\<close>

text \<open>A client that asks for pages of a size and follows the cursor until it is empty.\<close>

fun all_pages :: "(list_params \<Rightarrow> 'a list_result result) \<Rightarrow> int \<Rightarrow> nat \<Rightarrow> string \<Rightarrow> 'a list result" where
  "all_pages f psize 0 cursor = Inr []"
| "all_pages f psize (Suc fuel) cursor =
     bind_res (f \<lparr>PageSize = psize, Cursor = cursor\<rparr>) (\<lambda>r.
       if NextCursor r = [] then Inr (Items r)
       else bind_res (all_pages f psize fuel (NextCursor r)) (\<lambda>xs. Inr (Items r @ xs)))"

lemma seek_at:
  assumes "sorted_wrt (<) (map fst kvs)" "j < length kvs"
  shows "seek (fst (kvs ! j)) kvs = drop j kvs"
  using assms
proof (induction kvs arbitrary: j)
  case (Cons kv kvs)
  then show ?case
    by (cases j) (auto simp: seek_def split: prod.splits)
qed simp

lemma all_pages_page_of:
  assumes "sorted_wrt (<) (map fst kvs)" "\<And>k x. (k, x) \<in> set kvs \<Longrightarrow> \<exists>i. i \<noteq> [] \<and> k = pfx @ i"
    and "1 \<le> psize" "length kvs - j < fuel" "j \<le> length kvs"
    and "cursor = [] \<and> j = 0 \<or> cursor \<noteq> [] \<and> j < length kvs \<and> pfx @ cursor = fst (kvs ! j)"
  shows "all_pages (\<lambda>params. Inr (page_of pfx params kvs)) psize fuel cursor = Inr (map snd (drop j kvs))"
  using assms(4-6)
proof (induction fuel arbitrary: j cursor)
  case (Suc fuel)
  let ?r = "page_of pfx \<lparr>PageSize = psize, Cursor = cursor\<rparr> kvs" and ?n = "nat psize"
  have rest: "(if cursor = [] then kvs else seek (pfx @ cursor) kvs) = drop j kvs"
    using Suc.prems(3) seek_at [OF assms(1)] by auto
  have n: "1 \<le> ?n" using assms(3) by simp
  have r: "?r = \<lparr>Items = map snd (take ?n (drop j kvs)),
      NextCursor = (if ?n < length (drop j kvs) then drop (length pfx) (fst (drop j kvs ! ?n)) else []),
      TotalCount = int (length kvs)\<rparr>"
    unfolding page_of_def Let_def list_params.simps rest using assms(3) by simp
  show ?case
  proof (cases "?n < length (drop j kvs)")
    case False
    then show ?thesis using r by simp
  next
    case True
    let ?j = "j + ?n"
    have at: "drop j kvs ! ?n = kvs ! ?j" "?j < length kvs" using True by (auto simp: add.commute)
    then have "(fst (kvs ! ?j), snd (kvs ! ?j)) \<in> set kvs" by simp
    then obtain i where i: "i \<noteq> []" "fst (kvs ! ?j) = pfx @ i" using assms(2) by blast
    have page: "Items ?r = map snd (take ?n (drop j kvs))" "NextCursor ?r = i"
      unfolding r using True at i by simp_all
    have "all_pages (\<lambda>params. Inr (page_of pfx params kvs)) psize fuel i = Inr (map snd (drop ?j kvs))"
      using Suc.prems(1) at(2) i n by (intro Suc.IH) auto
    moreover have "map snd (take ?n (drop j kvs)) @ map snd (drop ?j kvs) = map snd (drop j kvs)"
      by (metis add.commute append_take_drop_id drop_drop map_append)
    ultimately show ?thesis using page i by simp
  qed
qed simp

text \<open>
  C21.  Cursor pagination over any Badger store loses and repeats nothing: when every entry under
  the prefix decodes and no identifier is empty, a client that asks for pages of any positive size
  and follows \<^verbatim>\<open>NextCursor\<close> gets exactly the entries the filter accepts, each once, in key order,
  whether the listing takes the filtered or the unfiltered path.
\<close>

theorem pages_cover_listing:
  assumes "badger_db B contents txn_contents"
    and "decodes um (txn_Iterator B txn pfx) kvs" "\<And>k x. (k, x) \<in> set kvs \<Longrightarrow> k \<noteq> pfx"
    and "1 \<le> psize" "length kvs < fuel"
  shows "all_pages (\<lambda>params. listWithCursor B txn pfx params um pred) psize fuel [] =
         Inr (map snd (filter (\<lambda>(k, x). accepts pred x) kvs))"
proof -
  let ?f = "filter (\<lambda>(k, x). accepts pred x) kvs"
  have "sorted_wrt (<) (map fst kvs)"
    using badger_db.iter_keys [OF assms(1), of txn pfx] decodes_keys [OF assms(2)] by simp
  then have sorted: "sorted_wrt (<) (map fst ?f)" by (induction kvs) auto
  have ids: "\<exists>i. i \<noteq> [] \<and> k = pfx @ i" if "(k, x) \<in> set ?f" for k x
  proof -
    from that have "(k, x) \<in> set kvs" by auto
    moreover from this obtain v where "(k, v) \<in> set (txn_Iterator B txn pfx)"
      using decodes_mem [OF assms(2) badger_db.iter_distinct [OF assms(1)]] by blast
    then have "HasPrefix k pfx" by (rule badger_db.iter_prefix [OF assms(1)])
    ultimately show ?thesis using assms(3) by (auto simp: HasPrefix_def prefix_def)
  qed
  have "length ?f - 0 < fuel" using assms(5) by (simp add: le_less_trans [OF length_filter_le])
  then show ?thesis
    using all_pages_page_of [OF sorted ids assms(4), where j = 0 and cursor = "[]"] listWithCursor_page [OF assms(2)] by simp
qed

definition sample_txn :: ref_db where
  "sample_txn = map (\<lambda>i. (proxyKey i, BProxy \<lparr>StorageVersion = ''v1'', Kind = ''Proxy'', Stored_Labels = [], Spec = sample_proxy i\<rparr>))
     [''c'', ''a'', ''b'']"

lemma sample_txn_iterator:
  "txn_Iterator ref_badger sample_txn proxyPrefix =
     map (\<lambda>i. (proxyKey i, Inr (BProxy \<lparr>StorageVersion = ''v1'', Kind = ''Proxy'', Stored_Labels = [], Spec = sample_proxy i\<rparr>)))
       [''a'', ''b'', ''c'']"
  by (simp add: sample_txn_def ref_badger_def flaky_badger_def ref_iterator_def proxyKey_def proxyPrefix_def HasPrefix_def
      less_char_def less_eq_char_def)

theorem pages_cover_listing_witness:
  "all_pages (\<lambda>params. listWithCursor ref_badger sample_txn proxyPrefix params (repo_unmarshal (json_proxy ref_json)) None) 2 4 [] =
     Inr [sample_proxy ''a'', sample_proxy ''b'', sample_proxy ''c'']"
proof -
  let ?kvs = "map (\<lambda>i. (proxyKey i, sample_proxy i)) [''a'', ''b'', ''c'']"
  have "decodes (repo_unmarshal (json_proxy ref_json)) (txn_Iterator ref_badger sample_txn proxyPrefix) ?kvs"
    by (simp add: sample_txn_iterator repo_unmarshal_def ref_json_def ref_codec_def)
  from pages_cover_listing [OF refdb.badger_db_axioms this, of 2 4 None]
  show ?thesis by (auto simp: proxyKey_def accepts_def)
qed

end
