(* ===== verification/Auth.thy ===== *)
theory Auth
  imports ControlPlane Badger_Store
begin

text \<open>
  \<^verbatim>\<open>application/controlplane/auth\<close> and \<^verbatim>\<open>application/controlplane/agent\<close>: users and their sessions,
  the authenticator, agent credentials and the agent registry.  \<^verbatim>\<open>bcrypt\<close>, \<^verbatim>\<open>sha256\<close> and
  \<^verbatim>\<open>crypto/rand\<close> are arguments: the record \<open>crypto\<close> and the random text a call draws.  A method
  reads the clock once.  The state of the auth service beside storage is the pending bootstrap
  token, which its mutex guards.
\<close>

section \<open>Cryptography and tokens\<close>

text \<open>\<^verbatim>\<open>bcrypt_Compare hash password\<close> is true when \<^verbatim>\<open>CompareHashAndPassword\<close> returns no error.\<close>

record crypto =
  bcrypt_Generate :: "string \<Rightarrow> string result"
  bcrypt_Compare :: "string \<Rightarrow> string \<Rightarrow> bool"
  sha256_hex :: "string \<Rightarrow> string"

definition generateToken :: "string result \<Rightarrow> string result" where
  "generateToken rnd = bind_res (wrap (Wrapf ''generate token: %w'' []) rnd) (\<lambda>raw. Inr (''pgw_'' @ raw))"

definition generateRegistrationToken :: "string result \<Rightarrow> string result" where
  "generateRegistrationToken rnd = bind_res (wrap (Wrapf ''generate token: %w'' []) rnd) (\<lambda>raw. Inr (''pgwr_'' @ raw))"

definition hashToken :: "crypto \<Rightarrow> string \<Rightarrow> string" where
  "hashToken C token = sha256_hex C token"

definition minPasswordLength :: nat where "minPasswordLength = 8"

definition hashPassword :: "crypto \<Rightarrow> string \<Rightarrow> string result" where
  "hashPassword C password =
     (if length password < minPasswordLength then Inl (Sentinel ErrWeakPassword)
      else wrap (Wrapf ''hashing password: %w'' []) (bcrypt_Generate C password))"

section \<open>The authenticator\<close>

record 'db authenticator =
  authn_users :: "'db user_repository"
  authn_agents :: "'db agent_repository"
  authn_tokens :: "'db token_repository"

definition reject_token :: "'db authenticator \<Rightarrow> token \<Rightarrow> ('db, principal) op" where
  "reject_token A record db = (Inl (Sentinel ErrInvalidToken), snd (tok_Delete (authn_tokens A) (token_Hash record) db))"

definition Authenticate :: "crypto \<Rightarrow> 'db authenticator \<Rightarrow> time \<Rightarrow> string \<Rightarrow> ('db, principal) op" where
  "Authenticate C A now token db =
     (if token = [] then (Inl (Sentinel ErrInvalidToken), db)
      else case tok_Find (authn_tokens A) (hashToken C token) db of
        Inl _ \<Rightarrow> (Inl (Sentinel ErrInvalidToken), db)
      | Inr record \<Rightarrow>
          if Token_IsExpired record now then reject_token A record db
          else if token_UserId record \<noteq> [] then
            (case port_Find (authn_users A) (token_UserId record) db of
               Inl _ \<Rightarrow> reject_token A record db
             | Inr user \<Rightarrow> (Inr \<lparr>principal_User = Some user, principal_Agent = None\<rparr>, db))
          else if token_AgentId record \<noteq> [] then
            (case port_Find (authn_agents A) (token_AgentId record) db of
               Inl _ \<Rightarrow> reject_token A record db
             | Inr agent \<Rightarrow> (Inr \<lparr>principal_User = None, principal_Agent = Some agent\<rparr>, db))
          else reject_token A record db)"

section \<open>Users and sessions\<close>

record 'db auth_service =
  au_users :: "'db user_repository"
  au_tokens :: "'db token_repository"
  au_defaultTTL :: duration

text \<open>The state: storage and the pending bootstrap token.\<close>

type_synonym ('db, 'a) auth_op = "('db \<times> string, 'a) op"

definition set_bootstrap :: "string \<Rightarrow> ('db, unit) auth_op" where
  "set_bootstrap t s = (Inr (), (fst s, t))"

definition issueToken :: "crypto \<Rightarrow> 'db auth_service \<Rightarrow> time \<Rightarrow> string result \<Rightarrow> string \<Rightarrow> duration \<Rightarrow> ('db, string) auth_op" where
  "issueToken C S now rnd userId ttl =
     bind_op (lift_op (generateToken rnd)) (\<lambda>token.
     let record = \<lparr>token_ts = \<lparr>CreatedAt = now, UpdatedAt = now\<rparr>, token_Hash = hashToken C token,
                   token_UserId = userId, token_AgentId = [],
                   token_ExpiresAt = (if ttl > 0 then Some (now + ttl) else None)\<rparr> in
     bind_op (lift_op (wrap (\<lambda>_. Sentinel ErrInvalidToken) (Token_Validate record))) (\<lambda>_.
     bind_op (wrap_op (Wrapf ''persisting token: %w'' []) (on_db (tok_Save (au_tokens S) now record))) (\<lambda>_.
     lift_op (Inr token))))"

definition createUser :: "crypto \<Rightarrow> 'db auth_service \<Rightarrow> time \<Rightarrow> string \<Rightarrow> string \<Rightarrow> role \<Rightarrow> ('db, user) auth_op" where
  "createUser C S now username password role =
     bind_op (lift_op (hashPassword C password)) (\<lambda>hash.
     let user = \<lparr>user_ts = \<lparr>CreatedAt = now, UpdatedAt = now\<rparr>, user_Id = username, user_PasswordHash = hash, user_Role = role\<rparr> in
     bind_op (lift_op (wrap (Wrapf ''user validation: %w'' []) (User_Validate user))) (\<lambda>_.
     bind_op (wrap_op (\<lambda>e. if errors_Is e ErrUserExists then Sentinel ErrUserExists else Wrapf ''persisting user: %w'' [] e)
                (on_db (user_Create (au_users S) user))) (\<lambda>_.
     lift_op (Inr user))))"

definition Bootstrap_auth :: "'db auth_service \<Rightarrow> string result \<Rightarrow> ('db, unit) auth_op" where
  "Bootstrap_auth S rnd =
     bind_op (read_db (\<lambda>db. wrap (Wrapf ''counting users: %w'' []) (user_Count (au_users S) db))) (\<lambda>count.
     if count > 0 then lift_op (Inr ())
     else bind_op (lift_op (generateToken rnd)) (\<lambda>token. set_bootstrap token))"

definition InitAdmin :: "crypto \<Rightarrow> 'db auth_service \<Rightarrow> time \<Rightarrow> string result \<Rightarrow> string \<Rightarrow> string \<Rightarrow> string \<Rightarrow> ('db, user \<times> string) auth_op" where
  "InitAdmin C S now rnd bootstrapToken username password =
     bind_op (read_db (\<lambda>db. wrap (Wrapf ''counting users: %w'' []) (user_Count (au_users S) db))) (\<lambda>count.
     bind_op (guard_op (\<not> count > 0) (Sentinel ErrAlreadyInitialized)) (\<lambda>_.
     bind_op (read_op (\<lambda>s. guard_res (snd s \<noteq> [] \<and> snd s = bootstrapToken) (Sentinel ErrInvalidBootstrapToken))) (\<lambda>_.
     bind_op (createUser C S now username password RoleAdmin) (\<lambda>user.
     bind_op (set_bootstrap []) (\<lambda>_.
     bind_op (issueToken C S now rnd (user_Id user) (au_defaultTTL S)) (\<lambda>token.
     lift_op (Inr (user, token))))))))"

definition Login :: "crypto \<Rightarrow> 'db auth_service \<Rightarrow> time \<Rightarrow> string result \<Rightarrow> string \<Rightarrow> string \<Rightarrow> duration \<Rightarrow> bool \<Rightarrow> ('db, string) auth_op" where
  "Login C S now rnd username password ttl noExpiry =
     bind_op (read_db (\<lambda>db. wrap (\<lambda>_. Sentinel ErrInvalidCredentials) (port_Find (au_users S) username db))) (\<lambda>user.
     bind_op (guard_op (bcrypt_Compare C (user_PasswordHash user) password) (Sentinel ErrInvalidCredentials)) (\<lambda>_.
     issueToken C S now rnd (user_Id user) (if noExpiry then 0 else if ttl \<le> 0 then au_defaultTTL S else ttl)))"

definition Logout :: "crypto \<Rightarrow> 'db auth_service \<Rightarrow> string \<Rightarrow> ('db, unit) auth_op" where
  "Logout C S token = wrap_op (\<lambda>_. Sentinel ErrInvalidToken) (on_db (tok_Delete (au_tokens S) (hashToken C token)))"

text \<open>The generated password, if any, is the second result.\<close>

definition CreateUser :: "crypto \<Rightarrow> 'db auth_service \<Rightarrow> time \<Rightarrow> string \<Rightarrow> string \<Rightarrow> string \<Rightarrow> role \<Rightarrow> ('db, user \<times> string) auth_op" where
  "CreateUser C S now rndText username password role =
     (let generated = (if password = [] then rndText else []);
          password = (if password = [] then generated else password);
          role = (if role = [] then RoleMember else role)
      in bind_op (createUser C S now username password role) (\<lambda>user. lift_op (Inr (user, generated))))"

definition ListUsers :: "'db auth_service \<Rightarrow> list_params \<Rightarrow> user_filter \<Rightarrow> 'db \<Rightarrow> user list_result result" where
  "ListUsers S params = port_List (au_users S) (cap_page params)"

definition admin_filter :: user_filter where
  "admin_filter = \<lparr>uf_Search = [], uf_Role = RoleAdmin\<rparr>"

definition DeleteUser :: "'db auth_service \<Rightarrow> string \<Rightarrow> ('db, unit) auth_op" where
  "DeleteUser S username =
     bind_op (read_db (\<lambda>db. wrap (Wrapf ''find user: %w'' []) (port_Find (au_users S) username db))) (\<lambda>user.
     bind_op (if IsAdmin user
              then read_db (\<lambda>db.
                bind_res (wrap (Wrapf ''counting admins: %w'' []) (port_List (au_users S) all_params admin_filter db)) (\<lambda>admins.
                  guard_res (\<not> TotalCount admins \<le> 1) (Sentinel ErrLastAdmin)))
              else lift_op (Inr ())) (\<lambda>_.
     bind_op (wrap_op (Wrapf ''delete user: %w'' []) (on_db (port_Delete (au_users S) username))) (\<lambda>_.
     wrap_op (Wrapf ''revoking tokens: %w'' []) (on_db (tok_DeleteByUserId (au_tokens S) username)))))"

definition setPassword :: "crypto \<Rightarrow> 'db auth_service \<Rightarrow> time \<Rightarrow> user \<Rightarrow> string \<Rightarrow> ('db, unit) auth_op" where
  "setPassword C S now user newPassword =
     bind_op (lift_op (hashPassword C newPassword)) (\<lambda>hash.
     let user = user\<lparr>user_PasswordHash := hash, user_ts := (user_ts user)\<lparr>UpdatedAt := now\<rparr>\<rparr> in
     bind_op (wrap_op (Wrapf ''persisting user: %w'' []) (on_db (port_Save (au_users S) user))) (\<lambda>_.
     wrap_op (Wrapf ''revoking tokens: %w'' []) (on_db (tok_DeleteByUserId (au_tokens S) (user_Id user)))))"

definition ChangePassword :: "crypto \<Rightarrow> 'db auth_service \<Rightarrow> time \<Rightarrow> string \<Rightarrow> string \<Rightarrow> string \<Rightarrow> ('db, unit) auth_op" where
  "ChangePassword C S now username oldPassword newPassword =
     bind_op (read_db (\<lambda>db. wrap (Wrapf ''find user: %w'' []) (port_Find (au_users S) username db))) (\<lambda>user.
     bind_op (guard_op (bcrypt_Compare C (user_PasswordHash user) oldPassword) (Sentinel ErrInvalidCredentials)) (\<lambda>_.
     setPassword C S now user newPassword))"

definition ResetPassword :: "crypto \<Rightarrow> 'db auth_service \<Rightarrow> time \<Rightarrow> string \<Rightarrow> string \<Rightarrow> ('db, unit) auth_op" where
  "ResetPassword C S now username newPassword =
     bind_op (read_db (\<lambda>db. wrap (Wrapf ''find user: %w'' []) (port_Find (au_users S) username db))) (\<lambda>user.
     setPassword C S now user newPassword)"

section \<open>Agent credentials\<close>

record 'db agent_credentials =
  cred_tokens :: "'db token_repository"
  cred_regTokens :: "'db registration_token_repository"

definition ttl_error :: err where "ttl_error = Errorf ''TTL must be greater than 0'' []"

definition CreateRegistrationToken :: "crypto \<Rightarrow> 'db agent_credentials \<Rightarrow> time \<Rightarrow> string result \<Rightarrow> duration \<Rightarrow> ('db, string) op" where
  "CreateRegistrationToken C S now rnd ttl =
     bind_op (guard_op (\<not> ttl \<le> 0) ttl_error) (\<lambda>_.
     bind_op (lift_op (wrap (Wrapf ''generate token: %w'' []) (generateRegistrationToken rnd))) (\<lambda>token.
     bind_op (wrap_op (Wrapf ''persist registration token: %w'' [])
                (rtr_Save (cred_regTokens S) now
                   \<lparr>rtok_ts = \<lparr>CreatedAt = now, UpdatedAt = now\<rparr>, rtok_Hash = hashToken C token, rtok_ExpiresAt = Some (now + ttl)\<rparr>)) (\<lambda>_.
     lift_op (Inr token))))"

definition ConsumeRegistrationToken :: "crypto \<Rightarrow> 'db agent_credentials \<Rightarrow> time \<Rightarrow> string \<Rightarrow> ('db, unit) op" where
  "ConsumeRegistrationToken C S now token =
     bind_op (wrap_op (\<lambda>_. Sentinel ErrInvalidRegistrationToken) (rtr_Consume (cred_regTokens S) (hashToken C token))) (\<lambda>regToken.
     guard_op (\<not> RegistrationToken_IsExpired regToken now) (Sentinel ErrInvalidRegistrationToken))"

definition IssueAgentToken :: "crypto \<Rightarrow> 'db agent_credentials \<Rightarrow> time \<Rightarrow> string result \<Rightarrow> string \<Rightarrow> duration \<Rightarrow> ('db, string) op" where
  "IssueAgentToken C S now rnd agentId ttl =
     bind_op (guard_op (\<not> ttl \<le> 0) ttl_error) (\<lambda>_.
     bind_op (lift_op (wrap (Wrapf ''generate token: %w'' []) (generateToken rnd))) (\<lambda>tokenStr.
     let token = \<lparr>token_ts = \<lparr>CreatedAt = now, UpdatedAt = now\<rparr>, token_Hash = hashToken C tokenStr, token_UserId = [],
                  token_AgentId = agentId, token_ExpiresAt = Some (now + ttl)\<rparr> in
     bind_op (lift_op (wrap (\<lambda>_. Sentinel ErrInvalidToken) (Token_Validate token))) (\<lambda>_.
     bind_op (wrap_op (Wrapf ''persist token: %w'' []) (tok_Save (cred_tokens S) now token)) (\<lambda>_.
     lift_op (Inr tokenStr)))))"

definition ExtendAgentToken :: "crypto \<Rightarrow> 'db agent_credentials \<Rightarrow> time \<Rightarrow> string \<Rightarrow> duration \<Rightarrow> ('db, time) op" where
  "ExtendAgentToken C S now rawToken ttl =
     bind_op (guard_op (\<not> ttl \<le> 0) ttl_error) (\<lambda>_.
     bind_op (read_op (\<lambda>db.
       case tok_Find (cred_tokens S) (hashToken C rawToken) db of
         Inl _ \<Rightarrow> Inl (Sentinel ErrInvalidToken)
       | Inr record \<Rightarrow>
           if Token_IsExpired record now then Inl (Sentinel ErrInvalidToken)
           else if token_AgentId record = [] then Inl (Sentinel ErrInvalidToken)
           else Inr record)) (\<lambda>record.
     let record = record\<lparr>token_ExpiresAt := Some (now + ttl), token_ts := (token_ts record)\<lparr>UpdatedAt := now\<rparr>\<rparr> in
     bind_op (wrap_op (Wrapf ''persist token: %w'' []) (tok_Save (cred_tokens S) now record)) (\<lambda>_.
     lift_op (Inr (now + ttl)))))"

definition RevokeAgentTokens :: "'db agent_credentials \<Rightarrow> string \<Rightarrow> ('db, unit) op" where
  "RevokeAgentTokens S agentId =
     bind_op (guard_op (agentId \<noteq> []) (Errorf ''agentID cannot be empty'' [])) (\<lambda>_.
     wrap_op (Wrapf ''delete agent tokens: %w'' []) (tok_DeleteByAgentId (cred_tokens S) agentId))"

section \<open>The agent registry\<close>

record 'db agent_service =
  as_agents :: "'db agent_repository"
  as_creds :: "'db agent_credentials"
  as_agentTokenTTL :: duration

text \<open>What the call context carries: the principal and the raw bearer token.\<close>

record call_ctx =
  ctx_principal :: "principal option"
  ctx_token :: "string option"

definition agentFromContext :: "call_ctx \<Rightarrow> agent result" where
  "agentFromContext ctx =
     (case ctx_principal ctx of
        None \<Rightarrow> Inl (Sentinel ErrAgentRequired)
      | Some p \<Rightarrow> (case principal_Agent p of None \<Rightarrow> Inl (Sentinel ErrAgentRequired) | Some a \<Rightarrow> Inr a))"

definition Register :: "crypto \<Rightarrow> 'db agent_service \<Rightarrow> time \<Rightarrow> string result \<Rightarrow> string \<Rightarrow> agent \<Rightarrow> ('db, agent \<times> string) op" where
  "Register C S now rnd regToken agent =
     bind_op (ConsumeRegistrationToken C (as_creds S) now regToken) (\<lambda>_.
     bind_op (lift_op (wrap (Wrapf ''validate agent: %w'' []) (Agent_Validate agent))) (\<lambda>_.
     let agent = agent\<lparr>agent_ts := \<lparr>CreatedAt = now, UpdatedAt = now\<rparr>\<rparr> in
     bind_op (agent_Create (as_agents S) agent) (\<lambda>_.
     bind_op (wrap_op (Wrapf ''issue agent token: %w'' [])
                (IssueAgentToken C (as_creds S) now rnd (agent_Id agent) (as_agentTokenTTL S))) (\<lambda>agentToken.
     lift_op (Inr (agent, agentToken))))))"

definition Heartbeat :: "crypto \<Rightarrow> 'db agent_service \<Rightarrow> time \<Rightarrow> call_ctx \<Rightarrow> ('db, time) op" where
  "Heartbeat C S now ctx =
     bind_op (lift_op (agentFromContext ctx)) (\<lambda>agent.
     bind_op (lift_op (case ctx_token ctx of
                         None \<Rightarrow> Inl (Sentinel ErrTokenRequired)
                       | Some t \<Rightarrow> if t = [] then Inl (Sentinel ErrTokenRequired) else Inr t)) (\<lambda>rawToken.
     let agent = agent\<lparr>agent_LastHeartbeat := Some now, agent_ts := (agent_ts agent)\<lparr>UpdatedAt := now\<rparr>\<rparr> in
     bind_op (wrap_op (Wrapf ''save agent: %w'' []) (port_Save (as_agents S) agent)) (\<lambda>_.
     wrap_op (Wrapf ''extend agent token: %w'' []) (ExtendAgentToken C (as_creds S) now rawToken (as_agentTokenTTL S)))))"

definition Deregister :: "'db agent_service \<Rightarrow> time \<Rightarrow> call_ctx \<Rightarrow> ('db, unit) op" where
  "Deregister S now ctx =
     bind_op (lift_op (agentFromContext ctx)) (\<lambda>agent.
     let agent = agent\<lparr>agent_LastHeartbeat := None, agent_ts := (agent_ts agent)\<lparr>UpdatedAt := now\<rparr>\<rparr> in
     wrap_op (Wrapf ''save agent: %w'' []) (port_Save (as_agents S) agent))"

definition ListAgents :: "'db agent_service \<Rightarrow> list_params \<Rightarrow> agent_filter \<Rightarrow> 'db \<Rightarrow> agent list_result result" where
  "ListAgents S params = port_List (as_agents S) (cap_page params)"

definition DeleteAgent :: "'db agent_service \<Rightarrow> string \<Rightarrow> ('db, unit) op" where
  "DeleteAgent S name =
     bind_op (guard_op (name \<noteq> []) (Errorf ''agent name is required'' [])) (\<lambda>_.
     bind_op (read_op (\<lambda>db. wrap (\<lambda>_. Sentinel ErrAgentNotFound) (port_Find (as_agents S) name db))) (\<lambda>_.
     bind_op (wrap_op (Wrapf ''revoke agent tokens: %w'' []) (RevokeAgentTokens (as_creds S) name)) (\<lambda>_.
     wrap_op (Wrapf ''delete agent: %w'' []) (port_Delete (as_agents S) name))))"

end
