(* ===== verification/Integrity.thy ===== *)
theory Integrity
  imports ControlPlane Badger_Store
begin

text \<open>
  Referential integrity of the control plane: the locale \<open>cp_repos\<close> is the contract the service
  relies on of its six repositories, its lemmas show that no call of the service breaks a
  reference, and the Badger repositories meet it.
\<close>

section \<open>Integrity of a store\<close>

definition proxies_ok :: "store \<Rightarrow> bool" where
  "proxies_ok st \<longleftrightarrow> (\<forall>i p. st_proxies st i = Some p \<longrightarrow> i \<noteq> [] \<and> proxy_Id p = i \<and> Proxy_Validate p = Inr ())"

definition pools_ok :: "store \<Rightarrow> bool" where
  "pools_ok st \<longleftrightarrow> (\<forall>i p. st_pools st i = Some p \<longrightarrow>
     i \<noteq> [] \<and> pool_Id p = i \<and> Pool_Validate p = Inr () \<and> \<not> pool_hasProxiesResolved p \<and>
     (\<forall>m \<in> set (pool_Members p). st_proxies st (member_ProxyId m) \<noteq> None))"

definition balancers_ok :: "store \<Rightarrow> bool" where
  "balancers_ok st \<longleftrightarrow> (\<forall>i b. st_balancers st i = Some b \<longrightarrow>
     i \<noteq> [] \<and> lb_Id b = i \<and> BalancerType_IsValid (lb_Type b) \<and>
     (\<exists>p. st_pools st (lb_PoolId b) = Some p \<and> (lb_Type b = BalancerTypeWeighted \<longrightarrow> pool_Type p = PoolTypeStatic)))"

definition routers_ok :: "store \<Rightarrow> bool" where
  "routers_ok st \<longleftrightarrow> (\<forall>i r. st_routers st i = Some r \<longrightarrow>
     i \<noteq> [] \<and> router_Id r = i \<and> (\<forall>rule \<in> set (router_Rules r). st_balancers st (rule_Target rule) \<noteq> None))"

definition flows_ok :: "store \<Rightarrow> bool" where
  "flows_ok st \<longleftrightarrow> (\<forall>i f. st_flows st i = Some f \<longrightarrow>
     i \<noteq> [] \<and> flow_Id f = i \<and> (flow_RouterId f \<noteq> [] \<or> flow_BalancerId f \<noteq> []) \<and>
     (flow_RouterId f \<noteq> [] \<longrightarrow> st_routers st (flow_RouterId f) \<noteq> None) \<and>
     (flow_BalancerId f \<noteq> [] \<longrightarrow> st_balancers st (flow_BalancerId f) \<noteq> None))"

definition entrypoints_ok :: "store \<Rightarrow> bool" where
  "entrypoints_ok st \<longleftrightarrow> (\<forall>i e. st_entrypoints st i = Some e \<longrightarrow>
     i \<noteq> [] \<and> ep_Id e = i \<and> Entrypoint_Validate e = Inr () \<and> st_flows st (ep_FlowId e) \<noteq> None)"

definition ref_ok :: "store \<Rightarrow> bool" where
  "ref_ok st \<longleftrightarrow> proxies_ok st \<and> pools_ok st \<and> balancers_ok st \<and> routers_ok st \<and> flows_ok st \<and> entrypoints_ok st"

lemmas ok_defs = proxies_ok_def pools_ok_def balancers_ok_def routers_ok_def flows_ok_def entrypoints_ok_def

section \<open>Writes and deletions that keep it\<close>

lemma save_proxy_ok:
  assumes "ref_ok st" "i = proxy_Id p" "Proxy_Validate p = Inr ()" "proxy_Id p \<noteq> []"
  shows "ref_ok (st_proxies_update (\<lambda>m. m(i \<mapsto> p)) st)"
  using assms by (auto simp: ref_ok_def ok_defs)

lemma save_pool_ok:
  assumes "ref_ok st" "i = pool_Id p" "Pool_Validate p = Inr ()" "\<not> pool_hasProxiesResolved p" "pool_Id p \<noteq> []"
    and "\<forall>m \<in> set (pool_Members p). st_proxies st (member_ProxyId m) \<noteq> None"
    and "pool_Type p \<noteq> PoolTypeStatic \<Longrightarrow>
           \<forall>i b. st_balancers st i = Some b \<longrightarrow> lb_PoolId b = pool_Id p \<longrightarrow> lb_Type b \<noteq> BalancerTypeWeighted"
  shows "ref_ok (st_pools_update (\<lambda>m. m(i \<mapsto> p)) st)"
  using assms unfolding ref_ok_def ok_defs by (simp) metis

lemma save_balancer_ok:
  assumes "ref_ok st" "i = lb_Id b" "BalancerType_IsValid (lb_Type b)" "lb_Id b \<noteq> []" "st_pools st (lb_PoolId b) = Some p"
    and "lb_Type b = BalancerTypeWeighted \<Longrightarrow> pool_Type p = PoolTypeStatic"
  shows "ref_ok (st_balancers_update (\<lambda>m. m(i \<mapsto> b)) st)"
  using assms by (auto simp: ref_ok_def ok_defs)

lemma save_router_ok:
  assumes "ref_ok st" "i = router_Id r" "router_Id r \<noteq> []" "\<forall>rule \<in> set (router_Rules r). st_balancers st (rule_Target rule) \<noteq> None"
  shows "ref_ok (st_routers_update (\<lambda>m. m(i \<mapsto> r)) st)"
  using assms by (auto simp: ref_ok_def ok_defs)

lemma save_flow_ok:
  assumes "ref_ok st" "i = flow_Id f" "flow_Id f \<noteq> []" "flow_RouterId f \<noteq> [] \<or> flow_BalancerId f \<noteq> []"
    and "flow_RouterId f \<noteq> [] \<Longrightarrow> st_routers st (flow_RouterId f) \<noteq> None"
    and "flow_BalancerId f \<noteq> [] \<Longrightarrow> st_balancers st (flow_BalancerId f) \<noteq> None"
  shows "ref_ok (st_flows_update (\<lambda>m. m(i \<mapsto> f)) st)"
  using assms by (auto simp: ref_ok_def ok_defs)

lemma save_entrypoint_ok:
  assumes "ref_ok st" "i = ep_Id e" "ep_Id e \<noteq> []" "Entrypoint_Validate e = Inr ()" "st_flows st (ep_FlowId e) \<noteq> None"
  shows "ref_ok (st_entrypoints_update (\<lambda>m. m(i \<mapsto> e)) st)"
  using assms by (auto simp: ref_ok_def ok_defs)

lemma delete_proxy_ok:
  assumes "ref_ok st" "\<And>j p. st_pools st j = Some p \<Longrightarrow> \<forall>m \<in> set (pool_Members p). member_ProxyId m \<noteq> i"
  shows "ref_ok (st_proxies_update (\<lambda>m. m(i := None)) st)"
  using assms by (auto simp: ref_ok_def ok_defs)

lemma delete_pool_ok:
  assumes "ref_ok st" "\<And>j b. st_balancers st j = Some b \<Longrightarrow> lb_PoolId b \<noteq> i"
  shows "ref_ok (st_pools_update (\<lambda>m. m(i := None)) st)"
  using assms by (auto simp: ref_ok_def ok_defs)

lemma delete_balancer_ok:
  assumes "ref_ok st" "\<And>j f. st_flows st j = Some f \<Longrightarrow> flow_BalancerId f \<noteq> i"
    and "\<And>j r. st_routers st j = Some r \<Longrightarrow> \<forall>rule \<in> set (router_Rules r). rule_Target rule \<noteq> i"
  shows "ref_ok (st_balancers_update (\<lambda>m. m(i := None)) st)"
  using assms by (auto simp: ref_ok_def ok_defs)

lemma delete_router_ok:
  assumes "ref_ok st" "\<And>j f. st_flows st j = Some f \<Longrightarrow> flow_RouterId f \<noteq> i"
  shows "ref_ok (st_routers_update (\<lambda>m. m(i := None)) st)"
  using assms by (auto simp: ref_ok_def ok_defs)

lemma delete_flow_ok:
  assumes "ref_ok st" "\<And>j e. st_entrypoints st j = Some e \<Longrightarrow> ep_FlowId e \<noteq> i"
  shows "ref_ok (st_flows_update (\<lambda>m. m(i := None)) st)"
  using assms by (auto simp: ref_ok_def ok_defs)

lemma delete_entrypoint_ok:
  assumes "ref_ok st"
  shows "ref_ok (st_entrypoints_update (\<lambda>m. m(i := None)) st)"
  using assms by (auto simp: ref_ok_def ok_defs)

section \<open>Calls\<close>

text \<open>A call of the service that changes state, with the identifier \<^verbatim>\<open>ulid.Make()\<close> and the time it reads.\<close>

datatype cp_call =
    CApplyProxy string time metadata proxy_spec
  | CApplyPool string time metadata pool_spec
  | CApplyBalancer string time metadata balancer_spec
  | CApplyRouter string time metadata router_spec
  | CApplyFlow string time metadata flow_spec
  | CApplyEntrypoint string time metadata entrypoint_spec
  | CDeleteProxy string | CDeletePool string | CDeleteBalancer string
  | CDeleteRouter string | CDeleteFlow string | CDeleteEntrypoint string

definition forget :: "('s, 'a) op \<Rightarrow> ('s, unit) op" where
  "forget m = bind_op m (\<lambda>_. lift_op (Inr ()))"

lemma snd_forget [simp]: "snd (forget m s) = snd (m s)"
  by (simp add: forget_def bind_op_def split: prod.splits sum.splits)

fun exec_call :: "libs \<Rightarrow> ('db, 'ps) service \<Rightarrow> cp_call \<Rightarrow> ('db, 'ps, unit) svc_op" where
  "exec_call L S (CApplyProxy u now meta spec) = forget (ApplyProxyV1 L S u now meta spec)"
| "exec_call L S (CApplyPool u now meta spec) = forget (ApplyPoolV1 S u now meta spec)"
| "exec_call L S (CApplyBalancer u now meta spec) = forget (ApplyBalancerV1 L S u now meta spec)"
| "exec_call L S (CApplyRouter u now meta spec) = forget (ApplyRouterV1 L S u now meta spec)"
| "exec_call L S (CApplyFlow u now meta spec) = forget (ApplyFlowV1 S u now meta spec)"
| "exec_call L S (CApplyEntrypoint u now meta spec) = forget (ApplyEntrypointV1 S u now meta spec)"
| "exec_call L S (CDeleteProxy i) = DeleteProxy S i"
| "exec_call L S (CDeletePool i) = DeletePool S i"
| "exec_call L S (CDeleteBalancer i) = DeleteBalancer S i"
| "exec_call L S (CDeleteRouter i) = DeleteRouter S i"
| "exec_call L S (CDeleteFlow i) = DeleteFlow S i"
| "exec_call L S (CDeleteEntrypoint i) = DeleteEntrypoint S i"

definition run_call :: "libs \<Rightarrow> ('db, 'ps) service \<Rightarrow> cp_call \<Rightarrow> 'db \<times> 'ps \<Rightarrow> 'db \<times> 'ps" where
  "run_call L S c s = snd (exec_call L S c s)"

text \<open>The change event that announces a call.\<close>

definition saved :: "string \<Rightarrow> metadata \<Rightarrow> resource_type \<Rightarrow> change_event" where
  "saved u meta t = \<lparr>event_ID = meta_Name (with_name u meta), event_ResourceType = t, event_ChangeKind = ChangeKindSaved\<rparr>"

definition deleted :: "string \<Rightarrow> resource_type \<Rightarrow> change_event" where
  "deleted i t = \<lparr>event_ID = i, event_ResourceType = t, event_ChangeKind = ChangeKindDeleted\<rparr>"

fun call_event :: "cp_call \<Rightarrow> change_event" where
  "call_event (CApplyProxy u _ meta _) = saved u meta ResourceTypeProxy"
| "call_event (CApplyPool u _ meta _) = saved u meta ResourceTypePool"
| "call_event (CApplyBalancer u _ meta _) = saved u meta ResourceTypeBalancer"
| "call_event (CApplyRouter u _ meta _) = saved u meta ResourceTypeRouter"
| "call_event (CApplyFlow u _ meta _) = saved u meta ResourceTypeFlow"
| "call_event (CApplyEntrypoint u _ meta _) = saved u meta ResourceTypeEntrypoint"
| "call_event (CDeleteProxy i) = deleted i ResourceTypeProxy"
| "call_event (CDeletePool i) = deleted i ResourceTypePool"
| "call_event (CDeleteBalancer i) = deleted i ResourceTypeBalancer"
| "call_event (CDeleteRouter i) = deleted i ResourceTypeRouter"
| "call_event (CDeleteFlow i) = deleted i ResourceTypeFlow"
| "call_event (CDeleteEntrypoint i) = deleted i ResourceTypeEntrypoint"

text \<open>\<^verbatim>\<open>ulid.Make()\<close> never returns the empty string.\<close>

fun call_named :: "cp_call \<Rightarrow> bool" where
  "call_named (CApplyProxy u _ _ _) = (u \<noteq> [])"
| "call_named (CApplyPool u _ _ _) = (u \<noteq> [])"
| "call_named (CApplyBalancer u _ _ _) = (u \<noteq> [])"
| "call_named (CApplyRouter u _ _ _) = (u \<noteq> [])"
| "call_named (CApplyFlow u _ _ _) = (u \<noteq> [])"
| "call_named (CApplyEntrypoint u _ _ _) = (u \<noteq> [])"
| "call_named _ = True"

section \<open>The contract of the service's repositories\<close>

locale cp_repos =
  px: repo_contract "svc_proxyRepo S" abs st_proxies st_proxies_update proxy_Id id pxf +
  pl: repo_contract "svc_poolRepo S" abs st_pools st_pools_update pool_Id persist_pool plf +
  bl: repo_contract "svc_lbRepo S" abs st_balancers st_balancers_update lb_Id id blf +
  rt: repo_contract "svc_routerRepo S" abs st_routers st_routers_update router_Id strip_router rtf +
  fl: repo_contract "svc_flowRepo S" abs st_flows st_flows_update flow_Id id flf +
  ep: repo_contract "svc_epRepo S" abs st_entrypoints st_entrypoints_update ep_Id id epf
  for S :: "('db, 'ps) service" and abs :: "'db \<Rightarrow> store" and pxf plf blf rtf flf epf +
  assumes pools_by_proxy: "i \<noteq> [] \<Longrightarrow> accepts (plf (no_pool_filter\<lparr>plf_ProxyId := i\<rparr>)) p \<longleftrightarrow> i \<in> set (MemberProxyIds p)"
    and balancers_by_pool: "i \<noteq> [] \<Longrightarrow> accepts (blf (no_balancer_filter\<lparr>bf_PoolId := i\<rparr>)) b \<longleftrightarrow> lb_PoolId b = i"
    and weighted_by_pool: "i \<noteq> [] \<Longrightarrow>
          accepts (blf (no_balancer_filter\<lparr>bf_PoolId := i, bf_Type := BalancerTypeWeighted\<rparr>)) b \<longleftrightarrow>
          lb_PoolId b = i \<and> lb_Type b = BalancerTypeWeighted"
    and flows_by_balancer: "i \<noteq> [] \<Longrightarrow> accepts (flf (no_flow_filter\<lparr>ff_BalancerId := i\<rparr>)) f \<longleftrightarrow> flow_BalancerId f = i"
    and flows_by_router: "i \<noteq> [] \<Longrightarrow> accepts (flf (no_flow_filter\<lparr>ff_RouterId := i\<rparr>)) f \<longleftrightarrow> flow_RouterId f = i"
    and routers_by_target: "i \<noteq> [] \<Longrightarrow>
          accepts (rtf (no_router_filter\<lparr>rf_TargetBalancerId := i\<rparr>)) r \<longleftrightarrow> i \<in> set (map rule_Target (router_Rules r))"
    and entrypoints_by_flow: "i \<noteq> [] \<Longrightarrow> accepts (epf (no_entrypoint_filter\<lparr>ef_FlowId := i\<rparr>)) e \<longleftrightarrow> ep_FlowId e = i"
begin

definition ok :: "'db \<times> 'ps \<Rightarrow> bool" where
  "ok s \<longleftrightarrow> ref_ok (abs (fst s))"

lemma ok_fire [simp]: "ok (snd (fireEvent S i t k s)) = ok s"
  by (simp add: ok_def)

text \<open>A listing without dependents means that nothing refers to the resource.\<close>

lemma unreferenced:
  assumes "i \<noteq> []"
  shows "port_List (svc_poolRepo S) all_params (no_pool_filter\<lparr>plf_ProxyId := i\<rparr>) db = Inr pls \<Longrightarrow> Items pls = [] \<Longrightarrow>
           st_pools (abs db) j = Some p \<Longrightarrow> m \<in> set (pool_Members p) \<Longrightarrow> member_ProxyId m \<noteq> i"
    and "port_List (svc_lbRepo S) all_params (no_balancer_filter\<lparr>bf_PoolId := i\<rparr>) db = Inr bls \<Longrightarrow> Items bls = [] \<Longrightarrow>
           st_balancers (abs db) j = Some b \<Longrightarrow> lb_PoolId b \<noteq> i"
    and "port_List (svc_lbRepo S) all_params (no_balancer_filter\<lparr>bf_PoolId := i, bf_Type := BalancerTypeWeighted\<rparr>) db = Inr bls \<Longrightarrow>
           Items bls = [] \<Longrightarrow> st_balancers (abs db) j = Some b \<Longrightarrow> lb_PoolId b = i \<Longrightarrow> lb_Type b \<noteq> BalancerTypeWeighted"
    and "port_List (svc_flowRepo S) all_params (no_flow_filter\<lparr>ff_BalancerId := i\<rparr>) db = Inr fls \<Longrightarrow> Items fls = [] \<Longrightarrow>
           st_flows (abs db) j = Some f \<Longrightarrow> flow_BalancerId f \<noteq> i"
    and "port_List (svc_routerRepo S) all_params (no_router_filter\<lparr>rf_TargetBalancerId := i\<rparr>) db = Inr rts \<Longrightarrow> Items rts = [] \<Longrightarrow>
           st_routers (abs db) j = Some r \<Longrightarrow> rule \<in> set (router_Rules r) \<Longrightarrow> rule_Target rule \<noteq> i"
    and "port_List (svc_flowRepo S) all_params (no_flow_filter\<lparr>ff_RouterId := i\<rparr>) db = Inr fls \<Longrightarrow> Items fls = [] \<Longrightarrow>
           st_flows (abs db) j = Some f \<Longrightarrow> flow_RouterId f \<noteq> i"
    and "port_List (svc_epRepo S) all_params (no_entrypoint_filter\<lparr>ef_FlowId := i\<rparr>) db = Inr eps \<Longrightarrow> Items eps = [] \<Longrightarrow>
           st_entrypoints (abs db) j = Some e \<Longrightarrow> ep_FlowId e \<noteq> i"
  using assms
  by (auto dest!: pl.list_empty bl.list_empty fl.list_empty rt.list_empty ep.list_empty simp: pools_by_proxy balancers_by_pool weighted_by_pool flows_by_balancer routers_by_target flows_by_router
      entrypoints_by_flow MemberProxyIds_def)

lemma ApplyProxyV1_ok:
  assumes "ok s" "ulid \<noteq> []"
  shows "wp (ApplyProxyV1 L S ulid now meta spec) (\<lambda>_. ok) (\<lambda>_. ok) s"
  unfolding ApplyProxyV1_def 
  by (intro op_intros; (simp only: ok_fire)?; (rule assms(1))?)
    (insert assms, auto simp: ok_def run_simps stamp_proxy_keeps dest!: px.save_ok px.save_fail proxyFromSpecV1_Id intro!: save_proxy_ok split: sum.splits)

lemma ApplyBalancerV1_ok:
  assumes "ok s" "ulid \<noteq> []"
  shows "wp (ApplyBalancerV1 L S ulid now meta spec) (\<lambda>_. ok) (\<lambda>_. ok) s"
  unfolding ApplyBalancerV1_def Let_def requirePool_def if_read_db
  by (intro op_intros; (simp only: ok_fire)?; (rule assms(1))?)
    (insert assms, auto simp: ok_def run_simps  dest!: bl.save_ok bl.save_fail pl.find_ok intro!: save_balancer_ok split: sum.splits if_splits)

lemma ApplyFlowV1_ok:
  assumes "ok s" "ulid \<noteq> []"
  shows "wp (ApplyFlowV1 S ulid now meta spec) (\<lambda>_. ok) (\<lambda>_. ok) s"
  unfolding ApplyFlowV1_def Let_def requireBalancer_def requireRouter_def if_read_db
  by (intro op_intros; (simp only: ok_fire)?; (rule assms(1))?)
    (insert assms, auto simp: ok_def run_simps FlowSpecV1_Validate_ok dest!: fl.save_ok fl.save_fail bl.find_ok rt.find_ok intro!: save_flow_ok split: if_splits)

lemma ApplyEntrypointV1_ok:
  assumes "ok s" "ulid \<noteq> []"
  shows "wp (ApplyEntrypointV1 S ulid now meta spec) (\<lambda>_. ok) (\<lambda>_. ok) s"
  unfolding ApplyEntrypointV1_def Let_def requireFlow_def
  by (intro op_intros; (simp only: ok_fire)?; (rule assms(1))?)
    (insert assms, auto simp: ok_def run_simps  dest!: ep.save_ok ep.save_fail fl.find_ok intro!: save_entrypoint_ok split: sum.splits)

lemma ApplyRouterV1_ok:
  assumes "ok s" "ulid \<noteq> []"
  shows "wp (ApplyRouterV1 L S ulid now meta spec) (\<lambda>_. ok) (\<lambda>_. ok) s"
proof -
  define r where "r = fst (Router_Validate (lib_regexp L) (routerFromSpecV1 (with_name ulid meta) spec))"
  have i: "router_Id r \<noteq> []"
    using assms(2) by (simp add: r_def Router_Validate_targets) (simp add: routerFromSpecV1_def)
  have targets: "\<forall>rule \<in> set (router_Rules (strip_router (r\<lparr>router_ts := t\<rparr>))). P (rule_Target rule)"
    if "\<forall>rule \<in> set (router_Rules r). P (rule_Target rule)" for P t
    using that by (auto simp: strip_router_def strip_rule_def)
  show ?thesis
    unfolding ApplyRouterV1_def Let_def requireBalancer_def each_read_db case_prod_beta r_def [symmetric]
    by (intro op_intros; (simp only: ok_fire)?; (rule assms(1))?; insert assms i;
        auto simp: ok_def run_simps dest!: rt.save_ok rt.save_fail intro!: save_router_ok targets; blast dest: bl.find_ok)
qed

lemma pool_checks:
  assumes "Pool_Validate p = Inr ()"
  shows "(if pool_Type p = PoolTypeStatic
          then check_all (\<lambda>m. require (port_Find (svc_proxyRepo S) (member_ProxyId m) db) (e m)) (pool_Members p)
          else Inr ()) = Inr u \<Longrightarrow> \<forall>m \<in> set (pool_Members p). st_proxies (abs db) (member_ProxyId m) \<noteq> None"
    and "(if pool_Type p \<noteq> PoolTypeStatic
          then bind_res (wrap w (port_List (svc_lbRepo S) all_params
                  (no_balancer_filter\<lparr>bf_PoolId := pool_Id p, bf_Type := BalancerTypeWeighted\<rparr>) db))
                (\<lambda>result. case Items result of [] \<Rightarrow> Inr () | b # _ \<Rightarrow> Inl (f b))
          else Inr ()) = Inr u \<Longrightarrow> pool_Type p \<noteq> PoolTypeStatic \<Longrightarrow>
        \<forall>i b. st_balancers (abs db) i = Some b \<longrightarrow> lb_PoolId b = pool_Id p \<longrightarrow> lb_Type b \<noteq> BalancerTypeWeighted"
proof -
  have v: "pool_Id p \<noteq> []" "pool_Type p \<noteq> PoolTypeStatic \<Longrightarrow> pool_Members p = []"
    using assms by (auto simp: Pool_Validate_ok static_pool_ok_def dynamic_pool_ok_def)
  have none: "(case xs of [] \<Rightarrow> Inr () | b # _ \<Rightarrow> Inl (f b)) = (Inr () :: unit result) \<longleftrightarrow> xs = []" for xs
    by (cases xs) auto
  show "(if pool_Type p = PoolTypeStatic
          then check_all (\<lambda>m. require (port_Find (svc_proxyRepo S) (member_ProxyId m) db) (e m)) (pool_Members p)
          else Inr ()) = Inr u \<Longrightarrow> \<forall>m \<in> set (pool_Members p). st_proxies (abs db) (member_ProxyId m) \<noteq> None"
    using v(2) by (auto simp: run_simps split: if_splits dest!: bspec px.find_ok)
  show "(if pool_Type p \<noteq> PoolTypeStatic
          then bind_res (wrap w (port_List (svc_lbRepo S) all_params
                  (no_balancer_filter\<lparr>bf_PoolId := pool_Id p, bf_Type := BalancerTypeWeighted\<rparr>) db))
                (\<lambda>result. case Items result of [] \<Rightarrow> Inr () | b # _ \<Rightarrow> Inl (f b))
          else Inr ()) = Inr u \<Longrightarrow> pool_Type p \<noteq> PoolTypeStatic \<Longrightarrow>
        \<forall>i b. st_balancers (abs db) i = Some b \<longrightarrow> lb_PoolId b = pool_Id p \<longrightarrow> lb_Type b \<noteq> BalancerTypeWeighted"
    using unreferenced(3) [OF v(1)] by (auto simp: run_simps none)
qed

lemma save_pool:
  assumes "port_Save (svc_poolRepo S) p db = (Inr u, db')" "ref_ok (abs db)" "Pool_Validate p = Inr ()"
    and "\<forall>m \<in> set (pool_Members p). st_proxies (abs db) (member_ProxyId m) \<noteq> None"
    and "pool_Type p \<noteq> PoolTypeStatic \<Longrightarrow>
           \<forall>i b. st_balancers (abs db) i = Some b \<longrightarrow> lb_PoolId b = pool_Id p \<longrightarrow> lb_Type b \<noteq> BalancerTypeWeighted"
  shows "ref_ok (abs db')"
proof -
  have "ref_ok (st_pools_update (\<lambda>m. m(pool_Id p \<mapsto> persist_pool p)) (abs db))"
    by (rule save_pool_ok) (use assms(2-5) in \<open>auto simp: persist_pool_def Pool_Validate_ok static_pool_ok_def dynamic_pool_ok_def MemberProxyIds_def\<close>)
  then show ?thesis using pl.save_ok [OF assms(1)] by simp
qed

lemma ApplyPoolV1_ok:
  assumes "ok s" "ulid \<noteq> []"
  shows "wp (ApplyPoolV1 S ulid now meta spec) (\<lambda>_. ok) (\<lambda>_. ok) s"
  unfolding ApplyPoolV1_def Let_def requireProxy_def rejectIfWeightedBalancersReference_def each_read_db if_read_db
  apply (intro op_intros; (simp only: ok_fire)?; (rule assms(1))?)
  subgoal premises prems for _ p u _ _ c _ db
  proof -
    have v: "Pool_Validate p = Inr ()" using prems(3) by (simp add: run_simps)
    show ?thesis
      using save_pool [OF prems(7)] v assms(1) pool_checks(1) [OF v prems(4)] pool_checks(2) [OF v prems(5)]
      by (simp add: ok_def)
  qed
  subgoal using assms(1) by (auto simp: ok_def dest: pl.save_fail)
  done

lemma DeleteProxy_ok:
  assumes "ok s"
  shows "wp (DeleteProxy S i) (\<lambda>_. ok) (\<lambda>_. ok) s"
  unfolding DeleteProxy_def rejectIfPoolsReferenceProxy_def
  by (intro op_intros; (simp only: ok_fire)?; (rule assms)?; insert assms;
      auto simp: ok_def run_simps dest!: px.delete_ok px.delete_fail intro!: delete_proxy_ok; blast dest: unreferenced)

lemma DeletePool_ok:
  assumes "ok s"
  shows "wp (DeletePool S i) (\<lambda>_. ok) (\<lambda>_. ok) s"
  unfolding DeletePool_def rejectIfBalancersReferencePool_def
  by (intro op_intros; (simp only: ok_fire)?; (rule assms)?; insert assms;
      auto simp: ok_def run_simps dest!: pl.delete_ok pl.delete_fail intro!: delete_pool_ok; blast dest: unreferenced)

lemma DeleteBalancer_ok:
  assumes "ok s"
  shows "wp (DeleteBalancer S i) (\<lambda>_. ok) (\<lambda>_. ok) s"
  unfolding DeleteBalancer_def rejectIfFlowsOrRoutersReferenceBalancer_def
  by (intro op_intros; (simp only: ok_fire)?; (rule assms)?; insert assms;
      auto simp: ok_def run_simps dest!: bl.delete_ok bl.delete_fail intro!: delete_balancer_ok; blast dest: unreferenced)

lemma DeleteRouter_ok:
  assumes "ok s"
  shows "wp (DeleteRouter S i) (\<lambda>_. ok) (\<lambda>_. ok) s"
  unfolding DeleteRouter_def rejectIfFlowsReferenceRouter_def
  by (intro op_intros; (simp only: ok_fire)?; (rule assms)?; insert assms;
      auto simp: ok_def run_simps dest!: rt.delete_ok rt.delete_fail intro!: delete_router_ok; blast dest: unreferenced)

lemma DeleteFlow_ok:
  assumes "ok s"
  shows "wp (DeleteFlow S i) (\<lambda>_. ok) (\<lambda>_. ok) s"
  unfolding DeleteFlow_def rejectIfEntrypointsReferenceFlow_def
  by (intro op_intros; (simp only: ok_fire)?; (rule assms)?; insert assms;
      auto simp: ok_def run_simps dest!: fl.delete_ok fl.delete_fail intro!: delete_flow_ok; blast dest: unreferenced)

lemma DeleteEntrypoint_ok:
  assumes "ok s"
  shows "wp (DeleteEntrypoint S i) (\<lambda>_. ok) (\<lambda>_. ok) s"
  unfolding DeleteEntrypoint_def 
  by (intro op_intros; (simp only: ok_fire)?; (rule assms)?; insert assms;
      auto simp: ok_def run_simps dest!: ep.delete_ok ep.delete_fail intro!: delete_entrypoint_ok; blast dest: unreferenced)

lemmas calls_keep = ApplyProxyV1_ok [THEN wp_state] ApplyPoolV1_ok [THEN wp_state] ApplyBalancerV1_ok [THEN wp_state] ApplyRouterV1_ok [THEN wp_state] ApplyFlowV1_ok [THEN wp_state] ApplyEntrypointV1_ok [THEN wp_state] DeleteProxy_ok [THEN wp_state] DeletePool_ok [THEN wp_state] DeleteBalancer_ok [THEN wp_state] DeleteRouter_ok [THEN wp_state] DeleteFlow_ok [THEN wp_state] DeleteEntrypoint_ok [THEN wp_state]

lemma call_ok:
  assumes "ok s" "call_named c"
  shows "ok (run_call L S c s)"
  using assms by (cases c) (simp_all add: run_call_def calls_keep)

lemma calls_ok:
  assumes "ok s" "\<forall>c \<in> set cs. call_named c"
  shows "ok (fold (run_call L S) cs s)"
  using assms by (induction cs arbitrary: s) (simp_all add: call_ok)

end

section \<open>The service over Badger\<close>

definition badger_service ::
  "('db, 'txn, 'b) badger \<Rightarrow> 'b json_lib \<Rightarrow> (change_event \<Rightarrow> ('ps, unit) op) \<Rightarrow> ('db, 'ps) service" where
  "badger_service B J publish =
     \<lparr>svc_proxyRepo = ProxyRepository B J, svc_poolRepo = PoolRepository B J, svc_lbRepo = BalancerRepository B J,
      svc_routerRepo = RouterRepository B J, svc_flowRepo = FlowRepository B J, svc_epRepo = EntrypointRepository B J,
      svc_Publish = publish\<rparr>"

lemma badger_service_simps [simp]:
  "svc_proxyRepo (badger_service B J publish) = ProxyRepository B J"
  "svc_poolRepo (badger_service B J publish) = PoolRepository B J"
  "svc_lbRepo (badger_service B J publish) = BalancerRepository B J"
  "svc_routerRepo (badger_service B J publish) = RouterRepository B J"
  "svc_flowRepo (badger_service B J publish) = FlowRepository B J"
  "svc_epRepo (badger_service B J publish) = EntrypointRepository B J"
  "svc_Publish (badger_service B J publish) = publish"
  by (simp_all add: badger_service_def)

sublocale badger_store \<subseteq> cp: cp_repos "badger_service B J publish" st buildProxyPredicate buildPoolPredicate
    buildBalancerPredicate buildRouterPredicate buildFlowPredicate buildEntrypointPredicate
  for publish :: "change_event \<Rightarrow> ('ps, unit) op"
  by (intro cp_repos.intro cp_repos_axioms.intro; (simp only: badger_service_simps)?;
      (rule proxy_repo.repo_contract_axioms pool_repo.repo_contract_axioms balancer_repo.repo_contract_axioms
         router_repo.repo_contract_axioms flow_repo.repo_contract_axioms entrypoint_repo.repo_contract_axioms)?)
    (auto simp: accepts_def buildPoolPredicate_def buildBalancerPredicate_def buildFlowPredicate_def
      buildRouterPredicate_def buildEntrypointPredicate_def no_pool_filter_def no_balancer_filter_def no_flow_filter_def
      no_router_filter_def no_entrypoint_filter_def MemberProxyIds_def list_ex_iff balancer_type_defs)

context badger_store
begin

lemma service_calls_ok:
  assumes "ref_ok (abs_store J (contents db))" "\<forall>c \<in> set calls. call_named c"
  shows "ref_ok (abs_store J (contents (fst (fold (run_call L (badger_service B J publish)) calls (db, ps)))))"
  using cp.calls_ok [of "(db, ps)" calls L publish] assms unfolding cp.ok_def st_def by simp

end

text \<open>
  C1.  Referential integrity.  Over any Badger store and codec that meet their contracts, and
  whatever storage calls fail, no sequence of \<^verbatim>\<open>Apply\<close> and \<^verbatim>\<open>Delete\<close> calls breaks a reference: a
  store whose pools name existing proxies, whose balancers name existing pools (static ones, if
  weighted), whose routers and flows name existing balancers and routers and whose entrypoints
  name existing flows, all of them valid and stored under their own non-empty identifier, remains so.
\<close>

theorem integrity_preserved:
  assumes "badger_store B contents txn_contents J" "ref_ok (abs_store J (contents db))"
    and "\<forall>c \<in> set calls. call_named c"
  shows "ref_ok (abs_store J (contents (fst (fold (run_call L (badger_service B J publish)) calls (db, ps)))))"
  using badger_store.service_calls_ok [OF assms] .

definition sample_libs :: libs where
  "sample_libs = \<lparr>lib_ParseDuration = \<lambda>_. Inl (External ''time''), lib_url_Parse = \<lambda>_. Inl (External ''url''),
     lib_url_String = \<lambda>_. [], lib_regexp = ex_regexp\<rparr>"

definition sample_calls :: "cp_call list" where
  "sample_calls =
     [CApplyProxy ''u1'' 5 \<lparr>meta_Name = ''p1'', meta_Labels = []\<rparr>
        \<lparr>pxs_URL = [], pxs_Protocol = ''http'', pxs_Host = ''h'', pxs_Port = 80, pxs_Auth = None\<rparr>,
      CApplyPool ''u2'' 6 \<lparr>meta_Name = [], meta_Labels = []\<rparr>
        \<lparr>pls_Title = [], pls_Type = ''static'', pls_Members = [\<lparr>pms_ProxyId = ''p1'', pms_Weight = None\<rparr>], pls_Selector = None\<rparr>,
      CDeleteProxy ''p1'']"

definition log_event :: "change_event \<Rightarrow> (change_event list, unit) op" where
  "log_event e ps = (Inr (), ps @ [e])"

theorem integrity_preserved_witness:
  "ref_ok (abs_store ref_json (map_of (fst (fold (run_call sample_libs (badger_service ref_badger ref_json log_event))
     sample_calls ([], [])))))"
proof -
  have "ref_ok (abs_store ref_json (map_of []))"
    by (simp add: ref_ok_def ok_defs abs_map_def)
  then show ?thesis
    by (rule integrity_preserved [OF ref.badger_store_axioms]) (simp add: sample_calls_def)
qed

section \<open>Events\<close>

lemma wp_forget: "wp m (\<lambda>_. Q ()) E s \<Longrightarrow> wp (forget m) Q E s"
  unfolding forget_def by (intro wp_bind) (auto elim!: wp_conseq intro: wp_lift)

lemma fire_event_snd: "snd (snd (fireEvent S i t k s)) = snd (svc_Publish S \<lparr>event_ID = i, event_ResourceType = t, event_ChangeKind = k\<rparr> (snd s))"
  by (simp add: fireEvent_def split: prod.splits)

lemmas read_defs = requireProxy_def requirePool_def requireBalancer_def requireRouter_def requireFlow_def
  rejectIfPoolsReferenceProxy_def rejectIfBalancersReferencePool_def rejectIfFlowsOrRoutersReferenceBalancer_def
  rejectIfFlowsReferenceRouter_def rejectIfEntrypointsReferenceFlow_def rejectIfWeightedBalancersReference_def
  each_read_db if_read_db

lemma exec_call_event:
  "wp (exec_call L S c) (\<lambda>_ s'. snd s' = snd (svc_Publish S (call_event c) (snd s))) (\<lambda>_ s'. snd s' = snd s) s"
proof (cases c)
  case (CApplyProxy u now meta spec)
  show ?thesis
    by (simp only: CApplyProxy exec_call.simps ApplyProxyV1_def; intro wp_forget op_intros)
      (auto simp: fire_event_snd saved_def run_simps stamp_proxy_keeps dest!: proxyFromSpecV1_Id)
next
  case (CApplyPool u now meta spec)
  show ?thesis
    by (simp only: CApplyPool exec_call.simps ApplyPoolV1_def Let_def read_defs; intro wp_forget op_intros)
      (auto simp: fire_event_snd saved_def dest!: poolFromSpecV1_Id split: option.splits)
next
  case (CApplyRouter u now meta spec)
  have "router_Id (routerFromSpecV1 (with_name u meta) spec) = meta_Name (with_name u meta)"
    by (simp add: routerFromSpecV1_def)
  then show ?thesis
    by (simp only: CApplyRouter exec_call.simps ApplyRouterV1_def Let_def read_defs case_prod_beta; intro wp_forget op_intros)
      (auto simp: fire_event_snd saved_def Router_Validate_targets)
next
  case (CApplyBalancer u now meta spec)
  show ?thesis
    by (simp only: CApplyBalancer exec_call.simps ApplyBalancerV1_def Let_def read_defs; intro wp_forget op_intros)
      (auto simp: fire_event_snd saved_def)
next
  case (CApplyFlow u now meta spec)
  show ?thesis
    by (simp only: CApplyFlow exec_call.simps ApplyFlowV1_def Let_def read_defs; intro wp_forget op_intros) (auto simp: fire_event_snd saved_def)
next
  case (CApplyEntrypoint u now meta spec)
  show ?thesis
    by (simp only: CApplyEntrypoint exec_call.simps ApplyEntrypointV1_def Let_def read_defs; intro wp_forget op_intros) (auto simp: fire_event_snd saved_def)
qed (simp only: exec_call.simps DeleteProxy_def DeletePool_def DeleteBalancer_def DeleteRouter_def DeleteFlow_def DeleteEntrypoint_def
       read_defs; intro wp_forget op_intros; simp add: fire_event_snd deleted_def)+

text \<open>
  Every call that succeeds publishes exactly one change event, the one that names its
  resource, type and change; a call that fails publishes none.
\<close>

theorem one_event_per_call:
  "case exec_call L S c s of
     (Inr _, s') \<Rightarrow> snd s' = snd (svc_Publish S (call_event c) (snd s))
   | (Inl _, s') \<Rightarrow> snd s' = snd s"
  using exec_call_event [of L S c s] by (simp add: wp_def)

section \<open>Deletions that are refused, updates that keep\<close>

text \<open>The resource a deletion names is still referred to.\<close>

fun referenced :: "store \<Rightarrow> cp_call \<Rightarrow> bool" where
  "referenced st (CDeleteProxy i) = (\<exists>j p. st_pools st j = Some p \<and> i \<in> set (MemberProxyIds p))"
| "referenced st (CDeletePool i) = (\<exists>j b. st_balancers st j = Some b \<and> lb_PoolId b = i)"
| "referenced st (CDeleteBalancer i) =
     ((\<exists>j f. st_flows st j = Some f \<and> flow_BalancerId f = i) \<or>
      (\<exists>j r. st_routers st j = Some r \<and> i \<in> set (map rule_Target (router_Rules r))))"
| "referenced st (CDeleteRouter i) = (\<exists>j f. st_flows st j = Some f \<and> flow_RouterId f = i)"
| "referenced st (CDeleteFlow i) = (\<exists>j e. st_entrypoints st j = Some e \<and> ep_FlowId e = i)"
| "referenced st _ = False"

context cp_repos
begin

lemma referenced_refused:
  assumes "referenced (abs (fst s)) c"
  shows "wp (exec_call L S c) (\<lambda>_ _. False) (\<lambda>_ s'. s' = s) s"
proof (cases c)
  case (CDeleteProxy i)
  show ?thesis
    by (simp only: CDeleteProxy exec_call.simps DeleteProxy_def read_defs; intro op_intros; insert assms CDeleteProxy)
      (auto simp: run_simps MemberProxyIds_def dest: unreferenced(1))
next
  case (CDeletePool i)
  show ?thesis
    by (simp only: CDeletePool exec_call.simps DeletePool_def read_defs; intro op_intros; insert assms CDeletePool)
      (auto simp: run_simps dest: unreferenced(2))
next
  case (CDeleteBalancer i)
  show ?thesis
    by (simp only: CDeleteBalancer exec_call.simps DeleteBalancer_def read_defs; intro op_intros; insert assms CDeleteBalancer)
      (auto simp: run_simps dest: unreferenced(4,5))
next
  case (CDeleteRouter i)
  show ?thesis
    by (simp only: CDeleteRouter exec_call.simps DeleteRouter_def read_defs; intro op_intros; insert assms CDeleteRouter)
      (auto simp: run_simps dest: unreferenced(6))
next
  case (CDeleteFlow i)
  show ?thesis
    by (simp only: CDeleteFlow exec_call.simps DeleteFlow_def read_defs; intro op_intros; insert assms CDeleteFlow)
      (auto simp: run_simps dest: unreferenced(7))
qed (use assms in auto)

lemma ApplyProxyV1_effect:
  assumes "ApplyProxyV1 L S ulid now meta spec s = (Inr p, s')"
  shows "abs (fst s') = st_proxies_update (\<lambda>m. m(meta_Name (with_name ulid meta) \<mapsto> p)) (abs (fst s)) \<and>
    UpdatedAt (proxy_ts p) = now \<and>
    (case st_proxies (abs (fst s)) (meta_Name (with_name ulid meta)) of
       None \<Rightarrow> CreatedAt (proxy_ts p) = now \<and> (pxs_URL spec = [] \<longrightarrow> proxy_Auth p = pxs_Auth spec)
     | Some old \<Rightarrow> CreatedAt (proxy_ts p) = CreatedAt (proxy_ts old) \<and>
         (pxs_URL spec = [] \<longrightarrow> proxy_Auth p = (if pxs_Auth spec = None then proxy_Auth old else pxs_Auth spec)))"
proof -
  let ?n = "meta_Name (with_name ulid meta)"
  from assms obtain p0 db where p0: "proxyFromSpecV1 (NewProxyFromURL (lib_url_Parse L) (lib_url_String L)) (with_name ulid meta) spec = Inr p0"
    and st: "stamp_proxy spec now (port_Find (svc_proxyRepo S) (proxy_Id p0) (fst s)) p0 = Inr p"
    and sv: "port_Save (svc_proxyRepo S) p (fst s) = (Inr (), db)" and s': "fst s' = db"
    by (auto simp: ApplyProxyV1_def bind_op_Inr_iff wrap_op_Inr_iff run_simps read_db_def on_db_def fire_and_return_def
        split: prod.splits sum.splits)
  have i: "proxy_Id p0 = ?n" by (rule proxyFromSpecV1_Id [OF p0])
  have au: "pxs_URL spec = [] \<Longrightarrow> proxy_Auth p0 = pxs_Auth spec"
    using p0 by (auto simp: proxyFromSpecV1_def authFromSpec_def split: option.splits)
  have "abs db = st_proxies_update (\<lambda>m. m(?n \<mapsto> p)) (abs (fst s))"
    using px.save_ok [OF sv] stamp_proxy_keeps(1) [OF st] i by simp
  moreover have "st_proxies (abs (fst s)) ?n = (case port_Find (svc_proxyRepo S) ?n (fst s) of Inl _ \<Rightarrow> None | Inr x \<Rightarrow> Some x)"
    using px.find_ok px.find_missing st i
    by (auto simp: stamp_proxy_def run_simps created_at_Inr split: sum.splits)
  ultimately show ?thesis
    using st i au s' by (auto simp: stamp_proxy_def run_simps created_at_Inr keep_auth_def split: option.splits)
qed

end

context badger_store
begin

lemma service_refuses:
  assumes "referenced (abs_store J (contents db)) c"
  shows "\<exists>e. exec_call L (badger_service B J publish) c (db, ps) = (Inl e, (db, ps))"
  using cp.referenced_refused [of "(db, ps)" c L publish] assms
  by (auto simp: wp_def st_def split: prod.splits sum.splits)

lemmas service_apply_proxy = cp.ApplyProxyV1_effect

end

text \<open>
  C13.  A resource that another one refers to cannot be deleted: over any Badger store, the
  deletion of a proxy that a pool lists, of a pool that a balancer uses, of a balancer that a flow
  or a router rule targets, of a router that a flow uses or of a flow that an entrypoint uses fails
  and changes neither the store nor the event stream.
\<close>

theorem referenced_resource_not_deleted:
  assumes "badger_store B contents txn_contents J" "referenced (abs_store J (contents db)) c"
  shows "\<exists>e. exec_call L (badger_service B J publish) c (db, ps) = (Inl e, (db, ps))"
  using badger_store.service_refuses [OF assms] .

definition sample_pool_db :: ref_db where
  "sample_pool_db = [(poolKey ''pool'', BPool \<lparr>StorageVersion = ''v1'', Kind = ''Pool'', Stored_Labels = [],
     Spec = persist_pool (sample_pool ''pool'' [(''p1'', 1)])\<rparr>)]"

theorem referenced_resource_not_deleted_witness:
  "\<exists>e. exec_call sample_libs (badger_service ref_badger ref_json log_event) (CDeleteProxy ''p1'') (sample_pool_db, []) =
     (Inl e, (sample_pool_db, []))"
proof -
  have "abs_map (json_pool ref_json) poolPrefix (map_of sample_pool_db) ''pool'' = Some (persist_pool (sample_pool ''pool'' [(''p1'', 1)]))"
    by (simp add: abs_map_def sample_pool_db_def poolKey_def repo_unmarshal_def ref_json_def ref_codec_def)
  then have "referenced (abs_store ref_json (map_of sample_pool_db)) (CDeleteProxy ''p1'')"
    by (auto simp: MemberProxyIds_def intro!: exI [of _ "''pool''"])
  then show ?thesis by (rule referenced_resource_not_deleted [OF ref.badger_store_axioms])
qed

text \<open>
  Applying a proxy again keeps what it must: a successful \<^verbatim>\<open>ApplyProxyV1\<close> stores the returned
  proxy under the applied name and touches nothing else; the update time is now, the creation time
  is the stored one if there was one, and a manual specification without credentials keeps the
  stored credentials.
\<close>

theorem apply_proxy_update:
  assumes "badger_store B contents txn_contents J"
    and "ApplyProxyV1 L (badger_service B J publish) ulid now meta spec (db, ps) = (Inr p, (db', ps'))"
  shows "abs_store J (contents db') = st_proxies_update (\<lambda>m. m(meta_Name (with_name ulid meta) \<mapsto> p)) (abs_store J (contents db)) \<and>
    UpdatedAt (proxy_ts p) = now \<and>
    (case st_proxies (abs_store J (contents db)) (meta_Name (with_name ulid meta)) of
       None \<Rightarrow> CreatedAt (proxy_ts p) = now \<and> (pxs_URL spec = [] \<longrightarrow> proxy_Auth p = pxs_Auth spec)
     | Some old \<Rightarrow> CreatedAt (proxy_ts p) = CreatedAt (proxy_ts old) \<and>
         (pxs_URL spec = [] \<longrightarrow> proxy_Auth p = (if pxs_Auth spec = None then proxy_Auth old else pxs_Auth spec)))"
  using badger_store.service_apply_proxy [OF assms] by (simp add: badger_store.st_def [OF assms(1)])

definition sample_proxy_db :: ref_db where
  "sample_proxy_db = [(proxyKey ''p1'', BProxy \<lparr>StorageVersion = ''v1'', Kind = ''Proxy'', Stored_Labels = [],
     Spec = (sample_proxy ''p1'')\<lparr>proxy_Auth := Some \<lparr>auth_User = ''u'', auth_Pass = ''w''\<rparr>\<rparr>\<rparr>)]"

theorem apply_proxy_update_witness:
  "\<exists>p db'. ApplyProxyV1 sample_libs (badger_service ref_badger ref_json log_event) ''u1'' 9 \<lparr>meta_Name = ''p1'', meta_Labels = []\<rparr>
        \<lparr>pxs_URL = [], pxs_Protocol = ''http'', pxs_Host = ''h'', pxs_Port = 80, pxs_Auth = None\<rparr> (sample_proxy_db, []) = (Inr p, db') \<and>
     CreatedAt (proxy_ts p) = 0 \<and> UpdatedAt (proxy_ts p) = 9 \<and> proxy_Auth p = Some \<lparr>auth_User = ''u'', auth_Pass = ''w''\<rparr>"
proof -
  let ?spec = "\<lparr>pxs_URL = [], pxs_Protocol = ''http'', pxs_Host = ''h'', pxs_Port = 80, pxs_Auth = None\<rparr>"
    and ?meta = "\<lparr>meta_Name = ''p1'', meta_Labels = []\<rparr>" and ?S = "badger_service ref_badger ref_json log_event"
  obtain p db' ps' where a: "ApplyProxyV1 sample_libs ?S ''u1'' 9 ?meta ?spec (sample_proxy_db, []) = (Inr p, (db', ps'))"
    by (simp add: ApplyProxyV1_def ProxySpecV1_Validate_def proxyFromSpecV1_def with_name_def Proxy_Validate_def
        Protocol_IsValid_def protocol_defs read_db_def stamp_proxy_def created_at_def resolveCreatedAt_def
        ProxyRepository_def ProxyRepository_Find_def repo_Find_def db_View_def repo_find_txn_def get_item_def ref_badger_def flaky_badger_def
        sample_proxy_db_def repo_unmarshal_def ref_json_def ref_codec_def keep_auth_def sample_proxy_def bind_op_def wrap_op_def
        on_db_def ProxyRepository_Save_def repo_Save_def repo_marshal_def db_Update_def set_only_def fire_and_return_def fireEvent_def log_event_def)
  have "abs_map (json_proxy ref_json) proxyPrefix (map_of sample_proxy_db) ''p1'' =
      Some ((sample_proxy ''p1'')\<lparr>proxy_Auth := Some \<lparr>auth_User = ''u'', auth_Pass = ''w''\<rparr>\<rparr>)"
    by (simp add: abs_map_def sample_proxy_db_def proxyKey_def repo_unmarshal_def ref_json_def ref_codec_def)
  with apply_proxy_update [OF ref.badger_store_axioms a] a show ?thesis
    by (simp add: with_name_def sample_proxy_def zero_timestamps_def zero_time_def)
qed

end
