(* ===== verification/Auth_Safety.thy ===== *)
theory Auth_Safety
  imports Auth Integrity
begin

text \<open>
  What the auth and agent services guarantee.  The locale \<open>auth_repos\<close> is the contract they rely on
  of their repositories; its lemmas are about the services' methods, the Badger repositories meet
  it, and the properties are stated over Badger stores.
\<close>

lemma on_db_Inr_iff: "on_db m s = (Inr x, s') \<longleftrightarrow> (\<exists>db. m (fst s) = (Inr x, db) \<and> s' = (db, snd s))"
  by (auto simp: on_db_def split: prod.splits)

lemma on_db_Inl_iff: "on_db m s = (Inl e, s') \<longleftrightarrow> (\<exists>db. m (fst s) = (Inl e, db) \<and> s' = (db, snd s))"
  by (auto simp: on_db_def split: prod.splits)

section \<open>Calls of the auth service\<close>

datatype auth_call =
    ABootstrap "string result"
  | AInitAdmin time "string result" string string string
  | ALogin time "string result" string string duration bool
  | ALogout string
  | ACreateUser time string string string role
  | ADeleteUser string
  | AChangePassword time string string string
  | AResetPassword time string string

fun exec_auth :: "crypto \<Rightarrow> 'db auth_service \<Rightarrow> auth_call \<Rightarrow> ('db, unit) auth_op" where
  "exec_auth C S (ABootstrap rnd) = Bootstrap_auth S rnd"
| "exec_auth C S (AInitAdmin now rnd t u p) = forget (InitAdmin C S now rnd t u p)"
| "exec_auth C S (ALogin now rnd u p ttl noExpiry) = forget (Login C S now rnd u p ttl noExpiry)"
| "exec_auth C S (ALogout t) = Logout C S t"
| "exec_auth C S (ACreateUser now rt u p role) = forget (CreateUser C S now rt u p role)"
| "exec_auth C S (ADeleteUser u) = DeleteUser S u"
| "exec_auth C S (AChangePassword now u old new) = ChangePassword C S now u old new"
| "exec_auth C S (AResetPassword now u new) = ResetPassword C S now u new"

definition run_auth :: "crypto \<Rightarrow> 'db auth_service \<Rightarrow> auth_call \<Rightarrow> 'db \<times> string \<Rightarrow> 'db \<times> string" where
  "run_auth C S c s = snd (exec_auth C S c s)"

text \<open>The user whose sessions a call is to end.\<close>

fun revoked_user :: "auth_call \<Rightarrow> string option" where
  "revoked_user (ADeleteUser u) = Some u"
| "revoked_user (AChangePassword _ u _ _) = Some u"
| "revoked_user (AResetPassword _ u _) = Some u"
| "revoked_user _ = None"

definition users_ok :: "store \<Rightarrow> bool" where
  "users_ok st \<longleftrightarrow> (\<forall>i u. st_users st i = Some u \<longrightarrow> user_Id u = i)"

definition has_admin :: "store \<Rightarrow> bool" where
  "has_admin st \<longleftrightarrow> (\<exists>i u. st_users st i = Some u \<and> IsAdmin u)"

lemma admin_added:
  assumes "users_ok st" "has_admin st" "st_users st i = None" "user_Id u = i"
  shows "users_ok (st_users_update (\<lambda>m. m(i \<mapsto> u)) st)" "has_admin (st_users_update (\<lambda>m. m(i \<mapsto> u)) st)"
  using assms by (auto simp: users_ok_def has_admin_def) (metis option.distinct(1))

lemma admin_changed:
  assumes "users_ok st" "has_admin st" "st_users st i = Some u" "user_Id u' = i" "user_Role u' = user_Role u"
  shows "users_ok (st_users_update (\<lambda>m. m(i \<mapsto> u')) st)" "has_admin (st_users_update (\<lambda>m. m(i \<mapsto> u')) st)"
  using assms by (auto simp: users_ok_def has_admin_def IsAdmin_def) (metis option.inject)

lemma admin_deleted:
  assumes "users_ok st" "has_admin st" "st_users st i = Some u"
    and "IsAdmin u \<Longrightarrow> 1 < card {i. \<exists>u. st_users st i = Some u \<and> IsAdmin u}"
  shows "users_ok (st_users_update (\<lambda>m. m(i := None)) st)" "has_admin (st_users_update (\<lambda>m. m(i := None)) st)"
proof -
  show "users_ok (st_users_update (\<lambda>m. m(i := None)) st)" using assms(1) by (simp add: users_ok_def)
  have "\<exists>j u. j \<noteq> i \<and> st_users st j = Some u \<and> IsAdmin u"
  proof (cases "IsAdmin u")
    case True
    then have "\<not> {i. \<exists>u. st_users st i = Some u \<and> IsAdmin u} \<subseteq> {i}"
      using assms(4) card_mono [of "{i}" "{i. \<exists>u. st_users st i = Some u \<and> IsAdmin u}"] by auto
    then show ?thesis by blast
  next
    case False
    with assms(2,3) obtain j v where jv: "st_users st j = Some v" "IsAdmin v" by (auto simp: has_admin_def)
    with assms(3) False have "j \<noteq> i" by auto
    with jv show ?thesis by blast
  qed
  then show "has_admin (st_users_update (\<lambda>m. m(i := None)) st)" by (auto simp: has_admin_def)
qed

section \<open>The contract\<close>

text \<open>
  The services as \<^verbatim>\<open>main\<close> wires them: the auth service \<open>S\<close>, the agent service \<open>R\<close> and the authenticator
  \<open>X\<close> share their repositories.
\<close>

locale auth_repos =
  us: create_contract "au_users S" abs st_users st_users_update user_Id id uf "user_Create (au_users S)" ErrUserExists +
  ag: create_contract "as_agents R" abs st_agents st_agents_update agent_Id id af "agent_Create (as_agents R)" ErrAgentExists +
  tk: token_contract "au_tokens S" abs +
  rg: registration_token_contract "cred_regTokens (as_creds R)" abs
  for S :: "'db auth_service" and R :: "'db agent_service" and X :: "'db authenticator" and abs :: "'db \<Rightarrow> store" and uf af +
  assumes user_count: "user_Count (au_users S) db = Inr n \<Longrightarrow> int (card (dom (st_users (abs db)))) \<le> n"
    and admins_by_role: "accepts (uf admin_filter) u \<longleftrightarrow> IsAdmin u"
    and shared: "cred_tokens (as_creds R) = au_tokens S" "authn_users X = au_users S" "authn_tokens X = au_tokens S"
      "authn_agents X = as_agents R"
begin

definition auth_ok :: "'db \<Rightarrow> bool" where
  "auth_ok db \<longleftrightarrow> users_ok (abs db) \<and> has_admin (abs db)"

lemma token_op_users:
  "tok_Save (au_tokens S) now t db = (r, db') \<Longrightarrow> st_users (abs db') = st_users (abs db)"
  "tok_Delete (au_tokens S) h db = (r, db') \<Longrightarrow> st_users (abs db') = st_users (abs db)"
  "tok_DeleteByUserId (au_tokens S) i db = (r, db') \<Longrightarrow> st_users (abs db') = st_users (abs db)"
proof -
  show "tok_Save (au_tokens S) now t db = (r, db') \<Longrightarrow> st_users (abs db') = st_users (abs db)"
    using tk.tok_save_ok [of now t db _ db'] tk.tok_save_fail [of now t db _ db'] by (cases r) auto
  show "tok_Delete (au_tokens S) h db = (r, db') \<Longrightarrow> st_users (abs db') = st_users (abs db)"
    using tk.tok_delete_ok [of h db _ db'] tk.tok_delete_fail [of h db _ db'] by (cases r) auto
  show "tok_DeleteByUserId (au_tokens S) i db = (r, db') \<Longrightarrow> st_users (abs db') = st_users (abs db)"
    using tk.tok_delete_user_ok [of i db _ db'] tk.tok_delete_user_fail [of i db _ db'] by (cases r) auto
qed

lemma auth_ok_users: "st_users (abs db') = st_users (abs db) \<Longrightarrow> auth_ok db \<Longrightarrow> auth_ok db'"
  by (simp add: auth_ok_def users_ok_def has_admin_def)

lemma token_op_ok:
  "tok_Save (au_tokens S) now t db = (r, db') \<Longrightarrow> auth_ok db \<Longrightarrow> auth_ok db'"
  "tok_Delete (au_tokens S) h db = (r, db') \<Longrightarrow> auth_ok db \<Longrightarrow> auth_ok db'"
  "tok_DeleteByUserId (au_tokens S) i db = (r, db') \<Longrightarrow> auth_ok db \<Longrightarrow> auth_ok db'"
  using token_op_users auth_ok_users by blast+

lemma user_created_ok:
  assumes "user_Create (au_users S) u db = (r, db')" "auth_ok db"
  shows "auth_ok db'"
proof (cases r)
  case (Inl e)
  with assms us.create_fail [of u db e db'] show ?thesis by (simp add: auth_ok_def)
next
  case (Inr x)
  with assms us.create_ok [of u db x db'] admin_added [of "abs db" "user_Id u" u] show ?thesis by (simp add: auth_ok_def)
qed

lemma user_saved_ok:
  assumes "port_Save (au_users S) u' db = (r, db')" "auth_ok db"
    and "st_users (abs db) i = Some u" "user_Id u' = user_Id u" "user_Role u' = user_Role u"
  shows "auth_ok db'"
proof (cases r)
  case (Inl e)
  with assms us.save_fail [of u' db e db'] show ?thesis by (simp add: auth_ok_def)
next
  case (Inr x)
  have "user_Id u = i" using assms by (simp add: auth_ok_def users_ok_def)
  with Inr assms us.save_ok [of u' db x db'] admin_changed [of "abs db" i u u'] show ?thesis by (simp add: auth_ok_def)
qed

lemma user_deleted_ok:
  assumes "port_Delete (au_users S) i db = (r, db')" "auth_ok db" "port_Find (au_users S) i db = Inr u"
    and "IsAdmin u \<Longrightarrow> \<exists>res. port_List (au_users S) all_params admin_filter db = Inr res \<and> 1 < TotalCount res"
  shows "auth_ok db'"
proof (cases r)
  case (Inl e)
  with assms us.delete_fail [of i db e db'] show ?thesis by (simp add: auth_ok_def)
next
  case (Inr x)
  have "1 < card {i. \<exists>u. st_users (abs db) i = Some u \<and> IsAdmin u}" if "IsAdmin u"
    using assms(4) [OF that] us.list_total [of admin_filter db] by (auto simp: admins_by_role)
  with Inr assms us.delete_ok [of i db x db'] admin_deleted [of "abs db" i u] us.find_ok [of i db u]
  show ?thesis by (simp add: auth_ok_def)
qed

lemma issueToken_ok:
  assumes "auth_ok (fst s)"
  shows "wp (issueToken C S now rnd u ttl) (\<lambda>_ s. auth_ok (fst s)) (\<lambda>_ s. auth_ok (fst s)) s"
  unfolding issueToken_def Let_def
  by (intro op_intros; (simp only: fst_conv)?; (rule assms | erule token_op_ok [OF _ assms])?)

lemma createUser_ok:
  assumes "auth_ok (fst s)"
  shows "wp (createUser C S now u p role) (\<lambda>_ s. auth_ok (fst s)) (\<lambda>_ s. auth_ok (fst s)) s"
  unfolding createUser_def Let_def
  by (intro op_intros; (simp only: fst_conv)?; (rule assms | erule user_created_ok [OF _ assms])?)

lemma setPassword_ok:
  assumes "auth_ok (fst s)" "st_users (abs (fst s)) i = Some u"
  shows "wp (setPassword C S now u p) (\<lambda>_ s. auth_ok (fst s)) (\<lambda>_ s. auth_ok (fst s)) s"
proof -
  have sv: "auth_ok db" if "port_Save (au_users S) (u\<lparr>user_PasswordHash := h, user_ts := t\<rparr>) (fst s) = (r, db)" for r db h t
    by (rule user_saved_ok [OF that assms]) simp_all
  show ?thesis
    unfolding setPassword_def Let_def
    by (intro op_intros; (simp only: fst_conv)?; (rule assms(1) | erule sv | erule token_op_ok [OF _ sv])?)
qed

lemma DeleteUser_ok:
  assumes "auth_ok (fst s)"
  shows "wp (DeleteUser S u) (\<lambda>_ s. auth_ok (fst s)) (\<lambda>_ s. auth_ok (fst s)) s"
proof -
  have dl: "auth_ok db" if "port_Delete (au_users S) u (fst s) = (r, db)" "wrap w (port_Find (au_users S) u (fst s)) = Inr v"
     "(if IsAdmin v then bind_res (wrap w' (port_List (au_users S) all_params admin_filter (fst s)))
         (\<lambda>admins. guard_res (\<not> TotalCount admins \<le> 1) e) else Inr ()) = Inr y" for r db v w w' e y
    using that assms by (intro user_deleted_ok [of u "fst s" r db v]) (auto simp: run_simps)
  show ?thesis
    unfolding DeleteUser_def if_read_db
    by (intro op_intros; (simp only: fst_conv)?; (rule assms | erule (2) dl | erule token_op_ok [OF _ dl], assumption+)?)
qed

lemma InitAdmin_ok: "keeps (\<lambda>s. auth_ok (fst s)) (InitAdmin C S now rnd t u p)"
  unfolding InitAdmin_def read_db_def
  by (intro keeps_bind keeps_read keeps_guard keeps_lift) (auto intro!: keepsI issueToken_ok [THEN wp_state] createUser_ok [THEN wp_state] simp: set_bootstrap_def)

lemma Bootstrap_ok: "keeps (\<lambda>s. auth_ok (fst s)) (Bootstrap_auth S rnd)"
  unfolding Bootstrap_auth_def read_db_def
  by (intro keeps_bind keeps_read) (auto simp: keeps_def set_bootstrap_def split: sum.splits)

lemma Login_ok: "keeps (\<lambda>s. auth_ok (fst s)) (Login C S now rnd u p ttl noExpiry)"
  unfolding Login_def read_db_def
  by (intro keeps_bind keeps_read keeps_guard) (auto intro!: keepsI issueToken_ok [THEN wp_state])

lemma Logout_ok: "keeps (\<lambda>s. auth_ok (fst s)) (Logout C S t)"
  unfolding Logout_def
  by (intro keeps_wrap keepsI) (auto simp: on_db_def split: prod.splits elim: token_op_ok)

lemma CreateUser_ok: "keeps (\<lambda>s. auth_ok (fst s)) (CreateUser C S now rt u p role)"
  unfolding CreateUser_def Let_def
  by (intro keeps_bind keeps_lift keepsI createUser_ok [THEN wp_state])

lemma DeleteUser_keeps: "keeps (\<lambda>s. auth_ok (fst s)) (DeleteUser S u)"
  by (intro keepsI DeleteUser_ok [THEN wp_state])

lemma ResetPassword_ok: "keeps (\<lambda>s. auth_ok (fst s)) (ResetPassword C S now u new)"
  unfolding ResetPassword_def
  by (rule keepsI, rule wp_state, intro op_intros setPassword_ok [where i = u]) (auto simp: run_simps us.find_ok)

lemma ChangePassword_ok: "keeps (\<lambda>s. auth_ok (fst s)) (ChangePassword C S now u old new)"
  unfolding ChangePassword_def
  by (rule keepsI, rule wp_state, intro op_intros setPassword_ok [where i = u]) (auto simp: run_simps us.find_ok)

lemma auth_call_ok: "keeps (\<lambda>s. auth_ok (fst s)) (exec_auth C S c)"
  by (cases c; simp only: exec_auth.simps forget_def;
      intro keeps_bind keeps_lift InitAdmin_ok Bootstrap_ok Login_ok Logout_ok CreateUser_ok ChangePassword_ok ResetPassword_ok DeleteUser_keeps)

lemma auth_calls_ok:
  assumes "auth_ok (fst s)"
  shows "auth_ok (fst (fold (run_auth C S) cs s))"
  using assms by (induction cs arbitrary: s) (simp_all add: run_auth_def keepsD [OF auth_call_ok])

lemma no_users: "user_Count (au_users S) db = Inr n \<Longrightarrow> n \<le> 0 \<Longrightarrow> st_users (abs db) = (\<lambda>_. None)"
  using user_count [of db n] us.finite_store [of db] by (auto simp: card_gt_0_iff fun_eq_iff dest: card_0_eq)

lemma createUser_effect:
  assumes "createUser C S now i p role s = (Inr u, s')"
  shows "user_Id u = i \<and> user_Role u = role \<and> st_users (abs (fst s)) i = None \<and>
         abs (fst s') = st_users_update (\<lambda>m. m(i \<mapsto> u)) (abs (fst s)) \<and> snd s' = snd s"
  using assms unfolding createUser_def Let_def bind_op_Inr_iff wrap_op_Inr_iff on_db_Inr_iff
  by (auto dest!: us.create_ok)

lemma InitAdmin_success:
  assumes "InitAdmin C S now rnd t u p s = (Inr r, s')"
  shows "auth_ok (fst s')"
proof -
  from assms obtain n v s1 where n: "user_Count (au_users S) (fst s) = Inr n" "n \<le> 0"
    and c: "createUser C S now u p RoleAdmin s = (Inr v, s1)"
    and rest: "bind_op (set_bootstrap []) (\<lambda>_. bind_op (issueToken C S now rnd (user_Id v) (au_defaultTTL S)) (\<lambda>token. lift_op (Inr (v, token)))) s1 = (Inr r, s')"
    unfolding InitAdmin_def bind_op_Inr_iff [of "read_db f" for f] bind_op_Inr_iff [of "guard_op b e" for b e]
      bind_op_Inr_iff [of "read_op f" for f] bind_op_Inr_iff [of "createUser C S now u p RoleAdmin"]
    by (auto simp: read_db_def run_simps not_less)
  from createUser_effect [OF c] no_users [OF n] have "auth_ok (fst s1)"
    by (auto simp: auth_ok_def users_ok_def has_admin_def IsAdmin_def)
  moreover have "keeps (\<lambda>s. auth_ok (fst s)) (bind_op (set_bootstrap []) (\<lambda>_. bind_op (issueToken C S now rnd (user_Id v) (au_defaultTTL S)) (\<lambda>token. lift_op (Inr (v, token)))))"
    by (intro keeps_bind keeps_lift) (auto intro!: keepsI issueToken_ok [THEN wp_state] simp: set_bootstrap_def)
  ultimately show ?thesis using keepsD [of _ _ s1] rest by fastforce
qed

lemma InitAdmin_refused:
  assumes "auth_ok (fst s)"
  shows "\<exists>e. InitAdmin C S now rnd t u p s = (Inl e, s)"
proof (cases "user_Count (au_users S) (fst s)")
  case (Inr n)
  have "st_users (abs (fst s)) \<noteq> (\<lambda>_. None)" using assms by (auto simp: auth_ok_def has_admin_def)
  with no_users [OF Inr] have "0 < n" by linarith
  with Inr show ?thesis by (simp add: InitAdmin_def read_db_def)
qed (simp add: InitAdmin_def read_db_def)

lemma setPassword_effect:
  assumes "setPassword C S now u new s = (Inr x, s')"
  shows "\<exists>h. hashPassword C new = Inr h \<and> abs (fst s') =
    st_tokens_update (\<lambda>m. without m (\<lambda>t. token_UserId t = user_Id u))
      (st_users_update (\<lambda>m. m(user_Id u \<mapsto> u\<lparr>user_PasswordHash := h, user_ts := (user_ts u)\<lparr>UpdatedAt := now\<rparr>\<rparr>)) (abs (fst s)))"
  using assms unfolding setPassword_def Let_def bind_op_Inr_iff wrap_op_Inr_iff on_db_Inr_iff
  by (auto dest!: us.save_ok tk.tok_delete_user_ok)

lemma DeleteUser_effect:
  assumes "DeleteUser S i s = (Inr x, s')"
  shows "(\<exists>u. st_users (abs (fst s)) i = Some u) \<and> abs (fst s') =
    st_tokens_update (\<lambda>m. without m (\<lambda>t. token_UserId t = i)) (st_users_update (\<lambda>m. m(i := None)) (abs (fst s)))"
  using assms unfolding DeleteUser_def bind_op_Inr_iff wrap_op_Inr_iff on_db_Inr_iff if_read_db
  by (auto simp: read_db_def run_simps dest!: us.find_ok us.delete_ok tk.tok_delete_user_ok)

lemma reject_token_cases:
  assumes "reject_token X t db = (r, db')"
  shows "r = Inl (Sentinel ErrInvalidToken)"
    and "abs db' = abs db \<or> abs db' = st_tokens_update (\<lambda>m. m(token_Hash t := None)) (abs db)"
proof -
  obtain q where q: "tok_Delete (au_tokens S) (token_Hash t) db = (q, db')"
    using assms by (metis reject_token_def shared(3) snd_conv surj_pair)
  show "r = Inl (Sentinel ErrInvalidToken)" using assms by (simp add: reject_token_def)
  show "abs db' = abs db \<or> abs db' = st_tokens_update (\<lambda>m. m(token_Hash t := None)) (abs db)"
    using tk.tok_delete_ok [of "token_Hash t" db] tk.tok_delete_fail [of "token_Hash t" db] q by (cases q) blast+
qed

lemma Authenticate_ok:
  assumes "Authenticate C X now tok db = (Inr p, db')"
  shows "db' = db \<and> (\<exists>t. st_tokens (abs db) (hashToken C tok) = Some t \<and> \<not> Token_IsExpired t now \<and>
       (token_UserId t \<noteq> [] \<and> (\<exists>u. st_users (abs db) (token_UserId t) = Some u \<and> p = \<lparr>principal_User = Some u, principal_Agent = None\<rparr>) \<or>
        token_UserId t = [] \<and> token_AgentId t \<noteq> [] \<and>
          (\<exists>a. st_agents (abs db) (token_AgentId t) = Some a \<and> p = \<lparr>principal_User = None, principal_Agent = Some a\<rparr>)))"
  using assms unfolding Authenticate_def shared
  by (auto split: if_splits sum.splits dest!: tk.tok_find_ok dest: us.find_ok ag.find_ok reject_token_cases(1))

lemma Authenticate_fail:
  assumes "Authenticate C X now tok db = (Inl e, db')"
  shows "e = Sentinel ErrInvalidToken \<and> (abs db' = abs db \<or> (\<exists>t. st_tokens (abs db) (hashToken C tok) = Some t \<and>
       abs db' = st_tokens_update (\<lambda>m. m(token_Hash t := None)) (abs db)))"
  using assms unfolding Authenticate_def shared
  by (auto split: if_splits sum.splits dest!: tk.tok_find_ok dest: reject_token_cases)

lemma Authenticate_live:
  assumes "st_tokens (abs db) (hashToken C tok) = Some t" "\<not> Token_IsExpired t now" "tok \<noteq> []"
    and "token_UserId t \<noteq> []" "st_users (abs db) (token_UserId t) = Some u"
    and "\<And>e. tok_Find (au_tokens S) (hashToken C tok) db = Inl e \<Longrightarrow> errors_Is e ErrNotFound"
    and "\<And>e. port_Find (au_users S) (token_UserId t) db = Inl e \<Longrightarrow> errors_Is e ErrNotFound"
  shows "Authenticate C X now tok db = (Inr \<lparr>principal_User = Some u, principal_Agent = None\<rparr>, db)"
proof -
  have "tok_Find (au_tokens S) (hashToken C tok) db = Inr t"
    using assms(1,6) tk.tok_find_ok [of "hashToken C tok" db] tk.tok_find_missing [of "hashToken C tok" db]
    by (cases "tok_Find (au_tokens S) (hashToken C tok) db") auto
  moreover have "port_Find (au_users S) (token_UserId t) db = Inr u"
    using assms(5,7) us.find_ok [of "token_UserId t" db] us.find_missing [of "token_UserId t" db]
    by (cases "port_Find (au_users S) (token_UserId t) db") auto
  ultimately show ?thesis using assms(2-4) by (simp add: Authenticate_def shared)
qed

lemma issueToken_effect:
  assumes "issueToken C S now rnd i ttl s = (Inr tok, s')" "ttl \<le> 0 \<or> Second \<le> ttl"
  shows "tok \<noteq> [] \<and> i \<noteq> [] \<and> abs (fst s') = st_tokens_update (\<lambda>m. m(hashToken C tok \<mapsto>
    \<lparr>token_ts = \<lparr>CreatedAt = now, UpdatedAt = now\<rparr>, token_Hash = hashToken C tok, token_UserId = i, token_AgentId = [],
     token_ExpiresAt = (if ttl > 0 then Some (now + ttl) else None)\<rparr>)) (abs (fst s))"
proof -
  have "Second \<le> time_Sub (now + ttl) now" if "0 < ttl"
    using that assms(2) by (auto simp: time_Sub_def Second_def max_int64_def min_int64_def)
  with assms(1) show ?thesis
    unfolding issueToken_def Let_def bind_op_Inr_iff wrap_op_Inr_iff on_db_Inr_iff
    by (auto simp: generateToken_def res_simps dest!: tk.tok_save_live split: if_splits)
qed

definition session_ttl :: "duration \<Rightarrow> bool \<Rightarrow> duration" where
  "session_ttl ttl noExpiry = (if noExpiry then 0 else if ttl \<le> 0 then au_defaultTTL S else ttl)"

lemma Login_authenticates:
  assumes "Login C S now rnd i p ttl noExpiry s = (Inr tok, s')" "users_ok (abs (fst s))"
    and "session_ttl ttl noExpiry \<le> 0 \<or> Second \<le> session_ttl ttl noExpiry"
    and "session_ttl ttl noExpiry \<le> 0 \<or> later \<le> now + session_ttl ttl noExpiry"
    and "\<And>h e. tok_Find (au_tokens S) h (fst s') = Inl e \<Longrightarrow> errors_Is e ErrNotFound"
    and "\<And>i e. port_Find (au_users S) i (fst s') = Inl e \<Longrightarrow> errors_Is e ErrNotFound"
  shows "\<exists>u. st_users (abs (fst s)) i = Some u \<and> bcrypt_Compare C (user_PasswordHash u) p \<and>
    Authenticate C X later tok (fst s') = (Inr \<lparr>principal_User = Some u, principal_Agent = None\<rparr>, fst s')"
proof -
  from assms(1) obtain u where u: "port_Find (au_users S) i (fst s) = Inr u" "bcrypt_Compare C (user_PasswordHash u) p"
    and it: "issueToken C S now rnd (user_Id u) (session_ttl ttl noExpiry) s = (Inr tok, s')"
    unfolding Login_def session_ttl_def bind_op_Inr_iff by (auto simp: read_db_def run_simps)
  from us.find_ok [OF u(1)] assms(2) have i: "st_users (abs (fst s)) i = Some u" "user_Id u = i"
    by (auto simp: users_ok_def)
  from issueToken_effect [OF it assms(3)] i(2) have "tok \<noteq> []" "i \<noteq> []" and st': "abs (fst s') = st_tokens_update (\<lambda>m. m(hashToken C tok \<mapsto>
    \<lparr>token_ts = \<lparr>CreatedAt = now, UpdatedAt = now\<rparr>, token_Hash = hashToken C tok, token_UserId = i, token_AgentId = [],
     token_ExpiresAt = (if session_ttl ttl noExpiry > 0 then Some (now + session_ttl ttl noExpiry) else None)\<rparr>)) (abs (fst s))" by auto
  then have "Authenticate C X later tok (fst s') = (Inr \<lparr>principal_User = Some u, principal_Agent = None\<rparr>, fst s')"
    using i assms(4-6) by (intro Authenticate_live) (auto simp: Token_IsExpired_def split: if_splits)
  with u(2) i(1) show ?thesis by blast
qed

lemma consume_effect:
  assumes "ConsumeRegistrationToken C (as_creds R) now tok db = (Inr x, db')"
  shows "\<exists>t. st_registration_tokens (abs db) (hashToken C tok) = Some t \<and> \<not> RegistrationToken_IsExpired t now \<and>
    abs db' = st_registration_tokens_update (\<lambda>m. m(hashToken C tok := None)) (abs db)"
  using assms unfolding ConsumeRegistrationToken_def bind_op_Inr_iff wrap_op_Inr_iff
  by (auto simp: guard_res_Inr_iff dest!: rg.rtr_consume_ok)

lemma consume_spent:
  assumes "st_registration_tokens (abs db) (hashToken C tok) = None"
  shows "\<exists>db'. ConsumeRegistrationToken C (as_creds R) now tok db = (Inl (Sentinel ErrInvalidRegistrationToken), db') \<and> abs db' = abs db"
proof -
  obtain r db' where c: "rtr_Consume (cred_regTokens (as_creds R)) (hashToken C tok) db = (r, db')" by fastforce
  then obtain e where "r = Inl e" using assms rg.rtr_consume_ok [of "hashToken C tok" db _ db'] by (cases r) auto
  with c rg.rtr_consume_fail [of "hashToken C tok" db e db'] show ?thesis
    by (simp add: ConsumeRegistrationToken_def bind_op_def wrap_op_def)
qed

lemma Register_effect:
  assumes "Register C R now rnd tok a db = (Inr (b, atok), db')" "Second \<le> as_agentTokenTTL R"
  shows "(\<exists>t. st_registration_tokens (abs db) (hashToken C tok) = Some t \<and> \<not> RegistrationToken_IsExpired t now) \<and>
    st_agents (abs db) (agent_Id a) = None \<and> b = a\<lparr>agent_ts := \<lparr>CreatedAt = now, UpdatedAt = now\<rparr>\<rparr> \<and>
    abs db' = st_tokens_update (\<lambda>m. m(hashToken C atok \<mapsto>
        \<lparr>token_ts = \<lparr>CreatedAt = now, UpdatedAt = now\<rparr>, token_Hash = hashToken C atok, token_UserId = [], token_AgentId = agent_Id a,
         token_ExpiresAt = Some (now + as_agentTokenTTL R)\<rparr>))
      (st_agents_update (\<lambda>m. m(agent_Id a \<mapsto> b))
        (st_registration_tokens_update (\<lambda>m. m(hashToken C tok := None)) (abs db)))"
proof -
  have "Second \<le> time_Sub (now + as_agentTokenTTL R) now"
    using assms(2) by (auto simp: time_Sub_def Second_def max_int64_def min_int64_def)
  with assms(1) show ?thesis
    unfolding Register_def Let_def bind_op_Inr_iff wrap_op_Inr_iff IssueAgentToken_def shared
    by (auto simp: generateToken_def dest!: consume_effect ag.create_ok tk.tok_save_live)
qed

lemma DeleteAgent_effect:
  assumes "DeleteAgent R i db = (Inr x, db')"
  shows "i \<noteq> [] \<and> (\<exists>a. st_agents (abs db) i = Some a) \<and> abs db' =
    st_agents_update (\<lambda>m. m(i := None)) (st_tokens_update (\<lambda>m. without m (\<lambda>t. token_AgentId t = i)) (abs db))"
  using assms unfolding DeleteAgent_def RevokeAgentTokens_def shared bind_op_Inr_iff wrap_op_Inr_iff
  by (auto simp: run_simps dest!: ag.find_ok ag.delete_ok tk.tok_delete_agent_ok)

end

section \<open>The services over Badger\<close>

definition badger_auth :: "('db, 'txn, 'b) badger \<Rightarrow> 'b json_lib \<Rightarrow> duration \<Rightarrow> 'db auth_service" where
  "badger_auth B J ttl = \<lparr>au_users = UserRepository B J, au_tokens = TokenRepository B J, au_defaultTTL = ttl\<rparr>"

definition badger_agents :: "('db, 'txn, 'b) badger \<Rightarrow> 'b json_lib \<Rightarrow> duration \<Rightarrow> 'db agent_service" where
  "badger_agents B J ttl =
     \<lparr>as_agents = AgentRepository B J,
      as_creds = \<lparr>cred_tokens = TokenRepository B J, cred_regTokens = RegistrationTokenRepository B J\<rparr>,
      as_agentTokenTTL = ttl\<rparr>"

definition badger_authn :: "('db, 'txn, 'b) badger \<Rightarrow> 'b json_lib \<Rightarrow> 'db authenticator" where
  "badger_authn B J = \<lparr>authn_users = UserRepository B J, authn_agents = AgentRepository B J, authn_tokens = TokenRepository B J\<rparr>"

lemma badger_auth_simps [simp]:
  "au_users (badger_auth B J ttl) = UserRepository B J" "au_tokens (badger_auth B J ttl) = TokenRepository B J"
  "au_defaultTTL (badger_auth B J ttl) = ttl"
  "as_agents (badger_agents B J ttl) = AgentRepository B J" "as_agentTokenTTL (badger_agents B J ttl) = ttl"
  "as_creds (badger_agents B J ttl) = \<lparr>cred_tokens = TokenRepository B J, cred_regTokens = RegistrationTokenRepository B J\<rparr>"
  "authn_users (badger_authn B J) = UserRepository B J" "authn_agents (badger_authn B J) = AgentRepository B J"
  "authn_tokens (badger_authn B J) = TokenRepository B J"
  by (simp_all add: badger_auth_def badger_agents_def badger_authn_def)

context badger_db
begin

lemma iter_length:
  "card (dom (abs_map J pfx (txn_contents txn))) \<le> length (txn_Iterator B txn pfx)"
proof -
  have "(\<lambda>i. pfx @ i) ` dom (abs_map J pfx (txn_contents txn)) \<subseteq> set (map fst (txn_Iterator B txn pfx))"
  proof (clarsimp simp: abs_map_Some)
    fix i b assume "txn_contents txn (pfx @ i) = Some b"
    with iter_dom [of "pfx @ i" pfx txn] show "pfx @ i \<in> fst ` set (txn_Iterator B txn pfx)"
      by (force simp: HasPrefix_def)
  qed
  from card_mono [OF _ this] card_length [of "map fst (txn_Iterator B txn pfx)"]
  show ?thesis by (simp add: card_image inj_on_def)
qed

end

sublocale badger_store \<subseteq> auth: auth_repos "badger_auth B J sttl" "badger_agents B J attl" "badger_authn B J" st
    buildUserPredicate buildAgentPredicate
  for sttl attl
proof (intro auth_repos.intro auth_repos_axioms.intro; (simp only: badger_auth_simps agent_credentials.simps)?;
    (rule user_create.create_contract_axioms agent_create.create_contract_axioms token_repo.token_contract_axioms
      registration_token_repo.registration_token_contract_axioms)?)
  fix db n u
  show "int (card (dom (st_users (st db)))) \<le> n" if "user_Count (UserRepository B J) db = Inr n"
    using that iter_length [of "json_user J" userPrefix "NewTransaction B db"]
    by (auto simp: UserRepository_def UserRepository_Count_def db_View_def st_def txn_start)
  show "accepts (buildUserPredicate admin_filter) u = IsAdmin u"
    by (simp add: buildUserPredicate_def admin_filter_def accepts_def IsAdmin_def RoleAdmin_def)
qed

context badger_store
begin

lemma admin_stays:
  assumes "users_ok (abs_store J (contents db))" "has_admin (abs_store J (contents db))"
  shows "has_admin (abs_store J (contents (fst (fold (run_auth C (badger_auth B J ttl)) calls (db, b)))))"
  using auth.auth_calls_ok [of "(db, b)"] assms unfolding auth.auth_ok_def st_def by simp

lemma admin_once:
  assumes "InitAdmin C (badger_auth B J ttl) now rnd t u p s = (Inr r, s')"
  shows "\<exists>e. InitAdmin C (badger_auth B J ttl) now' rnd' t' u' p' (fold (run_auth C (badger_auth B J ttl)) calls s') =
       (Inl e, fold (run_auth C (badger_auth B J ttl)) calls s')"
  by (intro auth.InitAdmin_refused auth.auth_calls_ok auth.InitAdmin_success [OF assms])

lemma session_revoked:
  assumes "exec_auth C (badger_auth B J ttl) c (db, b) = (Inr x, (db', b'))" "revoked_user c = Some i"
    and "users_ok (abs_store J (contents db))"
  shows "st_tokens (abs_store J (contents db')) = without (st_tokens (abs_store J (contents db))) (\<lambda>t. token_UserId t = i)"
proof (cases c)
  case (ADeleteUser u)
  with assms auth.DeleteUser_effect [of ttl i "(db, b)" x "(db', b')"] show ?thesis by (simp add: st_def)
next
  case (AChangePassword now u old new)
  with assms obtain v where v: "port_Find (UserRepository B J) i db = Inr v"
    and set: "setPassword C (badger_auth B J ttl) now v new (db, b) = (Inr x, (db', b'))"
    by (auto simp: ChangePassword_def read_db_def res_simps split: sum.splits if_splits)
  from user_repo.find_ok [OF v] assms(3) have "user_Id v = i" by (simp add: users_ok_def st_def)
  with auth.setPassword_effect [OF set] show ?thesis by (auto simp: st_def simp del: abs_store_sel)
next
  case (AResetPassword now u new)
  with assms obtain v where v: "port_Find (UserRepository B J) i db = Inr v"
    and set: "setPassword C (badger_auth B J ttl) now v new (db, b) = (Inr x, (db', b'))"
    by (auto simp: ResetPassword_def read_db_def res_simps split: sum.splits if_splits)
  from user_repo.find_ok [OF v] assms(3) have "user_Id v = i" by (simp add: users_ok_def st_def)
  with auth.setPassword_effect [OF set] show ?thesis by (auto simp: st_def simp del: abs_store_sel)
qed (use assms in auto)

lemma unknown_token_rejected:
  assumes "st_tokens (abs_store J (contents db)) (hashToken C tok) = None"
  shows "Authenticate C (badger_authn B J) now tok db = (Inl (Sentinel ErrInvalidToken), db)"
  using assms token_repo.tok_find_ok [of "hashToken C tok" db]
  by (auto simp: Authenticate_def st_def split: sum.splits)

lemma register_effect:
  assumes "Register C (badger_agents B J ttl) now rnd tok a db = (Inr (b, atok), db')" "Second \<le> ttl"
  shows "(\<exists>t. st_registration_tokens (st db) (hashToken C tok) = Some t \<and> \<not> RegistrationToken_IsExpired t now) \<and>
    st_agents (st db) (agent_Id a) = None \<and> b = a\<lparr>agent_ts := \<lparr>CreatedAt = now, UpdatedAt = now\<rparr>\<rparr> \<and>
    st db' = st_tokens_update (\<lambda>m. m(hashToken C atok \<mapsto>
        \<lparr>token_ts = \<lparr>CreatedAt = now, UpdatedAt = now\<rparr>, token_Hash = hashToken C atok, token_UserId = [], token_AgentId = agent_Id a,
         token_ExpiresAt = Some (now + ttl)\<rparr>))
      (st_agents_update (\<lambda>m. m(agent_Id a \<mapsto> b))
        (st_registration_tokens_update (\<lambda>m. m(hashToken C tok := None)) (st db)))"
  using auth.Register_effect [where attl = ttl] assms by simp

lemma register_spent:
  assumes "st_registration_tokens (st db) (hashToken C tok) = None"
  shows "\<exists>db'. Register C (badger_agents B J ttl) now rnd tok a db = (Inl (Sentinel ErrInvalidRegistrationToken), db') \<and> st db' = st db"
  using auth.consume_spent [OF assms, of ttl now] by (auto simp: Register_def bind_op_def)

lemmas delete_agent_effect = auth.DeleteAgent_effect [unfolded st_def]
lemmas authenticate_ok = auth.Authenticate_ok [unfolded st_def]
lemmas authenticate_fail = auth.Authenticate_fail [unfolded st_def]
lemmas login_authenticates = auth.Login_authenticates [unfolded st_def auth.session_ttl_def badger_auth_simps]

end

lemmas auth_unfold = UserRepository_def UserRepository_Find_def UserRepository_Create_def UserRepository_Count_def UserRepository_Save_def
  UserRepository_Delete_def UserRepository_List_def
  AgentRepository_def AgentRepository_Find_def AgentRepository_Create_def AgentRepository_Save_def AgentRepository_Delete_def
  TokenRepository_def TokenRepository_Find_def TokenRepository_Save_def TokenRepository_Delete_def TokenRepository_DeleteByUserId_def
  TokenRepository_DeleteByAgentId_def RegistrationTokenRepository_def RegistrationTokenRepository_Consume_def
  RegistrationTokenRepository_Save_def

lemmas badger_unfold = repo_Find_def repo_find_txn_def get_item_def db_View_def repo_Create_def repo_Save_def repo_SaveTTL_def
  repo_Delete_def repo_marshal_def repo_unmarshal_def db_Update_def set_only_def ref_badger_def flaky_badger_def ref_iterator_def
  ref_json_def ref_codec_def deleteWhere_def

lemmas key_unfold = userKey_def userPrefix_def tokenKey_def tokenPrefix_def agentKey_def agentPrefix_def registrationTokenKey_def
  registrationTokenPrefix_def HasPrefix_def

lemmas auth_eval = auth_unfold badger_unfold key_unfold read_db_def on_db_def bind_op_def wrap_op_def Let_def guard_res_def
  hashPassword_def minPasswordLength_def hashToken_def generateToken_def set_bootstrap_def User_Validate_def Token_Validate_def
  Role_IsValid_def RoleAdmin_def RoleMember_def Minute_def Second_def time_Sub_def max_int64_def min_int64_def

definition sample_crypto :: crypto where
  "sample_crypto = \<lparr>bcrypt_Generate = \<lambda>p. Inr (CHR ''#'' # p), bcrypt_Compare = \<lambda>h p. h = CHR ''#'' # p, sha256_hex = id\<rparr>"

definition sample_user :: user where
  "sample_user = \<lparr>user_ts = zero_timestamps, user_Id = ''root'', user_PasswordHash = ''#password'', user_Role = RoleAdmin\<rparr>"

definition stored :: "string \<Rightarrow> 'a \<Rightarrow> 'a stored_resource" where
  "stored kind x = \<lparr>StorageVersion = ''v1'', Kind = kind, Stored_Labels = [], Spec = x\<rparr>"

definition sample_users_db :: ref_db where
  "sample_users_db = [(userKey ''root'', BUser (stored ''User'' sample_user))]"

lemma sample_users_st:
  "st_users (abs_store ref_json (map_of sample_users_db)) = [''root'' \<mapsto> sample_user]"
  by (auto simp: sample_users_db_def abs_map_def badger_unfold stored_def userKey_def fun_eq_iff split: option.splits)

text \<open>
  C4.  The system never loses its last administrator: whatever sequence of bootstraps, logins,
  logouts, password changes, user creations and deletions is called, and whatever storage calls
  fail, a store that has an administrator keeps one.
\<close>

theorem admin_remains:
  assumes "badger_store B contents txn_contents J"
    and "users_ok (abs_store J (contents db))" "has_admin (abs_store J (contents db))"
  shows "has_admin (abs_store J (contents (fst (fold (run_auth C (badger_auth B J ttl)) calls (db, b)))))"
  using badger_store.admin_stays [OF assms] .

theorem admin_remains_witness:
  "has_admin (abs_store ref_json (map_of (fst (fold (run_auth sample_crypto (badger_auth ref_badger ref_json Minute))
     [ADeleteUser ''root'', ACreateUser 5 [] ''bob'' ''longenough'' RoleAdmin, ADeleteUser ''root'', ADeleteUser ''bob''] (sample_users_db, [])))))"
  by (rule admin_remains [OF ref.badger_store_axioms])
    (unfold users_ok_def has_admin_def sample_users_st, auto simp: sample_user_def IsAdmin_def)

text \<open>
  \<^verbatim>\<open>InitAdmin\<close> succeeds at most once: after a success, and whatever calls follow, every later
  \<^verbatim>\<open>InitAdmin\<close> is refused and changes nothing, whatever token it presents.
\<close>

theorem init_admin_once:
  assumes "badger_store B contents txn_contents J"
    and "InitAdmin C (badger_auth B J ttl) now rnd t u p s = (Inr r, s')"
  shows "\<exists>e. InitAdmin C (badger_auth B J ttl) now' rnd' t' u' p' (fold (run_auth C (badger_auth B J ttl)) calls s') =
       (Inl e, fold (run_auth C (badger_auth B J ttl)) calls s')"
  using badger_store.admin_once [OF assms] .

theorem init_admin_once_witness:
  "\<exists>r s'. InitAdmin sample_crypto (badger_auth ref_badger ref_json Minute) 5 (Inr ''abc'') ''pgw_boot'' ''root'' ''password'' ([], ''pgw_boot'') = (Inr r, s') \<and>
     (\<exists>e. InitAdmin sample_crypto (badger_auth ref_badger ref_json Minute) 6 (Inr ''abd'') ''pgw_boot'' ''eve'' ''password''
        (fold (run_auth sample_crypto (badger_auth ref_badger ref_json Minute)) [ADeleteUser ''root''] s') =
      (Inl e, fold (run_auth sample_crypto (badger_auth ref_badger ref_json Minute)) [ADeleteUser ''root''] s'))"
proof -
  obtain r s' where "InitAdmin sample_crypto (badger_auth ref_badger ref_json Minute) 5 (Inr ''abc'') ''pgw_boot'' ''root'' ''password'' ([], ''pgw_boot'') = (Inr r, s')"
    by (simp add: InitAdmin_def createUser_def issueToken_def auth_eval sample_crypto_def)
  with init_admin_once [OF ref.badger_store_axioms this] show ?thesis by blast
qed

section \<open>Sessions\<close>

text \<open>
  C11.  The authenticator.  A token is accepted only if storage holds an unexpired record of its
  hash whose user, or else agent, exists; the principal is that user or agent and storage is left
  alone.  Every other outcome is the one error \<^verbatim>\<open>ErrInvalidToken\<close>, and then at most the record that
  was found under the token's hash is removed.
\<close>

theorem authenticate_sound:
  assumes "badger_store B contents txn_contents J"
  shows "case Authenticate C (badger_authn B J) now tok db of
    (Inr p, db') \<Rightarrow> db' = db \<and> (\<exists>t. st_tokens (abs_store J (contents db)) (hashToken C tok) = Some t \<and> \<not> Token_IsExpired t now \<and>
       (token_UserId t \<noteq> [] \<and> (\<exists>u. st_users (abs_store J (contents db)) (token_UserId t) = Some u \<and>
          p = \<lparr>principal_User = Some u, principal_Agent = None\<rparr>) \<or>
        token_UserId t = [] \<and> token_AgentId t \<noteq> [] \<and> (\<exists>a. st_agents (abs_store J (contents db)) (token_AgentId t) = Some a \<and>
          p = \<lparr>principal_User = None, principal_Agent = Some a\<rparr>)))
  | (Inl e, db') \<Rightarrow> e = Sentinel ErrInvalidToken \<and>
      (abs_store J (contents db') = abs_store J (contents db) \<or>
       (\<exists>t. st_tokens (abs_store J (contents db)) (hashToken C tok) = Some t \<and>
          abs_store J (contents db') = st_tokens_update (\<lambda>m. m(token_Hash t := None)) (abs_store J (contents db))))"
  using badger_store.authenticate_ok [OF assms] badger_store.authenticate_fail [OF assms]
  by (simp split: prod.splits sum.splits)

definition sample_token :: token where
  "sample_token = \<lparr>token_ts = zero_timestamps, token_Hash = ''pgw_abc'', token_UserId = ''root'', token_AgentId = [], token_ExpiresAt = Some 100\<rparr>"

definition sample_session_db :: ref_db where
  "sample_session_db = (tokenKey ''pgw_abc'', BToken (stored ''Token'' sample_token)) # sample_users_db"

theorem authenticate_sound_witness:
  "Authenticate sample_crypto (badger_authn ref_badger ref_json) 50 ''pgw_abc'' sample_session_db =
     (Inr \<lparr>principal_User = Some sample_user, principal_Agent = None\<rparr>, sample_session_db) \<and>
   (\<exists>t. st_tokens (abs_store ref_json (map_of sample_session_db)) ''pgw_abc'' = Some t \<and> \<not> Token_IsExpired t 50)"
proof -
  have a: "Authenticate sample_crypto (badger_authn ref_badger ref_json) 50 ''pgw_abc'' sample_session_db =
     (Inr \<lparr>principal_User = Some sample_user, principal_Agent = None\<rparr>, sample_session_db)"
    by (simp add: Authenticate_def auth_eval sample_crypto_def sample_session_db_def sample_users_db_def stored_def
        sample_token_def Token_IsExpired_def)
  from authenticate_sound [OF ref.badger_store_axioms, where C = sample_crypto and now = 50 and tok = "''pgw_abc''" and db = sample_session_db] a
  show ?thesis by (auto simp: hashToken_def sample_crypto_def)
qed



text \<open>
  C16.  Deleting a user, changing or resetting the password ends the user's sessions: a call that
  succeeds removes all the user's tokens and no other, so that none of them authenticates any more.
\<close>

theorem password_change_revokes:
  assumes "badger_store B contents txn_contents J" "users_ok (abs_store J (contents db))"
    and "exec_auth C (badger_auth B J ttl) c (db, b) = (Inr x, (db', b'))" "revoked_user c = Some i"
  shows "st_tokens (abs_store J (contents db')) = without (st_tokens (abs_store J (contents db))) (\<lambda>t. token_UserId t = i) \<and>
    (\<forall>tok t now. st_tokens (abs_store J (contents db)) (hashToken C tok) = Some t \<and> token_UserId t = i \<longrightarrow>
       Authenticate C (badger_authn B J) now tok db' = (Inl (Sentinel ErrInvalidToken), db'))"
proof -
  have "st_tokens (abs_store J (contents db')) = without (st_tokens (abs_store J (contents db))) (\<lambda>t. token_UserId t = i)"
    using badger_store.session_revoked [OF assms(1,3,4,2)] .
  then show ?thesis using badger_store.unknown_token_rejected [OF assms(1)] by (auto simp: without_def)
qed

theorem password_change_revokes_witness:
  "\<exists>db' b'. exec_auth sample_crypto (badger_auth ref_badger ref_json Minute) (AResetPassword 7 ''root'' ''password2'') (sample_session_db, []) =
     (Inr (), (db', b')) \<and>
   Authenticate sample_crypto (badger_authn ref_badger ref_json) 50 ''pgw_abc'' db' = (Inl (Sentinel ErrInvalidToken), db')"
proof -
  have st: "st_users (abs_store ref_json (map_of sample_session_db)) = [''root'' \<mapsto> sample_user]"
    "st_tokens (abs_store ref_json (map_of sample_session_db)) ''pgw_abc'' = Some sample_token"
    by (auto simp: sample_session_db_def sample_users_db_def abs_map_def badger_unfold stored_def key_unfold fun_eq_iff split: option.splits)
  have ok: "users_ok (abs_store ref_json (map_of sample_session_db))"
    unfolding users_ok_def st by (simp add: sample_user_def)
  obtain db' b' where r: "exec_auth sample_crypto (badger_auth ref_badger ref_json Minute) (AResetPassword 7 ''root'' ''password2'') (sample_session_db, []) =
     (Inr (), (db', b'))"
    by (simp add: ResetPassword_def setPassword_def auth_eval sample_crypto_def sample_session_db_def sample_users_db_def stored_def
        sample_user_def sample_token_def)
  from password_change_revokes [OF ref.badger_store_axioms ok r] st(2) show ?thesis
    using r by (auto simp: hashToken_def sample_crypto_def sample_token_def)
qed

section \<open>Agents\<close>

text \<open>
  C19.  Registration.  A successful \<^verbatim>\<open>Register\<close> was given an unexpired registration token and a name no
  agent has; it spends the token, stores the agent and stores a credential for it, and changes
  nothing else.  Presented again, the same registration token is refused and storage is unchanged.
\<close>

theorem registration_single_use:
  assumes "badger_store B contents txn_contents J" "Second \<le> ttl"
    and "Register C (badger_agents B J ttl) now rnd tok a db = (Inr (b, atok), db')"
  shows "(\<exists>t. st_registration_tokens (abs_store J (contents db)) (hashToken C tok) = Some t \<and> \<not> RegistrationToken_IsExpired t now) \<and>
    st_agents (abs_store J (contents db)) (agent_Id a) = None \<and>
    abs_store J (contents db') = st_tokens_update (\<lambda>m. m(hashToken C atok \<mapsto>
        \<lparr>token_ts = \<lparr>CreatedAt = now, UpdatedAt = now\<rparr>, token_Hash = hashToken C atok, token_UserId = [], token_AgentId = agent_Id a,
         token_ExpiresAt = Some (now + ttl)\<rparr>))
      (st_agents_update (\<lambda>m. m(agent_Id a \<mapsto> a\<lparr>agent_ts := \<lparr>CreatedAt = now, UpdatedAt = now\<rparr>\<rparr>))
        (st_registration_tokens_update (\<lambda>m. m(hashToken C tok := None)) (abs_store J (contents db)))) \<and>
    (\<exists>db''. Register C (badger_agents B J ttl) now' rnd' tok a' db' = (Inl (Sentinel ErrInvalidRegistrationToken), db'') \<and>
       abs_store J (contents db'') = abs_store J (contents db'))"
proof -
  note st = badger_store.st_def [OF assms(1)]
  note eff = badger_store.register_effect [OF assms(1,3,2), unfolded st]
  then have "st_registration_tokens (abs_store J (contents db')) (hashToken C tok) = None" by (simp del: abs_store_sel)
  from badger_store.register_spent [OF assms(1), unfolded st, OF this] eff show ?thesis by (simp del: abs_store_sel)
qed

definition sample_agent :: agent where
  "sample_agent = \<lparr>agent_ts = zero_timestamps, agent_Id = ''edge'', agent_Hostname = ''h'', agent_Version = ''1'', agent_Labels = [],
     agent_LastHeartbeat = None\<rparr>"

definition sample_invite_db :: ref_db where
  "sample_invite_db = [(registrationTokenKey ''pgwr_x'', BRegistrationToken (stored ''RegistrationToken''
     \<lparr>rtok_ts = zero_timestamps, rtok_Hash = ''pgwr_x'', rtok_ExpiresAt = Some 100\<rparr>))]"

lemmas agent_eval = Register_def ConsumeRegistrationToken_def IssueAgentToken_def Agent_Validate_def RegistrationToken_IsExpired_def
  auth_eval sample_crypto_def stored_def sample_agent_def

theorem registration_single_use_witness:
  "\<exists>r db'. Register sample_crypto (badger_agents ref_badger ref_json Minute) 5 (Inr ''abc'') ''pgwr_x'' sample_agent sample_invite_db = (Inr r, db') \<and>
     (\<exists>db''. Register sample_crypto (badger_agents ref_badger ref_json Minute) 6 (Inr ''abd'') ''pgwr_x'' (sample_agent\<lparr>agent_Id := ''edge2''\<rparr>) db' =
        (Inl (Sentinel ErrInvalidRegistrationToken), db''))"
proof -
  obtain b atok db' where r: "Register sample_crypto (badger_agents ref_badger ref_json Minute) 5 (Inr ''abc'') ''pgwr_x'' sample_agent sample_invite_db = (Inr (b, atok), db')"
    by (simp add: agent_eval sample_invite_db_def)
  have "Second \<le> Minute" by (simp add: Minute_def Second_def)
  from registration_single_use [OF ref.badger_store_axioms this r] r show ?thesis by blast
qed

text \<open>
  Deleting an agent revokes it: a successful \<^verbatim>\<open>DeleteAgent\<close> removes the agent and all its tokens,
  and nothing else, so that none of them authenticates any more.
\<close>

theorem delete_agent_revokes:
  assumes "badger_store B contents txn_contents J"
    and "DeleteAgent (badger_agents B J ttl) i db = (Inr x, db')"
  shows "abs_store J (contents db') = st_agents_update (\<lambda>m. m(i := None))
      (st_tokens_update (\<lambda>m. without m (\<lambda>t. token_AgentId t = i)) (abs_store J (contents db))) \<and>
    (\<forall>tok t now. st_tokens (abs_store J (contents db)) (hashToken C tok) = Some t \<and> token_AgentId t = i \<longrightarrow>
       Authenticate C (badger_authn B J) now tok db' = (Inl (Sentinel ErrInvalidToken), db'))"
proof -
  note eff = badger_store.delete_agent_effect [OF assms]
  then show ?thesis using badger_store.unknown_token_rejected [OF assms(1), of db'] by (auto simp: without_def simp del: abs_store_sel)
qed

definition sample_agent_db :: ref_db where
  "sample_agent_db = [(agentKey ''edge'', BAgent (stored ''Agent'' sample_agent)),
     (tokenKey ''pgw_abc'', BToken (stored ''Token'' (sample_token\<lparr>token_UserId := [], token_AgentId := ''edge''\<rparr>)))]"

theorem delete_agent_revokes_witness:
  "\<exists>db'. DeleteAgent (badger_agents ref_badger ref_json Minute) ''edge'' sample_agent_db = (Inr (), db') \<and>
     Authenticate sample_crypto (badger_authn ref_badger ref_json) 50 ''pgw_abc'' db' = (Inl (Sentinel ErrInvalidToken), db')"
proof -
  obtain db' where r: "DeleteAgent (badger_agents ref_badger ref_json Minute) ''edge'' sample_agent_db = (Inr (), db')"
    by (simp add: DeleteAgent_def RevokeAgentTokens_def agent_eval sample_agent_db_def sample_token_def)
  have "st_tokens (abs_store ref_json (map_of sample_agent_db)) ''pgw_abc'' = Some (sample_token\<lparr>token_UserId := [], token_AgentId := ''edge''\<rparr>)"
    by (simp add: sample_agent_db_def abs_map_def badger_unfold stored_def key_unfold)
  with delete_agent_revokes [OF ref.badger_store_axioms r, where C = sample_crypto] r show ?thesis
    by (auto simp: hashToken_def sample_crypto_def simp del: abs_store_sel)
qed

section \<open>When storage fails\<close>

text \<open>
  A session can be lost to a read that fails: the comment on \<^verbatim>\<open>Authenticate\<close> says that the
  record of an expired token, or of a token whose subject was deleted, is removed, but the code
  removes it on any error of the lookup.  With a store that cannot read the user's entry for the
  moment, the live token of an existing user is rejected and its record deleted.
\<close>

theorem authenticate_drops_live_token:
  "let B = flaky_badger (\<lambda>k. k = userKey ''root'') (\<lambda>_. False);
       db = sample_session_db;
       db' = snd (Authenticate sample_crypto (badger_authn B ref_json) 50 ''pgw_abc'' db)
   in fst (Authenticate sample_crypto (badger_authn B ref_json) 50 ''pgw_abc'' db) = Inl (Sentinel ErrInvalidToken) \<and>
      st_users (abs_store ref_json (map_of db)) ''root'' = Some sample_user \<and>
      st_tokens (abs_store ref_json (map_of db)) ''pgw_abc'' = Some sample_token \<and> \<not> Token_IsExpired sample_token 50 \<and>
      st_tokens (abs_store ref_json (map_of db')) ''pgw_abc'' = None"
  by (simp add: Authenticate_def reject_token_def auth_eval sample_crypto_def sample_session_db_def sample_users_db_def stored_def
      sample_token_def Token_IsExpired_def abs_map_def)

text \<open>
  A registration that fails late leaves its agent behind: the comment on \<^verbatim>\<open>Register\<close> says that a
  failure keeps the registry clean, but when the credential cannot be stored the call fails with
  the agent already created, so the name is taken and the registration token spent.
\<close>

theorem failed_registration_leaves_agent:
  "let B = flaky_badger (\<lambda>_. False) (\<lambda>k. HasPrefix k tokenPrefix);
       r = Register sample_crypto (badger_agents B ref_json Minute) 5 (Inr ''abc'') ''pgwr_x'' sample_agent sample_invite_db
   in (\<exists>e. fst r = Inl e) \<and> st_agents (abs_store ref_json (map_of (snd r))) ''edge'' \<noteq> None \<and>
      st_registration_tokens (abs_store ref_json (map_of (snd r))) ''pgwr_x'' = None"
  by (simp add: agent_eval sample_invite_db_def abs_map_def)

text \<open>
  A heartbeat in flight brings a deleted agent back: the principal is read when the call is
  authenticated and \<^verbatim>\<open>Heartbeat\<close> saves it unconditionally, so if \<^verbatim>\<open>DeleteAgent\<close> runs in between, the
  heartbeat fails on the revoked token but the agent's record is stored again.
\<close>

theorem heartbeat_resurrects_agent:
  "let R = badger_agents ref_badger ref_json Minute;
       db = snd (DeleteAgent R ''edge'' sample_agent_db);
       r = Heartbeat sample_crypto R 60
             \<lparr>ctx_principal = Some \<lparr>principal_User = None, principal_Agent = Some sample_agent\<rparr>, ctx_token = Some ''pgw_abc''\<rparr> db
   in fst (DeleteAgent R ''edge'' sample_agent_db) = Inr () \<and> st_agents (abs_store ref_json (map_of db)) ''edge'' = None \<and>
      (\<exists>e. fst r = Inl e) \<and> st_agents (abs_store ref_json (map_of (snd r))) ''edge'' \<noteq> None"
  by (simp add: DeleteAgent_def RevokeAgentTokens_def Heartbeat_def agentFromContext_def ExtendAgentToken_def agent_eval
      sample_agent_db_def sample_token_def abs_map_def)

end
