(* ===== verification/Balancer.thy ===== *)
theory Balancer
  imports Domain
begin

text \<open>
  \<^verbatim>\<open>dataplane/balancer\<close>: the three load-balancing algorithms, \<^verbatim>\<open>Build\<close>, and the contract they
  share, the locale \<open>lb_contract\<close> of the Go interface \<^verbatim>\<open>LoadBalancer\<close>.  Each algorithm and the
  tagged union that \<^verbatim>\<open>Build\<close> returns interpret it.  Integers keep their width: the round-robin
  counter is a 32-bit word, weights and byte counters wrap at 64 bits.  An index out of range is
  the error \<open>index_panic\<close>, which the contract shows never to occur.
\<close>

definition index_panic :: err where
  "index_panic = External ''panic: index out of range''"

definition index_slice :: "'a list \<Rightarrow> nat \<Rightarrow> 'a result" where
  "index_slice xs i = (if i < length xs then Inr (xs ! i) else Inl index_panic)"

lemma index_slice_ok [simp]: "i < length xs \<Longrightarrow> index_slice xs i = Inr (xs ! i)"
  by (simp add: index_slice_def)

section \<open>The contract\<close>

datatype lb_op = Next time | Release balancer_result

locale lb_contract =
  fixes lb_next :: "time \<Rightarrow> 'lb \<Rightarrow> proxy result \<times> 'lb"
    and lb_release :: "balancer_result \<Rightarrow> 'lb \<Rightarrow> 'lb"
    and lb_proxies :: "'lb \<Rightarrow> proxy list"
    and lb_inv :: "'lb \<Rightarrow> bool"
  assumes next_member: "lb_inv lb \<Longrightarrow> lb_proxies lb \<noteq> [] \<Longrightarrow> \<exists>p \<in> set (lb_proxies lb). fst (lb_next now lb) = Inr p"
    and next_empty: "lb_inv lb \<Longrightarrow> lb_proxies lb = [] \<Longrightarrow> fst (lb_next now lb) = Inl (Sentinel ErrNoProxy)"
    and next_inv: "lb_inv lb \<Longrightarrow> lb_inv (snd (lb_next now lb))"
    and next_proxies: "lb_inv lb \<Longrightarrow> lb_proxies (snd (lb_next now lb)) = lb_proxies lb"
    and release_inv: "lb_inv lb \<Longrightarrow> lb_inv (lb_release r lb)"
    and release_proxies: "lb_inv lb \<Longrightarrow> lb_proxies (lb_release r lb) = lb_proxies lb"
begin

fun run :: "lb_op list \<Rightarrow> 'lb \<Rightarrow> proxy result list \<times> 'lb" where
  "run [] lb = ([], lb)"
| "run (Next now # ops) lb =
     (case lb_next now lb of (r, lb') \<Rightarrow> case run ops lb' of (rs, lb'') \<Rightarrow> (r # rs, lb''))"
| "run (Release r # ops) lb = run ops (lb_release r lb)"

lemma next_cases:
  assumes "lb_inv lb"
  shows "fst (lb_next now lb) \<in> (if lb_proxies lb = [] then {Inl (Sentinel ErrNoProxy)} else Inr ` set (lb_proxies lb))"
  using next_member [OF assms, of now] next_empty [OF assms, of now] by auto

lemma run_results:
  assumes "lb_inv lb" "r \<in> set (fst (run ops lb))"
  shows "r \<in> (if lb_proxies lb = [] then {Inl (Sentinel ErrNoProxy)} else Inr ` set (lb_proxies lb))"
  using assms
proof (induction ops lb rule: run.induct)
  case (2 now ops lb)
  from 2 next_cases [of lb now] next_inv [of lb now] next_proxies [of lb now]
  show ?case by (auto split: prod.splits if_splits)
qed (auto simp: release_inv release_proxies)

end

section \<open>Round robin\<close>

record round_robin =
  rr_pool :: pool
  rr_window :: "32 word"
  rr_counter :: "32 word"

text \<open>A nil pool is \<open>None\<close>.\<close>

definition NewRoundRobin :: "pool option \<Rightarrow> round_robin result" where
  "NewRoundRobin pool =
     (case pool of
        None \<Rightarrow> Inl (Sentinel ErrNoPool)
      | Some p \<Rightarrow>
          if \<not> pool_hasProxiesResolved p then Inl (Errorf ''pool %q proxies not resolved'' [FStr (pool_Id p)])
          else Inr \<lparr>rr_pool = p, rr_window = of_nat (length (pool_resolvedProxies p)), rr_counter = 0\<rparr>)"

definition RoundRobin_Next :: "time \<Rightarrow> round_robin \<Rightarrow> proxy result \<times> round_robin" where
  "RoundRobin_Next now r =
     (if rr_window r = 0 then (Inl (Sentinel ErrNoProxy), r)
      else
        let c = rr_counter r + 1; val = (c - 1) mod rr_window r in
        (index_slice (pool_resolvedProxies (rr_pool r)) (unat val), r\<lparr>rr_counter := c\<rparr>))"

definition RoundRobin_Release :: "balancer_result \<Rightarrow> round_robin \<Rightarrow> round_robin" where
  "RoundRobin_Release result r = r"

definition rr_proxies :: "round_robin \<Rightarrow> proxy list" where
  "rr_proxies r = pool_resolvedProxies (rr_pool r)"

definition rr_inv :: "round_robin \<Rightarrow> bool" where
  "rr_inv r \<longleftrightarrow> unat (rr_window r) = length (rr_proxies r)"

lemma rr_index_less:
  assumes "rr_inv r" "rr_proxies r \<noteq> []"
  shows "unat (c mod rr_window r) < length (rr_proxies r)"
  using assms by (simp add: rr_inv_def unat_mod)

interpretation rr: lb_contract RoundRobin_Next RoundRobin_Release rr_proxies rr_inv
proof
  fix r :: round_robin and now
  assume inv: "rr_inv r"
  have w0: "rr_window r = 0 \<longleftrightarrow> rr_proxies r = []"
    using inv by (metis length_0_conv rr_inv_def unat_eq_zero)
  show "rr_proxies r \<noteq> [] \<Longrightarrow> \<exists>p \<in> set (rr_proxies r). fst (RoundRobin_Next now r) = Inr p"
    using rr_index_less [OF inv, of "rr_counter r"] w0
    by (auto simp: RoundRobin_Next_def Let_def rr_proxies_def)
  show "rr_proxies r = [] \<Longrightarrow> fst (RoundRobin_Next now r) = Inl (Sentinel ErrNoProxy)"
    using w0 by (simp add: RoundRobin_Next_def)
qed (auto simp: RoundRobin_Next_def RoundRobin_Release_def rr_inv_def rr_proxies_def Let_def)

section \<open>Smooth weighted round robin\<close>

record weighted =
  wt_proxies :: "proxy list"
  wt_weights :: "int list"
  wt_current :: "int list"
  wt_total :: int

text \<open>The loop of \<^verbatim>\<open>NewWeighted\<close> over the members, which reads \<^verbatim>\<open>proxies[i]\<close> in step.\<close>

fun weighted_members :: "string \<Rightarrow> nat \<Rightarrow> int \<Rightarrow> pool_member list \<Rightarrow> proxy list \<Rightarrow> (int list \<times> int) result" where
  "weighted_members pid i tot [] proxies = Inr ([], tot)"
| "weighted_members pid i tot (m # ms) proxies =
     (if member_Weight m < 1 then
        Inl (Errorf ''pool %q member %q: weight must be >= 1'' [FStr pid, FStr (member_ProxyId m)])
      else bind_res (index_slice proxies i) (\<lambda>p.
        if proxy_Id p \<noteq> member_ProxyId m then
          Inl (Errorf ''pool %q member order mismatch at %d: want %q got %q''
                 [FStr pid, FInt (int i), FStr (member_ProxyId m), FStr (proxy_Id p)])
        else bind_res (weighted_members pid (Suc i) (wrap64 (tot + member_Weight m)) ms proxies) (\<lambda>(ws, t).
          Inr (member_Weight m # ws, t))))"

definition NewWeighted :: "pool option \<Rightarrow> weighted result" where
  "NewWeighted pool =
     (case pool of
        None \<Rightarrow> Inl (Sentinel ErrNoPool)
      | Some p \<Rightarrow>
          if pool_Type p \<noteq> PoolTypeStatic then
            Inl (Errorf ''weighted balancer requires static pool %q'' [FStr (pool_Id p)])
          else if \<not> pool_hasProxiesResolved p then
            Inl (Errorf ''pool %q proxies not resolved'' [FStr (pool_Id p)])
          else if length (pool_resolvedProxies p) \<noteq> length (pool_Members p) then
            Inl (Errorf ''pool %q resolved proxy count %d != members %d''
                   [FStr (pool_Id p), FInt (int (length (pool_resolvedProxies p))), FInt (int (length (pool_Members p)))])
          else
            bind_res (weighted_members (pool_Id p) 0 0 (pool_Members p) (pool_resolvedProxies p)) (\<lambda>(ws, t).
              Inr \<lparr>wt_proxies = pool_resolvedProxies p, wt_weights = ws,
                   wt_current = replicate (length ws) 0, wt_total = t\<rparr>))"

text \<open>
  The loop of \<^verbatim>\<open>Next\<close>: \<open>k\<close> iterations remain, \<open>i\<close> is the index; \<^verbatim>\<open>best < 0\<close> is \<open>None\<close>.
\<close>

fun weighted_loop :: "int list \<Rightarrow> nat \<Rightarrow> nat \<Rightarrow> nat option \<Rightarrow> int list \<Rightarrow> nat option \<times> int list" where
  "weighted_loop w 0 i best cur = (best, cur)"
| "weighted_loop w (Suc k) i best cur =
     (let cur = cur[i := wrap64 (cur ! i + w ! i)];
          best = (case best of
                    None \<Rightarrow> Some i
                  | Some b \<Rightarrow> if cur ! i > cur ! b then Some i else Some b)
      in weighted_loop w k (Suc i) best cur)"

definition Weighted_Next :: "time \<Rightarrow> weighted \<Rightarrow> proxy result \<times> weighted" where
  "Weighted_Next now w =
     (if wt_proxies w = [] then (Inl (Sentinel ErrNoProxy), w)
      else
        case weighted_loop (wt_weights w) (length (wt_proxies w)) 0 None (wt_current w) of
          (Some best, cur) \<Rightarrow>
            (index_slice (wt_proxies w) best, w\<lparr>wt_current := cur[best := wrap64 (cur ! best - wt_total w)]\<rparr>)
        | (None, cur) \<Rightarrow> (Inl index_panic, w\<lparr>wt_current := cur\<rparr>))"

definition Weighted_Release :: "balancer_result \<Rightarrow> weighted \<Rightarrow> weighted" where
  "Weighted_Release result w = w"

definition wt_inv :: "weighted \<Rightarrow> bool" where
  "wt_inv w \<longleftrightarrow> length (wt_weights w) = length (wt_proxies w) \<and> length (wt_current w) = length (wt_proxies w)"

lemma weighted_loop_length: "length (snd (weighted_loop w k i best cur)) = length cur"
  by (induction w k i best cur rule: weighted_loop.induct) (auto simp: Let_def)

lemma weighted_loop_best:
  "0 < k \<or> best \<noteq> None \<Longrightarrow> (\<And>b. best = Some b \<Longrightarrow> b < i) \<Longrightarrow>
   \<exists>b < i + k. fst (weighted_loop w k i best cur) = Some b"
proof (induction w k i best cur rule: weighted_loop.induct)
  case (1 w i best cur)
  then show ?case by auto
next
  case (2 w k i best cur)
  let ?cur = "cur[i := wrap64 (cur ! i + w ! i)]"
  let ?best = "case best of None \<Rightarrow> Some i | Some b \<Rightarrow> if ?cur ! i > ?cur ! b then Some i else Some b"
  have "?best \<noteq> None" by (cases best) auto
  moreover have "\<And>b. ?best = Some b \<Longrightarrow> b < Suc i"
    using "2.prems"(2) by (auto split: option.splits if_splits intro: less_SucI)
  ultimately have "\<exists>b < Suc i + k. fst (weighted_loop w k (Suc i) ?best ?cur) = Some b"
    using "2.IH" [OF refl refl] by blast
  then show ?case by (simp add: Let_def)
qed

lemma Weighted_Next_eq:
  assumes "wt_proxies w \<noteq> []"
  shows "\<exists>b < length (wt_proxies w). \<exists>cur.
    weighted_loop (wt_weights w) (length (wt_proxies w)) 0 None (wt_current w) = (Some b, cur) \<and>
    length cur = length (wt_current w) \<and>
    Weighted_Next now w = (Inr (wt_proxies w ! b), w\<lparr>wt_current := cur[b := wrap64 (cur ! b - wt_total w)]\<rparr>)"
proof -
  let ?l = "weighted_loop (wt_weights w) (length (wt_proxies w)) 0 None (wt_current w)"
  obtain b where b: "b < length (wt_proxies w)" "fst ?l = Some b"
    using weighted_loop_best [of "length (wt_proxies w)" None 0] assms by fastforce
  then have "?l = (Some b, snd ?l)" by (metis prod.collapse)
  with b assms weighted_loop_length [of "wt_weights w" "length (wt_proxies w)" 0 None "wt_current w"]
  show ?thesis by (auto simp: Weighted_Next_def split: prod.splits)
qed

interpretation wt: lb_contract Weighted_Next Weighted_Release wt_proxies wt_inv
proof
  fix w :: weighted and now
  assume inv: "wt_inv w"
  show "wt_proxies w = [] \<Longrightarrow> fst (Weighted_Next now w) = Inl (Sentinel ErrNoProxy)"
    by (simp add: Weighted_Next_def)
  show "wt_proxies w \<noteq> [] \<Longrightarrow> \<exists>p \<in> set (wt_proxies w). fst (Weighted_Next now w) = Inr p"
    using Weighted_Next_eq [of w now] by force
  show "wt_inv (snd (Weighted_Next now w))"
    using Weighted_Next_eq [of w now] inv
    by (cases "wt_proxies w = []") (auto simp: wt_inv_def Weighted_Next_def)
  show "wt_proxies (snd (Weighted_Next now w)) = wt_proxies w"
    using Weighted_Next_eq [of w now]
    by (cases "wt_proxies w = []") (auto simp: Weighted_Next_def)
qed (auto simp: Weighted_Release_def)

section \<open>Least bytes\<close>

record least_bytes =
  lby_pool :: pool
  lby_counters :: "string \<rightharpoonup> int"
  lby_resetInterval :: duration
  lby_lastReset :: time

definition NewLeastBytes :: "time \<Rightarrow> pool option \<Rightarrow> duration \<Rightarrow> least_bytes result" where
  "NewLeastBytes now pool resetInterval =
     (case pool of
        None \<Rightarrow> Inl (Sentinel ErrNoPool)
      | Some p \<Rightarrow>
          if \<not> pool_hasProxiesResolved p then Inl (Errorf ''pool %q proxies not resolved'' [FStr (pool_Id p)])
          else Inr \<lparr>lby_pool = p, lby_counters = Map.empty,
                    lby_resetInterval = (if resetInterval \<le> 0 then DefaultLeastBytesResetInterval else resetInterval),
                    lby_lastReset = now\<rparr>)"

definition counter :: "(string \<rightharpoonup> int) \<Rightarrow> proxy \<Rightarrow> int" where
  "counter m p = (case m (proxy_Id p) of None \<Rightarrow> 0 | Some n \<Rightarrow> n)"

text \<open>The loop over \<^verbatim>\<open>proxies[1:]\<close>, carrying the best proxy so far in place of its index.\<close>

fun least_loop :: "(string \<rightharpoonup> int) \<Rightarrow> proxy \<Rightarrow> int \<Rightarrow> proxy list \<Rightarrow> proxy" where
  "least_loop m best bestBytes [] = best"
| "least_loop m best bestBytes (p # ps) =
     (if counter m p < bestBytes then least_loop m p (counter m p) ps else least_loop m best bestBytes ps)"

definition lazy_reset :: "time \<Rightarrow> least_bytes \<Rightarrow> least_bytes" where
  "lazy_reset now l =
     (if time_Sub now (lby_lastReset l) \<ge> lby_resetInterval l
      then l\<lparr>lby_counters := Map.empty, lby_lastReset := now\<rparr> else l)"

definition LeastBytes_Next :: "time \<Rightarrow> least_bytes \<Rightarrow> proxy result \<times> least_bytes" where
  "LeastBytes_Next now l =
     (case pool_resolvedProxies (lby_pool l) of
        [] \<Rightarrow> (Inl (Sentinel ErrNoProxy), l)
      | p # ps \<Rightarrow>
          let l = lazy_reset now l; m = lby_counters l in
          (Inr (least_loop m p (counter m p) ps), l))"

definition LeastBytes_Release :: "balancer_result \<Rightarrow> least_bytes \<Rightarrow> least_bytes" where
  "LeastBytes_Release r l =
     (if result_Bytes r \<le> 0 \<or> result_ProxyId r = [] then l
      else l\<lparr>lby_counters := (lby_counters l)(result_ProxyId r \<mapsto>
               wrap64 ((case lby_counters l (result_ProxyId r) of None \<Rightarrow> 0 | Some n \<Rightarrow> n) + result_Bytes r))\<rparr>)"

definition lby_proxies :: "least_bytes \<Rightarrow> proxy list" where
  "lby_proxies l = pool_resolvedProxies (lby_pool l)"

definition lby_inv :: "least_bytes \<Rightarrow> bool" where
  "lby_inv l \<longleftrightarrow> 0 < lby_resetInterval l"

lemma least_loop_least:
  "least_loop m p (counter m p) ps \<in> set (p # ps) \<and>
   (\<forall>q \<in> set (p # ps). counter m (least_loop m p (counter m p) ps) \<le> counter m q)"
proof (induction ps arbitrary: p)
  case Nil
  then show ?case by simp
next
  case (Cons q ps)
  show ?case
  proof (cases "counter m q < counter m p")
    case True
    with Cons.IH [of q] show ?thesis by auto
  next
    case False
    with Cons.IH [of p] show ?thesis by auto
  qed
qed

lemma lazy_reset_simps [simp]:
  "lby_pool (lazy_reset now l) = lby_pool l"
  "lby_resetInterval (lazy_reset now l) = lby_resetInterval l"
  by (simp_all add: lazy_reset_def)

interpretation lby: lb_contract LeastBytes_Next LeastBytes_Release lby_proxies lby_inv
proof
  fix l :: least_bytes and now
  show "lby_proxies l \<noteq> [] \<Longrightarrow> \<exists>p \<in> set (lby_proxies l). fst (LeastBytes_Next now l) = Inr p"
    using least_loop_least
    by (fastforce simp: LeastBytes_Next_def lby_proxies_def Let_def split: list.splits)
qed (auto simp: LeastBytes_Next_def LeastBytes_Release_def lby_inv_def lby_proxies_def Let_def split: list.splits)

section \<open>Build\<close>

datatype lb_instance = RoundRobin round_robin | Weighted weighted | LeastBytes least_bytes

definition Build :: "time \<Rightarrow> load_balancer \<Rightarrow> pool option \<Rightarrow> lb_instance result" where
  "Build now lb p =
     (if lb_Type lb = BalancerTypeRoundRobin then bind_res (NewRoundRobin p) (\<lambda>x. Inr (RoundRobin x))
      else if lb_Type lb = BalancerTypeWeighted then bind_res (NewWeighted p) (\<lambda>x. Inr (Weighted x))
      else if lb_Type lb = BalancerTypeLeastBytes then
        bind_res (NewLeastBytes now p (lb_ResetInterval lb)) (\<lambda>x. Inr (LeastBytes x))
      else Inl (Errorf ''unknown balancer type %q'' [FStr (lb_Type lb)]))"

fun LB_Next :: "time \<Rightarrow> lb_instance \<Rightarrow> proxy result \<times> lb_instance" where
  "LB_Next now (RoundRobin r) = apsnd RoundRobin (RoundRobin_Next now r)"
| "LB_Next now (Weighted w) = apsnd Weighted (Weighted_Next now w)"
| "LB_Next now (LeastBytes l) = apsnd LeastBytes (LeastBytes_Next now l)"

fun LB_Release :: "balancer_result \<Rightarrow> lb_instance \<Rightarrow> lb_instance" where
  "LB_Release x (RoundRobin r) = RoundRobin (RoundRobin_Release x r)"
| "LB_Release x (Weighted w) = Weighted (Weighted_Release x w)"
| "LB_Release x (LeastBytes l) = LeastBytes (LeastBytes_Release x l)"

fun inst_proxies :: "lb_instance \<Rightarrow> proxy list" where
  "inst_proxies (RoundRobin r) = rr_proxies r"
| "inst_proxies (Weighted w) = wt_proxies w"
| "inst_proxies (LeastBytes l) = lby_proxies l"

fun inst_inv :: "lb_instance \<Rightarrow> bool" where
  "inst_inv (RoundRobin r) = rr_inv r"
| "inst_inv (Weighted w) = wt_inv w"
| "inst_inv (LeastBytes l) = lby_inv l"

interpretation inst: lb_contract LB_Next LB_Release inst_proxies inst_inv
proof
  fix lb :: lb_instance and now :: time and x :: balancer_result
  assume inv: "inst_inv lb"
  show "inst_proxies lb \<noteq> [] \<Longrightarrow> \<exists>p \<in> set (inst_proxies lb). fst (LB_Next now lb) = Inr p"
    using inv by (cases lb) (auto intro: rr.next_member wt.next_member lby.next_member)
  show "inst_proxies lb = [] \<Longrightarrow> fst (LB_Next now lb) = Inl (Sentinel ErrNoProxy)"
    using inv by (cases lb) (auto intro: rr.next_empty wt.next_empty lby.next_empty)
  show "inst_inv (snd (LB_Next now lb))"
    using inv by (cases lb) (auto intro: rr.next_inv wt.next_inv lby.next_inv)
  show "inst_proxies (snd (LB_Next now lb)) = inst_proxies lb"
    using inv by (cases lb) (auto intro: rr.next_proxies wt.next_proxies lby.next_proxies)
  show "inst_inv (LB_Release x lb)"
    using inv by (cases lb) (auto intro: rr.release_inv wt.release_inv lby.release_inv)
  show "inst_proxies (LB_Release x lb) = inst_proxies lb"
    using inv by (cases lb) (auto intro: rr.release_proxies wt.release_proxies lby.release_proxies)
qed

section \<open>Construction\<close>

lemma weighted_members_ok:
  assumes "weighted_members pid i tot ms proxies = Inr (ws, t)"
  shows "ws = map member_Weight ms \<and> (\<forall>m \<in> set ms. 1 \<le> member_Weight m) \<and>
         (\<forall>j < length ms. i + j < length proxies \<and> proxy_Id (proxies ! (i + j)) = member_ProxyId (ms ! j))"
  using assms
proof (induction ms arbitrary: i tot ws t)
  case Nil
  then show ?case by simp
next
  case (Cons m ms)
  from Cons.prems obtain ws' where w: "1 \<le> member_Weight m" "i < length proxies"
    "proxy_Id (proxies ! i) = member_ProxyId m" "ws = member_Weight m # ws'"
    and rec: "weighted_members pid (Suc i) (wrap64 (tot + member_Weight m)) ms proxies = Inr (ws', t)"
    by (auto simp: res_simps index_slice_def split: if_splits)
  have at: "i + j < length proxies \<and> proxy_Id (proxies ! (i + j)) = member_ProxyId ((m # ms) ! j)"
    if "j < length (m # ms)" for j
    using that w Cons.IH [OF rec] by (cases j) auto
  from w Cons.IH [OF rec] at show ?case by auto
qed

lemma weighted_members_total:
  assumes "weighted_members pid i tot ms proxies = Inr (ws, t)" "0 \<le> tot"
    and "tot + sum_list (map member_Weight ms) \<le> max_int64"
  shows "t = tot + sum_list (map member_Weight ms)"
  using assms
proof (induction ms arbitrary: i tot ws t)
  case Nil
  then show ?case by simp
next
  case (Cons m ms)
  from Cons.prems(1) obtain ws' where w: "1 \<le> member_Weight m"
    and rec: "weighted_members pid (Suc i) (wrap64 (tot + member_Weight m)) ms proxies = Inr (ws', t)"
    by (auto simp: res_simps index_slice_def split: if_splits)
  have "\<forall>m \<in> set ms. 1 \<le> member_Weight m" using weighted_members_ok [OF rec] by blast
  then have "0 \<le> sum_list (map member_Weight ms)" by (intro sum_list_nonneg) auto
  with Cons.prems w have "wrap64 (tot + member_Weight m) = tot + member_Weight m"
    by (intro wrap64_id) (auto simp: min_int64_def)
  with Cons.IH [OF rec] Cons.prems w show ?case by simp
qed

lemma weighted_members_succeeds:
  assumes "\<forall>m \<in> set ms. 1 \<le> member_Weight m"
    and "\<And>j. j < length ms \<Longrightarrow> i + j < length proxies \<and> proxy_Id (proxies ! (i + j)) = member_ProxyId (ms ! j)"
  shows "\<exists>ws t. weighted_members pid i tot ms proxies = Inr (ws, t)"
  using assms
proof (induction ms arbitrary: i tot)
  case Nil
  then show ?case by simp
next
  case (Cons m ms)
  have "Suc i + j < length proxies \<and> proxy_Id (proxies ! (Suc i + j)) = member_ProxyId (ms ! j)"
    if "j < length ms" for j using Cons.prems(2) [of "Suc j"] that by simp
  then obtain ws t where rec: "weighted_members pid (Suc i) (wrap64 (tot + member_Weight m)) ms proxies = Inr (ws, t)"
    using Cons.IH [of "Suc i"] Cons.prems(1) by fastforce
  from Cons.prems(1) Cons.prems(2) [of 0] rec show ?case by simp
qed

lemma NewWeighted_ok:
  assumes "NewWeighted (Some p) = Inr w"
  shows "wt_proxies w = pool_resolvedProxies p \<and> wt_weights w = map member_Weight (pool_Members p) \<and>
         map proxy_Id (wt_proxies w) = MemberProxyIds p \<and> (\<forall>x \<in> set (wt_weights w). 1 \<le> x) \<and>
         wt_current w = replicate (length (wt_proxies w)) 0 \<and> wt_inv w"
proof -
  from assms obtain ws t where len: "length (pool_resolvedProxies p) = length (pool_Members p)"
    and wm: "weighted_members (pool_Id p) 0 0 (pool_Members p) (pool_resolvedProxies p) = Inr (ws, t)"
    and w: "w = \<lparr>wt_proxies = pool_resolvedProxies p, wt_weights = ws, wt_current = replicate (length ws) 0, wt_total = t\<rparr>"
    by (auto simp: NewWeighted_def res_simps split: if_splits)
  from weighted_members_ok [OF wm] len have ids: "map proxy_Id (pool_resolvedProxies p) = MemberProxyIds p"
    by (intro nth_equalityI) (auto simp: MemberProxyIds_def)
  from weighted_members_ok [OF wm] len w ids show ?thesis by (auto simp: wt_inv_def)
qed

lemma NewWeighted_total:
  assumes "NewWeighted (Some p) = Inr w" "sum_list (map member_Weight (pool_Members p)) \<le> max_int64"
  shows "wt_total w = sum_list (wt_weights w)"
  using assms NewWeighted_ok [OF assms(1)] weighted_members_total
  by (fastforce simp: NewWeighted_def res_simps split: if_splits)

lemma Build_ok:
  assumes "Build now lb (Some p) = Inr inst" "length (pool_resolvedProxies p) < 2 ^ 32"
  shows "inst_inv inst \<and> inst_proxies inst = pool_resolvedProxies p"
proof -
  have rr: "NewRoundRobin (Some p) = Inr r \<Longrightarrow> rr_inv r \<and> rr_proxies r = pool_resolvedProxies p" for r
    using assms(2) by (auto simp: NewRoundRobin_def rr_inv_def rr_proxies_def unat_of_nat split: if_splits)
  have lby: "NewLeastBytes now (Some p) d = Inr l \<Longrightarrow> lby_inv l \<and> lby_proxies l = pool_resolvedProxies p" for l d
    by (auto simp: NewLeastBytes_def lby_inv_def lby_proxies_def DefaultLeastBytesResetInterval_def
        Minute_def Second_def split: if_splits)
  show ?thesis
    using assms(1) rr lby NewWeighted_ok by (auto simp: Build_def res_simps split: if_splits)
qed

section \<open>Fairness of the weighted algorithm\<close>

text \<open>
  The loop, when no sum leaves the 64-bit range: every running weight grows by its weight, and
  the best index carries a maximal value.
\<close>

lemma weighted_loop_exact:
  assumes "weighted_loop w k i best cur = (b, cur1)" "i + k = n" "length cur = n"
    and "\<And>j. j < n \<Longrightarrow> min_int64 \<le> cur0 ! j + w ! j \<and> cur0 ! j + w ! j \<le> max_int64"
    and "\<And>j. j < n \<Longrightarrow> cur ! j = (if j < i then cur0 ! j + w ! j else cur0 ! j)"
    and "\<And>b. best = Some b \<Longrightarrow> b < i" "\<And>b j. best = Some b \<Longrightarrow> j < i \<Longrightarrow> cur ! j \<le> cur ! b"
    and "best = None \<Longrightarrow> i = 0"
  shows "length cur1 = n \<and> (\<forall>j < n. cur1 ! j = cur0 ! j + w ! j) \<and>
         (\<forall>b'. b = Some b' \<longrightarrow> (\<forall>j < n. cur1 ! j \<le> cur1 ! b'))"
  using assms
proof (induction w k i best cur rule: weighted_loop.induct)
  case (1 w i best cur)
  then have "cur1 = cur" "b = best" by auto
  with 1 show ?case by simp
next
  case (2 w k i best cur)
  let ?cur = "cur[i := wrap64 (cur ! i + w ! i)]"
  let ?best = "case best of None \<Rightarrow> Some i | Some b \<Rightarrow> if ?cur ! i > ?cur ! b then Some i else Some b"
  have i: "i < n" "cur ! i = cur0 ! i" using "2.prems"(2,5) by auto
  then have at: "?cur ! j = (if j < Suc i then cur0 ! j + w ! j else cur0 ! j)" if "j < n" for j
    using that "2.prems"(3,4,5) by (auto simp: nth_list_update wrap64_id less_Suc_eq)
  have keep: "?cur ! j = cur ! j" if "j < i" for j using that by simp
  have lt: "b < Suc i" if "?best = Some b" for b
    using that "2.prems"(6) by (auto split: option.splits if_splits intro: less_SucI)
  have max: "?cur ! j \<le> ?cur ! b" if best: "?best = Some b" and j: "j < Suc i" for b j
  proof (cases "best = None \<or> j = i")
    case True
    with best j "2.prems"(8) show ?thesis by (auto split: option.splits if_splits)
  next
    case False
    then obtain b0 where b0: "best = Some b0" "j < i" "b0 < i" using j "2.prems"(6) by auto
    with "2.prems"(7) [OF b0(1,2)] best show ?thesis by (auto split: if_splits)
  qed
  have nn: "?best = None \<Longrightarrow> Suc i = 0" by (auto split: option.splits if_splits)
  have step: "weighted_loop w k (Suc i) ?best ?cur = (b, cur1)"
    using "2.prems"(1) by (simp only: weighted_loop.simps Let_def)
  show ?case
    by (rule "2.IH" [OF refl refl step _ _ "2.prems"(4) at lt max nn]) (use "2.prems"(2,3) in auto)
qed

lemma Weighted_Next_exact:
  assumes "wt_inv w" "wt_proxies w \<noteq> []"
    and "\<And>j. j < length (wt_proxies w) \<Longrightarrow>
           min_int64 \<le> wt_current w ! j + wt_weights w ! j \<and> wt_current w ! j + wt_weights w ! j \<le> max_int64"
    and "0 < wt_total w" "wt_total w \<le> max_int64"
    and "\<exists>j < length (wt_proxies w). 0 < wt_current w ! j + wt_weights w ! j"
  obtains b cur where "b < length (wt_proxies w)" "length cur = length (wt_proxies w)"
    and "Weighted_Next now w = (Inr (wt_proxies w ! b), w\<lparr>wt_current := cur\<rparr>)"
    and "\<And>j. j < length (wt_proxies w) \<Longrightarrow>
           cur ! j = wt_current w ! j + wt_weights w ! j - (if j = b then wt_total w else 0)"
    and "\<And>j. j < length (wt_proxies w) \<Longrightarrow>
           wt_current w ! j + wt_weights w ! j \<le> wt_current w ! b + wt_weights w ! b"
proof -
  from Weighted_Next_eq [OF assms(2), of now] obtain b cur1 where b: "b < length (wt_proxies w)"
    and loop: "weighted_loop (wt_weights w) (length (wt_proxies w)) 0 None (wt_current w) = (Some b, cur1)"
    and nxt: "Weighted_Next now w = (Inr (wt_proxies w ! b),
                w\<lparr>wt_current := cur1[b := wrap64 (cur1 ! b - wt_total w)]\<rparr>)" by blast
  have ex: "length cur1 = length (wt_proxies w) \<and>
        (\<forall>j < length (wt_proxies w). cur1 ! j = wt_current w ! j + wt_weights w ! j) \<and>
        (\<forall>b'. Some b = Some b' \<longrightarrow> (\<forall>j < length (wt_proxies w). cur1 ! j \<le> cur1 ! b'))"
    by (rule weighted_loop_exact [OF loop]) (use assms in \<open>force simp: wt_inv_def\<close>)+
  from ex assms(6) have "0 < cur1 ! b" by fastforce
  with ex b assms(3) [OF b] assms(4,5) have "wrap64 (cur1 ! b - wt_total w) = cur1 ! b - wt_total w"
    by (intro wrap64_id) (auto simp: min_int64_def max_int64_def)
  with ex b nxt show ?thesis
    by (intro that [of b "cur1[b := wrap64 (cur1 ! b - wt_total w)]"]) (auto simp: nth_list_update)
qed

text \<open>Numbers above \<open>-T\<close> that sum to zero are small.\<close>

lemma balanced_upper_bound:
  fixes f :: "nat \<Rightarrow> int"
  assumes "\<And>j. j < n \<Longrightarrow> - T < f j" "(\<Sum>j<n. f j) = 0" "i < n"
  shows "f i \<le> (int n - 1) * T"
proof -
  have "(\<Sum>j<n. f j) = f i + (\<Sum>j \<in> {..<n} - {i}. f j)"
    using assms(3) by (intro sum.remove) auto
  moreover have "(\<Sum>j \<in> {..<n} - {i}. f j) \<ge> (\<Sum>j \<in> {..<n} - {i}. - T)"
    using assms(1) by (intro sum_mono) force
  moreover have "(\<Sum>j \<in> {..<n} - {i}. - T) = - ((int n - 1) * T)"
    using assms(3) by (simp add: card_Diff_singleton of_nat_diff)
  moreover have "int (card ({..<n} - {i})) = int n - 1"
    using assms(3) by (simp add: card_Diff_singleton of_nat_diff)
  ultimately show ?thesis using assms(2) by simp
qed

text \<open>
  The state after the picks \<open>ps\<close> (indices, latest first) from a balancer whose running weights
  are zero: proxy \<open>j\<close> has gained its weight each time and lost the total each time it was picked.
\<close>

definition swrr_state :: "weighted \<Rightarrow> nat list \<Rightarrow> weighted \<Rightarrow> bool" where
  "swrr_state w0 ps w \<longleftrightarrow>
     w = w0\<lparr>wt_current := wt_current w\<rparr> \<and> length (wt_current w) = length (wt_proxies w0) \<and>
     set ps \<subseteq> {..<length (wt_proxies w0)} \<and>
     (\<forall>j < length (wt_proxies w0). - wt_total w0 < wt_current w ! j \<and>
        wt_current w ! j = int (length ps) * wt_weights w0 ! j - wt_total w0 * int (count_list ps j))"

definition swrr_start :: "weighted \<Rightarrow> bool" where
  "swrr_start w \<longleftrightarrow> wt_inv w \<and> wt_proxies w \<noteq> [] \<and> (\<forall>x \<in> set (wt_weights w). 1 \<le> x) \<and>
     wt_current w = replicate (length (wt_proxies w)) 0 \<and> wt_total w = sum_list (wt_weights w) \<and>
     int (length (wt_proxies w)) * wt_total w \<le> max_int64"

lemma sum_count_list:
  fixes n :: nat
  assumes "set ps \<subseteq> {..<n}"
  shows "(\<Sum>j<n. int (count_list ps j)) = int (length ps)"
proof -
  have "(\<Sum>j<n. count_list ps j) = length ps"
    by (rule sum_count_set [OF assms]) simp
  then show ?thesis by (metis of_nat_sum)
qed

lemma swrr_start_facts:
  assumes "swrr_start w"
  shows "0 < wt_total w" "(\<Sum>j < length (wt_proxies w). wt_weights w ! j) = wt_total w"
    "j < length (wt_proxies w) \<Longrightarrow> 1 \<le> wt_weights w ! j \<and> wt_weights w ! j \<le> wt_total w"
proof -
  from assms have len: "length (wt_weights w) = length (wt_proxies w)"
    and ne: "wt_weights w \<noteq> []" and pos: "\<forall>x \<in> set (wt_weights w). 1 \<le> x"
    and tot: "wt_total w = sum_list (wt_weights w)"
    by (auto simp: swrr_start_def wt_inv_def)
  from ne pos have hd: "1 \<le> hd (wt_weights w)" by simp
  have "0 \<le> sum_list (tl (wt_weights w))" using pos by (intro sum_list_nonneg) (meson dual_order.trans list.set_sel(2) ne zero_le_one)
  with hd ne tot show "0 < wt_total w" by (metis add_pos_nonneg list.collapse sum_list.Cons zero_less_one order_less_le_trans)
  show "(\<Sum>j < length (wt_proxies w). wt_weights w ! j) = wt_total w"
    using tot len by (simp add: sum_list_sum_nth atLeast0LessThan)
  show "1 \<le> wt_weights w ! j \<and> wt_weights w ! j \<le> wt_total w" if "j < length (wt_proxies w)"
  proof -
    have "\<And>x. x \<in> set (wt_weights w) \<Longrightarrow> 0 \<le> x" using pos by force
    with that len pos tot show ?thesis by (auto intro: member_le_sum_list)
  qed
qed

lemma swrr_sum:
  assumes "swrr_start w0" "swrr_state w0 ps w"
  shows "(\<Sum>j < length (wt_proxies w0). wt_current w ! j) = 0"
proof -
  let ?n = "length (wt_proxies w0)"
  have "(\<Sum>j < ?n. wt_current w ! j) =
      (\<Sum>j < ?n. int (length ps) * wt_weights w0 ! j - wt_total w0 * int (count_list ps j))"
    using assms(2) by (intro sum.cong) (auto simp: swrr_state_def)
  also have "\<dots> = int (length ps) * (\<Sum>j < ?n. wt_weights w0 ! j) - wt_total w0 * (\<Sum>j < ?n. int (count_list ps j))"
    by (simp add: sum_subtractf sum_distrib_left)
  finally show ?thesis
    using assms swrr_start_facts(2) [OF assms(1)] sum_count_list [of ps ?n] by (auto simp: swrr_state_def)
qed

lemma swrr_step:
  assumes start: "swrr_start w0" and state: "swrr_state w0 ps w"
  shows "\<exists>b < length (wt_proxies w0). \<exists>w'. Weighted_Next now w = (Inr (wt_proxies w0 ! b), w') \<and> swrr_state w0 (b # ps) w'"
proof -
  let ?n = "length (wt_proxies w0)" and ?T = "wt_total w0"
  note facts = swrr_start_facts [OF start]
  from state have same: "wt_proxies w = wt_proxies w0" "wt_weights w = wt_weights w0" "wt_total w = ?T"
    unfolding swrr_state_def by (metis weighted.select_convs weighted.surjective weighted.update_convs(3))+
  have cur: "- ?T < wt_current w ! j" if "j < ?n" for j using that state unfolding swrr_state_def by blast
  have sum0: "(\<Sum>j < ?n. wt_current w ! j) = 0" by (rule swrr_sum [OF start state])
  have up: "wt_current w ! j \<le> (int ?n - 1) * ?T" if "j < ?n" for j
    by (rule balanced_upper_bound [OF cur sum0 that])
  have nT: "int ?n * ?T \<le> max_int64" using start unfolding swrr_start_def by blast
  have "1 \<le> int ?n" using start by (cases "wt_proxies w0") (auto simp: swrr_start_def)
  then have T: "?T \<le> max_int64" using nT facts(1) by (smt (verit) mult_le_cancel_right1)
  have range: "min_int64 \<le> wt_current w ! j + wt_weights w0 ! j \<and> wt_current w ! j + wt_weights w0 ! j \<le> max_int64"
    if "j < ?n" for j
    using up [OF that] cur [OF that] facts(3) [OF that] nT T
    by (auto simp: left_diff_distrib min_int64_def max_int64_def)
  have inv: "wt_inv w" "wt_proxies w \<noteq> []"
    using start state same by (auto simp: wt_inv_def swrr_start_def swrr_state_def)
  have "(\<Sum>j < ?n. wt_current w ! j + wt_weights w0 ! j) = ?T"
    using sum0 facts(2) by (simp add: sum.distrib)
  then have some: "\<exists>j < ?n. 0 < wt_current w ! j + wt_weights w0 ! j"
    using facts(1) sum_nonpos [of "{..<?n}" "\<lambda>j. wt_current w ! j + wt_weights w0 ! j"] by force
  obtain b cur1 where b: "b < ?n" "length cur1 = ?n"
    and nxt: "Weighted_Next now w = (Inr (wt_proxies w0 ! b), w\<lparr>wt_current := cur1\<rparr>)"
    and at: "\<And>j. j < ?n \<Longrightarrow> cur1 ! j = wt_current w ! j + wt_weights w0 ! j - (if j = b then ?T else 0)"
    and best: "\<And>j. j < ?n \<Longrightarrow> wt_current w ! j + wt_weights w0 ! j \<le> wt_current w ! b + wt_weights w0 ! b"
    by (rule Weighted_Next_exact [OF inv, of now, unfolded same, OF range facts(1) T some]) (assumption | rule that)+
  have pos: "0 < wt_current w ! b + wt_weights w0 ! b" using best some by force
  have "swrr_state w0 (b # ps) (w\<lparr>wt_current := cur1\<rparr>)"
    unfolding swrr_state_def
  proof (intro conjI allI impI)
    show "w\<lparr>wt_current := cur1\<rparr> = w0\<lparr>wt_current := wt_current (w\<lparr>wt_current := cur1\<rparr>)\<rparr>"
      using state unfolding swrr_state_def by (metis weighted.select_convs(3) weighted.surjective weighted.update_convs(3))
    fix j assume j: "j < ?n"
    show "- ?T < wt_current (w\<lparr>wt_current := cur1\<rparr>) ! j"
      using at [OF j] pos facts(3) [OF j] cur [OF j] by auto
    have "wt_current w ! j = int (length ps) * wt_weights w0 ! j - ?T * int (count_list ps j)"
      using state j unfolding swrr_state_def by blast
    then show "wt_current (w\<lparr>wt_current := cur1\<rparr>) ! j =
        int (length (b # ps)) * wt_weights w0 ! j - ?T * int (count_list (b # ps) j)"
      using at [OF j] by (auto simp: algebra_simps)
  qed (use b state in \<open>auto simp: swrr_state_def\<close>)
  with b nxt show ?thesis by blast
qed

lemma swrr_run:
  assumes start: "swrr_start w0" and "swrr_state w0 ps w"
  shows "\<exists>qs. fst (wt.run (map Next ts) w) = map (\<lambda>b. Inr (wt_proxies w0 ! b)) qs \<and> length qs = length ts \<and>
              swrr_state w0 (rev qs @ ps) (snd (wt.run (map Next ts) w))"
  using assms(2)
proof (induction ts arbitrary: ps w)
  case Nil
  then show ?case by simp
next
  case (Cons t ts)
  from swrr_step [OF start Cons.prems, of t] obtain b w' where
    b: "Weighted_Next t w = (Inr (wt_proxies w0 ! b), w')" "swrr_state w0 (b # ps) w'" by blast
  from Cons.IH [OF b(2)] obtain qs where
    "fst (wt.run (map Next ts) w') = map (\<lambda>b. Inr (wt_proxies w0 ! b)) qs" "length qs = length ts"
    "swrr_state w0 (rev qs @ b # ps) (snd (wt.run (map Next ts) w'))" by blast
  with b(1) show ?case by (intro exI [of _ "b # qs"]) (auto split: prod.splits)
qed

text \<open>After as many picks as the total, the running weights are back at zero.\<close>

lemma swrr_period:
  assumes "swrr_start w0" "swrr_state w0 ps w" "int (length ps) = wt_total w0"
  shows "w = w0 \<and> (\<forall>j < length (wt_proxies w0). int (count_list ps j) = wt_weights w0 ! j)"
proof -
  let ?n = "length (wt_proxies w0)" and ?T = "wt_total w0"
  note facts = swrr_start_facts [OF assms(1)]
  have set: "set ps \<subseteq> {..<?n}" and len: "length (wt_current w) = ?n" and w: "w = w0\<lparr>wt_current := wt_current w\<rparr>"
    and at: "\<And>j. j < ?n \<Longrightarrow> - ?T < wt_current w ! j \<and> wt_current w ! j = ?T * (wt_weights w0 ! j - int (count_list ps j))"
    using assms(2,3) unfolding swrr_state_def by (auto simp: algebra_simps)
  have "0 < wt_weights w0 ! j - int (count_list ps j) + 1" if "j < ?n" for j
    using at [OF that] facts(1) by (smt (verit) mult_le_cancel_left1 mult_minus_right)
  then have le: "int (count_list ps j) \<le> wt_weights w0 ! j" if "j < ?n" for j using that by force
  have "(\<Sum>j < ?n. wt_weights w0 ! j - int (count_list ps j)) = 0"
    using facts(2) sum_count_list [OF set] assms(3) by (simp add: sum_subtractf)
  then have eq: "\<forall>j \<in> {..<?n}. wt_weights w0 ! j - int (count_list ps j) = 0"
    using le sum_nonneg_eq_0_iff [of "{..<?n}" "\<lambda>j. wt_weights w0 ! j - int (count_list ps j)"] by auto
  then have "wt_current w = replicate ?n 0" using len at by (intro nth_equalityI) auto
  with w assms(1) have "w = w0" unfolding swrr_start_def by (metis weighted.surjective weighted.update_convs(3))
  with eq show ?thesis by auto
qed

text \<open>
  C3.  Smooth weighted round robin is exactly fair: from a freshly built balancer, as many calls
  of \<^verbatim>\<open>Next\<close> as the weights sum to pick the \<open>j\<close>-th member exactly as often as its weight, whatever
  the clock says, and leave the balancer in its initial state, so the schedule repeats.
\<close>

theorem weighted_fair_period:
  assumes "NewWeighted (Some p) = Inr w"
    and "int (length (pool_Members p)) * sum_list (map member_Weight (pool_Members p)) \<le> max_int64"
    and "int (length ts) = sum_list (map member_Weight (pool_Members p))"
  shows "\<exists>qs. fst (wt.run (map Next ts) w) = map (\<lambda>b. Inr (pool_resolvedProxies p ! b)) qs \<and>
              (\<forall>j < length (pool_Members p). int (count_list qs j) = member_Weight (pool_Members p ! j)) \<and>
              snd (wt.run (map Next ts) w) = w"
proof (cases "pool_Members p = []")
  case True
  with assms(3) show ?thesis by simp
next
  case False
  note ok = NewWeighted_ok [OF assms(1)]
  then have len: "length (wt_proxies w) = length (pool_Members p)" by (metis length_map wt_inv_def)
  have pos: "0 \<le> sum_list (map member_Weight (pool_Members p))" by (simp flip: assms(3))
  moreover have "1 \<le> int (length (pool_Members p))" using False by (cases "pool_Members p") auto
  ultimately have "sum_list (map member_Weight (pool_Members p)) \<le> max_int64"
    using assms(2) by (smt (verit) mult_le_cancel_right1)
  then have tot: "wt_total w = sum_list (wt_weights w)" by (rule NewWeighted_total [OF assms(1)])
  have start: "swrr_start w"
    using ok len tot False assms(2) by (auto simp: swrr_start_def)
  have "swrr_state w [] w" using ok swrr_start_facts(1) [OF start] by (auto simp: swrr_state_def)
  from swrr_run [OF start this, of ts] obtain qs where
    qs: "fst (wt.run (map Next ts) w) = map (\<lambda>b. Inr (wt_proxies w ! b)) qs" "length qs = length ts"
    "swrr_state w (rev qs) (snd (wt.run (map Next ts) w))" by auto
  have "int (length (rev qs)) = wt_total w" using qs(2) tot ok assms(3) by simp
  from swrr_period [OF start qs(3) this] qs(1) ok len show ?thesis by auto
qed

theorem weighted_fair_period_witness:
  "\<exists>w. NewWeighted (Some (sample_pool ''p'' [(''a'', 2), (''b'', 1)])) = Inr w \<and>
     (\<exists>qs. fst (wt.run (map Next [0, 1, 2]) w) =
             map (\<lambda>b. Inr ([sample_proxy ''a'', sample_proxy ''b''] ! b)) qs \<and>
           (\<forall>j < 2. int (count_list qs j) = [2, 1] ! j) \<and> snd (wt.run (map Next [0, 1, 2]) w) = w)"
proof -
  let ?p = "sample_pool ''p'' [(''a'', 2), (''b'', 1)]"
  obtain w where w: "NewWeighted (Some ?p) = Inr w"
    by (auto simp: NewWeighted_def wrap64_def)
  have two: "(\<forall>j < 2. P j) \<longleftrightarrow> P 0 \<and> P (1::nat)" for P by (auto simp: less_2_cases_iff)
  show ?thesis
    using weighted_fair_period [OF w, of "[0, 1, 2]"] w
    by (auto simp: max_int64_def numeral_2_eq_2 less_Suc_eq)
qed

section \<open>Fairness of round robin\<close>

lemma RoundRobin_Next_eq:
  assumes "rr_inv r" "rr_proxies r \<noteq> []"
  shows "RoundRobin_Next now r =
    (Inr (rr_proxies r ! (unat (rr_counter r) mod length (rr_proxies r))), r\<lparr>rr_counter := rr_counter r + 1\<rparr>)"
proof -
  have "rr_window r \<noteq> 0" using assms by (metis length_0_conv rr_inv_def unat_0)
  with assms rr_index_less [OF assms, of "rr_counter r"] show ?thesis
    by (simp add: RoundRobin_Next_def Let_def rr_proxies_def [symmetric] unat_mod rr_inv_def)
qed

lemma rr_run:
  assumes "rr_inv r" "rr_proxies r \<noteq> []" "unat (rr_counter r) + length ts \<le> 2 ^ 32"
  shows "fst (rr.run (map Next ts) r) =
    map (\<lambda>k. Inr (rr_proxies r ! ((unat (rr_counter r) + k) mod length (rr_proxies r)))) [0..<length ts]"
  using assms
proof (induction ts arbitrary: r)
  case Nil
  then show ?case by simp
next
  case (Cons t ts)
  let ?r = "r\<lparr>rr_counter := rr_counter r + 1\<rparr>"
  let ?f = "\<lambda>k. Inr (rr_proxies r ! ((unat (rr_counter r) + k) mod length (rr_proxies r)))"
  have same: "rr_proxies ?r = rr_proxies r" "rr_inv ?r"
    using Cons.prems(1) by (simp_all add: rr_proxies_def rr_inv_def)
  show ?case
  proof (cases "ts = []")
    case True
    then show ?thesis using RoundRobin_Next_eq [OF Cons.prems(1,2), of t] by simp
  next
    case False
    then have "1 \<le> length ts" by (cases ts) auto
    then have "unat (rr_counter r) + 1 < 2 ^ 32" using Cons.prems(3) by simp
    then have c: "unat (rr_counter r + 1) = unat (rr_counter r) + 1" by (simp add: unat_word_ariths)
    have IH: "fst (rr.run (map Next ts) ?r) = map (\<lambda>k. ?f (Suc k)) [0..<length ts]"
      using Cons.IH [of ?r] Cons.prems same c by simp
    then show ?thesis
      using RoundRobin_Next_eq [OF Cons.prems(1,2), of t]
      by (simp add: upt_conv_Cons map_Suc_upt [symmetric] comp_def case_prod_beta del: upt_Suc)
  qed
qed

text \<open>
  Round robin serves every proxy once per turn: whenever the 32-bit counter does not wrap in
  the turn, as many calls of \<^verbatim>\<open>Next\<close> as the pool has proxies return the pool's proxies in order,
  starting where the previous turn stopped.
\<close>

theorem round_robin_turn:
  assumes "rr_inv r" "length ts = length (rr_proxies r)" "unat (rr_counter r) + length ts \<le> 2 ^ 32"
  shows "fst (rr.run (map Next ts) r) = map Inr (rotate (unat (rr_counter r)) (rr_proxies r))"
proof (cases "rr_proxies r = []")
  case True
  then show ?thesis using assms(2) by simp
next
  case False
  show ?thesis
    using rr_run [OF assms(1) False assms(3)] assms(2) False
    by (intro nth_equalityI) (auto simp: nth_rotate)
qed

theorem round_robin_turn_witness:
  "\<exists>r. NewRoundRobin (Some (sample_pool ''p'' [(''a'', 1), (''b'', 1)])) = Inr r \<and>
     fst (rr.run (map Next [5, 6]) r) = [Inr (sample_proxy ''a''), Inr (sample_proxy ''b'')]"
proof -
  let ?p = "sample_pool ''p'' [(''a'', 1), (''b'', 1)]"
  let ?r = "\<lparr>rr_pool = ?p, rr_window = 2, rr_counter = 0\<rparr>"
  have new: "NewRoundRobin (Some ?p) = Inr ?r" by (simp add: NewRoundRobin_def)
  have "rr_inv ?r" by (simp add: rr_inv_def rr_proxies_def)
  then show ?thesis
    using new round_robin_turn [of ?r "[5, 6]"] by (simp add: rr_proxies_def)
qed

section \<open>Least bytes\<close>

text \<open>The bytes reported for a proxy by a sequence of releases, ignoring the non-positive ones.\<close>

definition bytes_of :: "balancer_result list \<Rightarrow> string \<Rightarrow> int" where
  "bytes_of rs i = sum_list (map result_Bytes (filter (\<lambda>r. 0 < result_Bytes r \<and> result_ProxyId r = i) rs))"

lemma bytes_of_nonneg: "0 \<le> bytes_of rs i"
  by (auto simp: bytes_of_def intro!: sum_list_nonneg)

lemma bytes_of_snoc:
  "bytes_of (rs @ [r]) i = bytes_of rs i + (if 0 < result_Bytes r \<and> result_ProxyId r = i then result_Bytes r else 0)"
  by (simp add: bytes_of_def)

lemma releases_count:
  assumes "lby_counters l = Map.empty" "\<And>i. bytes_of rs i \<le> max_int64" "i \<noteq> []"
  shows "(case lby_counters (fold LeastBytes_Release rs l) i of None \<Rightarrow> 0 | Some n \<Rightarrow> n) = bytes_of rs i"
  using assms(2,3)
proof (induction rs arbitrary: i rule: rev_induct)
  case Nil
  with assms(1) show ?case by (simp add: bytes_of_def)
next
  case (snoc r rs)
  have le: "bytes_of rs j \<le> max_int64" for j
    using snoc.prems(1) [of j] by (auto simp: bytes_of_snoc split: if_splits)
  have IH: "j \<noteq> [] \<Longrightarrow> (case lby_counters (fold LeastBytes_Release rs l) j of None \<Rightarrow> 0 | Some n \<Rightarrow> n) = bytes_of rs j" for j
    by (rule snoc.IH [OF le])
  have "0 < result_Bytes r \<Longrightarrow> wrap64 (bytes_of rs (result_ProxyId r) + result_Bytes r) = bytes_of rs (result_ProxyId r) + result_Bytes r"
    using snoc.prems(1) [of "result_ProxyId r"] bytes_of_nonneg [of rs "result_ProxyId r"]
    by (intro wrap64_id) (auto simp: bytes_of_snoc min_int64_def)
  moreover define m where "m = fold LeastBytes_Release rs l"
  ultimately have "(case lby_counters (LeastBytes_Release r m) i of None \<Rightarrow> 0 | Some n \<Rightarrow> n) = bytes_of (rs @ [r]) i"
    using IH snoc.prems(2) by (auto simp: LeastBytes_Release_def bytes_of_snoc simp flip: m_def)
  then show ?case by (simp add: m_def)
qed

lemma LeastBytes_Release_simps [simp]:
  "lby_pool (LeastBytes_Release r l) = lby_pool l" "lby_lastReset (LeastBytes_Release r l) = lby_lastReset l"
  "lby_resetInterval (LeastBytes_Release r l) = lby_resetInterval l"
  by (simp_all add: LeastBytes_Release_def)

lemma releases_keep:
  "lby_pool (fold LeastBytes_Release rs l) = lby_pool l"
  "lby_lastReset (fold LeastBytes_Release rs l) = lby_lastReset l"
  "lby_resetInterval (fold LeastBytes_Release rs l) = lby_resetInterval l"
  by (induction rs arbitrary: l) simp_all

text \<open>
  Least bytes picks a least loaded proxy: from a fresh balancer and before the reset
  interval has passed, after any releases, \<^verbatim>\<open>Next\<close> returns a proxy of the pool for which no other
  proxy of the pool was reported fewer bytes; once the interval has passed the counters are
  cleared and the pool's first proxy is returned.
\<close>

theorem least_bytes_least_loaded:
  assumes "NewLeastBytes start (Some p) d = Inr l" "pool_resolvedProxies p \<noteq> []"
    and "\<And>i. bytes_of rs i \<le> max_int64" "\<forall>q \<in> set (pool_resolvedProxies p). proxy_Id q \<noteq> []"
  shows "if time_Sub now start < (if d \<le> 0 then Minute else d)
    then \<exists>q \<in> set (pool_resolvedProxies p). LeastBytes_Next now (fold LeastBytes_Release rs l) = (Inr q, fold LeastBytes_Release rs l) \<and>
           (\<forall>q' \<in> set (pool_resolvedProxies p). bytes_of rs (proxy_Id q) \<le> bytes_of rs (proxy_Id q'))
    else fst (LeastBytes_Next now (fold LeastBytes_Release rs l)) = Inr (hd (pool_resolvedProxies p)) \<and>
         lby_counters (snd (LeastBytes_Next now (fold LeastBytes_Release rs l))) = Map.empty"
proof -
  let ?l = "fold LeastBytes_Release rs l"
  from assms(1) have l: "lby_pool l = p" "lby_counters l = Map.empty" "lby_lastReset l = start"
    "lby_resetInterval l = (if d \<le> 0 then Minute else d)"
    by (auto simp: NewLeastBytes_def DefaultLeastBytesResetInterval_def split: if_splits)
  obtain q qs where q: "pool_resolvedProxies p = q # qs" using assms(2) by (cases "pool_resolvedProxies p") auto
  have cnt: "counter (lby_counters ?l) q' = bytes_of rs (proxy_Id q')" if "q' \<in> set (q # qs)" for q'
    using releases_count [OF l(2) assms(3), of "proxy_Id q'"] assms(4) that q by (auto simp: counter_def)
  have first: "least_loop Map.empty q 0 qs = q" by (induction qs) (auto simp: counter_def)
  show ?thesis
    using least_loop_least [of "lby_counters ?l" q qs] q first cnt
    by (auto simp: LeastBytes_Next_def lazy_reset_def releases_keep l Let_def counter_def)
qed

theorem least_bytes_least_loaded_witness:
  "\<exists>l. NewLeastBytes 0 (Some (sample_pool ''p'' [(''a'', 1), (''b'', 1)])) 10 = Inr l \<and>
     fst (LeastBytes_Next 5 (fold LeastBytes_Release [\<lparr>result_ProxyId = ''a'', result_Bytes = 7\<rparr>] l)) = Inr (sample_proxy ''b'')"
proof -
  let ?p = "sample_pool ''p'' [(''a'', 1), (''b'', 1)]" and ?rs = "[\<lparr>result_ProxyId = ''a'', result_Bytes = 7\<rparr>]"
  obtain l where l: "NewLeastBytes 0 (Some ?p) 10 = Inr l" by (simp add: NewLeastBytes_def)
  have "bytes_of ?rs i \<le> max_int64" for i by (simp add: bytes_of_def max_int64_def)
  from least_bytes_least_loaded [OF l _ this, of 5] l show ?thesis
    by (auto simp: time_Sub_def min_int64_def max_int64_def bytes_of_def)
qed

section \<open>The contract of what Build returns\<close>

text \<open>
  Whatever the algorithm, a balancer built on a pool serves only that pool: over any
  sequence of \<^verbatim>\<open>Next\<close> and \<^verbatim>\<open>Release\<close> calls every answer is a proxy of the pool, never an index
  panic; \<^verbatim>\<open>ErrNoProxy\<close> is the answer exactly when the pool is empty.
\<close>

theorem build_serves_pool_members:
  assumes "Build now lb (Some p) = Inr inst" "length (pool_resolvedProxies p) < 2 ^ 32"
    and "r \<in> set (fst (inst.run ops inst))"
  shows "r \<in> (if pool_resolvedProxies p = [] then {Inl (Sentinel ErrNoProxy)} else Inr ` set (pool_resolvedProxies p))"
  using Build_ok [OF assms(1,2)] inst.run_results [OF _ assms(3)] by metis

theorem build_serves_pool_members_witness:
  "\<exists>inst. Build 0 (sample_balancer ''b'' BalancerTypeLeastBytes ''p'') (Some (sample_pool ''p'' [(''a'', 1)])) = Inr inst \<and>
     hd (fst (inst.run [Next 3, Next 4] inst)) = Inr (sample_proxy ''a'')"
proof -
  let ?lb = "sample_balancer ''b'' BalancerTypeLeastBytes ''p''" and ?p = "sample_pool ''p'' [(''a'', 1)]"
  obtain i where i: "Build 0 ?lb (Some ?p) = Inr i"
    by (simp add: Build_def NewLeastBytes_def balancer_type_defs)
  have "hd (fst (inst.run [Next 3, Next 4] i)) \<in> set (fst (inst.run [Next 3, Next 4] i))"
    by (auto split: prod.splits)
  from build_serves_pool_members [OF i _ this] i show ?thesis by auto
qed

end
