(* ===== verification/Dataplane.thy ===== *)
theory Dataplane
  imports Integrity Balancer
begin

text \<open>
  \<^verbatim>\<open>application/dataplane/balancer/service.go\<close> and \<^verbatim>\<open>application/dataplane/api\<close>: the registry of balancer
  instances, the resource cache, and the application that loads both from the control plane and
  sends a request through entrypoint, flow, router and balancer to a proxy.  The control plane is
  read through two ports; its state during a call is the argument \<open>db\<close>.  A \<^verbatim>\<open>sync.Map\<close> and the
  registry are association lists, ranged over in list order.  The three listings that an
  \<^verbatim>\<open>errgroup\<close> runs concurrently are read one after the other.
\<close>

section \<open>Ports\<close>

record 'db cp_reader =
  cpr_ListEntrypoints :: "list_params \<Rightarrow> entrypoint_filter \<Rightarrow> 'db \<Rightarrow> entrypoint list_result result"
  cpr_ListFlows :: "list_params \<Rightarrow> flow_filter \<Rightarrow> 'db \<Rightarrow> flow list_result result"
  cpr_ListRouters :: "list_params \<Rightarrow> router_filter \<Rightarrow> 'db \<Rightarrow> router list_result result"
  cpr_ListBalancers :: "list_params \<Rightarrow> balancer_filter \<Rightarrow> 'db \<Rightarrow> load_balancer list_result result"
  cpr_GetPool :: "string \<Rightarrow> 'db \<Rightarrow> pool result"

record 'db proxy_resolver =
  res_GetProxiesByIds :: "string list \<Rightarrow> 'db \<Rightarrow> proxy list result"
  res_FindProxiesByLabels :: "labels \<Rightarrow> 'db \<Rightarrow> proxy list result"

section \<open>The registry of balancers\<close>

definition nil_panic :: err where
  "nil_panic = External ''panic: nil pointer dereference''"

fun order_by :: "(string \<rightharpoonup> proxy) \<Rightarrow> string list \<Rightarrow> proxy list result" where
  "order_by byID [] = Inr []"
| "order_by byID (i # ids) =
     (case byID i of
        None \<Rightarrow> Inl (Errorf ''proxy %q not found'' [FStr i])
      | Some p \<Rightarrow> bind_res (order_by byID ids) (\<lambda>ps. Inr (p # ps)))"

definition orderProxiesByIDs :: "proxy list \<Rightarrow> string list \<Rightarrow> proxy list result" where
  "orderProxiesByIDs proxies ids = order_by (map_of (rev (map (\<lambda>p. (proxy_Id p, p)) proxies))) ids"

definition resolveProxies :: "'db proxy_resolver \<Rightarrow> pool \<Rightarrow> 'db \<Rightarrow> proxy list result" where
  "resolveProxies V pool db =
     (if pool_Type pool = PoolTypeStatic then
        bind_res (res_GetProxiesByIds V (MemberProxyIds pool) db) (\<lambda>proxies.
          if proxies = [] then Inr proxies else orderProxiesByIDs proxies (MemberProxyIds pool))
      else if pool_Type pool = PoolTypeDynamic then
        (case pool_Selector pool of
           None \<Rightarrow> Inl nil_panic
         | Some allow \<Rightarrow> res_FindProxiesByLabels V allow db)
      else Inl (Errorf ''unknown pool type: %q'' [FStr (pool_Type pool)]))"

type_synonym registry = "(string \<times> lb_instance) list"

definition build_instance :: "'db cp_reader \<Rightarrow> 'db proxy_resolver \<Rightarrow> time \<Rightarrow> load_balancer \<Rightarrow> 'db \<Rightarrow> lb_instance result" where
  "build_instance P V now lb db =
     bind_res (wrap (Wrapf ''loading pool: %w'' []) (cpr_GetPool P (lb_PoolId lb) db)) (\<lambda>pool.
     bind_res (wrap (Wrapf ''resolving proxies: %w'' []) (resolveProxies V pool db)) (\<lambda>proxies.
     wrap (Wrapf ''balancer %q: %w'' [FStr (lb_Id lb)]) (Build now lb (Some (LoadResolvedProxies pool proxies)))))"

fun build_registry ::
  "'db cp_reader \<Rightarrow> 'db proxy_resolver \<Rightarrow> time \<Rightarrow> load_balancer list \<Rightarrow> 'db \<Rightarrow> registry \<Rightarrow> registry result" where
  "build_registry P V now [] db reg = Inr reg"
| "build_registry P V now (lb # lbs) db reg =
     bind_res (build_instance P V now lb db) (\<lambda>inst. build_registry P V now lbs db (AList.update (lb_Id lb) inst reg))"

definition Service_Bootstrap :: "'db cp_reader \<Rightarrow> 'db proxy_resolver \<Rightarrow> time \<Rightarrow> 'db \<Rightarrow> (registry, unit) op" where
  "Service_Bootstrap P V now db reg =
     (case bind_res (wrap (Wrapf ''loading balancers: %w'' []) (cpr_ListBalancers P all_params no_balancer_filter db))
             (\<lambda>r. build_registry P V now (Items r) db []) of
        Inl e \<Rightarrow> (Inl e, reg)
      | Inr reg' \<Rightarrow> (Inr (), reg'))"

definition Service_Get :: "registry \<Rightarrow> string \<Rightarrow> lb_instance result" where
  "Service_Get reg i = (case map_of reg i of None \<Rightarrow> Inl (Sentinel ErrBalancerNotFound) | Some x \<Rightarrow> Inr x)"

definition Service_Next :: "time \<Rightarrow> string \<Rightarrow> (registry, proxy) op" where
  "Service_Next now i reg =
     (case Service_Get reg i of
        Inl e \<Rightarrow> (Inl e, reg)
      | Inr lb \<Rightarrow> (case LB_Next now lb of (r, lb') \<Rightarrow> (r, AList.update i lb' reg)))"

section \<open>The resource cache\<close>

record cache =
  cache_entrypoints :: "(string \<times> entrypoint) list"
  cache_flows :: "(string \<times> flow) list"
  cache_routers :: "(string \<times> router) list"

definition NewResourceCache :: cache where
  "NewResourceCache = \<lparr>cache_entrypoints = [], cache_flows = [], cache_routers = []\<rparr>"

definition Cache_AllEntrypoints :: "cache \<Rightarrow> entrypoint list" where
  "Cache_AllEntrypoints c = map snd (cache_entrypoints c)"

definition Cache_GetEntrypoint :: "cache \<Rightarrow> string \<Rightarrow> entrypoint result" where
  "Cache_GetEntrypoint c i =
     (case map_of (cache_entrypoints c) i of None \<Rightarrow> Inl (Errorf ''entrypoint %q not found'' [FStr i]) | Some x \<Rightarrow> Inr x)"

definition Cache_SetEntrypoint :: "entrypoint \<Rightarrow> cache \<Rightarrow> cache" where
  "Cache_SetEntrypoint e c = c\<lparr>cache_entrypoints := AList.update (ep_Id e) e (cache_entrypoints c)\<rparr>"

definition Cache_DeleteEntrypoint :: "string \<Rightarrow> cache \<Rightarrow> cache" where
  "Cache_DeleteEntrypoint i c = c\<lparr>cache_entrypoints := AList.delete i (cache_entrypoints c)\<rparr>"

definition Cache_ClearEntrypoints :: "cache \<Rightarrow> cache" where
  "Cache_ClearEntrypoints c = c\<lparr>cache_entrypoints := []\<rparr>"

definition Cache_GetFlow :: "cache \<Rightarrow> string \<Rightarrow> flow result" where
  "Cache_GetFlow c i =
     (case map_of (cache_flows c) i of None \<Rightarrow> Inl (Errorf ''flow %q not found'' [FStr i]) | Some x \<Rightarrow> Inr x)"

definition Cache_SetFlow :: "flow \<Rightarrow> cache \<Rightarrow> cache" where
  "Cache_SetFlow f c = c\<lparr>cache_flows := AList.update (flow_Id f) f (cache_flows c)\<rparr>"

definition Cache_DeleteFlow :: "string \<Rightarrow> cache \<Rightarrow> cache" where
  "Cache_DeleteFlow i c = c\<lparr>cache_flows := AList.delete i (cache_flows c)\<rparr>"

definition Cache_ClearFlows :: "cache \<Rightarrow> cache" where
  "Cache_ClearFlows c = c\<lparr>cache_flows := []\<rparr>"

definition Cache_AllRouters :: "cache \<Rightarrow> router list" where
  "Cache_AllRouters c = map snd (cache_routers c)"

definition Cache_GetRouter :: "cache \<Rightarrow> string \<Rightarrow> router result" where
  "Cache_GetRouter c i =
     (case map_of (cache_routers c) i of None \<Rightarrow> Inl (Errorf ''router %q not found'' [FStr i]) | Some x \<Rightarrow> Inr x)"

text \<open>The error of \<^verbatim>\<open>Compile\<close> is discarded, what it compiled is kept.\<close>

definition Cache_SetRouter :: "regexp_lib \<Rightarrow> string \<Rightarrow> router \<Rightarrow> cache \<Rightarrow> cache" where
  "Cache_SetRouter R i r c = c\<lparr>cache_routers := AList.update i (fst (Router_Compile R r)) (cache_routers c)\<rparr>"

definition Cache_DeleteRouter :: "string \<Rightarrow> cache \<Rightarrow> cache" where
  "Cache_DeleteRouter i c = c\<lparr>cache_routers := AList.delete i (cache_routers c)\<rparr>"

definition Cache_ClearRouters :: "cache \<Rightarrow> cache" where
  "Cache_ClearRouters c = c\<lparr>cache_routers := []\<rparr>"

definition Cache_Reload :: "regexp_lib \<Rightarrow> entrypoint list \<Rightarrow> flow list \<Rightarrow> router list \<Rightarrow> cache \<Rightarrow> cache" where
  "Cache_Reload R eps flows routers c =
     fold (\<lambda>r. Cache_SetRouter R (router_Id r) r) routers (Cache_ClearRouters
       (fold Cache_SetFlow flows (Cache_ClearFlows
         (fold Cache_SetEntrypoint eps (Cache_ClearEntrypoints c)))))"

section \<open>The application\<close>

record 'db application =
  app_cp :: "'db cp_reader"
  app_resolver :: "'db proxy_resolver"
  app_regexp :: regexp_lib

record dp =
  dp_cache :: cache
  dp_registry :: registry

definition NewApplication :: dp where
  "NewApplication = \<lparr>dp_cache = NewResourceCache, dp_registry = []\<rparr>"

definition on_registry :: "(registry, 'a) op \<Rightarrow> (dp, 'a) op" where
  "on_registry m s = (case m (dp_registry s) of (r, reg) \<Rightarrow> (r, s\<lparr>dp_registry := reg\<rparr>))"

definition warmupCache :: "'db application \<Rightarrow> 'db \<Rightarrow> (dp, unit) op" where
  "warmupCache A db s =
     (case wrap (Wrapf ''cache bootstrap failed: %w'' [])
         (bind_res (cpr_ListEntrypoints (app_cp A) all_params no_entrypoint_filter db) (\<lambda>eps.
          bind_res (cpr_ListFlows (app_cp A) all_params no_flow_filter db) (\<lambda>flows.
          bind_res (cpr_ListRouters (app_cp A) all_params no_router_filter db) (\<lambda>routers.
          Inr (Items eps, Items flows, Items routers))))) of
        Inl e \<Rightarrow> (Inl e, s)
      | Inr (eps, flows, routers) \<Rightarrow> (Inr (), s\<lparr>dp_cache := Cache_Reload (app_regexp A) eps flows routers (dp_cache s)\<rparr>))"

text \<open>\<^verbatim>\<open>Compile\<close> and \<^verbatim>\<open>Validate\<close> act on the cached router itself.\<close>

definition check_router :: "regexp_lib \<Rightarrow> string \<times> router \<Rightarrow> (string \<times> router) \<times> unit result" where
  "check_router R ir =
     (case ir of (i, r) \<Rightarrow>
        (case Router_Compile R r of
           (r1, Inl e) \<Rightarrow> ((i, r1), Inl (Wrapf ''router %q: %w'' [FStr (router_Id r)] e))
         | (r1, Inr _) \<Rightarrow>
             (case Router_Validate R r1 of
                (r2, res) \<Rightarrow> ((i, r2), wrap (Wrapf ''router %q: %w'' [FStr (router_Id r)]) res))))"

definition validateAll :: "'db application \<Rightarrow> (dp, unit) op" where
  "validateAll A s =
     (case check_all (\<lambda>ep. wrap (Wrapf ''entrypoint %q: %w'' [FStr (ep_Id ep)]) (Entrypoint_Validate ep))
             (Cache_AllEntrypoints (dp_cache s)) of
        Inl e \<Rightarrow> (Inl e, s)
      | Inr _ \<Rightarrow>
          (case update_each (check_router (app_regexp A)) (cache_routers (dp_cache s)) of
             (rs, res) \<Rightarrow> (res, s\<lparr>dp_cache := (dp_cache s)\<lparr>cache_routers := rs\<rparr>\<rparr>)))"

definition balancer_Bootstrap :: "'db application \<Rightarrow> time \<Rightarrow> 'db \<Rightarrow> (dp, unit) op" where
  "balancer_Bootstrap A now db = on_registry (Service_Bootstrap (app_cp A) (app_resolver A) now db)"

definition App_Bootstrap :: "'db application \<Rightarrow> time \<Rightarrow> 'db \<Rightarrow> (dp, unit) op" where
  "App_Bootstrap A now db =
     bind_op (warmupCache A db) (\<lambda>_. bind_op (validateAll A) (\<lambda>_. balancer_Bootstrap A now db))"

definition HandleEvent :: "'db application \<Rightarrow> time \<Rightarrow> 'db \<Rightarrow> change_event \<Rightarrow> (dp, unit) op" where
  "HandleEvent A now db e =
     (if event_ChangeKind e = ChangeKindSaved \<or> event_ChangeKind e = ChangeKindDeleted then
        if event_ResourceType e \<in> {ResourceTypeEntrypoint, ResourceTypeFlow, ResourceTypeRouter} then
          bind_op (warmupCache A db) (\<lambda>_. validateAll A)
        else if event_ResourceType e \<in> {ResourceTypePool, ResourceTypeProxy, ResourceTypeBalancer} then
          balancer_Bootstrap A now db
        else lift_op (Inr ())
      else lift_op (Inr ()))"

definition RouteRequest :: "'db application \<Rightarrow> dp \<Rightarrow> string \<Rightarrow> request \<Rightarrow> string result" where
  "RouteRequest A s routerId req =
     bind_res (wrap (Wrapf ''finding router %q: %w'' [FStr routerId]) (Cache_GetRouter (dp_cache s) routerId)) (\<lambda>router.
       case Router_Resolve (app_regexp A) router req of
         None \<Rightarrow> Inl (Wrapf ''router %q: %w'' [FStr routerId] (Sentinel ErrNoMatchingRule))
       | Some target \<Rightarrow> Inr target)"

text \<open>The balancer a request on an entrypoint is sent to.\<close>

definition flow_balancer :: "'db application \<Rightarrow> dp \<Rightarrow> string \<Rightarrow> request \<Rightarrow> string result" where
  "flow_balancer A s entrypointId req =
     bind_res (wrap (Wrapf ''entrypoint: %w'' []) (Cache_GetEntrypoint (dp_cache s) entrypointId)) (\<lambda>ep.
     bind_res (wrap (Wrapf ''flow: %w'' []) (Cache_GetFlow (dp_cache s) (ep_FlowId ep))) (\<lambda>flow.
       if flow_RouterId flow \<noteq> [] then wrap (Wrapf ''router: %w'' []) (RouteRequest A s (flow_RouterId flow) req)
       else if flow_BalancerId flow \<noteq> [] then Inr (flow_BalancerId flow)
       else Inl (Errorf ''no router or balancer for flow: %q'' [FStr (flow_Id flow)])))"

definition ExecuteFlow :: "'db application \<Rightarrow> time \<Rightarrow> string \<Rightarrow> request \<Rightarrow> (dp, proxy \<times> string) op" where
  "ExecuteFlow A now entrypointId req =
     bind_op (read_op (\<lambda>s. flow_balancer A s entrypointId req)) (\<lambda>balancerId.
     bind_op (on_registry (Service_Next now balancerId)) (\<lambda>proxy. lift_op (Inr (proxy, balancerId))))"

definition App_Release :: "string \<Rightarrow> balancer_result \<Rightarrow> (dp, unit) op" where
  "App_Release balancerId result s =
     (case Service_Get (dp_registry s) balancerId of
        Inl e \<Rightarrow> (Inl e, s)
      | Inr lb \<Rightarrow> (Inr (), s\<lparr>dp_registry := AList.update balancerId (LB_Release result lb) (dp_registry s)\<rparr>))"

end
