(* ===== verification/Dataplane_Correct.thy ===== *)
theory Dataplane_Correct
  imports Dataplane
begin

text \<open>
  What the data plane does with what the control plane holds.  \<open>dp_source\<close> is the contract of its
  two ports against the abstract store; \<open>dp_ok\<close> says that cache and registry are a compiled copy of
  a store.  Loading establishes it, serving requests keeps it, and a request is then sent where the
  store says, to a proxy that the store lets the balancer use.
\<close>

section \<open>What a store says about a request\<close>

definition intended_balancer :: "regexp_lib \<Rightarrow> store \<Rightarrow> string \<Rightarrow> request \<Rightarrow> string option" where
  "intended_balancer R st i req =
     Option.bind (st_entrypoints st i) (\<lambda>e. Option.bind (st_flows st (ep_FlowId e)) (\<lambda>f.
       if flow_RouterId f \<noteq> [] then
         Option.bind (st_routers st (flow_RouterId f)) (\<lambda>r.
           map_option rule_Target (find (\<lambda>q. match_spec R (rule_Match q) req) (router_Rules r)))
       else if flow_BalancerId f \<noteq> [] then Some (flow_BalancerId f) else None))"

definition pool_serves :: "store \<Rightarrow> pool \<Rightarrow> proxy set" where
  "pool_serves st p =
     (if pool_Type p = PoolTypeStatic then {q. \<exists>i \<in> set (MemberProxyIds p). st_proxies st i = Some q}
      else {q \<in> ran (st_proxies st). \<exists>allow. pool_Selector p = Some allow \<and> matchesLabels (proxy_Labels q) allow})"

text \<open>The answer to a request that a store calls for.\<close>

definition served_as_stored :: "regexp_lib \<Rightarrow> store \<Rightarrow> string \<Rightarrow> request \<Rightarrow> (proxy \<times> string) result \<Rightarrow> bool" where
  "served_as_stored R st i req res \<longleftrightarrow>
     (case intended_balancer R st i req of
        None \<Rightarrow> \<exists>e. res = Inl e \<and> errors_Is e ErrNoMatchingRule
      | Some b \<Rightarrow> \<exists>lb p. st_balancers st b = Some lb \<and> st_pools st (lb_PoolId lb) = Some p \<and>
          (if pool_serves st p = {} then res = Inl (Sentinel ErrNoProxy) else \<exists>q \<in> pool_serves st p. res = Inr (q, b)))"

definition cache_ok :: "store \<Rightarrow> cache \<Rightarrow> bool" where
  "cache_ok st c \<longleftrightarrow>
     map_of (cache_entrypoints c) = st_entrypoints st \<and> map_of (cache_flows c) = st_flows st \<and>
     (\<forall>i. map_option strip_router (map_of (cache_routers c) i) = map_option strip_router (st_routers st i)) \<and>
     (\<forall>i r rule. map_of (cache_routers c) i = Some r \<longrightarrow> rule \<in> set (router_Rules r) \<longrightarrow> match_compiled (rule_Match rule))"

definition registry_ok :: "store \<Rightarrow> registry \<Rightarrow> bool" where
  "registry_ok st reg \<longleftrightarrow> dom (map_of reg) = dom (st_balancers st) \<and>
     (\<forall>i x. map_of reg i = Some x \<longrightarrow> inst_inv x \<and>
        (\<exists>lb p. st_balancers st i = Some lb \<and> st_pools st (lb_PoolId lb) = Some p \<and> set (inst_proxies x) = pool_serves st p))"

definition dp_ok :: "store \<Rightarrow> dp \<Rightarrow> bool" where
  "dp_ok st s \<longleftrightarrow> cache_ok st (dp_cache s) \<and> registry_ok st (dp_registry s)"

section \<open>Loading into association lists\<close>

lemma fold_update_in:
  assumes "inj_on key (set xs)" "x \<in> set xs"
  shows "map_of (fold (\<lambda>x. AList.update (key x) (val x)) xs al) (key x) = Some (val x)"
  using assms
proof (induction xs arbitrary: al)
  case (Cons y ys)
  show ?case
  proof (cases "x \<in> set ys")
    case True
    then show ?thesis using Cons by (simp add: inj_on_def)
  next
    case False
    have "key x \<notin> key ` set ys" using Cons.prems False by (auto simp: inj_on_def)
    moreover have "k \<notin> key ` set ys \<Longrightarrow> map_of (fold (\<lambda>x. AList.update (key x) (val x)) ys al) k = map_of al k" for k al
      by (induction ys arbitrary: al) (auto simp: update_conv')
    ultimately show ?thesis using False Cons.prems by (simp add: update_conv')
  qed
qed simp

lemma fold_update_out:
  "k \<notin> key ` set xs \<Longrightarrow> map_of (fold (\<lambda>x. AList.update (key x) (val x)) xs al) k = map_of al k"
  by (induction xs arbitrary: al) (auto simp: update_conv')

text \<open>A listing of a map whose entries know their key rebuilds the map.\<close>

lemma fold_update_map:
  assumes "set xs = ran m" "\<And>i x. m i = Some x \<Longrightarrow> key x = i"
  shows "map_of (fold (\<lambda>x. AList.update (key x) (val x)) xs []) i = map_option val (m i)"
proof (cases "m i")
  case None
  then have "i \<notin> key ` set xs" using assms by (auto simp: ran_def)
  with None show ?thesis using fold_update_out [of i key xs val "[]"] by simp
next
  case (Some x)
  have "inj_on key (set xs)" "x \<in> set xs" "key x = i" using assms Some by (auto simp: inj_on_def ran_def)
  with Some fold_update_in [of key xs x val "[]"] show ?thesis by simp
qed

lemma Reload_parts:
  "cache_entrypoints (Cache_Reload R es fs rs c) = fold (\<lambda>e. AList.update (ep_Id e) e) es []"
  "cache_flows (Cache_Reload R es fs rs c) = fold (\<lambda>f. AList.update (flow_Id f) f) fs []"
  "cache_routers (Cache_Reload R es fs rs c) = fold (\<lambda>r. AList.update (router_Id r) (fst (Router_Compile R r))) rs []"
proof -
  have e: "cache_entrypoints (fold Cache_SetEntrypoint es c) = fold (\<lambda>e. AList.update (ep_Id e) e) es (cache_entrypoints c)"
    "cache_flows (fold Cache_SetEntrypoint es c) = cache_flows c" "cache_routers (fold Cache_SetEntrypoint es c) = cache_routers c" for es c
    by (induction es arbitrary: c) (simp_all add: Cache_SetEntrypoint_def)
  have f: "cache_flows (fold Cache_SetFlow fs c) = fold (\<lambda>f. AList.update (flow_Id f) f) fs (cache_flows c)"
    "cache_entrypoints (fold Cache_SetFlow fs c) = cache_entrypoints c" "cache_routers (fold Cache_SetFlow fs c) = cache_routers c" for fs c
    by (induction fs arbitrary: c) (simp_all add: Cache_SetFlow_def)
  have r: "cache_routers (fold (\<lambda>r. Cache_SetRouter R (router_Id r) r) rs c) =
      fold (\<lambda>r. AList.update (router_Id r) (fst (Router_Compile R r))) rs (cache_routers c)"
    "cache_entrypoints (fold (\<lambda>r. Cache_SetRouter R (router_Id r) r) rs c) = cache_entrypoints c"
    "cache_flows (fold (\<lambda>r. Cache_SetRouter R (router_Id r) r) rs c) = cache_flows c" for rs c
    by (induction rs arbitrary: c) (simp_all add: Cache_SetRouter_def)
  show "cache_entrypoints (Cache_Reload R es fs rs c) = fold (\<lambda>e. AList.update (ep_Id e) e) es []"
    "cache_flows (Cache_Reload R es fs rs c) = fold (\<lambda>f. AList.update (flow_Id f) f) fs []"
    "cache_routers (Cache_Reload R es fs rs c) = fold (\<lambda>r. AList.update (router_Id r) (fst (Router_Compile R r))) rs []"
    by (simp_all add: Cache_Reload_def e f r Cache_ClearEntrypoints_def Cache_ClearFlows_def Cache_ClearRouters_def)
qed

lemma check_router_ok:
  assumes "snd (check_router R ir) = Inr ()"
  shows "fst (fst (check_router R ir)) = fst ir" "strip_router (snd (fst (check_router R ir))) = strip_router (snd ir)"
    and "\<And>rule. rule \<in> set (router_Rules (snd (fst (check_router R ir)))) \<Longrightarrow> match_compiled (rule_Match rule)"
proof -
  obtain i r where ir: "ir = (i, r)" by (cases ir)
  obtain r1 res where c: "Router_Compile R r = (r1, res)" by fastforce
  with assms ir have res: "res = Inr ()" by (cases res) (auto simp: check_router_def)
  obtain r2 res2 where v: "Router_Validate R r1 = (r2, res2)" by fastforce
  with assms ir c res have res2: "res2 = Inr ()" by (auto simp: check_router_def res_simps)
  have eq: "check_router R ir = ((i, r2), Inr ())" using ir c res v res2 by (simp add: check_router_def)
  show "fst (fst (check_router R ir)) = fst ir" using eq ir by simp
  show "strip_router (snd (fst (check_router R ir))) = strip_router (snd ir)"
    using Router_Validate_compiled(1) [OF v [unfolded res2]] Router_Compile_strip [of R r] c eq ir by simp
  show "\<And>rule. rule \<in> set (router_Rules (snd (fst (check_router R ir)))) \<Longrightarrow> match_compiled (rule_Match rule)"
    using Router_Validate_compiled(2) [OF v [unfolded res2]] eq by simp
qed

lemma map_of_check_router:
  assumes "\<And>ir. ir \<in> set xs \<Longrightarrow> snd (check_router R ir) = Inr ()"
  shows "map_of (map (fst \<circ> check_router R) xs) i = map_option (\<lambda>r. snd (fst (check_router R (i, r)))) (map_of xs i)"
  using assms
proof (induction xs)
  case (Cons a xs)
  obtain j r where a: "a = (j, r)" by (cases a)
  have "fst (fst (check_router R (j, r))) = j" using check_router_ok(1) [OF Cons.prems [of a]] a by simp
  with Cons a show ?case by simp
qed simp

lemma order_by_ok:
  "list_all2 (\<lambda>i p. byID i = Some p) ids ps \<Longrightarrow> order_by byID ids = Inr ps"
  by (induction rule: list_all2_induct) simp_all

lemma orderProxiesByIDs_ok:
  assumes "list_all2 (\<lambda>i p. m i = Some p) ids ps" "\<And>i p. m i = Some p \<Longrightarrow> proxy_Id p = i"
  shows "orderProxiesByIDs ps ids = Inr ps"
proof -
  let ?byID = "map_of (rev (map (\<lambda>p. (proxy_Id p, p)) ps))"
  have stored: "m (proxy_Id p) = Some p" if "p \<in> set ps" for p
  proof -
    obtain n where "n < length ps" "ps ! n = p" using \<open>p \<in> set ps\<close> by (auto simp: in_set_conv_nth)
    then have "m (ids ! n) = Some p" using assms(1) by (auto simp: list_all2_conv_all_nth)
    with assms(2) show ?thesis by metis
  qed
  have "?byID i = Some p" if "m i = Some p" "p \<in> set ps" for i p
  proof -
    have "i \<in> fst ` set (rev (map (\<lambda>p. (proxy_Id p, p)) ps))" using that assms(2) by force
    then have "?byID i \<noteq> None" unfolding map_of_eq_None_iff by blast
    then obtain q where q: "?byID i = Some q" by blast
    from map_of_SomeD [OF this] have "q \<in> set ps" "proxy_Id q = i" by auto
    with stored [of q] that(1) have "q = p" by simp
    with q show ?thesis by simp
  qed
  with assms(1) have "list_all2 (\<lambda>i p. ?byID i = Some p) ids ps"
    unfolding list_all2_conv_all_nth by (metis nth_mem)
  then show ?thesis unfolding orderProxiesByIDs_def by (rule order_by_ok)
qed

section \<open>The contract of the ports\<close>

text \<open>No stored pool resolves to more proxies than a \<^verbatim>\<open>uint32\<close> counts.\<close>

definition small_pools :: "'db application \<Rightarrow> ('db \<Rightarrow> store) \<Rightarrow> 'db \<Rightarrow> bool" where
  "small_pools A V db \<longleftrightarrow>
     (\<forall>i p ps. st_pools (V db) i = Some p \<longrightarrow> resolveProxies (app_resolver A) p db = Inr ps \<longrightarrow> length ps < 2 ^ 32)"

locale dp_source =
  fixes A :: "'db application" and abs :: "'db \<Rightarrow> store"
  assumes list_entrypoints: "cpr_ListEntrypoints (app_cp A) all_params no_entrypoint_filter db = Inr es \<Longrightarrow> set (Items es) = ran (st_entrypoints (abs db))"
    and list_flows: "cpr_ListFlows (app_cp A) all_params no_flow_filter db = Inr fs \<Longrightarrow> set (Items fs) = ran (st_flows (abs db))"
    and list_routers: "cpr_ListRouters (app_cp A) all_params no_router_filter db = Inr rs \<Longrightarrow> set (Items rs) = ran (st_routers (abs db))"
    and list_balancers: "cpr_ListBalancers (app_cp A) all_params no_balancer_filter db = Inr bs \<Longrightarrow> set (Items bs) = ran (st_balancers (abs db))"
    and get_pool: "cpr_GetPool (app_cp A) i db = Inr p \<Longrightarrow> st_pools (abs db) i = Some p"
    and get_by_ids: "res_GetProxiesByIds (app_resolver A) ids db = Inr ps \<Longrightarrow> list_all2 (\<lambda>i p. st_proxies (abs db) i = Some p) ids ps"
    and find_by_labels: "res_FindProxiesByLabels (app_resolver A) ls db = Inr ps \<Longrightarrow>
          set ps = {p \<in> ran (st_proxies (abs db)). matchesLabels (proxy_Labels p) ls}"
begin

lemma resolve_ok:
  assumes "resolveProxies (app_resolver A) p db = Inr ps" "ref_ok (abs db)"
  shows "set ps = pool_serves (abs db) p"
proof (cases "pool_Type p = PoolTypeStatic")
  case True
  with assms(1) obtain qs where qs: "res_GetProxiesByIds (app_resolver A) (MemberProxyIds p) db = Inr qs"
    and ps: "qs = [] \<and> ps = [] \<or> orderProxiesByIDs qs (MemberProxyIds p) = Inr ps"
    by (auto simp: resolveProxies_def res_simps split: if_splits)
  note all = get_by_ids [OF qs]
  have "orderProxiesByIDs qs (MemberProxyIds p) = Inr qs"
    using assms(2) by (intro orderProxiesByIDs_ok [OF all]) (auto simp: ref_ok_def proxies_ok_def)
  with ps have "ps = qs" by auto
  moreover have "set qs = {q. \<exists>i \<in> set (MemberProxyIds p). st_proxies (abs db) i = Some q}"
    using all by (induction rule: list_all2_induct) auto
  ultimately show ?thesis using True by (simp add: pool_serves_def)
next
  case False
  with assms(1) obtain allow where "pool_Selector p = Some allow" "res_FindProxiesByLabels (app_resolver A) allow db = Inr ps"
    by (auto simp: resolveProxies_def split: if_splits option.splits)
  with False find_by_labels show ?thesis by (simp add: pool_serves_def)
qed

lemma build_instance_ok:
  assumes "build_instance (app_cp A) (app_resolver A) now lb db = Inr x" "ref_ok (abs db)" "small_pools A abs db"
  shows "inst_inv x \<and> (\<exists>p. st_pools (abs db) (lb_PoolId lb) = Some p \<and> set (inst_proxies x) = pool_serves (abs db) p)"
proof -
  from assms(1) obtain p ps where p: "cpr_GetPool (app_cp A) (lb_PoolId lb) db = Inr p"
    "resolveProxies (app_resolver A) p db = Inr ps" "Build now lb (Some (LoadResolvedProxies p ps)) = Inr x"
    by (auto simp: build_instance_def res_simps)
  have "length (pool_resolvedProxies (LoadResolvedProxies p ps)) < 2 ^ 32"
    using assms(3) p(2) get_pool [OF p(1)] by (auto simp: small_pools_def LoadResolvedProxies_def)
  from Build_ok [OF p(3) this] get_pool [OF p(1)] resolve_ok [OF p(2) assms(2)] show ?thesis
    by (auto simp: LoadResolvedProxies_def)
qed

lemma build_registry_fold:
  "build_registry P V now lbs db reg = Inr reg' \<longleftrightarrow>
     (\<forall>lb \<in> set lbs. is_ok (build_instance P V now lb db)) \<and>
     reg' = fold (\<lambda>lb. AList.update (lb_Id lb) (projr (build_instance P V now lb db))) lbs reg"
  by (induction lbs arbitrary: reg) (auto simp: res_simps)

lemma Service_Bootstrap_ok:
  assumes "Service_Bootstrap (app_cp A) (app_resolver A) now db reg = (Inr u, reg')" "ref_ok (abs db)" "small_pools A abs db"
  shows "registry_ok (abs db) reg'"
proof -
  let ?b = "\<lambda>lb. build_instance (app_cp A) (app_resolver A) now lb db"
  from assms(1) obtain res where res: "cpr_ListBalancers (app_cp A) all_params no_balancer_filter db = Inr res"
    "build_registry (app_cp A) (app_resolver A) now (Items res) db [] = Inr reg'"
    by (auto simp: Service_Bootstrap_def res_simps split: sum.splits)
  have ok: "\<And>lb. lb \<in> set (Items res) \<Longrightarrow> ?b lb = Inr (projr (?b lb))"
    and reg': "reg' = fold (\<lambda>lb. AList.update (lb_Id lb) (projr (?b lb))) (Items res) []"
    using res(2) by (auto simp: build_registry_fold is_ok_iff)
  have m: "map_of reg' i = map_option (\<lambda>lb. projr (?b lb)) (st_balancers (abs db) i)" for i
    unfolding reg' using list_balancers [OF res(1)] assms(2)
    by (intro fold_update_map) (auto simp: ref_ok_def balancers_ok_def)
  have "inst_inv (projr (?b lb)) \<and> (\<exists>p. st_pools (abs db) (lb_PoolId lb) = Some p \<and>
      set (inst_proxies (projr (?b lb))) = pool_serves (abs db) p)" if "st_balancers (abs db) i = Some lb" for i lb
    using that list_balancers [OF res(1)] by (intro build_instance_ok [OF ok assms(2,3)]) (auto simp: ran_def)
  with m show ?thesis by (auto simp: registry_ok_def dom_def)
qed

lemma warmup_ok:
  assumes "warmupCache A db s = (Inr u, s1)" "validateAll A s1 = (Inr v, s2)" "ref_ok (abs db)"
  shows "cache_ok (abs db) (dp_cache s2) \<and> dp_registry s2 = dp_registry s"
proof -
  let ?R = "app_regexp A"
  from assms(1) obtain es fs rs where l: "cpr_ListEntrypoints (app_cp A) all_params no_entrypoint_filter db = Inr es"
    "cpr_ListFlows (app_cp A) all_params no_flow_filter db = Inr fs"
    "cpr_ListRouters (app_cp A) all_params no_router_filter db = Inr rs"
    and s1: "s1 = s\<lparr>dp_cache := Cache_Reload ?R (Items es) (Items fs) (Items rs) (dp_cache s)\<rparr>"
    by (auto simp: warmupCache_def res_simps split: sum.splits)
  let ?rs1 = "cache_routers (dp_cache s1)"
  from assms(2) have up: "\<And>ir. ir \<in> set ?rs1 \<Longrightarrow> snd (check_router ?R ir) = Inr ()"
    and s2: "s2 = s1\<lparr>dp_cache := (dp_cache s1)\<lparr>cache_routers := map (fst \<circ> check_router ?R) ?rs1\<rparr>\<rparr>"
    by (auto simp: validateAll_def update_each_ok split: sum.splits prod.splits)
  have keys: "i \<noteq> []" if "st_entrypoints (abs db) i = Some e" for i e
    using that assms(3) by (auto simp: ref_ok_def entrypoints_ok_def)
  have "map_of (cache_entrypoints (dp_cache s2)) = st_entrypoints (abs db)"
    using fold_update_map [of "Items es" "st_entrypoints (abs db)" ep_Id "\<lambda>e. e"] list_entrypoints [OF l(1)] assms(3)
    by (auto simp: s2 s1 Reload_parts ref_ok_def entrypoints_ok_def option.map_ident)
  moreover have "map_of (cache_flows (dp_cache s2)) = st_flows (abs db)"
    using fold_update_map [of "Items fs" "st_flows (abs db)" flow_Id "\<lambda>e. e"] list_flows [OF l(2)] assms(3)
    by (auto simp: s2 s1 Reload_parts ref_ok_def flows_ok_def option.map_ident)
  moreover have r1: "map_of ?rs1 i = map_option (\<lambda>r. fst (Router_Compile ?R r)) (st_routers (abs db) i)" for i
    using fold_update_map [of "Items rs" "st_routers (abs db)" router_Id "\<lambda>r. fst (Router_Compile ?R r)"] list_routers [OF l(3)] assms(3)
    by (auto simp: s1 Reload_parts ref_ok_def routers_ok_def)
  have r2: "map_of (cache_routers (dp_cache s2)) i = map_option (\<lambda>r. snd (fst (check_router ?R (i, r)))) (map_of ?rs1 i)" for i
    using map_of_check_router [OF up] by (simp add: s2)
  have "map_option strip_router (map_of (cache_routers (dp_cache s2)) i) = map_option strip_router (st_routers (abs db) i)"
    and "map_of (cache_routers (dp_cache s2)) i = Some r \<Longrightarrow> rule \<in> set (router_Rules r) \<Longrightarrow> match_compiled (rule_Match rule)" for i r rule
  proof -
    have s: "snd (check_router ?R (i, r)) = Inr ()" if "map_of ?rs1 i = Some r" for r using up map_of_SomeD [OF that] by simp
    show "map_option strip_router (map_of (cache_routers (dp_cache s2)) i) = map_option strip_router (st_routers (abs db) i)"
      using check_router_ok(2) [OF s] r1 [of i] by (cases "st_routers (abs db) i") (auto simp: r2 Router_Compile_strip)
    show "map_of (cache_routers (dp_cache s2)) i = Some r \<Longrightarrow> rule \<in> set (router_Rules r) \<Longrightarrow> match_compiled (rule_Match rule)"
      using check_router_ok(3) [OF s] by (auto simp: r2)
  qed
  ultimately show ?thesis by (simp add: cache_ok_def s2 s1)
qed

lemma App_Bootstrap_ok:
  assumes "App_Bootstrap A now db s = (Inr u, s')" "ref_ok (abs db)" "small_pools A abs db"
  shows "dp_ok (abs db) s'"
proof -
  from assms(1) obtain s1 s2 where b: "warmupCache A db s = (Inr (), s1)" "validateAll A s1 = (Inr (), s2)"
    "balancer_Bootstrap A now db s2 = (Inr u, s')"
    unfolding App_Bootstrap_def bind_op_Inr_iff by auto
  from b(3) obtain reg where "Service_Bootstrap (app_cp A) (app_resolver A) now db (dp_registry s2) = (Inr u, reg)"
    "s' = s2\<lparr>dp_registry := reg\<rparr>"
    by (auto simp: balancer_Bootstrap_def on_registry_def split: prod.splits)
  with warmup_ok [OF b(1,2) assms(2)] Service_Bootstrap_ok [OF _ assms(2,3)] show ?thesis by (simp add: dp_ok_def)
qed

end

section \<open>Serving requests\<close>

datatype dp_call = DExecute time string request | DRelease string balancer_result

fun run_dp :: "'db application \<Rightarrow> dp_call \<Rightarrow> dp \<Rightarrow> dp" where
  "run_dp A (DExecute now i req) s = snd (ExecuteFlow A now i req s)"
| "run_dp A (DRelease b r) s = snd (App_Release b r s)"

lemma registry_step:
  assumes "registry_ok st reg" "map_of reg i = Some x" "inst_inv y" "inst_proxies y = inst_proxies x"
  shows "registry_ok st (AList.update i y reg)"
  using assms by (auto simp: registry_ok_def update_conv' dom_def)

lemma Service_Next_ok:
  assumes "registry_ok st reg" "Service_Next now i reg = (r, reg')"
  shows "registry_ok st reg' \<and> (case st_balancers st i of
      None \<Rightarrow> r = Inl (Sentinel ErrBalancerNotFound)
    | Some lb \<Rightarrow> \<exists>p. st_pools st (lb_PoolId lb) = Some p \<and>
        (if pool_serves st p = {} then r = Inl (Sentinel ErrNoProxy) else \<exists>q \<in> pool_serves st p. r = Inr q))"
proof (cases "map_of reg i")
  case None
  then have "st_balancers st i = None" using assms(1) unfolding registry_ok_def by blast
  with None assms show ?thesis by (simp add: Service_Next_def Service_Get_def)
next
  case (Some x)
  with assms(1) obtain lb p where x: "inst_inv x" "st_balancers st i = Some lb" "st_pools st (lb_PoolId lb) = Some p"
    "set (inst_proxies x) = pool_serves st p" unfolding registry_ok_def by blast
  have r: "r = fst (LB_Next now x)" "reg' = AList.update i (snd (LB_Next now x)) reg"
    using Some assms(2) by (auto simp: Service_Next_def Service_Get_def split: prod.splits)
  have "registry_ok st reg'"
    unfolding r using x by (intro registry_step [OF assms(1) Some] inst.next_inv inst.next_proxies)
  moreover have "if pool_serves st p = {} then r = Inl (Sentinel ErrNoProxy) else \<exists>q \<in> pool_serves st p. r = Inr q"
    unfolding r using inst.next_member [OF x(1)] inst.next_empty [OF x(1)] x(4) by (cases "inst_proxies x = []") auto
  ultimately show ?thesis using x by auto
qed

lemma run_dp_cache: "dp_cache (run_dp A c s) = dp_cache s"
  by (cases c) (auto simp: ExecuteFlow_def App_Release_def on_registry_def bind_op_def split: sum.splits prod.splits)

lemma run_dp_registry:
  assumes "registry_ok st (dp_registry s)"
  shows "registry_ok st (dp_registry (run_dp A c s))"
proof (cases c)
  case (DExecute now i req)
  have "registry_ok st (dp_registry (snd (on_registry (Service_Next now b) s)))" for b
    using Service_Next_ok [of st "dp_registry s" now b] assms by (auto simp: on_registry_def split: prod.splits)
  then show ?thesis
    using assms by (auto simp: DExecute ExecuteFlow_def bind_op_def split: sum.splits prod.splits) (metis snd_conv)+
next
  case (DRelease b r)
  have "registry_ok st (AList.update b (LB_Release r x) (dp_registry s))" if "map_of (dp_registry s) b = Some x" for x
  proof -
    have "inst_inv x" using that assms by (auto simp: registry_ok_def)
    then show ?thesis using assms that by (intro registry_step [where x = x] inst.release_inv inst.release_proxies)
  qed
  with assms show ?thesis by (auto simp: DRelease App_Release_def Service_Get_def split: option.splits)
qed

lemma run_dp_ok: "dp_ok st s \<Longrightarrow> dp_ok st (run_dp A c s)"
  by (simp add: dp_ok_def run_dp_cache run_dp_registry)

lemma flow_balancer_ok:
  assumes "cache_ok st (dp_cache s)" "ref_ok st" "st_entrypoints st i \<noteq> None"
  shows "case intended_balancer (app_regexp A) st i req of
      None \<Rightarrow> \<exists>e. flow_balancer A s i req = Inl e \<and> errors_Is e ErrNoMatchingRule
    | Some b \<Rightarrow> flow_balancer A s i req = Inr b \<and> st_balancers st b \<noteq> None"
proof -
  from assms(3) obtain e where e: "st_entrypoints st i = Some e" by blast
  with assms(2) obtain f where f: "st_flows st (ep_FlowId e) = Some f" by (auto simp: ref_ok_def entrypoints_ok_def)
  have cache: "map_of (cache_entrypoints (dp_cache s)) i = Some e" "map_of (cache_flows (dp_cache s)) (ep_FlowId e) = Some f"
    using e f assms(1) by (auto simp: cache_ok_def)
  have flow: "flow_RouterId f \<noteq> [] \<or> flow_BalancerId f \<noteq> []" "flow_RouterId f \<noteq> [] \<Longrightarrow> st_routers st (flow_RouterId f) \<noteq> None"
    "flow_BalancerId f \<noteq> [] \<Longrightarrow> st_balancers st (flow_BalancerId f) \<noteq> None"
    using f assms(2) by (auto simp: ref_ok_def flows_ok_def)
  show ?thesis
  proof (cases "flow_RouterId f = []")
    case True
    with e f cache flow show ?thesis
      by (simp add: intended_balancer_def flow_balancer_def Cache_GetEntrypoint_def Cache_GetFlow_def)
  next
    case False
    let ?i = "flow_RouterId f"
    from flow(2) False obtain r where r: "st_routers st ?i = Some r" by blast
    with assms(1) obtain c where c: "map_of (cache_routers (dp_cache s)) ?i = Some c" "strip_router c = strip_router r"
      unfolding cache_ok_def by (metis map_option_eq_Some)
    have res: "Router_Resolve (app_regexp A) c req =
        map_option rule_Target (find (\<lambda>q. match_spec (app_regexp A) (rule_Match q) req) (router_Rules r))"
      using assms(1) c(1) by (intro resolve_compiled [OF c(2)]) (auto simp: cache_ok_def)
    have "st_balancers st t \<noteq> None" if "find (\<lambda>q. match_spec (app_regexp A) (rule_Match q) req) (router_Rules r) = Some q" "rule_Target q = t" for q t
      using that r assms(2) by (auto simp: ref_ok_def routers_ok_def find_Some_iff)
    with e f cache r c(1) False res show ?thesis
      by (auto simp: intended_balancer_def flow_balancer_def Cache_GetEntrypoint_def Cache_GetFlow_def RouteRequest_def
          Cache_GetRouter_def split: option.splits)
  qed
qed

lemma ExecuteFlow_ok:
  assumes "dp_ok st s" "ref_ok st" "st_entrypoints st i \<noteq> None"
  shows "served_as_stored (app_regexp A) st i req (fst (ExecuteFlow A now i req s))"
proof (cases "intended_balancer (app_regexp A) st i req")
  case None
  with flow_balancer_ok [of st s i A req] assms show ?thesis by (auto simp: served_as_stored_def dp_ok_def ExecuteFlow_def)
next
  case (Some b)
  with flow_balancer_ok [of st s i A req] assms have b: "flow_balancer A s i req = Inr b" "st_balancers st b \<noteq> None"
    by (auto simp: dp_ok_def)
  obtain r reg where r: "Service_Next now b (dp_registry s) = (r, reg)" by fastforce
  have ex: "fst (ExecuteFlow A now i req s) = bind_res r (\<lambda>q. Inr (q, b))"
    using b r by (cases r) (simp_all add: ExecuteFlow_def on_registry_def bind_op_def)
  have "registry_ok st (dp_registry s)" using assms(1) by (simp add: dp_ok_def)
  from Service_Next_ok [OF this r] Some b(2) ex show ?thesis by (auto simp: served_as_stored_def split: option.splits if_splits)
qed

section \<open>The data plane on a control plane over Badger\<close>

definition cp_reader_of :: "('db, 'ps) service \<Rightarrow> 'db cp_reader" where
  "cp_reader_of S =
     \<lparr>cpr_ListEntrypoints = ListEntrypoints S, cpr_ListFlows = ListFlows S, cpr_ListRouters = ListRouters S,
      cpr_ListBalancers = ListBalancers S, cpr_GetPool = GetPool S\<rparr>"

definition resolver_of :: "('db, 'ps) service \<Rightarrow> 'db proxy_resolver" where
  "resolver_of S = \<lparr>res_GetProxiesByIds = GetProxiesByIds S, res_FindProxiesByLabels = FindProxiesByLabels S\<rparr>"

definition local_app :: "('db, 'ps) service \<Rightarrow> regexp_lib \<Rightarrow> 'db application" where
  "local_app S R = \<lparr>app_cp = cp_reader_of S, app_resolver = resolver_of S, app_regexp = R\<rparr>"

lemma local_app_simps [simp]:
  "app_cp (local_app S R) = cp_reader_of S" "app_resolver (local_app S R) = resolver_of S" "app_regexp (local_app S R) = R"
  by (simp_all add: local_app_def)

sublocale badger_store \<subseteq> dps: dp_source "local_app (badger_service B J publish) R" st
  for publish :: "change_event \<Rightarrow> ('ps, unit) op" and R
proof
  fix db es fs rs bs i p ids ls ps
  let ?A = "local_app (badger_service B J publish) R"
  show "cpr_ListEntrypoints (app_cp ?A) all_params no_entrypoint_filter db = Inr es \<Longrightarrow> set (Items es) = ran (st_entrypoints (st db))"
    using entrypoint_repo.list_all [of no_entrypoint_filter db es]
    by (simp add: cp_reader_of_def ListEntrypoints_def buildEntrypointPredicate_def no_entrypoint_filter_def accepts_def)
  show "cpr_ListFlows (app_cp ?A) all_params no_flow_filter db = Inr fs \<Longrightarrow> set (Items fs) = ran (st_flows (st db))"
    using flow_repo.list_all [of no_flow_filter db fs]
    by (simp add: cp_reader_of_def ListFlows_def buildFlowPredicate_def no_flow_filter_def accepts_def)
  show "cpr_ListRouters (app_cp ?A) all_params no_router_filter db = Inr rs \<Longrightarrow> set (Items rs) = ran (st_routers (st db))"
    using router_repo.list_all [of no_router_filter db rs]
    by (simp add: cp_reader_of_def ListRouters_def buildRouterPredicate_def no_router_filter_def accepts_def)
  show "cpr_ListBalancers (app_cp ?A) all_params no_balancer_filter db = Inr bs \<Longrightarrow> set (Items bs) = ran (st_balancers (st db))"
    using balancer_repo.list_all [of no_balancer_filter db bs]
    by (simp add: cp_reader_of_def ListBalancers_def buildBalancerPredicate_def no_balancer_filter_def accepts_def)
  show "cpr_GetPool (app_cp ?A) i db = Inr p \<Longrightarrow> st_pools (st db) i = Some p"
    using pool_repo.find_ok [of i db p] by (simp add: cp_reader_of_def GetPool_def split: if_splits)
  have "get_by_ids B J (NewTransaction B db) ids = Inr ps \<Longrightarrow> list_all2 (\<lambda>i p. st_proxies (st db) i = Some p) ids ps"
  proof (induction ids arbitrary: ps)
    case (Cons j ids)
    then obtain q qs where q: "repo_find_txn B (json_proxy J) (proxyKey j) (errNotFound ''proxy'' j) (NewTransaction B db) = Inr q"
      "get_by_ids B J (NewTransaction B db) ids = Inr qs" "ps = q # qs" by (auto simp: res_simps)
    have "ProxyRepository_Find B J j db = Inr q" using q(1) by (simp add: ProxyRepository_Find_def repo_Find_def db_View_def)
    then have "st_proxies (st db) j = Some q" using proxy_repo.find_ok [of j db q] by (simp add: ProxyRepository_def)
    with Cons.IH [OF q(2)] q(3) show ?case by simp
  qed simp
  then show "res_GetProxiesByIds (app_resolver ?A) ids db = Inr ps \<Longrightarrow> list_all2 (\<lambda>i p. st_proxies (st db) i = Some p) ids ps"
    by (simp add: resolver_of_def GetProxiesByIds_def ProxyRepository_def ProxyRepository_GetByIds_def db_View_def res_simps)
  have labels: "accepts (buildProxyPredicate \<lparr>pf_Search = [], pf_Protocol = [], pf_Labels = ls\<rparr>) q = matchesLabels (proxy_Labels q) ls" for q
    by (simp add: buildProxyPredicate_def accepts_def matchesLabels_def)
  show "res_FindProxiesByLabels (app_resolver ?A) ls db = Inr ps \<Longrightarrow>
      set ps = {p \<in> ran (st_proxies (st db)). matchesLabels (proxy_Labels p) ls}"
    using proxy_repo.list_all [of "\<lparr>pf_Search = [], pf_Protocol = [], pf_Labels = ls\<rparr>" db]
    by (auto simp: resolver_of_def FindProxiesByLabels_def ProxyRepository_def ProxyRepository_FindByLabels_def res_simps labels)
qed

context badger_store
begin

lemma requests_served:
  assumes "ref_ok (abs_store J (contents db))"
    and "\<forall>i p ps. st_pools (abs_store J (contents db)) i = Some p \<longrightarrow>
      resolveProxies (resolver_of (badger_service B J publish)) p db = Inr ps \<longrightarrow> length ps < 2 ^ 32"
    and "App_Bootstrap (local_app (badger_service B J publish) R) now db s0 = (Inr (), s1)"
  shows "dp_ok (abs_store J (contents db)) (fold (run_dp (local_app (badger_service B J publish) R)) calls s1)"
proof -
  have "dp_ok (abs_store J (contents db)) s1"
    using dps.App_Bootstrap_ok [OF assms(3)] assms(1,2) by (simp add: small_pools_def st_def)
  then show ?thesis by (induction calls arbitrary: s1) (simp_all add: run_dp_ok)
qed

end

text \<open>
  C8.  What the control plane stored is what the data plane does.  After a successful bootstrap
  over a store with intact references, and any requests and releases since, a request on a stored
  entrypoint goes to the balancer that the stored flow names, or that the first matching rule of the
  stored router names, and gets a proxy that the stored pool of that balancer admits; the only
  refusals are that no rule matches, or that the pool is empty.
\<close>

theorem requests_reach_configured_proxies:
  fixes publish :: "change_event \<Rightarrow> ('ps, unit) op"
  assumes "badger_store B contents txn_contents J"
    and A: "A = local_app (badger_service B J publish) R" and "st = abs_store J (contents db)" "ref_ok st"
    and "\<forall>i p ps. st_pools st i = Some p \<longrightarrow> resolveProxies (app_resolver A) p db = Inr ps \<longrightarrow> length ps < 2 ^ 32"
    and "App_Bootstrap A now0 db s0 = (Inr (), s1)"
    and "st_entrypoints st i \<noteq> None"
  shows "served_as_stored R st i req (fst (ExecuteFlow A now i req (fold (run_dp A) calls s1)))"
proof -
  have "dp_ok st (fold (run_dp A) calls s1)"
    unfolding A assms(3)
    using assms(3-) by (intro badger_store.requests_served [OF assms(1)]) (simp_all add: A)
  from ExecuteFlow_ok [OF this assms(4,7), where A = A and req = req and now = now] show ?thesis by (simp add: A)
qed

definition stored_as :: "string \<Rightarrow> 'a \<Rightarrow> 'a stored_resource" where
  "stored_as kind x = \<lparr>StorageVersion = ''v1'', Kind = kind, Stored_Labels = [], Spec = x\<rparr>"

definition sample_entrypoint :: entrypoint where
  "sample_entrypoint = \<lparr>ep_ts = zero_timestamps, ep_Id = ''in'', ep_Title = [], ep_Protocol = ProtocolHTTP, ep_Host = ''0.0.0.0'',
     ep_Port = 80, ep_FlowId = ''f''\<rparr>"

definition sample_flow :: flow where
  "sample_flow = \<lparr>flow_ts = zero_timestamps, flow_Id = ''f'', flow_RouterId = [], flow_BalancerId = ''b''\<rparr>"

definition sample_dp_db :: ref_db where
  "sample_dp_db =
     [(entrypointKey ''in'', BEntrypoint (stored_as ''Entrypoint'' sample_entrypoint)),
      (flowKey ''f'', BFlow (stored_as ''Flow'' sample_flow)),
      (balancerKey ''b'', BBalancer (stored_as ''Balancer'' (sample_balancer ''b'' BalancerTypeRoundRobin ''p''))),
      (poolKey ''p'', BPool (stored_as ''Pool'' (persist_pool (sample_pool ''p'' [(''q'', 1)])))),
      (proxyKey ''q'', BProxy (stored_as ''Proxy'' (sample_proxy ''q'')))]"

lemma sample_dp_st:
  "st_entrypoints (abs_store ref_json (map_of sample_dp_db)) = [''in'' \<mapsto> sample_entrypoint]"
  "st_flows (abs_store ref_json (map_of sample_dp_db)) = [''f'' \<mapsto> sample_flow]"
  "st_balancers (abs_store ref_json (map_of sample_dp_db)) = [''b'' \<mapsto> sample_balancer ''b'' BalancerTypeRoundRobin ''p'']"
  "st_pools (abs_store ref_json (map_of sample_dp_db)) = [''p'' \<mapsto> persist_pool (sample_pool ''p'' [(''q'', 1)])]"
  "st_proxies (abs_store ref_json (map_of sample_dp_db)) = [''q'' \<mapsto> sample_proxy ''q'']"
  "st_routers (abs_store ref_json (map_of sample_dp_db)) = Map.empty"
  by (auto simp: sample_dp_db_def abs_map_def ref_json_def ref_codec_def repo_unmarshal_def stored_as_def fun_eq_iff
      entrypointKey_def flowKey_def balancerKey_def poolKey_def proxyKey_def routerKey_def split: option.splits if_splits)

definition sample_app :: "ref_db application" where
  "sample_app = local_app (badger_service ref_badger ref_json log_event) ex_regexp"

lemma sample_dp_boots: "fst (App_Bootstrap sample_app 5 sample_dp_db NewApplication) = Inr ()"
  by code_simp

lemma sample_dp_ref_ok: "ref_ok (abs_store ref_json (map_of sample_dp_db))"
proof -
  have "Entrypoint_Validate sample_entrypoint = Inr ()" "Proxy_Validate (sample_proxy ''q'') = Inr ()"
    "Pool_Validate (sample_pool ''p'' [(''q'', 1)]) = Inr ()" "BalancerType_IsValid BalancerTypeRoundRobin"
    "\<not> pool_hasProxiesResolved (persist_pool (sample_pool ''p'' [(''q'', 1)]))" "ep_Id sample_entrypoint = ''in''"
    by code_simp+
  then show ?thesis unfolding ref_ok_def ok_defs sample_dp_st by (auto simp: sample_entrypoint_def sample_flow_def)
qed

theorem requests_reach_configured_proxies_witness:
  "let s1 = snd (App_Bootstrap sample_app 5 sample_dp_db NewApplication)
   in fst (ExecuteFlow sample_app 7 ''in'' ex_request (fold (run_dp sample_app) [DExecute 6 ''in'' ex_request] s1)) =
      Inr (sample_proxy ''q'', ''b'')"
proof -
  let ?st = "abs_store ref_json (map_of sample_dp_db)" and ?s1 = "snd (App_Bootstrap sample_app 5 sample_dp_db NewApplication)"
  have int: "intended_balancer ex_regexp ?st ''in'' ex_request = Some ''b''"
    unfolding intended_balancer_def sample_dp_st by (simp add: sample_entrypoint_def sample_flow_def)
  have serves: "pool_serves ?st (persist_pool (sample_pool ''p'' [(''q'', 1)])) = {sample_proxy ''q''}"
    unfolding pool_serves_def sample_dp_st by (simp add: persist_pool_def MemberProxyIds_def)
  have boot: "App_Bootstrap sample_app 5 sample_dp_db NewApplication = (Inr (), ?s1)"
    using sample_dp_boots by (simp add: prod_eq_iff)
  have resolves: "resolveProxies (app_resolver sample_app) (persist_pool (sample_pool ''p'' [(''q'', 1)])) sample_dp_db = Inr [sample_proxy ''q'']"
    by code_simp
  have small: "\<forall>i p ps. st_pools ?st i = Some p \<longrightarrow> resolveProxies (app_resolver sample_app) p sample_dp_db = Inr ps \<longrightarrow> length ps < 2 ^ 32"
    unfolding sample_dp_st by (simp add: resolves)
  have ep: "st_entrypoints ?st ''in'' \<noteq> None" unfolding sample_dp_st by simp
  from requests_reach_configured_proxies [OF ref.badger_store_axioms sample_app_def refl sample_dp_ref_ok small boot ep,
    where calls = "[DExecute 6 ''in'' ex_request]" and req = ex_request and now = 7]
  show ?thesis unfolding served_as_stored_def int sample_dp_st Let_def by (simp add: serves)
qed

end
