(* ===== verification/Consumer.thy ===== *)
theory Consumer
  imports Ports
begin

text \<open>
  \<^verbatim>\<open>application/dataplane/consumer/consumer.go\<close>: the consumer of change events and its coalescing
  buffer.  The consumer's mutex makes \<^verbatim>\<open>offer\<close> and \<^verbatim>\<open>takeKeyEvents\<close> atomic; a run is any sequence of
  events received, window timers fired and, at the end, the closing of the subscription.  A timer
  may fire at any moment, also after it was stopped too late.
\<close>

section \<open>Model\<close>

type_synonym coalesce_key = string

definition coalescedEventID :: string where "coalescedEventID = ''_coalesced''"
definition keyBalancer :: coalesce_key where "keyBalancer = ''balancer''"
definition keyTopology :: coalesce_key where "keyTopology = ''topology''"
definition keyEntrypoint :: coalesce_key where "keyEntrypoint = ''entrypoint''"

lemmas key_defs = keyBalancer_def keyTopology_def keyEntrypoint_def

record coalesce_config =
  cfg_Window :: duration
  cfg_MaxBuffer :: int

record key_state =
  ks_timer :: bool
  ks_count :: int
  ks_dirty :: bool
  ks_entrypoints :: "(string \<times> change_kind) list"

record consumer =
  cons_keys :: "(coalesce_key \<times> key_state) list"
  cons_closed :: bool

definition NewConsumer :: consumer where
  "NewConsumer = \<lparr>cons_keys = [], cons_closed = False\<rparr>"

definition coalesceKeyFor :: "resource_type \<Rightarrow> coalesce_key option" where
  "coalesceKeyFor t =
     (if t = ResourceTypeProxy \<or> t = ResourceTypePool \<or> t = ResourceTypeBalancer then Some keyBalancer
      else if t = ResourceTypeFlow \<or> t = ResourceTypeRouter then Some keyTopology
      else if t = ResourceTypeEntrypoint then Some keyEntrypoint
      else None)"

definition new_key_state :: key_state where
  "new_key_state = \<lparr>ks_timer = False, ks_count = 0, ks_dirty = False, ks_entrypoints = []\<rparr>"

definition key_events :: "coalesce_key \<Rightarrow> key_state \<Rightarrow> change_event list" where
  "key_events key st =
     (if key = keyBalancer then
        (if ks_dirty st then [\<lparr>event_ID = coalescedEventID, event_ResourceType = ResourceTypeProxy, event_ChangeKind = ChangeKindSaved\<rparr>] else [])
      else if key = keyTopology then
        (if ks_dirty st then [\<lparr>event_ID = coalescedEventID, event_ResourceType = ResourceTypeFlow, event_ChangeKind = ChangeKindSaved\<rparr>] else [])
      else if key = keyEntrypoint then
        map (\<lambda>i. \<lparr>event_ID = i, event_ResourceType = ResourceTypeEntrypoint, event_ChangeKind = go_get (ks_entrypoints st) i\<rparr>)
          (sort (map fst (ks_entrypoints st)))
      else [])"

definition takeKeyEvents :: "coalesce_key \<Rightarrow> consumer \<Rightarrow> change_event list \<times> consumer" where
  "takeKeyEvents key c =
     (case map_of (cons_keys c) key of
        None \<Rightarrow> ([], c)
      | Some st \<Rightarrow> (key_events key st, c\<lparr>cons_keys := AList.delete key (cons_keys c)\<rparr>))"

text \<open>\<^verbatim>\<open>flushKey\<close> dispatches what it takes; the result is the dispatched events in order.\<close>

definition flushKey :: "coalesce_key \<Rightarrow> consumer \<Rightarrow> change_event list \<times> consumer" where
  "flushKey key c = takeKeyEvents key c"

definition buffer_event :: "coalesce_key \<Rightarrow> change_event \<Rightarrow> key_state \<Rightarrow> key_state" where
  "buffer_event key e st =
     (let st = st\<lparr>ks_count := ks_count st + 1\<rparr>;
          st = (if key = keyBalancer \<or> key = keyTopology then st\<lparr>ks_dirty := True\<rparr>
                else if key = keyEntrypoint then
                  st\<lparr>ks_entrypoints := AList.update (event_ID e) (event_ChangeKind e) (ks_entrypoints st)\<rparr>
                else st)
      in st\<lparr>ks_timer := True\<rparr>)"

definition offer :: "coalesce_config \<Rightarrow> change_event \<Rightarrow> consumer \<Rightarrow> change_event list \<times> consumer" where
  "offer cfg e c =
     (case coalesceKeyFor (event_ResourceType e) of
        None \<Rightarrow> ([e], c)
      | Some key \<Rightarrow>
          if cons_closed c then ([e], c)
          else
            let st = buffer_event key e (case map_of (cons_keys c) key of None \<Rightarrow> new_key_state | Some st \<Rightarrow> st);
                c = c\<lparr>cons_keys := AList.update key st (cons_keys c)\<rparr>
            in if cfg_MaxBuffer cfg > 0 \<and> ks_count st \<ge> cfg_MaxBuffer cfg then flushKey key c else ([], c))"

fun flush_keys :: "coalesce_key list \<Rightarrow> consumer \<Rightarrow> change_event list \<times> consumer" where
  "flush_keys [] c = ([], c)"
| "flush_keys (k # ks) c =
     (case flushKey k c of (es, c1) \<Rightarrow> (case flush_keys ks c1 of (fs, c2) \<Rightarrow> (es @ fs, c2)))"

definition flushAll :: "consumer \<Rightarrow> change_event list \<times> consumer" where
  "flushAll c = flush_keys (map fst (cons_keys c)) (c\<lparr>cons_closed := True\<rparr>)"

text \<open>Handlers run in order; their errors are logged and swallowed.\<close>

definition dispatch :: "(change_event \<Rightarrow> ('s, unit) op) list \<Rightarrow> change_event \<Rightarrow> 's \<Rightarrow> 's" where
  "dispatch handlers e w = fold (\<lambda>h w. snd (h e w)) handlers w"

text \<open>One turn of \<^verbatim>\<open>ConsumeEvents\<close>, a timer, or its end.\<close>

datatype consumer_action = Received change_event | TimerFired coalesce_key | Closed

fun consumer_step :: "coalesce_config \<Rightarrow> consumer_action \<Rightarrow> consumer \<Rightarrow> change_event list \<times> consumer" where
  "consumer_step cfg (Received e) c = (if cfg_Window cfg \<le> 0 then ([e], c) else offer cfg e c)"
| "consumer_step cfg (TimerFired k) c = flushKey k c"
| "consumer_step cfg Closed c = (if cfg_Window cfg > 0 then flushAll c else ([], c))"

datatype trace_entry = In change_event | Out change_event

fun entries :: "consumer_action \<Rightarrow> change_event list \<Rightarrow> trace_entry list" where
  "entries (Received e) outs = In e # map Out outs"
| "entries _ outs = map Out outs"

fun consume :: "coalesce_config \<Rightarrow> consumer_action list \<Rightarrow> consumer \<Rightarrow> trace_entry list \<times> consumer" where
  "consume cfg [] c = ([], c)"
| "consume cfg (a # as) c =
     (case consumer_step cfg a c of (outs, c1) \<Rightarrow>
        (case consume cfg as c1 of (tr, c2) \<Rightarrow> (entries a outs @ tr, c2)))"

section \<open>Topics\<close>

text \<open>
  What an event speaks about: the balancers as a whole, the topology as a whole, or one entrypoint.
\<close>

definition topic :: "change_event \<Rightarrow> (coalesce_key \<times> string) option" where
  "topic e = map_option (\<lambda>k. (k, if k = keyEntrypoint then event_ID e else [])) (coalesceKeyFor (event_ResourceType e))"

fun event_of :: "trace_entry \<Rightarrow> change_event" where
  "event_of (In e) = e" | "event_of (Out e) = e"

fun received :: "trace_entry \<Rightarrow> bool" where
  "received (In e) = True" | "received (Out e) = False"

definition latest :: "coalesce_key \<times> string \<Rightarrow> trace_entry list \<Rightarrow> trace_entry option" where
  "latest t tr = find (\<lambda>x. topic (event_of x) = Some t) (rev tr)"

definition last_received :: "coalesce_key \<times> string \<Rightarrow> trace_entry list \<Rightarrow> trace_entry option" where
  "last_received t tr = find (\<lambda>x. received x \<and> topic (event_of x) = Some t) (rev tr)"

definition buffered :: "coalesce_key \<times> string \<Rightarrow> consumer \<Rightarrow> bool" where
  "buffered t c \<longleftrightarrow> (\<exists>st. map_of (cons_keys c) (fst t) = Some st \<and>
     (if fst t = keyEntrypoint then map_of (ks_entrypoints st) (snd t) \<noteq> None else ks_dirty st \<and> snd t = []))"

lemma latest_snoc [simp]:
  "latest t [] = None" "latest t (tr @ [x]) = (if topic (event_of x) = Some t then Some x else latest t tr)"
  "last_received t [] = None"
  "last_received t (tr @ [x]) = (if received x \<and> topic (event_of x) = Some t then Some x else last_received t tr)"
  by (simp_all add: latest_def last_received_def)

lemma find_append: "find P (xs @ ys) = (case find P xs of None \<Rightarrow> find P ys | Some x \<Rightarrow> Some x)"
  by (induction xs) auto

lemma latest_outs:
  "latest t (tr @ map Out outs) =
     (case find (\<lambda>e. topic e = Some t) (rev outs) of None \<Rightarrow> latest t tr | Some e \<Rightarrow> Some (Out e))"
  by (induction outs rule: rev_induct) (simp_all add: latest_def flip: append_assoc)

lemma last_received_outs [simp]: "last_received t (tr @ map Out outs) = last_received t tr"
  by (induction outs rule: rev_induct) (simp_all add: last_received_def flip: append_assoc)

lemma topic_key: "topic e = Some t \<longleftrightarrow>
    coalesceKeyFor (event_ResourceType e) = Some (fst t) \<and> snd t = (if fst t = keyEntrypoint then event_ID e else [])"
  by (cases t) (auto simp: topic_def)

lemma key_for [simp]:
  "coalesceKeyFor ResourceTypeProxy = Some keyBalancer" "coalesceKeyFor ResourceTypeFlow = Some keyTopology"
  "coalesceKeyFor ResourceTypeEntrypoint = Some keyEntrypoint"
  by (simp_all add: coalesceKeyFor_def resource_type_defs)

lemma key_events_topic:
  assumes "e \<in> set (key_events k st)"
  shows "fst (the (topic e)) = k" "topic e \<noteq> None"
    and "k = keyEntrypoint \<Longrightarrow> map_of (ks_entrypoints st) (event_ID e) = Some (event_ChangeKind e)"
  using assms by (auto simp: key_events_def topic_def key_defs go_get_def split: if_splits option.splits)
    (metis map_of_eq_None_iff option.distinct(1) image_eqI fst_conv)+

lemma key_events_buffered:
  assumes "map_of (cons_keys c) (fst t) = Some st" "buffered t c"
    and "fst t \<in> {keyBalancer, keyTopology, keyEntrypoint}"
  shows "\<exists>e \<in> set (key_events (fst t) st). topic e = Some t"
proof (cases "fst t = keyEntrypoint")
  case True
  with assms have "snd t \<in> fst ` set (ks_entrypoints st)" by (auto simp: buffered_def map_of_eq_None_iff)
  with True show ?thesis by (cases t) (auto simp: key_events_def topic_key key_defs image_iff)
next
  case False
  with assms show ?thesis by (cases t) (auto simp: buffered_def key_events_def topic_key key_defs)
qed

section \<open>No update is lost\<close>

text \<open>
  What holds of every trace and the buffer it leaves: an event not yet acted upon is buffered, and
  for an entrypoint both the buffer and the last dispatch carry the last change received.
\<close>

definition trace_inv :: "trace_entry list \<Rightarrow> consumer \<Rightarrow> bool" where
  "trace_inv tr c \<longleftrightarrow>
     (\<forall>t e. latest t tr = Some (In e) \<longrightarrow> buffered t c) \<and>
     (\<forall>st i k. map_of (cons_keys c) keyEntrypoint = Some st \<longrightarrow> map_of (ks_entrypoints st) i = Some k \<longrightarrow>
        (\<exists>f. last_received (keyEntrypoint, i) tr = Some (In f) \<and> event_ChangeKind f = k)) \<and>
     (\<forall>i e. latest (keyEntrypoint, i) tr = Some (Out e) \<longrightarrow>
        (\<exists>f. last_received (keyEntrypoint, i) tr = Some (In f) \<and> event_ChangeKind f = event_ChangeKind e))"

lemma trace_invD:
  assumes "trace_inv tr c"
  shows "latest t tr = Some (In e) \<Longrightarrow> buffered t c"
    and "map_of (cons_keys c) keyEntrypoint = Some st \<Longrightarrow> map_of (ks_entrypoints st) i = Some k \<Longrightarrow>
        \<exists>f. last_received (keyEntrypoint, i) tr = Some (In f) \<and> event_ChangeKind f = k"
    and "latest (keyEntrypoint, i) tr = Some (Out g) \<Longrightarrow>
        \<exists>f. last_received (keyEntrypoint, i) tr = Some (In f) \<and> event_ChangeKind f = event_ChangeKind g"
  using assms unfolding trace_inv_def by blast+

lemma latest_topic: "latest t tr = Some x \<Longrightarrow> topic (event_of x) = Some t"
  by (auto simp: latest_def find_Some_iff)

lemma topic_known: "topic e = Some t \<Longrightarrow> fst t \<in> {keyBalancer, keyTopology, keyEntrypoint}"
  by (auto simp: topic_key coalesceKeyFor_def split: if_splits)

lemma flushKey_keys: "flushKey k c = (outs, c') \<Longrightarrow> map_of (cons_keys c') = (map_of (cons_keys c))(k := None) \<and> cons_closed c' = cons_closed c"
  by (auto simp: flushKey_def takeKeyEvents_def delete_conv fun_eq_iff split: option.splits)

lemma find_rev: "find P (rev xs) = Some x \<Longrightarrow> x \<in> set xs \<and> P x"
  by (metis find_Some_iff nth_mem set_rev)

lemma flushKey_inv:
  assumes "trace_inv tr c" "flushKey k c = (outs, c')"
  shows "trace_inv (tr @ map Out outs) c'"
proof (cases "map_of (cons_keys c) k")
  case None
  with assms show ?thesis by (simp add: flushKey_def takeKeyEvents_def)
next
  case (Some st)
  have outs: "outs = key_events k st" using assms(2) Some by (simp add: flushKey_def takeKeyEvents_def)
  have c': "map_of (cons_keys c') = (map_of (cons_keys c))(k := None)" using flushKey_keys [OF assms(2)] by blast
  have "buffered t c'" if l: "latest t (tr @ map Out outs) = Some (In e)" for t e
  proof -
    from l have n: "find (\<lambda>e. topic e = Some t) (rev outs) = None" and i: "latest t tr = Some (In e)"
      by (auto simp: latest_outs split: option.splits)
    from trace_invD(1) [OF assms(1) i] have b: "buffered t c" .
    have "fst t \<in> {keyBalancer, keyTopology, keyEntrypoint}" using latest_topic [OF i] topic_known by auto
    then have "fst t \<noteq> k" using key_events_buffered [OF _ b] Some n by (auto simp: outs find_None_iff)
    with b show ?thesis by (simp add: buffered_def c')
  qed
  moreover have "\<exists>f. last_received (keyEntrypoint, i) tr = Some (In f) \<and> event_ChangeKind f = event_ChangeKind e"
    if l: "latest (keyEntrypoint, i) (tr @ map Out outs) = Some (Out e)" for i e
  proof (cases "find (\<lambda>e. topic e = Some (keyEntrypoint, i)) (rev outs)")
    case None
    with l trace_invD(3) [OF assms(1)] show ?thesis by (simp add: latest_outs)
  next
    case (Some g)
    with l have g: "g = e" "e \<in> set outs" "topic e = Some (keyEntrypoint, i)"
      using find_rev [OF Some] by (auto simp: latest_outs)
    have k: "k = keyEntrypoint" and i: "event_ID e = i"
      using key_events_topic(1) [of e k st] g by (auto simp: outs topic_key)
    from key_events_topic(3) [of e k st] g(2) k i have "map_of (ks_entrypoints st) i = Some (event_ChangeKind e)"
      by (simp add: outs)
    with trace_invD(2) [OF assms(1)] \<open>map_of (cons_keys c) k = Some st\<close> k show ?thesis by simp
  qed
  moreover have "\<exists>f. last_received (keyEntrypoint, i) tr = Some (In f) \<and> event_ChangeKind f = v"
    if "map_of (cons_keys c') keyEntrypoint = Some st'" "map_of (ks_entrypoints st') i = Some v" for st' i v
    using that trace_invD(2) [OF assms(1)] by (simp add: c' split: if_splits)
  ultimately show ?thesis unfolding trace_inv_def last_received_outs by blast
qed

lemma direct_inv:
  assumes "trace_inv tr c" "topic e = None \<or> cons_keys c = []"
  shows "trace_inv (tr @ [In e, Out e]) c"
proof -
  have l: "latest t (tr @ [In e, Out e]) = (if topic e = Some t then Some (Out e) else latest t tr)"
    and r: "last_received t (tr @ [In e, Out e]) = (if topic e = Some t then Some (In e) else last_received t tr)" for t
    using latest_snoc(2) [of t "tr @ [In e]" "Out e"] latest_snoc(4) [of t "tr @ [In e]" "Out e"] by auto
  show ?thesis
    using assms(2) trace_invD [OF assms(1)] unfolding trace_inv_def l r by (auto split: if_splits)
qed

lemma buffer_inv:
  assumes "trace_inv tr c" "coalesceKeyFor (event_ResourceType e) = Some k"
    and st: "st = buffer_event k e (case map_of (cons_keys c) k of None \<Rightarrow> new_key_state | Some st \<Rightarrow> st)"
  shows "trace_inv (tr @ [In e]) (c\<lparr>cons_keys := AList.update k st (cons_keys c)\<rparr>)"
proof -
  let ?c = "c\<lparr>cons_keys := AList.update k st (cons_keys c)\<rparr>"
  let ?old = "case map_of (cons_keys c) k of None \<Rightarrow> new_key_state | Some st \<Rightarrow> st"
  have keys: "map_of (cons_keys ?c) = (map_of (cons_keys c))(k \<mapsto> st)" by (simp add: update_conv')
  have known: "k \<in> {keyBalancer, keyTopology, keyEntrypoint}" using assms(2) by (auto simp: coalesceKeyFor_def split: if_splits)
  have eps: "map_of (ks_entrypoints st) = (if k = keyEntrypoint then (map_of (ks_entrypoints ?old))(event_ID e \<mapsto> event_ChangeKind e)
      else map_of (ks_entrypoints ?old))"
    using known by (auto simp: st buffer_event_def Let_def key_defs update_conv')
  have dirty: "ks_dirty st \<longleftrightarrow> k \<noteq> keyEntrypoint \<or> ks_dirty ?old"
    using known by (auto simp: st buffer_event_def Let_def key_defs)
  have old: "map_of (ks_entrypoints ?old) i = Some v \<Longrightarrow> \<exists>st. map_of (cons_keys c) k = Some st \<and> map_of (ks_entrypoints st) i = Some v" for i v
    by (cases "map_of (cons_keys c) k") (auto simp: new_key_state_def)
  have keep: "buffered t ?c" if "buffered t c" for t
    using that unfolding buffered_def keys by (cases "fst t = k") (auto simp: eps dirty)
  have new: "buffered t ?c" if "topic e = Some t" for t
    using that assms(2) unfolding buffered_def keys topic_key by (auto simp: eps dirty)
  have "buffered t ?c" if "latest t (tr @ [In e]) = Some (In f)" for t f
    using that keep new trace_invD(1) [OF assms(1)] by (simp split: if_splits)
  moreover have "\<exists>f. last_received (keyEntrypoint, i) (tr @ [In e]) = Some (In f) \<and> event_ChangeKind f = v"
    if "map_of (cons_keys ?c) keyEntrypoint = Some st'" "map_of (ks_entrypoints st') i = Some v" for st' i v
  proof (cases "topic e = Some (keyEntrypoint, i)")
    case True
    with assms(2) have k: "k = keyEntrypoint" "event_ID e = i" by (auto simp: topic_key)
    with that(1) [unfolded keys] have "st' = st" by simp
    with True that(2) k show ?thesis by (simp add: eps)
  next
    case False
    with assms(2) have "k \<noteq> keyEntrypoint \<or> event_ID e \<noteq> i" by (auto simp: topic_key)
    moreover have "map_of (ks_entrypoints st) i = Some v" if "k = keyEntrypoint"
      using that \<open>map_of (cons_keys ?c) keyEntrypoint = Some st'\<close> [unfolded keys] \<open>map_of (ks_entrypoints st') i = Some v\<close> by simp
    ultimately have "\<exists>st. map_of (cons_keys c) keyEntrypoint = Some st \<and> map_of (ks_entrypoints st) i = Some v"
      using that [unfolded keys] old [of i v] by (cases "k = keyEntrypoint") (simp_all add: eps)
    with False trace_invD(2) [OF assms(1)] show ?thesis by auto
  qed
  moreover have "\<exists>f. last_received (keyEntrypoint, i) (tr @ [In e]) = Some (In f) \<and> event_ChangeKind f = event_ChangeKind g"
    if "latest (keyEntrypoint, i) (tr @ [In e]) = Some (Out g)" for i g
    using that trace_invD(3) [OF assms(1)] by (simp split: if_splits)
  ultimately show ?thesis unfolding trace_inv_def by blast
qed

lemma flush_keys_inv:
  "trace_inv tr c \<Longrightarrow> flush_keys ks c = (outs, c') \<Longrightarrow> trace_inv (tr @ map Out outs) c'"
proof (induction ks arbitrary: tr c outs)
  case (Cons k ks)
  obtain es c1 where k: "flushKey k c = (es, c1)" by fastforce
  obtain fs where ks: "flush_keys ks c1 = (fs, c')" "outs = es @ fs" using Cons.prems(2) k by (auto split: prod.splits)
  from Cons.IH [OF flushKey_inv [OF Cons.prems(1) k] ks(1)] ks(2) show ?case by simp
qed simp

lemma flush_keys_keys:
  "flush_keys ks c = (outs, c') \<Longrightarrow> map_of (cons_keys c') = (\<lambda>k. if k \<in> set ks then None else map_of (cons_keys c) k) \<and> cons_closed c' = cons_closed c"
proof (induction ks arbitrary: c outs)
  case (Cons k ks)
  obtain es c1 where k: "flushKey k c = (es, c1)" by fastforce
  obtain fs where ks: "flush_keys ks c1 = (fs, c')" using Cons.prems k by (auto split: prod.splits)
  from Cons.IH [OF ks] flushKey_keys [OF k] show ?case by (auto simp: fun_eq_iff)
qed simp

lemma map_of_none: "map_of xs = (\<lambda>_. None) \<longleftrightarrow> xs = []"
  by (cases xs) (auto simp: fun_eq_iff)

lemma flushAll_empty: "flushAll c = (outs, c') \<Longrightarrow> cons_keys c' = []"
  using flush_keys_keys [of "map fst (cons_keys c)" "c\<lparr>cons_closed := True\<rparr>" outs c']
  unfolding map_of_none [symmetric] flushAll_def by (auto simp: fun_eq_iff map_of_eq_None_iff)

definition idle_ok :: "coalesce_config \<Rightarrow> consumer \<Rightarrow> bool" where
  "idle_ok cfg c \<longleftrightarrow> (cons_closed c \<or> cfg_Window cfg \<le> 0 \<longrightarrow> cons_keys c = [])"

lemma flushKey_idle: "idle_ok cfg c \<Longrightarrow> flushKey k c = (outs, c') \<Longrightarrow> idle_ok cfg c'"
  using flushKey_keys [of k c outs c'] map_of_none [of "cons_keys c'"] by (auto simp: idle_ok_def)

lemma step_inv:
  assumes "trace_inv tr c" "idle_ok cfg c" "consumer_step cfg a c = (outs, c')"
  shows "trace_inv (tr @ entries a outs) c' \<and> idle_ok cfg c'"
proof (cases a)
  case (Received e)
  show ?thesis
  proof (cases "cfg_Window cfg \<le> 0 \<or> coalesceKeyFor (event_ResourceType e) = None \<or> cons_closed c")
    case True
    then have "outs = [e]" "c' = c" using assms(3) Received by (auto simp: offer_def split: option.splits if_splits)
    moreover have "topic e = None \<or> cons_keys c = []" using True assms(2) by (auto simp: idle_ok_def topic_def)
    ultimately show ?thesis using direct_inv [OF assms(1)] assms(2) Received by simp
  next
    case False
    then obtain k where k: "coalesceKeyFor (event_ResourceType e) = Some k" by auto
    let ?st = "buffer_event k e (case map_of (cons_keys c) k of None \<Rightarrow> new_key_state | Some st \<Rightarrow> st)"
    let ?c = "c\<lparr>cons_keys := AList.update k ?st (cons_keys c)\<rparr>"
    have r: "(outs, c') = ([], ?c) \<or> flushKey k ?c = (outs, c')"
      using assms(3) Received False k by (auto simp: offer_def Let_def split: if_splits)
    have "trace_inv (tr @ [In e]) ?c" by (rule buffer_inv [OF assms(1) k refl])
    moreover have "idle_ok cfg ?c" using False by (simp add: idle_ok_def)
    ultimately show ?thesis
      using r flushKey_inv [of "tr @ [In e]" ?c k outs c'] flushKey_idle [of cfg ?c k outs c'] Received by auto
  qed
next
  case (TimerFired k)
  with assms show ?thesis using flushKey_inv flushKey_idle by auto
next
  case Closed
  show ?thesis
  proof (cases "cfg_Window cfg > 0")
    case True
    then have f: "flushAll c = (outs, c')" using assms(3) Closed by simp
    have "trace_inv tr (c\<lparr>cons_closed := True\<rparr>)" using assms(1) by (simp add: trace_inv_def buffered_def)
    from flush_keys_inv [OF this f [unfolded flushAll_def]] flushAll_empty [OF f] show ?thesis
      by (simp add: Closed idle_ok_def)
  next
    case False
    with assms Closed show ?thesis by auto
  qed
qed

lemma consume_inv:
  "trace_inv tr c \<Longrightarrow> idle_ok cfg c \<Longrightarrow> consume cfg as c = (tr', c') \<Longrightarrow> trace_inv (tr @ tr') c' \<and> idle_ok cfg c'"
proof (induction as arbitrary: tr c tr')
  case (Cons a as)
  obtain outs c1 where s: "consumer_step cfg a c = (outs, c1)" by fastforce
  obtain tr1 where r: "consume cfg as c1 = (tr1, c')" "tr' = entries a outs @ tr1" using Cons.prems(3) s by (auto split: prod.splits)
  from Cons.IH [of "tr @ entries a outs", OF _ _ r(1)] step_inv [OF Cons.prems(1,2) s] r(2) show ?case by simp
qed simp

lemma consume_append:
  "consume cfg (as @ bs) c = (case consume cfg as c of (tr, c1) \<Rightarrow> (case consume cfg bs c1 of (tr', c2) \<Rightarrow> (tr @ tr', c2)))"
  by (induction as arbitrary: c) (auto split: prod.splits)

lemma NewConsumer_inv: "trace_inv [] NewConsumer" "idle_ok cfg NewConsumer"
  by (simp_all add: trace_inv_def idle_ok_def NewConsumer_def)


definition sample_event :: "resource_type \<Rightarrow> string \<Rightarrow> change_kind \<Rightarrow> change_event" where
  "sample_event t i k = \<lparr>event_ID = i, event_ResourceType = t, event_ChangeKind = k\<rparr>"


section \<open>The buffer is bounded and dispatches are saved\<close>

definition outs_about :: "coalesce_key \<times> string \<Rightarrow> trace_entry list \<Rightarrow> nat" where
  "outs_about t tr = length (filter (\<lambda>x. \<not> received x \<and> topic (event_of x) = Some t) tr)"

definition ins_about :: "coalesce_key \<times> string \<Rightarrow> trace_entry list \<Rightarrow> nat" where
  "ins_about t tr = length (filter (\<lambda>x. received x \<and> topic (event_of x) = Some t) tr)"

definition count_inv :: "trace_entry list \<Rightarrow> consumer \<Rightarrow> bool" where
  "count_inv tr c \<longleftrightarrow>
     (\<forall>k st. map_of (cons_keys c) k = Some st \<longrightarrow> distinct (map fst (ks_entrypoints st)) \<and> 1 \<le> ks_count st) \<and>
     (\<forall>t. outs_about t tr + (if buffered t c then 1 else 0) \<le> ins_about t tr)"

lemma about_append [simp]:
  "outs_about t (tr @ tr') = outs_about t tr + outs_about t tr'" "ins_about t (tr @ tr') = ins_about t tr + ins_about t tr'"
  "ins_about t (map Out es) = 0" "outs_about t (map Out es) = length (filter (\<lambda>e. topic e = Some t) es)"
  "outs_about t [] = 0" "ins_about t [] = 0"
  "outs_about t (In e # tr) = outs_about t tr" "ins_about t (In e # tr) = (if topic e = Some t then 1 else 0) + ins_about t tr"
  "outs_about t (Out e # tr) = (if topic e = Some t then 1 else 0) + outs_about t tr" "ins_about t (Out e # tr) = ins_about t tr"
  by (simp_all add: outs_about_def ins_about_def filter_map comp_def)

lemma key_events_once:
  assumes "distinct (map fst (ks_entrypoints st))" "map_of (cons_keys c) k = Some st"
  shows "length (filter (\<lambda>e. topic e = Some t) (key_events k st)) \<le> (if fst t = k \<and> buffered t c then 1 else 0)"
proof (cases "k = keyEntrypoint")
  case True
  let ?ids = "sort (map fst (ks_entrypoints st))"
  have f: "filter (\<lambda>e. topic e = Some t) (key_events k st) =
      map (\<lambda>i. \<lparr>event_ID = i, event_ResourceType = ResourceTypeEntrypoint, event_ChangeKind = go_get (ks_entrypoints st) i\<rparr>)
        (filter (\<lambda>i. (keyEntrypoint, i) = t) ?ids)"
    using True by (auto simp: key_events_def key_defs filter_map comp_def topic_def coalesceKeyFor_def resource_type_defs intro: filter_cong)
  have "distinct ?ids" using assms(1) by simp
  then have "length (filter (\<lambda>i. (keyEntrypoint, i) = t) ?ids) \<le> (if fst t = keyEntrypoint \<and> snd t \<in> set ?ids then 1 else 0)"
    using distinct_length_filter [of ?ids "\<lambda>i. (keyEntrypoint, i) = t"] by (cases t) (auto simp: Collect_conj_eq)
  moreover have "snd t \<in> set ?ids \<longleftrightarrow> map_of (ks_entrypoints st) (snd t) \<noteq> None" by (auto simp: map_of_eq_None_iff)
  ultimately show ?thesis using True assms(2) f by (auto simp: buffered_def split: if_splits)
next
  case False
  then show ?thesis using assms(2)
    by (cases t) (auto simp: key_events_def buffered_def topic_key key_defs)
qed

lemma flushKey_count:
  assumes "count_inv tr c" "flushKey k c = (outs, c')"
  shows "count_inv (tr @ map Out outs) c'"
proof (cases "map_of (cons_keys c) k")
  case None
  with assms show ?thesis by (simp add: flushKey_def takeKeyEvents_def)
next
  case (Some st)
  have outs: "outs = key_events k st" using assms(2) Some by (simp add: flushKey_def takeKeyEvents_def)
  have c': "map_of (cons_keys c') = (map_of (cons_keys c))(k := None)" using flushKey_keys [OF assms(2)] by blast
  have "distinct (map fst (ks_entrypoints st))" using assms(1) Some by (simp add: count_inv_def)
  note once = key_events_once [OF this Some]
  have b: "buffered t c' \<longleftrightarrow> fst t \<noteq> k \<and> buffered t c" for t by (auto simp: buffered_def c')
  have "outs_about t tr + length (filter (\<lambda>e. topic e = Some t) outs) + (if buffered t c' then 1 else 0) \<le> ins_about t tr" for t
  proof -
    have "outs_about t tr + (if buffered t c then 1 else 0) \<le> ins_about t tr"
      using assms(1) unfolding count_inv_def by blast
    with once [of t] show ?thesis unfolding outs b by (cases "fst t = k"; cases "buffered t c") simp_all
  qed
  with assms(1) show ?thesis by (auto simp: count_inv_def c' split: if_splits)
qed

lemma flush_keys_count:
  "count_inv tr c \<Longrightarrow> flush_keys ks c = (outs, c') \<Longrightarrow> count_inv (tr @ map Out outs) c'"
proof (induction ks arbitrary: tr c outs)
  case (Cons k ks)
  obtain es c1 where k: "flushKey k c = (es, c1)" by fastforce
  obtain fs where ks: "flush_keys ks c1 = (fs, c')" "outs = es @ fs" using Cons.prems(2) k by (auto split: prod.splits)
  from Cons.IH [OF flushKey_count [OF Cons.prems(1) k] ks(1)] ks(2) show ?case by simp
qed simp

lemma offer_count:
  assumes inv: "count_inv tr c" and o: "offer cfg e c = (outs, c')"
  shows "count_inv (tr @ In e # map Out outs) c'"
proof (cases "coalesceKeyFor (event_ResourceType e) = None \<or> cons_closed c")
  case True
  then have "outs = [e]" "c' = c" using o by (auto simp: offer_def split: option.splits if_splits)
  with inv show ?thesis unfolding count_inv_def by simp
next
  case False
  then obtain k where k: "coalesceKeyFor (event_ResourceType e) = Some k" by auto
  let ?old = "case map_of (cons_keys c) k of None \<Rightarrow> new_key_state | Some st \<Rightarrow> st"
  let ?st = "buffer_event k e ?old"
  let ?c = "c\<lparr>cons_keys := AList.update k ?st (cons_keys c)\<rparr>"
  have keys: "map_of (cons_keys ?c) = (map_of (cons_keys c))(k \<mapsto> ?st)" by (simp add: update_conv')
  have old: "distinct (map fst (ks_entrypoints ?old))" "0 \<le> ks_count ?old"
    using inv unfolding count_inv_def by (auto simp: new_key_state_def split: option.splits) force
  have st: "distinct (map fst (ks_entrypoints ?st))" "1 \<le> ks_count ?st"
    using old by (auto simp: buffer_event_def Let_def distinct_update)
  have b: "buffered t ?c \<Longrightarrow> buffered t c \<or> topic e = Some t" for t
    using k unfolding buffered_def keys topic_key
    by (cases "fst t = k"; cases "map_of (cons_keys c) k")
      (auto simp: buffer_event_def Let_def new_key_state_def update_conv' split: if_splits)
  have n: "outs_about t (tr @ [In e]) + (if buffered t ?c then 1 else 0) \<le> ins_about t (tr @ [In e])" for t
  proof -
    have "outs_about t tr + (if buffered t c then 1 else 0) \<le> ins_about t tr" using inv unfolding count_inv_def by blast
    with b [of t] show ?thesis by (auto split: if_splits)
  qed
  have "count_inv (tr @ [In e]) ?c" using inv n st unfolding count_inv_def keys by (auto split: if_splits)
  moreover have "(outs, c') = ([], ?c) \<or> flushKey k ?c = (outs, c')"
    using o False k by (auto simp: offer_def Let_def split: if_splits)
  ultimately show ?thesis using flushKey_count [of "tr @ [In e]" ?c k outs c'] by auto
qed

definition bound_inv :: "coalesce_config \<Rightarrow> consumer \<Rightarrow> bool" where
  "bound_inv cfg c \<longleftrightarrow> (\<forall>k st. map_of (cons_keys c) k = Some st \<longrightarrow> 0 < cfg_MaxBuffer cfg \<longrightarrow> ks_count st < cfg_MaxBuffer cfg)"

lemma step_count:
  assumes "count_inv tr c" "bound_inv cfg c" "consumer_step cfg a c = (outs, c')"
  shows "count_inv (tr @ entries a outs) c' \<and> bound_inv cfg c'"
proof (cases a)
  case (Received e)
  have "bound_inv cfg c'" if "offer cfg e c = (outs, c')"
    using that assms(2) flushKey_keys
    by (fastforce simp: offer_def Let_def bound_inv_def update_conv' split: option.splits if_splits)
  moreover have "count_inv (tr @ [In e, Out e]) c" using assms(1) unfolding count_inv_def by simp
  ultimately show ?thesis
    using assms offer_count [OF assms(1), of cfg e outs c'] Received by (auto split: if_splits)
next
  case (TimerFired k)
  with assms show ?thesis using flushKey_count [of tr c k outs c'] flushKey_keys [of k c outs c'] by (auto simp: bound_inv_def)
next
  case Closed
  have "count_inv tr (c\<lparr>cons_closed := True\<rparr>)" using assms(1) by (simp add: count_inv_def buffered_def)
  with Closed assms show ?thesis
    using flush_keys_count [of tr "c\<lparr>cons_closed := True\<rparr>" "map fst (cons_keys c)" outs c']
      flush_keys_keys [of "map fst (cons_keys c)" "c\<lparr>cons_closed := True\<rparr>" outs c']
    by (auto simp: flushAll_def bound_inv_def split: if_splits)
qed

lemma consume_count:
  "count_inv tr c \<Longrightarrow> bound_inv cfg c \<Longrightarrow> consume cfg as c = (tr', c') \<Longrightarrow> count_inv (tr @ tr') c' \<and> bound_inv cfg c'"
proof (induction as arbitrary: tr c tr')
  case (Cons a as)
  obtain outs c1 where s: "consumer_step cfg a c = (outs, c1)" by fastforce
  obtain tr1 where r: "consume cfg as c1 = (tr1, c')" "tr' = entries a outs @ tr1" using Cons.prems(3) s by (auto split: prod.splits)
  from Cons.IH [of "tr @ entries a outs", OF _ _ r(1)] step_count [OF Cons.prems(1,2) s] r(2) show ?case by simp
qed simp

text \<open>
  Coalescing bounds what waits and never adds work: at every moment of every run each buffered
  key has received at least one event and, when a limit is set, fewer than the limit; and about the
  balancers, the topology and each entrypoint the consumer never dispatches more events than it
  received.
\<close>

theorem coalescing_bounded:
  assumes "consume cfg as NewConsumer = (tr, c)"
  shows "outs_about t tr \<le> ins_about t tr \<and>
    (\<forall>k st. map_of (cons_keys c) k = Some st \<longrightarrow> 1 \<le> ks_count st \<and> (0 < cfg_MaxBuffer cfg \<longrightarrow> ks_count st < cfg_MaxBuffer cfg))"
proof -
  have "count_inv [] NewConsumer" "bound_inv cfg NewConsumer"
    by (simp_all add: count_inv_def bound_inv_def NewConsumer_def buffered_def)
  from consume_count [OF this assms] have inv: "count_inv tr c" "bound_inv cfg c" by auto
  from inv(1) have "outs_about t tr + (if buffered t c then 1 else 0) \<le> ins_about t tr" unfolding count_inv_def by blast
  with inv show ?thesis by (auto simp: count_inv_def bound_inv_def)
qed

theorem coalescing_bounded_witness:
  "\<exists>tr c st. consume \<lparr>cfg_Window = 5, cfg_MaxBuffer = 3\<rparr>
       [Received (sample_event ResourceTypeProxy ''p'' ChangeKindSaved), Received (sample_event ResourceTypePool ''q'' ChangeKindSaved)]
       NewConsumer = (tr, c) \<and>
     map_of (cons_keys c) keyBalancer = Some st \<and> 1 \<le> ks_count st \<and> ks_count st < 3"
proof -
  let ?as = "[Received (sample_event ResourceTypeProxy ''p'' ChangeKindSaved), Received (sample_event ResourceTypePool ''q'' ChangeKindSaved)]"
  obtain tr c where r: "consume \<lparr>cfg_Window = 5, cfg_MaxBuffer = 3\<rparr> ?as NewConsumer = (tr, c)" by fastforce
  then obtain st where "map_of (cons_keys c) keyBalancer = Some st"
    by (auto simp: NewConsumer_def offer_def sample_event_def Let_def buffer_event_def new_key_state_def coalesceKeyFor_def
        resource_type_defs key_defs)
  with coalescing_bounded [OF r] r show ?thesis by auto
qed

end
