(* ===== verification/PubSub.thy ===== *)
theory PubSub
  imports Ports "HOL-Library.Sublist"
begin

text \<open>
  \<^verbatim>\<open>adapters/pubsub/memory/pubsub.go\<close>: the in-process event bus.  A subscriber's channel is a bounded
  buffer; \<^verbatim>\<open>Publish\<close> offers the event to every open channel and drops it where the buffer is full.
  The map of subscribers is the set of open channels, a closed channel can still be drained.  Buffer
  sizes are positive, as in every caller; the identifier of a subscriber is the fresh UUID.
\<close>

section \<open>Model\<close>

record chan =
  ch_buf :: "change_event list"
  ch_open :: bool

record pubsub =
  ps_bufferSize :: nat
  ps_chans :: "(string \<times> chan) list"

definition NewPubSub :: "nat \<Rightarrow> pubsub" where
  "NewPubSub bufferSize = \<lparr>ps_bufferSize = bufferSize, ps_chans = []\<rparr>"

text \<open>\<^verbatim>\<open>select { case ch <- event: default: }\<close>\<close>

definition try_send :: "nat \<Rightarrow> change_event \<Rightarrow> chan \<Rightarrow> chan" where
  "try_send cap e ch = (if ch_open ch \<and> length (ch_buf ch) < cap then ch\<lparr>ch_buf := ch_buf ch @ [e]\<rparr> else ch)"

definition PubSub_Publish :: "change_event \<Rightarrow> (pubsub, unit) op" where
  "PubSub_Publish e p =
     (Inr (), p\<lparr>ps_chans := map (\<lambda>(i, ch). (i, try_send (ps_bufferSize p) e ch)) (ps_chans p)\<rparr>)"

definition PubSub_Subscribe :: "string \<Rightarrow> pubsub \<Rightarrow> pubsub" where
  "PubSub_Subscribe chId p = p\<lparr>ps_chans := AList.update chId \<lparr>ch_buf = [], ch_open = True\<rparr> (ps_chans p)\<rparr>"

text \<open>The goroutine that \<^verbatim>\<open>Subscribe\<close> starts, once the context is done.\<close>

definition PubSub_unsubscribe :: "string \<Rightarrow> pubsub \<Rightarrow> pubsub" where
  "PubSub_unsubscribe chId p = p\<lparr>ps_chans := AList.map_entry chId (\<lambda>ch. ch\<lparr>ch_open := False\<rparr>) (ps_chans p)\<rparr>"

text \<open>A receive on the channel: the value, or none when it would block or the channel is closed and drained.\<close>

definition PubSub_receive :: "string \<Rightarrow> pubsub \<Rightarrow> change_event option \<times> pubsub" where
  "PubSub_receive chId p =
     (case map_of (ps_chans p) chId of
        None \<Rightarrow> (None, p)
      | Some ch \<Rightarrow>
          (case ch_buf ch of
             [] \<Rightarrow> (None, p)
           | e # b \<Rightarrow> (Some e, p\<lparr>ps_chans := AList.map_entry chId (\<lambda>ch. ch\<lparr>ch_buf := b\<rparr>) (ps_chans p)\<rparr>)))"

section \<open>A subscriber's view\<close>

datatype ps_op = Publish change_event | Subscribe string | Unsubscribe string | Receive string

fun ps_step :: "ps_op \<Rightarrow> pubsub \<Rightarrow> change_event option \<times> pubsub" where
  "ps_step (Publish e) p = (None, snd (PubSub_Publish e p))"
| "ps_step (Subscribe i) p = (None, PubSub_Subscribe i p)"
| "ps_step (Unsubscribe i) p = (None, PubSub_unsubscribe i p)"
| "ps_step (Receive i) p = PubSub_receive i p"

text \<open>The specification of one subscription: a bounded queue that is closed once.\<close>

fun queue_step :: "nat \<Rightarrow> string \<Rightarrow> ps_op \<Rightarrow> chan \<Rightarrow> change_event option \<times> chan" where
  "queue_step cap i (Publish e) ch = (None, try_send cap e ch)"
| "queue_step cap i (Subscribe j) ch = (None, ch)"
| "queue_step cap i (Unsubscribe j) ch = (None, if j = i then ch\<lparr>ch_open := False\<rparr> else ch)"
| "queue_step cap i (Receive j) ch =
     (if j \<noteq> i then (None, ch)
      else case ch_buf ch of [] \<Rightarrow> (None, ch) | e # b \<Rightarrow> (Some e, ch\<lparr>ch_buf := b\<rparr>))"

lemma step_view:
  assumes "map_of (ps_chans p) i = Some ch" "op \<noteq> Subscribe i"
  shows "map_of (ps_chans (snd (ps_step op p))) i = Some (snd (queue_step (ps_bufferSize p) i op ch))"
    and "op = Receive i \<Longrightarrow> fst (ps_step op p) = fst (queue_step (ps_bufferSize p) i op ch)"
    and "ps_bufferSize (snd (ps_step op p)) = ps_bufferSize p"
proof -
  show "map_of (ps_chans (snd (ps_step op p))) i = Some (snd (queue_step (ps_bufferSize p) i op ch))"
    using assms
    by (cases op) (auto simp: PubSub_Publish_def PubSub_Subscribe_def PubSub_unsubscribe_def PubSub_receive_def map_of_map update_conv'
        map_of_map_entry fun_eq_iff split: option.splits list.splits)
  show "op = Receive i \<Longrightarrow> fst (ps_step op p) = fst (queue_step (ps_bufferSize p) i op ch)"
    using assms by (auto simp: PubSub_receive_def split: list.splits)
  show "ps_bufferSize (snd (ps_step op p)) = ps_bufferSize p"
    by (cases op) (auto simp: PubSub_Publish_def PubSub_Subscribe_def PubSub_unsubscribe_def PubSub_receive_def split: option.splits list.splits)
qed

text \<open>What the receiver of one subscription gets in a run.\<close>

fun deliveries :: "string \<Rightarrow> ps_op list \<Rightarrow> pubsub \<Rightarrow> change_event list \<times> pubsub" where
  "deliveries i [] p = ([], p)"
| "deliveries i (op # ops) p =
     (case ps_step op p of (r, p1) \<Rightarrow>
        (case deliveries i ops p1 of (es, p2) \<Rightarrow>
           (case r of Some e \<Rightarrow> (if op = Receive i then e # es else es, p2) | None \<Rightarrow> (es, p2))))"

fun queue_run :: "nat \<Rightarrow> string \<Rightarrow> ps_op list \<Rightarrow> chan \<Rightarrow> change_event list \<times> chan" where
  "queue_run cap i [] ch = ([], ch)"
| "queue_run cap i (op # ops) ch =
     (case queue_step cap i op ch of (r, c1) \<Rightarrow>
        (case queue_run cap i ops c1 of (es, c2) \<Rightarrow> (case r of Some e \<Rightarrow> (e # es, c2) | None \<Rightarrow> (es, c2))))"

text \<open>The events published while the subscription is open.\<close>

fun offered :: "string \<Rightarrow> ps_op list \<Rightarrow> bool \<Rightarrow> change_event list" where
  "offered i [] b = []"
| "offered i (Publish e # ops) b = (if b then e # offered i ops b else offered i ops b)"
| "offered i (Unsubscribe j # ops) b = offered i ops (b \<and> j \<noteq> i)"
| "offered i (Receive j # ops) b = offered i ops b"
| "offered i (Subscribe j # ops) b = offered i ops b"

text \<open>The receiver keeps up: its buffer has room at every event offered, \<open>n\<close> being its length.\<close>

fun keeps_up :: "nat \<Rightarrow> string \<Rightarrow> ps_op list \<Rightarrow> bool \<Rightarrow> nat \<Rightarrow> bool" where
  "keeps_up cap i [] b n = True"
| "keeps_up cap i (Publish e # ops) b n = (if b then n < cap \<and> keeps_up cap i ops b (n + 1) else keeps_up cap i ops b n)"
| "keeps_up cap i (Unsubscribe j # ops) b n = keeps_up cap i ops (b \<and> j \<noteq> i) n"
| "keeps_up cap i (Receive j # ops) b n = keeps_up cap i ops b (if j = i then n - 1 else n)"
| "keeps_up cap i (Subscribe j # ops) b n = keeps_up cap i ops b n"

lemma deliveries_refine:
  assumes "map_of (ps_chans p) i = Some ch" "Subscribe i \<notin> set ops"
  shows "fst (deliveries i ops p) = fst (queue_run (ps_bufferSize p) i ops ch)"
    and "map_of (ps_chans (snd (deliveries i ops p))) i = Some (snd (queue_run (ps_bufferSize p) i ops ch))"
    and "ps_bufferSize (snd (deliveries i ops p)) = ps_bufferSize p"
  using assms
proof (induction ops arbitrary: p ch)
  case (Cons op ops)
  have other: "queue_step n i op ch \<noteq> (Some e, c1)" if "op \<noteq> Receive i" for n ch e c1
    using that by (cases op) auto
  { case 1
    with Cons(1) [of "snd (ps_step op p)"] step_view [of p i ch op] other show ?case
      by (cases "op = Receive i") (auto split: prod.splits option.splits)
  next
    case 2
    with Cons(2) [of "snd (ps_step op p)"] step_view [of p i ch op] show ?case
      by (auto split: prod.splits option.splits)
  next
    case 3
    with Cons(3) [of "snd (ps_step op p)"] step_view [of p i ch op] show ?case
      by (auto split: prod.splits option.splits)
  }
qed auto

lemma queue_run_spec:
  "subseq (fst (queue_run cap i ops ch) @ ch_buf (snd (queue_run cap i ops ch))) (ch_buf ch @ offered i ops (ch_open ch))"
  "keeps_up cap i ops (ch_open ch) (length (ch_buf ch)) \<Longrightarrow>
     fst (queue_run cap i ops ch) @ ch_buf (snd (queue_run cap i ops ch)) = ch_buf ch @ offered i ops (ch_open ch)"
  "length (ch_buf ch) \<le> cap \<Longrightarrow> length (ch_buf (snd (queue_run cap i ops ch))) \<le> cap"
proof (induction ops arbitrary: ch)
  case (Cons op ops)
  { case 1
    show ?case
    proof (cases op)
      case (Publish e)
      have "subseq (ch_buf ch @ offered i ops (ch_open ch)) (ch_buf ch @ e # offered i ops (ch_open ch))"
        by (intro list_emb_append_mono) auto
      then show ?thesis
        using Cons(1) [of "try_send cap e ch"] Publish
        by (auto simp: try_send_def split: prod.splits option.splits if_splits intro: subseq_order.trans)
    qed (use Cons(1) [of "snd (queue_step cap i op ch)"] in \<open>auto split: prod.splits list.splits\<close>)
  next
    case 2
    with Cons(2) [of "snd (queue_step cap i op ch)"] show ?case
      by (cases op) (auto simp: try_send_def split: prod.splits list.splits if_splits)
  next
    case 3
    with Cons(3) [of "snd (queue_step cap i op ch)"] show ?case
      by (cases op) (auto simp: try_send_def split: prod.splits list.splits if_splits)
  }
qed auto

text \<open>
  C24.  The event bus.  From subscription on, and whatever other subscribers do, what a subscriber
  has received followed by what is in its buffer is a subsequence of the events published while it
  was subscribed: in order, none twice, none invented; the buffer never exceeds its size, and as
  long as the subscriber keeps up nothing is dropped.
\<close>

theorem bus_delivers_in_order:
  assumes "Subscribe i \<notin> set ops"
  shows "case deliveries i ops (PubSub_Subscribe i p) of (es, p') \<Rightarrow>
    \<exists>ch. map_of (ps_chans p') i = Some ch \<and> subseq (es @ ch_buf ch) (offered i ops True) \<and> length (ch_buf ch) \<le> ps_bufferSize p \<and>
      (keeps_up (ps_bufferSize p) i ops True 0 \<longrightarrow> es @ ch_buf ch = offered i ops True)"
proof -
  let ?p = "PubSub_Subscribe i p" and ?ch = "\<lparr>ch_buf = [], ch_open = True\<rparr>"
  have "map_of (ps_chans ?p) i = Some ?ch" "ps_bufferSize ?p = ps_bufferSize p"
    by (simp_all add: PubSub_Subscribe_def update_conv')
  with deliveries_refine [OF this(1) assms] queue_run_spec [where cap = "ps_bufferSize p" and i = i and ops = ops and ch = ?ch] show ?thesis
    by (auto split: prod.splits)
qed

theorem bus_delivers_in_order_witness:
  "let e = (\<lambda>i. \<lparr>event_ID = i, event_ResourceType = ResourceTypeProxy, event_ChangeKind = ChangeKindSaved\<rparr>);
       ops = [Publish (e ''a''), Subscribe ''other'', Publish (e ''b''), Receive ''me'', Publish (e ''c'')]
   in \<exists>ch. map_of (ps_chans (snd (deliveries ''me'' ops (PubSub_Subscribe ''me'' (NewPubSub 1))))) ''me'' = Some ch \<and>
        subseq (fst (deliveries ''me'' ops (PubSub_Subscribe ''me'' (NewPubSub 1))) @ ch_buf ch) [e ''a'', e ''b'', e ''c''] \<and>
        fst (deliveries ''me'' ops (PubSub_Subscribe ''me'' (NewPubSub 1))) = [e ''a'']"
proof -
  let ?e = "\<lambda>i. \<lparr>event_ID = i, event_ResourceType = ResourceTypeProxy, event_ChangeKind = ChangeKindSaved\<rparr>"
  let ?ops = "[Publish (?e ''a''), Subscribe ''other'', Publish (?e ''b''), Receive ''me'', Publish (?e ''c'')]"
  have "fst (deliveries ''me'' ?ops (PubSub_Subscribe ''me'' (NewPubSub 1))) = [?e ''a'']" by code_simp
  moreover have "Subscribe ''me'' \<notin> set ?ops" by simp
  from bus_delivers_in_order [OF this, of "NewPubSub 1"] have
    "\<exists>ch. map_of (ps_chans (snd (deliveries ''me'' ?ops (PubSub_Subscribe ''me'' (NewPubSub 1))))) ''me'' = Some ch \<and>
        subseq (fst (deliveries ''me'' ?ops (PubSub_Subscribe ''me'' (NewPubSub 1))) @ ch_buf ch) [?e ''a'', ?e ''b'', ?e ''c'']"
    by (auto split: prod.splits)
  ultimately show ?thesis unfolding Let_def by blast
qed

end
