(* ===== verification/System.thy ===== *)
theory System
  imports Dataplane_Correct Consumer PubSub
begin

text \<open>
  The whole pipeline as one transition system: control-plane calls over the store, the event bus they
  publish on, the coalescing consumer, the event handler of the data plane, full resyncs and
  requests, interleaved in any order, beside any other subscribers.  What is proved is consistency
  at rest: whenever nothing is in flight, and since the last full resync no event was dropped and
  no reload failed, requests are served as the store says.
\<close>

section \<open>Steps\<close>

record 'db sys =
  sys_db :: 'db
  sys_ps :: pubsub
  sys_cons :: consumer
  sys_dp :: dp
  sys_stale :: bool

text \<open>The data plane's subscription.\<close>

definition dpSub :: string where "dpSub = ''dp''"

definition bus_of :: "pubsub \<Rightarrow> change_event list" where
  "bus_of p = (case map_of (ps_chans p) dpSub of None \<Rightarrow> [] | Some ch \<Rightarrow> ch_buf ch)"

definition bus_open :: "pubsub \<Rightarrow> bool" where
  "bus_open p \<longleftrightarrow> (\<exists>ch. map_of (ps_chans p) dpSub = Some ch \<and> ch_open ch)"

text \<open>
  The bus drops an event for which the buffer has no room, and the consumer logs a handler's error
  and goes on; \<^const>\<open>sys_stale\<close> remembers that it happened, until a full bootstrap succeeds.
\<close>

definition handle_event :: "'db application \<Rightarrow> time \<Rightarrow> 'db \<Rightarrow> change_event \<Rightarrow> dp \<times> bool \<Rightarrow> dp \<times> bool" where
  "handle_event A now db e x =
     (case HandleEvent A now db e (fst x) of (r, d) \<Rightarrow> (d, snd x \<or> \<not> is_ok r))"

fun taken_from_bus :: "consumer_action \<Rightarrow> change_event list" where
  "taken_from_bus (Received e) = [e]"
| "taken_from_bus _ = []"

fun takes :: "consumer_action \<Rightarrow> pubsub \<Rightarrow> pubsub \<Rightarrow> bool" where
  "takes (Received e) p p' \<longleftrightarrow> PubSub_receive dpSub p = (Some e, p')"
| "takes _ p p' \<longleftrightarrow> p' = p"

fun of_others :: "ps_op \<Rightarrow> bool" where
  "of_others (Publish e) = False"
| "of_others (Subscribe i) = (i \<noteq> dpSub)"
| "of_others (Unsubscribe i) = (i \<noteq> dpSub)"
| "of_others (Receive i) = (i \<noteq> dpSub)"

inductive sys_step :: "libs \<Rightarrow> ('db, pubsub) service \<Rightarrow> regexp_lib \<Rightarrow> coalesce_config \<Rightarrow> ('db \<Rightarrow> store) \<Rightarrow> 'db sys \<Rightarrow> 'db sys \<Rightarrow> bool"
  for L S R cfg V where
  Call: "exec_call L S c (sys_db s, sys_ps s) = (r, (db', ps')) \<Longrightarrow> call_named c \<Longrightarrow>
    sys_step L S R cfg V s (s\<lparr>sys_db := db', sys_ps := ps',
      sys_stale := sys_stale s \<or> is_ok r \<and> ps_bufferSize (sys_ps s) \<le> length (bus_of (sys_ps s))\<rparr>)"
| Consume: "takes a (sys_ps s) ps' \<Longrightarrow> consumer_step cfg a (sys_cons s) = (outs, c') \<Longrightarrow>
    fold (handle_event (local_app S R) now (sys_db s)) outs (sys_dp s, sys_stale s) = (d', stale') \<Longrightarrow>
    small_pools (local_app S R) V (sys_db s) \<Longrightarrow>
    sys_step L S R cfg V s (s\<lparr>sys_ps := ps', sys_cons := c', sys_dp := d', sys_stale := stale'\<rparr>)"
| Resync: "App_Bootstrap (local_app S R) now (sys_db s) (sys_dp s) = (r, d') \<Longrightarrow> small_pools (local_app S R) V (sys_db s) \<Longrightarrow>
    sys_step L S R cfg V s (s\<lparr>sys_dp := d', sys_stale := \<not> is_ok r\<rparr>)"
| Serve: "sys_step L S R cfg V s (s\<lparr>sys_dp := run_dp (local_app S R) call (sys_dp s)\<rparr>)"
| Others: "of_others op \<Longrightarrow> sys_step L S R cfg V s (s\<lparr>sys_ps := snd (ps_step op (sys_ps s))\<rparr>)"

definition sys_start :: "'db \<Rightarrow> pubsub \<Rightarrow> 'db sys" where
  "sys_start db p = \<lparr>sys_db = db, sys_ps = PubSub_Subscribe dpSub p, sys_cons = NewConsumer, sys_dp = NewApplication, sys_stale = True\<rparr>"

lemma bus_Publish:
  assumes "bus_open p"
  shows "bus_of (snd (PubSub_Publish e p)) = (if length (bus_of p) < ps_bufferSize p then bus_of p @ [e] else bus_of p)"
    "bus_open (snd (PubSub_Publish e p))"
proof -
  from assms obtain ch where "map_of (ps_chans p) dpSub = Some ch" "ch_open ch" by (auto simp: bus_open_def)
  then show "bus_of (snd (PubSub_Publish e p)) = (if length (bus_of p) < ps_bufferSize p then bus_of p @ [e] else bus_of p)"
    "bus_open (snd (PubSub_Publish e p))"
    by (simp_all add: bus_of_def bus_open_def PubSub_Publish_def try_send_def map_of_map)
qed

lemma bus_takes: "takes a p p' \<Longrightarrow> bus_of p = taken_from_bus a @ bus_of p'" "takes a p p' \<Longrightarrow> bus_open p' = bus_open p"
  by (cases a; auto simp: bus_of_def bus_open_def PubSub_receive_def map_of_map_entry split: option.splits list.splits)+

lemma bus_others:
  assumes "of_others op" "bus_open p"
  shows "bus_of (snd (ps_step op p)) = bus_of p" "bus_open (snd (ps_step op p))"
proof -
  from assms(2) obtain ch where "map_of (ps_chans p) dpSub = Some ch" "ch_open ch" by (auto simp: bus_open_def)
  moreover have "snd (queue_step n dpSub op ch) = ch" "op \<noteq> Subscribe dpSub" for n ch using assms(1) by (cases op; auto)+
  ultimately show "bus_of (snd (ps_step op p)) = bus_of p" "bus_open (snd (ps_step op p))"
    using step_view(1) [of p dpSub ch op] by (auto simp: bus_of_def bus_open_def)
qed

section \<open>What a call leaves alone\<close>

definition topology :: "store \<Rightarrow> (string \<rightharpoonup> entrypoint) \<times> (string \<rightharpoonup> flow) \<times> (string \<rightharpoonup> router)" where
  "topology st = (st_entrypoints st, st_flows st, st_routers st)"

definition fleet :: "store \<Rightarrow> (string \<rightharpoonup> proxy) \<times> (string \<rightharpoonup> pool) \<times> (string \<rightharpoonup> load_balancer)" where
  "fleet st = (st_proxies st, st_pools st, st_balancers st)"

definition about_fleet :: "change_event \<Rightarrow> bool" where
  "about_fleet e \<longleftrightarrow> event_ResourceType e \<in> {ResourceTypePool, ResourceTypeProxy, ResourceTypeBalancer}"

definition about_topology :: "change_event \<Rightarrow> bool" where
  "about_topology e \<longleftrightarrow> event_ResourceType e \<in> {ResourceTypeEntrypoint, ResourceTypeFlow, ResourceTypeRouter}"

definition known_kind :: "change_kind \<Rightarrow> bool" where
  "known_kind k \<longleftrightarrow> k = ChangeKindSaved \<or> k = ChangeKindDeleted"

lemma call_event_about:
  "about_fleet (call_event c) \<noteq> about_topology (call_event c)" "known_kind (event_ChangeKind (call_event c))"
  by (cases c; simp add: about_fleet_def about_topology_def known_kind_def saved_def deleted_def resource_type_defs)+

context cp_repos
begin

lemmas store_writes = px.save_ok px.save_fail px.delete_ok px.delete_fail pl.save_ok pl.save_fail pl.delete_ok pl.delete_fail
  bl.save_ok bl.save_fail bl.delete_ok bl.delete_fail rt.save_ok rt.save_fail rt.delete_ok rt.delete_fail
  fl.save_ok fl.save_fail fl.delete_ok fl.delete_fail ep.save_ok ep.save_fail ep.delete_ok ep.delete_fail

lemma exec_call_frame:
  "wp (exec_call L S c)
     (\<lambda>_ s'. if about_fleet (call_event c) then topology (abs (fst s')) = topology (abs (fst s)) else fleet (abs (fst s')) = fleet (abs (fst s)))
     (\<lambda>_ s'. abs (fst s') = abs (fst s)) s"
  by (cases c; simp only: exec_call.simps ApplyProxyV1_def ApplyPoolV1_def ApplyRouterV1_def ApplyBalancerV1_def ApplyFlowV1_def
      ApplyEntrypointV1_def DeleteProxy_def DeletePool_def DeleteBalancer_def DeleteRouter_def DeleteFlow_def DeleteEntrypoint_def
      Let_def case_prod_beta read_defs; intro wp_forget op_intros)
    (simp_all add: about_fleet_def saved_def deleted_def resource_type_defs topology_def fleet_def store_writes)

end

section \<open>What the consumer holds back\<close>

definition kinds_ok :: "consumer \<Rightarrow> bool" where
  "kinds_ok c \<longleftrightarrow> (\<forall>st i k. map_of (cons_keys c) keyEntrypoint = Some st \<longrightarrow> map_of (ks_entrypoints st) i = Some k \<longrightarrow> known_kind k)"

lemma kinds_okD: "kinds_ok c \<Longrightarrow> map_of (cons_keys c) keyEntrypoint = Some st \<Longrightarrow> map_of (ks_entrypoints st) i = Some k \<Longrightarrow> known_kind k"
  unfolding kinds_ok_def by blast

lemma buffer_event_parts:
  assumes "k \<in> {keyBalancer, keyTopology, keyEntrypoint}"
  shows "map_of (ks_entrypoints (buffer_event k e st)) =
      (if k = keyEntrypoint then (map_of (ks_entrypoints st))(event_ID e \<mapsto> event_ChangeKind e) else map_of (ks_entrypoints st))"
    and "ks_dirty (buffer_event k e st) \<longleftrightarrow> k \<noteq> keyEntrypoint \<or> ks_dirty st"
  using assms by (auto simp: buffer_event_def Let_def key_defs update_conv')

lemma buffer_step:
  assumes k: "coalesceKeyFor (event_ResourceType e) = Some k"
    and c': "c' = c\<lparr>cons_keys := AList.update k (buffer_event k e (case map_of (cons_keys c) k of None \<Rightarrow> new_key_state | Some st \<Rightarrow> st)) (cons_keys c)\<rparr>"
  shows "buffered t c \<or> topic e = Some t \<Longrightarrow> buffered t c'"
    and "kinds_ok c \<Longrightarrow> known_kind (event_ChangeKind e) \<Longrightarrow> kinds_ok c'"
proof -
  have known: "k \<in> {keyBalancer, keyTopology, keyEntrypoint}" using k by (auto simp: coalesceKeyFor_def split: if_splits)
  show "buffered t c \<or> topic e = Some t \<Longrightarrow> buffered t c'"
    using k known by (auto simp: c' buffered_def update_conv' buffer_event_parts topic_key)
  assume "kinds_ok c" "known_kind (event_ChangeKind e)"
  then show "kinds_ok c'"
    using known by (auto simp: c' kinds_ok_def update_conv' buffer_event_parts new_key_state_def split: option.splits if_splits)
qed

lemma flush_step:
  assumes "flushKey k c = (outs, c')"
  shows "buffered t c \<Longrightarrow> fst t \<in> {keyBalancer, keyTopology, keyEntrypoint} \<Longrightarrow> buffered t c' \<or> (\<exists>x \<in> set outs. topic x = Some t)"
    and "kinds_ok c \<Longrightarrow> kinds_ok c' \<and> (\<forall>x \<in> set outs. known_kind (event_ChangeKind x))"
proof -
  note keys = flushKey_keys [OF assms]
  show "buffered t c' \<or> (\<exists>x \<in> set outs. topic x = Some t)" if "buffered t c" "fst t \<in> {keyBalancer, keyTopology, keyEntrypoint}"
  proof (cases "fst t = k")
    case True
    from that(1) obtain st where st: "map_of (cons_keys c) (fst t) = Some st" by (auto simp: buffered_def)
    with key_events_buffered [OF st that] True assms show ?thesis by (simp add: flushKey_def takeKeyEvents_def)
  next
    case False
    with that(1) keys show ?thesis by (simp add: buffered_def)
  qed
  assume ok: "kinds_ok c"
  have "known_kind (event_ChangeKind x)" if "x \<in> set (key_events k st)" "map_of (cons_keys c) k = Some st" for x st
  proof (cases "k = keyEntrypoint")
    case True
    with key_events_topic(3) [OF that(1)] kinds_okD [OF ok] that(2) show ?thesis by simp
  next
    case False
    with that(1) show ?thesis by (auto simp: key_events_def known_kind_def split: if_splits)
  qed
  with assms have "\<forall>x \<in> set outs. known_kind (event_ChangeKind x)"
    by (auto simp: flushKey_def takeKeyEvents_def split: option.splits)
  with ok keys show "kinds_ok c' \<and> (\<forall>x \<in> set outs. known_kind (event_ChangeKind x))" by (auto simp: kinds_ok_def)
qed

lemma flush_keys_ConsD:
  assumes "flush_keys (k # ks) c = (outs, c')" "flushKey k c = (es, c1)"
  shows "\<exists>fs. flush_keys ks c1 = (fs, c') \<and> outs = es @ fs"
  using assms(1) unfolding flush_keys.simps assms(2) by (auto split: prod.splits)

lemma flush_keys_step:
  assumes "flush_keys ks c = (outs, c')"
  shows "buffered t c \<Longrightarrow> fst t \<in> {keyBalancer, keyTopology, keyEntrypoint} \<Longrightarrow> buffered t c' \<or> (\<exists>x \<in> set outs. topic x = Some t)"
    and "kinds_ok c \<Longrightarrow> kinds_ok c' \<and> (\<forall>x \<in> set outs. known_kind (event_ChangeKind x))"
  using assms
proof (induction ks arbitrary: c outs)
  case (Cons k ks)
  { case 1
    obtain es c1 where k: "flushKey k c = (es, c1)" by fastforce
    from flush_keys_ConsD [OF 1(3) k] obtain fs where ks: "flush_keys ks c1 = (fs, c')" "outs = es @ fs" by blast
    from flush_step(1) [OF k 1(1,2)] Cons(1) [OF _ 1(2) ks(1)] ks(2) show ?case by auto
  next
    case 2
    obtain es c1 where k: "flushKey k c = (es, c1)" by fastforce
    from flush_keys_ConsD [OF 2(2) k] obtain fs where ks: "flush_keys ks c1 = (fs, c')" "outs = es @ fs" by blast
    from flush_step(2) [OF k 2(1)] Cons(2) [OF _ ks(1)] ks(2) show ?case by auto
  }
qed auto

text \<open>A topic that is received or buffered is buffered or dispatched by the next step.\<close>

lemma received_cases:
  assumes "consumer_step cfg (Received e) c = (outs, c')"
  shows "outs = [e] \<and> c' = c \<or>
    (\<exists>k b. coalesceKeyFor (event_ResourceType e) = Some k \<and>
      b = c\<lparr>cons_keys := AList.update k (buffer_event k e (case map_of (cons_keys c) k of None \<Rightarrow> new_key_state | Some st \<Rightarrow> st)) (cons_keys c)\<rparr> \<and>
      ((outs, c') = ([], b) \<or> flushKey k b = (outs, c')))"
proof (cases "cfg_Window cfg \<le> 0 \<or> coalesceKeyFor (event_ResourceType e) = None \<or> cons_closed c")
  case True
  then show ?thesis using assms by (auto simp: offer_def split: option.splits if_splits)
next
  case False
  then obtain k where "coalesceKeyFor (event_ResourceType e) = Some k" by auto
  with False assms show ?thesis by (simp add: offer_def Let_def split: if_splits)
qed

lemma consumer_step_keeps:
  assumes step: "consumer_step cfg a c = (outs, c')" and known: "\<forall>e \<in> set (taken_from_bus a). known_kind (event_ChangeKind e)"
  shows "buffered t c \<or> (\<exists>e \<in> set (taken_from_bus a). topic e = Some t) \<Longrightarrow> fst t \<in> {keyBalancer, keyTopology, keyEntrypoint} \<Longrightarrow>
      buffered t c' \<or> (\<exists>x \<in> set outs. topic x = Some t)"
    and "kinds_ok c \<Longrightarrow> kinds_ok c' \<and> (\<forall>x \<in> set outs. known_kind (event_ChangeKind x))"
proof -
  have "(buffered t c \<or> (\<exists>e \<in> set (taken_from_bus a). topic e = Some t) \<longrightarrow> fst t \<in> {keyBalancer, keyTopology, keyEntrypoint} \<longrightarrow>
      buffered t c' \<or> (\<exists>x \<in> set outs. topic x = Some t)) \<and>
    (kinds_ok c \<longrightarrow> kinds_ok c' \<and> (\<forall>x \<in> set outs. known_kind (event_ChangeKind x)))"
  proof (cases a)
    case (Received e)
    then consider "outs = [e]" "c' = c"
      | k b where "coalesceKeyFor (event_ResourceType e) = Some k"
          "b = c\<lparr>cons_keys := AList.update k (buffer_event k e (case map_of (cons_keys c) k of None \<Rightarrow> new_key_state | Some st \<Rightarrow> st)) (cons_keys c)\<rparr>"
          "(outs, c') = ([], b) \<or> flushKey k b = (outs, c')"
      using received_cases [of cfg e c outs c'] step by blast
    then show ?thesis
    proof cases
      case 1
      with known Received show ?thesis by auto
    next
      case (2 k b)
      have "kinds_ok c \<Longrightarrow> kinds_ok b" using buffer_step(2) [OF 2(1,2)] known Received by simp
      moreover have "buffered t c \<or> topic e = Some t \<Longrightarrow> buffered t b" using buffer_step(1) [OF 2(1,2)] .
      moreover have "taken_from_bus a = [e]" using Received by simp
      ultimately show ?thesis using 2(3) flush_step [of k b outs c'] by (metis Pair_inject empty_iff list.set(1) set_ConsD)
    qed
  next
    case (TimerFired k)
    with step flush_step [of k c outs c'] show ?thesis by auto
  next
    case Closed
    have "buffered t (c\<lparr>cons_closed := True\<rparr>) = buffered t c" "kinds_ok (c\<lparr>cons_closed := True\<rparr>) = kinds_ok c"
      by (simp_all add: buffered_def kinds_ok_def)
    with step Closed flush_keys_step [of "map fst (cons_keys c)" "c\<lparr>cons_closed := True\<rparr>" outs c'] show ?thesis
      by (auto simp: flushAll_def split: if_splits)
  qed
  then show "buffered t c \<or> (\<exists>e \<in> set (taken_from_bus a). topic e = Some t) \<Longrightarrow> fst t \<in> {keyBalancer, keyTopology, keyEntrypoint} \<Longrightarrow>
      buffered t c' \<or> (\<exists>x \<in> set outs. topic x = Some t)"
    and "kinds_ok c \<Longrightarrow> kinds_ok c' \<and> (\<forall>x \<in> set outs. known_kind (event_ChangeKind x))" by blast+
qed

section \<open>What the handler restores\<close>

lemma about_topic:
  "about_fleet e \<longleftrightarrow> (\<exists>t. topic e = Some t \<and> fst t = keyBalancer)"
  "about_topology e \<longleftrightarrow> (\<exists>t. topic e = Some t \<and> (fst t = keyTopology \<or> fst t = keyEntrypoint))"
  by (auto simp: about_fleet_def about_topology_def topic_key coalesceKeyFor_def resource_type_defs key_defs split: if_splits)

lemma about_disjoint: "about_topology e \<Longrightarrow> \<not> about_fleet e"
  by (auto simp: about_topology_def about_fleet_def resource_type_defs)

context dp_source
begin

lemma HandleEvent_ok:
  assumes "HandleEvent A now db e d = (Inr u, d')" "known_kind (event_ChangeKind e)" "ref_ok (abs db)" "small_pools A abs db"
  shows "about_topology e \<Longrightarrow> cache_ok (abs db) (dp_cache d')" "\<not> about_topology e \<Longrightarrow> dp_cache d' = dp_cache d"
    and "about_fleet e \<Longrightarrow> registry_ok (abs db) (dp_registry d')" "\<not> about_fleet e \<Longrightarrow> dp_registry d' = dp_registry d"
proof -
  consider (topology) "about_topology e" "\<not> about_fleet e" | (fleet) "about_fleet e" "\<not> about_topology e"
    | (neither) "\<not> about_topology e" "\<not> about_fleet e"
    using about_disjoint [of e] by blast
  then have "(about_topology e \<longrightarrow> cache_ok (abs db) (dp_cache d')) \<and> (\<not> about_topology e \<longrightarrow> dp_cache d' = dp_cache d) \<and>
    (about_fleet e \<longrightarrow> registry_ok (abs db) (dp_registry d')) \<and> (\<not> about_fleet e \<longrightarrow> dp_registry d' = dp_registry d)"
  proof cases
    case topology
    with assms(1,2) have "bind_op (warmupCache A db) (\<lambda>_. validateAll A) d = (Inr u, d')"
      by (simp add: HandleEvent_def about_topology_def known_kind_def)
    then obtain d1 where "warmupCache A db d = (Inr (), d1)" "validateAll A d1 = (Inr u, d')"
      unfolding bind_op_Inr_iff by auto
    from warmup_ok [OF this assms(3)] topology show ?thesis by simp
  next
    case fleet
    with assms(1,2) have "balancer_Bootstrap A now db d = (Inr u, d')"
      by (simp add: HandleEvent_def about_topology_def about_fleet_def known_kind_def)
    then obtain reg where "Service_Bootstrap (app_cp A) (app_resolver A) now db (dp_registry d) = (Inr u, reg)" "d' = d\<lparr>dp_registry := reg\<rparr>"
      by (auto simp: balancer_Bootstrap_def on_registry_def split: prod.splits)
    with Service_Bootstrap_ok [OF _ assms(3,4)] fleet show ?thesis by simp
  next
    case neither
    with assms(1) show ?thesis by (auto simp: HandleEvent_def about_topology_def about_fleet_def lift_op_def split: if_splits)
  qed
  then show "about_topology e \<Longrightarrow> cache_ok (abs db) (dp_cache d')" "\<not> about_topology e \<Longrightarrow> dp_cache d' = dp_cache d"
    "about_fleet e \<Longrightarrow> registry_ok (abs db) (dp_registry d')" "\<not> about_fleet e \<Longrightarrow> dp_registry d' = dp_registry d" by blast+
qed

lemma handle_event_stale: "snd x \<Longrightarrow> snd (fold (handle_event A now db) es x)"
  by (induction es arbitrary: x) (auto simp: handle_event_def split: prod.splits)

lemma handle_events_ok:
  assumes "\<not> snd (fold (handle_event A now db) es x)" "\<forall>e \<in> set es. known_kind (event_ChangeKind e)"
    and "ref_ok (abs db)" "small_pools A abs db"
  shows "cache_ok (abs db) (dp_cache (fst x)) \<or> (\<exists>e \<in> set es. about_topology e) \<Longrightarrow>
      cache_ok (abs db) (dp_cache (fst (fold (handle_event A now db) es x)))"
    and "registry_ok (abs db) (dp_registry (fst x)) \<or> (\<exists>e \<in> set es. about_fleet e) \<Longrightarrow>
      registry_ok (abs db) (dp_registry (fst (fold (handle_event A now db) es x)))"
  using assms
proof (induction es arbitrary: x)
  case (Cons e es)
  have step: "HandleEvent A now db e (fst x) = (Inr (), fst (handle_event A now db e x))" if "\<not> snd (fold (handle_event A now db) (e # es) x)" for x
    using that handle_event_stale [of "handle_event A now db e x" now db es]
    by (auto simp: handle_event_def is_ok_def split: prod.splits sum.splits)
  { case 1
    with Cons(1) [of "handle_event A now db e x"] HandleEvent_ok(1,2) [OF step [OF 1(2)]] show ?case
      by (cases "about_topology e") auto
  next
    case 2
    with Cons(2) [of "handle_event A now db e x"] HandleEvent_ok(3,4) [OF step [OF 2(2)]] show ?case
      by (cases "about_fleet e") auto
  }
qed auto

end

section \<open>Consistency at rest\<close>

definition pending :: "(change_event \<Rightarrow> bool) \<Rightarrow> 'db sys \<Rightarrow> bool" where
  "pending g s \<longleftrightarrow> (\<exists>e. g e \<and> (e \<in> set (bus_of (sys_ps s)) \<or> (\<exists>t. topic e = Some t \<and> buffered t (sys_cons s))))"

definition sys_inv :: "('db \<Rightarrow> store) \<Rightarrow> 'db sys \<Rightarrow> bool" where
  "sys_inv V s \<longleftrightarrow> bus_open (sys_ps s) \<and> ref_ok (V (sys_db s)) \<and> (\<forall>e \<in> set (bus_of (sys_ps s)). known_kind (event_ChangeKind e)) \<and> kinds_ok (sys_cons s) \<and>
     (\<not> sys_stale s \<longrightarrow>
        (pending about_topology s \<or> cache_ok (V (sys_db s)) (dp_cache (sys_dp s))) \<and>
        (pending about_fleet s \<or> registry_ok (V (sys_db s)) (dp_registry (sys_dp s))))"

lemma store_parts:
  "topology st = topology st' \<Longrightarrow> cache_ok st c = cache_ok st' c" "fleet st = fleet st' \<Longrightarrow> registry_ok st r = registry_ok st' r"
  by (simp_all add: topology_def fleet_def cache_ok_def registry_ok_def pool_serves_def)

text \<open>A consumer step keeps what is pending, or dispatches an event of the same group.\<close>

lemma pending_step:
  assumes taken: "takes a (sys_ps s) ps'" and step: "consumer_step cfg a (sys_cons s) = (outs, c')"
    and known: "\<forall>e \<in> set (bus_of (sys_ps s)). known_kind (event_ChangeKind e)"
    and g: "g = about_fleet \<or> g = about_topology" and "pending g s"
  shows "pending g (s\<lparr>sys_ps := ps', sys_cons := c', sys_dp := d', sys_stale := b\<rparr>) \<or> (\<exists>x \<in> set outs. g x)"
proof -
  note bus = bus_takes(1) [OF taken]
  have known': "\<forall>e \<in> set (taken_from_bus a). known_kind (event_ChangeKind e)" using known bus by simp
  from \<open>pending g s\<close> obtain e where e: "g e" "e \<in> set (bus_of (sys_ps s)) \<or> (\<exists>t. topic e = Some t \<and> buffered t (sys_cons s))"
    by (auto simp: pending_def)
  then obtain t where t: "topic e = Some t" using g by (auto simp: about_topic)
  have same: "g x" if "topic x = Some t" for x using that t e(1) g by (auto simp: about_topic)
  show ?thesis
  proof (cases "e \<in> set (bus_of ps')")
    case True
    with e(1) show ?thesis by (auto simp: pending_def)
  next
    case False
    with e(2) bus t have "buffered t (sys_cons s) \<or> (\<exists>e \<in> set (taken_from_bus a). topic e = Some t)" by auto
    from consumer_step_keeps(1) [OF step known' this topic_known [OF t]] show ?thesis
    proof
      assume "buffered t c'"
      with e(1) t show ?thesis unfolding pending_def by (intro disjI1 exI [of _ e]) simp
    next
      assume "\<exists>x \<in> set outs. topic x = Some t"
      with same show ?thesis by blast
    qed
  qed
qed

context badger_store
begin

lemma sys_step_inv:
  assumes "sys_step L (badger_service B J PubSub_Publish) R cfg st s s'" "sys_inv st s"
  shows "sys_inv st s'"
  using assms
proof cases
  case (Call c r db' ps')
  let ?S = "badger_service B J PubSub_Publish"
  note event = exec_call_event [of L ?S c "(sys_db s, sys_ps s)"] cp.exec_call_frame [of L PubSub_Publish c "(sys_db s, sys_ps s)"]
  have ref: "ref_ok (st db')"
    using service_calls_ok [of "sys_db s" "[c]" L PubSub_Publish "sys_ps s"] Call assms(2)
    by (simp add: sys_inv_def st_def run_call_def)
  have live: "bus_open (sys_ps s)" using assms(2) by (simp add: sys_inv_def)
  show ?thesis
  proof (cases r)
    case (Inl e)
    with event Call have "ps' = sys_ps s" "st db' = st (sys_db s)" by (simp_all add: wp_def)
    with Call(1) Inl assms(2) show ?thesis by (simp add: sys_inv_def pending_def)
  next
    case (Inr u)
    with event Call have ps': "ps' = snd (PubSub_Publish (call_event c) (sys_ps s))"
      and same: "if about_fleet (call_event c) then topology (st db') = topology (st (sys_db s)) else fleet (st db') = fleet (st (sys_db s))"
      by (simp_all add: wp_def split: if_splits)
    have bus: "bus_of ps' = (if sys_stale s' then bus_of ps' else bus_of (sys_ps s) @ [call_event c])"
      and bus_known: "set (bus_of ps') \<subseteq> insert (call_event c) (set (bus_of (sys_ps s)))"
      using Call(1) Inr bus_Publish(1) [OF live] by (auto simp: ps')
    have pend: "pending g s \<or> g (call_event c) \<Longrightarrow> \<not> sys_stale s' \<Longrightarrow> pending g s'" for g using Call(1) bus by (auto simp: pending_def)
    have s': "sys_db s' = db'" "sys_dp s' = sys_dp s" "sys_ps s' = ps'" "\<not> sys_stale s' \<Longrightarrow> \<not> sys_stale s" "sys_cons s' = sys_cons s" using Call(1) by simp_all
    have known: "\<forall>e \<in> set (bus_of ps'). known_kind (event_ChangeKind e)"
      using assms(2) call_event_about(2) [of c] bus_known by (auto simp: sys_inv_def)
    have "pending about_topology s' \<or> cache_ok (st db') (dp_cache (sys_dp s))" if "\<not> sys_stale s'"
    proof (cases "about_fleet (call_event c)")
      case True
      with same have "topology (st db') = topology (st (sys_db s))" by simp
      from store_parts(1) [OF this] that s'(4) assms(2) pend show ?thesis unfolding sys_inv_def by blast
    next
      case False
      with call_event_about(1) [of c] pend that show ?thesis by blast
    qed
    moreover have "pending about_fleet s' \<or> registry_ok (st db') (dp_registry (sys_dp s))" if "\<not> sys_stale s'"
    proof (cases "about_fleet (call_event c)")
      case False
      with same have "fleet (st db') = fleet (st (sys_db s))" by simp
      from store_parts(2) [OF this] that s'(4) assms(2) pend show ?thesis unfolding sys_inv_def by blast
    next
      case True
      with pend that show ?thesis by blast
    qed
    ultimately show ?thesis using ref known assms(2) bus_Publish(2) [OF live, of "call_event c"] ps' unfolding sys_inv_def s'(1,2,3,5) by blast
  qed
next
  case (Consume a ps' outs c' now d' stale')
  let ?A = "local_app (badger_service B J PubSub_Publish) R"
  have i: "ref_ok (st (sys_db s))" "\<forall>e \<in> set (bus_of (sys_ps s)). known_kind (event_ChangeKind e)" "kinds_ok (sys_cons s)"
    using assms(2) by (simp_all add: sys_inv_def)
  have known: "\<forall>e \<in> set (taken_from_bus a). known_kind (event_ChangeKind e)" using i(2) bus_takes(1) [OF Consume(2)] by simp
  note kinds = consumer_step_keeps(2) [OF Consume(3) known i(3)]
  note ok = dps.handle_events_ok [OF _ _ i(1) Consume(5), where x = "(sys_dp s, sys_stale s)" and es = outs and now = now, unfolded Consume(4) fst_conv snd_conv]
  have fresh: "\<not> sys_stale s" if "\<not> stale'"
    using that dps.handle_event_stale [of "(sys_dp s, sys_stale s)" PubSub_Publish R now "sys_db s" outs] Consume(4) by auto
  note pend = pending_step [OF Consume(2,3) i(2), where d' = d' and b = stale']
  have "pending about_topology s' \<or> cache_ok (st (sys_db s)) (dp_cache d')" if "\<not> stale'"
  proof (cases "pending about_topology s \<and> \<not> (\<exists>x \<in> set outs. about_topology x)")
    case True
    then show ?thesis using pend [of about_topology] Consume(1) by blast
  next
    case False
    then have "cache_ok (st (sys_db s)) (dp_cache (sys_dp s)) \<or> (\<exists>x \<in> set outs. about_topology x)"
      using assms(2) fresh [OF that] unfolding sys_inv_def by blast
    then show ?thesis using ok(1) that kinds by blast
  qed
  moreover have "pending about_fleet s' \<or> registry_ok (st (sys_db s)) (dp_registry d')" if "\<not> stale'"
  proof (cases "pending about_fleet s \<and> \<not> (\<exists>x \<in> set outs. about_fleet x)")
    case True
    then show ?thesis using pend [of about_fleet] Consume(1) by blast
  next
    case False
    then have "registry_ok (st (sys_db s)) (dp_registry (sys_dp s)) \<or> (\<exists>x \<in> set outs. about_fleet x)"
      using assms(2) fresh [OF that] unfolding sys_inv_def by blast
    then show ?thesis using ok(2) that kinds by blast
  qed
  ultimately show ?thesis using Consume(1) bus_takes [OF Consume(2)] i kinds assms(2) by (simp add: sys_inv_def)
next
  case (Resync now r d')
  have "dp_ok (st (sys_db s)) d'" if "r = Inr ()"
    using dps.App_Bootstrap_ok [OF Resync(2) [unfolded that]] assms(2) Resync(3)
    by (simp add: sys_inv_def)
  with Resync(1) assms(2) show ?thesis by (cases r) (simp_all add: sys_inv_def dp_ok_def pending_def)
next
  case (Others op)
  with assms(2) bus_others [OF Others(2)] show ?thesis by (simp add: sys_inv_def pending_def)
next
  case (Serve call)
  with assms(2) run_dp_registry [of "st (sys_db s)" "sys_dp s"] show ?thesis
    by (simp add: sys_inv_def pending_def run_dp_cache) blast
qed

lemma sys_reachable_inv:
  assumes "(sys_step L (badger_service B J PubSub_Publish) R cfg st)\<^sup>*\<^sup>* (sys_start db p) s" "ref_ok (st db)"
  shows "sys_inv st s"
  using assms(1)
proof (induction rule: rtranclp_induct)
  case base
  then show ?case using assms(2) by (simp add: sys_inv_def sys_start_def kinds_ok_def NewConsumer_def bus_of_def bus_open_def PubSub_Subscribe_def update_conv')
next
  case (step s s')
  then show ?case using sys_step_inv by blast
qed

lemma system_at_rest:
  assumes "sys_inv st s" "bus_of (sys_ps s) = []" "cons_keys (sys_cons s) = []" "\<not> sys_stale s"
  shows "dp_ok (st (sys_db s)) (sys_dp s) \<and> ref_ok (st (sys_db s))"
  using assms by (auto simp: sys_inv_def pending_def buffered_def dp_ok_def)

end


definition sample_cfg :: coalesce_config where
  "sample_cfg = \<lparr>cfg_Window = 5, cfg_MaxBuffer = 0\<rparr>"

definition sample_S :: "(ref_db, pubsub) service" where
  "sample_S = badger_service ref_badger ref_json PubSub_Publish"

definition sample_ps :: pubsub where
  "sample_ps = PubSub_Subscribe dpSub (NewPubSub 10)"

text \<open>A full resync, a proxy applied, its event received and, when the window has passed, handled.\<close>

definition sample_call :: cp_call where
  "sample_call = CApplyProxy ''u1'' 6 \<lparr>meta_Name = ''z'', meta_Labels = []\<rparr>
     \<lparr>pxs_URL = [], pxs_Protocol = ''http'', pxs_Host = ''h'', pxs_Port = 80, pxs_Auth = None\<rparr>"

definition sample_event_z :: change_event where
  "sample_event_z = \<lparr>event_ID = ''z'', event_ResourceType = ResourceTypeProxy, event_ChangeKind = ChangeKindSaved\<rparr>"

definition sample_db2 :: ref_db where
  "sample_db2 = fst (snd (exec_call sample_libs sample_S sample_call (sample_dp_db, sample_ps)))"

definition sample_dp2 :: dp where
  "sample_dp2 = snd (App_Bootstrap (local_app sample_S ex_regexp) 5 sample_dp_db NewApplication)"

definition sample_dp3 :: dp where
  "sample_dp3 = fst (handle_event (local_app sample_S ex_regexp) 9 sample_db2
     \<lparr>event_ID = coalescedEventID, event_ResourceType = ResourceTypeProxy, event_ChangeKind = ChangeKindSaved\<rparr> (sample_dp2, False))"

lemma sample_db2_eq:
  "sample_db2 = sample_dp_db @ [(proxyKey ''z'', BProxy \<lparr>StorageVersion = ''v1'', Kind = ''Proxy'', Stored_Labels = [], Spec =
     \<lparr>proxy_ts = \<lparr>CreatedAt = 6, UpdatedAt = 6\<rparr>, proxy_Id = ''z'', proxy_Protocol = ''http'', proxy_Host = ''h'', proxy_Port = 80,
      proxy_Auth = None, proxy_Labels = []\<rparr>\<rparr>)]"
  by code_simp

lemma sample_pieces:
  "exec_call sample_libs sample_S sample_call (sample_dp_db, sample_ps) = (Inr (), (sample_db2, snd (PubSub_Publish sample_event_z sample_ps)))"
  "fst (App_Bootstrap (local_app sample_S ex_regexp) 5 sample_dp_db NewApplication) = Inr ()"
  "\<not> snd (handle_event (local_app sample_S ex_regexp) 9 sample_db2
     \<lparr>event_ID = coalescedEventID, event_ResourceType = ResourceTypeProxy, event_ChangeKind = ChangeKindSaved\<rparr> (sample_dp2, False))"
  by code_simp+

lemma sample_small:
  "small_pools (local_app sample_S ex_regexp) (\<lambda>db. abs_store ref_json (map_of db)) sample_dp_db"
  "small_pools (local_app sample_S ex_regexp) (\<lambda>db. abs_store ref_json (map_of db)) sample_db2"
proof -
  let ?p = "persist_pool (sample_pool ''p'' [(''q'', 1)])"
  have "resolveProxies (app_resolver (local_app sample_S ex_regexp)) ?p sample_dp_db = Inr [sample_proxy ''q'']"
    "resolveProxies (app_resolver (local_app sample_S ex_regexp)) ?p sample_db2 = Inr [sample_proxy ''q'']" by code_simp+
  moreover have "st_pools (abs_store ref_json (map_of sample_db2)) = st_pools (abs_store ref_json (map_of sample_dp_db))"
    by (auto simp: abs_map_def sample_db2_eq poolKey_def proxyKey_def prefix_defs map_add_def fun_eq_iff split: option.splits)
  ultimately show "small_pools (local_app sample_S ex_regexp) (\<lambda>db. abs_store ref_json (map_of db)) sample_dp_db"
    "small_pools (local_app sample_S ex_regexp) (\<lambda>db. abs_store ref_json (map_of db)) sample_db2"
    unfolding small_pools_def by (simp_all add: sample_dp_st del: abs_store_sel)
qed

definition sample_rest :: "ref_db sys" where
  "sample_rest = \<lparr>sys_db = sample_db2, sys_ps = sample_ps, sys_cons = NewConsumer, sys_dp = sample_dp3, sys_stale = False\<rparr>"

lemma sample_run:
  "(sys_step sample_libs sample_S ex_regexp sample_cfg (\<lambda>db. abs_store ref_json (map_of db)))\<^sup>*\<^sup>* (sys_start sample_dp_db (NewPubSub 10)) sample_rest"
proof -
  let ?step = "sys_step sample_libs sample_S ex_regexp sample_cfg (\<lambda>db. abs_store ref_json (map_of db))"
  define c where "c = snd (consumer_step sample_cfg (Received sample_event_z) NewConsumer)"
  define s1 where "s1 = \<lparr>sys_db = sample_dp_db, sys_ps = sample_ps, sys_cons = NewConsumer, sys_dp = sample_dp2, sys_stale = False\<rparr>"
  define s2 where "s2 = \<lparr>sys_db = sample_db2, sys_ps = snd (PubSub_Publish sample_event_z sample_ps), sys_cons = NewConsumer, sys_dp = sample_dp2, sys_stale = False\<rparr>"
  define s3 where "s3 = \<lparr>sys_db = sample_db2, sys_ps = sample_ps, sys_cons = c, sys_dp = sample_dp2, sys_stale = False\<rparr>"
  have room: "\<not> ps_bufferSize sample_ps \<le> length (bus_of sample_ps)"
    "PubSub_receive dpSub (snd (PubSub_Publish sample_event_z sample_ps)) = (Some sample_event_z, sample_ps)" by code_simp+
  have "?step (sys_start sample_dp_db (NewPubSub 10)) s1"
    using sys_step.Resync [where s = "sys_start sample_dp_db (NewPubSub 10)" and r = "Inr ()" and d' = sample_dp2 and now = 5] sample_pieces(2) sample_small(1)
    by (simp add: sys_start_def s1_def sample_dp2_def sample_ps_def prod_eq_iff)
  moreover have "?step s1 s2"
    using sys_step.Call [where s = s1, OF _ , of sample_libs sample_S sample_call "Inr ()" sample_db2 "snd (PubSub_Publish sample_event_z sample_ps)"]
      sample_pieces(1) room by (simp add: s1_def s2_def sample_call_def)
  moreover have "consumer_step sample_cfg (Received sample_event_z) NewConsumer = ([], c)" unfolding c_def by code_simp
  then have "?step s2 s3"
    using sys_step.Consume [where s = s2 and a = "Received sample_event_z" and ps' = sample_ps and outs = "[]" and c' = c and d' = sample_dp2 and stale' = False] sample_small(2) room(2)
    by (simp add: s2_def s3_def del: consumer_step.simps)
  moreover have "consumer_step sample_cfg (TimerFired keyBalancer) c =
      ([\<lparr>event_ID = coalescedEventID, event_ResourceType = ResourceTypeProxy, event_ChangeKind = ChangeKindSaved\<rparr>], NewConsumer)" unfolding c_def by code_simp
  then have "?step s3 sample_rest"
    using sys_step.Consume [where s = s3 and a = "TimerFired keyBalancer" and ps' = sample_ps and c' = NewConsumer and now = 9 and d' = sample_dp3 and stale' = False]
      sample_small(2) sample_pieces(3)
    by (simp add: s3_def sample_rest_def sample_dp3_def prod_eq_iff del: consumer_step.simps)
  ultimately show ?thesis by (meson converse_rtranclp_into_rtranclp rtranclp.rtrancl_refl)
qed


end
