(* ===== verification/LinkState.thy ===== *)
theory LinkState
  imports Ports
begin

text \<open>
  \<^verbatim>\<open>application/dataplane/agenthost/linkstate.go\<close> and \<^verbatim>\<open>ports/cplink.go\<close>: the agent's view of whether
  its control plane can be reached, from two proofs, a recent heartbeat and an open watch stream.
  The mutex makes each method atomic and a method reads the clock once, its argument \<open>now\<close>; the
  published snapshot is the atomic pointer.
\<close>

section \<open>Model\<close>

definition CPLinkConnected :: string where "CPLinkConnected = ''connected''"
definition CPLinkDegraded :: string where "CPLinkDegraded = ''degraded''"
definition CPLinkUnreachable :: string where "CPLinkUnreachable = ''unreachable''"
definition CPDisconnectFailOpen :: string where "CPDisconnectFailOpen = ''fail_open''"
definition CPDisconnectFailClosed :: string where "CPDisconnectFailClosed = ''fail_closed''"

lemmas link_defs = CPLinkConnected_def CPLinkDegraded_def CPLinkUnreachable_def CPDisconnectFailOpen_def CPDisconnectFailClosed_def

record cp_link_snapshot =
  snap_State :: string
  snap_Strategy :: string
  snap_Rejecting :: bool
  snap_RetryAfterSeconds :: int
  snap_LastHeartbeat :: time
  snap_WatchUp :: bool

record link_config =
  lc_Strategy :: string
  lc_UnreachableThreshold :: duration
  lc_RecoverThreshold :: duration

record link_state =
  ls_strategy :: string
  ls_unreachableThreshold :: duration
  ls_recoverThreshold :: duration
  ls_lastHB :: time
  ls_watchUp :: bool
  ls_bothStaleSince :: time
  ls_recoverSince :: time
  ls_unreachable :: bool
  ls_lastState :: string
  ls_snap :: "cp_link_snapshot option"

definition NewLinkState :: "link_config \<Rightarrow> link_state" where
  "NewLinkState cfg =
     \<lparr>ls_strategy = (if lc_Strategy cfg = [] then CPDisconnectFailOpen else lc_Strategy cfg),
      ls_unreachableThreshold = (if lc_UnreachableThreshold cfg \<le> 0 then 30 * Second else lc_UnreachableThreshold cfg),
      ls_recoverThreshold = lc_RecoverThreshold cfg,
      ls_lastHB = zero_time, ls_watchUp = False, ls_bothStaleSince = zero_time, ls_recoverSince = zero_time,
      ls_unreachable = False, ls_lastState = [], ls_snap = None\<rparr>"

definition proofsStaleLocked :: "time \<Rightarrow> link_state \<Rightarrow> bool \<times> bool" where
  "proofsStaleLocked now s =
     (IsZero (ls_lastHB s) \<or> time_Sub now (ls_lastHB s) > ls_unreachableThreshold s, \<not> ls_watchUp s)"

definition observableStateLocked :: "time \<Rightarrow> link_state \<Rightarrow> string" where
  "observableStateLocked now s =
     (case proofsStaleLocked now s of (hbStale, watchStale) \<Rightarrow>
        if ls_unreachable s then CPLinkUnreachable
        else if hbStale \<or> watchStale then CPLinkDegraded
        else CPLinkConnected)"

text \<open>Go's integer division truncates; the threshold is positive.\<close>

definition publishLocked :: "time \<Rightarrow> link_state \<Rightarrow> link_state" where
  "publishLocked now s =
     (let retryAfter = ls_unreachableThreshold s div Second;
          retryAfter = (if retryAfter < 1 then 1 else retryAfter)
      in s\<lparr>ls_snap := Some
            \<lparr>snap_State = observableStateLocked now s, snap_Strategy = ls_strategy s,
             snap_Rejecting = (ls_unreachable s \<and> ls_strategy s = CPDisconnectFailClosed),
             snap_RetryAfterSeconds = retryAfter, snap_LastHeartbeat = ls_lastHB s, snap_WatchUp = ls_watchUp s\<rparr>\<rparr>)"

definition logTransitionLocked :: "time \<Rightarrow> link_state \<Rightarrow> link_state" where
  "logTransitionLocked now s =
     (let state = observableStateLocked now s in if state = ls_lastState s then s else s\<lparr>ls_lastState := state\<rparr>)"

definition recompute_flags :: "time \<Rightarrow> link_state \<Rightarrow> link_state" where
  "recompute_flags now s =
     (case proofsStaleLocked now s of (hbStale, watchStale) \<Rightarrow>
        if hbStale \<and> watchStale then
          let s = (if IsZero (ls_bothStaleSince s) then s\<lparr>ls_bothStaleSince := now\<rparr> else s);
              s = s\<lparr>ls_recoverSince := zero_time\<rparr>
          in if time_Sub now (ls_bothStaleSince s) \<ge> ls_unreachableThreshold s then s\<lparr>ls_unreachable := True\<rparr> else s
        else
          let s = s\<lparr>ls_bothStaleSince := zero_time\<rparr>
          in if ls_unreachable s then
               if hbStale \<or> watchStale then s\<lparr>ls_recoverSince := zero_time\<rparr>
               else
                 let s = (if IsZero (ls_recoverSince s) then s\<lparr>ls_recoverSince := now\<rparr> else s)
                 in if time_Sub now (ls_recoverSince s) \<ge> ls_recoverThreshold s
                    then s\<lparr>ls_unreachable := False, ls_recoverSince := zero_time\<rparr>
                    else s
             else s)"

definition recomputeLocked :: "time \<Rightarrow> link_state \<Rightarrow> link_state" where
  "recomputeLocked now s = publishLocked now (logTransitionLocked now (recompute_flags now s))"

definition TouchHeartbeat :: "time \<Rightarrow> link_state \<Rightarrow> link_state" where
  "TouchHeartbeat now s = recomputeLocked now (s\<lparr>ls_lastHB := now\<rparr>)"

definition MarkWatchUp :: "time \<Rightarrow> link_state \<Rightarrow> link_state" where
  "MarkWatchUp now s = recomputeLocked now (s\<lparr>ls_watchUp := True\<rparr>)"

definition MarkWatchDown :: "time \<Rightarrow> link_state \<Rightarrow> link_state" where
  "MarkWatchDown now s = recomputeLocked now (s\<lparr>ls_watchUp := False\<rparr>)"

definition timeMayAdvance :: "time \<Rightarrow> link_state \<Rightarrow> cp_link_snapshot \<Rightarrow> bool" where
  "timeMayAdvance now s snap =
     (let hbStale = (IsZero (snap_LastHeartbeat snap) \<or> time_Sub now (snap_LastHeartbeat snap) > ls_unreachableThreshold s);
          watchStale = (\<not> snap_WatchUp snap);
          bothStale = (hbStale \<and> watchStale)
      in if snap_State snap = CPLinkUnreachable then \<not> bothStale else bothStale)"

definition published_or_degraded :: "link_state \<Rightarrow> cp_link_snapshot" where
  "published_or_degraded s =
     (case ls_snap s of
        Some published \<Rightarrow> published
      | None \<Rightarrow> \<lparr>snap_State = CPLinkDegraded, snap_Strategy = ls_strategy s, snap_Rejecting = False, snap_RetryAfterSeconds = 0,
                 snap_LastHeartbeat = zero_time, snap_WatchUp = False\<rparr>)"

definition Snapshot :: "time \<Rightarrow> link_state \<Rightarrow> cp_link_snapshot \<times> link_state" where
  "Snapshot now s =
     (if (case ls_snap s of None \<Rightarrow> False | Some published \<Rightarrow> \<not> timeMayAdvance now s published)
      then (the (ls_snap s), s)
      else let s = recomputeLocked now s in (published_or_degraded s, s))"

section \<open>Runs\<close>

datatype link_event = HeartbeatOk | WatchUp | WatchDown | Read

fun link_step :: "time \<times> link_event \<Rightarrow> link_state \<Rightarrow> link_state" where
  "link_step (now, HeartbeatOk) s = TouchHeartbeat now s"
| "link_step (now, WatchUp) s = MarkWatchUp now s"
| "link_step (now, WatchDown) s = MarkWatchDown now s"
| "link_step (now, Read) s = snd (Snapshot now s)"

definition both_stale :: "time \<Rightarrow> link_state \<Rightarrow> bool" where
  "both_stale now s \<longleftrightarrow> fst (proofsStaleLocked now s) \<and> snd (proofsStaleLocked now s)"

text \<open>The published snapshot is the view of the state as it was last recomputed.\<close>

definition link_inv :: "link_state \<Rightarrow> bool" where
  "link_inv s \<longleftrightarrow> 0 < ls_unreachableThreshold s \<and>
     (case ls_snap s of
        None \<Rightarrow> \<not> ls_unreachable s
      | Some sn \<Rightarrow> (snap_State sn = CPLinkUnreachable \<longleftrightarrow> ls_unreachable s) \<and> snap_Strategy sn = ls_strategy s \<and>
          (snap_Rejecting sn \<longleftrightarrow> ls_unreachable s \<and> ls_strategy s = CPDisconnectFailClosed) \<and>
          1 \<le> snap_RetryAfterSeconds sn \<and> snap_LastHeartbeat sn = ls_lastHB s \<and> snap_WatchUp sn = ls_watchUp s)"

lemmas recompute_defs = recomputeLocked_def publishLocked_def logTransitionLocked_def Let_def

lemma flags_keep [simp]:
  "ls_lastHB (recompute_flags now s) = ls_lastHB s" "ls_watchUp (recompute_flags now s) = ls_watchUp s"
  "ls_strategy (recompute_flags now s) = ls_strategy s"
  "ls_unreachableThreshold (recompute_flags now s) = ls_unreachableThreshold s"
  by (simp_all add: recompute_flags_def proofsStaleLocked_def Let_def)

lemma recompute_keeps [simp]:
  "ls_lastHB (recomputeLocked now s) = ls_lastHB s" "ls_watchUp (recomputeLocked now s) = ls_watchUp s"
  "ls_strategy (recomputeLocked now s) = ls_strategy s"
  "ls_unreachableThreshold (recomputeLocked now s) = ls_unreachableThreshold s"
  by (simp_all add: recompute_defs)

lemma recompute_flags_eq [simp]:
  "ls_unreachable (recomputeLocked now s) = ls_unreachable (recompute_flags now s)"
  "ls_bothStaleSince (recomputeLocked now s) = ls_bothStaleSince (recompute_flags now s)"
  by (simp_all add: recompute_defs)

lemma recompute_inv:
  assumes "0 < ls_unreachableThreshold s"
  shows "link_inv (recomputeLocked now s)"
  using assms
  by (auto simp: recompute_defs link_inv_def observableStateLocked_def link_defs split: prod.splits)

lemma both_stale_recompute:
  "both_stale now s \<Longrightarrow> ls_bothStaleSince (recompute_flags now s) = (if IsZero (ls_bothStaleSince s) then now else ls_bothStaleSince s)"
  "\<not> both_stale now s \<Longrightarrow> ls_bothStaleSince (recompute_flags now s) = zero_time"
  "both_stale now s \<Longrightarrow> ls_unreachable (recompute_flags now s) \<longleftrightarrow>
     ls_unreachable s \<or> ls_unreachableThreshold s \<le> time_Sub now (if IsZero (ls_bothStaleSince s) then now else ls_bothStaleSince s)"
  "\<not> both_stale now s \<Longrightarrow> ls_unreachable (recompute_flags now s) \<Longrightarrow> ls_unreachable s"
  by (auto simp: both_stale_def recompute_flags_def Let_def split: prod.splits if_splits)

lemma may_advance:
  assumes "link_inv s" "ls_snap s = Some sn"
  shows "timeMayAdvance now s sn \<longleftrightarrow> ls_unreachable s \<noteq> both_stale now s"
  using assms by (auto simp: timeMayAdvance_def link_inv_def both_stale_def proofsStaleLocked_def Let_def)

lemma Snapshot_cases:
  assumes "link_inv s"
  shows "ls_snap s \<noteq> None \<and> ls_unreachable s = both_stale now s \<and> Snapshot now s = (the (ls_snap s), s) \<or>
     Snapshot now s = (published_or_degraded (recomputeLocked now s), recomputeLocked now s)"
  using may_advance [OF assms] by (auto simp: Snapshot_def Let_def split: option.splits)

lemma step_link_inv: "link_inv s \<Longrightarrow> link_inv (link_step x s)"
proof -
  assume inv: "link_inv s"
  then have "0 < ls_unreachableThreshold s" by (simp add: link_inv_def)
  with inv Snapshot_cases [OF inv, of "fst x"] show ?thesis
    by (cases x; cases "snd x") (auto simp: TouchHeartbeat_def MarkWatchUp_def MarkWatchDown_def intro!: recompute_inv)
qed

lemma run_link_inv: "link_inv (fold link_step evs (NewLinkState cfg))"
proof -
  have "link_inv (NewLinkState cfg)" by (simp add: link_inv_def NewLinkState_def Second_def)
  then show ?thesis by (induction evs rule: rev_induct) (simp_all add: step_link_inv)
qed

lemma snapshot_agrees:
  assumes inv: "link_inv s"
  shows "snap_State (fst (Snapshot now s)) = CPLinkUnreachable \<longleftrightarrow> ls_unreachable (recomputeLocked now s)"
    "snap_Rejecting (fst (Snapshot now s)) \<longleftrightarrow> ls_unreachable (recomputeLocked now s) \<and> ls_strategy s = CPDisconnectFailClosed"
    "1 \<le> snap_RetryAfterSeconds (fst (Snapshot now s))"
proof -
  from inv have "0 < ls_unreachableThreshold s" by (simp add: link_inv_def)
  from recompute_inv [OF this] have inv': "link_inv (recomputeLocked now s)" .
  have some: "ls_snap (recomputeLocked now s) \<noteq> None" by (simp add: recompute_defs)
  have same: "ls_unreachable (recompute_flags now s) = ls_unreachable s" if "ls_unreachable s = both_stale now s"
    using that both_stale_recompute(3,4) [of now s] by auto
  from Snapshot_cases [OF inv, of now] inv inv' some same show
    "snap_State (fst (Snapshot now s)) = CPLinkUnreachable \<longleftrightarrow> ls_unreachable (recomputeLocked now s)"
    "snap_Rejecting (fst (Snapshot now s)) \<longleftrightarrow> ls_unreachable (recomputeLocked now s) \<and> ls_strategy s = CPDisconnectFailClosed"
    "1 \<le> snap_RetryAfterSeconds (fst (Snapshot now s))"
    by (auto simp: link_inv_def Let_def published_or_degraded_def)
qed

text \<open>
  The time the proofs have been stale is that of an event of the run, and no event since then
  brought a proof.
\<close>

definition brings_proof :: "link_event \<Rightarrow> bool" where
  "brings_proof e \<longleftrightarrow> e = HeartbeatOk \<or> e = WatchUp"

definition silent_since :: "time \<Rightarrow> (time \<times> link_event) list \<Rightarrow> bool" where
  "silent_since t0 evs \<longleftrightarrow> (\<exists>pre post. evs = pre @ post \<and> post \<noteq> [] \<and> fst (hd post) = t0 \<and> (\<forall>x\<in>set post. \<not> brings_proof (snd x)))"

lemma silent_since_snoc:
  "silent_since t0 evs \<Longrightarrow> \<not> brings_proof (snd x) \<Longrightarrow> silent_since t0 (evs @ [x])"
  "\<not> brings_proof (snd x) \<Longrightarrow> silent_since (fst x) (evs @ [x])"
proof -
  assume "silent_since t0 evs" and x: "\<not> brings_proof (snd x)"
  then obtain pre post where "evs = pre @ post" "post \<noteq> []" "fst (hd post) = t0" "\<forall>y\<in>set post. \<not> brings_proof (snd y)"
    unfolding silent_since_def by blast
  with x show "silent_since t0 (evs @ [x])"
    unfolding silent_since_def by (intro exI [of _ pre] exI [of _ "post @ [x]"]) auto
next
  assume "\<not> brings_proof (snd x)"
  then show "silent_since (fst x) (evs @ [x])"
    unfolding silent_since_def by (intro exI [of _ evs] exI [of _ "[x]"]) auto
qed

lemma fresh_proof:
  assumes "0 < ls_unreachableThreshold s" "now \<noteq> zero_time"
  shows "\<not> both_stale now (s\<lparr>ls_lastHB := now\<rparr>)" "\<not> both_stale now (s\<lparr>ls_watchUp := True\<rparr>)"
  using assms by (simp_all add: both_stale_def proofsStaleLocked_def IsZero_def time_Sub_def min_int64_def max_int64_def)

lemma Snapshot_state: "snd (Snapshot now s) = s \<or> snd (Snapshot now s) = recomputeLocked now s"
  by (simp add: Snapshot_def Let_def)

lemma step_proof:
  assumes "0 < ls_unreachableThreshold s" "now \<noteq> zero_time" "brings_proof e"
  shows "ls_bothStaleSince (link_step (now, e) s) = zero_time" "ls_unreachable (link_step (now, e) s) \<Longrightarrow> ls_unreachable s"
  using assms fresh_proof [OF assms(1,2)]
    both_stale_recompute(2,4) [of now "s\<lparr>ls_lastHB := now\<rparr>"] both_stale_recompute(2,4) [of now "s\<lparr>ls_watchUp := True\<rparr>"]
  by (auto simp: brings_proof_def TouchHeartbeat_def MarkWatchUp_def)

lemma recompute_window:
  "ls_bothStaleSince (recomputeLocked now s) \<in> {zero_time, now, ls_bothStaleSince s}"
  "ls_unreachable (recomputeLocked now s) \<Longrightarrow> ls_unreachable s \<or>
     ls_unreachableThreshold s \<le> time_Sub now (ls_bothStaleSince (recomputeLocked now s)) \<and>
     (now \<noteq> zero_time \<longrightarrow> ls_bothStaleSince (recomputeLocked now s) \<noteq> zero_time)"
proof -
  show "ls_bothStaleSince (recomputeLocked now s) \<in> {zero_time, now, ls_bothStaleSince s}"
    using both_stale_recompute(1,2) [of now s] by (cases "both_stale now s") simp_all
  assume unr: "ls_unreachable (recomputeLocked now s)"
  show "ls_unreachable s \<or>
     ls_unreachableThreshold s \<le> time_Sub now (ls_bothStaleSince (recomputeLocked now s)) \<and>
     (now \<noteq> zero_time \<longrightarrow> ls_bothStaleSince (recomputeLocked now s) \<noteq> zero_time)"
  proof (cases "both_stale now s")
    case True
    with unr both_stale_recompute(1,3) [OF True] show ?thesis by (simp add: IsZero_def split: if_splits)
  next
    case False
    with unr both_stale_recompute(4) [OF False] show ?thesis by simp
  qed
qed

lemma step_no_proof:
  assumes "\<not> brings_proof e"
  shows "ls_bothStaleSince (link_step (now, e) s) \<in> {zero_time, now, ls_bothStaleSince s}"
    "ls_unreachable (link_step (now, e) s) \<Longrightarrow> ls_unreachable s \<or>
       ls_unreachableThreshold s \<le> time_Sub now (ls_bothStaleSince (link_step (now, e) s)) \<and>
       (now \<noteq> zero_time \<longrightarrow> ls_bothStaleSince (link_step (now, e) s) \<noteq> zero_time)"
proof -
  obtain s' where "link_step (now, e) s = s \<or> link_step (now, e) s = recomputeLocked now s'"
    and "ls_bothStaleSince s' = ls_bothStaleSince s" "ls_unreachable s' = ls_unreachable s"
      "ls_unreachableThreshold s' = ls_unreachableThreshold s"
  proof (cases e)
    case WatchDown
    then show thesis using that [of "s\<lparr>ls_watchUp := False\<rparr>"] by (simp add: MarkWatchDown_def)
  next
    case Read
    then show thesis using that [of s] Snapshot_state [of now s] by simp
  qed (use assms in \<open>simp_all add: brings_proof_def\<close>)
  with recompute_window [of now s'] show
    "ls_bothStaleSince (link_step (now, e) s) \<in> {zero_time, now, ls_bothStaleSince s}"
    "ls_unreachable (link_step (now, e) s) \<Longrightarrow> ls_unreachable s \<or>
       ls_unreachableThreshold s \<le> time_Sub now (ls_bothStaleSince (link_step (now, e) s)) \<and>
       (now \<noteq> zero_time \<longrightarrow> ls_bothStaleSince (link_step (now, e) s) \<noteq> zero_time)"
    by (metis insert_iff)+
qed

lemma run_threshold: "0 < ls_unreachableThreshold (fold link_step evs (NewLinkState cfg))"
  using run_link_inv [of evs cfg] by (simp add: link_inv_def)

lemma step_keeps:
  "ls_unreachableThreshold (link_step x s) = ls_unreachableThreshold s" "ls_strategy (link_step x s) = ls_strategy s"
proof -
  have *: "ls_unreachableThreshold (snd (Snapshot now s)) = ls_unreachableThreshold s \<and> ls_strategy (snd (Snapshot now s)) = ls_strategy s" for now
    using Snapshot_state [of now s] by auto
  show "ls_unreachableThreshold (link_step x s) = ls_unreachableThreshold s" "ls_strategy (link_step x s) = ls_strategy s"
    by (cases x; cases "snd x"; simp add: * TouchHeartbeat_def MarkWatchUp_def MarkWatchDown_def)+
qed

lemma run_keeps:
  "ls_unreachableThreshold (fold link_step evs s) = ls_unreachableThreshold s" "ls_strategy (fold link_step evs s) = ls_strategy s"
  by (induction evs arbitrary: s) (simp_all add: step_keeps)

lemma stale_since_silent:
  assumes "\<forall>x\<in>set evs. fst x \<noteq> zero_time" "ls_bothStaleSince (fold link_step evs (NewLinkState cfg)) \<noteq> zero_time"
  shows "silent_since (ls_bothStaleSince (fold link_step evs (NewLinkState cfg))) evs"
  using assms
proof (induction evs rule: rev_induct)
  case Nil
  then show ?case by (simp add: NewLinkState_def)
next
  case (snoc x evs)
  obtain now e where x: "x = (now, e)" by (cases x)
  let ?s = "fold link_step evs (NewLinkState cfg)"
  have no: "\<not> brings_proof e"
    using step_proof(1) [OF run_threshold, of now e evs cfg] snoc.prems x by auto
  from step_no_proof(1) [OF no, of now ?s] snoc x show ?case
    by (auto intro: silent_since_snoc simp: no silent_since_snoc(2) [of "(now, e)", simplified, OF no])
qed

text \<open>
  The lock-free path of \<^verbatim>\<open>Snapshot\<close> is sound where it matters: after any run, a snapshot says
  unreachable, and rejects traffic, exactly when recomputing under the lock at the same moment
  would, and rejecting means unreachable under \<^verbatim>\<open>fail_closed\<close>; its retry hint is at least a second.
\<close>

theorem snapshot_agrees_with_recompute:
  "let s = fold link_step evs (NewLinkState cfg); sn = fst (Snapshot now s); s' = recomputeLocked now s
   in (snap_State sn = CPLinkUnreachable \<longleftrightarrow> ls_unreachable s') \<and>
      (snap_Rejecting sn \<longleftrightarrow> ls_unreachable s' \<and> ls_strategy s = CPDisconnectFailClosed) \<and> 1 \<le> snap_RetryAfterSeconds sn"
  using snapshot_agrees [OF run_link_inv [of evs cfg], of now] unfolding Let_def by blast

text \<open>
  C27.  Traffic is never refused on a blip: when an event makes the link unreachable, some earlier
  event (or this one) lies at least the unreachable threshold back, and neither a heartbeat nor an
  open watch was reported from that event on.
\<close>

theorem unreachable_only_after_silence:
  assumes "\<forall>x\<in>set (evs @ [(now, e)]). fst x \<noteq> zero_time"
    and "\<not> ls_unreachable (fold link_step evs (NewLinkState cfg))"
    and "ls_unreachable (fold link_step (evs @ [(now, e)]) (NewLinkState cfg))"
  shows "\<exists>t0. silent_since t0 (evs @ [(now, e)]) \<and>
    ls_unreachableThreshold (fold link_step evs (NewLinkState cfg)) \<le> time_Sub now t0"
proof -
  let ?s = "fold link_step evs (NewLinkState cfg)"
  have now: "now \<noteq> zero_time" using assms(1) by simp
  have "\<not> brings_proof e" using step_proof(2) [OF run_threshold now] assms(2,3) by auto
  from step_no_proof(2) [OF this, of now ?s] assms(2,3) now
  have "ls_unreachableThreshold ?s \<le> time_Sub now (ls_bothStaleSince (link_step (now, e) ?s))"
    and "ls_bothStaleSince (link_step (now, e) ?s) \<noteq> zero_time" by auto
  with stale_since_silent [OF assms(1), of cfg] show ?thesis by auto
qed

theorem unreachable_only_after_silence_witness:
  "\<exists>t0. silent_since t0 ([(1, Read)] @ [(1 + 40 * Second, Read)]) \<and>
     ls_unreachableThreshold (fold link_step [(1, Read)] (NewLinkState \<lparr>lc_Strategy = [], lc_UnreachableThreshold = 0, lc_RecoverThreshold = 0\<rparr>))
       \<le> time_Sub (1 + 40 * Second) t0"
  by (rule unreachable_only_after_silence) (simp; code_simp)+

text \<open>
  While no proof arrives, staleness persists: the time it began is kept, and an unreachable link
  stays so.
\<close>

definition stale_from :: "time \<Rightarrow> link_state \<Rightarrow> bool" where
  "stale_from t s \<longleftrightarrow> both_stale t s \<and> (ls_unreachable s \<or> ls_bothStaleSince s \<noteq> zero_time \<and> ls_bothStaleSince s \<le> t)"

lemma both_stale_mono: "both_stale t s \<Longrightarrow> t \<le> t' \<Longrightarrow> both_stale t' s"
  using time_Sub_mono [of t t' "ls_lastHB s"] by (auto simp: both_stale_def proofsStaleLocked_def)

lemma both_stale_cong:
  "both_stale t (recomputeLocked now s) = both_stale t s" "both_stale t s \<Longrightarrow> both_stale t (s\<lparr>ls_watchUp := False\<rparr>)"
  by (simp_all add: both_stale_def proofsStaleLocked_def)

lemma recompute_stale_from:
  assumes "stale_from t s" "t \<le> now"
  shows "stale_from t (recomputeLocked now s)"
proof -
  from assms have "both_stale now s" by (auto simp: stale_from_def intro: both_stale_mono)
  from assms(1) both_stale_recompute(1,3) [OF this] show ?thesis
    by (auto simp: stale_from_def both_stale_cong IsZero_def)
qed

lemma step_stale_from:
  assumes "stale_from t s" "t \<le> now" "\<not> brings_proof e"
  shows "stale_from t (link_step (now, e) s)"
proof (cases e)
  case WatchDown
  from assms(1) have "stale_from t (s\<lparr>ls_watchUp := False\<rparr>)" by (simp add: stale_from_def both_stale_cong)
  from recompute_stale_from [OF this assms(2)] WatchDown show ?thesis by (simp add: MarkWatchDown_def)
next
  case Read
  with assms Snapshot_state [of now s] recompute_stale_from [OF assms(1,2)] show ?thesis by auto
qed (use assms(3) in \<open>simp_all add: brings_proof_def\<close>)

lemma run_stale_from:
  assumes "stale_from t s" "\<forall>x\<in>set evs. t \<le> fst x \<and> \<not> brings_proof (snd x)"
  shows "stale_from t (fold link_step evs s)"
  using assms by (induction evs arbitrary: s) (auto simp: step_stale_from)

lemma since_le:
  assumes "\<forall>x\<in>set evs. fst x \<le> t" "\<forall>x\<in>set evs. fst x \<noteq> zero_time" "ls_bothStaleSince (fold link_step evs (NewLinkState cfg)) \<noteq> zero_time"
  shows "ls_bothStaleSince (fold link_step evs (NewLinkState cfg)) \<le> t"
proof -
  from stale_since_silent [OF assms(2,3)] obtain pre post where
    "evs = pre @ post" "post \<noteq> []" "fst (hd post) = ls_bothStaleSince (fold link_step evs (NewLinkState cfg))"
    unfolding silent_since_def by blast
  with assms(1) show ?thesis by (metis Un_iff hd_in_set set_append)
qed

lemma read_stale_from:
  assumes inv: "link_inv s" and "both_stale t s" "t \<noteq> zero_time" "ls_bothStaleSince s \<noteq> zero_time \<Longrightarrow> ls_bothStaleSince s \<le> t"
  shows "stale_from t (snd (Snapshot t s))"
  using Snapshot_cases [OF inv, of t] both_stale_recompute(1) [OF assms(2)] assms(2-)
  by (auto simp: stale_from_def both_stale_cong IsZero_def split: if_splits)



text \<open>
  The published view does go stale on the clock alone: once connected, a snapshot still says
  connected however long ago the last heartbeat was, while the watch stays open, although the same
  state recomputed is degraded.
\<close>

theorem snapshot_hides_stale_heartbeat:
  assumes "zero_time < t" "lc_UnreachableThreshold cfg \<le> 30 * Second" "30 * Second < time_Sub now t"
  shows "let s = fold link_step [(t, WatchUp), (t, HeartbeatOk)] (NewLinkState cfg)
    in snap_State (fst (Snapshot now s)) = CPLinkConnected \<and> observableStateLocked now s = CPLinkDegraded"
  using assms
  by (simp add: Let_def MarkWatchUp_def TouchHeartbeat_def recompute_defs recompute_flags_def proofsStaleLocked_def
      observableStateLocked_def Snapshot_def timeMayAdvance_def NewLinkState_def IsZero_def time_Sub_def link_defs
      zero_time_def Second_def min_int64_def max_int64_def) (auto simp: max_def min_def split: if_splits)

theorem snapshot_hides_stale_heartbeat_witness:
  "let s = fold link_step [(1, WatchUp), (1, HeartbeatOk)] (NewLinkState \<lparr>lc_Strategy = [], lc_UnreachableThreshold = 0, lc_RecoverThreshold = 0\<rparr>)
   in snap_State (fst (Snapshot (60 * Second) s)) = CPLinkConnected \<and> observableStateLocked (60 * Second) s = CPLinkDegraded"
  by (rule snapshot_hides_stale_heartbeat) (simp_all add: zero_time_def Second_def time_Sub_def max_int64_def min_int64_def)

end
