(* ===== verification/AgentHost.thy ===== *)
theory AgentHost
  imports LinkState
begin

text \<open>
  \<^verbatim>\<open>application/dataplane/agenthost\<close> (\<^verbatim>\<open>bootstrap.go\<close>, \<^verbatim>\<open>retry.go\<close>, \<^verbatim>\<open>heartbeat.go\<close>, \<^verbatim>\<open>watch.go\<close>, \<^verbatim>\<open>resync.go\<close>):
  how an agent obtains its credentials, retries and reconnects.  Everything outside (the state file,
  the control plane, the clock and the cancellation of the context) acts on a world \<open>'w\<close> that the
  operations thread; a loop that may never return is a partial function into \<open>option\<close>, and it also
  returns the delays it slept.
\<close>

section \<open>Ports\<close>

record agent_host_credentials =
  creds_AgentID :: string
  creds_AgentToken :: string

record 'w agent_state_store =
  store_Load :: "('w, agent_host_credentials) op"
  store_Save :: "agent_host_credentials \<Rightarrow> ('w, unit) op"

type_synonym 'w agent_registrar = "string \<Rightarrow> agent \<Rightarrow> ('w, agent \<times> string) op"

text \<open>
  The context and the timer: \<^verbatim>\<open>ctx.Err()\<close>, and waiting for a duration, which is cut short (\<^const>\<open>False\<close>)
  when the context is done.
\<close>

record 'w host_ctx =
  ctx_Err :: "'w \<Rightarrow> err option"
  ctx_wait :: "duration \<Rightarrow> 'w \<Rightarrow> bool \<times> 'w"

text \<open>Identities of errors of the standard library.\<close>

definition fs_ErrNotExist :: string where "fs_ErrNotExist = ''file does not exist''"
definition context_Canceled :: string where "context_Canceled = ''context canceled''"
definition context_DeadlineExceeded :: string where "context_DeadlineExceeded = ''context deadline exceeded''"

fun errors_Is_external :: "err \<Rightarrow> string \<Rightarrow> bool" where
  "errors_Is_external (External x) y = (x = y)"
| "errors_Is_external (Wrapf _ _ e) y = errors_Is_external e y"
| "errors_Is_external (Wrapf2 _ e f) y = (errors_Is_external e y \<or> errors_Is_external f y)"
| "errors_Is_external _ y = False"

section \<open>Credentials\<close>

definition isAuthRejected :: "err \<Rightarrow> bool" where
  "isAuthRejected e = errors_Is e ErrAgentUnauthenticated"

definition IsPermanentBootstrapError :: "err \<Rightarrow> bool" where
  "IsPermanentBootstrapError e \<longleftrightarrow>
     errors_Is e ErrBootstrapConfig \<or> errors_Is e ErrBootstrapState \<or> errors_Is e ErrAgentExists \<or> isAuthRejected e"

definition BootstrapCredentials ::
  "'w agent_state_store \<Rightarrow> string \<Rightarrow> agent \<Rightarrow> 'w agent_registrar \<Rightarrow> ('w, agent_host_credentials) op" where
  "BootstrapCredentials store regToken agent reg w =
     (case store_Load store w of
        (Inr creds, w) \<Rightarrow> (Inr creds, w)
      | (Inl e, w) \<Rightarrow>
          if \<not> errors_Is_external e fs_ErrNotExist then (Inl (Wrapf2 ''%w: %w'' (Sentinel ErrBootstrapState) e), w)
          else if regToken = [] then
            (Inl (Wrapf ''%w: no agent state and PGWAY_AGENT_REGISTRATION_TOKEN is empty'' [] (Sentinel ErrBootstrapConfig)), w)
          else
            (case reg regToken agent w of
               (Inl e, w) \<Rightarrow> (Inl (Wrapf ''register agent: %w'' [] e), w)
             | (Inr (registered, agentToken), w) \<Rightarrow>
                 let i = (if agent_Id registered = [] then agent_Id agent else agent_Id registered);
                     creds = \<lparr>creds_AgentID = i, creds_AgentToken = agentToken\<rparr>
                 in (case store_Save store creds w of
                       (Inl e, w) \<Rightarrow> (Inl (Wrapf2 ''%w: save after register: %w'' (Sentinel ErrBootstrapState) e), w)
                     | (Inr _, w) \<Rightarrow> (Inr creds, w))))"

section \<open>Backoff\<close>

record retry_options =
  opt_InitialBackoff :: duration
  opt_MaxBackoff :: duration

definition initial_backoff :: "retry_options \<Rightarrow> duration" where
  "initial_backoff opts = (if opt_InitialBackoff opts \<le> 0 then Second else opt_InitialBackoff opts)"

definition max_backoff :: "retry_options \<Rightarrow> duration" where
  "max_backoff opts = (if opt_MaxBackoff opts \<le> 0 then 30 * Second else opt_MaxBackoff opts)"

text \<open>Doubling is on \<^verbatim>\<open>int64\<close> nanoseconds.\<close>

definition next_backoff :: "duration \<Rightarrow> duration \<Rightarrow> duration" where
  "next_backoff backoff m =
     (let n = wrap64 (backoff * 2) in if n > m then m else n)"

definition sleepBackoff :: "'w host_ctx \<Rightarrow> duration \<Rightarrow> duration \<Rightarrow> 'w \<Rightarrow> bool \<times> duration \<times> 'w" where
  "sleepBackoff C backoff m w =
     (case ctx_wait C backoff w of
        (False, w) \<Rightarrow> (False, backoff, w)
      | (True, w) \<Rightarrow> (True, next_backoff backoff m, w))"

definition ctx_result :: "'w host_ctx \<Rightarrow> 'w \<Rightarrow> unit result" where
  "ctx_result C w = (case ctx_Err C w of None \<Rightarrow> Inr () | Some e \<Rightarrow> Inl e)"

partial_function (option) retry_loop ::
  "'w host_ctx \<Rightarrow> ('w, unit) op \<Rightarrow> (err \<Rightarrow> bool) \<Rightarrow> duration \<Rightarrow> duration \<Rightarrow> 'w \<Rightarrow> (unit result \<times> duration list \<times> 'w) option" where
  "retry_loop C fn isFatal m backoff w =
     (if ctx_Err C w \<noteq> None then Some (ctx_result C w, [], w)
      else case fn w of
        (Inr _, w) \<Rightarrow> Some (Inr (), [], w)
      | (Inl e, w) \<Rightarrow>
          if ctx_Err C w \<noteq> None then Some (ctx_result C w, [], w)
          else if isFatal e then Some (Inl e, [], w)
          else case sleepBackoff C backoff m w of
            (ok, backoff', w) \<Rightarrow>
              if \<not> ok then Some (ctx_result C w, [backoff], w)
              else Option.bind (retry_loop C fn isFatal m backoff' w) (\<lambda>(r, slept, w). Some (r, backoff # slept, w)))"

definition RetryTransient ::
  "'w host_ctx \<Rightarrow> ('w, unit) op \<Rightarrow> (err \<Rightarrow> bool) \<Rightarrow> retry_options \<Rightarrow> 'w \<Rightarrow> (unit result \<times> duration list \<times> 'w) option" where
  "RetryTransient C fn isFatal opts = retry_loop C fn isFatal (max_backoff opts) (initial_backoff opts)"

text \<open>The closure that \<^verbatim>\<open>BootstrapCredentialsWithRetry\<close> retries assigns \<^verbatim>\<open>boot\<close>, the second component.\<close>

definition boot_attempt ::
  "'w agent_state_store \<Rightarrow> string \<Rightarrow> agent \<Rightarrow> 'w agent_registrar \<Rightarrow> ('w \<times> agent_host_credentials option, unit) op" where
  "boot_attempt store regToken agent reg s =
     (case BootstrapCredentials store regToken agent reg (fst s) of
        (Inl e, w) \<Rightarrow> (Inl e, (w, snd s))
      | (Inr b, w) \<Rightarrow> (Inr (), (w, Some b)))"

definition lift_ctx :: "'w host_ctx \<Rightarrow> ('w \<times> 'b) host_ctx" where
  "lift_ctx C = \<lparr>ctx_Err = \<lambda>s. ctx_Err C (fst s), ctx_wait = \<lambda>d s. (case ctx_wait C d (fst s) of (b, w) \<Rightarrow> (b, (w, snd s)))\<rparr>"

definition BootstrapCredentialsWithRetry ::
  "'w host_ctx \<Rightarrow> 'w agent_state_store \<Rightarrow> string \<Rightarrow> agent \<Rightarrow> 'w agent_registrar \<Rightarrow> retry_options \<Rightarrow> 'w \<Rightarrow>
     (agent_host_credentials option result \<times> duration list \<times> 'w) option" where
  "BootstrapCredentialsWithRetry C store regToken agent reg opts w =
     Option.bind (RetryTransient (lift_ctx C) (boot_attempt store regToken agent reg) IsPermanentBootstrapError opts (w, None))
       (\<lambda>(r, slept, s). Some (case r of Inl e \<Rightarrow> Inl e | Inr _ \<Rightarrow> Inr (snd s), slept, fst s))"

section \<open>Heartbeats\<close>

text \<open>\<^verbatim>\<open>errors.Join\<close> of the error and advice.\<close>

definition fatalAuthError :: "err \<Rightarrow> err" where
  "fatalAuthError e = Wrapf2 ''%w\<newline>%w'' e
     (Errorf ''agent token rejected; delete state file and re-register with a fresh PGWAY_AGENT_REGISTRATION_TOKEN'' [])"

text \<open>
  \<open>wait\<close> is the \<^verbatim>\<open>select\<close> on the context and the ticker: \<^const>\<open>False\<close> when the context is done.
  \<open>onSuccess\<close> is \<^verbatim>\<open>opts.OnSuccess\<close>.
\<close>

partial_function (option) heartbeat_loop ::
  "'w host_ctx \<Rightarrow> ('w, time) op \<Rightarrow> duration \<Rightarrow> ('w \<Rightarrow> 'w) \<Rightarrow> 'w \<Rightarrow> (unit result \<times> 'w) option" where
  "heartbeat_loop C hb interval onSuccess w =
     (case ctx_wait C interval w of
        (ok, w) \<Rightarrow>
          if \<not> ok then Some (ctx_result C w, w)
          else case hb w of
            (Inr expiresAt, w) \<Rightarrow> heartbeat_loop C hb interval onSuccess (onSuccess w)
          | (Inl e, w) \<Rightarrow>
              if isAuthRejected e then Some (Inl (fatalAuthError e), w)
              else if errors_Is_external e context_Canceled \<or> errors_Is_external e context_DeadlineExceeded then Some (Inl e, w)
              else heartbeat_loop C hb interval onSuccess w)"

definition RunHeartbeat ::
  "'w host_ctx \<Rightarrow> ('w, time) op \<Rightarrow> duration \<Rightarrow> ('w \<Rightarrow> 'w) \<Rightarrow> 'w \<Rightarrow> (unit result \<times> 'w) option" where
  "RunHeartbeat C hb interval onSuccess =
     heartbeat_loop C hb (if interval \<le> 0 then 10 * Second else interval) onSuccess"

section \<open>Watching\<close>

record 'w watch_options =
  wo_OnConnected :: "'w \<Rightarrow> 'w"
  wo_OnDisconnected :: "'w \<Rightarrow> 'w"
  wo_backoff :: retry_options

text \<open>
  \<^verbatim>\<open>watch.Watch\<close> runs the callback it is given once the stream is open; the flag \<^verbatim>\<open>sessionOK\<close> that the
  callback captures is the second component of its world.
\<close>

type_synonym 'w watcher = "('w \<times> bool, unit) op \<Rightarrow> ('w \<times> bool, unit) op"

definition on_connect :: "('w, unit) op \<Rightarrow> ('w \<Rightarrow> 'w) \<Rightarrow> ('w \<times> bool, unit) op" where
  "on_connect afterConnect onConnected s =
     (case afterConnect (fst s) of
        (Inl e, w) \<Rightarrow> (Inl e, (w, snd s))
      | (Inr _, w) \<Rightarrow> (Inr (), (onConnected w, True)))"

partial_function (option) watch_loop ::
  "'w host_ctx \<Rightarrow> 'w watcher \<Rightarrow> ('w, unit) op \<Rightarrow> 'w watch_options \<Rightarrow> duration \<Rightarrow> 'w \<Rightarrow> (unit result \<times> duration list \<times> 'w) option" where
  "watch_loop C watch afterConnect opts backoff w =
     (if ctx_Err C w \<noteq> None then Some (ctx_result C w, [], w)
      else case watch (on_connect afterConnect (wo_OnConnected opts)) (w, False) of
        (r, (w, sessionOK)) \<Rightarrow>
          (let w = wo_OnDisconnected opts w in
           if ctx_Err C w \<noteq> None then Some (ctx_result C w, [], w)
           else if (case r of Inl e \<Rightarrow> isAuthRejected e | Inr _ \<Rightarrow> False) then Some (wrap fatalAuthError r, [], w)
           else
             (let backoff = (if sessionOK then initial_backoff (wo_backoff opts) else backoff)
              in case sleepBackoff C backoff (max_backoff (wo_backoff opts)) w of
                   (ok, backoff', w) \<Rightarrow>
                     if \<not> ok then Some (ctx_result C w, [backoff], w)
                     else Option.bind (watch_loop C watch afterConnect opts backoff' w) (\<lambda>(r, slept, w). Some (r, backoff # slept, w)))))"

definition RunWatch ::
  "'w host_ctx \<Rightarrow> 'w watcher \<Rightarrow> ('w, unit) op \<Rightarrow> 'w watch_options \<Rightarrow> 'w \<Rightarrow> (unit result \<times> duration list \<times> 'w) option" where
  "RunWatch C watch afterConnect opts = watch_loop C watch afterConnect opts (initial_backoff (wo_backoff opts))"

definition Resync :: "('w, unit) op \<Rightarrow> ('w, unit) op option \<Rightarrow> ('w, unit) op" where
  "Resync bootstrap listeners =
     bind_op (wrap_op (Wrapf ''bootstrap: %w'' []) bootstrap) (\<lambda>_.
       case listeners of
         None \<Rightarrow> lift_op (Inr ())
       | Some reconcile \<Rightarrow> wrap_op (Wrapf ''reconcile listeners: %w'' []) reconcile)"

section \<open>Delays\<close>

text \<open>The delay before attempt \<open>n + 2\<close>.\<close>

definition backoff_at :: "duration \<Rightarrow> duration \<Rightarrow> nat \<Rightarrow> duration" where
  "backoff_at b m n = (if n = 0 then b else min (b * 2 ^ n) m)"

lemma next_backoff_eq:
  assumes "0 < b" "b < 2 ^ 62"
  shows "next_backoff b m = min (b * 2) m"
proof -
  have "wrap64 (b * 2) = b * 2" using assms by (intro wrap64_id) (simp_all add: min_int64_def max_int64_def)
  then show ?thesis by (simp add: next_backoff_def Let_def)
qed

lemma backoff_at_next:
  assumes "0 < b" "0 < m"
  shows "backoff_at (min (b * 2) m) m n = backoff_at b m (Suc n)"
proof (cases "b * 2 \<le> m")
  case True
  then show ?thesis by (simp add: backoff_at_def algebra_simps)
next
  case False
  have "b * 2 * 1 \<le> b * 2 * 2 ^ n" "m * 1 \<le> m * 2 ^ n" using assms by (intro mult_left_mono; simp)+
  with False show ?thesis by (simp add: backoff_at_def min_def algebra_simps)
qed

definition sane_backoff :: "retry_options \<Rightarrow> bool" where
  "sane_backoff opts \<longleftrightarrow> initial_backoff opts < 2 ^ 62 \<and> max_backoff opts < 2 ^ 62"

lemma backoffs_positive: "0 < initial_backoff opts" "0 < max_backoff opts"
  by (simp_all add: initial_backoff_def max_backoff_def Second_def)

text \<open>A run ends at once, in its first delay, or is a delay followed by a run.\<close>

lemma retry_cases:
  assumes "retry_loop C fn isFatal m b w = Some (r, slept, w')"
  shows "slept = [] \<and> (ctx_Err C w' \<noteq> None \<and> r = ctx_result C w' \<and> (w' = w \<or> (\<exists>e. fn w = (Inl e, w'))) \<or> (\<exists>x. fn w = (Inr x, w') \<and> r = Inr ()) \<or>
      (\<exists>e. fn w = (Inl e, w') \<and> isFatal e \<and> r = Inl e)) \<or>
    slept = [b] \<and> r = ctx_result C w' \<and> (\<exists>e w1. fn w = (Inl e, w1) \<and> \<not> isFatal e \<and> ctx_wait C b w1 = (False, w')) \<or>
    (\<exists>e w1 w2 slept'. fn w = (Inl e, w1) \<and> \<not> isFatal e \<and> ctx_wait C b w1 = (True, w2) \<and> slept = b # slept' \<and>
       retry_loop C fn isFatal m (next_backoff b m) w2 = Some (r, slept', w'))"
  using assms
  by (subst (asm) retry_loop.simps)
    (auto simp: sleepBackoff_def bind_eq_Some_conv split: if_splits prod.splits sum.splits bool.splits)

lemma retry_schedule:
  assumes "0 < b" "b < 2 ^ 62" "0 < m" "m < 2 ^ 62" "retry_loop C fn isFatal m b w = Some (r, slept, w')"
  shows "slept = map (backoff_at b m) [0..<length slept]"
  using assms
proof (induction slept arbitrary: b w)
  case (Cons d slept)
  from retry_cases [OF Cons.prems(5)] consider "d = b" "slept = []"
    | w2 where "d = b" "retry_loop C fn isFatal m (next_backoff b m) w2 = Some (r, slept, w')" by auto
  then show ?case
  proof cases
    case 1
    then show ?thesis by (simp add: backoff_at_def)
  next
    case (2 w2)
    have n: "next_backoff b m = min (b * 2) m" by (rule next_backoff_eq [OF Cons.prems(1,2)])
    have eq: "backoff_at (min (b * 2) m) m = (\<lambda>n. backoff_at b m (Suc n))"
      using backoff_at_next [OF Cons.prems(1,3)] by (rule ext)
    have pos: "0 < next_backoff b m" "next_backoff b m < 2 ^ 62" using Cons.prems(1-4) by (simp_all add: n)
    from Cons.IH [OF pos Cons.prems(3,4) 2(2)] have "slept = map (\<lambda>n. backoff_at b m (Suc n)) [0..<length slept]"
      unfolding n eq .
    moreover have "map (backoff_at b m) [0..<Suc n] = b # map (\<lambda>n. backoff_at b m (Suc n)) [0..<n]" for n
      by (simp add: upt_conv_Cons map_Suc_upt [symmetric] comp_def backoff_at_def del: upt_Suc)
    ultimately show ?thesis using 2(1) by simp
  qed
qed simp

text \<open>With a rank that every failed attempt and delay lowers, the loop returns.\<close>

lemma retry_returns:
  fixes rank :: "'w \<Rightarrow> nat"
  assumes "\<And>w e w1 d w2. fn w = (Inl e, w1) \<Longrightarrow> \<not> isFatal e \<Longrightarrow> ctx_wait C d w1 = (True, w2) \<Longrightarrow> rank w2 < rank w"
  shows "\<exists>r slept w'. retry_loop C fn isFatal m b w = Some (r, slept, w') \<and> length slept \<le> rank w + 1"
proof (induction "rank w" arbitrary: b w rule: less_induct)
  case less
  show ?case
  proof (cases "\<exists>e w1 w2. fn w = (Inl e, w1) \<and> \<not> isFatal e \<and> ctx_wait C b w1 = (True, w2) \<and> ctx_Err C w = None \<and> ctx_Err C w1 = None")
    case True
    then obtain e w1 w2 where f: "fn w = (Inl e, w1)" "\<not> isFatal e" "ctx_wait C b w1 = (True, w2)" "ctx_Err C w = None" "ctx_Err C w1 = None"
      by blast
    from assms [OF f(1-3)] have "rank w2 < rank w" .
    from less [OF this, of "next_backoff b m"] obtain r slept w' where
      "retry_loop C fn isFatal m (next_backoff b m) w2 = Some (r, slept, w')" "length slept \<le> rank w2 + 1" by blast
    with f \<open>rank w2 < rank w\<close> show ?thesis by (subst retry_loop.simps) (simp add: sleepBackoff_def)
  next
    case False
    then show ?thesis by (subst retry_loop.simps) (auto simp: sleepBackoff_def split: prod.splits sum.splits bool.splits)
  qed
qed

text \<open>
  C28.  Retrying.  If every transient failure and the delay after it bring the world closer to a
  state where the call no longer fails transiently (a rank decreases), \<^verbatim>\<open>RetryTransient\<close> returns, after at
  most that many delays plus one; the delays are the initial one, then its doublings capped at the
  maximum, none of them wrapping around, and none exceeds the larger of the two settings.
\<close>

theorem retry_returns_with_backoff:
  fixes rank :: "'w \<Rightarrow> nat"
  assumes "\<And>w e w1 d w2. fn w = (Inl e, w1) \<Longrightarrow> \<not> isFatal e \<Longrightarrow> ctx_wait C d w1 = (True, w2) \<Longrightarrow> rank w2 < rank w"
    and "sane_backoff opts"
  shows "\<exists>r slept w'. RetryTransient C fn isFatal opts w = Some (r, slept, w') \<and> length slept \<le> rank w + 1 \<and>
    slept = map (backoff_at (initial_backoff opts) (max_backoff opts)) [0..<length slept] \<and>
    (\<forall>d \<in> set slept. 0 < d \<and> d \<le> max (initial_backoff opts) (max_backoff opts))"
proof -
  let ?b = "initial_backoff opts" and ?m = "max_backoff opts"
  from retry_returns [of fn isFatal C rank ?m ?b w] assms(1) obtain r slept w' where
    r: "retry_loop C fn isFatal ?m ?b w = Some (r, slept, w')" "length slept \<le> rank w + 1" by blast
  from assms(2) have "?b < 2 ^ 62" "?m < 2 ^ 62" by (simp_all add: sane_backoff_def)
  from retry_schedule [OF backoffs_positive(1) this(1) backoffs_positive(2) this(2) r(1)]
  have s: "slept = map (backoff_at ?b ?m) [0..<length slept]" .
  have "0 < backoff_at ?b ?m n \<and> backoff_at ?b ?m n \<le> max ?b ?m" for n
    using backoffs_positive [of opts] by (auto simp: backoff_at_def)
  then have "\<forall>d \<in> set (map (backoff_at ?b ?m) [0..<length slept]). 0 < d \<and> d \<le> max ?b ?m" by auto
  with r s show ?thesis unfolding RetryTransient_def by metis
qed

definition sample_ctx :: "nat host_ctx" where
  "sample_ctx = \<lparr>ctx_Err = \<lambda>_. None, ctx_wait = \<lambda>d w. (True, w)\<rparr>"

definition sample_fn :: "(nat, unit) op" where
  "sample_fn w = (if w = 0 then (Inr (), 0) else (Inl (External ''connection refused''), w - 1))"

theorem retry_returns_with_backoff_witness:
  "\<exists>r slept w'. RetryTransient sample_ctx sample_fn (\<lambda>_. False) \<lparr>opt_InitialBackoff = 0, opt_MaxBackoff = 3 * Second\<rparr> 5 = Some (r, slept, w') \<and>
     (\<forall>d \<in> set slept. 0 < d \<and> d \<le> 3 * Second)"
proof -
  have "sane_backoff \<lparr>opt_InitialBackoff = 0, opt_MaxBackoff = 3 * Second\<rparr>" by code_simp
  then have "\<exists>r slept w'. RetryTransient sample_ctx sample_fn (\<lambda>_. False) \<lparr>opt_InitialBackoff = 0, opt_MaxBackoff = 3 * Second\<rparr> 5 = Some (r, slept, w') \<and>
      length slept \<le> id 5 + 1 \<and>
      slept = map (backoff_at (initial_backoff \<lparr>opt_InitialBackoff = 0, opt_MaxBackoff = 3 * Second\<rparr>)
        (max_backoff \<lparr>opt_InitialBackoff = 0, opt_MaxBackoff = 3 * Second\<rparr>)) [0..<length slept] \<and>
      (\<forall>d \<in> set slept. 0 < d \<and> d \<le> max (initial_backoff \<lparr>opt_InitialBackoff = 0, opt_MaxBackoff = 3 * Second\<rparr>)
        (max_backoff \<lparr>opt_InitialBackoff = 0, opt_MaxBackoff = 3 * Second\<rparr>))"
    by (intro retry_returns_with_backoff) (auto simp: sample_fn_def sample_ctx_def split: if_splits)
  then show ?thesis by (auto simp: initial_backoff_def max_backoff_def Second_def)
qed

section \<open>The registration token\<close>

text \<open>Ports that also count the registrations that succeed.\<close>

definition counted :: "'w agent_registrar \<Rightarrow> ('w \<times> nat) agent_registrar" where
  "counted reg tok a s =
     (case reg tok a (fst s) of (Inl e, w) \<Rightarrow> (Inl e, (w, snd s)) | (Inr x, w) \<Rightarrow> (Inr x, (w, snd s + 1)))"

definition lift_store :: "'w agent_state_store \<Rightarrow> ('w \<times> 'b) agent_state_store" where
  "lift_store store =
     \<lparr>store_Load = \<lambda>s. (case store_Load store (fst s) of (r, w) \<Rightarrow> (r, (w, snd s))),
      store_Save = \<lambda>c s. (case store_Save store c (fst s) of (r, w) \<Rightarrow> (r, (w, snd s)))\<rparr>"

lemma attempt_count:
  assumes "BootstrapCredentials (lift_store store) tok agent (counted reg) s = (r, s')"
  shows "snd s' \<le> snd s + 1" "r = Inl e \<Longrightarrow> \<not> IsPermanentBootstrapError e \<Longrightarrow> snd s' = snd s"
  using assms
  by (auto simp: BootstrapCredentials_def lift_store_def counted_def IsPermanentBootstrapError_def Let_def split: prod.splits sum.splits if_splits)

lemma boot_retry_count:
  assumes "retry_loop (lift_ctx (lift_ctx C)) (boot_attempt (lift_store store) tok agent (counted reg)) IsPermanentBootstrapError m b s =
      Some (r, slept, s')"
    and "\<And>d w w'. ctx_wait C d w = (False, w') \<Longrightarrow> ctx_Err C w' \<noteq> None"
  shows "snd (fst s') \<le> snd (fst s) + 1 \<and> (r = Inr () \<longrightarrow> snd s' \<noteq> None) \<and>
    (\<forall>e. r = Inl e \<longrightarrow> IsPermanentBootstrapError e \<or> ctx_Err C (fst (fst s')) = Some e)"
  using assms(1)
proof (induction slept arbitrary: b s)
  case Nil
  from retry_cases [OF Nil] attempt_count(1) [of store tok agent reg "fst s"] show ?case
    by (auto simp: boot_attempt_def lift_ctx_def ctx_result_def split: prod.splits sum.splits option.splits)
next
  case (Cons d slept)
  note count = attempt_count(2) [of store tok agent reg "fst s"]
  from retry_cases [OF Cons.prems] consider
      (cut) e s1 where "slept = []" "r = ctx_result (lift_ctx (lift_ctx C)) s'" "boot_attempt (lift_store store) tok agent (counted reg) s = (Inl e, s1)"
        "\<not> IsPermanentBootstrapError e" "ctx_wait (lift_ctx (lift_ctx C)) b s1 = (False, s')"
    | (again) e s1 s2 where "boot_attempt (lift_store store) tok agent (counted reg) s = (Inl e, s1)"
        "\<not> IsPermanentBootstrapError e" "ctx_wait (lift_ctx (lift_ctx C)) b s1 = (True, s2)"
        "retry_loop (lift_ctx (lift_ctx C)) (boot_attempt (lift_store store) tok agent (counted reg)) IsPermanentBootstrapError m
           (next_backoff b m) s2 = Some (r, slept, s')" by auto
  then show ?case
  proof cases
    case cut
    have "snd (fst s1) = snd (fst s)" using cut(3,4) count by (auto simp: boot_attempt_def split: prod.splits sum.splits)
    moreover have "snd (fst s') = snd (fst s1)" "ctx_Err C (fst (fst s')) \<noteq> None"
      using cut(5) assms(2) by (auto simp: lift_ctx_def split: prod.splits)
    ultimately show ?thesis using cut(2) by (auto simp: ctx_result_def lift_ctx_def)
  next
    case again
    have "snd (fst s1) = snd (fst s)" using again(1,2) count by (auto simp: boot_attempt_def split: prod.splits sum.splits)
    moreover have "snd (fst s2) = snd (fst s1)" using again(3) by (auto simp: lift_ctx_def split: prod.splits)
    ultimately show ?thesis using Cons.IH [OF again(4)] by simp
  qed
qed

text \<open>
  C31.  A registration token is spent at most once.  Whatever the state file, the control plane and
  the network do, \<^verbatim>\<open>BootstrapCredentialsWithRetry\<close> registers successfully at most once, since an
  unsaved registration is a permanent error; it returns credentials or an error, and the error is
  permanent unless the context was cancelled.
\<close>

theorem registration_not_repeated:
  assumes "BootstrapCredentialsWithRetry (lift_ctx C) (lift_store store) tok agent (counted reg) opts (w, 0) = Some (r, slept, (w', n))"
    and "\<And>d w w'. ctx_wait C d w = (False, w') \<Longrightarrow> ctx_Err C w' \<noteq> None"
  shows "n \<le> 1 \<and> (case r of
      Inr creds \<Rightarrow> creds \<noteq> None
    | Inl e \<Rightarrow> IsPermanentBootstrapError e \<or> ctx_Err C w' = Some e)"
proof -
  from assms(1) obtain r1 s' where
    "retry_loop (lift_ctx (lift_ctx C)) (boot_attempt (lift_store store) tok agent (counted reg)) IsPermanentBootstrapError
       (max_backoff opts) (initial_backoff opts) ((w, 0), None) = Some (r1, slept, s')"
    and "fst s' = (w', n)" "r = (case r1 of Inl e \<Rightarrow> Inl e | Inr _ \<Rightarrow> Inr (snd s'))"
    by (auto simp: BootstrapCredentialsWithRetry_def RetryTransient_def bind_eq_Some_conv)
  with boot_retry_count [OF this(1) assms(2)] show ?thesis by (auto split: sum.splits)
qed

definition sample_store :: "nat agent_state_store" where
  "sample_store = \<lparr>store_Load = \<lambda>w. (Inl (External fs_ErrNotExist), w), store_Save = \<lambda>c w. (Inl (External ''disk full''), w)\<rparr>"

definition sample_reg :: "nat agent_registrar" where
  "sample_reg tok a w = (if w = 0 then (Inr (a, ''pgw_1''), 0) else (Inl (External ''unavailable''), w - 1))"

lemma sample_boot:
  "BootstrapCredentialsWithRetry (lift_ctx sample_ctx) (lift_store sample_store) ''t'' a (counted sample_reg)
     \<lparr>opt_InitialBackoff = 0, opt_MaxBackoff = 0\<rparr> (1, 0) =
   Some (Inl (Wrapf2 ''%w: save after register: %w'' (Sentinel ErrBootstrapState) (External ''disk full'')), [Second], (0, 1))"
proof -
  let ?f = "boot_attempt (lift_store sample_store) ''t'' a (counted sample_reg)" and ?C = "lift_ctx (lift_ctx sample_ctx)"
  have f1: "?f ((1, 0), None) = (Inl (Wrapf ''register agent: %w'' [] (External ''unavailable'')), ((0, 0), None))"
    and f0: "?f ((0, 0), None) = (Inl (Wrapf2 ''%w: save after register: %w'' (Sentinel ErrBootstrapState) (External ''disk full'')), ((0, 1), None))"
    by (simp_all add: boot_attempt_def BootstrapCredentials_def sample_store_def sample_reg_def lift_store_def counted_def)
  have c: "ctx_Err ?C s = None" "ctx_wait ?C d s = (True, s)" for d s by (simp_all add: lift_ctx_def sample_ctx_def)
  have "retry_loop ?C ?f IsPermanentBootstrapError m b ((0, 0), None) =
      Some (Inl (Wrapf2 ''%w: save after register: %w'' (Sentinel ErrBootstrapState) (External ''disk full'')), [], ((0, 1), None))" for m b
    by (subst retry_loop.simps) (simp add: c f0 IsPermanentBootstrapError_def)
  then have "retry_loop ?C ?f IsPermanentBootstrapError m b ((1, 0), None) =
      Some (Inl (Wrapf2 ''%w: save after register: %w'' (Sentinel ErrBootstrapState) (External ''disk full'')), [b], ((0, 1), None))" for m b
    by (subst retry_loop.simps) (simp add: c f1 IsPermanentBootstrapError_def isAuthRejected_def sleepBackoff_def del: One_nat_def)
  then show ?thesis by (simp add: BootstrapCredentialsWithRetry_def RetryTransient_def initial_backoff_def)
qed

definition sample_host :: agent where
  "sample_host = \<lparr>agent_ts = zero_timestamps, agent_Id = ''edge'', agent_Hostname = ''h'', agent_Version = ''1'', agent_Labels = [],
     agent_LastHeartbeat = None\<rparr>"

theorem registration_not_repeated_witness:
  "\<exists>e w' slept. BootstrapCredentialsWithRetry (lift_ctx sample_ctx) (lift_store sample_store) ''t'' sample_host (counted sample_reg)
     \<lparr>opt_InitialBackoff = 0, opt_MaxBackoff = 0\<rparr> (1, 0) = Some (Inl e, slept, (w', 1)) \<and>
     (IsPermanentBootstrapError e \<or> ctx_Err sample_ctx w' = Some e)"
  using registration_not_repeated [OF sample_boot [of sample_host]] sample_boot [of sample_host] by (auto simp: sample_ctx_def)

section \<open>The watch and the link\<close>

lemma watch_cases:
  assumes "watch_loop C watch ac opts b w = Some (r, slept, w')"
  shows "ctx_Err C w' \<noteq> None \<and> r = ctx_result C w' \<and> w' = w \<or>
    (\<exists>r1 w1 ok. watch (on_connect ac (wo_OnConnected opts)) (w, False) = (r1, (w1, ok)) \<and>
      (w' = wo_OnDisconnected opts w1 \<and>
         (ctx_Err C w' \<noteq> None \<and> r = ctx_result C w' \<or> (\<exists>e. r1 = Inl e \<and> isAuthRejected e \<and> r = Inl (fatalAuthError e))) \<or>
       r = ctx_result C w' \<and> (\<exists>d. ctx_wait C d (wo_OnDisconnected opts w1) = (False, w')) \<or>
       (\<exists>d w2 slept'. ctx_wait C d (wo_OnDisconnected opts w1) = (True, w2) \<and> slept = d # slept' \<and>
          watch_loop C watch ac opts (next_backoff d (max_backoff (wo_backoff opts))) w2 = Some (r, slept', w'))))"
  using assms
  by (subst (asm) watch_loop.simps)
    (auto simp: sleepBackoff_def Let_def bind_eq_Some_conv split: if_splits prod.splits sum.splits bool.splits)

lemma watch_run:
  assumes "watch_loop C watch ac opts b w = Some (r, slept, w')"
    and cut: "\<And>d w w'. ctx_wait C d w = (False, w') \<Longrightarrow> ctx_Err C w' \<noteq> None"
    and down: "\<And>w. \<not> up (wo_OnDisconnected opts w)" and wait: "\<And>d w. up (snd (ctx_wait C d w)) = up w" and "\<not> up w"
  shows "\<not> up w' \<and> (\<exists>e. r = Inl e \<and> (ctx_Err C w' = Some e \<or> isAuthRejected e))"
  using assms(1,5)
proof (induction "length slept" arbitrary: slept b w rule: less_induct)
  case less
  from watch_cases [OF less.prems(1)] show ?case
  proof (elim disjE exE conjE)
    fix r1 w1 ok d w2 slept'
    assume "ctx_wait C d (wo_OnDisconnected opts w1) = (True, w2)" "slept = d # slept'"
      "watch_loop C watch ac opts (next_backoff d (max_backoff (wo_backoff opts))) w2 = Some (r, slept', w')"
    moreover from this(1) have "\<not> up w2" using wait [of d "wo_OnDisconnected opts w1"] down [of w1] by simp
    ultimately show ?thesis using less.hyps [of slept'] by simp
  next
    fix r1 w1 ok d
    assume "r = ctx_result C w'" "ctx_wait C d (wo_OnDisconnected opts w1) = (False, w')"
    with wait [of d "wo_OnDisconnected opts w1"] down [of w1] cut [OF this(2)] show ?thesis by (auto simp: ctx_result_def)
  qed (use less.prems(2) down in \<open>auto simp: ctx_result_def fatalAuthError_def isAuthRejected_def\<close>)
qed

text \<open>
  \<^verbatim>\<open>RunWatch\<close> only ever gives up on cancellation or a rejected token, never on a transient
  failure, and when it returns the link no longer counts the watch as open, however many sessions
  there were and whatever they did.
\<close>

theorem watch_ends_with_link_down:
  fixes link :: "'w \<Rightarrow> link_state"
  assumes "RunWatch C watch afterConnect opts w = Some (r, slept, w')"
    and "\<And>d w w'. ctx_wait C d w = (False, w') \<Longrightarrow> ctx_Err C w' \<noteq> None"
    and "\<And>w. \<exists>now. link (wo_OnDisconnected opts w) = MarkWatchDown now (link w)" and "\<And>d w. link (snd (ctx_wait C d w)) = link w"
    and "\<not> ls_watchUp (link w)"
  shows "\<not> ls_watchUp (link w') \<and> (\<exists>e. r = Inl e \<and> (ctx_Err C w' = Some e \<or> isAuthRejected e))"
proof -
  have "\<not> ls_watchUp (link (wo_OnDisconnected opts w))" for w
  proof -
    from assms(3) obtain now where "link (wo_OnDisconnected opts w) = MarkWatchDown now (link w)" by blast
    then show ?thesis by (simp add: MarkWatchDown_def)
  qed
  from watch_run [where up = "\<lambda>w. ls_watchUp (link w)", OF assms(1) [unfolded RunWatch_def] assms(2) this] assms(4,5)
  show ?thesis by simp
qed

text \<open>A control plane that serves one session and rejects the token at the next.\<close>

definition sample_link :: link_state where
  "sample_link = NewLinkState \<lparr>lc_Strategy = [], lc_UnreachableThreshold = 0, lc_RecoverThreshold = 0\<rparr>"

definition sample_watch :: "(link_state \<times> nat) watcher" where
  "sample_watch cb s =
     (if snd (fst s) = 0 then (Inl (Wrapf2 ''%w: %w'' (Sentinel ErrAgentUnauthenticated) (External ''rpc'')), s)
      else (case cb s of (r, ((l, n), ok)) \<Rightarrow> (Inl (External ''eof''), ((l, n - 1), ok))))"

definition sample_wctx :: "(link_state \<times> nat) host_ctx" where
  "sample_wctx = \<lparr>ctx_Err = \<lambda>_. None, ctx_wait = \<lambda>d w. (True, w)\<rparr>"

definition sample_wopts :: "(link_state \<times> nat) watch_options" where
  "sample_wopts = \<lparr>wo_OnConnected = \<lambda>w. (MarkWatchUp 5 (fst w), snd w), wo_OnDisconnected = \<lambda>w. (MarkWatchDown 6 (fst w), snd w),
     wo_backoff = \<lparr>opt_InitialBackoff = 0, opt_MaxBackoff = 0\<rparr>\<rparr>"

lemma sample_watch_returns:
  "\<exists>r slept w'. RunWatch sample_wctx sample_watch (lift_op (Inr ())) sample_wopts (sample_link, 1) = Some (r, slept, w')"
proof -
  have "watch_loop sample_wctx sample_watch (lift_op (Inr ())) sample_wopts b (l, 0) =
      Some (Inl (fatalAuthError (Wrapf2 ''%w: %w'' (Sentinel ErrAgentUnauthenticated) (External ''rpc''))), [], (MarkWatchDown 6 l, 0))" for b l
    by (subst watch_loop.simps) (simp add: sample_wctx_def sample_wopts_def sample_watch_def isAuthRejected_def Let_def)
  moreover have "sample_watch (on_connect (lift_op (Inr ())) (wo_OnConnected sample_wopts)) ((sample_link, 1), False) =
      (Inl (External ''eof''), ((MarkWatchUp 5 sample_link, 0), True))"
    by (simp add: sample_watch_def on_connect_def sample_wopts_def lift_op_def)
  ultimately show ?thesis
    unfolding RunWatch_def
    by (subst watch_loop.simps) (simp add: sample_wctx_def sample_wopts_def isAuthRejected_def sleepBackoff_def Let_def)
qed

theorem watch_ends_with_link_down_witness:
  "\<exists>e slept w'. RunWatch sample_wctx sample_watch (lift_op (Inr ())) sample_wopts (sample_link, 1) = Some (Inl e, slept, w') \<and>
     \<not> ls_watchUp (fst w') \<and> isAuthRejected e"
proof -
  from sample_watch_returns obtain r slept w' where
    run: "RunWatch sample_wctx sample_watch (lift_op (Inr ())) sample_wopts (sample_link, 1) = Some (r, slept, w')" by blast
  have "\<not> ls_watchUp (fst w') \<and> (\<exists>e. r = Inl e \<and> (ctx_Err sample_wctx w' = Some e \<or> isAuthRejected e))"
    by (rule watch_ends_with_link_down [where link = fst, OF run])
      (auto simp: sample_wctx_def sample_wopts_def sample_link_def NewLinkState_def)
  with run show ?thesis by (auto simp: sample_wctx_def)
qed

end
