(* ===== verification/HttpProxy.thy ===== *)
theory HttpProxy
  imports Dataplane_Correct LinkState
begin

text \<open>
  \<^verbatim>\<open>adapters/http/handler.go\<close>, \<^verbatim>\<open>adapters/http/upstream_error.go\<close> and the metrics calls they make: one
  request through the gateway.  The upstream transport, the client connection and what errors of
  the network stand for are parameters; the data plane, the link state and the metrics are the state
  that the handler threads.  A deferred call is made where the function returns.
\<close>

section \<open>Headers\<close>

definition Header_Values :: "header \<Rightarrow> string \<Rightarrow> string list" where
  "Header_Values h k = (case map_of h (CanonicalMIMEHeaderKey k) of None \<Rightarrow> [] | Some vs \<Rightarrow> vs)"

definition Header_Del :: "string \<Rightarrow> header \<Rightarrow> header" where
  "Header_Del k h = filter (\<lambda>kv. fst kv \<noteq> CanonicalMIMEHeaderKey k) h"

definition Header_Set :: "string \<Rightarrow> string \<Rightarrow> header \<Rightarrow> header" where
  "Header_Set k v h = AList.update (CanonicalMIMEHeaderKey k) [v] h"

definition Header_Add :: "string \<Rightarrow> string \<Rightarrow> header \<Rightarrow> header" where
  "Header_Add k v h = AList.update (CanonicalMIMEHeaderKey k) (Header_Values h k @ [v]) h"

text \<open>\<^verbatim>\<open>strings.Split\<close> on a byte.\<close>

fun split_byte :: "char \<Rightarrow> string \<Rightarrow> string list" where
  "split_byte c [] = [[]]"
| "split_byte c (x # xs) =
     (if x = c then [] # split_byte c xs
      else case split_byte c xs of [] \<Rightarrow> [[x]] | t # ts \<Rightarrow> (x # t) # ts)"

text \<open>\<^verbatim>\<open>strings.TrimSpace\<close>: the white space of Unicode, as UTF-8.\<close>

definition space_seqs :: "nat list list" where
  "space_seqs = map (\<lambda>b. [b]) [9, 10, 11, 12, 13, 32] @ [[194, 133], [194, 160], [225, 154, 128]] @
     map (\<lambda>b. [226, 128, b]) ([128..<139] @ [168, 169, 175]) @ [[226, 129, 159], [227, 128, 128]]"

definition strip_seq :: "nat list list \<Rightarrow> string \<Rightarrow> nat" where
  "strip_seq seqs s = (case find (\<lambda>p. take (length p) (map byte s) = p) seqs of None \<Rightarrow> 0 | Some p \<Rightarrow> length p)"

function trim_with :: "nat list list \<Rightarrow> string \<Rightarrow> string" where
  "trim_with seqs s = (let n = strip_seq seqs s in if n = 0 \<or> s = [] then s else trim_with seqs (drop n s))"
  by auto
termination
  by (relation "measure (\<lambda>(seqs, s). length s)") auto

declare trim_with.simps [simp del]

definition TrimSpace :: "string \<Rightarrow> string" where
  "TrimSpace s = rev (trim_with (map rev space_seqs) (rev (trim_with space_seqs s)))"

definition hopHeaders :: "string list" where
  "hopHeaders = [''Connection'', ''Proxy-Connection'', ''Keep-Alive'', ''Proxy-Authenticate'', ''Proxy-Authorization'',
     ''Te'', ''Trailer'', ''Transfer-Encoding'', ''Upgrade'']"

definition connection_tokens :: "header \<Rightarrow> string list" where
  "connection_tokens h =
     filter (\<lambda>t. t \<noteq> []) (map TrimSpace (concat (map (split_byte CHR '','') (Header_Values h ''Connection''))))"

definition removeHopHeaders :: "header \<Rightarrow> header" where
  "removeHopHeaders h = fold Header_Del hopHeaders (fold Header_Del (connection_tokens h) h)"

definition copyHeaders :: "header \<Rightarrow> header \<Rightarrow> header" where
  "copyHeaders dst src = fold (\<lambda>(k, vv) d. fold (Header_Add k) vv d) src dst"

section \<open>Upstream errors and results\<close>

text \<open>What \<^verbatim>\<open>errors.Is\<close> and \<^verbatim>\<open>errors.As\<close> find in an error of the transport.\<close>

record upstream_err =
  ue_Canceled :: bool
  ue_DeadlineExceeded :: bool
  ue_Timeout :: bool
  ue_DNSError :: bool
  ue_ECONNREFUSED :: bool
  ue_MaxBytes :: bool

definition classifyUpstreamError :: "upstream_err \<Rightarrow> int \<times> string" where
  "classifyUpstreamError e =
     (if ue_Canceled e then (502, ''bad gateway'')
      else if ue_DeadlineExceeded e then (504, ''gateway timeout'')
      else if ue_Timeout e then (504, ''gateway timeout'')
      else if ue_DNSError e then (502, ''dns lookup failed'')
      else if ue_ECONNREFUSED e then (502, ''connection refused'')
      else (502, ''bad gateway''))"

definition ResultOK :: string where "ResultOK = ''ok''"
definition ResultError :: string where "ResultError = ''error''"
definition ResultTimeout :: string where "ResultTimeout = ''timeout''"
definition ResultRejected :: string where "ResultRejected = ''rejected''"
definition MetricHTTP :: string where "MetricHTTP = ''http''"
definition MetricConnect :: string where "MetricConnect = ''connect''"

lemmas metric_defs = ResultOK_def ResultError_def ResultTimeout_def ResultRejected_def MetricHTTP_def MetricConnect_def

definition resultFromHTTPStatus :: "int \<Rightarrow> string" where
  "resultFromHTTPStatus status =
     (if status = 504 then ResultTimeout
      else if status = 413 \<or> status = 503 then ResultRejected
      else ResultError)"

definition flowErrorResult :: "err \<Rightarrow> string" where
  "flowErrorResult e =
     (if errors_Is e ErrNotFound \<or> errors_Is e ErrNoProxy \<or> errors_Is e ErrNoMatchingRule \<or> errors_Is e ErrBalancerNotFound
      then ResultRejected else ResultError)"

record proxy_record =
  rec_Entrypoint :: string
  rec_Protocol :: string
  rec_Result :: string
  rec_Duration :: duration
  rec_BytesIn :: int
  rec_BytesOut :: int

section \<open>A request\<close>

record http_request =
  hr_Request :: request
  hr_ContentLength :: int
  hr_Body :: string
  hr_Entrypoint :: "string option"

record http_response =
  res_Status :: int
  res_Header :: header
  res_Body :: string

text \<open>\<^verbatim>\<open>http.Error\<close>.\<close>

definition http_Error :: "header \<Rightarrow> string \<Rightarrow> int \<Rightarrow> http_response" where
  "http_Error h msg code =
     \<lparr>res_Status = code,
      res_Header = Header_Set ''X-Content-Type-Options'' ''nosniff'' (Header_Set ''Content-Type'' ''text/plain; charset=utf-8'' h),
      res_Body = msg @ ''\<newline>''\<rparr>"

text \<open>
  The response of the upstream, and how many bytes of its body reach the client before the copy
  fails, if it does.
\<close>

record upstream_response =
  ur_StatusCode :: int
  ur_Header :: header
  ur_Body :: string
  ur_CopyFails :: "nat option"

text \<open>
  The transport: \<^verbatim>\<open>RoundTrip\<close> is given the request, the readable body and whether reading past it
  fails, and reports how much of the body it read; \<^verbatim>\<open>Dial\<close> opens a tunnel.
\<close>

record 'w transport_port =
  tr_RoundTrip :: "proxy \<Rightarrow> request \<Rightarrow> string \<Rightarrow> bool \<Rightarrow> 'w \<Rightarrow> ((upstream_err + upstream_response) \<times> nat) \<times> 'w"
  tr_Dial :: "proxy \<Rightarrow> string \<Rightarrow> 'w \<Rightarrow> (upstream_err + unit) \<times> 'w"

text \<open>The client connection of a tunnel, and the bytes copied each way once it is up.\<close>

record tunnel_client =
  tc_Hijacker :: bool
  tc_HijackFails :: bool
  tc_WriteFails :: bool
  tc_FlushFails :: bool
  tc_BytesIn :: int
  tc_BytesOut :: int

text \<open>The handler; \<open>h_errText\<close> is the text that package \<^verbatim>\<open>fmt\<close> renders of an error.\<close>

record ('db, 'w) handler =
  h_app :: "'db application"
  h_transport :: "'w transport_port"
  h_maxBodyBytes :: int
  h_errText :: "err \<Rightarrow> string"

record 'w hstate =
  hs_dp :: dp
  hs_link :: "link_state option"
  hs_net :: 'w
  hs_records :: "proxy_record list"
  hs_active :: int

definition RecordProxy :: "proxy_record \<Rightarrow> 'w hstate \<Rightarrow> 'w hstate" where
  "RecordProxy r s = s\<lparr>hs_records := hs_records s @ [r]\<rparr>"

definition ActiveProxyDelta :: "int \<Rightarrow> 'w hstate \<Rightarrow> 'w hstate" where
  "ActiveProxyDelta d s = s\<lparr>hs_active := hs_active s + d\<rparr>"

datatype client_out = Responded http_response | Tunneled | NoResponse

text \<open>What a request does, before the deferred calls of \<^verbatim>\<open>ServeHTTP\<close>.\<close>

record 'w served =
  sv_out :: client_out
  sv_transferred :: int
  sv_state :: "'w hstate"

definition serve_record :: "string \<Rightarrow> string \<Rightarrow> string \<Rightarrow> time \<Rightarrow> time \<Rightarrow> int \<Rightarrow> int \<Rightarrow> proxy_record" where
  "serve_record ep protocol result start fin bin bout =
     \<lparr>rec_Entrypoint = ep, rec_Protocol = protocol, rec_Result = result, rec_Duration = time_Sub fin start, rec_BytesIn = bin, rec_BytesOut = bout\<rparr>"

definition handleTunnel ::
  "('db, 'w) handler \<Rightarrow> time \<Rightarrow> time \<Rightarrow> string \<Rightarrow> proxy \<Rightarrow> http_request \<Rightarrow> tunnel_client \<Rightarrow> 'w hstate \<Rightarrow> 'w served" where
  "handleTunnel h start fin ep proxy r tc s =
     (case tr_Dial (h_transport h) proxy (req_Host (hr_Request r)) (hs_net s) of
        (dialed, w) \<Rightarrow>
          (let s = s\<lparr>hs_net := w\<rparr>;
               finish = (\<lambda>out result bin bout.
                 \<lparr>sv_out = out, sv_transferred = bout,
                  sv_state = RecordProxy (serve_record ep MetricConnect result start fin bin bout) s\<rparr>)
           in case dialed of
                Inl e \<Rightarrow>
                  (case classifyUpstreamError e of
                     (status, msg) \<Rightarrow> finish (Responded (http_Error [] msg status)) (resultFromHTTPStatus status) 0 0)
              | Inr _ \<Rightarrow>
                  if \<not> tc_Hijacker tc then finish (Responded (http_Error [] ''hijacking not supported'' 500)) ResultError 0 0
                  else if tc_HijackFails tc then finish NoResponse ResultError 0 0
                  else if tc_WriteFails tc then finish NoResponse ResultError 0 0
                  else if tc_FlushFails tc then finish NoResponse ResultError 0 0
                  else finish Tunneled ResultOK (tc_BytesIn tc) (tc_BytesOut tc)))"

text \<open>\<^verbatim>\<open>http.MaxBytesReader\<close>: the bytes that can be read, and whether reading on fails.\<close>

definition limited_body :: "int \<Rightarrow> string \<Rightarrow> string \<times> bool" where
  "limited_body limit body =
     (if limit > 0 \<and> limit < int (length body) then (take (nat limit) body, True) else (body, False))"

definition handleHTTP ::
  "('db, 'w) handler \<Rightarrow> time \<Rightarrow> time \<Rightarrow> string \<Rightarrow> proxy \<Rightarrow> http_request \<Rightarrow> 'w hstate \<Rightarrow> 'w served" where
  "handleHTTP h start fin ep proxy r s =
     (let req = (hr_Request r)\<lparr>req_Header := removeHopHeaders (req_Header (hr_Request r))\<rparr>
      in case limited_body (h_maxBodyBytes h) (hr_Body r) of
           (body, fails) \<Rightarrow>
             (case tr_RoundTrip (h_transport h) proxy req body fails (hs_net s) of
                ((resp, consumed), w) \<Rightarrow>
                  (let s = s\<lparr>hs_net := w\<rparr>;
                       count = int (min consumed (length body));
                       finish = (\<lambda>out result bout.
                         \<lparr>sv_out = Responded out, sv_transferred = bout,
                          sv_state = RecordProxy (serve_record ep MetricHTTP result start fin count bout) s\<rparr>)
                   in case resp of
                        Inl e \<Rightarrow>
                          if ue_MaxBytes e then finish (http_Error [] ''request body too large'' 413) ResultRejected 0
                          else (case classifyUpstreamError e of
                                  (status, msg) \<Rightarrow> finish (http_Error [] msg status) (resultFromHTTPStatus status) 0)
                      | Inr up \<Rightarrow>
                          (let n = (case ur_CopyFails up of None \<Rightarrow> length (ur_Body up) | Some k \<Rightarrow> min k (length (ur_Body up)))
                           in finish \<lparr>res_Status = ur_StatusCode up, res_Header = copyHeaders [] (removeHopHeaders (ur_Header up)),
                                      res_Body = take n (ur_Body up)\<rparr>
                                (if ur_CopyFails up = None then ResultOK else ResultError) (int n)))))"

text \<open>The gate on the link to the control plane: the snapshot, if traffic is to be refused.\<close>

definition link_gate :: "time \<Rightarrow> 'w hstate \<Rightarrow> cp_link_snapshot option \<times> 'w hstate" where
  "link_gate now s =
     (case hs_link s of
        None \<Rightarrow> (None, s)
      | Some l \<Rightarrow>
          (case Snapshot now l of
             (snap, l') \<Rightarrow> (if snap_Rejecting snap then Some snap else None, s\<lparr>hs_link := Some l'\<rparr>)))"

definition unreachable_response :: "cp_link_snapshot \<Rightarrow> http_response" where
  "unreachable_response snap =
     (let retryAfter = snap_RetryAfterSeconds snap;
          retryAfter = (if retryAfter < 1 then 30 else retryAfter)
      in http_Error (Header_Set ''Retry-After'' (dec (nat retryAfter)) (Header_Set ''X-Pgway-Reject-Reason'' ''cp_unreachable'' []))
           ''control plane unreachable'' 503)"

text \<open>From the choice of a proxy on: the request is served, then the deferred calls are made.\<close>

definition serve_with ::
  "('db, 'w) handler \<Rightarrow> time \<Rightarrow> time \<Rightarrow> string \<Rightarrow> proxy \<Rightarrow> string \<Rightarrow> http_request \<Rightarrow> tunnel_client \<Rightarrow> 'w hstate \<Rightarrow> client_out \<times> 'w hstate" where
  "serve_with h start fin ep proxy balancerId r tc s =
     (let s = ActiveProxyDelta 1 s;
          served = (if req_Method (hr_Request r) = ''CONNECT'' then handleTunnel h start fin ep proxy r tc s
                    else handleHTTP h start fin ep proxy r s);
          s = ActiveProxyDelta (-1) (sv_state served);
          result = \<lparr>result_ProxyId = proxy_Id proxy, result_Bytes = sv_transferred served\<rparr>
      in (sv_out served, s\<lparr>hs_dp := snd (App_Release balancerId result (hs_dp s))\<rparr>))"

definition ServeHTTP ::
  "('db, 'w) handler \<Rightarrow> time \<Rightarrow> time \<Rightarrow> http_request \<Rightarrow> tunnel_client \<Rightarrow> 'w hstate \<Rightarrow> client_out \<times> 'w hstate" where
  "ServeHTTP h start fin r tc s =
     (let protocol = (if req_Method (hr_Request r) = ''CONNECT'' then MetricConnect else MetricHTTP);
          refuse = (\<lambda>ep result out s. (Responded out, RecordProxy (serve_record ep protocol result start fin 0 0) s))
      in case hr_Entrypoint r of
           None \<Rightarrow> refuse ''unknown'' ResultRejected (http_Error [] ''missing entrypoint'' 500) s
         | Some ep \<Rightarrow>
             (case link_gate start s of
                (Some snap, s) \<Rightarrow> refuse ep ResultRejected (unreachable_response snap) s
              | (None, s) \<Rightarrow>
                  if req_Method (hr_Request r) \<noteq> ''CONNECT'' \<and> h_maxBodyBytes h > 0 \<and> hr_ContentLength r > h_maxBodyBytes h
                  then refuse ep ResultRejected (http_Error [] ''request body too large'' 413) s
                  else
                    (case ExecuteFlow (h_app h) start ep (hr_Request r) (hs_dp s) of
                       (Inl e, d) \<Rightarrow> refuse ep (flowErrorResult e) (http_Error [] (h_errText h e) 502) (s\<lparr>hs_dp := d\<rparr>)
                     | (Inr (proxy, balancerId), d) \<Rightarrow> serve_with h start fin ep proxy balancerId r tc (s\<lparr>hs_dp := d\<rparr>))))"

section \<open>Hop-by-hop headers\<close>

lemma map_of_without_key: "map_of (filter (\<lambda>kv. fst kv \<noteq> k) h) n = (if n = k then None else map_of h n)"
  by (induction h) auto

lemma fold_Del:
  "map_of (fold Header_Del ks h) n = (if n \<in> CanonicalMIMEHeaderKey ` set ks then None else map_of h n)"
  by (induction ks arbitrary: h) (auto simp: Header_Del_def map_of_without_key)

lemma hopHeaders_canonical: "CanonicalMIMEHeaderKey ` set hopHeaders = set hopHeaders"
  by code_simp

text \<open>
  Hop-by-hop headers end at the gateway: what \<^verbatim>\<open>removeHopHeaders\<close> leaves of a header has none of
  the nine hop-by-hop names and none of the names listed in any \<^verbatim>\<open>Connection\<close> field, in whatever case
  and with whatever white space they are listed, and has every other field unchanged.
\<close>

theorem hop_headers_removed:
  "map_of (removeHopHeaders h) n =
     (if n \<in> set hopHeaders \<or> n \<in> CanonicalMIMEHeaderKey ` set (connection_tokens h) then None else map_of h n)"
  by (simp add: removeHopHeaders_def fold_Del hopHeaders_canonical)

section \<open>Accounting\<close>

definition too_large :: "('db, 'w) handler \<Rightarrow> http_request \<Rightarrow> bool" where
  "too_large h r \<longleftrightarrow> req_Method (hr_Request r) \<noteq> ''CONNECT'' \<and> h_maxBodyBytes h > 0 \<and> hr_ContentLength r > h_maxBodyBytes h"

lemma record_simps [simp]:
  "hs_dp (RecordProxy x s) = hs_dp s" "hs_active (RecordProxy x s) = hs_active s" "hs_records (RecordProxy x s) = hs_records s @ [x]"
  "hs_net (RecordProxy x s) = hs_net s" "hs_link (RecordProxy x s) = hs_link s"
  "hs_dp (ActiveProxyDelta d s) = hs_dp s" "hs_active (ActiveProxyDelta d s) = hs_active s + d" "hs_records (ActiveProxyDelta d s) = hs_records s"
  "hs_net (ActiveProxyDelta d s) = hs_net s"
  by (simp_all add: RecordProxy_def ActiveProxyDelta_def)

lemma link_gate_keeps:
  "hs_dp (snd (link_gate now s)) = hs_dp s" "hs_active (snd (link_gate now s)) = hs_active s"
  "hs_records (snd (link_gate now s)) = hs_records s" "hs_net (snd (link_gate now s)) = hs_net s"
  by (simp_all add: link_gate_def split: option.splits prod.splits)

lemma limited_body_length: "0 < limit \<Longrightarrow> int (length (fst (limited_body limit body))) \<le> limit"
  by (auto simp: limited_body_def)

text \<open>Either way of serving leaves one record, of the bytes it transferred, and keeps the rest.\<close>

definition serves_once :: "int \<Rightarrow> 'w hstate \<Rightarrow> 'w served \<Rightarrow> bool" where
  "serves_once limit s v \<longleftrightarrow> (\<exists>x. hs_records (sv_state v) = hs_records s @ [x] \<and> rec_BytesOut x = sv_transferred v \<and>
     (0 < limit \<longrightarrow> rec_BytesIn x \<le> limit)) \<and> hs_active (sv_state v) = hs_active s \<and> hs_dp (sv_state v) = hs_dp s"

lemma handleTunnel_once: "serves_once 0 s (handleTunnel h start fin ep proxy r tc s)"
  by (simp add: serves_once_def handleTunnel_def serve_record_def Let_def split: prod.splits sum.splits)

lemma handleHTTP_once: "serves_once (h_maxBodyBytes h) s (handleHTTP h start fin ep proxy r s)"
proof -
  obtain body fails where b: "limited_body (h_maxBodyBytes h) (hr_Body r) = (body, fails)" by fastforce
  have "0 < h_maxBodyBytes h \<Longrightarrow> int (min consumed (length body)) \<le> h_maxBodyBytes h" for consumed
    using limited_body_length [of "h_maxBodyBytes h" "hr_Body r"] b by simp
  then show ?thesis
    by (simp add: serves_once_def handleHTTP_def serve_record_def Let_def b split: prod.splits sum.splits)
qed

lemma serve_with_once:
  assumes "serve_with h start fin ep proxy b r tc s = (out, s')"
  shows "\<exists>x. hs_records s' = hs_records s @ [x] \<and> hs_active s' = hs_active s \<and>
    (0 < h_maxBodyBytes h \<longrightarrow> req_Method (hr_Request r) \<noteq> ''CONNECT'' \<longrightarrow> rec_BytesIn x \<le> h_maxBodyBytes h) \<and>
    hs_dp s' = snd (App_Release b \<lparr>result_ProxyId = proxy_Id proxy, result_Bytes = rec_BytesOut x\<rparr> (hs_dp s))"
  using assms handleTunnel_once [of "ActiveProxyDelta 1 s" h start fin ep proxy r tc]
    handleHTTP_once [of h "ActiveProxyDelta 1 s" start fin ep proxy r]
  by (auto simp: serve_with_def serves_once_def Let_def)

text \<open>
  C14.  Every request is accounted for.  It leaves exactly one record and the gauge of active
  requests where it was; the balancers are not touched when the gate or the size limit refuses it,
  and otherwise, exactly when the flow yields a proxy, that proxy is released once at its balancer
  with the bytes recorded, however the upstream or the client fail; and of a body no more than the
  limit is forwarded.
\<close>

theorem request_accounted:
  "case ServeHTTP h start fin r tc s of (out, s') \<Rightarrow>
     \<exists>x. hs_records s' = hs_records s @ [x] \<and> hs_active s' = hs_active s \<and>
       (0 < h_maxBodyBytes h \<longrightarrow> req_Method (hr_Request r) \<noteq> ''CONNECT'' \<longrightarrow> rec_BytesIn x \<le> h_maxBodyBytes h) \<and>
       hs_dp s' = (case hr_Entrypoint r of
           None \<Rightarrow> hs_dp s
         | Some ep \<Rightarrow>
             if fst (link_gate start s) \<noteq> None \<or> too_large h r then hs_dp s
             else (case ExecuteFlow (h_app h) start ep (hr_Request r) (hs_dp s) of
                     (Inl e, d) \<Rightarrow> d
                   | (Inr (p, b), d) \<Rightarrow> snd (App_Release b \<lparr>result_ProxyId = proxy_Id p, result_Bytes = rec_BytesOut x\<rparr> d)))"
proof (cases "hr_Entrypoint r")
  case None
  then show ?thesis by (simp add: ServeHTTP_def Let_def serve_record_def)
next
  case (Some ep)
  obtain g s1 where g: "link_gate start s = (g, s1)" by fastforce
  note keeps = link_gate_keeps [of start s, unfolded g snd_conv]
  show ?thesis
  proof (cases "g \<noteq> None \<or> too_large h r")
    case True
    then show ?thesis using Some keeps by (auto simp: ServeHTTP_def Let_def g too_large_def serve_record_def split: option.splits)
  next
    case False
    then have g: "link_gate start s = (None, s1)" and t: "\<not> too_large h r" using g by auto
    obtain f d where f: "ExecuteFlow (h_app h) start ep (hr_Request r) (hs_dp s) = (f, d)" by fastforce
    have serve: "ServeHTTP h start fin r tc s = (case f of
        Inl e \<Rightarrow> (Responded (http_Error [] (h_errText h e) 502), RecordProxy (serve_record ep
          (if req_Method (hr_Request r) = ''CONNECT'' then MetricConnect else MetricHTTP) (flowErrorResult e) start fin 0 0) (s1\<lparr>hs_dp := d\<rparr>))
      | Inr (p, b) \<Rightarrow> serve_with h start fin ep p b r tc (s1\<lparr>hs_dp := d\<rparr>))"
      using Some t f keeps(1) by (auto simp: ServeHTTP_def Let_def g too_large_def split: sum.splits)
    show ?thesis
    proof (cases f)
      case (Inl e)
      then show ?thesis using Some t f keeps by (simp add: serve g serve_record_def)
    next
      case (Inr pb)
      obtain p b where pb: "pb = (p, b)" by (cases pb)
      obtain out s' where o: "serve_with h start fin ep p b r tc (s1\<lparr>hs_dp := d\<rparr>) = (out, s')" by fastforce
      from serve_with_once [OF o] keeps Some t f Inr pb o show ?thesis by (simp add: serve g)
    qed
  qed
qed

definition sample_transport :: "unit transport_port" where
  "sample_transport =
     \<lparr>tr_RoundTrip = \<lambda>p r body fails w.
        ((Inr \<lparr>ur_StatusCode = 200, ur_Header = [(''Keep-Alive'', [''timeout=5''])], ur_Body = ''hello'', ur_CopyFails = None\<rparr>, length body), w),
      tr_Dial = \<lambda>p t w. (Inr (), w)\<rparr>"

definition sample_handler :: "(ref_db, unit) handler" where
  "sample_handler = \<lparr>h_app = sample_app, h_transport = sample_transport, h_maxBodyBytes = 10, h_errText = \<lambda>_. ''error''\<rparr>"

definition sample_hstate :: "unit hstate" where
  "sample_hstate = \<lparr>hs_dp = snd (App_Bootstrap sample_app 5 sample_dp_db NewApplication), hs_link = None, hs_net = (), hs_records = [], hs_active = 0\<rparr>"

definition sample_http :: http_request where
  "sample_http = \<lparr>hr_Request = ex_request, hr_ContentLength = -1, hr_Body = ''a body of more than ten bytes'', hr_Entrypoint = Some ''in''\<rparr>"

definition sample_client :: tunnel_client where
  "sample_client = \<lparr>tc_Hijacker = True, tc_HijackFails = False, tc_WriteFails = False, tc_FlushFails = False, tc_BytesIn = 1, tc_BytesOut = 2\<rparr>"

theorem request_accounted_witness:
  "\<exists>x. hs_records (snd (ServeHTTP sample_handler 5 6 sample_http sample_client sample_hstate)) = [x] \<and> rec_BytesIn x \<le> 10 \<and>
     hs_active (snd (ServeHTTP sample_handler 5 6 sample_http sample_client sample_hstate)) = 0"
proof -
  obtain out s' where o: "ServeHTTP sample_handler 5 6 sample_http sample_client sample_hstate = (out, s')" by fastforce
  have "h_maxBodyBytes sample_handler = 10" "req_Method (hr_Request sample_http) \<noteq> ''CONNECT''" "hs_records sample_hstate = []" "hs_active sample_hstate = 0"
    by (simp_all add: sample_handler_def sample_http_def sample_hstate_def ex_request_def)
  with request_accounted [where h = sample_handler and start = 5 and fin = 6 and r = sample_http and tc = sample_client and s = sample_hstate, unfolded o prod.case]
  show ?thesis unfolding o by auto
qed

section \<open>The gate on the control plane\<close>

text \<open>
  Fail closed means refused.  After any history of heartbeats and watch sessions, a request
  that reaches the handler is answered with status 503 and a hint of at least a second, with neither
  balancers nor network touched, exactly when the link recomputed now is unreachable and the strategy
  is \<^verbatim>\<open>fail_closed\<close>; otherwise the gate lets it pass.
\<close>

theorem fail_closed_refuses:
  "let l = fold link_step evs (NewLinkState cfg);
       s = s0\<lparr>hs_link := Some l\<rparr>;
       (out, s') = ServeHTTP h start fin (r\<lparr>hr_Entrypoint := Some ep\<rparr>) tc s
   in if ls_unreachable (recomputeLocked start l) \<and> ls_strategy l = CPDisconnectFailClosed
      then (\<exists>sn. out = Responded (unreachable_response sn) \<and> res_Status (unreachable_response sn) = 503 \<and> 1 \<le> snap_RetryAfterSeconds sn) \<and>
        hs_dp s' = hs_dp s0 \<and> hs_net s' = hs_net s0
      else fst (link_gate start s) = None"
proof -
  let ?l = "fold link_step evs (NewLinkState cfg)"
  note agrees = snapshot_agrees(2,3) [OF run_link_inv, of start evs cfg]
  obtain sn l' where sn: "Snapshot start ?l = (sn, l')" by fastforce
  show ?thesis
  proof (cases "snap_Rejecting sn")
    case True
    have "res_Status (unreachable_response sn) = 503" by (simp add: unreachable_response_def http_Error_def Let_def)
    with True sn agrees show ?thesis by (auto simp: ServeHTTP_def link_gate_def Let_def)
  next
    case False
    with sn agrees show ?thesis by (auto simp: link_gate_def Let_def split: prod.splits)
  qed
qed

text \<open>
  A request for an entrypoint that the cache does not hold is counted as an internal error, not
  as a rejection: the error of the cache does not wrap \<^verbatim>\<open>domain.ErrNotFound\<close>.
\<close>

theorem missing_entrypoint_counted_as_error:
  assumes "map_of (cache_entrypoints (dp_cache d)) ep = None"
  shows "\<exists>e. fst (ExecuteFlow A now ep req d) = Inl e \<and> flowErrorResult e = ResultError"
  using assms by (simp add: ExecuteFlow_def flow_balancer_def Cache_GetEntrypoint_def flowErrorResult_def)

theorem missing_entrypoint_counted_as_error_witness:
  "\<exists>e. fst (ExecuteFlow sample_app 5 ''gone'' ex_request NewApplication) = Inl e \<and> flowErrorResult e = ResultError"
  by (rule missing_entrypoint_counted_as_error) (simp add: NewApplication_def NewResourceCache_def)

end
