(* ===== verification/Listeners.thy ===== *)
theory Listeners
  imports Dataplane_Correct
begin

text \<open>
  \<^verbatim>\<open>adapters/http/adapter.go\<close>: the listening server of each entrypoint and their reconciliation with the
  cache.  A server object has an identity, its serial number; the map of servers is an association
  list.  Reconciliation returns the servers it starts and stops, in the order of the calls; which
  addresses are then bound is the interpretation \<open>act\<close>, under which a server whose address is taken
  fails to listen, as \<^verbatim>\<open>ListenAndServe\<close> does.
\<close>

section \<open>Model\<close>

record server =
  srv_Addr :: string
  srv_EpId :: string
  srv_serial :: nat

record adapter =
  ad_servers :: "(string \<times> server) list"
  ad_next :: nat

datatype srv_action = Start server | Stop server

definition newServer :: "entrypoint \<Rightarrow> nat \<Rightarrow> server" where
  "newServer ep n = \<lparr>srv_Addr = ListenAddr ep, srv_EpId = ep_Id ep, srv_serial = n\<rparr>"

definition desired_of :: "entrypoint list \<Rightarrow> (string \<times> entrypoint) list" where
  "desired_of eps = fold (\<lambda>ep. AList.update (ep_Id ep) ep) eps []"

definition keeps_server :: "(string \<times> entrypoint) list \<Rightarrow> string \<times> server \<Rightarrow> bool" where
  "keeps_server desired x = (case map_of desired (fst x) of None \<Rightarrow> False | Some ep \<Rightarrow> srv_Addr (snd x) = ListenAddr ep)"

fun add_servers :: "(string \<times> entrypoint) list \<Rightarrow> adapter \<Rightarrow> server list \<times> adapter" where
  "add_servers [] a = ([], a)"
| "add_servers ((i, ep) # ds) a =
     (if map_of (ad_servers a) i \<noteq> None then add_servers ds a
      else
        let srv = newServer ep (ad_next a);
            a = a\<lparr>ad_servers := AList.update i srv (ad_servers a), ad_next := ad_next a + 1\<rparr>
        in case add_servers ds a of (started, a) \<Rightarrow> (srv # started, a))"

definition ReconcileListeners :: "entrypoint list \<Rightarrow> adapter \<Rightarrow> srv_action list \<times> adapter" where
  "ReconcileListeners eps a =
     (let desired = desired_of eps;
          toStop = map snd (filter (\<lambda>x. \<not> keeps_server desired x) (ad_servers a));
          a = a\<lparr>ad_servers := filter (keeps_server desired) (ad_servers a)\<rparr>
      in case add_servers desired a of (toStart, a) \<Rightarrow> (map Start toStart @ map Stop toStop, a))"

definition Adapter_HandleEvent :: "dp \<Rightarrow> change_event \<Rightarrow> adapter \<Rightarrow> srv_action list \<times> adapter" where
  "Adapter_HandleEvent d e a =
     (if event_ResourceType e \<noteq> ResourceTypeEntrypoint then ([], a)
      else ReconcileListeners (Cache_AllEntrypoints (dp_cache d)) a)"

definition NewHttpAdapter :: "entrypoint list \<Rightarrow> adapter" where
  "NewHttpAdapter eps =
     fold (\<lambda>ep a. a\<lparr>ad_servers := AList.update (ep_Id ep) (newServer ep (ad_next a)) (ad_servers a), ad_next := ad_next a + 1\<rparr>)
       eps \<lparr>ad_servers = [], ad_next = 0\<rparr>"

definition Adapter_Run :: "adapter \<Rightarrow> srv_action list" where
  "Adapter_Run a = map (\<lambda>x. Start (snd x)) (ad_servers a)"

definition Adapter_Shutdown :: "adapter \<Rightarrow> srv_action list" where
  "Adapter_Shutdown a = map (\<lambda>x. Stop (snd x)) (ad_servers a)"

section \<open>Bound addresses\<close>

fun act :: "srv_action \<Rightarrow> server list \<Rightarrow> server list" where
  "act (Start srv) up = (if srv_Addr srv \<in> srv_Addr ` set up then up else srv # up)"
| "act (Stop srv) up = filter (\<lambda>x. x \<noteq> srv) up"

section \<open>What reconciliation leaves\<close>

lemma desired_Some:
  assumes "inj_on ep_Id (set eps)"
  shows "map_of (desired_of eps) i = Some ep \<longleftrightarrow> ep \<in> set eps \<and> ep_Id ep = i"
proof (cases "i \<in> ep_Id ` set eps")
  case True
  then obtain x where x: "x \<in> set eps" "i = ep_Id x" by auto
  from fold_update_in [OF assms x(1), of "\<lambda>ep. ep" "[]"] x(2) have "map_of (desired_of eps) i = Some x" by (simp add: desired_of_def)
  then show ?thesis using x assms by (auto dest: inj_onD)
next
  case False
  with fold_update_out [of i ep_Id eps "\<lambda>ep. ep" "[]"] show ?thesis by (auto simp: desired_of_def)
qed

text \<open>The servers added: for every desired entrypoint without one, under a fresh serial number.\<close>

definition added_at :: "(string \<times> entrypoint) list \<Rightarrow> adapter \<Rightarrow> adapter \<Rightarrow> string \<Rightarrow> bool" where
  "added_at ds a a' i \<longleftrightarrow>
     (case map_of (ad_servers a) i of
        Some srv \<Rightarrow> map_of (ad_servers a') i = Some srv
      | None \<Rightarrow> (case map_of ds i of
          None \<Rightarrow> map_of (ad_servers a') i = None
        | Some ep \<Rightarrow> \<exists>n \<ge> ad_next a. map_of (ad_servers a') i = Some (newServer ep n)))"

definition adds :: "(string \<times> entrypoint) list \<Rightarrow> adapter \<Rightarrow> server list \<Rightarrow> adapter \<Rightarrow> bool" where
  "adds ds a started a' \<longleftrightarrow> (\<forall>i. added_at ds a a' i) \<and>
     set started = {srv. \<exists>i. map_of (ad_servers a) i = None \<and> map_of (ad_servers a') i = Some srv}"

lemma added_at_skip:
  assumes "added_at ds a a' j" "map_of (ad_servers a) j \<noteq> None \<or> j \<noteq> i"
  shows "added_at ((i, ep) # ds) a a' j"
  using assms by (auto simp: added_at_def split: option.splits)

lemma added_at_new:
  assumes "added_at ds (a\<lparr>ad_servers := AList.update i srv (ad_servers a), ad_next := ad_next a + 1\<rparr>) a' j"
  shows "j = i \<Longrightarrow> map_of (ad_servers a') j = Some srv" "j \<noteq> i \<Longrightarrow> added_at ds a a' j"
  using assms by (auto simp: added_at_def update_conv' split: option.splits) (metis Suc_leD)

lemma add_servers_adds: "add_servers ds a = (started, a') \<Longrightarrow> adds ds a started a'"
proof (induction ds arbitrary: a started)
  case Nil
  then show ?case by (auto simp: adds_def added_at_def split: option.splits)
next
  case (Cons d ds)
  obtain i ep where d: "d = (i, ep)" by (cases d)
  show ?case
  proof (cases "map_of (ad_servers a) i")
    case (Some srv)
    with Cons.prems d have "add_servers ds a = (started, a')" by simp
    from Cons.IH [OF this] Some added_at_skip [of ds a a' _ i ep] show ?thesis unfolding adds_def d by (metis option.distinct(1))
  next
    case None
    let ?srv = "newServer ep (ad_next a)"
    let ?a = "a\<lparr>ad_servers := AList.update i ?srv (ad_servers a), ad_next := ad_next a + 1\<rparr>"
    from Cons.prems None d obtain started' where st: "add_servers ds ?a = (started', a')" "started = ?srv # started'"
      by (auto simp: Let_def split: prod.splits)
    from Cons.IH [OF st(1)] have at: "\<And>j. added_at ds ?a a' j"
      and new: "set started' = {srv. \<exists>j. map_of (ad_servers ?a) j = None \<and> map_of (ad_servers a') j = Some srv}"
      unfolding adds_def by blast+
    have i: "map_of (ad_servers a') i = Some ?srv" using added_at_new(1) [OF at] by simp
    have "added_at (d # ds) a a' j" for j
    proof (cases "j = i")
      case True
      then show ?thesis using i None d by (auto simp: added_at_def)
    next
      case False
      then show ?thesis using added_at_skip [OF added_at_new(2) [OF at False]] d by simp
    qed
    moreover have "set started = {srv. \<exists>j. map_of (ad_servers a) j = None \<and> map_of (ad_servers a') j = Some srv}"
    proof (intro set_eqI iffI; simp add: st(2) new)
      fix x
      show "x = ?srv \<or> (\<exists>j. map_of (AList.update i ?srv (ad_servers a)) j = None \<and> map_of (ad_servers a') j = Some x) \<Longrightarrow>
          \<exists>j. map_of (ad_servers a) j = None \<and> map_of (ad_servers a') j = Some x"
        using i None by (auto simp: update_conv' split: if_splits)
      assume "\<exists>j. map_of (ad_servers a) j = None \<and> map_of (ad_servers a') j = Some x"
      then obtain j where "map_of (ad_servers a) j = None" "map_of (ad_servers a') j = Some x" by blast
      then show "x = ?srv \<or> (\<exists>j. map_of (AList.update i ?srv (ad_servers a)) j = None \<and> map_of (ad_servers a') j = Some x)"
        using i by (cases "j = i") (auto simp: update_conv' intro!: exI [of _ j])
    qed
    ultimately show ?thesis unfolding adds_def by blast
  qed
qed

definition adapter_ok :: "adapter \<Rightarrow> bool" where
  "adapter_ok a \<longleftrightarrow> distinct (map fst (ad_servers a)) \<and> distinct (map (\<lambda>x. srv_serial (snd x)) (ad_servers a)) \<and>
     (\<forall>x \<in> set (ad_servers a). srv_serial (snd x) < ad_next a)"

lemma update_new: "map_of xs i = None \<Longrightarrow> AList.update i v xs = xs @ [(i, v)]"
  by (induction xs) (auto split: if_splits)

lemma adapter_ok_add:
  assumes "adapter_ok a" "map_of (ad_servers a) i = None"
  shows "adapter_ok (a\<lparr>ad_servers := AList.update i (newServer ep (ad_next a)) (ad_servers a), ad_next := ad_next a + 1\<rparr>)"
  using assms unfolding adapter_ok_def update_new [OF assms(2)]
  by (auto simp: newServer_def map_of_eq_None_iff less_Suc_eq)

lemma add_servers_ok: "adapter_ok a \<Longrightarrow> add_servers ds a = (started, a') \<Longrightarrow> adapter_ok a'"
proof (induction ds arbitrary: a started)
  case (Cons d ds)
  obtain i ep where d: "d = (i, ep)" by (cases d)
  show ?case
  proof (cases "map_of (ad_servers a) i")
    case None
    with Cons d show ?thesis using adapter_ok_add [OF Cons.prems(1) None] by (auto simp: Let_def split: prod.splits)
  next
    case (Some srv)
    with Cons d show ?thesis by simp
  qed
qed simp

lemma adapter_ok_filter: "adapter_ok a \<Longrightarrow> adapter_ok (a\<lparr>ad_servers := filter P (ad_servers a)\<rparr>)"
  by (auto simp: adapter_ok_def distinct_map_filter)

lemma add_servers_none:
  "(\<forall>d \<in> set ds. map_of (ad_servers a) (fst d) \<noteq> None) \<Longrightarrow> add_servers ds a = ([], a)"
proof (induction ds)
  case (Cons d ds)
  then show ?case by (cases d) (simp del: not_None_eq)
qed simp

lemma map_of_filter_distinct:
  "distinct (map fst xs) \<Longrightarrow> map_of (filter P xs) i = (case map_of xs i of None \<Rightarrow> None | Some v \<Rightarrow> if P (i, v) then Some v else None)"
  by (induction xs) (auto simp: map_of_eq_None_iff split: option.splits)

lemma desired_find:
  "inj_on ep_Id (set eps) \<Longrightarrow> map_of (desired_of eps) i = find (\<lambda>ep. ep_Id ep = i) eps"
proof (cases "find (\<lambda>ep. ep_Id ep = i) eps")
  case None
  assume inj: "inj_on ep_Id (set eps)"
  have "map_of (desired_of eps) i \<noteq> Some ep" for ep using None desired_Some [OF inj] by (auto simp: find_None_iff)
  with None show ?thesis by auto
next
  case (Some ep)
  assume inj: "inj_on ep_Id (set eps)"
  from Some have "ep \<in> set eps" "ep_Id ep = i" by (auto simp: find_Some_iff)
  with desired_Some [OF inj] Some show ?thesis by simp
qed

text \<open>After reconciliation, at one identifier: the server kept, a new one, or none.\<close>

lemma reconcile_at:
  assumes "ReconcileListeners eps a = (acts, a')" "adapter_ok a" "inj_on ep_Id (set eps)"
  shows "case find (\<lambda>ep. ep_Id ep = i) eps of
      None \<Rightarrow> map_of (ad_servers a') i = None
    | Some ep \<Rightarrow>
        (case map_of (ad_servers a) i of
           Some srv \<Rightarrow> if srv_Addr srv = ListenAddr ep then map_of (ad_servers a') i = Some srv
             else \<exists>n \<ge> ad_next a. map_of (ad_servers a') i = Some (newServer ep n)
         | None \<Rightarrow> \<exists>n \<ge> ad_next a. map_of (ad_servers a') i = Some (newServer ep n))"
    and "adapter_ok a'"
proof -
  let ?d = "desired_of eps" and ?a = "a\<lparr>ad_servers := filter (keeps_server (desired_of eps)) (ad_servers a)\<rparr>"
  from assms(1) obtain started where add: "add_servers ?d ?a = (started, a')"
    by (auto simp: ReconcileListeners_def Let_def split: prod.splits)
  from add_servers_ok [OF adapter_ok_filter [OF assms(2)] add] show "adapter_ok a'" .
  from add_servers_adds [OF add] have "added_at ?d ?a a' i" by (simp add: adds_def)
  moreover have "map_of (ad_servers ?a) i = (case map_of (ad_servers a) i of None \<Rightarrow> None
      | Some v \<Rightarrow> if keeps_server ?d (i, v) then Some v else None)"
    using assms(2) by (simp add: map_of_filter_distinct adapter_ok_def)
  ultimately show "case find (\<lambda>ep. ep_Id ep = i) eps of
      None \<Rightarrow> map_of (ad_servers a') i = None
    | Some ep \<Rightarrow>
        (case map_of (ad_servers a) i of
           Some srv \<Rightarrow> if srv_Addr srv = ListenAddr ep then map_of (ad_servers a') i = Some srv
             else \<exists>n \<ge> ad_next a. map_of (ad_servers a') i = Some (newServer ep n)
         | None \<Rightarrow> \<exists>n \<ge> ad_next a. map_of (ad_servers a') i = Some (newServer ep n))"
    using desired_find [OF assms(3), of i] by (auto simp: added_at_def keeps_server_def split: option.splits if_splits)
qed

lemma reconcile_addr:
  assumes "ReconcileListeners eps a = (acts, a')" "adapter_ok a" "inj_on ep_Id (set eps)"
  shows "map_option srv_Addr (map_of (ad_servers a') i) = map_option ListenAddr (find (\<lambda>ep. ep_Id ep = i) eps)"
  using reconcile_at(1) [OF assms, of i] by (auto simp: newServer_def split: option.splits if_splits)

lemma reconcile_again:
  assumes "ReconcileListeners eps a = (acts, a')" "adapter_ok a" "inj_on ep_Id (set eps)"
  shows "ReconcileListeners eps a' = ([], a')"
proof -
  note addr = reconcile_addr [OF assms]
  have ok: "adapter_ok a'" by (rule reconcile_at(2) [OF assms])
  have "keeps_server (desired_of eps) x" if "x \<in> set (ad_servers a')" for x
  proof -
    have "map_of (ad_servers a') (fst x) = Some (snd x)" using that ok by (simp add: adapter_ok_def)
    with addr [of "fst x"] desired_find [OF assms(3), of "fst x"] show ?thesis
      by (cases "find (\<lambda>ep. ep_Id ep = fst x) eps") (auto simp: keeps_server_def)
  qed
  then have keep: "filter (keeps_server (desired_of eps)) (ad_servers a') = ad_servers a'"
    "filter (\<lambda>x. \<not> keeps_server (desired_of eps) x) (ad_servers a') = []" by (auto simp: filter_id_conv filter_empty_conv)
  have "map_of (ad_servers a') (fst d) \<noteq> None" if "d \<in> set (desired_of eps)" for d
  proof -
    have "map_of (desired_of eps) (fst d) \<noteq> None" using that by (metis map_of_eq_None_iff image_eqI)
    with addr [of "fst d"] desired_find [OF assms(3), of "fst d"] show ?thesis by auto
  qed
  with add_servers_none [of "desired_of eps" a'] keep show ?thesis by (simp add: ReconcileListeners_def)
qed

section \<open>Which servers listen afterwards\<close>

lemma start_all:
  "inj_on srv_Addr (set srvs \<union> set up) \<Longrightarrow> set (fold act (map Start srvs) up) = set srvs \<union> set up"
proof (induction srvs arbitrary: up)
  case (Cons x srvs)
  have "set (act (Start x) up) = insert x (set up)" using Cons.prems by (auto simp: inj_on_def)
  with Cons.IH [of "act (Start x) up"] Cons.prems show ?case by (simp del: act.simps)
qed simp

lemma stop_all: "set (fold act (map Stop srvs) up) = set up - set srvs"
  by (induction srvs arbitrary: up) auto

text \<open>No entrypoint takes over the address of another one's server.\<close>

definition no_takeover :: "entrypoint list \<Rightarrow> adapter \<Rightarrow> bool" where
  "no_takeover eps a \<longleftrightarrow> (\<forall>ep \<in> set eps. \<forall>x \<in> set (ad_servers a). srv_Addr (snd x) = ListenAddr ep \<longrightarrow> fst x = ep_Id ep)"

lemma serial_unique:
  "adapter_ok a \<Longrightarrow> x \<in> set (ad_servers a) \<Longrightarrow> y \<in> set (ad_servers a) \<Longrightarrow> srv_serial (snd x) = srv_serial (snd y) \<Longrightarrow> x = y"
  by (auto simp: adapter_ok_def distinct_map inj_on_def)

lemma listening_after:
  assumes rec: "ReconcileListeners eps a = (acts, a')" and ok: "adapter_ok a"
    and inj: "inj_on ep_Id (set eps)" "inj_on ListenAddr (set eps)" "inj_on srv_Addr (snd ` set (ad_servers a))"
    and free: "no_takeover eps a" and up: "set up = snd ` set (ad_servers a)"
  shows "set (fold act acts up) = snd ` set (ad_servers a')"
proof -
  let ?d = "desired_of eps" and ?P = "keeps_server (desired_of eps)"
  let ?a = "a\<lparr>ad_servers := filter ?P (ad_servers a)\<rparr>"
  let ?stopped = "map snd (filter (\<lambda>x. \<not> ?P x) (ad_servers a))"
  from rec obtain started where add: "add_servers ?d ?a = (started, a')" and acts: "acts = map Start started @ map Stop ?stopped"
    by (auto simp: ReconcileListeners_def Let_def split: prod.splits)
  have ok': "adapter_ok a'" by (rule reconcile_at(2) [OF rec ok inj(1)])
  have val: "y \<in> snd ` set (ad_servers a') \<longleftrightarrow> (\<exists>i. map_of (ad_servers a') i = Some y)" for y
    using ok' map_of_eq_Some_iff [of "ad_servers a'" _ y] unfolding adapter_ok_def image_iff by (metis prod.collapse snd_conv)
  have kept: "map_of (ad_servers ?a) i = Some y \<longleftrightarrow> (i, y) \<in> set (ad_servers a) \<and> ?P (i, y)" for i y
    using ok by (auto simp: adapter_ok_def distinct_map_filter)
  have started: "set started = {srv. \<exists>i. map_of (ad_servers ?a) i = None \<and> map_of (ad_servers a') i = Some srv}"
    and at: "\<And>i. added_at ?d ?a a' i"
    using add_servers_adds [OF add] unfolding adds_def by blast+
  have new: "\<exists>ep n. ep \<in> set eps \<and> srv = newServer ep n \<and> ad_next a \<le> n \<and> map_of (ad_servers ?a) (ep_Id ep) = None \<and> map_of (ad_servers a') (ep_Id ep) = Some srv"
    if "srv \<in> set started" for srv
  proof -
    from that obtain i where i: "map_of (ad_servers ?a) i = None" "map_of (ad_servers a') i = Some srv" unfolding started by blast
    with at [of i] obtain ep n where e: "map_of ?d i = Some ep" "ad_next a \<le> n" "srv = newServer ep n"
      by (auto simp: added_at_def split: option.splits)
    with desired_Some [OF inj(1)] i show ?thesis by auto
  qed
  have fresh: "srv_Addr srv \<noteq> srv_Addr (snd x)" if srv: "srv \<in> set started" and x: "x \<in> set (ad_servers a)" for srv x
  proof
    assume eq: "srv_Addr srv = srv_Addr (snd x)"
    from new [OF srv] obtain ep n where e: "ep \<in> set eps" "srv = newServer ep n" "map_of (ad_servers ?a) (ep_Id ep) = None" by blast
    then have "srv_Addr (snd x) = ListenAddr ep" using eq by (simp add: newServer_def)
    moreover from this free e(1) x have "fst x = ep_Id ep" unfolding no_takeover_def by blast
    moreover have "map_of ?d (ep_Id ep) = Some ep" using e(1) desired_Some [OF inj(1)] by blast
    ultimately have "?P x" by (simp add: keeps_server_def)
    with kept [of "ep_Id ep" "snd x"] x \<open>fst x = ep_Id ep\<close> e(3) show False by (metis option.distinct(1) prod.collapse)
  qed
  have "inj_on srv_Addr (set started)"
  proof (rule inj_onI)
    fix x y assume xy: "x \<in> set started" "y \<in> set started" and eq: "srv_Addr x = srv_Addr y"
    from new [OF xy(1)] obtain e n where x: "e \<in> set eps" "x = newServer e n" "map_of (ad_servers a') (ep_Id e) = Some x" by blast
    from new [OF xy(2)] obtain f m where y: "f \<in> set eps" "y = newServer f m" "map_of (ad_servers a') (ep_Id f) = Some y" by blast
    from eq x y have "ListenAddr e = ListenAddr f" by (simp add: newServer_def)
    with inj(2) x(1) y(1) have "e = f" by (auto dest: inj_onD)
    with x(3) y(3) show "x = y" by simp
  qed
  moreover have "srv_Addr ` (set started - set up) \<inter> srv_Addr ` (set up - set started) = {}" using fresh unfolding up by blast
  ultimately have "inj_on srv_Addr (set started \<union> set up)" using inj(3) unfolding inj_on_Un up by blast
  from start_all [OF this] have final: "set (fold act acts up) = (set started \<union> set up) - set ?stopped"
    unfolding acts fold_append comp_apply stop_all by simp
  have gone: "y \<in> set ?stopped \<longleftrightarrow> (\<exists>i. (i, y) \<in> set (ad_servers a) \<and> \<not> ?P (i, y))" for y
    by (auto simp: image_iff)
  show ?thesis
  proof (intro set_eqI iffI)
    fix y assume "y \<in> set (fold act acts up)"
    then have y: "y \<in> set started \<or> y \<in> set up" "y \<notin> set ?stopped" unfolding final by blast+
    have "\<exists>i. (i, y) \<in> set (ad_servers a)" if "y \<in> set up" using that unfolding up by auto
    with y consider "y \<in> set started" | i where "(i, y) \<in> set (ad_servers a)" "?P (i, y)" unfolding gone by blast
    then show "y \<in> snd ` set (ad_servers a')"
    proof cases
      case 1
      then show ?thesis unfolding val started by blast
    next
      case 2
      with kept [of i y] at [of i] show ?thesis unfolding val by (auto simp: added_at_def)
    qed
  next
    fix y assume "y \<in> snd ` set (ad_servers a')"
    then obtain i where i: "map_of (ad_servers a') i = Some y" unfolding val by blast
    show "y \<in> set (fold act acts up)"
    proof (cases "map_of (ad_servers ?a) i")
      case None
      then have y: "y \<in> set started" using i unfolding started by blast
      from new [OF y] have "ad_next a \<le> srv_serial y" by (auto simp: newServer_def)
      then have "y \<notin> set ?stopped" unfolding gone using ok by (auto simp: adapter_ok_def)
      with y show ?thesis unfolding final by blast
    next
      case (Some z)
      with at [of i] i have "z = y" by (simp add: added_at_def)
      with Some kept [of i y] have k: "(i, y) \<in> set (ad_servers a)" "?P (i, y)" by auto
      have "j = i" if "(j, y) \<in> set (ad_servers a)" for j using serial_unique [OF ok k(1) that] by simp
      with k(2) have "y \<notin> set ?stopped" unfolding gone by blast
      moreover have "y \<in> set up" unfolding up using k(1) by (metis imageI snd_conv)
      ultimately show ?thesis unfolding final by blast
    qed
  qed
qed

text \<open>
  C32.  Listeners follow the entrypoints.  After \<^verbatim>\<open>ReconcileListeners\<close> every entrypoint, and nothing else,
  has a server on its address; one whose address is unchanged keeps its server; reconciling again
  does nothing; and if the addresses differ and none is taken over from another entrypoint's server,
  the servers that listen are exactly those registered.
\<close>

theorem listeners_follow_entrypoints:
  assumes "ReconcileListeners eps a = (acts, a')" "adapter_ok a" "inj_on ep_Id (set eps)"
  shows "(\<forall>i. map_option srv_Addr (map_of (ad_servers a') i) = map_option ListenAddr (find (\<lambda>ep. ep_Id ep = i) eps)) \<and>
    (\<forall>ep \<in> set eps. \<forall>srv. map_of (ad_servers a) (ep_Id ep) = Some srv \<longrightarrow> srv_Addr srv = ListenAddr ep \<longrightarrow>
       map_of (ad_servers a') (ep_Id ep) = Some srv) \<and>
    ReconcileListeners eps a' = ([], a') \<and> adapter_ok a' \<and>
    (inj_on ListenAddr (set eps) \<longrightarrow> inj_on srv_Addr (snd ` set (ad_servers a)) \<longrightarrow> no_takeover eps a \<longrightarrow>
       set up = snd ` set (ad_servers a) \<longrightarrow> set (fold act acts up) = snd ` set (ad_servers a'))"
proof -
  have "map_of (ad_servers a') (ep_Id ep) = Some srv"
    if ep: "ep \<in> set eps" and srv: "map_of (ad_servers a) (ep_Id ep) = Some srv" "srv_Addr srv = ListenAddr ep" for ep srv
  proof -
    have "find (\<lambda>e. ep_Id e = ep_Id ep) eps = Some ep"
      using desired_find [OF assms(3), of "ep_Id ep"] desired_Some [OF assms(3), of "ep_Id ep" ep] ep by simp
    with reconcile_at(1) [OF assms, of "ep_Id ep"] srv show ?thesis by simp
  qed
  with reconcile_addr [OF assms] reconcile_again [OF assms] reconcile_at(2) [OF assms] listening_after [OF assms] show ?thesis
    by blast
qed

definition sample_ep :: "string \<Rightarrow> 16 word \<Rightarrow> entrypoint" where
  "sample_ep i port = \<lparr>ep_ts = zero_timestamps, ep_Id = i, ep_Title = [], ep_Protocol = ProtocolHTTP, ep_Host = [], ep_Port = port, ep_FlowId = ''f''\<rparr>"

theorem listeners_follow_entrypoints_witness:
  "let a = NewHttpAdapter [sample_ep ''in'' 80, sample_ep ''old'' 81];
       (acts, a') = ReconcileListeners [sample_ep ''in'' 80, sample_ep ''new'' 82] a
   in map_of (ad_servers a') ''in'' = map_of (ad_servers a) ''in'' \<and>
      set (fold act acts (map snd (ad_servers a))) = snd ` set (ad_servers a')"
proof -
  let ?a = "NewHttpAdapter [sample_ep ''in'' 80, sample_ep ''old'' 81]" and ?eps = "[sample_ep ''in'' 80, sample_ep ''new'' 82]"
  obtain acts a' where r: "ReconcileListeners ?eps ?a = (acts, a')" by fastforce
  have ok: "adapter_ok ?a" and inj: "inj_on ep_Id (set ?eps)" by code_simp+
  have more: "inj_on ListenAddr (set ?eps)" "inj_on srv_Addr (snd ` set (ad_servers ?a))" "no_takeover ?eps ?a"
    "map_option srv_Addr (map_of (ad_servers ?a) ''in'') = Some (ListenAddr (sample_ep ''in'' 80))" by code_simp+
  obtain srv where srv: "map_of (ad_servers ?a) ''in'' = Some srv" "srv_Addr srv = ListenAddr (sample_ep ''in'' 80)" using more(4) by auto
  from listeners_follow_entrypoints [OF r ok inj, of "map snd (ad_servers ?a)"] more srv r show ?thesis
    by (auto simp: sample_ep_def)
qed

text \<open>
  An address that moves between entrypoints is lost.  When an entrypoint is replaced by another
  one on the same address, the new server tries to listen before the old one is stopped; if the
  old one still holds the address the new one fails, nothing listens there afterwards, and since
  the server is registered reconciling again does not try again.
\<close>

theorem address_takeover_lost:
  assumes "i \<noteq> j"
  shows "let a = NewHttpAdapter [sample_ep i port];
       (acts, a') = ReconcileListeners [sample_ep j port] a
   in fold act acts (fold act (Adapter_Run a) []) = [] \<and>
      map_option srv_Addr (map_of (ad_servers a') j) = Some (ListenAddr (sample_ep j port)) \<and>
      ReconcileListeners [sample_ep j port] a' = ([], a')"
  using assms
  by (simp add: NewHttpAdapter_def ReconcileListeners_def desired_of_def keeps_server_def Adapter_Run_def newServer_def sample_ep_def
      ListenAddr_def Let_def)

theorem address_takeover_lost_witness:
  "fst (ReconcileListeners [sample_ep ''b'' 80] (NewHttpAdapter [sample_ep ''a'' 80])) \<noteq> [] \<and>
   fold act (fst (ReconcileListeners [sample_ep ''b'' 80] (NewHttpAdapter [sample_ep ''a'' 80])))
     (fold act (Adapter_Run (NewHttpAdapter [sample_ep ''a'' 80])) []) = []"
proof -
  have "''a'' \<noteq> ''b''" by simp
  moreover have "fst (ReconcileListeners [sample_ep ''b'' 80] (NewHttpAdapter [sample_ep ''a'' 80])) \<noteq> []" by code_simp
  ultimately show ?thesis using address_takeover_lost [of "''a''" "''b''" 80] by (simp add: Let_def split: prod.splits)
qed

end
