(* ===== verification/Transport.thy ===== *)
theory Transport
  imports Domain
begin

text \<open>
  \<^verbatim>\<open>adapters/proxy/net\<close> (\<^verbatim>\<open>proxy.go\<close>, \<^verbatim>\<open>dns_cache.go\<close>): connections to the upstream proxies.  The dialer, the
  resolver, \<^verbatim>\<open>net.ParseIP\<close>, reading and writing on a connection and the SOCKS5 package act on a world
  \<open>'w\<close> and are parameters; addresses and IPs are text.  The two \<^verbatim>\<open>sync.Map\<close>s, of cached lookups and of one
  transport per proxy, are association lists; a transport is determined by the proxy URL it is
  created with.
\<close>

section \<open>Ports\<close>

record connect_request =
  cr_Host :: string
  cr_URL :: url
  cr_Header :: header

record cache_entry =
  ce_addrs :: "string list"
  ce_expiresAt :: time

record 'w tstate =
  ts_net :: 'w
  ts_dns :: "(string \<times> cache_entry) list"
  ts_transports :: "(string \<times> url) list"

record ('w, 'c) network =
  nw_Dial :: "string \<Rightarrow> ('w, 'c) op"
  nw_Lookup :: "string \<Rightarrow> ('w, string list) op"
  nw_ParseIP :: "string \<Rightarrow> string option"
  nw_Write :: "'c \<Rightarrow> connect_request \<Rightarrow> ('w, unit) op"
  nw_ReadResponse :: "'c \<Rightarrow> ('w, int \<times> string) op"
  nw_Close :: "'c \<Rightarrow> 'w \<Rightarrow> 'w"
  nw_SOCKS5 :: "string \<Rightarrow> (string \<times> string) option \<Rightarrow> (string \<Rightarrow> ('w tstate, 'c) op) \<Rightarrow> (string \<Rightarrow> ('w tstate, 'c) op) result"

record transport_config =
  tcfg_DNSCacheEnabled :: bool
  tcfg_DNSCacheTTL :: duration

definition on_net :: "('w, 'a) op \<Rightarrow> ('w tstate, 'a) op" where
  "on_net m s = (case m (ts_net s) of (r, w) \<Rightarrow> (r, s\<lparr>ts_net := w\<rparr>))"

section \<open>The DNS cache\<close>

definition cached_addrs :: "time \<Rightarrow> string \<Rightarrow> (string \<times> cache_entry) list \<Rightarrow> string list option" where
  "cached_addrs now host dns =
     (case map_of dns host of
        None \<Rightarrow> None
      | Some e \<Rightarrow> if now < ce_expiresAt e then Some (ce_addrs e) else None)"

definition LookupIP :: "('w, 'c) network \<Rightarrow> duration \<Rightarrow> time \<Rightarrow> string \<Rightarrow> ('w tstate, string list) op" where
  "LookupIP N ttl now host s =
     (case nw_ParseIP N host of
        Some ip \<Rightarrow> (Inr [ip], s)
      | None \<Rightarrow>
          (case cached_addrs now host (ts_dns s) of
             Some addrs \<Rightarrow> (Inr addrs, s)
           | None \<Rightarrow>
               (case on_net (nw_Lookup N host) s of
                  (Inl e, s) \<Rightarrow> (Inl e, s)
                | (Inr addrs, s) \<Rightarrow>
                    (Inr addrs, s\<lparr>ts_dns := AList.update host \<lparr>ce_addrs = addrs, ce_expiresAt = now + ttl\<rparr> (ts_dns s)\<rparr>))))"

section \<open>Dialing\<close>

text \<open>The addresses are tried in order; the first error is reported.\<close>

fun dial_ips :: "('w, 'c) network \<Rightarrow> string \<Rightarrow> string \<Rightarrow> err option \<Rightarrow> string list \<Rightarrow> ('w tstate, 'c) op" where
  "dial_ips N host port firstErr [] s =
     (case firstErr of
        None \<Rightarrow> (Inl (Errorf ''dns cache: no addresses for %s'' [FStr host]), s)
      | Some e \<Rightarrow> (Inl e, s))"
| "dial_ips N host port firstErr (ip # ips) s =
     (case on_net (nw_Dial N (JoinHostPort ip port)) s of
        (Inr conn, s) \<Rightarrow> (Inr conn, s)
      | (Inl e, s) \<Rightarrow> dial_ips N host port (if firstErr = None then Some e else firstErr) ips s)"

definition dialWithDNSCache :: "('w, 'c) network \<Rightarrow> duration \<Rightarrow> time \<Rightarrow> string \<Rightarrow> ('w tstate, 'c) op" where
  "dialWithDNSCache N ttl now address =
     (case SplitHostPort address of
        Inl e \<Rightarrow> on_net (nw_Dial N address)
      | Inr (host, port) \<Rightarrow>
          if nw_ParseIP N host \<noteq> None then on_net (nw_Dial N address)
          else bind_op (LookupIP N ttl now host) (dial_ips N host port None))"

definition dialContext :: "transport_config \<Rightarrow> ('w, 'c) network \<Rightarrow> time \<Rightarrow> string \<Rightarrow> ('w tstate, 'c) op" where
  "dialContext cfg N now address =
     (if tcfg_DNSCacheEnabled cfg then dialWithDNSCache N (tcfg_DNSCacheTTL cfg) now address
      else on_net (nw_Dial N address))"

text \<open>\<^verbatim>\<open>base64.StdEncoding\<close>.\<close>

definition base64_alphabet :: string where
  "base64_alphabet = ''ABCDEFGHIJKLMNOPQRSTUVWXYZabcdefghijklmnopqrstuvwxyz0123456789+/''"

definition sextet :: "nat \<Rightarrow> char" where
  "sextet n = base64_alphabet ! (n mod 64)"

fun base64_encode :: "string \<Rightarrow> string" where
  "base64_encode [] = []"
| "base64_encode [a] = [sextet (byte a div 4), sextet (byte a mod 4 * 16), CHR ''='', CHR ''='']"
| "base64_encode [a, b] =
     [sextet (byte a div 4), sextet (byte a mod 4 * 16 + byte b div 16), sextet (byte b mod 16 * 4), CHR ''='']"
| "base64_encode (a # b # c # rest) =
     [sextet (byte a div 4), sextet (byte a mod 4 * 16 + byte b div 16), sextet (byte b mod 16 * 4 + byte c div 64), sextet (byte c mod 64)]
       @ base64_encode rest"

definition connect_request_for :: "proxy \<Rightarrow> string \<Rightarrow> connect_request" where
  "connect_request_for p target =
     \<lparr>cr_Host = target, cr_URL = Proxy_URL p,
      cr_Header = [(''Host'', [target]), (''Proxy-Connection'', [''keep-alive''])] @
        (case proxy_Auth p of
           Some a \<Rightarrow> if HasAuth p then [(''Proxy-Authorization'', [''Basic '' @ base64_encode (auth_User a @ '':'' @ auth_Pass a)])] else []
         | None \<Rightarrow> [])\<rparr>"

definition closing :: "('w, 'c) network \<Rightarrow> 'c \<Rightarrow> err \<Rightarrow> 'w tstate \<Rightarrow> 'c result \<times> 'w tstate" where
  "closing N conn e s = (Inl e, s\<lparr>ts_net := nw_Close N conn (ts_net s)\<rparr>)"

definition dialHTTPProxy :: "transport_config \<Rightarrow> ('w, 'c) network \<Rightarrow> time \<Rightarrow> proxy \<Rightarrow> string \<Rightarrow> ('w tstate, 'c) op" where
  "dialHTTPProxy cfg N now p target s =
     (case dialContext cfg N now (Proxy_Addr p) s of
        (Inl e, s) \<Rightarrow> (Inl (Wrapf ''dial proxy %s: %w'' [FStr (Proxy_Addr p)] e), s)
      | (Inr conn, s) \<Rightarrow>
          (case on_net (nw_Write N conn (connect_request_for p target)) s of
             (Inl e, s) \<Rightarrow> closing N conn (Wrapf ''write CONNECT request: %w'' [] e) s
           | (Inr _, s) \<Rightarrow>
               (case on_net (nw_ReadResponse N conn) s of
                  (Inl e, s) \<Rightarrow> closing N conn (Wrapf ''read CONNECT response: %w'' [] e) s
                | (Inr (code, status), s) \<Rightarrow>
                    if code \<noteq> 200 then closing N conn (Errorf ''proxy CONNECT failed: %s'' [FStr status]) s
                    else (Inr conn, s))))"

definition dialSOCKS5 :: "transport_config \<Rightarrow> ('w, 'c) network \<Rightarrow> time \<Rightarrow> proxy \<Rightarrow> string \<Rightarrow> ('w tstate, 'c) op" where
  "dialSOCKS5 cfg N now p target =
     (case nw_SOCKS5 N (Proxy_Addr p)
             (case proxy_Auth p of Some a \<Rightarrow> if HasAuth p then Some (auth_User a, auth_Pass a) else None | None \<Rightarrow> None)
             (dialContext cfg N now) of
        Inl e \<Rightarrow> lift_op (Inl (Wrapf ''create socks5 dialer: %w'' [] e))
      | Inr dial \<Rightarrow> dial target)"

definition Transport_Dial :: "transport_config \<Rightarrow> ('w, 'c) network \<Rightarrow> time \<Rightarrow> proxy \<Rightarrow> string \<Rightarrow> ('w tstate, 'c) op" where
  "Transport_Dial cfg N now p target =
     (if proxy_Protocol p = ProtocolHTTP \<or> proxy_Protocol p = ProtocolHTTPS then dialHTTPProxy cfg N now p target
      else if proxy_Protocol p = ProtocolSOCKS5 then dialSOCKS5 cfg N now p target
      else lift_op (Inl (Errorf ''unsupported proxy protocol: %s'' [FStr (proxy_Protocol p)])))"

section \<open>Transports\<close>

definition transport_for :: "proxy \<Rightarrow> 'w tstate \<Rightarrow> url \<times> 'w tstate" where
  "transport_for p s =
     (case map_of (ts_transports s) (proxy_Id p) of
        Some u \<Rightarrow> (u, s)
      | None \<Rightarrow> (Proxy_URL p, s\<lparr>ts_transports := AList.update (proxy_Id p) (Proxy_URL p) (ts_transports s)\<rparr>))"

text \<open>\<^verbatim>\<open>RoundTrip\<close>: \<open>send\<close> is \<^verbatim>\<open>http.Transport.RoundTrip\<close> of a transport whose proxy is the URL.\<close>

definition Transport_RoundTrip :: "(url \<Rightarrow> 'req \<Rightarrow> ('w, 'resp) op) \<Rightarrow> proxy \<Rightarrow> 'req \<Rightarrow> ('w tstate, 'resp) op" where
  "Transport_RoundTrip send p r s = (case transport_for p s of (u, s) \<Rightarrow> on_net (send u r) s)"

section \<open>Freshness of lookups\<close>

text \<open>
  A run of lookups, with the successful lookups made so far: host, time and answer.
\<close>

type_synonym lookup_log = "(string \<times> time \<times> string list) list"

definition dns_ok :: "duration \<Rightarrow> lookup_log \<Rightarrow> 'w tstate \<Rightarrow> bool" where
  "dns_ok ttl log s \<longleftrightarrow> (\<forall>host e. map_of (ts_dns s) host = Some e \<longrightarrow>
     (\<exists>t. (host, t, ce_addrs e) \<in> set log \<and> ce_expiresAt e = t + ttl))"

definition asked :: "('w, 'c) network \<Rightarrow> time \<Rightarrow> string \<Rightarrow> 'w tstate \<Rightarrow> lookup_log" where
  "asked N now host s =
     (if nw_ParseIP N host = None \<and> cached_addrs now host (ts_dns s) = None
      then (case fst (nw_Lookup N host (ts_net s)) of Inl _ \<Rightarrow> [] | Inr addrs \<Rightarrow> [(host, now, addrs)]) else [])"

fun lookups :: "('w, 'c) network \<Rightarrow> duration \<Rightarrow> (time \<times> string) list \<Rightarrow> 'w tstate \<Rightarrow> lookup_log \<Rightarrow> 'w tstate \<times> lookup_log" where
  "lookups N ttl [] s log = (s, log)"
| "lookups N ttl ((now, host) # qs) s log = lookups N ttl qs (snd (LookupIP N ttl now host s)) (log @ asked N now host s)"

lemma dns_ok_more: "dns_ok ttl log s \<Longrightarrow> ts_dns s' = ts_dns s \<Longrightarrow> dns_ok ttl (log @ log') s'"
  unfolding dns_ok_def by (metis Un_iff set_append)

lemma dns_ok_step:
  assumes "dns_ok ttl log s"
  shows "dns_ok ttl (log @ asked N now host s) (snd (LookupIP N ttl now host s))"
proof (cases "nw_ParseIP N host = None \<and> cached_addrs now host (ts_dns s) = None \<and> is_ok (fst (nw_Lookup N host (ts_net s)))")
  case True
  then obtain addrs w where l: "nw_Lookup N host (ts_net s) = (Inr addrs, w)"
    by (cases "nw_Lookup N host (ts_net s)"; cases "fst (nw_Lookup N host (ts_net s))") auto
  with True have s': "ts_dns (snd (LookupIP N ttl now host s)) = AList.update host \<lparr>ce_addrs = addrs, ce_expiresAt = now + ttl\<rparr> (ts_dns s)"
    and a: "asked N now host s = [(host, now, addrs)]" by (auto simp: LookupIP_def asked_def on_net_def)
  have "dns_ok ttl (log @ [(host, now, addrs)]) s" by (rule dns_ok_more [OF assms refl])
  then show ?thesis unfolding a dns_ok_def s' by (auto simp: update_conv')
next
  case False
  then have "ts_dns (snd (LookupIP N ttl now host s)) = ts_dns s"
    by (auto simp: LookupIP_def on_net_def split: option.splits sum.splits prod.splits)
  then show ?thesis by (rule dns_ok_more [OF assms])
qed

lemma dns_ok_run: "dns_ok ttl log s \<Longrightarrow> lookups N ttl qs s log = (s', log') \<Longrightarrow> dns_ok ttl log' s'"
proof (induction qs arbitrary: s log)
  case (Cons q qs)
  then show ?case using dns_ok_step [of ttl log s N "fst q" "snd q"] by (cases q) simp
qed simp

text \<open>
  A cached answer is a recent one.  After any lookups from an empty cache, \<^verbatim>\<open>LookupIP\<close> answers a
  host name with what the resolver answers now or with what it answered for that very name at a
  time less than the time to live ago; a literal address is answered without either.
\<close>

theorem lookup_is_fresh:
  assumes "lookups N ttl qs \<lparr>ts_net = w, ts_dns = [], ts_transports = []\<rparr> [] = (s, log)"
    and "LookupIP N ttl now host s = (Inr addrs, s')"
  shows "case nw_ParseIP N host of
      Some ip \<Rightarrow> addrs = [ip] \<and> s' = s
    | None \<Rightarrow> fst (nw_Lookup N host (ts_net s)) = Inr addrs \<or> (\<exists>t. (host, t, addrs) \<in> set log \<and> now < t + ttl)"
proof -
  have "dns_ok ttl [] \<lparr>ts_net = w, ts_dns = [], ts_transports = []\<rparr>" by (simp add: dns_ok_def)
  from dns_ok_run [OF this assms(1)] have ok: "dns_ok ttl log s" .
  show ?thesis
  proof (cases "nw_ParseIP N host")
    case (Some ip)
    with assms(2) show ?thesis by (simp add: LookupIP_def)
  next
    case None
    show ?thesis
    proof (cases "cached_addrs now host (ts_dns s)")
      case (Some x)
      with assms(2) None obtain e where "map_of (ts_dns s) host = Some e" "now < ce_expiresAt e" "addrs = ce_addrs e"
        by (auto simp: LookupIP_def cached_addrs_def split: option.splits if_splits)
      with ok None show ?thesis unfolding dns_ok_def by fastforce
    next
      case n: None
      with assms(2) None show ?thesis by (auto simp: LookupIP_def on_net_def split: prod.splits sum.splits)
    qed
  qed
qed

definition sample_network :: "(nat, unit) network" where
  "sample_network =
     \<lparr>nw_Dial = \<lambda>a w. (Inr (), w), nw_Lookup = \<lambda>h w. (Inr [dec w], w + 1), nw_ParseIP = \<lambda>h. None,
      nw_Write = \<lambda>c r w. (Inr (), w), nw_ReadResponse = \<lambda>c w. (Inr (200, ''200 OK''), w), nw_Close = \<lambda>c w. w,
      nw_SOCKS5 = \<lambda>a u d. Inr d\<rparr>"

theorem lookup_is_fresh_witness:
  "fst (LookupIP sample_network 10 7 ''h'' (fst (lookups sample_network 10 [(1, ''h'')] \<lparr>ts_net = 0, ts_dns = [], ts_transports = []\<rparr> []))) = Inr [''0''] \<and>
   (\<exists>t. (''h'', t, [''0'']) \<in> set (snd (lookups sample_network 10 [(1, ''h'')] \<lparr>ts_net = 0, ts_dns = [], ts_transports = []\<rparr> [])) \<and> 7 < t + 10)"
proof -
  obtain s log where r: "lookups sample_network 10 [(1, ''h'')] \<lparr>ts_net = 0, ts_dns = [], ts_transports = []\<rparr> [] = (s, log)" by fastforce
  have d: "dec 0 = ''0''" "dec 1 = ''1''" by code_simp+
  have s: "s = \<lparr>ts_net = 1, ts_dns = [(''h'', \<lparr>ce_addrs = [''0''], ce_expiresAt = 11\<rparr>)], ts_transports = []\<rparr>"
    using r by (auto simp: LookupIP_def asked_def cached_addrs_def on_net_def sample_network_def d)
  have l: "LookupIP sample_network 10 7 ''h'' s = (Inr [''0''], s)" "nw_ParseIP sample_network ''h'' = None"
    "fst (nw_Lookup sample_network ''h'' (ts_net s)) = Inr [''1'']"
    using d(2) by (simp_all add: s LookupIP_def cached_addrs_def sample_network_def)
  from lookup_is_fresh [OF r l(1)] l r show ?thesis by simp
qed

text \<open>
  A proxy that is changed keeps its old transport: once a request has gone through a proxy, every
  later plain HTTP request through a proxy with the same identifier is sent to the address and
  with the credentials that the proxy had then.
\<close>

theorem transport_ignores_proxy_update:
  assumes "proxy_Id p = proxy_Id p'" "map_of (ts_transports s) (proxy_Id p) = None"
  shows "fst (transport_for p' (snd (Transport_RoundTrip send p r s))) = Proxy_URL p"
  using assms by (simp add: Transport_RoundTrip_def transport_for_def on_net_def update_conv' split: prod.splits)

theorem transport_ignores_proxy_update_witness:
  "fst (transport_for ((sample_proxy ''q'')\<lparr>proxy_Host := ''moved''\<rparr>)
     (snd (Transport_RoundTrip (\<lambda>u r w. (Inr (), w)) (sample_proxy ''q'') () \<lparr>ts_net = (), ts_dns = [], ts_transports = []\<rparr>))) =
   Proxy_URL (sample_proxy ''q'') \<and>
   Proxy_URL ((sample_proxy ''q'')\<lparr>proxy_Host := ''moved''\<rparr>) \<noteq> Proxy_URL (sample_proxy ''q'')"
proof -
  have "Proxy_URL ((sample_proxy ''q'')\<lparr>proxy_Host := ''moved''\<rparr>) \<noteq> Proxy_URL (sample_proxy ''q'')" by code_simp
  then show ?thesis using transport_ignores_proxy_update [of "sample_proxy ''q''" "(sample_proxy ''q'')\<lparr>proxy_Host := ''moved''\<rparr>"
      "\<lparr>ts_net = (), ts_dns = [], ts_transports = []\<rparr>" "\<lambda>u r w. (Inr (), w)" "()"] by simp
qed

text \<open>
  The address of a proxy on an IPv6 host is malformed: the host is not put in brackets, so
  splitting the address, as every dial does, fails.
\<close>

theorem ipv6_address_malformed:
  assumes "CHR '':'' \<in> set (proxy_Host p)" "hd (proxy_Host p) \<noteq> CHR ''[''"
  shows "SplitHostPort (Proxy_Addr p) = Inl tooManyColons"
proof -
  have "\<not> is_digit CHR '':''" by code_simp
  then have "CHR '':'' \<notin> set (dec n)" for n using dec_digits by blast
  then have "last_index_byte CHR '':'' (Proxy_Addr p) = Some (length (proxy_Host p))"
    by (simp add: Proxy_Addr_def last_index_byte_append)
  moreover have "hd (Proxy_Addr p) = hd (proxy_Host p)" using assms(1) by (cases "proxy_Host p") (simp_all add: Proxy_Addr_def)
  moreover have "take (length (proxy_Host p)) (Proxy_Addr p) = proxy_Host p" by (simp add: Proxy_Addr_def)
  ultimately show ?thesis using assms by (simp add: SplitHostPort_def)
qed

theorem ipv6_address_malformed_witness:
  "SplitHostPort (Proxy_Addr ((sample_proxy ''q'')\<lparr>proxy_Host := ''::1''\<rparr>)) = Inl tooManyColons \<and>
   SplitHostPort (JoinHostPort ''::1'' ''3128'') = Inr (''::1'', ''3128'')"
proof -
  have "SplitHostPort (JoinHostPort ''::1'' ''3128'') = Inr (''::1'', ''3128'')" by code_simp
  then show ?thesis using ipv6_address_malformed [of "(sample_proxy ''q'')\<lparr>proxy_Host := ''::1''\<rparr>"] by simp
qed

end
