(* ===== verification/Go_Encoding.thy ===== *)
theory Go_Encoding
  imports Go_Strings "HOL-Library.Log_Nat"
begin

text \<open>
  Two codecs of Go's standard library that values cross the wire in: \<^verbatim>\<open>base64.RawURLEncoding\<close>
  (page tokens) and the text of a \<^verbatim>\<open>time.Duration\<close> (reset intervals).  Both are shown to be
  undone by their decoders.
\<close>

section \<open>base64.RawURLEncoding\<close>

definition b64_alphabet :: string where
  "b64_alphabet = ''ABCDEFGHIJKLMNOPQRSTUVWXYZabcdefghijklmnopqrstuvwxyz0123456789-_''"

text \<open>Groups of three bytes become four values below 64; a rest of one or two bytes becomes two or three.\<close>

fun b64_split :: "nat list \<Rightarrow> nat list" where
  "b64_split [] = []"
| "b64_split [x] = [x div 4, x mod 4 * 16]"
| "b64_split [x, y] = [x div 4, x mod 4 * 16 + y div 16, y mod 16 * 4]"
| "b64_split (x # y # z # r) =
     (x div 4) # (x mod 4 * 16 + y div 16) # (y mod 16 * 4 + z div 64) # (z mod 64) # b64_split r"

text \<open>The encoding is not strict: the low bits that a short last group leaves over are ignored.\<close>

fun b64_join :: "nat list \<Rightarrow> nat list option" where
  "b64_join [] = Some []"
| "b64_join [a] = None"
| "b64_join [a, b] = Some [a * 4 + b div 16]"
| "b64_join [a, b, c] = Some [a * 4 + b div 16, b mod 16 * 16 + c div 4]"
| "b64_join (a # b # c # d # r) =
     map_option (\<lambda>s. (a * 4 + b div 16) # (b mod 16 * 16 + c div 4) # (c mod 4 * 64 + d) # s) (b64_join r)"

definition b64_EncodeToString :: "string \<Rightarrow> string" where
  "b64_EncodeToString s = map (\<lambda>v. b64_alphabet ! v) (b64_split (map byte s))"

fun b64_values :: "string \<Rightarrow> nat list option" where
  "b64_values [] = Some []"
| "b64_values (c # s) =
     (case index_byte c b64_alphabet of
        Some v \<Rightarrow> map_option (\<lambda>vs. v # vs) (b64_values s)
      | None \<Rightarrow> if byte c = 10 \<or> byte c = 13 then b64_values s else None)"

definition b64_DecodeString :: "string \<Rightarrow> string result" where
  "b64_DecodeString s =
     (case Option.bind (b64_values s) b64_join of
        None \<Rightarrow> Inl (External ''illegal base64 data'')
      | Some bs \<Rightarrow> Inr (map char_of bs))"

lemma b64_split_less: "\<forall>x \<in> set bs. x < 256 \<Longrightarrow> \<forall>v \<in> set (b64_split bs). v < 64"
  by (induction bs rule: b64_split.induct) auto

lemma b64_bits:
  fixes x y z :: nat
  assumes "x < 256" "y < 256" "z < 256"
  shows "x div 4 * 4 + (x mod 4 * 16 + y div 16) div 16 = x"
    and "(x mod 4 * 16 + y div 16) mod 16 * 16 + (y mod 16 * 4 + z div 64) div 4 = y"
    and "(y mod 16 * 4 + z div 64) mod 4 * 64 + z mod 64 = z"
proof -
  have d: "(a * k + b) div k = a" "(a * k + b) mod k = b" if "b < k" for a b k :: nat
    using that by simp_all
  have "y div 16 < 16" "z div 64 < 4" using assms by auto
  then show "x div 4 * 4 + (x mod 4 * 16 + y div 16) div 16 = x"
    and "(x mod 4 * 16 + y div 16) mod 16 * 16 + (y mod 16 * 4 + z div 64) div 4 = y"
    and "(y mod 16 * 4 + z div 64) mod 4 * 64 + z mod 64 = z"
    by (simp_all only: d div_mult_mod_eq)
qed

lemma b64_join_split: "\<forall>x \<in> set bs. x < 256 \<Longrightarrow> b64_join (b64_split bs) = Some bs"
proof (induction bs rule: b64_split.induct)
  case (2 x)
  then show ?case using b64_bits(1) [of x 0 0] by simp
next
  case (3 x y)
  then show ?case using b64_bits(1,2) [of x y 0] by simp
next
  case (4 x y z r)
  then show ?case using b64_bits [of x y z] by simp
qed simp

lemma b64_index: "v < 64 \<Longrightarrow> index_byte (b64_alphabet ! v) b64_alphabet = Some v"
proof -
  have "\<forall>v \<in> set [0..<64]. index_byte (b64_alphabet ! v) b64_alphabet = Some v" by code_simp
  then show "v < 64 \<Longrightarrow> ?thesis" by simp
qed

lemma b64_values_alphabet: "\<forall>v \<in> set vs. v < 64 \<Longrightarrow> b64_values (map (\<lambda>v. b64_alphabet ! v) vs) = Some vs"
  by (induction vs) (auto simp: b64_index)

theorem b64_decode_encode: "b64_DecodeString (b64_EncodeToString s) = Inr s"
proof -
  have bytes: "\<forall>x \<in> set (map byte s). x < 256" by (simp add: byte_less)
  have "map char_of (map byte s) = s" by (simp add: byte_def comp_def)
  with b64_values_alphabet [OF b64_split_less [OF bytes]] b64_join_split [OF bytes] show ?thesis
    by (simp add: b64_DecodeString_def b64_EncodeToString_def)
qed

section \<open>Floating-point rounding\<close>

text \<open>
  A finite \<^verbatim>\<open>float64\<close> is a rational number.  \<open>float64_of\<close> rounds a non-negative rational to 53 significant
  bits, ties to even; the exponents that occur here are far from the ends of the range.
\<close>

definition round_even :: "rat \<Rightarrow> int" where
  "round_even x =
     (let q = floor x; r = x - of_int q in if r > 1 / 2 \<or> (r = 1 / 2 \<and> odd q) then q + 1 else q)"

definition float_exponent :: "rat \<Rightarrow> int" where
  "float_exponent x =
     (case quotient_of x of (n, d) \<Rightarrow>
        let k = bitlen n - bitlen d in (if x \<ge> 2 powi k then k else k - 1) - 52)"

definition float64_of :: "rat \<Rightarrow> rat" where
  "float64_of x = (if x = 0 then 0 else of_int (round_even (x / 2 powi float_exponent x)) * 2 powi float_exponent x)"

lemma round_even_int [simp]: "round_even (of_int i) = i"
  by (simp add: round_even_def)

lemma float64_of_int:
  assumes "n < 2 ^ 53"
  shows "float64_of (of_nat n) = of_nat n"
proof (cases "n = 0")
  case False
  let ?e = "float_exponent (of_nat n)"
  have len: "bitlen (int n) \<le> 53"
  proof -
    have "int n < 2 ^ 53" using assms of_nat_less_iff [of n "2 ^ 53", where ?'a = int] by simp
    then show ?thesis by (subst bitlen_le_iff_power) simp_all
  qed
  have "quotient_of (of_nat n) = (int n, 1)"
    using quotient_of_int [of "int n"] by simp
  moreover have "bitlen 1 = 1" by code_simp
  ultimately have e: "?e \<le> 0"
    using len by (simp only: float_exponent_def prod.case Let_def split: if_split) linarith
  define m where "m = nat (- ?e)"
  with e have pow: "(2::rat) powi ?e = inverse (2 ^ m)" by (simp add: power_int_def power_one_over inverse_eq_divide)
  have "of_nat n / (2::rat) powi ?e = of_int (int n * 2 ^ m)" by (simp add: pow divide_inverse)
  then have "float64_of (of_nat n) = of_int (int n * 2 ^ m) * (2::rat) powi ?e"
    using False by (simp only: float64_of_def round_even_int of_nat_eq_0_iff if_False)
  then show ?thesis by (simp add: pow)
qed (simp add: float64_of_def)

section \<open>time.ParseDuration\<close>

fun leadingInt :: "nat \<Rightarrow> string \<Rightarrow> (nat \<times> string) option" where
  "leadingInt x [] = Some (x, [])"
| "leadingInt x (c # s) =
     (if \<not> is_digit c then Some (x, c # s)
      else if x > 2 ^ 63 div 10 then None
      else let y = x * 10 + (byte c - 48) in if y > 2 ^ 63 then None else leadingInt y s)"

text \<open>The scale is a power of ten of at most nineteen digits, which a \<^verbatim>\<open>float64\<close> holds exactly.\<close>

fun leadingFraction :: "nat \<Rightarrow> nat \<Rightarrow> bool \<Rightarrow> string \<Rightarrow> nat \<times> nat \<times> string" where
  "leadingFraction x scale overflow [] = (x, scale, [])"
| "leadingFraction x scale overflow (c # s) =
     (if \<not> is_digit c then (x, scale, c # s)
      else if overflow then leadingFraction x scale True s
      else if x > (2 ^ 63 - 1) div 10 then leadingFraction x scale True s
      else let y = x * 10 + (byte c - 48) in
        if y > 2 ^ 63 then leadingFraction x scale True s else leadingFraction y (scale * 10) False s)"

definition unitMap :: "(string \<times> nat) list" where
  "unitMap =
     [(''ns'', 1), (''us'', 1000), ([CHR 0xC2, CHR 0xB5, CHR ''s''], 1000), ([CHR 0xCE, CHR 0xBC, CHR ''s''], 1000),
      (''ms'', 1000000), (''s'', 1000000000), (''m'', 60000000000), (''h'', 3600000000000)]"

definition number_byte :: "char \<Rightarrow> bool" where
  "number_byte c \<longleftrightarrow> c = CHR ''.'' \<or> is_digit c"

text \<open>
  One turn of the loop takes a number and its unit off the front: first the digits, with the
  numerator and the scale of the fraction.
\<close>

definition duration_number :: "string \<Rightarrow> (nat \<times> nat \<times> nat \<times> string) option" where
  "duration_number s =
     (if s = [] \<or> \<not> number_byte (hd s) then None
      else case leadingInt 0 s of
        None \<Rightarrow> None
      | Some (v, s1) \<Rightarrow>
          if s1 \<noteq> [] \<and> hd s1 = CHR ''.'' then
            (case leadingFraction 0 1 False (tl s1) of
               (f, scale, s2) \<Rightarrow>
                 if length s1 = length s \<and> length s2 = length (tl s1) then None else Some (v, f, scale, s2))
          else if length s1 = length s then None else Some (v, 0, 1, s1))"

definition duration_value :: "nat \<Rightarrow> nat \<Rightarrow> nat \<Rightarrow> nat \<Rightarrow> nat option" where
  "duration_value v f scale unit =
     (if v > 2 ^ 63 div unit then None
      else if f = 0 then Some (v * unit)
      else let w = v * unit + nat (floor (float64_of (float64_of (of_nat f) * float64_of (of_nat unit / of_nat scale))))
           in if w > 2 ^ 63 then None else Some w)"

definition duration_term :: "string \<Rightarrow> (nat \<times> string) option" where
  "duration_term s =
     (case duration_number s of
        None \<Rightarrow> None
      | Some (v, f, scale, r) \<Rightarrow>
          (case map_of unitMap (takeWhile (\<lambda>c. \<not> number_byte c) r) of
             None \<Rightarrow> None
           | Some unit \<Rightarrow>
               (case duration_value v f scale unit of
                  None \<Rightarrow> None
                | Some w \<Rightarrow> Some (w, dropWhile (\<lambda>c. \<not> number_byte c) r))))"

lemma leadingInt_length: "leadingInt x s = Some (y, r) \<Longrightarrow> length r \<le> length s"
  by (induction s arbitrary: x) (auto simp: Let_def split: if_splits intro: le_SucI)

lemma leadingFraction_length: "leadingFraction x k ov s = (y, k', r) \<Longrightarrow> length r \<le> length s"
  by (induction s arbitrary: x k ov) (auto simp: Let_def split: if_splits intro: le_SucI)

lemma duration_number_length:
  assumes "duration_number s = Some (v, f, k, r)"
  shows "length r \<le> length s"
proof -
  from assms obtain v1 s1 where l: "leadingInt 0 s = Some (v1, s1)"
    by (auto simp: duration_number_def split: if_splits option.splits)
  obtain f1 k1 s2 where t: "leadingFraction 0 1 False (tl s1) = (f1, k1, s2)" by (metis prod_cases3)
  from assms have "r = s2 \<or> r = s1"
    by (simp add: duration_number_def l t [simplified] split: if_splits)
  moreover have "length s2 \<le> length (tl s1)" using leadingFraction_length [OF t] .
  ultimately show ?thesis using leadingInt_length [OF l] by auto
qed

lemma duration_term_length:
  assumes "duration_term s = Some (w, r)"
  shows "length r < length s"
proof -
  from assms obtain v f k t where n: "duration_number s = Some (v, f, k, t)"
    and u: "map_of unitMap (takeWhile (\<lambda>c. \<not> number_byte c) t) \<noteq> None" and r: "r = dropWhile (\<lambda>c. \<not> number_byte c) t"
    by (auto simp: duration_term_def split: option.splits)
  have "map_of unitMap [] = None" by (simp add: unitMap_def)
  with u have "takeWhile (\<lambda>c. \<not> number_byte c) t \<noteq> []" by auto
  then have "length r < length t"
    unfolding r by (metis length_append length_greater_0_conv less_add_same_cancel2 takeWhile_dropWhile_id)
  with duration_number_length [OF n] show ?thesis by simp
qed

function duration_sum :: "nat \<Rightarrow> string \<Rightarrow> nat option" where
  "duration_sum d s =
     (if s = [] then Some d
      else case duration_term s of
        None \<Rightarrow> None
      | Some (v, r) \<Rightarrow> let d = (d + v) mod 2 ^ 64 in if d > 2 ^ 63 then None else duration_sum d r)"
  by pat_completeness auto
termination
  by (relation "measure (length \<circ> snd)") (auto dest: duration_term_length)

declare duration_sum.simps [simp del]

definition invalid_duration :: "string \<Rightarrow> err" where
  "invalid_duration s = External ''time: invalid duration''"

definition ParseDuration :: "string \<Rightarrow> duration result" where
  "ParseDuration orig =
     (let neg = (orig \<noteq> [] \<and> hd orig = CHR ''-'');
          s = (if orig \<noteq> [] \<and> (hd orig = CHR ''-'' \<or> hd orig = CHR ''+'') then tl orig else orig)
      in if s = ''0'' then Inr 0
         else if s = [] then Inl (invalid_duration orig)
         else case duration_sum 0 s of
                None \<Rightarrow> Inl (invalid_duration orig)
              | Some d \<Rightarrow>
                  if neg then Inr (wrap64 (- int d))
                  else if d > 2 ^ 63 - 1 then Inl (invalid_duration orig) else Inr (int d))"

section \<open>time.Duration.String\<close>

fun frac_loop :: "nat \<Rightarrow> bool \<Rightarrow> string \<Rightarrow> nat \<Rightarrow> bool \<times> string \<times> nat" where
  "frac_loop 0 pr buf v = (pr, buf, v)"
| "frac_loop (Suc n) pr buf v =
     (let pr = (pr \<or> v mod 10 \<noteq> 0)
      in frac_loop n pr (if pr then char_of (48 + v mod 10) # buf else buf) (v div 10))"

definition fmtFrac :: "string \<Rightarrow> nat \<Rightarrow> nat \<Rightarrow> string \<times> nat" where
  "fmtFrac buf v prec = (case frac_loop prec False buf v of (pr, buf, v) \<Rightarrow> (if pr then CHR ''.'' # buf else buf, v))"

definition fmtInt :: "string \<Rightarrow> nat \<Rightarrow> string" where
  "fmtInt buf v = dec v @ buf"

definition format_small :: "nat \<Rightarrow> string" where
  "format_small u =
     (if u = 0 then ''0s''
      else if u < 1000 then (case fmtFrac ''ns'' u 0 of (buf, v) \<Rightarrow> fmtInt buf v)
      else if u < 1000000 then (case fmtFrac [CHR 0xC2, CHR 0xB5, CHR ''s''] u 3 of (buf, v) \<Rightarrow> fmtInt buf v)
      else (case fmtFrac ''ms'' u 6 of (buf, v) \<Rightarrow> fmtInt buf v))"

definition format_large :: "nat \<Rightarrow> string" where
  "format_large u =
     (case fmtFrac ''s'' u 9 of (buf, secs) \<Rightarrow>
        let buf = fmtInt buf (secs mod 60); mins = secs div 60 in
        if mins = 0 then buf
        else let buf = fmtInt (CHR ''m'' # buf) (mins mod 60); hours = mins div 60 in
             if hours = 0 then buf else fmtInt (CHR ''h'' # buf) hours)"

definition Duration_String :: "duration \<Rightarrow> string" where
  "Duration_String d =
     (let u = nat \<bar>d\<bar>; buf = (if u < 1000000000 then format_small u else format_large u)
      in if d < 0 then CHR ''-'' # buf else buf)"

section \<open>Parsing what was printed\<close>

definition add_digit :: "char \<Rightarrow> nat \<Rightarrow> nat" where
  "add_digit c v = v * 10 + (byte c - 48)"

lemma fold_add_digit_ge: "x \<le> fold add_digit ds x"
proof (induction ds arbitrary: x)
  case (Cons c ds)
  have "x \<le> add_digit c x" by (simp add: add_digit_def)
  also have "\<dots> \<le> fold add_digit ds (add_digit c x)" by (rule Cons)
  finally show ?case by simp
qed simp

lemma fold_add_digit_dec: "fold add_digit (dec n) 0 = n"
  using digits_val_dec [of n] by (simp add: digits_val_def add_digit_def [abs_def])

definition no_digit_first :: "string \<Rightarrow> bool" where
  "no_digit_first r \<longleftrightarrow> r = [] \<or> \<not> is_digit (hd r)"

lemma leadingInt_digits:
  "\<forall>c \<in> set ds. is_digit c \<Longrightarrow> no_digit_first r \<Longrightarrow> fold add_digit ds x \<le> 2 ^ 63 \<Longrightarrow>
   leadingInt x (ds @ r) = Some (fold add_digit ds x, r)"
proof (induction ds arbitrary: x)
  case Nil
  then show ?case by (cases r) (simp_all add: no_digit_first_def)
next
  case (Cons c ds)
  then have "add_digit c x \<le> 2 ^ 63" using fold_add_digit_ge [of "add_digit c x" ds] by simp
  moreover from this have "x * 10 \<le> 2 ^ 63" unfolding add_digit_def by linarith
  then have "\<not> x > 2 ^ 63 div 10" by simp
  moreover have "leadingInt (add_digit c x) (ds @ r) = Some (fold add_digit ds (add_digit c x), r)" "is_digit c"
    using Cons by simp_all
  ultimately show ?case
    by (simp only: append_Cons leadingInt.simps if_False not_less [symmetric] Let_def fold_simps
        add_digit_def [symmetric] simp_thms)
qed

lemma leadingFraction_digits:
  "\<forall>c \<in> set ds. is_digit c \<Longrightarrow> no_digit_first r \<Longrightarrow> fold add_digit ds x \<le> 2 ^ 62 \<Longrightarrow>
   leadingFraction x k False (ds @ r) = (fold add_digit ds x, k * 10 ^ length ds, r)"
proof (induction ds arbitrary: x k)
  case Nil
  then show ?case by (cases r) (simp_all add: no_digit_first_def)
next
  case (Cons c ds)
  then have "add_digit c x \<le> 2 ^ 62" using fold_add_digit_ge [of "add_digit c x" ds] by simp
  moreover from this have "x * 10 \<le> 2 ^ 62" unfolding add_digit_def by linarith
  then have "\<not> x > (2 ^ 63 - 1) div 10" by simp
  moreover have "\<not> add_digit c x > 2 ^ 63" using \<open>add_digit c x \<le> 2 ^ 62\<close> by simp
  moreover have "leadingFraction (add_digit c x) (k * 10) False (ds @ r) =
      (fold add_digit ds (add_digit c x), k * 10 * 10 ^ length ds, r)" "is_digit c"
    using Cons by simp_all
  ultimately show ?case
    by (simp only: append_Cons leadingFraction.simps if_False not_less [symmetric] Let_def fold_simps
        add_digit_def [symmetric] simp_thms length_Cons power_Suc mult.assoc)
qed

text \<open>The last \<open>n\<close> decimal digits of a number, with leading zeros.\<close>

fun pad :: "nat \<Rightarrow> nat \<Rightarrow> string" where
  "pad 0 v = []"
| "pad (Suc n) v = pad n (v div 10) @ [char_of (48 + v mod 10)]"

lemma byte_digit [simp]: "byte (char_of (48 + v mod 10)) = 48 + v mod 10"
  by (rule byte_char_of) simp

lemma pad_digits: "c \<in> set (pad n v) \<Longrightarrow> is_digit c"
  by (induction n arbitrary: v) (auto simp: is_digit_def)

lemma pad_length [simp]: "length (pad n v) = n"
  by (induction n arbitrary: v) simp_all

lemma fold_add_digit_pad: "fold add_digit (pad n v) 0 = v mod 10 ^ n"
  by (induction n arbitrary: v) (simp_all add: add_digit_def mod_mult2_eq)

lemma frac_loop_True: "frac_loop n True buf v = (True, pad n v @ buf, v div 10 ^ n)"
  by (induction n arbitrary: buf v) (simp_all add: div_mult2_eq)

lemma frac_loop_zero: "v mod 10 ^ n = 0 \<Longrightarrow> frac_loop n False buf v = (False, buf, v div 10 ^ n)"
proof (induction n arbitrary: v)
  case (Suc n)
  then have "v mod 10 = 0" "v div 10 mod 10 ^ n = 0" by (simp_all add: mod_mult2_eq)
  with Suc.IH show ?case by (simp add: div_mult2_eq)
qed simp

lemma frac_loop_digits:
  "v mod 10 ^ n \<noteq> 0 \<Longrightarrow> \<exists>m k. n = m + k \<and> m \<noteq> 0 \<and> v mod 10 ^ n = v div 10 ^ k mod 10 ^ m * 10 ^ k \<and>
     frac_loop n False buf v = (True, pad m (v div 10 ^ k) @ buf, v div 10 ^ n)"
proof (induction n arbitrary: v)
  case (Suc n)
  have rest: "v mod 10 ^ Suc n = v div 10 mod 10 ^ n * 10 + v mod 10" by (simp add: mod_mult2_eq)
  show ?case
  proof (cases "v mod 10 = 0")
    case False
    then have "frac_loop (Suc n) False buf v = (True, pad (Suc n) v @ buf, v div 10 ^ Suc n)"
      by (simp add: frac_loop_True div_mult2_eq)
    then show ?thesis by (intro exI [of _ "Suc n"] exI [of _ 0]) simp
  next
    case True
    with Suc.prems rest have "v div 10 mod 10 ^ n \<noteq> 0" by auto
    from Suc.IH [OF this] obtain m k where "n = m + k" "m \<noteq> 0"
      "v div 10 mod 10 ^ n = v div 10 div 10 ^ k mod 10 ^ m * 10 ^ k"
      "frac_loop n False buf (v div 10) = (True, pad m (v div 10 div 10 ^ k) @ buf, v div 10 div 10 ^ n)" by blast
    with True rest show ?thesis
      by (intro exI [of _ m] exI [of _ "Suc k"]) (simp add: div_mult2_eq)
  qed
qed simp

text \<open>What \<^verbatim>\<open>fmtFrac\<close> prints of the last \<open>n\<close> digits of \<open>v\<close>.\<close>

definition frac_ok :: "nat \<Rightarrow> nat \<Rightarrow> string \<Rightarrow> bool" where
  "frac_ok n v fr \<longleftrightarrow>
     fr = [] \<and> v mod 10 ^ n = 0 \<or>
     v mod 10 ^ n \<noteq> 0 \<and> (\<exists>m k w. n = m + k \<and> fr = CHR ''.'' # pad m w \<and> w mod 10 ^ m * 10 ^ k = v mod 10 ^ n)"

lemma fmtFrac_ok:
  obtains fr where "fmtFrac buf v n = (fr @ buf, v div 10 ^ n)" "frac_ok n v fr"
proof (cases "v mod 10 ^ n = 0")
  case True
  show ?thesis by (rule that [of "[]"]) (simp_all add: True frac_loop_zero fmtFrac_def frac_ok_def)
next
  case False
  from frac_loop_digits [OF this] obtain m k where d: "n = m + k" "v mod 10 ^ n = v div 10 ^ k mod 10 ^ m * 10 ^ k"
    "frac_loop n False buf v = (True, pad m (v div 10 ^ k) @ buf, v div 10 ^ n)" by blast
  show ?thesis
  proof (rule that [of "CHR ''.'' # pad m (v div 10 ^ k)"])
    show "fmtFrac buf v n = ((CHR ''.'' # pad m (v div 10 ^ k)) @ buf, v div 10 ^ n)"
      unfolding fmtFrac_def d(3) by simp
    show "frac_ok n v (CHR ''.'' # pad m (v div 10 ^ k))"
      unfolding frac_ok_def using False d(1,2) by metis
  qed
qed

definition unit_text :: "string \<Rightarrow> bool" where
  "unit_text u \<longleftrightarrow> u \<noteq> [] \<and> (\<forall>c \<in> set u. \<not> number_byte c)"

definition number_first :: "string \<Rightarrow> bool" where
  "number_first r \<longleftrightarrow> r = [] \<or> number_byte (hd r)"

lemma dec_first: "is_digit (hd (dec i @ r))" "dec i @ r \<noteq> []"
  using dec_digits [of "hd (dec i)" i] dec_nonempty [of i] by (simp_all add: hd_append)

lemma unit_cut:
  assumes "unit_text u" "number_first r"
  shows "takeWhile (\<lambda>c. \<not> number_byte c) (u @ r) = u" "dropWhile (\<lambda>c. \<not> number_byte c) (u @ r) = r"
    "no_digit_first (u @ r)" "hd (u @ r) \<noteq> CHR ''.''"
proof -
  show "takeWhile (\<lambda>c. \<not> number_byte c) (u @ r) = u" "dropWhile (\<lambda>c. \<not> number_byte c) (u @ r) = r"
    using assms by (cases r; simp add: unit_text_def number_first_def)+
  show "no_digit_first (u @ r)" "hd (u @ r) \<noteq> CHR ''.''"
    using assms by (cases u; auto simp: unit_text_def no_digit_first_def number_byte_def)+
qed

lemma duration_number_dec:
  assumes "unit_text u" "number_first r" "i \<le> 2 ^ 63"
  shows "duration_number (dec i @ u @ r) = Some (i, 0, 1, u @ r)"
proof -
  have "leadingInt 0 (dec i @ u @ r) = Some (i, u @ r)"
    using leadingInt_digits [of "dec i" "u @ r" 0] dec_digits [of _ i] unit_cut(3) [OF assms(1,2)] assms(3)
    by (simp add: fold_add_digit_dec)
  with unit_cut(4) [OF assms(1,2)] dec_first [of i "u @ r"] dec_nonempty [of i] show ?thesis
    by (simp add: duration_number_def number_byte_def)
qed

lemma duration_number_frac:
  assumes "unit_text u" "number_first r" "i \<le> 2 ^ 63" "w mod 10 ^ m \<le> 2 ^ 62"
  shows "duration_number (dec i @ (CHR ''.'' # pad m w) @ u @ r) = Some (i, w mod 10 ^ m, 10 ^ m, u @ r)"
proof -
  let ?s = "(CHR ''.'' # pad m w) @ u @ r"
  have "no_digit_first ?s" by (simp add: no_digit_first_def is_digit_def byte_def)
  then have l: "leadingInt 0 (dec i @ ?s) = Some (i, ?s)"
    using leadingInt_digits [of "dec i" ?s 0] dec_digits [of _ i] assms(3) by (simp add: fold_add_digit_dec)
  have "leadingFraction 0 1 False (pad m w @ u @ r) = (w mod 10 ^ m, 10 ^ m, u @ r)"
    using leadingFraction_digits [of "pad m w" "u @ r" 0 1] pad_digits [of _ m w] unit_cut(3) [OF assms(1,2)] assms(4)
    by (simp add: fold_add_digit_pad)
  with l dec_first [of i ?s] dec_nonempty [of i] show ?thesis
    by (simp add: duration_number_def number_byte_def)
qed

lemma duration_value_exact:
  assumes "f * 10 ^ k < 2 ^ 53" "10 ^ k < (2 :: nat) ^ 53" "i * 10 ^ (m + k) + f * 10 ^ k \<le> 2 ^ 63"
  shows "duration_value i f (10 ^ m) (10 ^ (m + k)) = Some (i * 10 ^ (m + k) + f * 10 ^ k)"
proof -
  have le: "\<not> i > 2 ^ 63 div 10 ^ (m + k)" using assms(3) by (simp add: less_eq_div_iff_mult_less_eq not_less)
  show ?thesis
  proof (cases "f = 0")
    case False
    then have "f < 2 ^ 53" using assms(1) by (metis le_less_trans mult.right_neutral mult_le_mono2 one_le_numeral one_le_power)
    moreover have "(of_nat (10 ^ (m + k)) / of_nat (10 ^ m) :: rat) = of_nat (10 ^ k)" by (simp add: power_add)
    ultimately have "float64_of (float64_of (of_nat f) * float64_of (of_nat (10 ^ (m + k)) / of_nat (10 ^ m))) = of_nat (f * 10 ^ k)"
      using float64_of_int [OF assms(1)] float64_of_int [of f] float64_of_int [OF assms(2)] by (simp add: of_nat_mult)
    then have "nat (floor (float64_of (float64_of (of_nat f) * float64_of (of_nat (10 ^ (m + k)) / of_nat (10 ^ m))))) = f * 10 ^ k"
      by (simp only: floor_of_nat nat_int)
    with le False leD [OF assms(3)] show ?thesis by (simp only: duration_value_def if_False Let_def simp_thms)
  qed (use le in \<open>simp add: duration_value_def\<close>)
qed

lemma duration_term_dec:
  assumes "unit_text u" "number_first r" "map_of unitMap u = Some n" "0 < n" "i * n \<le> 2 ^ 63"
  shows "duration_term (dec i @ u @ r) = Some (i * n, r)"
proof -
  have "i \<le> 2 ^ 63" using assms(4,5) by (metis Suc_leI le_trans mult.right_neutral mult_le_mono2 One_nat_def)
  moreover have "\<not> 2 ^ 63 div n < i" using assms(4,5) by (simp add: less_eq_div_iff_mult_less_eq not_less)
  ultimately show ?thesis
    using assms(3) by (simp only: duration_term_def duration_number_dec [OF assms(1,2)] unit_cut [OF assms(1,2)]
        duration_value_def if_False option.case prod.case if_True simp_thms)
qed

lemma duration_term_frac:
  assumes "frac_ok n v fr" "n \<le> 9" "unit_text u" "number_first r" "map_of unitMap u = Some (10 ^ n)"
    and "i * 10 ^ n + v mod 10 ^ n \<le> 2 ^ 63"
  shows "duration_term (dec i @ fr @ u @ r) = Some (i * 10 ^ n + v mod 10 ^ n, r)"
proof (cases "v mod 10 ^ n = 0")
  case True
  with assms(1) have "fr = []" by (auto simp: frac_ok_def)
  with True duration_term_dec [OF assms(3-5)] assms(6) show ?thesis by simp
next
  case False
  with assms(1) obtain m k w where w: "n = m + k" "fr = CHR ''.'' # pad m w" "w mod 10 ^ m * 10 ^ k = v mod 10 ^ n"
    by (auto simp: frac_ok_def)
  have "(10::nat) ^ n \<le> 10 ^ 9" using assms(2) by (intro power_increasing) auto
  moreover have "v mod 10 ^ n < 10 ^ n" by simp
  moreover have "(10::nat) ^ k \<le> 10 ^ n" using w(1) by (intro power_increasing) auto
  moreover have "(10::nat) ^ 9 < 2 ^ 53" by simp
  ultimately have b: "w mod 10 ^ m * 10 ^ k < 2 ^ 53" "10 ^ k < (2::nat) ^ 53" unfolding w(3) by linarith+
  have "w mod 10 ^ m \<le> w mod 10 ^ m * 10 ^ k" "(2::nat) ^ 53 \<le> 2 ^ 62" by simp_all
  with b(1) have small: "w mod 10 ^ m \<le> 2 ^ 62" by linarith
  have "i * 1 \<le> i * 10 ^ n" by (intro mult_le_mono) auto
  with assms(6) have "i \<le> 2 ^ 63" by linarith
  note number = duration_number_frac [OF assms(3,4) this small]
  have "duration_value i (w mod 10 ^ m) (10 ^ m) (10 ^ n) = Some (i * 10 ^ n + v mod 10 ^ n)"
    using duration_value_exact [OF b, of i m] assms(6) unfolding w(1) [symmetric] w(3) .
  with number assms(5) show ?thesis
    unfolding w(2) by (simp only: duration_term_def unit_cut [OF assms(3,4)] option.case prod.case)
qed

lemma duration_sum_step:
  assumes "duration_term (t @ r) = Some (v, r)" "d + v \<le> 2 ^ 63" "t \<noteq> []"
  shows "duration_sum d (t @ r) = duration_sum (d + v) r"
proof -
  have "(d + v) mod 2 ^ 64 = d + v" using assms(2) by (intro mod_less) (simp add: le_less_trans)
  with assms leD [OF assms(2)] show ?thesis
    by (subst duration_sum.simps) (simp only: append_is_Nil_conv if_False simp_thms option.case prod.case Let_def)
qed

lemma duration_sum_Nil [simp]: "duration_sum d [] = Some d"
  by (simp add: duration_sum.simps)

lemma units:
  "unit_text ''ns'' \<and> map_of unitMap ''ns'' = Some (10 ^ 0)"
  "unit_text [CHR 0xC2, CHR 0xB5, CHR ''s''] \<and> map_of unitMap [CHR 0xC2, CHR 0xB5, CHR ''s''] = Some (10 ^ 3)"
  "unit_text ''ms'' \<and> map_of unitMap ''ms'' = Some (10 ^ 6)"
  "unit_text ''s'' \<and> map_of unitMap ''s'' = Some (10 ^ 9)"
  "unit_text ''m'' \<and> map_of unitMap ''m'' = Some 60000000000"
  "unit_text ''h'' \<and> map_of unitMap ''h'' = Some 3600000000000"
  by (simp_all add: unit_text_def unitMap_def number_byte_def is_digit_def byte_def)

lemma number_first_dec [simp]: "number_first (dec i @ r)" "number_first []"
  using dec_first [of i r] by (simp_all add: number_first_def number_byte_def)

lemma sum_one_unit:
  assumes "unit_text u \<and> map_of unitMap u = Some (10 ^ n)" "n \<le> 9" "v \<le> 2 ^ 63"
  shows "duration_sum 0 (case fmtFrac u v n of (buf, w) \<Rightarrow> fmtInt buf w) = Some v"
proof -
  obtain fr where fr: "fmtFrac u v n = (fr @ u, v div 10 ^ n)" "frac_ok n v fr" by (rule fmtFrac_ok)
  have "duration_term (dec (v div 10 ^ n) @ fr @ u @ []) = Some (v, [])"
    using duration_term_frac [OF fr(2) assms(2), of u "[]" "v div 10 ^ n"] assms(1,3) by (simp only: number_first_dec div_mult_mod_eq simp_thms)
  then have "duration_sum 0 ((dec (v div 10 ^ n) @ fr @ u) @ []) = duration_sum (0 + v) []"
    using assms(3) dec_nonempty by (intro duration_sum_step) simp_all
  then show ?thesis by (simp add: fr(1) fmtInt_def)
qed

lemma sum_format_small: "u < 1000000000 \<Longrightarrow> duration_sum 0 (format_small u) = Some u"
proof -
  have "dec 0 = ''0''" by code_simp
  then have "duration_sum 0 ''0s'' = Some 0"
    using duration_sum_step [of "dec 0 @ ''s''" "[]" 0 0] duration_term_dec [of "''s''" "[]" _ 0] units(4)
    by simp
  then show "u < 1000000000 \<Longrightarrow> ?thesis"
    using sum_one_unit [OF units(1), of u] sum_one_unit [OF units(2), of u] sum_one_unit [OF units(3), of u]
    by (simp add: format_small_def)
qed

lemma hms_split:
  fixes u :: nat
  assumes "u = s * 10 ^ 9 + r" "s = m * 60 + a" "m = h * 60 + b"
  shows "u = h * 3600000000000 + b * 60000000000 + (a * 10 ^ 9 + r)"
  using assms by simp

lemma sum_format_large:
  assumes "u \<le> 2 ^ 63"
  shows "duration_sum 0 (format_large u) = Some u"
proof -
  obtain fr where fr: "fmtFrac ''s'' u 9 = (fr @ ''s'', u div 10 ^ 9)" "frac_ok 9 u fr" by (rule fmtFrac_ok)
  define s m h where "s = u div 10 ^ 9" and "m = s div 60" and "h = m div 60"
  define vs where "vs = s mod 60 * 10 ^ 9 + u mod 10 ^ 9"
  define S M H where "S = dec (s mod 60) @ fr @ ''s''" and "M = dec (m mod 60) @ ''m''" and "H = dec h @ ''h''"
  have total: "h * 3600000000000 + m mod 60 * 60000000000 + vs = u"
    unfolding vs_def s_def m_def h_def
    by (rule hms_split [OF div_mult_mod_eq [symmetric] div_mult_mod_eq [symmetric] div_mult_mod_eq [symmetric], symmetric])
  have ne: "S \<noteq> []" "M \<noteq> []" "H \<noteq> []" "number_first S" "number_first (M @ S)"
    using dec_nonempty by (simp_all add: S_def M_def H_def)
  have S: "duration_sum d S = Some (d + vs)" if "d + vs \<le> 2 ^ 63" for d
  proof -
    have "vs \<le> 2 ^ 63" using that by linarith
    then have "duration_term (S @ []) = Some (vs, [])"
      using duration_term_frac [OF fr(2), of "''s''" "[]" "s mod 60"] units(4) unfolding vs_def S_def by simp
    from duration_sum_step [OF this that ne(1)] show ?thesis by simp
  qed
  have M: "duration_sum d (M @ S) = Some (d + m mod 60 * 60000000000 + vs)" if "d + m mod 60 * 60000000000 + vs \<le> 2 ^ 63" for d
  proof -
    have le: "d + m mod 60 * 60000000000 \<le> 2 ^ 63" using that by linarith
    then have "duration_term (M @ S) = Some (m mod 60 * 60000000000, S)"
      using duration_term_dec [of "''m''" S _ "m mod 60"] units(5) ne(4) unfolding M_def by simp
    from duration_sum_step [OF this le ne(2)] S [OF that] show ?thesis by simp
  qed
  have H: "duration_sum 0 (H @ M @ S) = Some (h * 3600000000000 + m mod 60 * 60000000000 + vs)"
  proof -
    have le: "0 + h * 3600000000000 \<le> 2 ^ 63" using total assms by linarith
    then have "duration_term (H @ M @ S) = Some (h * 3600000000000, M @ S)"
      using duration_term_dec [of "''h''" "M @ S" _ h] units(6) ne(5) unfolding H_def by simp
    from duration_sum_step [OF this le ne(3)] M [of "h * 3600000000000"] total assms show ?thesis by simp
  qed
  have printed: "format_large u = (if m = 0 then S else if h = 0 then M @ S else H @ M @ S)"
    unfolding format_large_def fr(1) prod.case s_def [symmetric] Let_def m_def [symmetric] h_def [symmetric]
    by (simp add: fmtInt_def S_def M_def H_def)
  consider "m = 0" "h = 0" | "m \<noteq> 0" "h = 0" | "m \<noteq> 0" "h \<noteq> 0" by (cases "m = 0") (auto simp: h_def)
  then show ?thesis
  proof cases
    case 1
    with S [of 0] total assms printed show ?thesis by simp
  next
    case 2
    with M [of 0] total assms printed show ?thesis by simp
  next
    case 3
    with H total printed show ?thesis by simp
  qed
qed

lemma format_first: "\<exists>c s. format_small u = c # s \<and> is_digit c \<and> s \<noteq> []" "\<exists>c s. format_large u = c # s \<and> is_digit c \<and> s \<noteq> []"
proof -
  have d: "\<exists>c s. fmtInt buf i = c # s \<and> is_digit c \<and> s \<noteq> []" if "buf \<noteq> []" for buf i
    using dec_first [of i buf] dec_nonempty [of i] that by (cases "dec i") (auto simp: fmtInt_def)
  have f: "\<exists>buf w. fmtFrac u v n = (buf, w) \<and> buf \<noteq> []" if "u \<noteq> []" for u v n
    using fmtFrac_ok [of u v n] that by (metis append_is_Nil_conv)
  show "\<exists>c s. format_small u = c # s \<and> is_digit c \<and> s \<noteq> []"
    using f [of "''ns''" u 0] f [of "[CHR 0xC2, CHR 0xB5, CHR ''s'']" u 3] f [of "''ms''" u 6] d
    by (auto simp: format_small_def is_digit_def byte_def)
  show "\<exists>c s. format_large u = c # s \<and> is_digit c \<and> s \<noteq> []"
    using f [of "''s''" u 9] d by (auto simp: format_large_def Let_def fmtInt_def)
qed

theorem ParseDuration_String:
  assumes "min_int64 \<le> d" "d \<le> max_int64"
  shows "ParseDuration (Duration_String d) = Inr d"
proof -
  let ?u = "nat \<bar>d\<bar>"
  define buf where "buf = (if ?u < 1000000000 then format_small ?u else format_large ?u)"
  have u: "?u \<le> 2 ^ 63" using assms by (auto simp: min_int64_def max_int64_def)
  have sum: "duration_sum 0 buf = Some ?u" using sum_format_small sum_format_large [OF u] by (simp add: buf_def)
  obtain c s where c: "buf = c # s" "is_digit c" "s \<noteq> []"
    using format_first [of ?u] unfolding buf_def by metis
  then have sign: "c \<noteq> CHR ''-''" "c \<noteq> CHR ''+''" "buf \<noteq> ''0''" by (auto simp: is_digit_def byte_def)
  have str: "Duration_String d = (if d < 0 then CHR ''-'' # buf else buf)"
    by (simp add: Duration_String_def buf_def Let_def)
  show ?thesis
  proof (cases "d < 0")
    case True
    then have "wrap64 (- int ?u) = d" using assms by (subst wrap64_id) auto
    with True sum c(1) sign show ?thesis
      by (simp only: str ParseDuration_def Let_def) simp
  next
    case False
    then have "\<not> ?u > 2 ^ 63 - 1" using assms by (auto simp: max_int64_def)
    with False sum c sign show ?thesis
      by (simp only: str ParseDuration_def Let_def) auto
  qed
qed

end
