(* ===== verification/Wire.thy ===== *)
theory Wire
  imports Dataplane Auth Go_Encoding
begin

text \<open>
  The messages of \<^verbatim>\<open>proto/pgway/controlplane/v1\<close> and the conversions on both sides of the wire:
  \<^verbatim>\<open>...FromProto\<close> and \<^verbatim>\<open>...ToProto\<close> of \<^verbatim>\<open>adapters/grpc/server\<close> and, prefixed \<open>cl_\<close>, those of
  \<^verbatim>\<open>adapters/grpc/client\<close>.  A message field that points to a message is an option, an \<^verbatim>\<open>int32\<close> or
  \<^verbatim>\<open>uint32\<close> a 32-bit word; the elements of a repeated field are never nil once decoded.  The services
  return no nil resource with a nil error, so the server's nil test on a resource has no branch here.
\<close>

section \<open>Timestamps and integers\<close>

record pb_timestamp =
  ts_Seconds :: int
  ts_Nanos :: int

text \<open>The Unix epoch, counted from the zero \<^verbatim>\<open>time.Time\<close>.\<close>

definition unix_epoch :: time where
  "unix_epoch = 62135596800 * Second"

definition timestamppb_New :: "time \<Rightarrow> pb_timestamp" where
  "timestamppb_New t = \<lparr>ts_Seconds = (t - unix_epoch) div Second, ts_Nanos = (t - unix_epoch) mod Second\<rparr>"

text \<open>A nil timestamp reads as zero seconds.\<close>

definition AsTime :: "pb_timestamp option \<Rightarrow> time" where
  "AsTime t = (case t of None \<Rightarrow> unix_epoch | Some t \<Rightarrow> unix_epoch + ts_Seconds t * Second + ts_Nanos t)"

lemma AsTime_New [simp]: "AsTime (Some (timestamppb_New t)) = t"
  by (simp add: AsTime_def timestamppb_New_def)

definition int32 :: "int \<Rightarrow> 32 word" where "int32 i = word_of_int i"
definition of_int32 :: "32 word \<Rightarrow> int" where "of_int32 w = sint w"

lemma of_int32_int32: "- (2 ^ 31) \<le> i \<Longrightarrow> i < 2 ^ 31 \<Longrightarrow> of_int32 (int32 i) = i"
  unfolding of_int32_def int32_def by (transfer fixing: i) (simp add: signed_take_bit_int_eq_self)

definition uint32_of_port :: "16 word \<Rightarrow> 32 word" where "uint32_of_port p = ucast p"
definition port_of_uint32 :: "32 word \<Rightarrow> 16 word" where "port_of_uint32 p = ucast p"

lemma port_round_trip [simp]: "port_of_uint32 (uint32_of_port p) = p"
  unfolding port_of_uint32_def uint32_of_port_def by transfer simp

section \<open>Messages\<close>

record pb_metadata =
  pbm_Name :: string
  pbm_Labels :: labels

record pb_auth =
  pba_User :: string
  pba_Pass :: string

record pb_proxy_spec =
  pbps_Url :: string
  pbps_Protocol :: string
  pbps_Host :: string
  pbps_Port :: "32 word"
  pbps_Auth :: "pb_auth option"

record pb_proxy =
  pbp_Id :: string
  pbp_Protocol :: string
  pbp_Host :: string
  pbp_Port :: "32 word"
  pbp_Auth :: "pb_auth option"
  pbp_Labels :: labels
  pbp_CreatedAt :: "pb_timestamp option"
  pbp_UpdatedAt :: "pb_timestamp option"

record pb_pool_member =
  pbpm_ProxyId :: string
  pbpm_Weight :: "32 word"

record pb_selector =
  pbs_Allow :: labels

record pb_pool_spec =
  pbpls_Title :: string
  pbpls_Type :: string
  pbpls_Members :: "pb_pool_member list"
  pbpls_Selector :: "pb_selector option"

record pb_pool =
  pbpl_Id :: string
  pbpl_Title :: string
  pbpl_Type :: string
  pbpl_Labels :: labels
  pbpl_Members :: "pb_pool_member list"
  pbpl_Selector :: "pb_selector option"
  pbpl_CreatedAt :: "pb_timestamp option"
  pbpl_UpdatedAt :: "pb_timestamp option"

text \<open>\<^verbatim>\<open>ConditionSpec\<close> and \<^verbatim>\<open>RouterCondition\<close> have the same fields, as have the match and rule messages.\<close>

record pb_condition =
  pbc_Type :: string
  pbc_Value :: string

record pb_match =
  pbmt_Type :: string
  pbmt_Value :: string
  pbmt_All :: "pb_condition list"
  pbmt_Any :: "pb_condition list"
  pbmt_Not :: "pb_condition option"

record pb_rule =
  pbr_Id :: string
  pbr_Match :: "pb_match option"
  pbr_Target :: string

record pb_router_spec =
  pbrs_Title :: string
  pbrs_Description :: string
  pbrs_Rules :: "pb_rule list"

record pb_router =
  pbrt_Id :: string
  pbrt_Title :: string
  pbrt_Description :: string
  pbrt_Rules :: "pb_rule list"
  pbrt_CreatedAt :: "pb_timestamp option"
  pbrt_UpdatedAt :: "pb_timestamp option"

record pb_balancer_spec =
  pbbs_Title :: string
  pbbs_Type :: string
  pbbs_PoolId :: string
  pbbs_ResetInterval :: string

record pb_balancer =
  pbb_Id :: string
  pbb_Title :: string
  pbb_Type :: string
  pbb_PoolId :: string
  pbb_ResetInterval :: string
  pbb_CreatedAt :: "pb_timestamp option"
  pbb_UpdatedAt :: "pb_timestamp option"

record pb_flow_spec =
  pbfs_RouterId :: string
  pbfs_BalancerId :: string

record pb_flow =
  pbf_Id :: string
  pbf_RouterId :: string
  pbf_BalancerId :: string
  pbf_CreatedAt :: "pb_timestamp option"
  pbf_UpdatedAt :: "pb_timestamp option"

record pb_entrypoint_spec =
  pbes_Title :: string
  pbes_Protocol :: string
  pbes_Host :: string
  pbes_Port :: "32 word"
  pbes_FlowId :: string

record pb_entrypoint =
  pbe_Id :: string
  pbe_Title :: string
  pbe_Protocol :: string
  pbe_Host :: string
  pbe_Port :: "32 word"
  pbe_FlowId :: string
  pbe_CreatedAt :: "pb_timestamp option"
  pbe_UpdatedAt :: "pb_timestamp option"

record pb_user =
  pbu_Id :: string
  pbu_Role :: string
  pbu_CreatedAt :: "pb_timestamp option"
  pbu_UpdatedAt :: "pb_timestamp option"

record pb_agent_info =
  pbi_Name :: string
  pbi_Hostname :: string
  pbi_Version :: string
  pbi_Labels :: labels

record pb_agent =
  pbag_Info :: "pb_agent_info option"
  pbag_Status :: string
  pbag_LastHeartbeat :: "pb_timestamp option"
  pbag_CreatedAt :: "pb_timestamp option"
  pbag_UpdatedAt :: "pb_timestamp option"

record pb_resource_changed =
  pbrc_ResourceType :: string
  pbrc_ChangeKind :: string
  pbrc_Id :: string

section \<open>The server's conversions\<close>

definition metaFromProto :: "pb_metadata option \<Rightarrow> metadata" where
  "metaFromProto pb =
     (case pb of
        None \<Rightarrow> \<lparr>meta_Name = [], meta_Labels = []\<rparr>
      | Some pb \<Rightarrow> \<lparr>meta_Name = pbm_Name pb, meta_Labels = pbm_Labels pb\<rparr>)"

definition proxySpecFromProto :: "pb_proxy_spec option \<Rightarrow> proxy_spec" where
  "proxySpecFromProto pb =
     (case pb of
        None \<Rightarrow> \<lparr>pxs_URL = [], pxs_Protocol = [], pxs_Host = [], pxs_Port = 0, pxs_Auth = None\<rparr>
      | Some pb \<Rightarrow>
          \<lparr>pxs_URL = pbps_Url pb, pxs_Protocol = pbps_Protocol pb, pxs_Host = pbps_Host pb,
           pxs_Port = port_of_uint32 (pbps_Port pb),
           pxs_Auth = (case pbps_Auth pb of None \<Rightarrow> None
                       | Some a \<Rightarrow> Some \<lparr>auth_User = pba_User a, auth_Pass = pba_Pass a\<rparr>)\<rparr>)"

definition proxyToProto :: "proxy \<Rightarrow> pb_proxy" where
  "proxyToProto p =
     \<lparr>pbp_Id = proxy_Id p, pbp_Protocol = proxy_Protocol p, pbp_Host = proxy_Host p,
      pbp_Port = uint32_of_port (proxy_Port p),
      pbp_Auth = (case proxy_Auth p of None \<Rightarrow> None
                  | Some a \<Rightarrow> Some \<lparr>pba_User = auth_User a, pba_Pass = auth_Pass a\<rparr>),
      pbp_Labels = proxy_Labels p,
      pbp_CreatedAt = Some (timestamppb_New (CreatedAt (proxy_ts p))),
      pbp_UpdatedAt = Some (timestamppb_New (UpdatedAt (proxy_ts p)))\<rparr>"

definition poolSpecFromProto :: "pb_pool_spec option \<Rightarrow> pool_spec" where
  "poolSpecFromProto pb =
     (case pb of
        None \<Rightarrow> \<lparr>pls_Title = [], pls_Type = [], pls_Members = [], pls_Selector = None\<rparr>
      | Some pb \<Rightarrow>
          \<lparr>pls_Title = pbpls_Title pb, pls_Type = pbpls_Type pb,
           pls_Members = map (\<lambda>m. \<lparr>pms_ProxyId = pbpm_ProxyId m,
             pms_Weight = (if pbpm_Weight m \<noteq> 0 then Some (of_int32 (pbpm_Weight m)) else None)\<rparr>) (pbpls_Members pb),
           pls_Selector = map_option pbs_Allow (pbpls_Selector pb)\<rparr>)"

definition selectorToProto :: "labels option \<Rightarrow> pb_selector option" where
  "selectorToProto selector = (case selector of None \<Rightarrow> None | Some allow \<Rightarrow> Some \<lparr>pbs_Allow = allow\<rparr>)"

definition poolToProto :: "pool \<Rightarrow> pb_pool" where
  "poolToProto p =
     \<lparr>pbpl_Id = pool_Id p, pbpl_Title = pool_Title p, pbpl_Type = pool_Type p, pbpl_Labels = pool_Labels p,
      pbpl_Members = map (\<lambda>m. \<lparr>pbpm_ProxyId = member_ProxyId m, pbpm_Weight = int32 (member_Weight m)\<rparr>) (pool_Members p),
      pbpl_Selector = selectorToProto (pool_Selector p),
      pbpl_CreatedAt = Some (timestamppb_New (CreatedAt (pool_ts p))),
      pbpl_UpdatedAt = Some (timestamppb_New (UpdatedAt (pool_ts p)))\<rparr>"

definition conditionSpecFromProto :: "pb_condition option \<Rightarrow> condition_spec" where
  "conditionSpecFromProto pb =
     (case pb of
        None \<Rightarrow> \<lparr>cs_Type = [], cs_Value = []\<rparr>
      | Some pb \<Rightarrow> \<lparr>cs_Type = pbc_Type pb, cs_Value = pbc_Value pb\<rparr>)"

definition matchSpecFromProto :: "pb_match option \<Rightarrow> match_spec_v1" where
  "matchSpecFromProto pb =
     (case pb of
        None \<Rightarrow> \<lparr>ms_Type = [], ms_Value = [], ms_All = [], ms_Any = [], ms_Not = None\<rparr>
      | Some pb \<Rightarrow>
          \<lparr>ms_Type = pbmt_Type pb, ms_Value = pbmt_Value pb,
           ms_All = map (\<lambda>c. conditionSpecFromProto (Some c)) (pbmt_All pb),
           ms_Any = map (\<lambda>c. conditionSpecFromProto (Some c)) (pbmt_Any pb),
           ms_Not = (case pbmt_Not pb of None \<Rightarrow> None | Some c \<Rightarrow> Some (conditionSpecFromProto (Some c)))\<rparr>)"

definition ruleSpecFromProto :: "pb_rule option \<Rightarrow> rule_spec" where
  "ruleSpecFromProto pb =
     (case pb of
        None \<Rightarrow> \<lparr>rs_Id = [], rs_Match = matchSpecFromProto None, rs_Target = []\<rparr>
      | Some pb \<Rightarrow> \<lparr>rs_Id = pbr_Id pb, rs_Match = matchSpecFromProto (pbr_Match pb), rs_Target = pbr_Target pb\<rparr>)"

definition routerSpecFromProto :: "pb_router_spec option \<Rightarrow> router_spec" where
  "routerSpecFromProto pb =
     (case pb of
        None \<Rightarrow> \<lparr>rts_Title = [], rts_Description = [], rts_Rules = []\<rparr>
      | Some pb \<Rightarrow>
          \<lparr>rts_Title = pbrs_Title pb, rts_Description = pbrs_Description pb,
           rts_Rules = map (\<lambda>r. ruleSpecFromProto (Some r)) (pbrs_Rules pb)\<rparr>)"

definition conditionToProto :: "router_condition \<Rightarrow> pb_condition" where
  "conditionToProto c = \<lparr>pbc_Type = cond_Type c, pbc_Value = cond_Value c\<rparr>"

definition rulesToProto :: "router_rule \<Rightarrow> pb_rule" where
  "rulesToProto r =
     \<lparr>pbr_Id = rule_Id r,
      pbr_Match = Some
        \<lparr>pbmt_Type = match_Type (rule_Match r), pbmt_Value = match_Value (rule_Match r),
         pbmt_All = map conditionToProto (match_All (rule_Match r)),
         pbmt_Any = map conditionToProto (match_Any (rule_Match r)),
         pbmt_Not = (case match_Not (rule_Match r) of None \<Rightarrow> None | Some c \<Rightarrow> Some (conditionToProto c))\<rparr>,
      pbr_Target = rule_Target r\<rparr>"

definition routerToProto :: "router \<Rightarrow> pb_router" where
  "routerToProto r =
     \<lparr>pbrt_Id = router_Id r, pbrt_Title = router_Title r, pbrt_Description = router_Description r,
      pbrt_Rules = map rulesToProto (router_Rules r),
      pbrt_CreatedAt = Some (timestamppb_New (CreatedAt (router_ts r))),
      pbrt_UpdatedAt = Some (timestamppb_New (UpdatedAt (router_ts r)))\<rparr>"

definition balancerSpecFromProto :: "pb_balancer_spec option \<Rightarrow> balancer_spec" where
  "balancerSpecFromProto pb =
     (case pb of
        None \<Rightarrow> \<lparr>bls_Title = [], bls_Type = [], bls_PoolId = [], bls_ResetInterval = []\<rparr>
      | Some pb \<Rightarrow>
          \<lparr>bls_Title = pbbs_Title pb, bls_Type = pbbs_Type pb, bls_PoolId = pbbs_PoolId pb,
           bls_ResetInterval = pbbs_ResetInterval pb\<rparr>)"

definition balancerToProto :: "load_balancer \<Rightarrow> pb_balancer" where
  "balancerToProto bl =
     (let pb = \<lparr>pbb_Id = lb_Id bl, pbb_Title = lb_Title bl, pbb_Type = lb_Type bl, pbb_PoolId = lb_PoolId bl,
                pbb_ResetInterval = [],
                pbb_CreatedAt = Some (timestamppb_New (CreatedAt (lb_ts bl))),
                pbb_UpdatedAt = Some (timestamppb_New (UpdatedAt (lb_ts bl)))\<rparr>
      in if lb_ResetInterval bl > 0 then pb\<lparr>pbb_ResetInterval := Duration_String (lb_ResetInterval bl)\<rparr> else pb)"

definition flowSpecFromProto :: "pb_flow_spec option \<Rightarrow> flow_spec" where
  "flowSpecFromProto pb =
     (case pb of
        None \<Rightarrow> \<lparr>fls_RouterId = [], fls_BalancerId = []\<rparr>
      | Some pb \<Rightarrow> \<lparr>fls_RouterId = pbfs_RouterId pb, fls_BalancerId = pbfs_BalancerId pb\<rparr>)"

definition flowToProto :: "flow \<Rightarrow> pb_flow" where
  "flowToProto f =
     \<lparr>pbf_Id = flow_Id f, pbf_RouterId = flow_RouterId f, pbf_BalancerId = flow_BalancerId f,
      pbf_CreatedAt = Some (timestamppb_New (CreatedAt (flow_ts f))),
      pbf_UpdatedAt = Some (timestamppb_New (UpdatedAt (flow_ts f)))\<rparr>"

definition entrypointSpecFromProto :: "pb_entrypoint_spec option \<Rightarrow> entrypoint_spec" where
  "entrypointSpecFromProto pb =
     (case pb of
        None \<Rightarrow> \<lparr>eps_Title = [], eps_Protocol = [], eps_Host = [], eps_Port = 0, eps_FlowId = []\<rparr>
      | Some pb \<Rightarrow>
          \<lparr>eps_Title = pbes_Title pb, eps_Protocol = pbes_Protocol pb, eps_Host = pbes_Host pb,
           eps_Port = port_of_uint32 (pbes_Port pb), eps_FlowId = pbes_FlowId pb\<rparr>)"

definition entrypointToProto :: "entrypoint \<Rightarrow> pb_entrypoint" where
  "entrypointToProto e =
     \<lparr>pbe_Id = ep_Id e, pbe_Title = ep_Title e, pbe_Protocol = ep_Protocol e, pbe_Host = ep_Host e,
      pbe_Port = uint32_of_port (ep_Port e), pbe_FlowId = ep_FlowId e,
      pbe_CreatedAt = Some (timestamppb_New (CreatedAt (ep_ts e))),
      pbe_UpdatedAt = Some (timestamppb_New (UpdatedAt (ep_ts e)))\<rparr>"

definition userToProto :: "user \<Rightarrow> pb_user" where
  "userToProto u =
     \<lparr>pbu_Id = user_Id u, pbu_Role = user_Role u,
      pbu_CreatedAt = Some (timestamppb_New (CreatedAt (user_ts u))),
      pbu_UpdatedAt = Some (timestamppb_New (UpdatedAt (user_ts u)))\<rparr>"

text \<open>The string constants of \<^verbatim>\<open>AgentStatus\<close>.\<close>

fun agent_status_text :: "agent_status \<Rightarrow> string" where
  "agent_status_text AgentStatusActive = ''active''"
| "agent_status_text AgentStatusPassive = ''passive''"
| "agent_status_text AgentStatusDisconnected = ''disconnected''"

definition agentToProto :: "agent \<Rightarrow> time \<Rightarrow> duration \<Rightarrow> pb_agent" where
  "agentToProto a now threshold =
     \<lparr>pbag_Info = Some \<lparr>pbi_Name = agent_Id a, pbi_Hostname = agent_Hostname a, pbi_Version = agent_Version a,
                        pbi_Labels = agent_Labels a\<rparr>,
      pbag_Status = agent_status_text (Agent_Status a now threshold),
      pbag_LastHeartbeat = map_option timestamppb_New (agent_LastHeartbeat a),
      pbag_CreatedAt = Some (timestamppb_New (CreatedAt (agent_ts a))),
      pbag_UpdatedAt = Some (timestamppb_New (UpdatedAt (agent_ts a)))\<rparr>"

definition changeEventToProto :: "change_event \<Rightarrow> pb_resource_changed" where
  "changeEventToProto e =
     \<lparr>pbrc_ResourceType = event_ResourceType e, pbrc_ChangeKind = event_ChangeKind e, pbrc_Id = event_ID e\<rparr>"

section \<open>Page tokens\<close>

definition encodeCursor :: "string \<Rightarrow> string" where
  "encodeCursor cursor = (if cursor = [] then [] else b64_EncodeToString cursor)"

definition decodeCursor :: "string \<Rightarrow> string result" where
  "decodeCursor token = (if token = [] then Inr [] else b64_DecodeString token)"

section \<open>The client's conversions\<close>

definition cl_metaToProto :: "metadata \<Rightarrow> pb_metadata" where
  "cl_metaToProto meta = \<lparr>pbm_Name = meta_Name meta, pbm_Labels = meta_Labels meta\<rparr>"

definition cl_proxySpecToProto :: "proxy_spec \<Rightarrow> pb_proxy_spec" where
  "cl_proxySpecToProto spec =
     (let pb = \<lparr>pbps_Url = pxs_URL spec, pbps_Protocol = pxs_Protocol spec, pbps_Host = pxs_Host spec,
                pbps_Port = uint32_of_port (pxs_Port spec), pbps_Auth = None\<rparr>
      in case pxs_Auth spec of
           None \<Rightarrow> pb
         | Some a \<Rightarrow> pb\<lparr>pbps_Auth := Some \<lparr>pba_User = auth_User a, pba_Pass = auth_Pass a\<rparr>\<rparr>)"

text \<open>\<^verbatim>\<open>proxyFromProto\<close> is the one conversion that reads its argument without a nil test.\<close>

definition cl_proxyFromProto :: "pb_proxy option \<Rightarrow> proxy result" where
  "cl_proxyFromProto pb =
     (case pb of
        None \<Rightarrow> Inl nil_panic
      | Some pb \<Rightarrow> Inr
          \<lparr>proxy_ts = zero_timestamps, proxy_Id = pbp_Id pb, proxy_Protocol = pbp_Protocol pb, proxy_Host = pbp_Host pb,
           proxy_Port = port_of_uint32 (pbp_Port pb),
           proxy_Auth = (case pbp_Auth pb of None \<Rightarrow> None
                         | Some a \<Rightarrow> Some \<lparr>auth_User = pba_User a, auth_Pass = pba_Pass a\<rparr>),
           proxy_Labels = pbp_Labels pb\<rparr>)"

definition cl_poolSpecToProto :: "pool_spec \<Rightarrow> pb_pool_spec" where
  "cl_poolSpecToProto spec =
     \<lparr>pbpls_Title = pls_Title spec, pbpls_Type = pls_Type spec,
      pbpls_Members = map (\<lambda>m. \<lparr>pbpm_ProxyId = pms_ProxyId m,
        pbpm_Weight = (case pms_Weight m of None \<Rightarrow> int32 0 | Some w \<Rightarrow> int32 w)\<rparr>) (pls_Members spec),
      pbpls_Selector = (case pls_Selector spec of None \<Rightarrow> None | Some allow \<Rightarrow> Some \<lparr>pbs_Allow = allow\<rparr>)\<rparr>"

text \<open>A missing message converts to a nil resource, here \<open>None\<close>.\<close>

definition cl_poolFromProto :: "pb_pool option \<Rightarrow> pool option" where
  "cl_poolFromProto pb =
     (case pb of
        None \<Rightarrow> None
      | Some pb \<Rightarrow> Some
          \<lparr>pool_ts = zero_timestamps, pool_Id = pbpl_Id pb, pool_Title = pbpl_Title pb, pool_Type = pbpl_Type pb,
           pool_Labels = pbpl_Labels pb,
           pool_Members = map (\<lambda>m. let weight = of_int32 (pbpm_Weight m) in
             \<lparr>member_ProxyId = pbpm_ProxyId m, member_Weight = (if weight = 0 then 1 else weight)\<rparr>) (pbpl_Members pb),
           pool_Selector = map_option pbs_Allow (pbpl_Selector pb),
           pool_hasProxiesResolved = False, pool_resolvedProxies = []\<rparr>)"

definition cl_conditionSpecToProto :: "condition_spec \<Rightarrow> pb_condition" where
  "cl_conditionSpecToProto c = \<lparr>pbc_Type = cs_Type c, pbc_Value = cs_Value c\<rparr>"

definition cl_matchSpecToProto :: "match_spec_v1 \<Rightarrow> pb_match" where
  "cl_matchSpecToProto m =
     \<lparr>pbmt_Type = ms_Type m, pbmt_Value = ms_Value m,
      pbmt_All = map cl_conditionSpecToProto (ms_All m), pbmt_Any = map cl_conditionSpecToProto (ms_Any m),
      pbmt_Not = (case ms_Not m of None \<Rightarrow> None | Some c \<Rightarrow> Some (cl_conditionSpecToProto c))\<rparr>"

definition cl_ruleSpecToProto :: "rule_spec \<Rightarrow> pb_rule" where
  "cl_ruleSpecToProto r =
     \<lparr>pbr_Id = rs_Id r, pbr_Match = Some (cl_matchSpecToProto (rs_Match r)), pbr_Target = rs_Target r\<rparr>"

definition cl_routerSpecToProto :: "router_spec \<Rightarrow> pb_router_spec" where
  "cl_routerSpecToProto spec =
     \<lparr>pbrs_Title = rts_Title spec, pbrs_Description = rts_Description spec,
      pbrs_Rules = map cl_ruleSpecToProto (rts_Rules spec)\<rparr>"

definition cl_routerConditionFromProto :: "pb_condition option \<Rightarrow> router_condition" where
  "cl_routerConditionFromProto pb =
     (case pb of
        None \<Rightarrow> \<lparr>cond_Type = [], cond_Value = [], cond_re = None\<rparr>
      | Some pb \<Rightarrow> \<lparr>cond_Type = pbc_Type pb, cond_Value = pbc_Value pb, cond_re = None\<rparr>)"

definition cl_routerMatchFromProto :: "pb_match option \<Rightarrow> router_match" where
  "cl_routerMatchFromProto pb =
     (case pb of
        None \<Rightarrow> \<lparr>match_Type = [], match_Value = [], match_All = [], match_Any = [], match_Not = None, match_re = None\<rparr>
      | Some pb \<Rightarrow>
          \<lparr>match_Type = pbmt_Type pb, match_Value = pbmt_Value pb,
           match_All = map (\<lambda>c. cl_routerConditionFromProto (Some c)) (pbmt_All pb),
           match_Any = map (\<lambda>c. cl_routerConditionFromProto (Some c)) (pbmt_Any pb),
           match_Not = (case pbmt_Not pb of None \<Rightarrow> None | Some c \<Rightarrow> Some (cl_routerConditionFromProto (Some c))),
           match_re = None\<rparr>)"

definition cl_routerRuleFromProto :: "pb_rule option \<Rightarrow> router_rule option" where
  "cl_routerRuleFromProto pb =
     (case pb of
        None \<Rightarrow> None
      | Some pb \<Rightarrow> Some
          \<lparr>rule_Id = pbr_Id pb, rule_Match = cl_routerMatchFromProto (pbr_Match pb), rule_Target = pbr_Target pb\<rparr>)"

definition cl_routerFromProto :: "pb_router option \<Rightarrow> router option" where
  "cl_routerFromProto pb =
     (case pb of
        None \<Rightarrow> None
      | Some pb \<Rightarrow> Some
          \<lparr>router_ts = zero_timestamps, router_Id = pbrt_Id pb, router_Title = pbrt_Title pb,
           router_Description = pbrt_Description pb,
           router_Rules = map (\<lambda>r. the (cl_routerRuleFromProto (Some r))) (pbrt_Rules pb)\<rparr>)"

text \<open>The next three requests are written out where they are sent.\<close>

definition cl_balancerSpecToProto :: "balancer_spec \<Rightarrow> pb_balancer_spec" where
  "cl_balancerSpecToProto spec =
     \<lparr>pbbs_Title = bls_Title spec, pbbs_Type = bls_Type spec, pbbs_PoolId = bls_PoolId spec,
      pbbs_ResetInterval = bls_ResetInterval spec\<rparr>"

definition cl_balancerFromProto :: "pb_balancer option \<Rightarrow> load_balancer option" where
  "cl_balancerFromProto pb =
     (case pb of
        None \<Rightarrow> None
      | Some pb \<Rightarrow> Some
          (let lb = \<lparr>lb_ts = zero_timestamps, lb_Id = pbb_Id pb, lb_Title = pbb_Title pb, lb_Type = pbb_Type pb,
                     lb_PoolId = pbb_PoolId pb, lb_ResetInterval = 0\<rparr>
           in if pbb_ResetInterval pb = [] then lb
              else case ParseDuration (pbb_ResetInterval pb) of
                     Inl _ \<Rightarrow> lb | Inr d \<Rightarrow> lb\<lparr>lb_ResetInterval := d\<rparr>))"

definition cl_flowSpecToProto :: "flow_spec \<Rightarrow> pb_flow_spec" where
  "cl_flowSpecToProto spec = \<lparr>pbfs_RouterId = fls_RouterId spec, pbfs_BalancerId = fls_BalancerId spec\<rparr>"

definition cl_flowFromProto :: "pb_flow option \<Rightarrow> flow option" where
  "cl_flowFromProto pb =
     (case pb of
        None \<Rightarrow> None
      | Some pb \<Rightarrow> Some
          \<lparr>flow_ts = zero_timestamps, flow_Id = pbf_Id pb, flow_RouterId = pbf_RouterId pb,
           flow_BalancerId = pbf_BalancerId pb\<rparr>)"

definition cl_entrypointSpecToProto :: "entrypoint_spec \<Rightarrow> pb_entrypoint_spec" where
  "cl_entrypointSpecToProto spec =
     \<lparr>pbes_Title = eps_Title spec, pbes_Protocol = eps_Protocol spec, pbes_Host = eps_Host spec,
      pbes_Port = uint32_of_port (eps_Port spec), pbes_FlowId = eps_FlowId spec\<rparr>"

definition cl_entrypointFromProto :: "pb_entrypoint option \<Rightarrow> entrypoint option" where
  "cl_entrypointFromProto pb =
     (case pb of
        None \<Rightarrow> None
      | Some pb \<Rightarrow> Some
          \<lparr>ep_ts = zero_timestamps, ep_Id = pbe_Id pb, ep_Title = pbe_Title pb, ep_Protocol = pbe_Protocol pb,
           ep_Host = pbe_Host pb, ep_Port = port_of_uint32 (pbe_Port pb), ep_FlowId = pbe_FlowId pb\<rparr>)"

definition cl_userFromProto :: "pb_user option \<Rightarrow> user option" where
  "cl_userFromProto pb =
     (case pb of
        None \<Rightarrow> None
      | Some pb \<Rightarrow> Some
          \<lparr>user_ts = \<lparr>CreatedAt = AsTime (pbu_CreatedAt pb), UpdatedAt = AsTime (pbu_UpdatedAt pb)\<rparr>,
           user_Id = pbu_Id pb, user_PasswordHash = [], user_Role = pbu_Role pb\<rparr>)"

definition cl_agentFromProto :: "pb_agent option \<Rightarrow> agent option" where
  "cl_agentFromProto pb =
     (case Option.bind pb (\<lambda>pb. map_option (\<lambda>i. (pb, i)) (pbag_Info pb)) of
        None \<Rightarrow> None
      | Some (pb, info) \<Rightarrow> Some
          \<lparr>agent_ts =
             \<lparr>CreatedAt = (if pbag_CreatedAt pb = None then zero_time else AsTime (pbag_CreatedAt pb)),
              UpdatedAt = (if pbag_UpdatedAt pb = None then zero_time else AsTime (pbag_UpdatedAt pb))\<rparr>,
           agent_Id = pbi_Name info, agent_Hostname = pbi_Hostname info, agent_Version = pbi_Version info,
           agent_Labels = pbi_Labels info,
           agent_LastHeartbeat = map_option (\<lambda>t. AsTime (Some t)) (pbag_LastHeartbeat pb)\<rparr>)"

definition cl_changeEventFromProto :: "pb_resource_changed option \<Rightarrow> change_event" where
  "cl_changeEventFromProto pb =
     (case pb of
        None \<Rightarrow> \<lparr>event_ID = [], event_ResourceType = [], event_ChangeKind = []\<rparr>
      | Some pb \<Rightarrow>
          \<lparr>event_ID = pbrc_Id pb, event_ResourceType = pbrc_ResourceType pb, event_ChangeKind = pbrc_ChangeKind pb\<rparr>)"

section \<open>What survives the wire\<close>

text \<open>A resource arrives without its timestamps, and the weight of a member as a 32-bit integer, zero as one.\<close>

definition seen_proxy :: "proxy \<Rightarrow> proxy" where
  "seen_proxy p = p\<lparr>proxy_ts := zero_timestamps\<rparr>"

definition seen_weight :: "int \<Rightarrow> int" where
  "seen_weight w = (if of_int32 (int32 w) = 0 then 1 else of_int32 (int32 w))"

definition seen_pool :: "pool \<Rightarrow> pool" where
  "seen_pool p = p\<lparr>pool_ts := zero_timestamps,
     pool_Members := map (\<lambda>m. m\<lparr>member_Weight := seen_weight (member_Weight m)\<rparr>) (pool_Members p),
     pool_hasProxiesResolved := False, pool_resolvedProxies := []\<rparr>"

definition seen_router :: "router \<Rightarrow> router" where
  "seen_router r = (strip_router r)\<lparr>router_ts := zero_timestamps\<rparr>"

definition seen_balancer :: "load_balancer \<Rightarrow> load_balancer" where
  "seen_balancer lb = the (cl_balancerFromProto (Some (balancerToProto lb)))"

definition seen_flow :: "flow \<Rightarrow> flow" where
  "seen_flow f = f\<lparr>flow_ts := zero_timestamps\<rparr>"

definition seen_entrypoint :: "entrypoint \<Rightarrow> entrypoint" where
  "seen_entrypoint e = e\<lparr>ep_ts := zero_timestamps\<rparr>"

named_theorems wire_simps "conversions undone on the other side of the wire"

lemma seen_weight_id: "1 \<le> w \<Longrightarrow> w < 2 ^ 31 \<Longrightarrow> seen_weight w = w"
  by (simp add: seen_weight_def of_int32_int32)

lemma proxy_wire [wire_simps]: "cl_proxyFromProto (Some (proxyToProto p)) = Inr (seen_proxy p)"
  by (cases p) (simp add: cl_proxyFromProto_def proxyToProto_def seen_proxy_def split: option.splits)

lemma pool_wire [wire_simps]: "cl_poolFromProto (Some (poolToProto p)) = Some (seen_pool p)"
  by (simp add: cl_poolFromProto_def poolToProto_def seen_pool_def selectorToProto_def seen_weight_def Let_def
      split: option.splits)

lemma condition_wire: "cl_routerConditionFromProto (Some (conditionToProto c)) = strip_cond c"
  by (simp add: cl_routerConditionFromProto_def conditionToProto_def strip_cond_def)

lemma rule_wire: "cl_routerRuleFromProto (Some (rulesToProto r)) = Some (strip_rule r)"
  by (simp add: cl_routerRuleFromProto_def rulesToProto_def cl_routerMatchFromProto_def strip_rule_def strip_match_def
      condition_wire split: option.splits)

lemma router_wire [wire_simps]: "cl_routerFromProto (Some (routerToProto r)) = Some (seen_router r)"
  by (simp add: cl_routerFromProto_def routerToProto_def rule_wire seen_router_def strip_router_def)

lemma balancer_wire [wire_simps]: "cl_balancerFromProto (Some (balancerToProto lb)) = Some (seen_balancer lb)"
  by (simp add: seen_balancer_def cl_balancerFromProto_def)

lemma flow_wire [wire_simps]: "cl_flowFromProto (Some (flowToProto f)) = Some (seen_flow f)"
  by (simp add: cl_flowFromProto_def flowToProto_def seen_flow_def)

lemma entrypoint_wire [wire_simps]: "cl_entrypointFromProto (Some (entrypointToProto e)) = Some (seen_entrypoint e)"
  by (simp add: cl_entrypointFromProto_def entrypointToProto_def seen_entrypoint_def)

lemma user_wire [wire_simps]: "cl_userFromProto (Some (userToProto u)) = Some (u\<lparr>user_PasswordHash := []\<rparr>)"
  by (simp add: cl_userFromProto_def userToProto_def)

lemma agent_wire [wire_simps]: "cl_agentFromProto (Some (agentToProto a now threshold)) = Some a"
  by (simp add: cl_agentFromProto_def agentToProto_def option.map_comp comp_def option.map_ident)

lemma event_wire [wire_simps]: "cl_changeEventFromProto (Some (changeEventToProto e)) = e"
  by (simp add: cl_changeEventFromProto_def changeEventToProto_def)

lemma meta_wire [wire_simps]: "metaFromProto (Some (cl_metaToProto meta)) = meta"
  by (simp add: metaFromProto_def cl_metaToProto_def)

lemma proxy_spec_wire [wire_simps]: "proxySpecFromProto (Some (cl_proxySpecToProto spec)) = spec"
  by (cases spec) (simp add: proxySpecFromProto_def cl_proxySpecToProto_def Let_def split: option.splits)

lemma router_spec_wire [wire_simps]: "routerSpecFromProto (Some (cl_routerSpecToProto spec)) = spec"
proof -
  have c: "conditionSpecFromProto (Some (cl_conditionSpecToProto c)) = c" for c
    by (simp add: conditionSpecFromProto_def cl_conditionSpecToProto_def)
  have "matchSpecFromProto (Some (cl_matchSpecToProto m)) = m" for m
    by (cases m) (simp add: matchSpecFromProto_def cl_matchSpecToProto_def c comp_def split: option.splits)
  then have "ruleSpecFromProto (Some (cl_ruleSpecToProto r)) = r" for r
    by (simp add: ruleSpecFromProto_def cl_ruleSpecToProto_def)
  then show ?thesis by (simp add: routerSpecFromProto_def cl_routerSpecToProto_def comp_def)
qed

lemma balancer_spec_wire [wire_simps]: "balancerSpecFromProto (Some (cl_balancerSpecToProto spec)) = spec"
  by (simp add: balancerSpecFromProto_def cl_balancerSpecToProto_def)

lemma flow_spec_wire [wire_simps]: "flowSpecFromProto (Some (cl_flowSpecToProto spec)) = spec"
  by (simp add: flowSpecFromProto_def cl_flowSpecToProto_def)

lemma entrypoint_spec_wire [wire_simps]: "entrypointSpecFromProto (Some (cl_entrypointSpecToProto spec)) = spec"
  by (simp add: entrypointSpecFromProto_def cl_entrypointSpecToProto_def)

text \<open>An explicit weight survives if it fits an \<^verbatim>\<open>int32\<close> and is not zero.\<close>

definition wire_weights :: "pool_spec \<Rightarrow> bool" where
  "wire_weights spec \<longleftrightarrow> (\<forall>m \<in> set (pls_Members spec). case pms_Weight m of None \<Rightarrow> True | Some w \<Rightarrow> w \<noteq> 0 \<and> - (2 ^ 31) \<le> w \<and> w < 2 ^ 31)"

lemma int32_eq_0: "- (2 ^ 31) \<le> w \<Longrightarrow> w < 2 ^ 31 \<Longrightarrow> int32 w = 0 \<longleftrightarrow> w = 0"
  by (metis of_int32_int32 int32_def of_int32_def sint_0 of_int_0 wi_hom_syms word_of_int_0)

lemma pool_spec_wire:
  assumes "wire_weights spec"
  shows "poolSpecFromProto (Some (cl_poolSpecToProto spec)) = spec"
proof -
  have "(\<lambda>m. \<lparr>pms_ProxyId = pbpm_ProxyId m, pms_Weight = (if pbpm_Weight m \<noteq> 0 then Some (of_int32 (pbpm_Weight m)) else None)\<rparr>)
      \<lparr>pbpm_ProxyId = pms_ProxyId m, pbpm_Weight = (case pms_Weight m of None \<Rightarrow> int32 0 | Some w \<Rightarrow> int32 w)\<rparr> = m"
    if "m \<in> set (pls_Members spec)" for m
    using assms that by (cases m; cases "pms_Weight m")
      (auto simp: wire_weights_def int32_eq_0 of_int32_int32 int32_def [of 0] split: option.splits dest!: bspec)
  then have "map (\<lambda>m. \<lparr>pms_ProxyId = pbpm_ProxyId m, pms_Weight = (if pbpm_Weight m \<noteq> 0 then Some (of_int32 (pbpm_Weight m)) else None)\<rparr>)
      (pbpls_Members (cl_poolSpecToProto spec)) = pls_Members spec"
    by (simp add: cl_poolSpecToProto_def map_idI)
  then show ?thesis
    by (cases spec) (simp add: poolSpecFromProto_def cl_poolSpecToProto_def split: option.splits)
qed

lemma decode_encode_cursor [wire_simps]: "decodeCursor (encodeCursor c) = Inr c"
proof (cases c)
  case (Cons x xs)
  have "b64_EncodeToString c \<noteq> []" unfolding b64_EncodeToString_def Cons
    by (cases "map byte xs" rule: b64_split.cases) (auto split: list.splits simp: neq_Nil_conv intro: exI)
  with Cons show ?thesis by (simp add: decodeCursor_def encodeCursor_def b64_decode_encode)
qed (simp add: decodeCursor_def encodeCursor_def)

section \<open>Round trips\<close>

lemma seen_balancer_id:
  assumes "0 \<le> lb_ResetInterval lb" "lb_ResetInterval lb \<le> max_int64"
  shows "seen_balancer lb = lb\<lparr>lb_ts := zero_timestamps\<rparr>"
proof (cases "lb_ResetInterval lb = 0")
  case True
  then show ?thesis by (simp add: seen_balancer_def cl_balancerFromProto_def balancerToProto_def)
next
  case False
  with assms ParseDuration_String [of "lb_ResetInterval lb"] have parse: "ParseDuration (Duration_String (lb_ResetInterval lb)) = Inr (lb_ResetInterval lb)"
    by (simp add: min_int64_def)
  have "ParseDuration [] \<noteq> Inr (lb_ResetInterval lb)" by (simp add: ParseDuration_def)
  with parse have "Duration_String (lb_ResetInterval lb) \<noteq> []" by auto
  with parse False assms show ?thesis by (simp add: seen_balancer_def cl_balancerFromProto_def balancerToProto_def Let_def)
qed

text \<open>
  C29.  What the server sends is what it stored.  Every resource that the server converts to a message
  and the client converts back is the stored one with its times cleared, compiled expressions and
  resolved proxies left out; for a pool, if the weights are positive and have 31 bits, for a
  balancer, if its reset interval is a non-negative \<^verbatim>\<open>time.Duration\<close>.  Agents keep everything, users
  all but the password hash, events everything, and so do page tokens, which the server encodes
  and decodes itself.
\<close>

theorem resources_survive_wire:
  assumes "\<forall>m \<in> set (pool_Members p). 1 \<le> member_Weight m \<and> member_Weight m < 2 ^ 31"
    and "0 \<le> lb_ResetInterval lb" "lb_ResetInterval lb \<le> max_int64"
  shows "cl_proxyFromProto (Some (proxyToProto q)) = Inr (q\<lparr>proxy_ts := zero_timestamps\<rparr>) \<and>
    cl_poolFromProto (Some (poolToProto p)) = Some (p\<lparr>pool_ts := zero_timestamps, pool_hasProxiesResolved := False, pool_resolvedProxies := []\<rparr>) \<and>
    cl_balancerFromProto (Some (balancerToProto lb)) = Some (lb\<lparr>lb_ts := zero_timestamps\<rparr>) \<and>
    cl_routerFromProto (Some (routerToProto r)) = Some ((strip_router r)\<lparr>router_ts := zero_timestamps\<rparr>) \<and>
    cl_flowFromProto (Some (flowToProto f)) = Some (f\<lparr>flow_ts := zero_timestamps\<rparr>) \<and>
    cl_entrypointFromProto (Some (entrypointToProto e)) = Some (e\<lparr>ep_ts := zero_timestamps\<rparr>) \<and>
    cl_userFromProto (Some (userToProto u)) = Some (u\<lparr>user_PasswordHash := []\<rparr>) \<and>
    cl_agentFromProto (Some (agentToProto a now threshold)) = Some a \<and>
    cl_changeEventFromProto (Some (changeEventToProto ev)) = ev \<and>
    decodeCursor (encodeCursor c) = Inr c"
proof -
  have "map (\<lambda>m. m\<lparr>member_Weight := seen_weight (member_Weight m)\<rparr>) (pool_Members p) = pool_Members p"
    using assms(1) by (simp add: map_idI seen_weight_id)
  then show ?thesis
    using seen_balancer_id [OF assms(2,3)]
    by (simp add: wire_simps seen_proxy_def seen_pool_def seen_router_def seen_flow_def seen_entrypoint_def)
qed

theorem resources_survive_wire_witness:
  "cl_balancerFromProto (Some (balancerToProto
     \<lparr>lb_ts = \<lparr>CreatedAt = 1, UpdatedAt = 2\<rparr>, lb_Id = ''b'', lb_Title = [], lb_Type = BalancerTypeLeastBytes, lb_PoolId = ''p'',
      lb_ResetInterval = 90 * Second + 500000000\<rparr>)) =
   Some \<lparr>lb_ts = zero_timestamps, lb_Id = ''b'', lb_Title = [], lb_Type = BalancerTypeLeastBytes, lb_PoolId = ''p'',
      lb_ResetInterval = 90 * Second + 500000000\<rparr>"
  using resources_survive_wire [where p = "\<lparr>pool_ts = zero_timestamps, pool_Id = [], pool_Title = [], pool_Type = [], pool_Labels = [],
      pool_Members = [\<lparr>member_ProxyId = ''q'', member_Weight = 3\<rparr>], pool_Selector = None, pool_hasProxiesResolved = True, pool_resolvedProxies = []\<rparr>"
    and lb = "\<lparr>lb_ts = \<lparr>CreatedAt = 1, UpdatedAt = 2\<rparr>, lb_Id = ''b'', lb_Title = [], lb_Type = BalancerTypeLeastBytes, lb_PoolId = ''p'',
      lb_ResetInterval = 90 * Second + 500000000\<rparr>"]
  by (simp add: Second_def max_int64_def)

end
