(* ===== verification/Grpc_Server.thy ===== *)
theory Grpc_Server
  imports Wire HttpProxy
begin

text \<open>
  \<^verbatim>\<open>adapters/grpc/server\<close> and \<^verbatim>\<open>adapters/grpc/interceptor\<close>: the handlers of the control plane's RPCs over
  the services, and the chain of interceptors in front of them: metrics, authentication, rate limit.
  A request is a value of \<open>rpc_request\<close>, one constructor per RPC with the fields of its message, and
  \<open>handle\<close> is the dispatch that \<^verbatim>\<open>New\<close> registers.  The token bucket of \<^verbatim>\<open>golang.org/x/time/rate\<close> is a
  parameter.  Not modelled are the spans of the tracing interceptor, keepalive and graceful stop.
\<close>

section \<open>Requests and responses\<close>

record list_request =
  lreq_PageSize :: "32 word"
  lreq_PageToken :: string

datatype rpc_request =
    ReqInitAdmin string string string
  | ReqLogin string string int bool
  | ReqLogout
  | ReqCreateUser string string string
  | ReqListUsers list_request string string
  | ReqDeleteUser string
  | ReqChangePassword string string string
  | ReqCreateRegistrationToken int
  | ReqRegister string "pb_agent_info option"
  | ReqHeartbeat
  | ReqDeregister
  | ReqListAgents list_request string labels
  | ReqDeleteAgent string
  | ReqApplyProxy "pb_metadata option" "pb_proxy_spec option"
  | ReqApplyPool "pb_metadata option" "pb_pool_spec option"
  | ReqApplyBalancer "pb_metadata option" "pb_balancer_spec option"
  | ReqApplyRouter "pb_metadata option" "pb_router_spec option"
  | ReqApplyFlow "pb_metadata option" "pb_flow_spec option"
  | ReqApplyEntrypoint "pb_metadata option" "pb_entrypoint_spec option"
  | ReqGetProxy string
  | ReqGetPool string
  | ReqGetBalancer string
  | ReqGetRouter string
  | ReqGetFlow string
  | ReqGetEntrypoint string
  | ReqListProxies list_request string string labels
  | ReqListPools list_request string string
  | ReqListBalancers list_request string string string
  | ReqListRouters list_request string
  | ReqListFlows list_request string string string
  | ReqListEntrypoints list_request string string string
  | ReqDeleteProxy string
  | ReqDeletePool string
  | ReqDeleteBalancer string
  | ReqDeleteRouter string
  | ReqDeleteFlow string
  | ReqDeleteEntrypoint string
  | ReqGetProxiesByIds "string list"
  | ReqFindProxiesByLabels labels

text \<open>
  The messages that carry one resource have one constructor per kind, those that carry nothing have
  \<open>RespEmpty\<close>.
\<close>

datatype rpc_response =
    RespEmpty
  | RespToken string
  | RespUser pb_user string
  | RespListUsers "pb_user list" string "32 word"
  | RespRegistrationToken string pb_timestamp
  | RespRegister string string pb_timestamp
  | RespHeartbeat pb_timestamp
  | RespListAgents "pb_agent list" string "32 word"
  | RespProxy "pb_proxy option"
  | RespPool "pb_pool option"
  | RespBalancer "pb_balancer option"
  | RespRouter "pb_router option"
  | RespFlow "pb_flow option"
  | RespEntrypoint "pb_entrypoint option"
  | RespListProxies "pb_proxy list" string "32 word"
  | RespListPools "pb_pool list" string "32 word"
  | RespListBalancers "pb_balancer list" string "32 word"
  | RespListRouters "pb_router list" string "32 word"
  | RespListFlows "pb_flow list" string "32 word"
  | RespListEntrypoints "pb_entrypoint list" string "32 word"
  | RespProxyList "pb_proxy list"

definition service_prefix :: string where
  "service_prefix = ''/pgway.controlplane.v1.''"

fun short_name :: "rpc_request \<Rightarrow> string" where
  "short_name (ReqInitAdmin _ _ _) = ''AuthService/InitAdmin''"
| "short_name (ReqLogin _ _ _ _) = ''AuthService/Login''"
| "short_name ReqLogout = ''AuthService/Logout''"
| "short_name (ReqCreateUser _ _ _) = ''UserService/CreateUser''"
| "short_name (ReqListUsers _ _ _) = ''UserService/ListUsers''"
| "short_name (ReqDeleteUser _) = ''UserService/DeleteUser''"
| "short_name (ReqChangePassword _ _ _) = ''UserService/ChangePassword''"
| "short_name (ReqCreateRegistrationToken _) = ''AgentService/CreateRegistrationToken''"
| "short_name (ReqRegister _ _) = ''AgentService/Register''"
| "short_name ReqHeartbeat = ''AgentService/Heartbeat''"
| "short_name ReqDeregister = ''AgentService/Deregister''"
| "short_name (ReqListAgents _ _ _) = ''AgentService/ListAgents''"
| "short_name (ReqDeleteAgent _) = ''AgentService/DeleteAgent''"
| "short_name (ReqApplyProxy _ _) = ''ProxyService/ApplyProxyV1''"
| "short_name (ReqApplyPool _ _) = ''PoolService/ApplyPoolV1''"
| "short_name (ReqApplyBalancer _ _) = ''BalancerService/ApplyBalancerV1''"
| "short_name (ReqApplyRouter _ _) = ''RouterService/ApplyRouterV1''"
| "short_name (ReqApplyFlow _ _) = ''FlowService/ApplyFlowV1''"
| "short_name (ReqApplyEntrypoint _ _) = ''EntrypointService/ApplyEntrypointV1''"
| "short_name (ReqGetProxy _) = ''ProxyService/GetProxy''"
| "short_name (ReqGetPool _) = ''PoolService/GetPool''"
| "short_name (ReqGetBalancer _) = ''BalancerService/GetBalancer''"
| "short_name (ReqGetRouter _) = ''RouterService/GetRouter''"
| "short_name (ReqGetFlow _) = ''FlowService/GetFlow''"
| "short_name (ReqGetEntrypoint _) = ''EntrypointService/GetEntrypoint''"
| "short_name (ReqListProxies _ _ _ _) = ''ProxyService/ListProxies''"
| "short_name (ReqListPools _ _ _) = ''PoolService/ListPools''"
| "short_name (ReqListBalancers _ _ _ _) = ''BalancerService/ListBalancers''"
| "short_name (ReqListRouters _ _) = ''RouterService/ListRouters''"
| "short_name (ReqListFlows _ _ _ _) = ''FlowService/ListFlows''"
| "short_name (ReqListEntrypoints _ _ _ _) = ''EntrypointService/ListEntrypoints''"
| "short_name (ReqDeleteProxy _) = ''ProxyService/DeleteProxy''"
| "short_name (ReqDeletePool _) = ''PoolService/DeletePool''"
| "short_name (ReqDeleteBalancer _) = ''BalancerService/DeleteBalancer''"
| "short_name (ReqDeleteRouter _) = ''RouterService/DeleteRouter''"
| "short_name (ReqDeleteFlow _) = ''FlowService/DeleteFlow''"
| "short_name (ReqDeleteEntrypoint _) = ''EntrypointService/DeleteEntrypoint''"
| "short_name (ReqGetProxiesByIds _) = ''ProxyService/GetProxiesByIds''"
| "short_name (ReqFindProxiesByLabels _) = ''ProxyService/FindProxiesByLabels''"

definition FullMethod :: "rpc_request \<Rightarrow> string" where
  "FullMethod req = service_prefix @ short_name req"

section \<open>The server and its world\<close>

record 'l rate_lib =
  rate_NewLimiter :: "rat \<Rightarrow> int \<Rightarrow> 'l"
  rate_Allow :: "time \<Rightarrow> 'l \<Rightarrow> bool \<times> 'l"

record ('db, 'ps, 'l) cp_server =
  srv_libs :: libs
  srv_cp :: "('db, 'ps) service"
  srv_crypto :: crypto
  srv_auth :: "'db auth_service"
  srv_authn :: "'db authenticator"
  srv_agents :: "'db agent_service"
  srv_heartbeatThreshold :: duration
  srv_agentTokenTTL :: duration
  srv_registrationTokenTTL :: duration
  srv_rate :: "'l rate_lib"
  srv_RPS :: rat
  srv_Burst :: int

text \<open>
  What calls change: storage, the event publisher, the pending bootstrap token, the rate limiters by
  key, and the recorded calls with their method and result.
\<close>

record ('db, 'ps, 'l) cp_world =
  w_db :: 'db
  w_ps :: 'ps
  w_bootstrap :: string
  w_limiters :: "(string \<times> 'l) list"
  w_rpcs :: "(string \<times> string) list"

type_synonym ('db, 'ps, 'l) rpc_op = "(('db, 'ps, 'l) cp_world, rpc_response) op"

text \<open>What a call draws from outside: the clock, random text, a fresh ULID, and the peer's address.\<close>

record call_env =
  env_now :: time
  env_random :: "string result"
  env_text :: string
  env_ulid :: string
  env_peer :: "string option"

definition on_cp :: "('db \<times> 'ps, 'a) op \<Rightarrow> (('db, 'ps, 'l) cp_world, 'a) op" where
  "on_cp m w = (case m (w_db w, w_ps w) of (r, db, ps) \<Rightarrow> (r, w\<lparr>w_db := db, w_ps := ps\<rparr>))"

definition on_auth :: "('db, 'a) auth_op \<Rightarrow> (('db, 'ps, 'l) cp_world, 'a) op" where
  "on_auth m w = (case m (w_db w, w_bootstrap w) of (r, db, b) \<Rightarrow> (r, w\<lparr>w_db := db, w_bootstrap := b\<rparr>))"

definition on_store :: "('db, 'a) op \<Rightarrow> (('db, 'ps, 'l) cp_world, 'a) op" where
  "on_store m w = (case m (w_db w) of (r, db) \<Rightarrow> (r, w\<lparr>w_db := db\<rparr>))"

definition read_store :: "('db \<Rightarrow> 'a result) \<Rightarrow> (('db, 'ps, 'l) cp_world, 'a) op" where
  "read_store f = read_op (\<lambda>w. f (w_db w))"

section \<open>Status errors\<close>

definition bad_request :: "string \<Rightarrow> err" where
  "bad_request msg = StatusError CodeInvalidArgument msg [] None"

text \<open>\<^verbatim>\<open>status.Errorf(code, fmt, err)\<close>; the error is printed into the message.\<close>

definition status :: "grpc_code \<Rightarrow> string \<Rightarrow> err \<Rightarrow> err" where
  "status code fmt e = StatusError code fmt [] (Some e)"

text \<open>\<^verbatim>\<open>errors.As\<close> for the two structured errors, and \<^verbatim>\<open>status.Code\<close> of a non-nil error.\<close>

fun errors_As_inUse :: "err \<Rightarrow> bool" where
  "errors_As_inUse (ResourceInUseError _ _ _) = True"
| "errors_As_inUse (Wrapf _ _ e) = errors_As_inUse e"
| "errors_As_inUse (Wrapf2 _ e f) = (errors_As_inUse e \<or> errors_As_inUse f)"
| "errors_As_inUse _ = False"

fun errors_As_missing :: "err \<Rightarrow> bool" where
  "errors_As_missing (ResourceMissingRefError _ _ _ _) = True"
| "errors_As_missing (Wrapf _ _ e) = errors_As_missing e"
| "errors_As_missing (Wrapf2 _ e f) = (errors_As_missing e \<or> errors_As_missing f)"
| "errors_As_missing _ = False"

fun status_of :: "err \<Rightarrow> grpc_code option" where
  "status_of (StatusError c _ _ _) = Some c"
| "status_of (Wrapf _ _ e) = status_of e"
| "status_of (Wrapf2 _ e f) = (case status_of e of Some c \<Rightarrow> Some c | None \<Rightarrow> status_of f)"
| "status_of _ = None"

definition status_Code :: "err \<Rightarrow> grpc_code" where
  "status_Code e = (case status_of e of Some c \<Rightarrow> c | None \<Rightarrow> CodeUnknown)"

definition mapResourceError :: "string \<Rightarrow> err \<Rightarrow> err" where
  "mapResourceError operation e =
     (if errors_As_inUse e then StatusError CodeFailedPrecondition ''%s: %v'' [FStr operation] (Some e)
      else if errors_As_missing e then StatusError CodeFailedPrecondition ''%s: %v'' [FStr operation] (Some e)
      else StatusError CodeInternal ''%s: %v'' [FStr operation] (Some e))"

definition mapAuthError :: "string \<Rightarrow> err \<Rightarrow> err" where
  "mapAuthError operation e =
     (if errors_Is e ErrInvalidCredentials \<or> errors_Is e ErrInvalidToken \<or> errors_Is e ErrInvalidBootstrapToken
      then StatusError CodeUnauthenticated ''%s: %v'' [FStr operation] (Some e)
      else if errors_Is e ErrAlreadyInitialized \<or> errors_Is e ErrLastAdmin
      then StatusError CodeFailedPrecondition ''%s: %v'' [FStr operation] (Some e)
      else if errors_Is e ErrUserExists then StatusError CodeAlreadyExists ''%s: %v'' [FStr operation] (Some e)
      else if errors_Is e ErrWeakPassword then StatusError CodeInvalidArgument ''%s: %v'' [FStr operation] (Some e)
      else StatusError CodeInternal ''%s: %v'' [FStr operation] (Some e))"

definition mapAgentError :: "string \<Rightarrow> err \<Rightarrow> err" where
  "mapAgentError operation e =
     (if errors_Is e ErrInvalidRegistrationToken \<or> errors_Is e ErrInvalidToken \<or> errors_Is e ErrTokenRequired
      then StatusError CodeUnauthenticated ''%s: %v'' [FStr operation] (Some e)
      else if errors_Is e ErrAgentRequired then StatusError CodePermissionDenied ''%s: %v'' [FStr operation] (Some e)
      else if errors_Is e ErrAgentExists then StatusError CodeAlreadyExists ''%s: %v'' [FStr operation] (Some e)
      else if errors_Is e ErrAgentNotFound then StatusError CodeNotFound ''%s: %v'' [FStr operation] (Some e)
      else StatusError CodeInternal ''%s: %v'' [FStr operation] (Some e))"

definition page_params :: "list_request \<Rightarrow> list_params result" where
  "page_params lr =
     bind_res (wrap (\<lambda>_. bad_request ''invalid page_token'') (decodeCursor (lreq_PageToken lr))) (\<lambda>cursor.
       Inr \<lparr>PageSize = of_int32 (lreq_PageSize lr), Cursor = cursor\<rparr>)"

section \<open>Resource handlers\<close>

definition srv_ApplyProxyV1 ::
  "('db, 'ps, 'l) cp_server \<Rightarrow> call_env \<Rightarrow> pb_metadata option \<Rightarrow> pb_proxy_spec option \<Rightarrow> ('db, 'ps, 'l) rpc_op" where
  "srv_ApplyProxyV1 S E meta spec =
     bind_op (guard_op (spec \<noteq> None) (bad_request ''spec is required'')) (\<lambda>_.
     bind_op (wrap_op (mapResourceError ''apply proxy'')
                (on_cp (ApplyProxyV1 (srv_libs S) (srv_cp S) (env_ulid E) (env_now E) (metaFromProto meta) (proxySpecFromProto spec)))) (\<lambda>x.
     lift_op (Inr (RespProxy (Some (proxyToProto x))))))"

definition srv_GetProxy :: "('db, 'ps, 'l) cp_server \<Rightarrow> string \<Rightarrow> ('db, 'ps, 'l) rpc_op" where
  "srv_GetProxy S name =
     bind_op (guard_op (name \<noteq> []) (bad_request ''name is required'')) (\<lambda>_.
     bind_op (wrap_op (status CodeNotFound ''proxy: %v'') (read_store (GetProxy (srv_cp S) name))) (\<lambda>x.
     lift_op (Inr (RespProxy (Some (proxyToProto x))))))"

definition srv_ListProxies ::
  "('db, 'ps, 'l) cp_server \<Rightarrow> list_request \<Rightarrow> string \<Rightarrow> string \<Rightarrow> labels \<Rightarrow> ('db, 'ps, 'l) rpc_op" where
  "srv_ListProxies S lr search protocol ls =
     bind_op (lift_op (page_params lr)) (\<lambda>params.
     bind_op (wrap_op (status CodeInternal ''list proxies: %v'') (read_store (ListProxies (srv_cp S) params
       \<lparr>pf_Search = search, pf_Protocol = protocol, pf_Labels = ls\<rparr>))) (\<lambda>result.
     lift_op (Inr (RespListProxies (map proxyToProto (Items result)) (encodeCursor (NextCursor result)) (int32 (TotalCount result))))))"

definition srv_DeleteProxy :: "('db, 'ps, 'l) cp_server \<Rightarrow> string \<Rightarrow> ('db, 'ps, 'l) rpc_op" where
  "srv_DeleteProxy S name =
     bind_op (guard_op (name \<noteq> []) (bad_request ''name is required'')) (\<lambda>_.
     bind_op (wrap_op (mapResourceError ''delete proxy'') (on_cp (DeleteProxy (srv_cp S) name))) (\<lambda>_.
     lift_op (Inr RespEmpty)))"

definition srv_ApplyPoolV1 ::
  "('db, 'ps, 'l) cp_server \<Rightarrow> call_env \<Rightarrow> pb_metadata option \<Rightarrow> pb_pool_spec option \<Rightarrow> ('db, 'ps, 'l) rpc_op" where
  "srv_ApplyPoolV1 S E meta spec =
     bind_op (guard_op (spec \<noteq> None) (bad_request ''spec is required'')) (\<lambda>_.
     bind_op (wrap_op (mapResourceError ''apply pool'')
                (on_cp (ApplyPoolV1 (srv_cp S) (env_ulid E) (env_now E) (metaFromProto meta) (poolSpecFromProto spec)))) (\<lambda>x.
     lift_op (Inr (RespPool (Some (poolToProto x))))))"

definition srv_GetPool :: "('db, 'ps, 'l) cp_server \<Rightarrow> string \<Rightarrow> ('db, 'ps, 'l) rpc_op" where
  "srv_GetPool S name =
     bind_op (guard_op (name \<noteq> []) (bad_request ''name is required'')) (\<lambda>_.
     bind_op (wrap_op (status CodeNotFound ''pool: %v'') (read_store (GetPool (srv_cp S) name))) (\<lambda>x.
     lift_op (Inr (RespPool (Some (poolToProto x))))))"

definition srv_ListPools ::
  "('db, 'ps, 'l) cp_server \<Rightarrow> list_request \<Rightarrow> string \<Rightarrow> string \<Rightarrow> ('db, 'ps, 'l) rpc_op" where
  "srv_ListPools S lr search t =
     bind_op (lift_op (page_params lr)) (\<lambda>params.
     bind_op (wrap_op (status CodeInternal ''list pools: %v'') (read_store (ListPools (srv_cp S) params
       \<lparr>plf_Search = search, plf_Type = t, plf_ProxyId = []\<rparr>))) (\<lambda>result.
     lift_op (Inr (RespListPools (map poolToProto (Items result)) (encodeCursor (NextCursor result)) (int32 (TotalCount result))))))"

definition srv_DeletePool :: "('db, 'ps, 'l) cp_server \<Rightarrow> string \<Rightarrow> ('db, 'ps, 'l) rpc_op" where
  "srv_DeletePool S name =
     bind_op (guard_op (name \<noteq> []) (bad_request ''name is required'')) (\<lambda>_.
     bind_op (wrap_op (mapResourceError ''delete pool'') (on_cp (DeletePool (srv_cp S) name))) (\<lambda>_.
     lift_op (Inr RespEmpty)))"

definition srv_ApplyBalancerV1 ::
  "('db, 'ps, 'l) cp_server \<Rightarrow> call_env \<Rightarrow> pb_metadata option \<Rightarrow> pb_balancer_spec option \<Rightarrow> ('db, 'ps, 'l) rpc_op" where
  "srv_ApplyBalancerV1 S E meta spec =
     bind_op (guard_op (spec \<noteq> None) (bad_request ''spec is required'')) (\<lambda>_.
     bind_op (wrap_op (mapResourceError ''apply balancer'')
                (on_cp (ApplyBalancerV1 (srv_libs S) (srv_cp S) (env_ulid E) (env_now E) (metaFromProto meta) (balancerSpecFromProto spec)))) (\<lambda>x.
     lift_op (Inr (RespBalancer (Some (balancerToProto x))))))"

definition srv_GetBalancer :: "('db, 'ps, 'l) cp_server \<Rightarrow> string \<Rightarrow> ('db, 'ps, 'l) rpc_op" where
  "srv_GetBalancer S name =
     bind_op (guard_op (name \<noteq> []) (bad_request ''name is required'')) (\<lambda>_.
     bind_op (wrap_op (status CodeNotFound ''balancer: %v'') (read_store (GetBalancer (srv_cp S) name))) (\<lambda>x.
     lift_op (Inr (RespBalancer (Some (balancerToProto x))))))"

definition srv_ListBalancers ::
  "('db, 'ps, 'l) cp_server \<Rightarrow> list_request \<Rightarrow> string \<Rightarrow> string \<Rightarrow> string \<Rightarrow> ('db, 'ps, 'l) rpc_op" where
  "srv_ListBalancers S lr search t poolId =
     bind_op (lift_op (page_params lr)) (\<lambda>params.
     bind_op (wrap_op (status CodeInternal ''list balancers: %v'') (read_store (ListBalancers (srv_cp S) params
       \<lparr>bf_Search = search, bf_Type = t, bf_PoolId = poolId\<rparr>))) (\<lambda>result.
     lift_op (Inr (RespListBalancers (map balancerToProto (Items result)) (encodeCursor (NextCursor result)) (int32 (TotalCount result))))))"

definition srv_DeleteBalancer :: "('db, 'ps, 'l) cp_server \<Rightarrow> string \<Rightarrow> ('db, 'ps, 'l) rpc_op" where
  "srv_DeleteBalancer S name =
     bind_op (guard_op (name \<noteq> []) (bad_request ''name is required'')) (\<lambda>_.
     bind_op (wrap_op (mapResourceError ''delete balancer'') (on_cp (DeleteBalancer (srv_cp S) name))) (\<lambda>_.
     lift_op (Inr RespEmpty)))"

definition srv_ApplyRouterV1 ::
  "('db, 'ps, 'l) cp_server \<Rightarrow> call_env \<Rightarrow> pb_metadata option \<Rightarrow> pb_router_spec option \<Rightarrow> ('db, 'ps, 'l) rpc_op" where
  "srv_ApplyRouterV1 S E meta spec =
     bind_op (guard_op (spec \<noteq> None) (bad_request ''spec is required'')) (\<lambda>_.
     bind_op (wrap_op (mapResourceError ''apply router'')
                (on_cp (ApplyRouterV1 (srv_libs S) (srv_cp S) (env_ulid E) (env_now E) (metaFromProto meta) (routerSpecFromProto spec)))) (\<lambda>x.
     lift_op (Inr (RespRouter (Some (routerToProto x))))))"

definition srv_GetRouter :: "('db, 'ps, 'l) cp_server \<Rightarrow> string \<Rightarrow> ('db, 'ps, 'l) rpc_op" where
  "srv_GetRouter S name =
     bind_op (guard_op (name \<noteq> []) (bad_request ''name is required'')) (\<lambda>_.
     bind_op (wrap_op (status CodeNotFound ''router: %v'') (read_store (GetRouter (srv_cp S) name))) (\<lambda>x.
     lift_op (Inr (RespRouter (Some (routerToProto x))))))"

definition srv_ListRouters ::
  "('db, 'ps, 'l) cp_server \<Rightarrow> list_request \<Rightarrow> string \<Rightarrow> ('db, 'ps, 'l) rpc_op" where
  "srv_ListRouters S lr search =
     bind_op (lift_op (page_params lr)) (\<lambda>params.
     bind_op (wrap_op (status CodeInternal ''list routers: %v'') (read_store (ListRouters (srv_cp S) params
       \<lparr>rf_Search = search, rf_TargetBalancerId = [], rf_HasCatchAll = None\<rparr>))) (\<lambda>result.
     lift_op (Inr (RespListRouters (map routerToProto (Items result)) (encodeCursor (NextCursor result)) (int32 (TotalCount result))))))"

definition srv_DeleteRouter :: "('db, 'ps, 'l) cp_server \<Rightarrow> string \<Rightarrow> ('db, 'ps, 'l) rpc_op" where
  "srv_DeleteRouter S name =
     bind_op (guard_op (name \<noteq> []) (bad_request ''name is required'')) (\<lambda>_.
     bind_op (wrap_op (mapResourceError ''delete router'') (on_cp (DeleteRouter (srv_cp S) name))) (\<lambda>_.
     lift_op (Inr RespEmpty)))"

definition srv_ApplyFlowV1 ::
  "('db, 'ps, 'l) cp_server \<Rightarrow> call_env \<Rightarrow> pb_metadata option \<Rightarrow> pb_flow_spec option \<Rightarrow> ('db, 'ps, 'l) rpc_op" where
  "srv_ApplyFlowV1 S E meta spec =
     bind_op (guard_op (spec \<noteq> None) (bad_request ''spec is required'')) (\<lambda>_.
     bind_op (wrap_op (mapResourceError ''apply flow'')
                (on_cp (ApplyFlowV1 (srv_cp S) (env_ulid E) (env_now E) (metaFromProto meta) (flowSpecFromProto spec)))) (\<lambda>x.
     lift_op (Inr (RespFlow (Some (flowToProto x))))))"

definition srv_GetFlow :: "('db, 'ps, 'l) cp_server \<Rightarrow> string \<Rightarrow> ('db, 'ps, 'l) rpc_op" where
  "srv_GetFlow S name =
     bind_op (guard_op (name \<noteq> []) (bad_request ''name is required'')) (\<lambda>_.
     bind_op (wrap_op (status CodeNotFound ''flow: %v'') (read_store (GetFlow (srv_cp S) name))) (\<lambda>x.
     lift_op (Inr (RespFlow (Some (flowToProto x))))))"

definition srv_ListFlows ::
  "('db, 'ps, 'l) cp_server \<Rightarrow> list_request \<Rightarrow> string \<Rightarrow> string \<Rightarrow> string \<Rightarrow> ('db, 'ps, 'l) rpc_op" where
  "srv_ListFlows S lr search routerId balancerId =
     bind_op (lift_op (page_params lr)) (\<lambda>params.
     bind_op (wrap_op (status CodeInternal ''list flows: %v'') (read_store (ListFlows (srv_cp S) params
       \<lparr>ff_Search = search, ff_RouterId = routerId, ff_BalancerId = balancerId, ff_Mode = []\<rparr>))) (\<lambda>result.
     lift_op (Inr (RespListFlows (map flowToProto (Items result)) (encodeCursor (NextCursor result)) (int32 (TotalCount result))))))"

definition srv_DeleteFlow :: "('db, 'ps, 'l) cp_server \<Rightarrow> string \<Rightarrow> ('db, 'ps, 'l) rpc_op" where
  "srv_DeleteFlow S name =
     bind_op (guard_op (name \<noteq> []) (bad_request ''name is required'')) (\<lambda>_.
     bind_op (wrap_op (mapResourceError ''delete flow'') (on_cp (DeleteFlow (srv_cp S) name))) (\<lambda>_.
     lift_op (Inr RespEmpty)))"

definition srv_ApplyEntrypointV1 ::
  "('db, 'ps, 'l) cp_server \<Rightarrow> call_env \<Rightarrow> pb_metadata option \<Rightarrow> pb_entrypoint_spec option \<Rightarrow> ('db, 'ps, 'l) rpc_op" where
  "srv_ApplyEntrypointV1 S E meta spec =
     bind_op (guard_op (spec \<noteq> None) (bad_request ''spec is required'')) (\<lambda>_.
     bind_op (wrap_op (mapResourceError ''apply entrypoint'')
                (on_cp (ApplyEntrypointV1 (srv_cp S) (env_ulid E) (env_now E) (metaFromProto meta) (entrypointSpecFromProto spec)))) (\<lambda>x.
     lift_op (Inr (RespEntrypoint (Some (entrypointToProto x))))))"

definition srv_GetEntrypoint :: "('db, 'ps, 'l) cp_server \<Rightarrow> string \<Rightarrow> ('db, 'ps, 'l) rpc_op" where
  "srv_GetEntrypoint S name =
     bind_op (guard_op (name \<noteq> []) (bad_request ''name is required'')) (\<lambda>_.
     bind_op (wrap_op (status CodeNotFound ''entrypoint: %v'') (read_store (GetEntrypoint (srv_cp S) name))) (\<lambda>x.
     lift_op (Inr (RespEntrypoint (Some (entrypointToProto x))))))"

definition srv_ListEntrypoints ::
  "('db, 'ps, 'l) cp_server \<Rightarrow> list_request \<Rightarrow> string \<Rightarrow> string \<Rightarrow> string \<Rightarrow> ('db, 'ps, 'l) rpc_op" where
  "srv_ListEntrypoints S lr search protocol host =
     bind_op (lift_op (page_params lr)) (\<lambda>params.
     bind_op (wrap_op (status CodeInternal ''list entrypoints: %v'') (read_store (ListEntrypoints (srv_cp S) params
       \<lparr>ef_Search = search, ef_Protocol = protocol, ef_Host = host, ef_FlowId = []\<rparr>))) (\<lambda>result.
     lift_op (Inr (RespListEntrypoints (map entrypointToProto (Items result)) (encodeCursor (NextCursor result)) (int32 (TotalCount result))))))"

definition srv_DeleteEntrypoint :: "('db, 'ps, 'l) cp_server \<Rightarrow> string \<Rightarrow> ('db, 'ps, 'l) rpc_op" where
  "srv_DeleteEntrypoint S name =
     bind_op (guard_op (name \<noteq> []) (bad_request ''name is required'')) (\<lambda>_.
     bind_op (wrap_op (mapResourceError ''delete entrypoint'') (on_cp (DeleteEntrypoint (srv_cp S) name))) (\<lambda>_.
     lift_op (Inr RespEmpty)))"

definition srv_GetProxiesByIds :: "('db, 'ps, 'l) cp_server \<Rightarrow> string list \<Rightarrow> ('db, 'ps, 'l) rpc_op" where
  "srv_GetProxiesByIds S ids =
     bind_op (guard_op (ids \<noteq> []) (bad_request ''ids are required'')) (\<lambda>_.
     bind_op (wrap_op (\<lambda>e. StatusError CodeInternal ''get proxies by ids: %q %v'' (map FStr ids) (Some e))
                (read_store (GetProxiesByIds (srv_cp S) ids))) (\<lambda>proxies.
     lift_op (Inr (RespProxyList (map proxyToProto proxies)))))"

definition srv_FindProxiesByLabels :: "('db, 'ps, 'l) cp_server \<Rightarrow> labels \<Rightarrow> ('db, 'ps, 'l) rpc_op" where
  "srv_FindProxiesByLabels S ls =
     bind_op (guard_op (ls \<noteq> []) (bad_request ''labels are required'')) (\<lambda>_.
     bind_op (wrap_op (\<lambda>e. StatusError CodeInternal ''find proxies by labels: %q %v'' (map (\<lambda>kv. FStr (snd kv)) ls) (Some e))
                (read_store (FindProxiesByLabels (srv_cp S) ls))) (\<lambda>proxies.
     lift_op (Inr (RespProxyList (map proxyToProto proxies)))))"

section \<open>Who may call\<close>

definition requireAdmin :: "call_ctx \<Rightarrow> unit result" where
  "requireAdmin ctx =
     (case ctx_principal ctx of
        None \<Rightarrow> Inl (StatusError CodeUnauthenticated ''no principal in call context'' [] None)
      | Some p \<Rightarrow>
          (case principal_User p of
             None \<Rightarrow> Inl (StatusError CodePermissionDenied ''admin role required'' [] None)
           | Some u \<Rightarrow> guard_res (IsAdmin u) (StatusError CodePermissionDenied ''admin role required'' [] None)))"

definition requireAgent :: "call_ctx \<Rightarrow> unit result" where
  "requireAgent ctx =
     (case ctx_principal ctx of
        None \<Rightarrow> Inl (StatusError CodeUnauthenticated ''no principal in call context'' [] None)
      | Some p \<Rightarrow> guard_res (principal_Agent p \<noteq> None) (StatusError CodePermissionDenied ''agent principal required'' [] None))"

definition requireUser :: "call_ctx \<Rightarrow> unit result" where
  "requireUser ctx =
     (case ctx_principal ctx of
        None \<Rightarrow> Inl (StatusError CodeUnauthenticated ''no principal in call context'' [] None)
      | Some p \<Rightarrow> guard_res (principal_User p \<noteq> None) (StatusError CodePermissionDenied ''user principal required'' [] None))"

section \<open>Users and sessions\<close>

definition srv_InitAdmin ::
  "('db, 'ps, 'l) cp_server \<Rightarrow> call_env \<Rightarrow> string \<Rightarrow> string \<Rightarrow> string \<Rightarrow> ('db, 'ps, 'l) rpc_op" where
  "srv_InitAdmin S E bootstrapToken username password =
     bind_op (guard_op (username \<noteq> [] \<and> password \<noteq> []) (bad_request ''username and password are required'')) (\<lambda>_.
     bind_op (wrap_op (mapAuthError ''init admin'')
                (on_auth (InitAdmin (srv_crypto S) (srv_auth S) (env_now E) (env_random E) bootstrapToken username password))) (\<lambda>r.
     lift_op (Inr (RespUser (userToProto (fst r)) (snd r)))))"

definition srv_Login ::
  "('db, 'ps, 'l) cp_server \<Rightarrow> call_env \<Rightarrow> string \<Rightarrow> string \<Rightarrow> int \<Rightarrow> bool \<Rightarrow> ('db, 'ps, 'l) rpc_op" where
  "srv_Login S E username password ttlSeconds noExpiry =
     bind_op (guard_op (username \<noteq> [] \<and> password \<noteq> []) (bad_request ''username and password are required'')) (\<lambda>_.
     bind_op (wrap_op (mapAuthError ''login'')
                (on_auth (Login (srv_crypto S) (srv_auth S) (env_now E) (env_random E) username password
                   (wrap64 (ttlSeconds * Second)) noExpiry))) (\<lambda>token.
     lift_op (Inr (RespToken token))))"

definition srv_Logout :: "('db, 'ps, 'l) cp_server \<Rightarrow> call_ctx \<Rightarrow> ('db, 'ps, 'l) rpc_op" where
  "srv_Logout S ctx =
     bind_op (lift_op (case ctx_token ctx of
                None \<Rightarrow> Inl (StatusError CodeUnauthenticated ''no token in call context'' [] None) | Some t \<Rightarrow> Inr t)) (\<lambda>token.
     bind_op (wrap_op (mapAuthError ''logout'') (on_auth (Logout (srv_crypto S) (srv_auth S) token))) (\<lambda>_.
     lift_op (Inr RespEmpty)))"

definition srv_CreateUser ::
  "('db, 'ps, 'l) cp_server \<Rightarrow> call_env \<Rightarrow> call_ctx \<Rightarrow> string \<Rightarrow> string \<Rightarrow> string \<Rightarrow> ('db, 'ps, 'l) rpc_op" where
  "srv_CreateUser S E ctx username password role =
     bind_op (lift_op (requireAdmin ctx)) (\<lambda>_.
     bind_op (guard_op (username \<noteq> []) (bad_request ''username is required'')) (\<lambda>_.
     bind_op (wrap_op (mapAuthError ''create user'')
                (on_auth (CreateUser (srv_crypto S) (srv_auth S) (env_now E) (env_text E) username password role))) (\<lambda>r.
     lift_op (Inr (RespUser (userToProto (fst r)) (snd r))))))"

definition srv_ListUsers ::
  "('db, 'ps, 'l) cp_server \<Rightarrow> call_ctx \<Rightarrow> list_request \<Rightarrow> string \<Rightarrow> string \<Rightarrow> ('db, 'ps, 'l) rpc_op" where
  "srv_ListUsers S ctx lr search role =
     bind_op (lift_op (requireAdmin ctx)) (\<lambda>_.
     bind_op (lift_op (page_params lr)) (\<lambda>params.
     bind_op (wrap_op (mapAuthError ''list users'')
                (read_store (ListUsers (srv_auth S) params \<lparr>uf_Search = search, uf_Role = role\<rparr>))) (\<lambda>result.
     lift_op (Inr (RespListUsers (map userToProto (Items result)) (encodeCursor (NextCursor result)) (int32 (TotalCount result)))))))"

definition srv_DeleteUser :: "('db, 'ps, 'l) cp_server \<Rightarrow> call_ctx \<Rightarrow> string \<Rightarrow> ('db, 'ps, 'l) rpc_op" where
  "srv_DeleteUser S ctx username =
     bind_op (lift_op (requireAdmin ctx)) (\<lambda>_.
     bind_op (guard_op (username \<noteq> []) (bad_request ''username is required'')) (\<lambda>_.
     bind_op (wrap_op (mapAuthError ''delete user'') (on_auth (DeleteUser (srv_auth S) username))) (\<lambda>_.
     lift_op (Inr RespEmpty))))"

definition srv_ChangePassword ::
  "('db, 'ps, 'l) cp_server \<Rightarrow> call_env \<Rightarrow> call_ctx \<Rightarrow> string \<Rightarrow> string \<Rightarrow> string \<Rightarrow> ('db, 'ps, 'l) rpc_op" where
  "srv_ChangePassword S E ctx username oldPassword newPassword =
     bind_op (lift_op (case ctx_principal ctx of
                None \<Rightarrow> Inl (StatusError CodeUnauthenticated ''no principal in call context'' [] None) | Some p \<Rightarrow> Inr p)) (\<lambda>principal.
     bind_op (lift_op (case principal_User principal of
                None \<Rightarrow> Inl (StatusError CodePermissionDenied ''user principal required'' [] None) | Some u \<Rightarrow> Inr u)) (\<lambda>actor.
     bind_op (guard_op (newPassword \<noteq> []) (bad_request ''new_password is required'')) (\<lambda>_.
     let target = (if username = [] then user_Id actor else username) in
     if target \<noteq> user_Id actor then
       bind_op (guard_op (IsAdmin actor) (StatusError CodePermissionDenied ''admin role required'' [] None)) (\<lambda>_.
       bind_op (wrap_op (mapAuthError ''reset password'')
                  (on_auth (ResetPassword (srv_crypto S) (srv_auth S) (env_now E) target newPassword))) (\<lambda>_.
       lift_op (Inr RespEmpty)))
     else
       bind_op (guard_op (oldPassword \<noteq> []) (bad_request ''old_password is required'')) (\<lambda>_.
       bind_op (wrap_op (mapAuthError ''change password'')
                  (on_auth (ChangePassword (srv_crypto S) (srv_auth S) (env_now E) target oldPassword newPassword))) (\<lambda>_.
       lift_op (Inr RespEmpty))))))"

section \<open>Agents\<close>

definition srv_CreateRegistrationToken ::
  "('db, 'ps, 'l) cp_server \<Rightarrow> call_env \<Rightarrow> call_ctx \<Rightarrow> int \<Rightarrow> ('db, 'ps, 'l) rpc_op" where
  "srv_CreateRegistrationToken S E ctx ttlSeconds =
     bind_op (lift_op (requireAdmin ctx)) (\<lambda>_.
     let ttl = wrap64 (ttlSeconds * Second);
         ttl = (if ttl \<le> 0 then srv_registrationTokenTTL S else ttl) in
     bind_op (wrap_op (mapAgentError ''create registration token'')
                (on_store (CreateRegistrationToken (srv_crypto S) (as_creds (srv_agents S)) (env_now E) (env_random E) ttl))) (\<lambda>token.
     lift_op (Inr (RespRegistrationToken token (timestamppb_New (env_now E + ttl))))))"

definition srv_Register ::
  "('db, 'ps, 'l) cp_server \<Rightarrow> call_env \<Rightarrow> string \<Rightarrow> pb_agent_info option \<Rightarrow> ('db, 'ps, 'l) rpc_op" where
  "srv_Register S E registrationToken info =
     bind_op (guard_op (registrationToken \<noteq> []) (bad_request ''registration_token is required'')) (\<lambda>_.
     bind_op (lift_op (case info of None \<Rightarrow> Inl (bad_request ''info.name is required'')
                       | Some i \<Rightarrow> if pbi_Name i = [] then Inl (bad_request ''info.name is required'') else Inr i)) (\<lambda>info.
     bind_op (wrap_op (mapAgentError ''register'')
                (on_store (Register (srv_crypto S) (srv_agents S) (env_now E) (env_random E) registrationToken
                   \<lparr>agent_ts = zero_timestamps, agent_Id = pbi_Name info, agent_Hostname = pbi_Hostname info,
                    agent_Version = pbi_Version info, agent_Labels = pbi_Labels info, agent_LastHeartbeat = None\<rparr>))) (\<lambda>r.
     lift_op (Inr (RespRegister (agent_Id (fst r)) (snd r) (timestamppb_New (env_now E + srv_agentTokenTTL S)))))))"

definition srv_Heartbeat :: "('db, 'ps, 'l) cp_server \<Rightarrow> call_env \<Rightarrow> call_ctx \<Rightarrow> ('db, 'ps, 'l) rpc_op" where
  "srv_Heartbeat S E ctx =
     bind_op (lift_op (requireAgent ctx)) (\<lambda>_.
     bind_op (wrap_op (mapAgentError ''heartbeat'') (on_store (Heartbeat (srv_crypto S) (srv_agents S) (env_now E) ctx))) (\<lambda>expires.
     lift_op (Inr (RespHeartbeat (timestamppb_New expires)))))"

definition srv_Deregister :: "('db, 'ps, 'l) cp_server \<Rightarrow> call_env \<Rightarrow> call_ctx \<Rightarrow> ('db, 'ps, 'l) rpc_op" where
  "srv_Deregister S E ctx =
     bind_op (lift_op (requireAgent ctx)) (\<lambda>_.
     bind_op (wrap_op (mapAgentError ''deregister'') (on_store (Deregister (srv_agents S) (env_now E) ctx))) (\<lambda>_.
     lift_op (Inr RespEmpty)))"

definition srv_ListAgents ::
  "('db, 'ps, 'l) cp_server \<Rightarrow> call_env \<Rightarrow> call_ctx \<Rightarrow> list_request \<Rightarrow> string \<Rightarrow> labels \<Rightarrow> ('db, 'ps, 'l) rpc_op" where
  "srv_ListAgents S E ctx lr search ls =
     bind_op (lift_op (requireUser ctx)) (\<lambda>_.
     bind_op (lift_op (page_params lr)) (\<lambda>params.
     bind_op (wrap_op (mapAgentError ''list agents'')
                (read_store (ListAgents (srv_agents S) params \<lparr>af_Search = search, af_Labels = ls\<rparr>))) (\<lambda>result.
     lift_op (Inr (RespListAgents (map (\<lambda>a. agentToProto a (env_now E) (srv_heartbeatThreshold S)) (Items result))
       (encodeCursor (NextCursor result)) (int32 (TotalCount result)))))))"

definition srv_DeleteAgent :: "('db, 'ps, 'l) cp_server \<Rightarrow> call_ctx \<Rightarrow> string \<Rightarrow> ('db, 'ps, 'l) rpc_op" where
  "srv_DeleteAgent S ctx name =
     bind_op (lift_op (requireAdmin ctx)) (\<lambda>_.
     bind_op (guard_op (name \<noteq> []) (bad_request ''name is required'')) (\<lambda>_.
     bind_op (wrap_op (mapAgentError ''delete agent'') (on_store (DeleteAgent (srv_agents S) name))) (\<lambda>_.
     lift_op (Inr RespEmpty))))"

section \<open>Dispatch\<close>

fun handle :: "('db, 'ps, 'l) cp_server \<Rightarrow> call_env \<Rightarrow> call_ctx \<Rightarrow> rpc_request \<Rightarrow> ('db, 'ps, 'l) rpc_op" where
  "handle S E ctx (ReqInitAdmin bootstrapToken username password) = srv_InitAdmin S E bootstrapToken username password"
| "handle S E ctx (ReqLogin username password ttl noExpiry) = srv_Login S E username password ttl noExpiry"
| "handle S E ctx ReqLogout = srv_Logout S ctx"
| "handle S E ctx (ReqCreateUser username password role) = srv_CreateUser S E ctx username password role"
| "handle S E ctx (ReqListUsers lr search role) = srv_ListUsers S ctx lr search role"
| "handle S E ctx (ReqDeleteUser username) = srv_DeleteUser S ctx username"
| "handle S E ctx (ReqChangePassword username old new) = srv_ChangePassword S E ctx username old new"
| "handle S E ctx (ReqCreateRegistrationToken ttl) = srv_CreateRegistrationToken S E ctx ttl"
| "handle S E ctx (ReqRegister token info) = srv_Register S E token info"
| "handle S E ctx ReqHeartbeat = srv_Heartbeat S E ctx"
| "handle S E ctx ReqDeregister = srv_Deregister S E ctx"
| "handle S E ctx (ReqListAgents lr search ls) = srv_ListAgents S E ctx lr search ls"
| "handle S E ctx (ReqDeleteAgent name) = srv_DeleteAgent S ctx name"
| "handle S E ctx (ReqApplyProxy meta spec) = srv_ApplyProxyV1 S E meta spec"
| "handle S E ctx (ReqApplyPool meta pool_spec) = srv_ApplyPoolV1 S E meta pool_spec"
| "handle S E ctx (ReqApplyBalancer meta balancer_spec) = srv_ApplyBalancerV1 S E meta balancer_spec"
| "handle S E ctx (ReqApplyRouter meta router_spec) = srv_ApplyRouterV1 S E meta router_spec"
| "handle S E ctx (ReqApplyFlow meta flow_spec) = srv_ApplyFlowV1 S E meta flow_spec"
| "handle S E ctx (ReqApplyEntrypoint meta ep_spec) = srv_ApplyEntrypointV1 S E meta ep_spec"
| "handle S E ctx (ReqGetProxy name) = srv_GetProxy S name"
| "handle S E ctx (ReqGetPool name) = srv_GetPool S name"
| "handle S E ctx (ReqGetBalancer name) = srv_GetBalancer S name"
| "handle S E ctx (ReqGetRouter name) = srv_GetRouter S name"
| "handle S E ctx (ReqGetFlow name) = srv_GetFlow S name"
| "handle S E ctx (ReqGetEntrypoint name) = srv_GetEntrypoint S name"
| "handle S E ctx (ReqListProxies lr search protocol ls) = srv_ListProxies S lr search protocol ls"
| "handle S E ctx (ReqListPools lr search t) = srv_ListPools S lr search t"
| "handle S E ctx (ReqListBalancers lr search t poolId) = srv_ListBalancers S lr search t poolId"
| "handle S E ctx (ReqListRouters lr search) = srv_ListRouters S lr search"
| "handle S E ctx (ReqListFlows lr search routerId balancerId) = srv_ListFlows S lr search routerId balancerId"
| "handle S E ctx (ReqListEntrypoints lr search protocol host) = srv_ListEntrypoints S lr search protocol host"
| "handle S E ctx (ReqDeleteProxy name) = srv_DeleteProxy S name"
| "handle S E ctx (ReqDeletePool name) = srv_DeletePool S name"
| "handle S E ctx (ReqDeleteBalancer name) = srv_DeleteBalancer S name"
| "handle S E ctx (ReqDeleteRouter name) = srv_DeleteRouter S name"
| "handle S E ctx (ReqDeleteFlow name) = srv_DeleteFlow S name"
| "handle S E ctx (ReqDeleteEntrypoint name) = srv_DeleteEntrypoint S name"
| "handle S E ctx (ReqGetProxiesByIds ids) = srv_GetProxiesByIds S ids"
| "handle S E ctx (ReqFindProxiesByLabels ls) = srv_FindProxiesByLabels S ls"

section \<open>Interceptors\<close>

text \<open>The metadata of an incoming call: lower-case keys to values.\<close>

type_synonym call_md = "(string \<times> string list) list option"

definition unauthenticated :: "string \<Rightarrow> err" where
  "unauthenticated msg = StatusError CodeUnauthenticated msg [] None"

definition bearerToken :: "call_md \<Rightarrow> string result" where
  "bearerToken md =
     (case md of
        None \<Rightarrow> Inl (unauthenticated ''missing metadata'')
      | Some md \<Rightarrow>
          (case map_of md ''authorization'' of
             None \<Rightarrow> Inl (unauthenticated ''missing authorization token'')
           | Some [] \<Rightarrow> Inl (unauthenticated ''missing authorization token'')
           | Some (v # _) \<Rightarrow>
               if \<not> HasPrefix v ''Bearer '' \<or> TrimPrefix v ''Bearer '' = []
               then Inl (unauthenticated ''authorization must be a bearer token'')
               else Inr (TrimPrefix v ''Bearer '')))"

definition exemptMethods :: "string list" where
  "exemptMethods = map ((@) service_prefix) [''AuthService/Login'', ''AuthService/InitAdmin'', ''AgentService/Register'']"

definition agentAllowedMethods :: "string list" where
  "agentAllowedMethods = map ((@) service_prefix)
     [''AgentService/Heartbeat'', ''AgentService/Deregister'', ''ChangeService/Watch'',
      ''ProxyService/GetProxy'', ''ProxyService/ListProxies'', ''ProxyService/GetProxiesByIds'',
      ''ProxyService/FindProxiesByLabels'', ''PoolService/GetPool'', ''PoolService/ListPools'',
      ''BalancerService/GetBalancer'', ''BalancerService/ListBalancers'',
      ''RouterService/GetRouter'', ''RouterService/ListRouters'', ''FlowService/GetFlow'', ''FlowService/ListFlows'',
      ''EntrypointService/GetEntrypoint'', ''EntrypointService/ListEntrypoints'']"

definition isExempt :: "string \<Rightarrow> bool" where
  "isExempt fullMethod \<longleftrightarrow> fullMethod \<in> set exemptMethods"

definition isAgentAllowed :: "string \<Rightarrow> bool" where
  "isAgentAllowed fullMethod \<longleftrightarrow> fullMethod \<in> set agentAllowedMethods"

definition no_ctx :: call_ctx where
  "no_ctx = \<lparr>ctx_principal = None, ctx_token = None\<rparr>"

definition authenticate_call ::
  "('db, 'ps, 'l) cp_server \<Rightarrow> time \<Rightarrow> call_md \<Rightarrow> string \<Rightarrow> (('db, 'ps, 'l) cp_world, call_ctx) op" where
  "authenticate_call S now md fullMethod =
     bind_op (lift_op (bearerToken md)) (\<lambda>token.
     bind_op (wrap_op (\<lambda>_. unauthenticated ''invalid or expired token'')
                (on_store (Authenticate (srv_crypto S) (srv_authn S) now token))) (\<lambda>principal.
     bind_op (guard_op (\<not> (Principal_Kind (Some principal) = PrincipalKindAgent \<and> \<not> isAgentAllowed fullMethod))
                (StatusError CodePermissionDenied ''agent not permitted for this method'' [] None)) (\<lambda>_.
     lift_op (Inr \<lparr>ctx_principal = Some principal, ctx_token = Some token\<rparr>))))"

definition UnaryAuth ::
  "('db, 'ps, 'l) cp_server \<Rightarrow> time \<Rightarrow> call_md \<Rightarrow> string \<Rightarrow> (call_ctx \<Rightarrow> ('db, 'ps, 'l) rpc_op) \<Rightarrow> ('db, 'ps, 'l) rpc_op" where
  "UnaryAuth S now md fullMethod handler =
     (if isExempt fullMethod then handler no_ctx
      else bind_op (authenticate_call S now md fullMethod) handler)"

definition peer_key :: "string option \<Rightarrow> string" where
  "peer_key peer =
     (case peer of
        None \<Rightarrow> ''anon''
      | Some addr \<Rightarrow>
          (let host = (case SplitHostPort addr of Inl _ \<Rightarrow> addr | Inr (h, _) \<Rightarrow> h)
           in if host \<noteq> [] then ''ip:'' @ host else ''anon''))"

definition rateLimitKey :: "call_ctx \<Rightarrow> string option \<Rightarrow> string" where
  "rateLimitKey ctx peer =
     (case ctx_principal ctx of
        None \<Rightarrow> peer_key peer
      | Some p \<Rightarrow>
          (case principal_User p of
             Some u \<Rightarrow> if user_Id u \<noteq> [] then ''user:'' @ user_Id u else peer_key peer
           | None \<Rightarrow>
               (case principal_Agent p of
                  Some a \<Rightarrow> if agent_Id a \<noteq> [] then ''agent:'' @ agent_Id a else peer_key peer
                | None \<Rightarrow> peer_key peer)))"

definition loadOrStoreLimiter :: "('db, 'ps, 'l) cp_server \<Rightarrow> string \<Rightarrow> (string \<times> 'l) list \<Rightarrow> 'l" where
  "loadOrStoreLimiter S key limiters =
     (case map_of limiters key of Some l \<Rightarrow> l | None \<Rightarrow> rate_NewLimiter (srv_rate S) (srv_RPS S) (srv_Burst S))"

definition UnaryRateLimit ::
  "('db, 'ps, 'l) cp_server \<Rightarrow> call_env \<Rightarrow> call_ctx \<Rightarrow> ('db, 'ps, 'l) rpc_op \<Rightarrow> ('db, 'ps, 'l) rpc_op" where
  "UnaryRateLimit S E ctx handler w =
     (if srv_RPS S \<le> 0 then handler w
      else let key = rateLimitKey ctx (env_peer E) in
        case rate_Allow (srv_rate S) (env_now E) (loadOrStoreLimiter S key (w_limiters w)) of
          (ok, l) \<Rightarrow>
            let w = w\<lparr>w_limiters := AList.update key l (w_limiters w)\<rparr> in
            if \<not> ok then (Inl (StatusError CodeResourceExhausted ''rate limit exceeded'' [] None), w) else handler w)"

definition resultFromGRPCError :: "err option \<Rightarrow> string" where
  "resultFromGRPCError e =
     (case e of
        None \<Rightarrow> ResultOK
      | Some e \<Rightarrow>
          (let c = status_Code e in
           if c = CodeUnauthenticated \<or> c = CodePermissionDenied \<or> c = CodeResourceExhausted \<or> c = CodeInvalidArgument
           then ResultRejected
           else if c = CodeDeadlineExceeded then ResultTimeout else ResultError))"

text \<open>\<^verbatim>\<open>path.Base\<close> of a method name, which ends in no slash.\<close>

definition shortMethod :: "string \<Rightarrow> string" where
  "shortMethod fullMethod = rev (takeWhile (\<lambda>c. c \<noteq> CHR ''/'') (rev fullMethod))"

definition UnaryMetrics :: "string \<Rightarrow> ('db, 'ps, 'l) rpc_op \<Rightarrow> ('db, 'ps, 'l) rpc_op" where
  "UnaryMetrics fullMethod handler w =
     (case handler w of
        (r, w) \<Rightarrow> (r, w\<lparr>w_rpcs := w_rpcs w @
          [(shortMethod fullMethod, resultFromGRPCError (case r of Inl e \<Rightarrow> Some e | Inr _ \<Rightarrow> None))]\<rparr>))"

text \<open>The chain that \<^verbatim>\<open>New\<close> installs in front of every unary RPC.\<close>

definition serve :: "('db, 'ps, 'l) cp_server \<Rightarrow> call_env \<Rightarrow> call_md \<Rightarrow> rpc_request \<Rightarrow> ('db, 'ps, 'l) rpc_op" where
  "serve S E md req =
     UnaryMetrics (FullMethod req)
       (UnaryAuth S (env_now E) md (FullMethod req)
         (\<lambda>ctx. UnaryRateLimit S E ctx (handle S E ctx req)))"

section \<open>Watching changes\<close>

text \<open>
  \<^verbatim>\<open>Watch\<close> sends each event of its subscription until the subscription ends or a send fails; the
  result is the messages sent and the error of the send.
\<close>

fun Watch :: "(pb_resource_changed \<Rightarrow> 'w \<Rightarrow> err option \<times> 'w) \<Rightarrow> change_event list \<Rightarrow> 'w \<Rightarrow> err option \<times> 'w" where
  "Watch Send [] w = (None, w)"
| "Watch Send (e # es) w =
     (case Send (changeEventToProto e) w of
        (Some er, w) \<Rightarrow> (Some er, w)
      | (None, w) \<Rightarrow> Watch Send es w)"

definition StreamAuth ::
  "('db, 'ps, 'l) cp_server \<Rightarrow> time \<Rightarrow> call_md \<Rightarrow> string \<Rightarrow> (call_ctx \<Rightarrow> (('db, 'ps, 'l) cp_world, 'a) op) \<Rightarrow> (('db, 'ps, 'l) cp_world, 'a) op" where
  "StreamAuth S now md fullMethod handler =
     (if isExempt fullMethod then handler no_ctx
      else bind_op (authenticate_call S now md fullMethod) handler)"

end
