(* ===== verification/Grpc_Client.thy ===== *)
theory Grpc_Client
  imports Grpc_Server AgentHost
begin

text \<open>
  \<^verbatim>\<open>adapters/grpc/client\<close>: the client that implements the ports of the control plane over a connection.
  The connection is the function \<open>cl_invoke\<close>: metadata and request in, response or status error out,
  on a world it may change.  A nil resource in a response, which the server never sends, is the nil
  dereference at its first use.
\<close>

section \<open>Calls\<close>

type_synonym 'w invoker = "call_md \<Rightarrow> rpc_request \<Rightarrow> ('w, rpc_response) op"

record 'w client =
  cl_token :: string
  cl_invoke :: "'w invoker"

definition SetToken :: "'w client \<Rightarrow> string \<Rightarrow> 'w client" where
  "SetToken C token = C\<lparr>cl_token := token\<rparr>"

text \<open>The interceptor \<^verbatim>\<open>unaryBearer\<close>; \<^verbatim>\<open>streamBearer\<close> sets the same metadata.\<close>

definition bearer_md :: "string \<Rightarrow> call_md" where
  "bearer_md token = Some (if token \<noteq> [] then [(''authorization'', [''Bearer '' @ token])] else [])"

definition call :: "'w client \<Rightarrow> rpc_request \<Rightarrow> ('w, rpc_response) op" where
  "call C req = cl_invoke C (bearer_md (cl_token C)) req"

text \<open>The stubs decode the response type of the method called; any other cannot arrive.\<close>

definition mismatch :: err where
  "mismatch = External ''grpc: response of another method''"

definition not_nil :: "'a option \<Rightarrow> 'a result" where
  "not_nil x = (case x of None \<Rightarrow> Inl nil_panic | Some y \<Rightarrow> Inr y)"

lemma not_nil_simps [simp]: "not_nil (Some x) = Inr x" "not_nil None = Inl nil_panic"
  by (simp_all add: not_nil_def)

fun each_item :: "('a \<Rightarrow> 'b result) \<Rightarrow> 'a list \<Rightarrow> 'b list result" where
  "each_item f [] = Inr []"
| "each_item f (x # xs) = bind_res (f x) (\<lambda>y. bind_res (each_item f xs) (\<lambda>ys. Inr (y # ys)))"

lemma each_item_map: "(\<And>x. f (g x) = Inr (h x)) \<Longrightarrow> each_item f (map g xs) = Inr (map h xs)"
  by (induction xs) simp_all

definition page_request :: "list_params \<Rightarrow> list_request" where
  "page_request params = \<lparr>lreq_PageSize = int32 (PageSize params), lreq_PageToken = Cursor params\<rparr>"

definition list_response :: "('a \<Rightarrow> 'b result) \<Rightarrow> 'a list \<Rightarrow> string \<Rightarrow> 32 word \<Rightarrow> 'b list_result result" where
  "list_response f pbs next_token cnt =
     bind_res (each_item f pbs) (\<lambda>items. Inr \<lparr>Items = items, NextCursor = next_token, TotalCount = of_int32 cnt\<rparr>)"

section \<open>Resources\<close>

definition cl_ApplyProxyV1 :: "'w client \<Rightarrow> metadata \<Rightarrow> proxy_spec \<Rightarrow> ('w, proxy) op" where
  "cl_ApplyProxyV1 C meta spec =
     bind_op (call C (ReqApplyProxy (Some (cl_metaToProto meta)) (Some (cl_proxySpecToProto spec)))) (\<lambda>resp.
     lift_op (case resp of RespProxy pb \<Rightarrow> cl_proxyFromProto pb | _ \<Rightarrow> Inl mismatch))"

definition cl_GetProxy :: "'w client \<Rightarrow> string \<Rightarrow> ('w, proxy) op" where
  "cl_GetProxy C name =
     bind_op (call C (ReqGetProxy name)) (\<lambda>resp. lift_op (case resp of RespProxy pb \<Rightarrow> cl_proxyFromProto pb | _ \<Rightarrow> Inl mismatch))"

definition cl_ListProxies :: "'w client \<Rightarrow> list_params \<Rightarrow> proxy_filter \<Rightarrow> ('w, proxy list_result) op" where
  "cl_ListProxies C params f =
     bind_op (call C (ReqListProxies (page_request params) (pf_Search f) (pf_Protocol f) (pf_Labels f))) (\<lambda>resp.
     lift_op (case resp of
         RespListProxies pbs next_token cnt \<Rightarrow> list_response (\<lambda>pb. cl_proxyFromProto (Some pb)) pbs next_token cnt
       | _ \<Rightarrow> Inl mismatch))"

definition cl_DeleteProxy :: "'w client \<Rightarrow> string \<Rightarrow> ('w, unit) op" where
  "cl_DeleteProxy C name = bind_op (call C (ReqDeleteProxy name)) (\<lambda>_. lift_op (Inr ()))"

definition cl_ApplyPoolV1 :: "'w client \<Rightarrow> metadata \<Rightarrow> pool_spec \<Rightarrow> ('w, pool) op" where
  "cl_ApplyPoolV1 C meta spec =
     bind_op (call C (ReqApplyPool (Some (cl_metaToProto meta)) (Some (cl_poolSpecToProto spec)))) (\<lambda>resp.
     lift_op (case resp of RespPool pb \<Rightarrow> not_nil (cl_poolFromProto pb) | _ \<Rightarrow> Inl mismatch))"

definition cl_GetPool :: "'w client \<Rightarrow> string \<Rightarrow> ('w, pool) op" where
  "cl_GetPool C name =
     bind_op (call C (ReqGetPool name)) (\<lambda>resp. lift_op (case resp of RespPool pb \<Rightarrow> not_nil (cl_poolFromProto pb) | _ \<Rightarrow> Inl mismatch))"

definition cl_ListPools :: "'w client \<Rightarrow> list_params \<Rightarrow> pool_filter \<Rightarrow> ('w, pool list_result) op" where
  "cl_ListPools C params f =
     bind_op (call C (ReqListPools (page_request params) (plf_Search f) (plf_Type f))) (\<lambda>resp.
     lift_op (case resp of
         RespListPools pbs next_token cnt \<Rightarrow> list_response (\<lambda>pb. not_nil (cl_poolFromProto (Some pb))) pbs next_token cnt
       | _ \<Rightarrow> Inl mismatch))"

definition cl_DeletePool :: "'w client \<Rightarrow> string \<Rightarrow> ('w, unit) op" where
  "cl_DeletePool C name = bind_op (call C (ReqDeletePool name)) (\<lambda>_. lift_op (Inr ()))"

definition cl_ApplyBalancerV1 :: "'w client \<Rightarrow> metadata \<Rightarrow> balancer_spec \<Rightarrow> ('w, load_balancer) op" where
  "cl_ApplyBalancerV1 C meta spec =
     bind_op (call C (ReqApplyBalancer (Some (cl_metaToProto meta)) (Some (cl_balancerSpecToProto spec)))) (\<lambda>resp.
     lift_op (case resp of RespBalancer pb \<Rightarrow> not_nil (cl_balancerFromProto pb) | _ \<Rightarrow> Inl mismatch))"

definition cl_GetBalancer :: "'w client \<Rightarrow> string \<Rightarrow> ('w, load_balancer) op" where
  "cl_GetBalancer C name =
     bind_op (call C (ReqGetBalancer name)) (\<lambda>resp. lift_op (case resp of RespBalancer pb \<Rightarrow> not_nil (cl_balancerFromProto pb) | _ \<Rightarrow> Inl mismatch))"

definition cl_ListBalancers :: "'w client \<Rightarrow> list_params \<Rightarrow> balancer_filter \<Rightarrow> ('w, load_balancer list_result) op" where
  "cl_ListBalancers C params f =
     bind_op (call C (ReqListBalancers (page_request params) (bf_Search f) (bf_Type f) (bf_PoolId f))) (\<lambda>resp.
     lift_op (case resp of
         RespListBalancers pbs next_token cnt \<Rightarrow> list_response (\<lambda>pb. not_nil (cl_balancerFromProto (Some pb))) pbs next_token cnt
       | _ \<Rightarrow> Inl mismatch))"

definition cl_DeleteBalancer :: "'w client \<Rightarrow> string \<Rightarrow> ('w, unit) op" where
  "cl_DeleteBalancer C name = bind_op (call C (ReqDeleteBalancer name)) (\<lambda>_. lift_op (Inr ()))"

definition cl_ApplyRouterV1 :: "'w client \<Rightarrow> metadata \<Rightarrow> router_spec \<Rightarrow> ('w, router) op" where
  "cl_ApplyRouterV1 C meta spec =
     bind_op (call C (ReqApplyRouter (Some (cl_metaToProto meta)) (Some (cl_routerSpecToProto spec)))) (\<lambda>resp.
     lift_op (case resp of RespRouter pb \<Rightarrow> not_nil (cl_routerFromProto pb) | _ \<Rightarrow> Inl mismatch))"

definition cl_GetRouter :: "'w client \<Rightarrow> string \<Rightarrow> ('w, router) op" where
  "cl_GetRouter C name =
     bind_op (call C (ReqGetRouter name)) (\<lambda>resp. lift_op (case resp of RespRouter pb \<Rightarrow> not_nil (cl_routerFromProto pb) | _ \<Rightarrow> Inl mismatch))"

definition cl_ListRouters :: "'w client \<Rightarrow> list_params \<Rightarrow> router_filter \<Rightarrow> ('w, router list_result) op" where
  "cl_ListRouters C params f =
     bind_op (call C (ReqListRouters (page_request params) (rf_Search f))) (\<lambda>resp.
     lift_op (case resp of
         RespListRouters pbs next_token cnt \<Rightarrow> list_response (\<lambda>pb. not_nil (cl_routerFromProto (Some pb))) pbs next_token cnt
       | _ \<Rightarrow> Inl mismatch))"

definition cl_DeleteRouter :: "'w client \<Rightarrow> string \<Rightarrow> ('w, unit) op" where
  "cl_DeleteRouter C name = bind_op (call C (ReqDeleteRouter name)) (\<lambda>_. lift_op (Inr ()))"

definition cl_ApplyFlowV1 :: "'w client \<Rightarrow> metadata \<Rightarrow> flow_spec \<Rightarrow> ('w, flow) op" where
  "cl_ApplyFlowV1 C meta spec =
     bind_op (call C (ReqApplyFlow (Some (cl_metaToProto meta)) (Some (cl_flowSpecToProto spec)))) (\<lambda>resp.
     lift_op (case resp of RespFlow pb \<Rightarrow> not_nil (cl_flowFromProto pb) | _ \<Rightarrow> Inl mismatch))"

definition cl_GetFlow :: "'w client \<Rightarrow> string \<Rightarrow> ('w, flow) op" where
  "cl_GetFlow C name =
     bind_op (call C (ReqGetFlow name)) (\<lambda>resp. lift_op (case resp of RespFlow pb \<Rightarrow> not_nil (cl_flowFromProto pb) | _ \<Rightarrow> Inl mismatch))"

definition cl_ListFlows :: "'w client \<Rightarrow> list_params \<Rightarrow> flow_filter \<Rightarrow> ('w, flow list_result) op" where
  "cl_ListFlows C params f =
     bind_op (call C (ReqListFlows (page_request params) (ff_Search f) (ff_RouterId f) (ff_BalancerId f))) (\<lambda>resp.
     lift_op (case resp of
         RespListFlows pbs next_token cnt \<Rightarrow> list_response (\<lambda>pb. not_nil (cl_flowFromProto (Some pb))) pbs next_token cnt
       | _ \<Rightarrow> Inl mismatch))"

definition cl_DeleteFlow :: "'w client \<Rightarrow> string \<Rightarrow> ('w, unit) op" where
  "cl_DeleteFlow C name = bind_op (call C (ReqDeleteFlow name)) (\<lambda>_. lift_op (Inr ()))"

definition cl_ApplyEntrypointV1 :: "'w client \<Rightarrow> metadata \<Rightarrow> entrypoint_spec \<Rightarrow> ('w, entrypoint) op" where
  "cl_ApplyEntrypointV1 C meta spec =
     bind_op (call C (ReqApplyEntrypoint (Some (cl_metaToProto meta)) (Some (cl_entrypointSpecToProto spec)))) (\<lambda>resp.
     lift_op (case resp of RespEntrypoint pb \<Rightarrow> not_nil (cl_entrypointFromProto pb) | _ \<Rightarrow> Inl mismatch))"

definition cl_GetEntrypoint :: "'w client \<Rightarrow> string \<Rightarrow> ('w, entrypoint) op" where
  "cl_GetEntrypoint C name =
     bind_op (call C (ReqGetEntrypoint name)) (\<lambda>resp. lift_op (case resp of RespEntrypoint pb \<Rightarrow> not_nil (cl_entrypointFromProto pb) | _ \<Rightarrow> Inl mismatch))"

definition cl_ListEntrypoints :: "'w client \<Rightarrow> list_params \<Rightarrow> entrypoint_filter \<Rightarrow> ('w, entrypoint list_result) op" where
  "cl_ListEntrypoints C params f =
     bind_op (call C (ReqListEntrypoints (page_request params) (ef_Search f) (ef_Protocol f) (ef_Host f))) (\<lambda>resp.
     lift_op (case resp of
         RespListEntrypoints pbs next_token cnt \<Rightarrow> list_response (\<lambda>pb. not_nil (cl_entrypointFromProto (Some pb))) pbs next_token cnt
       | _ \<Rightarrow> Inl mismatch))"

definition cl_DeleteEntrypoint :: "'w client \<Rightarrow> string \<Rightarrow> ('w, unit) op" where
  "cl_DeleteEntrypoint C name = bind_op (call C (ReqDeleteEntrypoint name)) (\<lambda>_. lift_op (Inr ()))"

definition proxy_list_response :: "rpc_response \<Rightarrow> proxy list result" where
  "proxy_list_response resp =
     (case resp of RespProxyList pbs \<Rightarrow> each_item (\<lambda>pb. cl_proxyFromProto (Some pb)) pbs | _ \<Rightarrow> Inl mismatch)"

definition cl_GetProxiesByIds :: "'w client \<Rightarrow> string list \<Rightarrow> ('w, proxy list) op" where
  "cl_GetProxiesByIds C ids =
     bind_op (call C (ReqGetProxiesByIds ids)) (\<lambda>resp. lift_op (proxy_list_response resp))"

definition cl_FindProxiesByLabels :: "'w client \<Rightarrow> labels \<Rightarrow> ('w, proxy list) op" where
  "cl_FindProxiesByLabels C ls =
     bind_op (call C (ReqFindProxiesByLabels ls)) (\<lambda>resp. lift_op (proxy_list_response resp))"

section \<open>Users and sessions\<close>

text \<open>A duration is sent in whole seconds, rounded towards zero.\<close>

definition whole_seconds :: "duration \<Rightarrow> int" where
  "whole_seconds ttl = (if ttl < 0 then - ((- ttl) div Second) else ttl div Second)"

definition cl_InitAdmin :: "'w client \<Rightarrow> string \<Rightarrow> string \<Rightarrow> string \<Rightarrow> ('w, user \<times> string) op" where
  "cl_InitAdmin C bootstrapToken username password =
     bind_op (call C (ReqInitAdmin bootstrapToken username password)) (\<lambda>resp.
     lift_op (case resp of
         RespUser pb token \<Rightarrow> bind_res (not_nil (cl_userFromProto (Some pb))) (\<lambda>u. Inr (u, token))
       | _ \<Rightarrow> Inl mismatch))"

definition cl_Login :: "'w client \<Rightarrow> string \<Rightarrow> string \<Rightarrow> duration \<Rightarrow> bool \<Rightarrow> ('w, string) op" where
  "cl_Login C username password ttl noExpiry =
     bind_op (call C (ReqLogin username password (whole_seconds ttl) noExpiry)) (\<lambda>resp.
     lift_op (case resp of RespToken token \<Rightarrow> Inr token | _ \<Rightarrow> Inl mismatch))"

definition cl_Logout :: "'w client \<Rightarrow> string \<Rightarrow> ('w, unit) op" where
  "cl_Logout C token = bind_op (call C ReqLogout) (\<lambda>_. lift_op (Inr ()))"

definition cl_CreateUser :: "'w client \<Rightarrow> string \<Rightarrow> string \<Rightarrow> role \<Rightarrow> ('w, user \<times> string) op" where
  "cl_CreateUser C username password role =
     bind_op (call C (ReqCreateUser username password role)) (\<lambda>resp.
     lift_op (case resp of
         RespUser pb generated \<Rightarrow> bind_res (not_nil (cl_userFromProto (Some pb))) (\<lambda>u. Inr (u, generated))
       | _ \<Rightarrow> Inl mismatch))"

definition cl_ListUsers :: "'w client \<Rightarrow> list_params \<Rightarrow> user_filter \<Rightarrow> ('w, user list_result) op" where
  "cl_ListUsers C params f =
     bind_op (call C (ReqListUsers (page_request params) (uf_Search f) (uf_Role f))) (\<lambda>resp.
     lift_op (case resp of
         RespListUsers pbs next_token cnt \<Rightarrow> list_response (\<lambda>pb. not_nil (cl_userFromProto (Some pb))) pbs next_token cnt
       | _ \<Rightarrow> Inl mismatch))"

definition cl_DeleteUser :: "'w client \<Rightarrow> string \<Rightarrow> ('w, unit) op" where
  "cl_DeleteUser C username = bind_op (call C (ReqDeleteUser username)) (\<lambda>_. lift_op (Inr ()))"

definition cl_ChangePassword :: "'w client \<Rightarrow> string \<Rightarrow> string \<Rightarrow> string \<Rightarrow> ('w, unit) op" where
  "cl_ChangePassword C username oldPassword newPassword =
     bind_op (call C (ReqChangePassword username oldPassword newPassword)) (\<lambda>_. lift_op (Inr ()))"

definition cl_ResetPassword :: "'w client \<Rightarrow> string \<Rightarrow> string \<Rightarrow> ('w, unit) op" where
  "cl_ResetPassword C username newPassword =
     bind_op (call C (ReqChangePassword username [] newPassword)) (\<lambda>_. lift_op (Inr ()))"

section \<open>Agents\<close>

definition mapAgentAuth :: "err \<Rightarrow> err" where
  "mapAgentAuth e =
     (if status_Code e = CodeUnauthenticated then Wrapf2 ''%w: %w'' (Sentinel ErrAgentUnauthenticated) e else e)"

definition mapAgentRegister :: "err \<Rightarrow> err" where
  "mapAgentRegister e =
     (if status_Code e = CodeAlreadyExists then Wrapf2 ''%w: %w'' (Sentinel ErrAgentExists) e else mapAgentAuth e)"

definition cl_CreateRegistrationToken :: "'w client \<Rightarrow> duration \<Rightarrow> ('w, string) op" where
  "cl_CreateRegistrationToken C ttl =
     bind_op (call C (ReqCreateRegistrationToken (whole_seconds ttl))) (\<lambda>resp.
     lift_op (case resp of RespRegistrationToken token _ \<Rightarrow> Inr token | _ \<Rightarrow> Inl mismatch))"

definition cl_Register :: "'w client \<Rightarrow> string \<Rightarrow> agent \<Rightarrow> ('w, agent \<times> string) op" where
  "cl_Register C regToken agent =
     bind_op (wrap_op mapAgentRegister (call C (ReqRegister regToken
       (Some \<lparr>pbi_Name = agent_Id agent, pbi_Hostname = agent_Hostname agent, pbi_Version = agent_Version agent,
              pbi_Labels = agent_Labels agent\<rparr>)))) (\<lambda>resp.
     lift_op (case resp of
         RespRegister i token _ \<Rightarrow> Inr (\<lparr>agent_ts = zero_timestamps, agent_Id = i, agent_Hostname = [], agent_Version = [],
           agent_Labels = [], agent_LastHeartbeat = None\<rparr>, token)
       | _ \<Rightarrow> Inl mismatch))"

definition cl_Heartbeat :: "'w client \<Rightarrow> ('w, time) op" where
  "cl_Heartbeat C =
     bind_op (wrap_op mapAgentAuth (call C ReqHeartbeat)) (\<lambda>resp.
     lift_op (case resp of RespHeartbeat t \<Rightarrow> Inr (AsTime (Some t)) | _ \<Rightarrow> Inl mismatch))"

definition cl_Deregister :: "'w client \<Rightarrow> ('w, unit) op" where
  "cl_Deregister C = bind_op (wrap_op mapAgentAuth (call C ReqDeregister)) (\<lambda>_. lift_op (Inr ()))"

definition cl_ListAgentsDetailed :: "'w client \<Rightarrow> list_params \<Rightarrow> agent_filter \<Rightarrow> ('w, pb_agent list) op" where
  "cl_ListAgentsDetailed C params f =
     bind_op (call C (ReqListAgents (page_request params) (af_Search f) (af_Labels f))) (\<lambda>resp.
     lift_op (case resp of RespListAgents pbs _ _ \<Rightarrow> Inr pbs | _ \<Rightarrow> Inl mismatch))"

definition cl_ListAgents :: "'w client \<Rightarrow> list_params \<Rightarrow> agent_filter \<Rightarrow> ('w, agent list_result) op" where
  "cl_ListAgents C params f =
     bind_op (call C (ReqListAgents (page_request params) (af_Search f) (af_Labels f))) (\<lambda>resp.
     lift_op (case resp of
         RespListAgents pbs next_token cnt \<Rightarrow> list_response (\<lambda>pb. not_nil (cl_agentFromProto (Some pb))) pbs next_token cnt
       | _ \<Rightarrow> Inl mismatch))"

definition cl_DeleteAgent :: "'w client \<Rightarrow> string \<Rightarrow> ('w, unit) op" where
  "cl_DeleteAgent C name = bind_op (call C (ReqDeleteAgent name)) (\<lambda>_. lift_op (Inr ()))"

section \<open>Watching changes\<close>

text \<open>
  One stream: what \<^verbatim>\<open>Recv\<close> yields is the list of messages and then the error that ends it, \<open>None\<close>
  for \<^verbatim>\<open>io.EOF\<close>.  \<open>ctx_done\<close> is the context's error when the stream has ended.
\<close>

fun recv_loop :: "(change_event \<Rightarrow> ('w, unit) op) \<Rightarrow> pb_resource_changed list \<Rightarrow> err option \<Rightarrow> err option \<Rightarrow> 'w \<Rightarrow> err option \<times> 'w" where
  "recv_loop Publish [] end_error ctx_done w =
     ((if end_error = None \<or> ctx_done \<noteq> None then ctx_done else map_option mapAgentAuth end_error), w)"
| "recv_loop Publish (m # ms) end_error ctx_done w =
     (case Publish (cl_changeEventFromProto (Some m)) w of
        (Inl e, w) \<Rightarrow> (Some e, w)
      | (Inr _, w) \<Rightarrow> recv_loop Publish ms end_error ctx_done w)"

definition cl_Watch ::
  "(change_event \<Rightarrow> ('w, unit) op) \<Rightarrow> ('w, unit) op option \<Rightarrow> err option \<Rightarrow> pb_resource_changed list \<Rightarrow> err option \<Rightarrow> err option \<Rightarrow>
     'w \<Rightarrow> err option \<times> 'w" where
  "cl_Watch Publish afterConnect open_error ms end_error ctx_done w =
     (case open_error of
        Some e \<Rightarrow> (Some (mapAgentAuth e), w)
      | None \<Rightarrow>
          (case (case afterConnect of None \<Rightarrow> (Inr (), w) | Some f \<Rightarrow> f w) of
             (Inl e, w) \<Rightarrow> (Some (mapAgentAuth e), w)
           | (Inr _, w) \<Rightarrow> recv_loop Publish ms end_error ctx_done w))"

end
