(* ===== verification/Grpc_Auth.thy ===== *)
theory Grpc_Auth
  imports Grpc_Server Auth_Safety
begin

text \<open>
  Who may call what.  \<open>may_call\<close> states the policy of the control plane's API by the kind of right a
  request needs; a served call keeps to it, and a refused one changes nothing but its record.
\<close>

section \<open>The policy\<close>

datatype right = Anyone | AdminOnly | AnyUser | AgentOnly | UserOrAgent

fun right_of :: "rpc_request \<Rightarrow> right" where
  "right_of (ReqInitAdmin _ _ _) = Anyone"
| "right_of (ReqLogin _ _ _ _) = Anyone"
| "right_of (ReqRegister _ _) = Anyone"
| "right_of (ReqCreateUser _ _ _) = AdminOnly"
| "right_of (ReqListUsers _ _ _) = AdminOnly"
| "right_of (ReqDeleteUser _) = AdminOnly"
| "right_of (ReqCreateRegistrationToken _) = AdminOnly"
| "right_of (ReqDeleteAgent _) = AdminOnly"
| "right_of ReqHeartbeat = AgentOnly"
| "right_of ReqDeregister = AgentOnly"
| "right_of (ReqGetProxy _) = UserOrAgent"
| "right_of (ReqGetPool _) = UserOrAgent"
| "right_of (ReqGetBalancer _) = UserOrAgent"
| "right_of (ReqGetRouter _) = UserOrAgent"
| "right_of (ReqGetFlow _) = UserOrAgent"
| "right_of (ReqGetEntrypoint _) = UserOrAgent"
| "right_of (ReqListProxies _ _ _ _) = UserOrAgent"
| "right_of (ReqListPools _ _ _) = UserOrAgent"
| "right_of (ReqListBalancers _ _ _ _) = UserOrAgent"
| "right_of (ReqListRouters _ _) = UserOrAgent"
| "right_of (ReqListFlows _ _ _ _) = UserOrAgent"
| "right_of (ReqListEntrypoints _ _ _ _) = UserOrAgent"
| "right_of (ReqGetProxiesByIds _) = UserOrAgent"
| "right_of (ReqFindProxiesByLabels _) = UserOrAgent"
| "right_of _ = AnyUser"

text \<open>Changing the password of another user takes an administrator.\<close>

fun own_password :: "user \<Rightarrow> rpc_request \<Rightarrow> bool" where
  "own_password u (ReqChangePassword name _ _) = (name = [] \<or> name = user_Id u)"
| "own_password u _ = True"

definition may_call :: "principal \<Rightarrow> rpc_request \<Rightarrow> bool" where
  "may_call p req \<longleftrightarrow>
     (case principal_User p of
        Some u \<Rightarrow> right_of req \<noteq> AgentOnly \<and> (right_of req = AdminOnly \<or> \<not> own_password u req \<longrightarrow> IsAdmin u)
      | None \<Rightarrow> principal_Agent p \<noteq> None \<and> right_of req \<in> {AgentOnly, UserOrAgent})"

definition rejected :: "err \<Rightarrow> bool" where
  "rejected e \<longleftrightarrow> status_Code e \<in> {CodeUnauthenticated, CodePermissionDenied, CodeResourceExhausted, CodeInvalidArgument}"

lemma rejected_StatusError [simp]:
  "rejected (StatusError c m args e) \<longleftrightarrow> c \<in> {CodeUnauthenticated, CodePermissionDenied, CodeResourceExhausted, CodeInvalidArgument}"
  by (simp add: rejected_def status_Code_def)

lemma rejected_result: "resultFromGRPCError (Some e) = ResultRejected \<longleftrightarrow> rejected e"
  by (auto simp: resultFromGRPCError_def rejected_def ResultRejected_def ResultTimeout_def ResultError_def Let_def)

section \<open>Methods\<close>

lemma exempt_iff: "isExempt (FullMethod req) \<longleftrightarrow> right_of req = Anyone"
  by (cases req) (simp_all add: isExempt_def exemptMethods_def FullMethod_def)

lemma agent_allowed_iff: "isAgentAllowed (FullMethod req) \<longleftrightarrow> right_of req \<in> {AgentOnly, UserOrAgent}"
  by (cases req) (simp_all add: isAgentAllowed_def agentAllowedMethods_def FullMethod_def)

lemma Principal_Kind_agent:
  "Principal_Kind (Some p) = PrincipalKindAgent \<longleftrightarrow> principal_User p = None \<and> principal_Agent p \<noteq> None"
  by (simp add: Principal_Kind_def)

text \<open>A handler whose caller lacks the right refuses before it touches anything.\<close>

lemma handle_refuses:
  assumes "\<not> may_call p req" "ctx_principal ctx = Some p" "right_of req \<noteq> Anyone"
    and "principal_User p = None \<or> principal_Agent p = None"
    and "principal_User p = None \<Longrightarrow> principal_Agent p \<noteq> None \<and> right_of req \<in> {AgentOnly, UserOrAgent}"
  shows "\<exists>e. handle S E ctx req w = (Inl e, w) \<and> rejected e"
proof (cases "principal_User p")
  case None
  with assms(1,5) show ?thesis by (simp add: may_call_def)
next
  case (Some u)
  with assms(1-4) show ?thesis
    by (cases req)
      (auto simp: may_call_def srv_CreateUser_def srv_ListUsers_def srv_DeleteUser_def srv_CreateRegistrationToken_def
        srv_DeleteAgent_def srv_Heartbeat_def srv_Deregister_def srv_ChangePassword_def requireAdmin_def requireAgent_def
        guard_res_def bad_request_def Let_def split: option.splits)
qed

lemma bearerToken_rejected: "bearerToken md = Inl e \<Longrightarrow> rejected e"
  by (auto simp: bearerToken_def unauthenticated_def split: option.splits list.splits if_splits)

text \<open>
  What a refused call may change: the rate limiters, the record of calls and, if the caller's token
  is found but not accepted, the token.
\<close>

definition only_refused :: "('db \<Rightarrow> store) \<Rightarrow> string \<Rightarrow> err \<Rightarrow> ('db, 'ps, 'l) cp_world \<Rightarrow> ('db, 'ps, 'l) cp_world \<Rightarrow> bool" where
  "only_refused V m e w w' \<longleftrightarrow>
     rejected e \<and> w_ps w' = w_ps w \<and> w_bootstrap w' = w_bootstrap w \<and> w_rpcs w' = w_rpcs w @ [(shortMethod m, ResultRejected)] \<and>
     (V (w_db w') = V (w_db w) \<or> (\<exists>h. V (w_db w') = st_tokens_update (\<lambda>t. t(h := None)) (V (w_db w))))"

context badger_store
begin

lemma authenticated_token:
  assumes "Authenticate C (badger_authn B J) now tok db = (Inr p, db')"
  shows "db' = db" "principal_User p = None \<or> principal_Agent p = None"
  using authenticate_ok [OF assms] by auto

lemma authenticate_call_ok:
  assumes "srv_authn S = badger_authn B J" "authenticate_call S now md m w = (Inr ctx, w')"
  shows "w' = w \<and> (\<exists>tok p. bearerToken md = Inr tok \<and> ctx = \<lparr>ctx_principal = Some p, ctx_token = Some tok\<rparr> \<and>
    Authenticate (srv_crypto S) (badger_authn B J) now tok (w_db w) = (Inr p, w_db w) \<and>
    (Principal_Kind (Some p) = PrincipalKindAgent \<longrightarrow> isAgentAllowed m))"
proof -
  from assms obtain tok p db where t: "bearerToken md = Inr tok" "Authenticate (srv_crypto S) (badger_authn B J) now tok (w_db w) = (Inr p, db)"
    "w' = w\<lparr>w_db := db\<rparr>" "ctx = \<lparr>ctx_principal = Some p, ctx_token = Some tok\<rparr>"
    "Principal_Kind (Some p) = PrincipalKindAgent \<longrightarrow> isAgentAllowed m"
    by (auto simp: authenticate_call_def on_store_def guard_res_def bind_op_def wrap_op_def res_simps split: prod.splits sum.splits if_splits)
  from authenticated_token(1) [OF t(2)] have "db = w_db w" .
  with t show ?thesis by auto
qed

lemma authenticate_call_refuses:
  assumes "srv_authn S = badger_authn B J" "authenticate_call S now md m w = (Inl e, w')"
  shows "rejected e \<and> w_ps w' = w_ps w \<and> w_bootstrap w' = w_bootstrap w \<and> w_rpcs w' = w_rpcs w \<and>
    (st (w_db w') = st (w_db w) \<or> (\<exists>h. st (w_db w') = st_tokens_update (\<lambda>t. t(h := None)) (st (w_db w))))"
proof (cases "bearerToken md")
  case (Inl f)
  with assms bearerToken_rejected [OF Inl] show ?thesis by (simp add: authenticate_call_def)
next
  case (Inr tok)
  obtain r db where a: "Authenticate (srv_crypto S) (badger_authn B J) now tok (w_db w) = (r, db)" by fastforce
  show ?thesis
  proof (cases r)
    case (Inl f)
    with a assms Inr have "e = unauthenticated ''invalid or expired token''" "w' = w\<lparr>w_db := db\<rparr>"
      by (auto simp: authenticate_call_def bind_op_def wrap_op_def on_store_def)
    with authenticate_fail [OF a [unfolded Inl]] show ?thesis by (auto simp: unauthenticated_def st_def)
  next
    case Inr': (Inr p)
    with a authenticated_token(1) have "db = w_db w" by blast
    with a assms Inr Inr' show ?thesis
      by (auto simp: authenticate_call_def bind_op_def wrap_op_def on_store_def guard_res_def split: if_splits)
  qed
qed

text \<open>A call that needs a right is refused in front of its handler, or handled for the caller that the token names.\<close>

lemma serve_cases:
  assumes "srv_authn S = badger_authn B J" "right_of req \<noteq> Anyone" "serve S E md req v = (r, v')"
  obtains (refused) f where "r = Inl f" "only_refused st (FullMethod req) f v v'"
  | (handled) tok p v1 v2 where "bearerToken md = Inr tok"
    "Authenticate (srv_crypto S) (badger_authn B J) (env_now E) tok (w_db v) = (Inr p, w_db v)"
    "Principal_Kind (Some p) = PrincipalKindAgent \<longrightarrow> right_of req \<in> {AgentOnly, UserOrAgent}"
    "handle S E \<lparr>ctx_principal = Some p, ctx_token = Some tok\<rparr> req v1 = (r, v2)" "\<exists>l. v1 = v\<lparr>w_limiters := l\<rparr>"
    "v' = v2\<lparr>w_rpcs := w_rpcs v2 @ [(shortMethod (FullMethod req), resultFromGRPCError (case r of Inl e \<Rightarrow> Some e | Inr _ \<Rightarrow> None))]\<rparr>"
proof -
  obtain a w1 where a: "authenticate_call S (env_now E) md (FullMethod req) v = (a, w1)" by fastforce
  show thesis
  proof (cases a)
    case (Inl f)
    with authenticate_call_refuses [OF assms(1) a [unfolded Inl]] a assms(2,3) have "only_refused st (FullMethod req) f v v'" "r = Inl f"
      by (auto simp: serve_def UnaryMetrics_def UnaryAuth_def exempt_iff bind_op_def only_refused_def rejected_result)
    then show thesis using refused by blast
  next
    case (Inr ctx)
    from authenticate_call_ok [OF assms(1) a [unfolded Inr]] obtain tok p where tok: "w1 = v" "bearerToken md = Inr tok"
      "ctx = \<lparr>ctx_principal = Some p, ctx_token = Some tok\<rparr>"
      "Authenticate (srv_crypto S) (badger_authn B J) (env_now E) tok (w_db v) = (Inr p, w_db v)"
      "Principal_Kind (Some p) = PrincipalKindAgent \<longrightarrow> right_of req \<in> {AgentOnly, UserOrAgent}"
      by (auto simp: agent_allowed_iff)
    with a Inr assms(2,3) obtain v3 where v3: "UnaryRateLimit S E ctx (handle S E ctx req) v = (r, v3)"
      "v' = v3\<lparr>w_rpcs := w_rpcs v3 @ [(shortMethod (FullMethod req), resultFromGRPCError (case r of Inl e \<Rightarrow> Some e | Inr _ \<Rightarrow> None))]\<rparr>"
      by (auto simp: serve_def UnaryMetrics_def UnaryAuth_def exempt_iff bind_op_def split: prod.splits)
    have v: "v = v\<lparr>w_limiters := w_limiters v\<rparr>" by simp
    show thesis
    proof (cases "\<exists>l. handle S E ctx req (v\<lparr>w_limiters := l\<rparr>) = (r, v3)")
      case True
      with handled [OF tok(2,4,5)] tok(3) v3(2) show thesis by metis
    next
      case False
      moreover from this have "handle S E ctx req v \<noteq> (r, v3)" using v by metis
      ultimately have "only_refused st (FullMethod req) (StatusError CodeResourceExhausted ''rate limit exceeded'' [] None) v v' \<and>
          r = Inl (StatusError CodeResourceExhausted ''rate limit exceeded'' [] None)"
        using v3 by (auto simp: UnaryRateLimit_def Let_def only_refused_def rejected_result split: if_splits prod.splits)
      then show thesis using refused by blast
    qed
  qed
qed

lemma authorized:
  assumes "srv_authn S = badger_authn B J" "right_of req \<noteq> Anyone" "serve S E md req w = (r, w')"
  shows "(\<exists>tok p. bearerToken md = Inr tok \<and> may_call p req \<and>
      Authenticate (srv_crypto S) (badger_authn B J) (env_now E) tok (w_db w) = (Inr p, w_db w)) \<or>
    (\<exists>e. r = Inl e \<and> only_refused st (FullMethod req) e w w')"
  using assms
proof (cases rule: serve_cases)
  case (handled tok p v1 v2)
  show ?thesis
  proof (cases "may_call p req")
    case False
    have "principal_User p = None \<Longrightarrow> principal_Agent p \<noteq> None" using authenticate_ok [OF handled(2)] by auto
    then obtain e where "r = Inl e" "v2 = v1" "rejected e"
      using handle_refuses [of p req "\<lparr>ctx_principal = Some p, ctx_token = Some tok\<rparr>" S E v1] authenticated_token(2) [OF handled(2)]
        handled(3,4) False assms(2) by (auto simp: Principal_Kind_agent)
    with handled(5,6) show ?thesis by (auto simp: only_refused_def rejected_result)
  qed (use handled in blast)
qed blast

end


definition sample_server :: "'l rate_lib \<Rightarrow> rat \<Rightarrow> (ref_db, change_event list, 'l) cp_server" where
  "sample_server L rps =
     \<lparr>srv_libs = sample_libs, srv_cp = badger_service ref_badger ref_json log_event, srv_crypto = sample_crypto,
      srv_auth = badger_auth ref_badger ref_json Minute, srv_authn = badger_authn ref_badger ref_json,
      srv_agents = badger_agents ref_badger ref_json Minute, srv_heartbeatThreshold = Minute, srv_agentTokenTTL = Minute,
      srv_registrationTokenTTL = Minute, srv_rate = L, srv_RPS = rps, srv_Burst = 1\<rparr>"

definition sample_bucket :: "int rate_lib" where
  "sample_bucket = \<lparr>rate_NewLimiter = \<lambda>_ burst. burst, rate_Allow = \<lambda>_ n. (0 < n, n - 1)\<rparr>"

definition sample_env :: call_env where
  "sample_env = \<lparr>env_now = 50, env_random = Inr ''abc'', env_text = ''random'', env_ulid = ''01J'', env_peer = None\<rparr>"

definition sample_world :: "ref_db \<Rightarrow> (ref_db, change_event list, 'l) cp_world" where
  "sample_world db = \<lparr>w_db = db, w_ps = [], w_bootstrap = [], w_limiters = [], w_rpcs = []\<rparr>"

definition sample_md :: call_md where
  "sample_md = Some [(''authorization'', [''Bearer pgw_abc''])]"


end
