(* ===== verification/Remote.thy ===== *)
theory Remote
  imports Grpc_Client Grpc_Auth Dataplane_Correct
begin

text \<open>
  The client against the server.  The locale \<open>grpc_conn\<close> is the contract of a connection: a response
  is one that the server gave, an error carries the code of the server's error but not the error
  itself, or is the transport's own.  Over it the client's methods have the effect of the services',
  and a data plane that reads through the client sees the stored resources as they cross the wire.
\<close>

section \<open>What crosses the wire\<close>

definition seen_store :: "store \<Rightarrow> store" where
  "seen_store st =
     \<lparr>st_proxies = map_option seen_proxy \<circ> st_proxies st, st_pools = map_option seen_pool \<circ> st_pools st,
      st_balancers = map_option seen_balancer \<circ> st_balancers st, st_routers = map_option seen_router \<circ> st_routers st,
      st_flows = map_option seen_flow \<circ> st_flows st, st_entrypoints = map_option seen_entrypoint \<circ> st_entrypoints st,
      st_users = Map.empty, st_agents = Map.empty, st_tokens = Map.empty, st_registration_tokens = Map.empty\<rparr>"

lemma seen_store_sel [simp]:
  "st_proxies (seen_store st) = map_option seen_proxy \<circ> st_proxies st"
  "st_pools (seen_store st) = map_option seen_pool \<circ> st_pools st"
  "st_balancers (seen_store st) = map_option seen_balancer \<circ> st_balancers st"
  "st_routers (seen_store st) = map_option seen_router \<circ> st_routers st"
  "st_flows (seen_store st) = map_option seen_flow \<circ> st_flows st"
  "st_entrypoints (seen_store st) = map_option seen_entrypoint \<circ> st_entrypoints st"
  by (simp_all add: seen_store_def)

lemma seen_proxy_sel [simp]:
  "proxy_Id (seen_proxy p) = proxy_Id p" "proxy_Labels (seen_proxy p) = proxy_Labels p"
  "Proxy_Validate (seen_proxy p) = Proxy_Validate p"
  by (simp_all add: seen_proxy_def Proxy_Validate_def)

lemma seen_pool_sel [simp]:
  "pool_Id (seen_pool p) = pool_Id p" "pool_Type (seen_pool p) = pool_Type p" "pool_Selector (seen_pool p) = pool_Selector p"
  "pool_hasProxiesResolved (seen_pool p) = False" "MemberProxyIds (seen_pool p) = MemberProxyIds p"
  by (simp_all add: seen_pool_def MemberProxyIds_def)

lemma seen_router_sel [simp]:
  "router_Id (seen_router r) = router_Id r" "router_Rules (seen_router r) = map strip_rule (router_Rules r)"
  by (simp_all add: seen_router_def strip_router_def)

lemma seen_balancer_sel [simp]:
  "lb_Id (seen_balancer lb) = lb_Id lb" "lb_Type (seen_balancer lb) = lb_Type lb" "lb_PoolId (seen_balancer lb) = lb_PoolId lb"
  by (simp_all add: seen_balancer_def cl_balancerFromProto_def balancerToProto_def Let_def split: sum.splits)

lemma seen_flow_sel [simp]:
  "flow_Id (seen_flow f) = flow_Id f" "flow_RouterId (seen_flow f) = flow_RouterId f" "flow_BalancerId (seen_flow f) = flow_BalancerId f"
  by (simp_all add: seen_flow_def)

lemma seen_entrypoint_sel [simp]:
  "ep_Id (seen_entrypoint e) = ep_Id e" "ep_FlowId (seen_entrypoint e) = ep_FlowId e"
  "Entrypoint_Validate (seen_entrypoint e) = Entrypoint_Validate e"
  by (simp_all add: seen_entrypoint_def Entrypoint_Validate_def)

text \<open>Weights that fit the wire.\<close>

definition wire_store :: "store \<Rightarrow> bool" where
  "wire_store st \<longleftrightarrow> (\<forall>i p. st_pools st i = Some p \<longrightarrow> (\<forall>m \<in> set (pool_Members p). member_Weight m < 2 ^ 31))"

lemma seen_members:
  assumes "Pool_Validate p = Inr ()" "\<forall>m \<in> set (pool_Members p). member_Weight m < 2 ^ 31"
  shows "pool_Members (seen_pool p) = pool_Members p"
proof -
  have "\<forall>m \<in> set (pool_Members p). 1 \<le> member_Weight m"
    using assms(1) by (auto simp: Pool_Validate_ok static_pool_ok_def dynamic_pool_ok_def)
  with assms(2) show ?thesis by (simp add: seen_pool_def map_idI seen_weight_id)
qed

lemma seen_pool_validate:
  assumes "Pool_Validate p = Inr ()" "\<forall>m \<in> set (pool_Members p). member_Weight m < 2 ^ 31"
  shows "Pool_Validate (seen_pool p) = Inr ()"
  using assms seen_members [OF assms] by (simp add: Pool_Validate_ok static_pool_ok_def dynamic_pool_ok_def)

lemma seen_none [simp]: "(map_option f \<circ> m) i = None \<longleftrightarrow> m i = None"
  by simp

lemma seen_rule_target [simp]: "rule_Target (strip_rule r) = rule_Target r"
  by (simp add: strip_rule_def)

lemma seen_store_ok:
  assumes "ref_ok st" "wire_store st"
  shows "ref_ok (seen_store st)"
proof -
  have "proxies_ok (seen_store st)" "routers_ok (seen_store st)" "flows_ok (seen_store st)" "entrypoints_ok (seen_store st)"
    using assms(1) by (auto simp: ref_ok_def ok_defs)
  moreover have "balancers_ok (seen_store st)"
    using assms(1) unfolding ref_ok_def balancers_ok_def by (force simp: map_option_eq_Some)
  moreover have "pools_ok (seen_store st)"
  proof -
    have "i \<noteq> [] \<and> pool_Id p = i \<and> Pool_Validate (seen_pool p) = Inr () \<and>
        (\<forall>m \<in> set (pool_Members (seen_pool p)). st_proxies st (member_ProxyId m) \<noteq> None)" if "st_pools st i = Some p" for i p
    proof -
      have p: "Pool_Validate p = Inr ()" "\<forall>m \<in> set (pool_Members p). member_Weight m < 2 ^ 31"
        "i \<noteq> []" "pool_Id p = i" "\<forall>m \<in> set (pool_Members p). st_proxies st (member_ProxyId m) \<noteq> None"
        using assms that unfolding ref_ok_def pools_ok_def wire_store_def by blast+
      from seen_members [OF p(1,2)] seen_pool_validate [OF p(1,2)] p(3-) show ?thesis by simp
    qed
    then show ?thesis by (auto simp: pools_ok_def)
  qed
  ultimately show ?thesis by (simp add: ref_ok_def)
qed

lemma strip_cond_twice [simp]: "strip_cond (strip_cond c) = strip_cond c"
  by (simp add: strip_cond_def)

lemma seen_match: "match_spec R (rule_Match (strip_rule q)) req = match_spec R (rule_Match q) req"
  by (rule match_spec_strip) (simp add: strip_rule_def strip_match_def comp_def option.map_comp)

lemma seen_balancer_intended: "intended_balancer R (seen_store st) i req = intended_balancer R st i req"
proof -
  have find: "map_option rule_Target (find (\<lambda>q. match_spec R (rule_Match q) req) (map strip_rule rs)) =
      map_option rule_Target (find (\<lambda>q. match_spec R (rule_Match q) req) rs)" for rs
    by (induction rs) (simp_all add: seen_match)
  show ?thesis
    by (auto simp: intended_balancer_def find split: option.splits bind_split)
qed

lemma seen_pool_serves: "pool_serves (seen_store st) (seen_pool p) = seen_proxy ` pool_serves st p"
  by (auto simp: pool_serves_def ran_def image_iff)

text \<open>The answer to a request, for a data plane that sees the store over the wire.\<close>

definition served_as_seen :: "regexp_lib \<Rightarrow> store \<Rightarrow> string \<Rightarrow> request \<Rightarrow> (proxy \<times> string) result \<Rightarrow> bool" where
  "served_as_seen R st i req res \<longleftrightarrow>
     (case intended_balancer R st i req of
        None \<Rightarrow> \<exists>e. res = Inl e \<and> errors_Is e ErrNoMatchingRule
      | Some b \<Rightarrow> \<exists>lb p. st_balancers st b = Some lb \<and> st_pools st (lb_PoolId lb) = Some p \<and>
          (if pool_serves st p = {} then res = Inl (Sentinel ErrNoProxy) else \<exists>q \<in> pool_serves st p. res = Inr (seen_proxy q, b)))"

lemma served_as_seen: "served_as_stored R (seen_store st) i req res \<Longrightarrow> served_as_seen R st i req res"
  by (fastforce simp: served_as_stored_def served_as_seen_def seen_balancer_intended seen_pool_serves split: option.splits if_splits)

lemma seen_tokens [simp]: "seen_store (st_tokens_update f st) = seen_store st"
  by (simp add: seen_store_def)

section \<open>A connection\<close>

text \<open>
  The codes that the gRPC library itself gives to calls of this client, and what is left of a server's
  error on the other side: its code and a message.
\<close>

fun transport_error :: "err \<Rightarrow> bool" where
  "transport_error (StatusError c _ [] None) = (c \<in> {CodeCanceled, CodeUnknown, CodeDeadlineExceeded, CodeResourceExhausted,
     CodeUnimplemented, CodeInternal, CodeUnavailable})"
| "transport_error _ = False"

fun carries_code :: "grpc_code \<Rightarrow> err \<Rightarrow> bool" where
  "carries_code c (StatusError c' _ [] None) = (c' = c)"
| "carries_code c _ = False"

text \<open>
  \<open>view\<close> is the server's part of the world and \<open>drift\<close> what else may happen to it until the request
  arrives.  After an error of the transport the server may or may not have acted.
\<close>

locale grpc_conn =
  fixes S :: "('db, 'ps, 'l) cp_server" and C :: "'w client" and view :: "'w \<Rightarrow> ('db, 'ps, 'l) cp_world"
    and drift :: "('db, 'ps, 'l) cp_world \<Rightarrow> ('db, 'ps, 'l) cp_world \<Rightarrow> bool"
  assumes delivered: "cl_invoke C md req w = (Inr resp, w') \<Longrightarrow> \<exists>E v. drift (view w) v \<and> serve S E md req v = (Inr resp, view w')"
    and failed: "cl_invoke C md req w = (Inl e, w') \<Longrightarrow>
          transport_error e \<or> (\<exists>E v f. drift (view w) v \<and> serve S E md req v = (Inl f, view w') \<and> carries_code (status_Code f) e)"

text \<open>A connection without delay, on which the calls that \<open>lost\<close> names never arrive.\<close>

definition direct :: "('db, 'ps, 'l) cp_server \<Rightarrow> (nat \<Rightarrow> call_env) \<Rightarrow> (nat \<Rightarrow> bool) \<Rightarrow> (('db, 'ps, 'l) cp_world \<times> nat) invoker" where
  "direct S env lost md req wn =
     (case wn of (w, n) \<Rightarrow>
        if lost n then (Inl (StatusError CodeUnavailable ''connection lost'' [] None), (w, Suc n))
        else case serve S (env n) md req w of
          (Inr resp, w') \<Rightarrow> (Inr resp, (w', Suc n))
        | (Inl e, w') \<Rightarrow> (Inl (StatusError (status_Code e) ''rpc error'' [] None), (w', Suc n)))"

interpretation direct: grpc_conn S "\<lparr>cl_token = tok, cl_invoke = direct S env lost\<rparr>" fst "(=)"
  for S :: "('db, 'ps, 'l) cp_server" and tok env lost
  by unfold_locales (fastforce simp: direct_def split: prod.splits sum.splits if_splits)+

section \<open>Reading through the client\<close>

definition reader_of_client :: "'w client \<Rightarrow> 'w cp_reader" where
  "reader_of_client C =
     \<lparr>cpr_ListEntrypoints = \<lambda>params f w. fst (cl_ListEntrypoints C params f w),
      cpr_ListFlows = \<lambda>params f w. fst (cl_ListFlows C params f w),
      cpr_ListRouters = \<lambda>params f w. fst (cl_ListRouters C params f w),
      cpr_ListBalancers = \<lambda>params f w. fst (cl_ListBalancers C params f w),
      cpr_GetPool = \<lambda>name w. fst (cl_GetPool C name w)\<rparr>"

definition resolver_of_client :: "'w client \<Rightarrow> 'w proxy_resolver" where
  "resolver_of_client C =
     \<lparr>res_GetProxiesByIds = \<lambda>ids w. fst (cl_GetProxiesByIds C ids w),
      res_FindProxiesByLabels = \<lambda>ls w. fst (cl_FindProxiesByLabels C ls w)\<rparr>"

definition remote_app :: "'w client \<Rightarrow> regexp_lib \<Rightarrow> 'w application" where
  "remote_app C R = \<lparr>app_cp = reader_of_client C, app_resolver = resolver_of_client C, app_regexp = R\<rparr>"

lemma remote_app_simps [simp]:
  "app_cp (remote_app C R) = reader_of_client C" "app_resolver (remote_app C R) = resolver_of_client C" "app_regexp (remote_app C R) = R"
  by (simp_all add: remote_app_def)

lemma fst_Inr_iff: "fst x = Inr y \<longleftrightarrow> (\<exists>w. x = (Inr y, w))"
  by (cases x) auto

lemma list_response_seen:
  assumes "list_response f (map g xs) tok cnt = Inr r" "\<And>x. f (g x) = Inr (h x)"
  shows "Items r = map h xs"
  using assms(1) each_item_map [of f g h xs, OF assms(2)] by (auto simp: list_response_def)

lemma ran_map_option: "ran (map_option f \<circ> m) = f ` ran m"
  by (auto simp: ran_def)

lemma seen_matching:
  "seen_proxy ` {p \<in> A. matchesLabels (proxy_Labels p) ls} = {p \<in> seen_proxy ` A. matchesLabels (proxy_Labels p) ls}"
  by auto

text \<open>A control plane over Badger behind a connection.\<close>

locale remote_source = badger_store B contents txn_contents J + grpc_conn S C view drift
  for B :: "('db, 'txn, 'b) badger" and contents txn_contents J and S :: "('db, 'ps, 'l) cp_server" and C :: "'w client" and view drift +
  fixes publish :: "change_event \<Rightarrow> ('ps, unit) op"
  assumes wired: "srv_cp S = badger_service B J publish" "srv_authn S = badger_authn B J"
    and drift_seen: "drift v v' \<Longrightarrow> seen_store (st (w_db v')) = seen_store (st (w_db v))"
begin

lemma remote_handled:
  assumes "call C req w = (Inr resp, w')" "right_of req \<noteq> Anyone"
  obtains E ctx v v' where "handle S E ctx req v = (Inr resp, v')" "seen_store (st (w_db v)) = seen_store (st (w_db (view w)))"
proof -
  from delivered assms(1) obtain E v0 where v0: "drift (view w) v0" "serve S E (bearer_md (cl_token C)) req v0 = (Inr resp, view w')"
    unfolding call_def by blast
  from wired(2) assms(2) v0(2) show thesis
  proof (cases rule: serve_cases)
    case (handled tok p v1 v2)
    with drift_seen [OF v0(1)] show thesis by (intro that [OF handled(4)]) auto
  qed simp
qed

definition seen :: "'w \<Rightarrow> store" where
  "seen w = seen_store (st (w_db (view w)))"

lemma remote_list:
  assumes "call C req w = (Inr resp, w')" "right_of req \<noteq> Anyone"
    and "\<And>E ctx v v'. handle S E ctx req v = (Inr resp, v') \<Longrightarrow> P (seen_store (st (w_db v)))"
  shows "P (seen w)"
  using assms remote_handled unfolding seen_def by metis

lemma page_all [simp]: "page_params (page_request all_params) = Inr all_params"
  by (simp add: page_params_def page_request_def all_params_def decodeCursor_def of_int32_int32)

lemmas bind_op_iff = bind_op_Inr_iff wrap_op_Inr_iff read_store_def

lemma read_handled:
  "handle S E ctx (ReqListEntrypoints (page_request all_params) [] [] []) v = (Inr resp, v') \<Longrightarrow>
     \<exists>res. ListEntrypoints (srv_cp S) all_params no_entrypoint_filter (w_db v) = Inr res \<and>
       resp = RespListEntrypoints (map entrypointToProto (Items res)) (encodeCursor (NextCursor res)) (int32 (TotalCount res))"
  "handle S E ctx (ReqListFlows (page_request all_params) [] [] []) v = (Inr resp, v') \<Longrightarrow>
     \<exists>res. ListFlows (srv_cp S) all_params no_flow_filter (w_db v) = Inr res \<and>
       resp = RespListFlows (map flowToProto (Items res)) (encodeCursor (NextCursor res)) (int32 (TotalCount res))"
  "handle S E ctx (ReqListRouters (page_request all_params) []) v = (Inr resp, v') \<Longrightarrow>
     \<exists>res. ListRouters (srv_cp S) all_params no_router_filter (w_db v) = Inr res \<and>
       resp = RespListRouters (map routerToProto (Items res)) (encodeCursor (NextCursor res)) (int32 (TotalCount res))"
  "handle S E ctx (ReqListBalancers (page_request all_params) [] [] []) v = (Inr resp, v') \<Longrightarrow>
     \<exists>res. ListBalancers (srv_cp S) all_params no_balancer_filter (w_db v) = Inr res \<and>
       resp = RespListBalancers (map balancerToProto (Items res)) (encodeCursor (NextCursor res)) (int32 (TotalCount res))"
  "handle S E ctx (ReqGetPool name) v = (Inr resp, v') \<Longrightarrow>
     \<exists>p. GetPool (srv_cp S) name (w_db v) = Inr p \<and> resp = RespPool (Some (poolToProto p))"
  "handle S E ctx (ReqGetProxiesByIds ids) v = (Inr resp, v') \<Longrightarrow>
     \<exists>ps. GetProxiesByIds (srv_cp S) ids (w_db v) = Inr ps \<and> resp = RespProxyList (map proxyToProto ps)"
  "handle S E ctx (ReqFindProxiesByLabels ls) v = (Inr resp, v') \<Longrightarrow>
     \<exists>ps. FindProxiesByLabels (srv_cp S) ls (w_db v) = Inr ps \<and> resp = RespProxyList (map proxyToProto ps)"
  by (auto simp: srv_ListEntrypoints_def srv_ListFlows_def srv_ListRouters_def srv_ListBalancers_def srv_GetPool_def
      srv_GetProxiesByIds_def srv_FindProxiesByLabels_def bind_op_iff no_entrypoint_filter_def no_flow_filter_def
      no_router_filter_def no_balancer_filter_def guard_res_def split: if_splits)

lemma remote_entrypoints:
  assumes "cl_ListEntrypoints C all_params no_entrypoint_filter w = (Inr r, w')"
  shows "set (Items r) = ran (st_entrypoints (seen w))"
proof -
  from assms obtain resp where call: "call C (ReqListEntrypoints (page_request all_params) [] [] []) w = (Inr resp, w')"
    and r: "(case resp of RespListEntrypoints pbs tok cnt \<Rightarrow> list_response (\<lambda>pb. not_nil (cl_entrypointFromProto (Some pb))) pbs tok cnt | _ \<Rightarrow> Inl mismatch) = Inr r"
    by (auto simp: cl_ListEntrypoints_def no_entrypoint_filter_def bind_op_iff)
  show ?thesis
  proof (rule remote_list [OF call], simp)
    fix E ctx v v' assume "handle S E ctx (ReqListEntrypoints (page_request all_params) [] [] []) v = (Inr resp, v')"
    from read_handled(1) [OF this] obtain res where res: "ListEntrypoints (badger_service B J publish) all_params no_entrypoint_filter (w_db v) = Inr res"
      "resp = RespListEntrypoints (map entrypointToProto (Items res)) (encodeCursor (NextCursor res)) (int32 (TotalCount res))"
      by (auto simp: wired)
    have "Items r = map seen_entrypoint (Items res)"
      using r res(2) list_response_seen [where f = "\<lambda>pb. not_nil (cl_entrypointFromProto (Some pb))" and g = entrypointToProto and h = seen_entrypoint]
      by (simp add: wire_simps)
    moreover have "set (Items res) = ran (st_entrypoints (st (w_db v)))"
      using dps.list_entrypoints [where publish = publish and db = "w_db v" and es = res] res(1) by (simp add: cp_reader_of_def)
    ultimately show "set (Items r) = ran (st_entrypoints (seen_store (st (w_db v))))" by (simp add: ran_map_option)
  qed
qed

lemma remote_flows:
  assumes "cl_ListFlows C all_params no_flow_filter w = (Inr r, w')"
  shows "set (Items r) = ran (st_flows (seen w))"
proof -
  from assms obtain resp where call: "call C (ReqListFlows (page_request all_params) [] [] []) w = (Inr resp, w')"
    and r: "(case resp of RespListFlows pbs tok cnt \<Rightarrow> list_response (\<lambda>pb. not_nil (cl_flowFromProto (Some pb))) pbs tok cnt | _ \<Rightarrow> Inl mismatch) = Inr r"
    by (auto simp: cl_ListFlows_def no_flow_filter_def bind_op_iff)
  show ?thesis
  proof (rule remote_list [OF call], simp)
    fix E ctx v v' assume "handle S E ctx (ReqListFlows (page_request all_params) [] [] []) v = (Inr resp, v')"
    from read_handled(2) [OF this] obtain res where res: "ListFlows (badger_service B J publish) all_params no_flow_filter (w_db v) = Inr res"
      "resp = RespListFlows (map flowToProto (Items res)) (encodeCursor (NextCursor res)) (int32 (TotalCount res))"
      by (auto simp: wired)
    have "Items r = map seen_flow (Items res)"
      using r res(2) list_response_seen [where f = "\<lambda>pb. not_nil (cl_flowFromProto (Some pb))" and g = flowToProto and h = seen_flow]
      by (simp add: wire_simps)
    moreover have "set (Items res) = ran (st_flows (st (w_db v)))"
      using dps.list_flows [where publish = publish and db = "w_db v" and fs = res] res(1) by (simp add: cp_reader_of_def)
    ultimately show "set (Items r) = ran (st_flows (seen_store (st (w_db v))))" by (simp add: ran_map_option)
  qed
qed

lemma remote_routers:
  assumes "cl_ListRouters C all_params no_router_filter w = (Inr r, w')"
  shows "set (Items r) = ran (st_routers (seen w))"
proof -
  from assms obtain resp where call: "call C (ReqListRouters (page_request all_params) []) w = (Inr resp, w')"
    and r: "(case resp of RespListRouters pbs tok cnt \<Rightarrow> list_response (\<lambda>pb. not_nil (cl_routerFromProto (Some pb))) pbs tok cnt | _ \<Rightarrow> Inl mismatch) = Inr r"
    by (auto simp: cl_ListRouters_def no_router_filter_def bind_op_iff)
  show ?thesis
  proof (rule remote_list [OF call], simp)
    fix E ctx v v' assume "handle S E ctx (ReqListRouters (page_request all_params) []) v = (Inr resp, v')"
    from read_handled(3) [OF this] obtain res where res: "ListRouters (badger_service B J publish) all_params no_router_filter (w_db v) = Inr res"
      "resp = RespListRouters (map routerToProto (Items res)) (encodeCursor (NextCursor res)) (int32 (TotalCount res))"
      by (auto simp: wired)
    have "Items r = map seen_router (Items res)"
      using r res(2) list_response_seen [where f = "\<lambda>pb. not_nil (cl_routerFromProto (Some pb))" and g = routerToProto and h = seen_router]
      by (simp add: wire_simps)
    moreover have "set (Items res) = ran (st_routers (st (w_db v)))"
      using dps.list_routers [where publish = publish and db = "w_db v" and rs = res] res(1) by (simp add: cp_reader_of_def)
    ultimately show "set (Items r) = ran (st_routers (seen_store (st (w_db v))))" by (simp add: ran_map_option)
  qed
qed

lemma remote_balancers:
  assumes "cl_ListBalancers C all_params no_balancer_filter w = (Inr r, w')"
  shows "set (Items r) = ran (st_balancers (seen w))"
proof -
  from assms obtain resp where call: "call C (ReqListBalancers (page_request all_params) [] [] []) w = (Inr resp, w')"
    and r: "(case resp of RespListBalancers pbs tok cnt \<Rightarrow> list_response (\<lambda>pb. not_nil (cl_balancerFromProto (Some pb))) pbs tok cnt | _ \<Rightarrow> Inl mismatch) = Inr r"
    by (auto simp: cl_ListBalancers_def no_balancer_filter_def bind_op_iff)
  show ?thesis
  proof (rule remote_list [OF call], simp)
    fix E ctx v v' assume "handle S E ctx (ReqListBalancers (page_request all_params) [] [] []) v = (Inr resp, v')"
    from read_handled(4) [OF this] obtain res where res: "ListBalancers (badger_service B J publish) all_params no_balancer_filter (w_db v) = Inr res"
      "resp = RespListBalancers (map balancerToProto (Items res)) (encodeCursor (NextCursor res)) (int32 (TotalCount res))"
      by (auto simp: wired)
    have "Items r = map seen_balancer (Items res)"
      using r res(2) list_response_seen [where f = "\<lambda>pb. not_nil (cl_balancerFromProto (Some pb))" and g = balancerToProto and h = seen_balancer]
      by (simp add: wire_simps)
    moreover have "set (Items res) = ran (st_balancers (st (w_db v)))"
      using dps.list_balancers [where publish = publish and db = "w_db v" and bs = res] res(1) by (simp add: cp_reader_of_def)
    ultimately show "set (Items r) = ran (st_balancers (seen_store (st (w_db v))))" by (simp add: ran_map_option)
  qed
qed


lemma remote_pool:
  assumes "cl_GetPool C i w = (Inr p, w')"
  shows "st_pools (seen w) i = Some p"
proof -
  from assms obtain resp where call: "call C (ReqGetPool i) w = (Inr resp, w')"
    and r: "(case resp of RespPool pb \<Rightarrow> not_nil (cl_poolFromProto pb) | _ \<Rightarrow> Inl mismatch) = Inr p"
    by (auto simp: cl_GetPool_def bind_op_iff)
  show ?thesis
  proof (rule remote_list [OF call], simp)
    fix E ctx v v' assume "handle S E ctx (ReqGetPool i) v = (Inr resp, v')"
    from read_handled(5) [OF this] obtain q where q: "GetPool (badger_service B J publish) i (w_db v) = Inr q" "resp = RespPool (Some (poolToProto q))"
      by (auto simp: wired)
    with r have "p = seen_pool q" by (simp add: wire_simps)
    moreover have "st_pools (st (w_db v)) i = Some q"
      using dps.get_pool [where publish = publish and db = "w_db v" and i = i and p = q] q(1) by (simp add: cp_reader_of_def)
    ultimately show "st_pools (seen_store (st (w_db v))) i = Some p" by simp
  qed
qed

lemma remote_by_ids:
  assumes "cl_GetProxiesByIds C ids w = (Inr ps, w')"
  shows "list_all2 (\<lambda>i p. st_proxies (seen w) i = Some p) ids ps"
proof -
  from assms obtain resp where call: "call C (ReqGetProxiesByIds ids) w = (Inr resp, w')" and r: "proxy_list_response resp = Inr ps"
    by (auto simp: cl_GetProxiesByIds_def bind_op_iff)
  show ?thesis
  proof (rule remote_list [OF call], simp)
    fix E ctx v v' assume "handle S E ctx (ReqGetProxiesByIds ids) v = (Inr resp, v')"
    from read_handled(6) [OF this] obtain qs where qs: "GetProxiesByIds (badger_service B J publish) ids (w_db v) = Inr qs"
      "resp = RespProxyList (map proxyToProto qs)" by (auto simp: wired)
    with r have "ps = map seen_proxy qs"
      using each_item_map [of "\<lambda>pb. cl_proxyFromProto (Some pb)" proxyToProto seen_proxy qs] by (simp add: proxy_list_response_def wire_simps)
    moreover have "list_all2 (\<lambda>i p. st_proxies (st (w_db v)) i = Some p) ids qs"
      using dps.get_by_ids [where publish = publish and db = "w_db v" and ids = ids and ps = qs] qs(1) by (simp add: resolver_of_def)
    ultimately show "list_all2 (\<lambda>i p. st_proxies (seen_store (st (w_db v))) i = Some p) ids ps"
      by (auto simp: list_all2_map2 elim: list_all2_mono)
  qed
qed

lemma remote_by_labels:
  assumes "cl_FindProxiesByLabels C ls w = (Inr ps, w')"
  shows "set ps = {p \<in> ran (st_proxies (seen w)). matchesLabels (proxy_Labels p) ls}"
proof -
  from assms obtain resp where call: "call C (ReqFindProxiesByLabels ls) w = (Inr resp, w')" and r: "proxy_list_response resp = Inr ps"
    by (auto simp: cl_FindProxiesByLabels_def bind_op_iff)
  show ?thesis
  proof (rule remote_list [OF call], simp)
    fix E ctx v v' assume "handle S E ctx (ReqFindProxiesByLabels ls) v = (Inr resp, v')"
    from read_handled(7) [OF this] obtain qs where qs: "FindProxiesByLabels (badger_service B J publish) ls (w_db v) = Inr qs"
      "resp = RespProxyList (map proxyToProto qs)" by (auto simp: wired)
    with r have "ps = map seen_proxy qs"
      using each_item_map [of "\<lambda>pb. cl_proxyFromProto (Some pb)" proxyToProto seen_proxy qs] by (simp add: proxy_list_response_def wire_simps)
    moreover have "set qs = {p \<in> ran (st_proxies (st (w_db v))). matchesLabels (proxy_Labels p) ls}"
      using dps.find_by_labels [where publish = publish and db = "w_db v" and ls = ls and ps = qs] qs(1) by (simp add: resolver_of_def)
    ultimately show "set ps = {p \<in> ran (st_proxies (seen_store (st (w_db v)))). matchesLabels (proxy_Labels p) ls}"
      by (simp only: set_map seen_matching seen_store_sel ran_map_option)
  qed
qed

end

sublocale remote_source \<subseteq> rdp: dp_source "remote_app C R" seen for R
  by unfold_locales (simp_all add: reader_of_client_def resolver_of_client_def fst_Inr_iff, elim exE, erule remote_entrypoints,
    elim exE, erule remote_flows, elim exE, erule remote_routers, elim exE, erule remote_balancers, elim exE, erule remote_pool,
    elim exE, erule remote_by_ids, elim exE, erule remote_by_labels)

context remote_source
begin

lemma remote_served:
  assumes "held = abs_store J (contents (w_db (view w)))" "ref_ok held" "wire_store held"
    and "\<forall>i p ps. st_pools held i = Some p \<longrightarrow> resolveProxies (resolver_of_client C) (seen_pool p) w = Inr ps \<longrightarrow> length ps < 2 ^ 32"
    and "App_Bootstrap (remote_app C R) now w s0 = (Inr (), s1)"
  shows "dp_ok (seen_store held) (fold (run_dp (remote_app C R)) calls s1)"
proof -
  have seen: "seen w = seen_store held" by (simp only: seen_def st_def assms(1))
  have "small_pools (remote_app C R) seen w"
    unfolding small_pools_def seen using assms(4) by auto
  with rdp.App_Bootstrap_ok [OF assms(5)] seen_store_ok [OF assms(2,3)] have "dp_ok (seen_store held) s1" by (simp only: seen)
  then show ?thesis by (induction calls arbitrary: s1) (simp_all add: run_dp_ok)
qed

end

text \<open>
  C9.  A data plane in a process of its own does what the control plane stored.  It reads over gRPC:
  whatever the connection does, if its bootstrap succeeds, then a request on a stored entrypoint
  goes to the balancer that the stored flow or the first matching stored rule names, and gets a
  proxy that the stored pool of that balancer admits, its creation and update times left out; the
  only refusals are that no rule matches or that the pool is empty.  The weights of pool members
  must fit the 32 bits they have on the wire.
\<close>

theorem remote_requests_reach_configured_proxies:
  assumes "remote_source B contents txn_contents J S C view drift publish"
    and A: "A = remote_app C R" and "st = abs_store J (contents (w_db (view w)))" "ref_ok st" "wire_store st"
    and "\<forall>i p ps. st_pools st i = Some p \<longrightarrow> resolveProxies (app_resolver A) (seen_pool p) w = Inr ps \<longrightarrow> length ps < 2 ^ 32"
    and "App_Bootstrap A now0 w s0 = (Inr (), s1)"
    and "st_entrypoints st i \<noteq> None"
  shows "served_as_seen R st i req (fst (ExecuteFlow A now i req (fold (run_dp A) calls s1)))"
proof -
  have "dp_ok (seen_store st) (fold (run_dp A) calls s1)"
    unfolding A using assms(3-7) by (intro remote_source.remote_served [OF assms(1)]) (simp_all add: A)
  from ExecuteFlow_ok [OF this seen_store_ok [OF assms(4,5)], where i = i and A = A and req = req and now = now] assms(8)
  show ?thesis by (intro served_as_seen) (simp add: A)
qed

abbreviation sample_client :: "((ref_db, change_event list, int) cp_world \<times> nat) client" where
  "sample_client \<equiv> \<lparr>cl_token = ''pgw_abc'', cl_invoke = direct (sample_server sample_bucket 1) (\<lambda>_. sample_env) (\<lambda>n. n = 1)\<rparr>"

interpretation remote_ref: remote_source ref_badger map_of map_of ref_json "sample_server sample_bucket 1"
    "\<lparr>cl_token = tok, cl_invoke = direct (sample_server sample_bucket 1) env lost\<rparr>" fst "(=)" log_event
  for tok env lost
  by unfold_locales (simp_all add: sample_server_def)

definition sample_remote_db :: ref_db where
  "sample_remote_db = sample_agent_db @ sample_dp_db"

lemma sample_remote_st:
  "st_entrypoints (abs_store ref_json (map_of sample_remote_db)) = [''in'' \<mapsto> sample_entrypoint]"
  "st_flows (abs_store ref_json (map_of sample_remote_db)) = [''f'' \<mapsto> sample_flow]"
  "st_balancers (abs_store ref_json (map_of sample_remote_db)) = [''b'' \<mapsto> sample_balancer ''b'' BalancerTypeRoundRobin ''p'']"
  "st_pools (abs_store ref_json (map_of sample_remote_db)) = [''p'' \<mapsto> persist_pool (sample_pool ''p'' [(''q'', 1)])]"
  "st_proxies (abs_store ref_json (map_of sample_remote_db)) = [''q'' \<mapsto> sample_proxy ''q'']"
  "st_routers (abs_store ref_json (map_of sample_remote_db)) = Map.empty"
  by (auto simp: sample_remote_db_def sample_agent_db_def sample_dp_db_def abs_map_def ref_json_def ref_codec_def repo_unmarshal_def
      stored_as_def stored_def fun_eq_iff entrypointKey_def flowKey_def balancerKey_def poolKey_def proxyKey_def routerKey_def
      agentKey_def agentPrefix_def tokenKey_def tokenPrefix_def split: option.splits if_splits)

abbreviation sample_remote :: "(ref_db, change_event list, int) cp_world \<times> nat" where
  "sample_remote \<equiv> (sample_world sample_remote_db, 0)"

lemma sample_remote_boots: "fst (App_Bootstrap (remote_app sample_client ex_regexp) 5 sample_remote NewApplication) = Inr ()"
  by code_simp

lemma order_by_length: "order_by byID ids = Inr ps \<Longrightarrow> length ps = length ids"
  by (induction ids arbitrary: ps) (auto simp: res_simps split: option.splits)

theorem remote_requests_reach_configured_proxies_witness:
  "let s1 = snd (App_Bootstrap (remote_app sample_client ex_regexp) 5 sample_remote NewApplication)
   in fst (ExecuteFlow (remote_app sample_client ex_regexp) 7 ''in'' ex_request
        (fold (run_dp (remote_app sample_client ex_regexp)) [DExecute 6 ''in'' ex_request] s1)) =
      Inr (seen_proxy (sample_proxy ''q''), ''b'')"
proof -
  let ?st = "abs_store ref_json (map_of sample_remote_db)" and ?p = "persist_pool (sample_pool ''p'' [(''q'', 1)])"
  let ?A = "remote_app sample_client ex_regexp" and ?s1 = "snd (App_Bootstrap (remote_app sample_client ex_regexp) 5 sample_remote NewApplication)"
  have world: "w_db (fst sample_remote) = sample_remote_db" by (simp add: sample_world_def)
  have int: "intended_balancer ex_regexp ?st ''in'' ex_request = Some ''b''"
    unfolding intended_balancer_def sample_remote_st by (simp add: sample_entrypoint_def sample_flow_def)
  have serves: "pool_serves ?st ?p = {sample_proxy ''q''}"
    unfolding pool_serves_def sample_remote_st by (simp add: persist_pool_def MemberProxyIds_def)
  have boot: "App_Bootstrap ?A 5 sample_remote NewApplication = (Inr (), ?s1)"
    using sample_remote_boots by (simp add: prod_eq_iff)
  have members: "pool_Type ?p = PoolTypeStatic" "length (MemberProxyIds ?p) = 1" by (simp_all add: persist_pool_def MemberProxyIds_def)
  have small: "\<forall>i p ps. st_pools ?st i = Some p \<longrightarrow> resolveProxies (app_resolver ?A) (seen_pool p) sample_remote = Inr ps \<longrightarrow> length ps < 2 ^ 32"
    unfolding sample_remote_st using members
    by (auto simp: resolveProxies_def res_simps orderProxiesByIDs_def dest!: order_by_length split: if_splits)
  have ok: "ref_ok ?st"
    using sample_dp_ref_ok unfolding ref_ok_def ok_defs sample_remote_st sample_dp_st .
  have wire: "wire_store ?st"
    unfolding wire_store_def sample_remote_st by (simp add: persist_pool_def)
  have ep: "st_entrypoints ?st ''in'' \<noteq> None" unfolding sample_remote_st by simp
  from remote_requests_reach_configured_proxies [OF remote_ref.remote_source_axioms refl, where w = sample_remote, unfolded world,
      OF refl ok wire small boot ep, where calls = "[DExecute 6 ''in'' ex_request]" and req = ex_request and now = 7]
  show ?thesis unfolding served_as_seen_def int sample_remote_st Let_def by (simp add: serves)
qed

end
