(* ===== verification/Remote_Calls.thy ===== *)
theory Remote_Calls
  imports Remote
begin

text \<open>
  Calls that change resources, made through the client: they have the effect of the service's calls,
  and their errors arrive as codes.  \<open>remote_call\<close> is the client's method for a call of the service;
  the identifier and the time of the call are then the server's.
\<close>

section \<open>Calls through the client\<close>

fun remote_call :: "'w client \<Rightarrow> cp_call \<Rightarrow> ('w, unit) op" where
  "remote_call C (CApplyProxy _ _ meta spec) = forget (cl_ApplyProxyV1 C meta spec)"
| "remote_call C (CApplyPool _ _ meta spec) = forget (cl_ApplyPoolV1 C meta spec)"
| "remote_call C (CApplyBalancer _ _ meta spec) = forget (cl_ApplyBalancerV1 C meta spec)"
| "remote_call C (CApplyRouter _ _ meta spec) = forget (cl_ApplyRouterV1 C meta spec)"
| "remote_call C (CApplyFlow _ _ meta spec) = forget (cl_ApplyFlowV1 C meta spec)"
| "remote_call C (CApplyEntrypoint _ _ meta spec) = forget (cl_ApplyEntrypointV1 C meta spec)"
| "remote_call C (CDeleteProxy i) = cl_DeleteProxy C i"
| "remote_call C (CDeletePool i) = cl_DeletePool C i"
| "remote_call C (CDeleteBalancer i) = cl_DeleteBalancer C i"
| "remote_call C (CDeleteRouter i) = cl_DeleteRouter C i"
| "remote_call C (CDeleteFlow i) = cl_DeleteFlow C i"
| "remote_call C (CDeleteEntrypoint i) = cl_DeleteEntrypoint C i"

fun restamp :: "call_env \<Rightarrow> cp_call \<Rightarrow> cp_call" where
  "restamp E (CApplyProxy _ _ meta spec) = CApplyProxy (env_ulid E) (env_now E) meta spec"
| "restamp E (CApplyPool _ _ meta spec) = CApplyPool (env_ulid E) (env_now E) meta spec"
| "restamp E (CApplyBalancer _ _ meta spec) = CApplyBalancer (env_ulid E) (env_now E) meta spec"
| "restamp E (CApplyRouter _ _ meta spec) = CApplyRouter (env_ulid E) (env_now E) meta spec"
| "restamp E (CApplyFlow _ _ meta spec) = CApplyFlow (env_ulid E) (env_now E) meta spec"
| "restamp E (CApplyEntrypoint _ _ meta spec) = CApplyEntrypoint (env_ulid E) (env_now E) meta spec"
| "restamp E c = c"

text \<open>Calls whose arguments the wire can carry: explicit weights other than zero, of 32 bits.\<close>

fun wire_call :: "cp_call \<Rightarrow> bool" where
  "wire_call (CApplyPool _ _ _ spec) = wire_weights spec"
| "wire_call _ = True"

fun request_of :: "cp_call \<Rightarrow> rpc_request" where
  "request_of (CApplyProxy _ _ meta spec) = ReqApplyProxy (Some (cl_metaToProto meta)) (Some (cl_proxySpecToProto spec))"
| "request_of (CApplyPool _ _ meta spec) = ReqApplyPool (Some (cl_metaToProto meta)) (Some (cl_poolSpecToProto spec))"
| "request_of (CApplyBalancer _ _ meta spec) = ReqApplyBalancer (Some (cl_metaToProto meta)) (Some (cl_balancerSpecToProto spec))"
| "request_of (CApplyRouter _ _ meta spec) = ReqApplyRouter (Some (cl_metaToProto meta)) (Some (cl_routerSpecToProto spec))"
| "request_of (CApplyFlow _ _ meta spec) = ReqApplyFlow (Some (cl_metaToProto meta)) (Some (cl_flowSpecToProto spec))"
| "request_of (CApplyEntrypoint _ _ meta spec) = ReqApplyEntrypoint (Some (cl_metaToProto meta)) (Some (cl_entrypointSpecToProto spec))"
| "request_of (CDeleteProxy i) = ReqDeleteProxy i"
| "request_of (CDeletePool i) = ReqDeletePool i"
| "request_of (CDeleteBalancer i) = ReqDeleteBalancer i"
| "request_of (CDeleteRouter i) = ReqDeleteRouter i"
| "request_of (CDeleteFlow i) = ReqDeleteFlow i"
| "request_of (CDeleteEntrypoint i) = ReqDeleteEntrypoint i"

fun good_reply :: "cp_call \<Rightarrow> rpc_response \<Rightarrow> bool" where
  "good_reply (CApplyProxy _ _ _ _) resp = (\<exists>x. resp = RespProxy (Some (proxyToProto x)))"
| "good_reply (CApplyPool _ _ _ _) resp = (\<exists>x. resp = RespPool (Some (poolToProto x)))"
| "good_reply (CApplyBalancer _ _ _ _) resp = (\<exists>x. resp = RespBalancer (Some (balancerToProto x)))"
| "good_reply (CApplyRouter _ _ _ _) resp = (\<exists>x. resp = RespRouter (Some (routerToProto x)))"
| "good_reply (CApplyFlow _ _ _ _) resp = (\<exists>x. resp = RespFlow (Some (flowToProto x)))"
| "good_reply (CApplyEntrypoint _ _ _ _) resp = (\<exists>x. resp = RespEntrypoint (Some (entrypointToProto x)))"
| "good_reply _ resp = True"

lemma remote_call_good:
  "call C (request_of c) w = (Inr resp, w') \<Longrightarrow> good_reply c resp \<Longrightarrow> remote_call C c w = (Inr (), w')"
  by (cases c) (auto simp: forget_def bind_op_def cl_ApplyProxyV1_def cl_ApplyPoolV1_def cl_ApplyBalancerV1_def cl_ApplyRouterV1_def
      cl_ApplyFlowV1_def cl_ApplyEntrypointV1_def cl_DeleteProxy_def cl_DeletePool_def cl_DeleteBalancer_def cl_DeleteRouter_def
      cl_DeleteFlow_def cl_DeleteEntrypoint_def wire_simps)

lemma remote_call_failed:
  "call C (request_of c) w = (Inl e, w') \<Longrightarrow> remote_call C c w = (Inl e, w')"
  by (cases c) (auto simp: forget_def bind_op_def cl_ApplyProxyV1_def cl_ApplyPoolV1_def cl_ApplyBalancerV1_def cl_ApplyRouterV1_def
      cl_ApplyFlowV1_def cl_ApplyEntrypointV1_def cl_DeleteProxy_def cl_DeletePool_def cl_DeleteBalancer_def cl_DeleteRouter_def
      cl_DeleteFlow_def cl_DeleteEntrypoint_def)

text \<open>The code that a resource error is given.\<close>

definition resource_code :: "err \<Rightarrow> grpc_code" where
  "resource_code e = (if errors_As_inUse e \<or> errors_As_missing e then CodeFailedPrecondition else CodeInternal)"

lemma mapResourceError_code [simp]: "status_Code (mapResourceError operation e) = resource_code e"
  by (simp add: mapResourceError_def resource_code_def status_Code_def)

definition handled_as ::
  "('db, 'ps, 'l) cp_server \<Rightarrow> cp_call \<Rightarrow> rpc_response result \<Rightarrow> ('db, 'ps, 'l) cp_world \<Rightarrow> ('db, 'ps, 'l) cp_world \<Rightarrow> bool" where
  "handled_as S c r v v' \<longleftrightarrow>
     (case r of
        Inr resp \<Rightarrow> good_reply c resp \<and> exec_call (srv_libs S) (srv_cp S) c (w_db v, w_ps v) = (Inr (), (w_db v', w_ps v'))
      | Inl f \<Rightarrow> rejected f \<and> v' = v \<or>
          (\<exists>g. exec_call (srv_libs S) (srv_cp S) c (w_db v, w_ps v) = (Inl g, (w_db v', w_ps v')) \<and> status_Code f = resource_code g))"

lemma cp_step:
  assumes "bind_op (wrap_op wr (on_cp m)) (\<lambda>x. lift_op (Inr (f x))) v = (r, v')"
  shows "case r of
      Inr resp \<Rightarrow> (\<exists>x. resp = f x) \<and> forget m (w_db v, w_ps v) = (Inr (), (w_db v', w_ps v'))
    | Inl e \<Rightarrow> \<exists>g. e = wr g \<and> forget m (w_db v, w_ps v) = (Inl g, (w_db v', w_ps v'))"
proof -
  obtain q db ps where m: "m (w_db v, w_ps v) = (q, db, ps)" by (metis prod_cases3)
  with assms show ?thesis
    by (cases q) (auto simp: bind_op_def wrap_op_def on_cp_def forget_def)
qed

lemma forget_unit: "forget (m :: ('s, unit) op) = m"
  by (rule ext) (simp add: forget_def bind_op_def split: prod.splits sum.splits)

lemma handle_apply:
  assumes "bind_op (wrap_op (mapResourceError operation) (on_cp m)) (\<lambda>x. lift_op (Inr (f x))) v = (r, v')"
    and "exec_call (srv_libs S) (srv_cp S) c = forget m" "\<And>x. good_reply c (f x)"
  shows "handled_as S c r v v'"
  using cp_step [OF assms(1)] assms(2,3) by (auto simp: handled_as_def split: sum.splits)

lemma handle_delete:
  assumes "bind_op (guard_op (name \<noteq> []) (bad_request msg)) (\<lambda>_. bind_op (wrap_op (mapResourceError operation) (on_cp m)) (\<lambda>_. lift_op (Inr RespEmpty))) v = (r, v')"
    and "exec_call (srv_libs S) (srv_cp S) c = m" "good_reply c RespEmpty"
  shows "handled_as S c r v v'"
proof (cases "name = []")
  case True
  with assms(1) show ?thesis by (auto simp: handled_as_def bad_request_def)
next
  case False
  with assms(1) handle_apply [of operation m "\<lambda>_. RespEmpty" v r v' S c] assms(2,3) show ?thesis by (simp add: forget_unit)
qed

lemmas handlers = srv_ApplyProxyV1_def srv_ApplyPoolV1_def srv_ApplyBalancerV1_def srv_ApplyRouterV1_def srv_ApplyFlowV1_def
  srv_ApplyEntrypointV1_def srv_DeleteProxy_def srv_DeletePool_def srv_DeleteBalancer_def srv_DeleteRouter_def srv_DeleteFlow_def
  srv_DeleteEntrypoint_def

lemma handle_call:
  assumes "wire_call c" "handle S E ctx (request_of c) v = (r, v')"
  shows "handled_as S (restamp E c) r v v'"
proof -
  have "handled_as S (restamp E c) r v v'" if "c \<in> range CDeleteProxy \<union> range CDeletePool \<union> range CDeleteBalancer \<union> range CDeleteRouter \<union>
      range CDeleteFlow \<union> range CDeleteEntrypoint"
    by ((insert that assms(2), safe); unfold request_of.simps handle.simps handlers restamp.simps; erule handle_delete; simp)
  then show ?thesis
    by (cases c) (use assms in \<open>auto simp: handlers wire_simps pool_spec_wire elim!: handle_apply\<close>)
qed

lemma request_of_right: "right_of (request_of c) \<noteq> Anyone"
  by (cases c) simp_all

section \<open>What a call through the client does\<close>

text \<open>The store is left alone, up to one session token.\<close>

definition same_but_token :: "store \<Rightarrow> store \<Rightarrow> bool" where
  "same_but_token st st' \<longleftrightarrow> st' = st \<or> (\<exists>h. st' = st_tokens_update (\<lambda>t. t(h := None)) st)"

context badger_store
begin

lemma served_call:
  assumes "srv_authn S = badger_authn B J" "wire_call c" "serve S E md (request_of c) v = (r, v')"
  shows "case r of
      Inr resp \<Rightarrow> good_reply c resp \<and> exec_call (srv_libs S) (srv_cp S) (restamp E c) (w_db v, w_ps v) = (Inr (), (w_db v', w_ps v'))
    | Inl f \<Rightarrow> rejected f \<and> w_ps v' = w_ps v \<and> same_but_token (st (w_db v)) (st (w_db v')) \<or>
        (\<exists>g. exec_call (srv_libs S) (srv_cp S) (restamp E c) (w_db v, w_ps v) = (Inl g, (w_db v', w_ps v')) \<and> status_Code f = resource_code g)"
  using assms(1) request_of_right assms(3)
proof (cases rule: serve_cases)
  case (refused f)
  then show ?thesis by (simp add: only_refused_def same_but_token_def)
next
  case (handled tok p v1 v2)
  have "good_reply (restamp E c) resp = good_reply c resp" for resp by (cases c) simp_all
  with handle_call [OF assms(2) handled(4)] handled(5,6) show ?thesis
    by (auto simp: handled_as_def same_but_token_def split: sum.splits)
qed

end


definition sample_cp_db :: ref_db where
  "sample_cp_db = sample_session_db @ sample_dp_db"

abbreviation sample_admin :: "((ref_db, change_event list, int) cp_world \<times> nat) client" where
  "sample_admin \<equiv> \<lparr>cl_token = ''pgw_abc'', cl_invoke = direct (sample_server sample_bucket 1) (\<lambda>_. sample_env) (\<lambda>_. False)\<rparr>"

lemma sample_delete_refused:
  "fst (remote_call sample_admin (CDeleteProxy ''q'') (sample_world sample_cp_db, 0)) = Inl (StatusError CodeFailedPrecondition ''rpc error'' [] None)"
  by code_simp


text \<open>
  A weight of zero is lost on the wire: the specification's validation rejects an explicit weight
  below one, but the client sends zero, and every multiple of two to the 32, as the number that
  stands for no weight at all, so that the same manifest is accepted through the client and the
  member stored with the default weight.
\<close>

definition zero_weight_spec :: pool_spec where
  "zero_weight_spec = \<lparr>pls_Title = [], pls_Type = PoolTypeStatic, pls_Members = [\<lparr>pms_ProxyId = ''q'', pms_Weight = Some 0\<rparr>], pls_Selector = None\<rparr>"

theorem zero_weight_lost_on_wire:
  "let c = CApplyPool ''u'' 5 \<lparr>meta_Name = ''z'', meta_Labels = []\<rparr> zero_weight_spec;
       local = exec_call sample_libs (badger_service ref_badger ref_json log_event) c (sample_cp_db, []);
       remote = remote_call sample_admin c (sample_world sample_cp_db, 0)
   in \<not> is_ok (PoolSpecV1_Validate zero_weight_spec) \<and> \<not> is_ok (fst local) \<and> fst remote = Inr () \<and>
      map_option pool_Members (st_pools (abs_store ref_json (map_of (w_db (fst (snd remote))))) ''z'') =
        Some [\<lparr>member_ProxyId = ''q'', member_Weight = 1\<rparr>]"
  by code_simp

end
