(* ===== verification/Remote_Agents.thy ===== *)
theory Remote_Agents
  imports Remote_Calls
begin

text \<open>
  Registration through the client: which errors of the server end an agent's bootstrap.
\<close>

section \<open>A registration that fails\<close>

lemma status_Code_simp [simp]: "status_Code (StatusError c m args e) = c"
  by (simp add: status_Code_def)

lemma bad_request_code [simp]: "status_Code (bad_request m) = CodeInvalidArgument"
  by (simp add: bad_request_def)

definition register_request :: "string \<Rightarrow> agent \<Rightarrow> rpc_request" where
  "register_request tok a = ReqRegister tok (Some \<lparr>pbi_Name = agent_Id a, pbi_Hostname = agent_Hostname a, pbi_Version = agent_Version a,
     pbi_Labels = agent_Labels a\<rparr>)"

lemma permanent_code:
  assumes "carries_code c e" "IsPermanentBootstrapError (mapAgentRegister e)"
  shows "c = CodeAlreadyExists \<or> c = CodeUnauthenticated"
  using assms
  by (cases "(c, e)" rule: carries_code.cases)
    (auto simp: mapAgentRegister_def mapAgentAuth_def IsPermanentBootstrapError_def isAuthRejected_def status_Code_def split: if_splits)

lemma transport_not_permanent: "transport_error e \<Longrightarrow> \<not> IsPermanentBootstrapError (mapAgentRegister e)"
  by (cases e rule: transport_error.cases)
    (auto simp: mapAgentRegister_def mapAgentAuth_def IsPermanentBootstrapError_def isAuthRejected_def status_Code_def)

context badger_store
begin

text \<open>Unless storage cannot be read, a registration token is gone after a call of \<^verbatim>\<open>Register\<close>.\<close>

lemma register_spends:
  assumes "Register K (badger_agents B J ttl) now rnd tok a db = (r, db')"
    and "\<And>e db'. rtr_Consume (RegistrationTokenRepository B J) (hashToken K tok) db = (Inl e, db') \<Longrightarrow>
           st_registration_tokens (st db) (hashToken K tok) = None"
  shows "st_registration_tokens (st db') (hashToken K tok) = None"
proof -
  let ?I = "\<lambda>db. st_registration_tokens (st db) (hashToken K tok) = None"
  obtain q db1 where q: "rtr_Consume (RegistrationTokenRepository B J) (hashToken K tok) db = (q, db1)" by fastforce
  have spent: "?I db1"
    using q assms(2) registration_token_repo.rtr_consume_ok [of "hashToken K tok" db _ db1]
      registration_token_repo.rtr_consume_fail [of "hashToken K tok" db _ db1] by (cases q) auto
  have create: "keeps ?I (agent_Create (AgentRepository B J) b)" for b
  proof (rule keepsI)
    fix db assume I: "?I db"
    obtain x db2 where x: "agent_Create (AgentRepository B J) b db = (x, db2)" by fastforce
    with I agent_create.create_ok [of b db _ db2] agent_create.create_fail [of b db _ db2] show "?I (snd (agent_Create (AgentRepository B J) b db))"
      by (cases x) auto
  qed
  have save: "keeps ?I (tok_Save (TokenRepository B J) now t)" for t
  proof (rule keepsI)
    fix db assume I: "?I db"
    obtain x db2 where x: "tok_Save (TokenRepository B J) now t db = (x, db2)" by fastforce
    with I token_repo.tok_save_ok [of now t db _ db2] token_repo.tok_save_fail [of now t db _ db2] show "?I (snd (tok_Save (TokenRepository B J) now t db))"
      by (cases x) auto
  qed
  have "keeps ?I (IssueAgentToken K (as_creds (badger_agents B J ttl)) now rnd i ttl)" for i
    unfolding IssueAgentToken_def Let_def by (intro keeps_bind keeps_guard keeps_lift keeps_wrap) (simp_all add: save)
  moreover obtain f where reg: "Register K (badger_agents B J ttl) now rnd tok a = bind_op (ConsumeRegistrationToken K (as_creds (badger_agents B J ttl)) now tok) f"
    and f: "f = (\<lambda>_. bind_op (lift_op (wrap (Wrapf ''validate agent: %w'' []) (Agent_Validate a))) (\<lambda>_.
      let agent = a\<lparr>agent_ts := \<lparr>CreatedAt = now, UpdatedAt = now\<rparr>\<rparr> in
      bind_op (agent_Create (as_agents (badger_agents B J ttl)) agent) (\<lambda>_.
      bind_op (wrap_op (Wrapf ''issue agent token: %w'' [])
        (IssueAgentToken K (as_creds (badger_agents B J ttl)) now rnd (agent_Id agent) (as_agentTokenTTL (badger_agents B J ttl)))) (\<lambda>agentToken.
      lift_op (Inr (agent, agentToken))))))"
    unfolding Register_def by blast
  ultimately have "keeps ?I (f x)" for x
    unfolding f Let_def by (intro keeps_bind keeps_lift keeps_wrap) (simp_all add: create)
  from keepsD [OF this spent] spent q assms(1) show ?thesis
    unfolding reg by (auto simp: ConsumeRegistrationToken_def bind_op_def wrap_op_def split: sum.splits prod.splits if_splits)
qed

lemma register_served:
  assumes "srv_agents S = badger_agents B J ttl" "serve S E md (register_request tok a) v = (Inl f, v')"
    and "status_Code f = CodeAlreadyExists \<or> status_Code f = CodeUnauthenticated"
    and "\<And>e db'. rtr_Consume (RegistrationTokenRepository B J) (hashToken (srv_crypto S) tok) (w_db v) = (Inl e, db') \<Longrightarrow>
           st_registration_tokens (st (w_db v)) (hashToken (srv_crypto S) tok) = None"
  shows "st_registration_tokens (st (w_db v')) (hashToken (srv_crypto S) tok) = None"
proof -
  have ex: "isExempt (FullMethod (register_request tok a))" by (simp add: exempt_iff register_request_def)
  obtain v3 where "UnaryRateLimit S E no_ctx (handle S E no_ctx (register_request tok a)) v = (Inl f, v3)" "w_db v' = w_db v3"
    using assms(2) unfolding serve_def UnaryMetrics_def UnaryAuth_def by (simp add: ex split: prod.splits) auto
  then obtain v1 where h: "handle S E no_ctx (register_request tok a) v1 = (Inl f, v3)" "w_db v1 = w_db v" "w_db v' = w_db v3"
    using assms(3) by (auto simp: UnaryRateLimit_def Let_def split: if_splits prod.splits)
  obtain info where info: "register_request tok a = ReqRegister tok (Some info)" by (simp add: register_request_def)
  let ?a = "\<lparr>agent_ts = zero_timestamps, agent_Id = pbi_Name info, agent_Hostname = pbi_Hostname info,
       agent_Version = pbi_Version info, agent_Labels = pbi_Labels info, agent_LastHeartbeat = None\<rparr>"
  have "tok \<noteq> []" using h(1) assms(3) unfolding info by (auto simp: srv_Register_def)
  moreover have "pbi_Name info \<noteq> []" using h(1) assms(3) \<open>tok \<noteq> []\<close> unfolding info by (auto simp: srv_Register_def)
  moreover obtain q db where r: "Register (srv_crypto S) (srv_agents S) (env_now E) (env_random E) tok ?a (w_db v1) = (q, db)" by fastforce
  ultimately have "w_db v3 = db"
    using h(1) unfolding info by (cases q) (auto simp: srv_Register_def bind_op_def wrap_op_def on_store_def guard_res_def)
  with register_spends [OF r [unfolded assms(1) h(2)] assms(4)] h(3) show ?thesis by simp
qed

end


lemma ref_consume_readable:
  "\<forall>db e db'. rtr_Consume (RegistrationTokenRepository ref_badger ref_json) h db = (Inl e, db') \<longrightarrow>
     st_registration_tokens (abs_store ref_json (map_of db)) h = None"
  by (auto simp: agent_eval abs_map_def split: option.splits)

abbreviation sample_newcomer :: "((ref_db, change_event list, int) cp_world \<times> nat) client" where
  "sample_newcomer \<equiv> \<lparr>cl_token = [], cl_invoke = direct (sample_server sample_bucket 1) (\<lambda>_. sample_env) (\<lambda>_. False)\<rparr>"

text \<open>The name is taken.\<close>

lemma sample_name_taken:
  "case cl_Register sample_newcomer ''pgwr_x'' sample_agent (sample_world (sample_agent_db @ sample_invite_db), 0) of
     (Inl e, w') \<Rightarrow> IsPermanentBootstrapError e | (Inr _, w') \<Rightarrow> False"
  by code_simp


text \<open>
  A storage error ends the registration of an agent for good: \<^verbatim>\<open>ConsumeRegistrationToken\<close> reports any
  error of storage as an invalid token, which the server sends as \<^verbatim>\<open>Unauthenticated\<close> and the agent takes for
  permanent.  With a store that cannot read the entry of the token for the moment, the agent gives
  up although its token is live and unspent.
\<close>

theorem storage_error_ends_registration:
  "let B = flaky_badger (\<lambda>k. k = registrationTokenKey ''pgwr_x'') (\<lambda>_. False);
       S = (sample_server sample_bucket 1)\<lparr>srv_agents := badger_agents B ref_json Minute\<rparr>;
       C = \<lparr>cl_token = [], cl_invoke = direct S (\<lambda>_. sample_env) (\<lambda>_. False)\<rparr>
   in case cl_Register C ''pgwr_x'' sample_agent (sample_world sample_invite_db, 0) of
        (Inr _, _) \<Rightarrow> False
      | (Inl e, w') \<Rightarrow> IsPermanentBootstrapError e \<and>
          (\<exists>t. st_registration_tokens (abs_store ref_json (map_of (w_db (fst w')))) ''pgwr_x'' = Some t \<and> \<not> RegistrationToken_IsExpired t (env_now sample_env))"
  by (simp add: Let_def cl_Register_def call_def direct_def serve_def UnaryMetrics_def UnaryAuth_def exempt_iff sample_world_def sample_env_def
    UnaryRateLimit_def sample_server_def sample_bucket_def loadOrStoreLimiter_def srv_Register_def on_store_def agent_eval sample_invite_db_def abs_map_def
    mapAgentError_def mapAgentRegister_def mapAgentAuth_def status_Code_def IsPermanentBootstrapError_def isAuthRejected_def)

end
