(* ===== verification/Grpc_Replies.thy ===== *)
theory Grpc_Replies
  imports Grpc_Auth
begin

text \<open>
  The replies of the server: each fits the request it answers.
\<close>

section \<open>Replies\<close>

text \<open>The reply that a request asks for, with its resource.\<close>

fun reply_fits :: "rpc_request \<Rightarrow> rpc_response \<Rightarrow> bool" where
  "reply_fits (ReqInitAdmin _ _ _) resp = (\<exists>x y. resp = RespUser x y)"
| "reply_fits (ReqLogin _ _ _ _) resp = (\<exists>x. resp = RespToken x)"
| "reply_fits ReqLogout resp = (resp = RespEmpty)"
| "reply_fits (ReqCreateUser _ _ _) resp = (\<exists>x y. resp = RespUser x y)"
| "reply_fits (ReqListUsers _ _ _) resp = (\<exists>x y z. resp = RespListUsers x y z)"
| "reply_fits (ReqDeleteUser _) resp = (resp = RespEmpty)"
| "reply_fits (ReqChangePassword _ _ _) resp = (resp = RespEmpty)"
| "reply_fits (ReqCreateRegistrationToken _) resp = (\<exists>x y. resp = RespRegistrationToken x y)"
| "reply_fits (ReqRegister _ _) resp = (\<exists>x y z. resp = RespRegister x y z)"
| "reply_fits ReqHeartbeat resp = (\<exists>x. resp = RespHeartbeat x)"
| "reply_fits ReqDeregister resp = (resp = RespEmpty)"
| "reply_fits (ReqListAgents _ _ _) resp = (\<exists>x y z. resp = RespListAgents x y z)"
| "reply_fits (ReqDeleteAgent _) resp = (resp = RespEmpty)"
| "reply_fits (ReqApplyProxy _ _) resp = (\<exists>x. resp = RespProxy (Some x))"
| "reply_fits (ReqGetProxy _) resp = (\<exists>x. resp = RespProxy (Some x))"
| "reply_fits (ReqListProxies _ _ _ _) resp = (\<exists>x y z. resp = RespListProxies x y z)"
| "reply_fits (ReqDeleteProxy _) resp = (resp = RespEmpty)"
| "reply_fits (ReqApplyPool _ _) resp = (\<exists>x. resp = RespPool (Some x))"
| "reply_fits (ReqGetPool _) resp = (\<exists>x. resp = RespPool (Some x))"
| "reply_fits (ReqListPools _ _ _) resp = (\<exists>x y z. resp = RespListPools x y z)"
| "reply_fits (ReqDeletePool _) resp = (resp = RespEmpty)"
| "reply_fits (ReqApplyBalancer _ _) resp = (\<exists>x. resp = RespBalancer (Some x))"
| "reply_fits (ReqGetBalancer _) resp = (\<exists>x. resp = RespBalancer (Some x))"
| "reply_fits (ReqListBalancers _ _ _ _) resp = (\<exists>x y z. resp = RespListBalancers x y z)"
| "reply_fits (ReqDeleteBalancer _) resp = (resp = RespEmpty)"
| "reply_fits (ReqApplyRouter _ _) resp = (\<exists>x. resp = RespRouter (Some x))"
| "reply_fits (ReqGetRouter _) resp = (\<exists>x. resp = RespRouter (Some x))"
| "reply_fits (ReqListRouters _ _) resp = (\<exists>x y z. resp = RespListRouters x y z)"
| "reply_fits (ReqDeleteRouter _) resp = (resp = RespEmpty)"
| "reply_fits (ReqApplyFlow _ _) resp = (\<exists>x. resp = RespFlow (Some x))"
| "reply_fits (ReqGetFlow _) resp = (\<exists>x. resp = RespFlow (Some x))"
| "reply_fits (ReqListFlows _ _ _ _) resp = (\<exists>x y z. resp = RespListFlows x y z)"
| "reply_fits (ReqDeleteFlow _) resp = (resp = RespEmpty)"
| "reply_fits (ReqApplyEntrypoint _ _) resp = (\<exists>x. resp = RespEntrypoint (Some x))"
| "reply_fits (ReqGetEntrypoint _) resp = (\<exists>x. resp = RespEntrypoint (Some x))"
| "reply_fits (ReqListEntrypoints _ _ _ _) resp = (\<exists>x y z. resp = RespListEntrypoints x y z)"
| "reply_fits (ReqDeleteEntrypoint _) resp = (resp = RespEmpty)"
| "reply_fits (ReqGetProxiesByIds _) resp = (\<exists>x. resp = RespProxyList x)"
| "reply_fits (ReqFindProxiesByLabels _) resp = (\<exists>x. resp = RespProxyList x)"

lemmas srv_defs = srv_ApplyProxyV1_def srv_ApplyPoolV1_def srv_ApplyBalancerV1_def srv_ApplyRouterV1_def srv_ApplyFlowV1_def
  srv_ApplyEntrypointV1_def srv_GetProxy_def srv_GetPool_def srv_GetBalancer_def srv_GetRouter_def srv_GetFlow_def srv_GetEntrypoint_def
  srv_ListProxies_def srv_ListPools_def srv_ListBalancers_def srv_ListRouters_def srv_ListFlows_def srv_ListEntrypoints_def
  srv_DeleteProxy_def srv_DeletePool_def srv_DeleteBalancer_def srv_DeleteRouter_def srv_DeleteFlow_def srv_DeleteEntrypoint_def
  srv_GetProxiesByIds_def srv_FindProxiesByLabels_def srv_InitAdmin_def srv_Login_def srv_Logout_def srv_CreateUser_def srv_ListUsers_def
  srv_DeleteUser_def srv_ChangePassword_def srv_CreateRegistrationToken_def srv_Register_def srv_Heartbeat_def srv_Deregister_def
  srv_ListAgents_def srv_DeleteAgent_def

lemma bound_lift_Inr: "bind_op m (\<lambda>x. lift_op (Inr (f x))) w = (Inr resp, w') \<Longrightarrow> \<exists>x. resp = f x"
  by (auto simp: bind_op_Inr_iff)

lemma handle_fits: "handle S E ctx req w = (Inr resp, w') \<Longrightarrow> reply_fits req resp"
  by (cases req; simp add: srv_defs Let_def split: if_splits sum.splits option.splits; (drule bound_lift_Inr)?; blast)



end
