(* ===== verification/Error_Text.thy ===== *)
theory Error_Text
  imports Prelude Go_Strings
begin

text \<open>
  The text of an error, which the dashboard sends to its clients and, in two places, searches:
  \<^verbatim>\<open>errors.New\<close>, \<^verbatim>\<open>fmt.Errorf\<close> and the \<^verbatim>\<open>Error\<close> methods of \<^verbatim>\<open>controlplane/api/errors.go\<close>.
  \<^verbatim>\<open>strconv.Quote\<close>, the verb \<^verbatim>\<open>%q\<close>, is a parameter.
\<close>

section \<open>Formatting\<close>

definition int_text :: "int \<Rightarrow> string" where
  "int_text i = (if i < 0 then CHR ''-'' # dec (nat (- i)) else dec (nat i))"

definition arg_text :: "(string \<Rightarrow> string) \<Rightarrow> char \<Rightarrow> fmt_arg \<Rightarrow> string" where
  "arg_text quote v a = (case a of FStr s \<Rightarrow> if v = CHR ''q'' then quote s else s | FInt i \<Rightarrow> int_text i)"

text \<open>
  The verbs take their arguments in order; \<^verbatim>\<open>%w\<close> takes the texts of the wrapped errors, as does \<^verbatim>\<open>%v\<close>
  where the error is printed.
\<close>

fun Sprintf :: "(string \<Rightarrow> string) \<Rightarrow> string \<Rightarrow> fmt_arg list \<Rightarrow> string list \<Rightarrow> string" where
  "Sprintf quote [] as es = []"
| "Sprintf quote [c] as es = [c]"
| "Sprintf quote (c # v # f) as es =
     (if c \<noteq> CHR ''%'' then c # Sprintf quote (v # f) as es
      else if v = CHR ''w'' \<or> v = CHR ''v'' \<and> es \<noteq> [] then
        (case es of [] \<Rightarrow> Sprintf quote f as [] | t # ts \<Rightarrow> t @ Sprintf quote f as ts)
      else (case as of [] \<Rightarrow> Sprintf quote f [] es | a # as \<Rightarrow> arg_text quote v a @ Sprintf quote f as es))"

section \<open>Errors\<close>

fun sentinel_text :: "sentinel \<Rightarrow> string" where
  "sentinel_text ErrNoProxy = ''no proxy''"
| "sentinel_text ErrNoPool = ''no pool''"
| "sentinel_text ErrNoMatchingRule = ''no matching rule found''"
| "sentinel_text ErrNotFound = ''not found''"
| "sentinel_text ErrAgentExists = ''agent already exists''"
| "sentinel_text ErrUserExists = ''user already exists''"
| "sentinel_text ErrTokenMustExpire = ''token must have expiration date''"
| "sentinel_text ErrInvalidCredentials = ''invalid credentials''"
| "sentinel_text ErrInvalidToken = ''invalid or expired token''"
| "sentinel_text ErrInvalidBootstrapToken = ''invalid bootstrap token''"
| "sentinel_text ErrAlreadyInitialized = ''already initialized: admin user exists''"
| "sentinel_text ErrLastAdmin = ''cannot delete the last admin user''"
| "sentinel_text ErrWeakPassword = ''password must be at least 8 characters''"
| "sentinel_text ErrInvalidRegistrationToken = ''invalid registration token''"
| "sentinel_text ErrAgentNotFound = ''agent not found''"
| "sentinel_text ErrAgentRequired = ''agent principal required''"
| "sentinel_text ErrTokenRequired = ''bearer token required in call context''"
| "sentinel_text ErrChangeEventInvalid = ''change event is invalid''"
| "sentinel_text ErrBalancerNotFound = ''balancer not found''"
| "sentinel_text ErrAgentUnauthenticated = ''agent unauthenticated''"
| "sentinel_text ErrBootstrapConfig = ''bootstrap misconfigured''"
| "sentinel_text ErrBootstrapState = ''agent state unusable''"

definition maxNamedDependents :: nat where "maxNamedDependents = 5"

fun join_with :: "string \<Rightarrow> string list \<Rightarrow> string" where
  "join_with sep [] = []"
| "join_with sep [s] = s"
| "join_with sep (s # t # ss) = s @ sep @ join_with sep (t # ss)"

definition in_use_text :: "(string \<Rightarrow> string) \<Rightarrow> string \<Rightarrow> string \<Rightarrow> (string \<times> string) list \<Rightarrow> string" where
  "in_use_text quote resourceType name dependents =
     (let parts = map (\<lambda>(t, n). t @ '' '' @ quote n) (take maxNamedDependents dependents);
          msg = ''cannot delete '' @ resourceType @ '' '' @ quote name @ '': still referenced by '' @ join_with '', '' parts
      in if length dependents > maxNamedDependents
         then msg @ '' and '' @ dec (length dependents - maxNamedDependents) @ '' more'' else msg)"

definition missing_ref_text :: "(string \<Rightarrow> string) \<Rightarrow> string \<Rightarrow> string \<Rightarrow> string \<Rightarrow> string \<Rightarrow> string" where
  "missing_ref_text quote resourceType name missingType missingName =
     ''cannot apply '' @ resourceType @ '' '' @ quote name @ '': '' @ missingType @ '' '' @ quote missingName @ '' not found''"

text \<open>
  An error raised outside the repository is known by its text.  The services behind the dashboard
  produce no gRPC status; its text is that of its message.
\<close>

fun error_text :: "(string \<Rightarrow> string) \<Rightarrow> err \<Rightarrow> string" where
  "error_text quote (Sentinel s) = sentinel_text s"
| "error_text quote (Errorf f as) = Sprintf quote f as []"
| "error_text quote (Wrapf f as e) = Sprintf quote f as [error_text quote e]"
| "error_text quote (Wrapf2 f e g) = Sprintf quote f [] [error_text quote e, error_text quote g]"
| "error_text quote (ResourceInUseError t n ds) = in_use_text quote t n ds"
| "error_text quote (ResourceMissingRefError t n mt mn) = missing_ref_text quote t n mt mn"
| "error_text quote (StatusError c f as e) = Sprintf quote f as (case e of None \<Rightarrow> [] | Some e \<Rightarrow> [error_text quote e])"
| "error_text quote (External s) = s"

end
