(* ===== verification/Web.thy ===== *)
theory Web
  imports HttpProxy Auth Go_Encoding Error_Text
begin

text \<open>
  The part of Go's \<^verbatim>\<open>net/http\<close> that the dashboard is built on: requests and responses, cookies, and
  the pattern matching of \<^verbatim>\<open>ServeMux\<close>, with its canonical paths, path values, and answers when nothing
  matches.  A body is a value, as \<^verbatim>\<open>encoding/json\<close> writes it.
\<close>

section \<open>Paths\<close>

definition hex_value :: "char \<Rightarrow> nat option" where
  "hex_value c =
     (if is_digit c then Some (byte c - 48)
      else if 65 \<le> byte c \<and> byte c \<le> 70 then Some (byte c - 55)
      else if 97 \<le> byte c \<and> byte c \<le> 102 then Some (byte c - 87) else None)"

fun unescape :: "string \<Rightarrow> string option" where
  "unescape [] = Some []"
| "unescape (c # s) =
     (if c \<noteq> CHR ''%'' then map_option (\<lambda>t. c # t) (unescape s)
      else case s of
          a # b # s' \<Rightarrow>
            (case (hex_value a, hex_value b) of
               (Some x, Some y) \<Rightarrow> map_option (\<lambda>t. char_of (16 * x + y) # t) (unescape s')
             | _ \<Rightarrow> None)
        | _ \<Rightarrow> None)"

text \<open>\<^verbatim>\<open>pathUnescape\<close> of the mux returns what it cannot decode as it is.\<close>

definition pathUnescape :: "string \<Rightarrow> string" where
  "pathUnescape s = (case unescape s of Some t \<Rightarrow> t | None \<Rightarrow> s)"

text \<open>\<^verbatim>\<open>path.Clean\<close> of a rooted path, and \<^verbatim>\<open>cleanPath\<close> of \<^verbatim>\<open>net/http\<close>, which keeps a trailing slash.\<close>

fun clean_segments :: "string list \<Rightarrow> string list \<Rightarrow> string list" where
  "clean_segments acc [] = rev acc"
| "clean_segments acc (s # ss) =
     (if s = [] \<or> s = ''.'' then clean_segments acc ss
      else if s = ''..'' then clean_segments (drop 1 acc) ss
      else clean_segments (s # acc) ss)"

definition path_Clean :: "string \<Rightarrow> string" where
  "path_Clean p =
     (case clean_segments [] (split_byte CHR ''/'' p) of
        [] \<Rightarrow> ''/'' | ss \<Rightarrow> concat (map (\<lambda>s. CHR ''/'' # s) ss))"

definition cleanPath :: "string \<Rightarrow> string" where
  "cleanPath p =
     (if p = [] then ''/''
      else let p = (if hd p \<noteq> CHR ''/'' then CHR ''/'' # p else p); np = path_Clean p
        in if last p = CHR ''/'' \<and> np \<noteq> ''/'' then np @ ''/'' else np)"

section \<open>Requests and responses\<close>

text \<open>
  The path as sent and the query, headers and cookies as \<^verbatim>\<open>net/http\<close> parses them.  \<^verbatim>\<open>URL.Path\<close> is the
  decoded path; a request whose path does not decode is refused before any handler sees it.
\<close>

record web_request =
  rq_Method :: string
  rq_EscapedPath :: string
  rq_Query :: "(string \<times> string) list"
  rq_Header :: header
  rq_Cookies :: "(string \<times> string) list"
  rq_RemoteAddr :: string
  rq_TLS :: bool
  rq_Body :: string

definition rq_Path :: "web_request \<Rightarrow> string" where
  "rq_Path r = pathUnescape (rq_EscapedPath r)"

definition Query_Get :: "web_request \<Rightarrow> string \<Rightarrow> string" where
  "Query_Get r k = (case map_of (rq_Query r) k of None \<Rightarrow> [] | Some v \<Rightarrow> v)"

record cookie =
  ck_Name :: string
  ck_Value :: string
  ck_Path :: string
  ck_HttpOnly :: bool
  ck_SameSite :: string
  ck_Secure :: bool
  ck_MaxAge :: int

text \<open>
  A response with a body of type \<open>'b\<close>.  The flag records that its handler panicked before it wrote
  anything.
\<close>

record 'b web_response =
  rs_Status :: nat
  rs_Header :: header
  rs_Cookies :: "cookie list"
  rs_Body :: 'b
  rs_Panicked :: bool

text \<open>A handler, with the values of the path's wildcards, the call context and the state it changes.\<close>

type_synonym ('w, 'b) web_handler = "web_request \<Rightarrow> call_ctx \<Rightarrow> 'w \<Rightarrow> 'b web_response \<times> 'w"

section \<open>ServeMux\<close>

datatype segment = Lit string | Wild

record ('w, 'b) route =
  rt_Method :: string
  rt_Path :: "segment list"
  rt_Handler :: "string list \<Rightarrow> ('w, 'b) web_handler"

text \<open>
  The path is matched by its segments, decoded one by one; a trailing slash counts as a segment that no
  wildcard takes.
\<close>

definition path_segments :: "string \<Rightarrow> string list" where
  "path_segments p = map (\<lambda>s. if s = [] then ''/'' else pathUnescape s) (split_byte CHR ''/'' (tl p))"

fun match_segments :: "segment list \<Rightarrow> string list \<Rightarrow> string list option" where
  "match_segments [] [] = Some []"
| "match_segments (Lit l # ps) (s # ss) = (if l = s then match_segments ps ss else None)"
| "match_segments (Wild # ps) (s # ss) = (if s = ''/'' then None else map_option (\<lambda>vs. s # vs) (match_segments ps ss))"
| "match_segments _ _ = None"

text \<open>\<^verbatim>\<open>r.PathValue\<close> of the one wildcard that the patterns have.\<close>

definition PathValue :: "string list \<Rightarrow> string" where
  "PathValue vs = (case vs of [] \<Rightarrow> [] | v # _ \<Rightarrow> v)"

definition MethodGet :: string where "MethodGet = ''GET''"
definition MethodHead :: string where "MethodHead = ''HEAD''"
definition MethodPost :: string where "MethodPost = ''POST''"
definition MethodDelete :: string where "MethodDelete = ''DELETE''"
definition MethodOptions :: string where "MethodOptions = ''OPTIONS''"

lemmas method_defs = MethodGet_def MethodHead_def MethodPost_def MethodDelete_def MethodOptions_def

definition method_matches :: "string \<Rightarrow> string \<Rightarrow> bool" where
  "method_matches m method \<longleftrightarrow> m = method \<or> method = MethodHead \<and> m = MethodGet"

definition find_route :: "('w, 'b) route list \<Rightarrow> string \<Rightarrow> string \<Rightarrow> ('w, 'b) route option" where
  "find_route routes method path =
     find (\<lambda>rt. method_matches (rt_Method rt) method \<and> match_segments (rt_Path rt) (path_segments path) \<noteq> None) routes"

definition matchingMethods :: "('w, 'b) route list \<Rightarrow> string \<Rightarrow> string list" where
  "matchingMethods routes path =
     (let ms = map rt_Method (filter (\<lambda>rt. match_segments (rt_Path rt) (path_segments path) \<noteq> None) routes)
      in sort (remdups (ms @ (if MethodGet \<in> set ms then [MethodHead] else []))))"

definition plain_response :: "nat \<Rightarrow> 'b \<Rightarrow> 'b web_response" where
  "plain_response status body = \<lparr>rs_Status = status, rs_Header = [], rs_Cookies = [], rs_Body = body, rs_Panicked = False\<rparr>"

definition set_header :: "string \<Rightarrow> string \<Rightarrow> 'b web_response \<Rightarrow> 'b web_response" where
  "set_header k v resp = resp\<lparr>rs_Header := Header_Set k v (rs_Header resp)\<rparr>"

text \<open>\<^verbatim>\<open>http.Error\<close>: a line of plain text.\<close>

definition http_Error :: "(string \<Rightarrow> 'b) \<Rightarrow> string \<Rightarrow> nat \<Rightarrow> 'b web_response" where
  "http_Error text msg status =
     set_header ''Content-Type'' ''text/plain; charset=utf-8'' (set_header ''X-Content-Type-Options'' ''nosniff''
       (plain_response status (text (msg @ [char_of (10 :: nat)]))))"

definition NotFound :: "(string \<Rightarrow> 'b) \<Rightarrow> 'b web_response" where
  "NotFound text = http_Error text ''404 page not found'' 404"

text \<open>
  \<^verbatim>\<open>ServeMux.ServeHTTP\<close> for patterns that name a method, no host and no trailing slash, no two of which
  match one request.  A path that is not canonical is redirected to the one that is; the target of the
  redirect is not modelled.
\<close>

definition ServeMux :: "'b \<Rightarrow> (string \<Rightarrow> 'b) \<Rightarrow> ('w, 'b) route list \<Rightarrow> ('w, 'b) web_handler" where
  "ServeMux none text routes r ctx w =
     (if rq_EscapedPath r = ''*'' then (set_header ''Connection'' ''close'' (plain_response 400 none), w)
      else let path = (if rq_Method r = ''CONNECT'' then rq_EscapedPath r else cleanPath (rq_EscapedPath r)) in
        if path \<noteq> rq_EscapedPath r then (plain_response 301 none, w)
        else case find_route routes (rq_Method r) path of
            Some rt \<Rightarrow>
              (case match_segments (rt_Path rt) (path_segments path) of
                 Some vs \<Rightarrow> rt_Handler rt vs r ctx w
               | None \<Rightarrow> (NotFound text, w))
          | None \<Rightarrow>
              (case matchingMethods routes path of
                 [] \<Rightarrow> (NotFound text, w)
               | ms \<Rightarrow> (set_header ''Allow'' (join_with '', '' ms) (http_Error text ''Method Not Allowed'' 405), w)))"

end
