(* ===== verification/Dashboard.thy ===== *)
theory Dashboard
  imports Web Grpc_Server
begin

text \<open>
  \<^verbatim>\<open>adapters/dashboard\<close>: the HTTP API of the control plane with its middleware (access log, panic
  recovery, CORS, rate limits before and after authentication, sessions in cookies), its handlers over
  the services that the gRPC server uses too, and the static files.  \<^verbatim>\<open>encoding/json\<close>, the token
  bucket, \<^verbatim>\<open>strconv.Quote\<close>, the format of time and the file system are parameters.  Not modelled are the
  timeouts of the library server, its start and its stop.
\<close>

section \<open>Bodies\<close>

record login_request =
  lq_Username :: string
  lq_Password :: string
  lq_TTLSeconds :: int
  lq_NoExpiry :: bool

record create_user_request =
  uq_Username :: string
  uq_Password :: string
  uq_Role :: string

record change_password_request =
  pq_OldPassword :: string
  pq_NewPassword :: string

record dash_json =
  js_Login :: "string \<Rightarrow> login_request option"
  js_CreateUser :: "string \<Rightarrow> create_user_request option"
  js_ChangePassword :: "string \<Rightarrow> change_password_request option"
  js_ApplyProxy :: "string \<Rightarrow> (metadata \<times> proxy_spec) option"
  js_ApplyPool :: "string \<Rightarrow> (metadata \<times> pool_spec) option"
  js_ApplyBalancer :: "string \<Rightarrow> (metadata \<times> balancer_spec) option"
  js_ApplyRouter :: "string \<Rightarrow> (metadata \<times> router_spec) option"
  js_ApplyFlow :: "string \<Rightarrow> (metadata \<times> flow_spec) option"
  js_ApplyEntrypoint :: "string \<Rightarrow> (metadata \<times> entrypoint_spec) option"

record user_response =
  ur_ID :: string
  ur_Role :: string

record user_detail =
  ud_ID :: string
  ud_Role :: string
  ud_CreatedAt :: string
  ud_UpdatedAt :: string

record agent_item =
  ai_ID :: string
  ai_Status :: string
  ai_Hostname :: string
  ai_Version :: string
  ai_Labels :: labels
  ai_LastHeartbeat :: "time option"
  ai_CreatedAt :: time
  ai_UpdatedAt :: time

record balancer_response =
  br_Id :: string
  br_Title :: string
  br_Type :: string
  br_PoolId :: string
  br_ResetInterval :: string
  br_CreatedAt :: time
  br_UpdatedAt :: time

text \<open>What a response carries; a page has its items, the token of the next page and the total count.\<close>

datatype dash_body =
    NoBody
  | TextBody string
  | FileBody string
  | ErrorBody string
  | LoginBody string user_response
  | MeBody user_response
  | CreatedUserBody user_detail string
  | UsersBody "user_detail list" string int
  | AgentsBody "agent_item list" string int
  | ProxyBody proxy
  | PoolBody pool
  | BalancerBody balancer_response
  | RouterBody router
  | FlowBody flow
  | EntrypointBody entrypoint
  | ProxiesBody "proxy list" string int
  | PoolsBody "pool list" string int
  | BalancersBody "balancer_response list" string int
  | RoutersBody "router list" string int
  | FlowsBody "flow list" string int
  | EntrypointsBody "entrypoint list" string int

section \<open>Rate limiters\<close>

record 'l limiter_entry =
  le_limiter :: 'l
  le_lastSeen :: time

record 'l limiter_registry =
  reg_limit :: rat
  reg_burst :: int
  reg_entries :: "(string \<times> 'l limiter_entry) list"
  reg_idleTTL :: duration
  reg_sweepInterval :: duration
  reg_lastSweep :: time

definition defaultLimiterIdleTTL :: duration where "defaultLimiterIdleTTL = 15 * Minute"
definition defaultLimiterSweepInterval :: duration where "defaultLimiterSweepInterval = Minute"

definition newLimiterRegistry :: "time \<Rightarrow> rat \<Rightarrow> int \<Rightarrow> 'l limiter_registry" where
  "newLimiterRegistry now limit burst =
     \<lparr>reg_limit = limit, reg_burst = burst, reg_entries = [], reg_idleTTL = defaultLimiterIdleTTL,
      reg_sweepInterval = defaultLimiterSweepInterval, reg_lastSweep = now\<rparr>"

definition sweep :: "time \<Rightarrow> 'l limiter_registry \<Rightarrow> 'l limiter_registry" where
  "sweep now R =
     R\<lparr>reg_lastSweep := now,
       reg_entries := filter (\<lambda>(k, e). \<not> time_Sub now (le_lastSeen e) > reg_idleTTL R) (reg_entries R)\<rparr>"

text \<open>
  The entry that was looked up stays in use even if the sweep were to drop it; what \<^verbatim>\<open>Allow\<close> does to its
  limiter shows in the registry while it is there.
\<close>

definition allow :: "'l rate_lib \<Rightarrow> time \<Rightarrow> string \<Rightarrow> 'l limiter_registry \<Rightarrow> bool \<times> 'l limiter_registry" where
  "allow L now key R =
     (let l = (case map_of (reg_entries R) key of
                 Some e \<Rightarrow> le_limiter e | None \<Rightarrow> rate_NewLimiter L (reg_limit R) (reg_burst R));
          R = R\<lparr>reg_entries := AList.update key \<lparr>le_limiter = l, le_lastSeen = now\<rparr> (reg_entries R)\<rparr>;
          R = (if time_Sub now (reg_lastSweep R) \<ge> reg_sweepInterval R then sweep now R else R);
          (ok, l) = rate_Allow L now l
      in (ok, R\<lparr>reg_entries := AList.map_entry key (\<lambda>e. e\<lparr>le_limiter := l\<rparr>) (reg_entries R)\<rparr>))"

section \<open>The adapter and its world\<close>

record static_fs =
  fs_Stat :: "string \<Rightarrow> bool"
  fs_ServeFile :: "web_request \<Rightarrow> string \<Rightarrow> nat \<times> header"

record ('db, 'ps, 'l) dashboard =
  da_libs :: libs
  da_crypto :: crypto
  da_cp :: "('db, 'ps) service"
  da_authenticator :: "'db authenticator"
  da_authManager :: "'db auth_service option"
  da_users :: "'db auth_service option"
  da_agents :: "'db agent_service option"
  da_heartbeatThreshold :: duration
  da_CORSAllowOrigins :: "string list"
  da_RateLimitRPS :: rat
  da_RateLimitBurst :: int
  da_staticFS :: "static_fs option"
  da_rate :: "'l rate_lib"
  da_json :: dash_json
  da_Quote :: "string \<Rightarrow> string"
  da_RFC3339 :: "time \<Rightarrow> string"

text \<open>What requests change: storage, the event publisher, the bootstrap token, the limiters of the two stages, the access log.\<close>

record ('db, 'ps, 'l) dash_world =
  d_db :: 'db
  d_ps :: 'ps
  d_bootstrap :: string
  d_ip :: "'l limiter_registry"
  d_user :: "'l limiter_registry"
  d_log :: "(string \<times> string \<times> nat) list"

type_synonym ('db, 'ps, 'l) dash_step = "('db, 'ps, 'l) dash_world \<Rightarrow> dash_body web_response \<times> ('db, 'ps, 'l) dash_world"
type_synonym ('db, 'ps, 'l) dash_handler = "(('db, 'ps, 'l) dash_world, dash_body) web_handler"

definition dash_cp :: "('db \<times> 'ps, 'a) op \<Rightarrow> (('db, 'ps, 'l) dash_world, 'a) op" where
  "dash_cp m w = (case m (d_db w, d_ps w) of (r, db, ps) \<Rightarrow> (r, w\<lparr>d_db := db, d_ps := ps\<rparr>))"

definition dash_auth :: "('db, 'a) auth_op \<Rightarrow> (('db, 'ps, 'l) dash_world, 'a) op" where
  "dash_auth m w = (case m (d_db w, d_bootstrap w) of (r, db, b) \<Rightarrow> (r, w\<lparr>d_db := db, d_bootstrap := b\<rparr>))"

definition dash_store :: "('db, 'a) op \<Rightarrow> (('db, 'ps, 'l) dash_world, 'a) op" where
  "dash_store m w = (case m (d_db w) of (r, db) \<Rightarrow> (r, w\<lparr>d_db := db\<rparr>))"

definition dash_read :: "('db \<Rightarrow> 'a result) \<Rightarrow> (('db, 'ps, 'l) dash_world, 'a) op" where
  "dash_read f = read_op (\<lambda>w. f (d_db w))"

section \<open>Responses\<close>

definition writeJSON :: "nat \<Rightarrow> dash_body \<Rightarrow> dash_body web_response" where
  "writeJSON code body = set_header ''Content-Type'' ''application/json'' (plain_response code body)"

definition writeError :: "nat \<Rightarrow> string \<Rightarrow> dash_body web_response" where
  "writeError code msg = writeJSON code (ErrorBody msg)"

definition no_content :: "dash_body web_response" where
  "no_content = plain_response 204 NoBody"

definition reply :: "dash_body web_response \<Rightarrow> ('db, 'ps, 'l) dash_step" where
  "reply resp w = (resp, w)"

definition panicked :: "dash_body web_response" where
  "panicked = (plain_response 500 NoBody)\<lparr>rs_Panicked := True\<rparr>"

definition is_panic :: "err \<Rightarrow> bool" where
  "is_panic e \<longleftrightarrow> e \<in> {index_panic, nil_panic}"

text \<open>
  \<^verbatim>\<open>x, err := m(); if err != nil { write(w, err); return }\<close>, after which the handler goes on with \<^verbatim>\<open>x\<close>; a
  panic of \<^verbatim>\<open>m\<close> leaves the handler.
\<close>

definition attempt ::
  "(('db, 'ps, 'l) dash_world, 'a) op \<Rightarrow> (err \<Rightarrow> dash_body web_response) \<Rightarrow> ('a \<Rightarrow> ('db, 'ps, 'l) dash_step) \<Rightarrow> ('db, 'ps, 'l) dash_step" where
  "attempt m write k w =
     (case m w of
        (Inl e, w) \<Rightarrow> (if is_panic e then panicked else write e, w)
      | (Inr x, w) \<Rightarrow> k x w)"

definition error_of :: "('db, 'ps, 'l) dashboard \<Rightarrow> nat \<Rightarrow> err \<Rightarrow> dash_body web_response" where
  "error_of D code e = writeError code (error_text (da_Quote D) e)"

definition writeCPError :: "('db, 'ps, 'l) dashboard \<Rightarrow> err \<Rightarrow> dash_body web_response" where
  "writeCPError D e =
     (if errors_As_inUse e then error_of D 409 e
      else if errors_As_missing e then error_of D 400 e
      else if errors_Is e ErrNotFound \<or> Contains (error_text (da_Quote D) e) ''not found'' then error_of D 404 e
      else if Contains (error_text (da_Quote D) e) ''requires static pool'' then error_of D 400 e
      else error_of D 500 e)"

definition writeAuthError :: "('db, 'ps, 'l) dashboard \<Rightarrow> err \<Rightarrow> dash_body web_response" where
  "writeAuthError D e =
     (if errors_Is e ErrInvalidCredentials \<or> errors_Is e ErrInvalidToken then error_of D 401 e
      else writeError 500 ''internal server error'')"

definition writeUserError :: "('db, 'ps, 'l) dashboard \<Rightarrow> err \<Rightarrow> dash_body web_response" where
  "writeUserError D e =
     (if errors_Is e ErrLastAdmin then error_of D 409 e
      else if errors_Is e ErrUserExists then error_of D 409 e
      else if errors_Is e ErrWeakPassword then error_of D 400 e
      else if errors_Is e ErrInvalidCredentials then error_of D 401 e
      else if errors_Is e ErrNotFound \<or> Contains (error_text (da_Quote D) e) ''not found'' then error_of D 404 e
      else writeError 500 ''internal server error'')"

section \<open>Pages\<close>

definition defaultListPageSize :: int where "defaultListPageSize = 20"
definition MaxInt32 :: int where "MaxInt32 = 2 ^ 31 - 1"

definition errInvalidPageSize :: err where
  "errInvalidPageSize = Errorf ''page_size must be a positive integer'' []"

text \<open>\<^verbatim>\<open>strconv.Atoi\<close>.\<close>

definition Atoi :: "string \<Rightarrow> int option" where
  "Atoi s =
     (let (neg, ds) = (case s of [] \<Rightarrow> (False, []) | c # cs \<Rightarrow>
            if c = CHR ''-'' then (True, cs) else if c = CHR ''+'' then (False, cs) else (False, s))
      in if ds = [] \<or> \<not> (\<forall>c \<in> set ds. is_digit c) then None
         else let n = (if neg then - int (digits_val ds) else int (digits_val ds))
           in if min_int64 \<le> n \<and> n \<le> max_int64 then Some n else None)"

definition parsePageSize :: "string \<Rightarrow> int result" where
  "parsePageSize raw =
     (if raw = [] then Inr defaultListPageSize
      else case Atoi raw of
          None \<Rightarrow> Inl errInvalidPageSize
        | Some n \<Rightarrow>
            if n < 1 then Inl errInvalidPageSize
            else if n > MaxInt32 then Inl errInvalidPageSize
            else Inr (if n > DefaultMaxPageSize then DefaultMaxPageSize else n))"

definition decodePageToken :: "string \<Rightarrow> string result" where
  "decodePageToken token = (if token = [] then Inr [] else b64_DecodeString token)"

definition encodePageToken :: "string \<Rightarrow> string" where
  "encodePageToken cursor = (if cursor = [] then [] else b64_EncodeToString cursor)"

text \<open>The start of every listing: page size and page token of the query.\<close>

definition with_page ::
  "('db, 'ps, 'l) dashboard \<Rightarrow> web_request \<Rightarrow> (list_params \<Rightarrow> ('db, 'ps, 'l) dash_step) \<Rightarrow> ('db, 'ps, 'l) dash_step" where
  "with_page D r k =
     attempt (lift_op (parsePageSize (Query_Get r ''page_size''))) (error_of D 400) (\<lambda>pageSize.
     attempt (lift_op (decodePageToken (Query_Get r ''page_token''))) (\<lambda>_. writeError 400 ''invalid page_token'') (\<lambda>cursor.
     k \<lparr>PageSize = pageSize, Cursor = cursor\<rparr>))"

section \<open>What handlers share\<close>

text \<open>The guards that the handlers of the six kinds begin with.\<close>

definition with_name_value ::
  "string list \<Rightarrow> (string \<Rightarrow> ('db, 'ps, 'l) dash_step) \<Rightarrow> ('db, 'ps, 'l) dash_step" where
  "with_name_value vs k =
     (let name = PathValue vs in if name = [] then reply (writeError 400 ''name is required'') else k name)"

definition with_body :: "'q option \<Rightarrow> ('q \<Rightarrow> ('db, 'ps, 'l) dash_step) \<Rightarrow> ('db, 'ps, 'l) dash_step" where
  "with_body body k = (case body of None \<Rightarrow> reply (writeError 400 ''invalid request body'') | Some q \<Rightarrow> k q)"

definition with_spec ::
  "('db, 'ps, 'l) dashboard \<Rightarrow> (metadata \<times> 's) option \<Rightarrow> ('s \<Rightarrow> unit result) \<Rightarrow> (metadata \<Rightarrow> 's \<Rightarrow> ('db, 'ps, 'l) dash_step) \<Rightarrow> ('db, 'ps, 'l) dash_step" where
  "with_spec D body validate k =
     with_body body (\<lambda>(meta, spec).
       if meta_Name meta = [] then reply (writeError 400 ''metadata.name is required'')
       else attempt (lift_op (validate spec)) (error_of D 400) (\<lambda>_. k meta spec))"

section \<open>Resources\<close>

definition redactProxy :: "proxy \<Rightarrow> proxy" where
  "redactProxy p = (case proxy_Auth p of None \<Rightarrow> p | Some a \<Rightarrow> p\<lparr>proxy_Auth := Some (a\<lparr>auth_Pass := []\<rparr>)\<rparr>)"

definition redactProxies :: "proxy list \<Rightarrow> proxy list" where
  "redactProxies items = map redactProxy items"

text \<open>Durations that end in whole minutes lose their \<^verbatim>\<open>0s\<close>.\<close>

definition compactDuration :: "duration \<Rightarrow> string" where
  "compactDuration d =
     (let s = Duration_String d in if HasSuffix s ''m0s'' then take (length s - 2) s else s)"

definition mapBalancer :: "load_balancer \<Rightarrow> balancer_response" where
  "mapBalancer lb =
     \<lparr>br_Id = lb_Id lb, br_Title = lb_Title lb, br_Type = lb_Type lb, br_PoolId = lb_PoolId lb,
      br_ResetInterval = (if lb_Type lb = BalancerTypeLeastBytes \<and> lb_ResetInterval lb > 0
        then compactDuration (lb_ResetInterval lb) else []),
      br_CreatedAt = CreatedAt (lb_ts lb), br_UpdatedAt = UpdatedAt (lb_ts lb)\<rparr>"

definition parse_has_catch_all :: "string \<Rightarrow> bool option option" where
  "parse_has_catch_all raw =
     (if raw = [] then Some None
      else if raw = ''true'' \<or> raw = ''1'' then Some (Some True)
      else if raw = ''false'' \<or> raw = ''0'' then Some (Some False)
      else None)"

definition dash_listProxies :: "('db, 'ps, 'l) dashboard \<Rightarrow> ('db, 'ps, 'l) dash_handler" where
  "dash_listProxies D r ctx =
     (let protocol = Query_Get r ''protocol'' in
      if protocol \<noteq> [] \<and> \<not> Protocol_IsValid protocol
      then reply (writeError 400 ''protocol must be \"http\", \"https\", or \"socks5\"'')
      else with_page D r (\<lambda>params.
        attempt (dash_read (ListProxies (da_cp D) params
          \<lparr>pf_Search = Query_Get r ''search'', pf_Protocol = protocol, pf_Labels = []\<rparr>))
          (error_of D 500) (\<lambda>result.
        reply (writeJSON 200 (ProxiesBody (redactProxies (Items result)) (encodePageToken (NextCursor result)) (TotalCount result))))))"

definition dash_getProxy :: "('db, 'ps, 'l) dashboard \<Rightarrow> string list \<Rightarrow> ('db, 'ps, 'l) dash_handler" where
  "dash_getProxy D vs r ctx =
     with_name_value vs (\<lambda>name.
     attempt (dash_read (GetProxy (da_cp D) name)) (error_of D 404) (\<lambda>x.
     reply (writeJSON 200 (ProxyBody (redactProxy x)))))"

definition dash_applyProxy :: "('db, 'ps, 'l) dashboard \<Rightarrow> call_env \<Rightarrow> ('db, 'ps, 'l) dash_handler" where
  "dash_applyProxy D E r ctx =
     with_spec D (js_ApplyProxy (da_json D) (rq_Body r)) ProxySpecV1_Validate (\<lambda>meta spec.
     attempt (dash_cp (ApplyProxyV1 (da_libs D) (da_cp D) (env_ulid E) (env_now E) meta spec)) (writeCPError D) (\<lambda>x.
     reply (writeJSON 200 (ProxyBody (redactProxy x)))))"

definition dash_deleteProxy :: "('db, 'ps, 'l) dashboard \<Rightarrow> string list \<Rightarrow> ('db, 'ps, 'l) dash_handler" where
  "dash_deleteProxy D vs r ctx =
     with_name_value vs (\<lambda>name.
     attempt (dash_cp (DeleteProxy (da_cp D) name)) (writeCPError D) (\<lambda>_. reply no_content))"

definition dash_listPools :: "('db, 'ps, 'l) dashboard \<Rightarrow> ('db, 'ps, 'l) dash_handler" where
  "dash_listPools D r ctx =
     (let t = Query_Get r ''type'' in
      if t \<noteq> [] \<and> t \<noteq> PoolTypeStatic \<and> t \<noteq> PoolTypeDynamic
      then reply (writeError 400 ''type must be \"static\" or \"dynamic\"'')
      else with_page D r (\<lambda>params.
        attempt (dash_read (ListPools (da_cp D) params
          \<lparr>plf_Search = Query_Get r ''search'', plf_Type = t, plf_ProxyId = []\<rparr>))
          (error_of D 500) (\<lambda>result.
        reply (writeJSON 200 (PoolsBody (Items result) (encodePageToken (NextCursor result)) (TotalCount result))))))"

definition dash_getPool :: "('db, 'ps, 'l) dashboard \<Rightarrow> string list \<Rightarrow> ('db, 'ps, 'l) dash_handler" where
  "dash_getPool D vs r ctx =
     with_name_value vs (\<lambda>name.
     attempt (dash_read (GetPool (da_cp D) name)) (error_of D 404) (\<lambda>x.
     reply (writeJSON 200 (PoolBody x))))"

definition dash_applyPool :: "('db, 'ps, 'l) dashboard \<Rightarrow> call_env \<Rightarrow> ('db, 'ps, 'l) dash_handler" where
  "dash_applyPool D E r ctx =
     with_spec D (js_ApplyPool (da_json D) (rq_Body r)) PoolSpecV1_Validate (\<lambda>meta spec.
     attempt (dash_cp (ApplyPoolV1 (da_cp D) (env_ulid E) (env_now E) meta spec)) (writeCPError D) (\<lambda>x.
     reply (writeJSON 200 (PoolBody x))))"

definition dash_deletePool :: "('db, 'ps, 'l) dashboard \<Rightarrow> string list \<Rightarrow> ('db, 'ps, 'l) dash_handler" where
  "dash_deletePool D vs r ctx =
     with_name_value vs (\<lambda>name.
     attempt (dash_cp (DeletePool (da_cp D) name)) (writeCPError D) (\<lambda>_. reply no_content))"

definition dash_listBalancers :: "('db, 'ps, 'l) dashboard \<Rightarrow> ('db, 'ps, 'l) dash_handler" where
  "dash_listBalancers D r ctx =
     (let t = Query_Get r ''type'' in
      if t \<noteq> [] \<and> \<not> BalancerType_IsValid t
      then reply (writeError 400 ''type must be \"round-robin\", \"weighted\", or \"least-bytes\"'')
      else with_page D r (\<lambda>params.
        attempt (dash_read (ListBalancers (da_cp D) params
          \<lparr>bf_Search = Query_Get r ''search'', bf_Type = t, bf_PoolId = Query_Get r ''pool_id''\<rparr>))
          (error_of D 500) (\<lambda>result.
        reply (writeJSON 200 (BalancersBody (map mapBalancer (Items result)) (encodePageToken (NextCursor result)) (TotalCount result))))))"

definition dash_getBalancer :: "('db, 'ps, 'l) dashboard \<Rightarrow> string list \<Rightarrow> ('db, 'ps, 'l) dash_handler" where
  "dash_getBalancer D vs r ctx =
     with_name_value vs (\<lambda>name.
     attempt (dash_read (GetBalancer (da_cp D) name)) (error_of D 404) (\<lambda>x.
     reply (writeJSON 200 (BalancerBody (mapBalancer x)))))"

definition dash_applyBalancer :: "('db, 'ps, 'l) dashboard \<Rightarrow> call_env \<Rightarrow> ('db, 'ps, 'l) dash_handler" where
  "dash_applyBalancer D E r ctx =
     with_spec D (js_ApplyBalancer (da_json D) (rq_Body r)) (BalancerSpecV1_Validate (lib_ParseDuration (da_libs D))) (\<lambda>meta spec.
     attempt (dash_cp (ApplyBalancerV1 (da_libs D) (da_cp D) (env_ulid E) (env_now E) meta spec)) (writeCPError D) (\<lambda>x.
     reply (writeJSON 200 (BalancerBody (mapBalancer x)))))"

definition dash_deleteBalancer :: "('db, 'ps, 'l) dashboard \<Rightarrow> string list \<Rightarrow> ('db, 'ps, 'l) dash_handler" where
  "dash_deleteBalancer D vs r ctx =
     with_name_value vs (\<lambda>name.
     attempt (dash_cp (DeleteBalancer (da_cp D) name)) (writeCPError D) (\<lambda>_. reply no_content))"

definition dash_listRouters :: "('db, 'ps, 'l) dashboard \<Rightarrow> ('db, 'ps, 'l) dash_handler" where
  "dash_listRouters D r ctx =
     (with_page D r (\<lambda>params.
        case parse_has_catch_all (Query_Get r ''has_catch_all'') of
          None \<Rightarrow> reply (writeError 400 ''has_catch_all must be \"true\" or \"false\"'')
        | Some hasCatchAll \<Rightarrow>
        attempt (dash_read (ListRouters (da_cp D) params
          \<lparr>rf_Search = Query_Get r ''search'', rf_TargetBalancerId = Query_Get r ''target'', rf_HasCatchAll = hasCatchAll\<rparr>))
          (error_of D 500) (\<lambda>result.
        reply (writeJSON 200 (RoutersBody (Items result) (encodePageToken (NextCursor result)) (TotalCount result))))))"

definition dash_getRouter :: "('db, 'ps, 'l) dashboard \<Rightarrow> string list \<Rightarrow> ('db, 'ps, 'l) dash_handler" where
  "dash_getRouter D vs r ctx =
     with_name_value vs (\<lambda>name.
     attempt (dash_read (GetRouter (da_cp D) name)) (error_of D 404) (\<lambda>x.
     reply (writeJSON 200 (RouterBody x))))"

definition dash_applyRouter :: "('db, 'ps, 'l) dashboard \<Rightarrow> call_env \<Rightarrow> ('db, 'ps, 'l) dash_handler" where
  "dash_applyRouter D E r ctx =
     with_spec D (js_ApplyRouter (da_json D) (rq_Body r)) RouterSpecV1_Validate (\<lambda>meta spec.
     attempt (dash_cp (ApplyRouterV1 (da_libs D) (da_cp D) (env_ulid E) (env_now E) meta spec)) (writeCPError D) (\<lambda>x.
     reply (writeJSON 200 (RouterBody x))))"

definition dash_deleteRouter :: "('db, 'ps, 'l) dashboard \<Rightarrow> string list \<Rightarrow> ('db, 'ps, 'l) dash_handler" where
  "dash_deleteRouter D vs r ctx =
     with_name_value vs (\<lambda>name.
     attempt (dash_cp (DeleteRouter (da_cp D) name)) (writeCPError D) (\<lambda>_. reply no_content))"

definition dash_listFlows :: "('db, 'ps, 'l) dashboard \<Rightarrow> ('db, 'ps, 'l) dash_handler" where
  "dash_listFlows D r ctx =
     (let mode = Query_Get r ''mode'' in
      if mode \<noteq> [] \<and> mode \<noteq> ''router'' \<and> mode \<noteq> ''direct''
      then reply (writeError 400 ''mode must be \"router\" or \"direct\"'')
      else with_page D r (\<lambda>params.
        attempt (dash_read (ListFlows (da_cp D) params
          \<lparr>ff_Search = Query_Get r ''search'', ff_RouterId = Query_Get r ''router_id'', ff_BalancerId = Query_Get r ''balancer_id'', ff_Mode = mode\<rparr>))
          (error_of D 500) (\<lambda>result.
        reply (writeJSON 200 (FlowsBody (Items result) (encodePageToken (NextCursor result)) (TotalCount result))))))"

definition dash_getFlow :: "('db, 'ps, 'l) dashboard \<Rightarrow> string list \<Rightarrow> ('db, 'ps, 'l) dash_handler" where
  "dash_getFlow D vs r ctx =
     with_name_value vs (\<lambda>name.
     attempt (dash_read (GetFlow (da_cp D) name)) (error_of D 404) (\<lambda>x.
     reply (writeJSON 200 (FlowBody x))))"

definition dash_applyFlow :: "('db, 'ps, 'l) dashboard \<Rightarrow> call_env \<Rightarrow> ('db, 'ps, 'l) dash_handler" where
  "dash_applyFlow D E r ctx =
     with_spec D (js_ApplyFlow (da_json D) (rq_Body r)) FlowSpecV1_Validate (\<lambda>meta spec.
     attempt (dash_cp (ApplyFlowV1 (da_cp D) (env_ulid E) (env_now E) meta spec)) (writeCPError D) (\<lambda>x.
     reply (writeJSON 200 (FlowBody x))))"

definition dash_deleteFlow :: "('db, 'ps, 'l) dashboard \<Rightarrow> string list \<Rightarrow> ('db, 'ps, 'l) dash_handler" where
  "dash_deleteFlow D vs r ctx =
     with_name_value vs (\<lambda>name.
     attempt (dash_cp (DeleteFlow (da_cp D) name)) (writeCPError D) (\<lambda>_. reply no_content))"

definition dash_listEntrypoints :: "('db, 'ps, 'l) dashboard \<Rightarrow> ('db, 'ps, 'l) dash_handler" where
  "dash_listEntrypoints D r ctx =
     (with_page D r (\<lambda>params.
        attempt (dash_read (ListEntrypoints (da_cp D) params
          \<lparr>ef_Search = Query_Get r ''search'', ef_Protocol = Query_Get r ''protocol'', ef_Host = Query_Get r ''host'', ef_FlowId = Query_Get r ''flow_id''\<rparr>))
          (error_of D 500) (\<lambda>result.
        reply (writeJSON 200 (EntrypointsBody (Items result) (encodePageToken (NextCursor result)) (TotalCount result))))))"

definition dash_getEntrypoint :: "('db, 'ps, 'l) dashboard \<Rightarrow> string list \<Rightarrow> ('db, 'ps, 'l) dash_handler" where
  "dash_getEntrypoint D vs r ctx =
     with_name_value vs (\<lambda>name.
     attempt (dash_read (GetEntrypoint (da_cp D) name)) (error_of D 404) (\<lambda>x.
     reply (writeJSON 200 (EntrypointBody x))))"

definition dash_applyEntrypoint :: "('db, 'ps, 'l) dashboard \<Rightarrow> call_env \<Rightarrow> ('db, 'ps, 'l) dash_handler" where
  "dash_applyEntrypoint D E r ctx =
     with_spec D (js_ApplyEntrypoint (da_json D) (rq_Body r)) EntrypointSpecV1_Validate (\<lambda>meta spec.
     attempt (dash_cp (ApplyEntrypointV1 (da_cp D) (env_ulid E) (env_now E) meta spec)) (writeCPError D) (\<lambda>x.
     reply (writeJSON 200 (EntrypointBody x))))"

definition dash_deleteEntrypoint :: "('db, 'ps, 'l) dashboard \<Rightarrow> string list \<Rightarrow> ('db, 'ps, 'l) dash_handler" where
  "dash_deleteEntrypoint D vs r ctx =
     with_name_value vs (\<lambda>name.
     attempt (dash_cp (DeleteEntrypoint (da_cp D) name)) (writeCPError D) (\<lambda>_. reply no_content))"

section \<open>Sessions\<close>

definition sessionCookieName :: string where "sessionCookieName = ''pgway_token''"

definition setSessionCookie :: "web_request \<Rightarrow> string \<Rightarrow> int \<Rightarrow> bool \<Rightarrow> dash_body web_response \<Rightarrow> dash_body web_response" where
  "setSessionCookie r token ttlSeconds noExpiry resp =
     resp\<lparr>rs_Cookies := rs_Cookies resp @
       [\<lparr>ck_Name = sessionCookieName, ck_Value = token, ck_Path = ''/'', ck_HttpOnly = True, ck_SameSite = ''Lax'',
         ck_Secure = rq_TLS r, ck_MaxAge = (if \<not> noExpiry \<and> ttlSeconds > 0 then ttlSeconds else 0)\<rparr>]\<rparr>"

definition clearSessionCookie :: "web_request \<Rightarrow> dash_body web_response \<Rightarrow> dash_body web_response" where
  "clearSessionCookie r resp =
     resp\<lparr>rs_Cookies := rs_Cookies resp @
       [\<lparr>ck_Name = sessionCookieName, ck_Value = [], ck_Path = ''/'', ck_HttpOnly = True, ck_SameSite = ''Lax'',
         ck_Secure = rq_TLS r, ck_MaxAge = -1\<rparr>]\<rparr>"

definition user_response_of :: "user \<Rightarrow> user_response" where
  "user_response_of u = \<lparr>ur_ID = user_Id u, ur_Role = user_Role u\<rparr>"

definition missing_authorization :: "dash_body web_response" where
  "missing_authorization = writeError 401 ''missing or invalid authorization''"

definition dash_login :: "('db, 'ps, 'l) dashboard \<Rightarrow> call_env \<Rightarrow> ('db, 'ps, 'l) dash_handler" where
  "dash_login D E r ctx =
     (case da_authManager D of
        None \<Rightarrow> reply (writeError 503 ''auth not configured'')
      | Some authManager \<Rightarrow>
          with_body (js_Login (da_json D) (rq_Body r)) (\<lambda>req.
          if lq_Username req = [] \<or> lq_Password req = [] then reply (writeError 400 ''username and password are required'')
          else
            let ttl = wrap64 (lq_TTLSeconds req * Second) in
            attempt (dash_auth (Login (da_crypto D) authManager (env_now E) (env_random E)
                       (lq_Username req) (lq_Password req) ttl (lq_NoExpiry req))) (writeAuthError D) (\<lambda>token.
            attempt (dash_store (Authenticate (da_crypto D) (da_authenticator D) (env_now E) token))
              (\<lambda>_. writeError 500 ''failed to resolve session'') (\<lambda>principal.
            case principal_User principal of
              None \<Rightarrow> reply (writeError 500 ''failed to resolve session'')
            | Some u \<Rightarrow>
                reply (setSessionCookie r token (lq_TTLSeconds req) (lq_NoExpiry req)
                  (writeJSON 200 (LoginBody token (user_response_of u))))))))"

definition dash_logout :: "('db, 'ps, 'l) dashboard \<Rightarrow> ('db, 'ps, 'l) dash_handler" where
  "dash_logout D r ctx =
     (case da_authManager D of
        None \<Rightarrow> reply (writeError 503 ''auth not configured'')
      | Some authManager \<Rightarrow>
          (case ctx_token ctx of
             None \<Rightarrow> reply missing_authorization
           | Some token \<Rightarrow>
               attempt (dash_auth (Logout (da_crypto D) authManager token)) (writeAuthError D) (\<lambda>_.
               reply (clearSessionCookie r no_content))))"

text \<open>The user of the call context.\<close>

definition context_user :: "call_ctx \<Rightarrow> user option" where
  "context_user ctx = Option.bind (ctx_principal ctx) principal_User"

definition dash_me :: "('db, 'ps, 'l) dashboard \<Rightarrow> ('db, 'ps, 'l) dash_handler" where
  "dash_me D r ctx =
     (case context_user ctx of
        None \<Rightarrow> reply missing_authorization
      | Some u \<Rightarrow> reply (writeJSON 200 (MeBody (user_response_of u))))"

section \<open>Users\<close>

definition dash_requireAdmin :: "call_ctx \<Rightarrow> ('db, 'ps, 'l) dash_step \<Rightarrow> ('db, 'ps, 'l) dash_step" where
  "dash_requireAdmin ctx k =
     (case context_user ctx of
        Some u \<Rightarrow> if IsAdmin u then k else reply (writeError 403 ''admin role required'')
      | None \<Rightarrow> reply (writeError 403 ''admin role required''))"

definition with_users ::
  "('db, 'ps, 'l) dashboard \<Rightarrow> ('db auth_service \<Rightarrow> ('db, 'ps, 'l) dash_step) \<Rightarrow> ('db, 'ps, 'l) dash_step" where
  "with_users D k = (case da_users D of None \<Rightarrow> reply (writeError 503 ''users not configured'') | Some users \<Rightarrow> k users)"

definition toUserDetail :: "('db, 'ps, 'l) dashboard \<Rightarrow> user \<Rightarrow> user_detail" where
  "toUserDetail D u =
     \<lparr>ud_ID = user_Id u, ud_Role = user_Role u,
      ud_CreatedAt = (if IsZero (CreatedAt (user_ts u)) then [] else da_RFC3339 D (CreatedAt (user_ts u))),
      ud_UpdatedAt = (if IsZero (UpdatedAt (user_ts u)) then [] else da_RFC3339 D (UpdatedAt (user_ts u)))\<rparr>"

definition dash_listUsers :: "('db, 'ps, 'l) dashboard \<Rightarrow> ('db, 'ps, 'l) dash_handler" where
  "dash_listUsers D r ctx =
     dash_requireAdmin ctx (with_users D (\<lambda>users.
       let role = Query_Get r ''role'' in
       if role \<noteq> [] \<and> \<not> Role_IsValid role then reply (writeError 400 ''role must be \"admin\" or \"member\"'')
       else with_page D r (\<lambda>params.
         attempt (dash_read (ListUsers users params \<lparr>uf_Search = Query_Get r ''search'', uf_Role = role\<rparr>)) (error_of D 500) (\<lambda>result.
         reply (writeJSON 200 (UsersBody (map (toUserDetail D) (Items result)) (encodePageToken (NextCursor result)) (TotalCount result)))))))"

definition dash_createUser :: "('db, 'ps, 'l) dashboard \<Rightarrow> call_env \<Rightarrow> ('db, 'ps, 'l) dash_handler" where
  "dash_createUser D E r ctx =
     dash_requireAdmin ctx (with_users D (\<lambda>users.
       with_body (js_CreateUser (da_json D) (rq_Body r)) (\<lambda>req.
       if TrimSpace (uq_Username req) = [] then reply (writeError 400 ''username is required'')
       else if uq_Role req \<noteq> [] \<and> \<not> Role_IsValid (uq_Role req) then reply (writeError 400 ''role must be \"admin\" or \"member\"'')
       else
         attempt (dash_auth (CreateUser (da_crypto D) users (env_now E) (env_text E) (uq_Username req) (uq_Password req) (uq_Role req)))
           (writeUserError D) (\<lambda>(user, generated).
         reply (writeJSON 201 (CreatedUserBody (toUserDetail D user) generated))))))"

definition dash_deleteUser :: "('db, 'ps, 'l) dashboard \<Rightarrow> string list \<Rightarrow> ('db, 'ps, 'l) dash_handler" where
  "dash_deleteUser D vs r ctx =
     dash_requireAdmin ctx (with_users D (\<lambda>users.
       let username = PathValue vs in
       if username = [] then reply (writeError 400 ''username is required'')
       else attempt (dash_auth (DeleteUser users username)) (writeUserError D) (\<lambda>_. reply no_content)))"

definition dash_changeUserPassword :: "('db, 'ps, 'l) dashboard \<Rightarrow> call_env \<Rightarrow> string list \<Rightarrow> ('db, 'ps, 'l) dash_handler" where
  "dash_changeUserPassword D E vs r ctx =
     with_users D (\<lambda>users.
       case context_user ctx of
         None \<Rightarrow> reply missing_authorization
       | Some actor \<Rightarrow>
           let username = PathValue vs in
           if username = [] then reply (writeError 400 ''username is required'')
           else with_body (js_ChangePassword (da_json D) (rq_Body r)) (\<lambda>req.
             if pq_NewPassword req = [] then reply (writeError 400 ''new_password is required'')
             else if pq_OldPassword req = [] then
               if \<not> IsAdmin actor then
                 if username \<noteq> user_Id actor then reply (writeError 403 ''admin role required'')
                 else reply (writeError 400 ''old_password is required'')
               else attempt (dash_auth (ResetPassword (da_crypto D) users (env_now E) username (pq_NewPassword req)))
                      (writeUserError D) (\<lambda>_. reply no_content)
             else if username \<noteq> user_Id actor then reply (writeError 403 ''old_password can only be used for your own account'')
             else attempt (dash_auth (ChangePassword (da_crypto D) users (env_now E) username (pq_OldPassword req) (pq_NewPassword req)))
                    (writeUserError D) (\<lambda>_. reply no_content)))"

section \<open>Agents\<close>

definition agent_item_of :: "('db, 'ps, 'l) dashboard \<Rightarrow> time \<Rightarrow> agent \<Rightarrow> agent_item" where
  "agent_item_of D now a =
     \<lparr>ai_ID = agent_Id a, ai_Status = agent_status_text (Agent_Status a now (da_heartbeatThreshold D)),
      ai_Hostname = agent_Hostname a, ai_Version = agent_Version a, ai_Labels = agent_Labels a,
      ai_LastHeartbeat = agent_LastHeartbeat a, ai_CreatedAt = CreatedAt (agent_ts a), ai_UpdatedAt = UpdatedAt (agent_ts a)\<rparr>"

definition dash_listAgents :: "('db, 'ps, 'l) dashboard \<Rightarrow> call_env \<Rightarrow> ('db, 'ps, 'l) dash_handler" where
  "dash_listAgents D E r ctx =
     (case da_agents D of
        None \<Rightarrow> reply (writeError 501 ''agents not available'')
      | Some agents \<Rightarrow>
          with_page D r (\<lambda>params.
          attempt (dash_read (ListAgents agents params \<lparr>af_Search = Query_Get r ''search'', af_Labels = []\<rparr>)) (error_of D 500) (\<lambda>result.
          reply (writeJSON 200 (AgentsBody (map (agent_item_of D (env_now E)) (Items result))
            (encodePageToken (NextCursor result)) (TotalCount result))))))"

section \<open>Middleware\<close>

definition cors_headers :: "('db, 'ps, 'l) dashboard \<Rightarrow> web_request \<Rightarrow> header" where
  "cors_headers D r =
     (let allowed = filter (\<lambda>o'. o' \<noteq> []) (map TrimSpace (da_CORSAllowOrigins D));
          origin = Header_Get (rq_Header r) ''Origin''
      in if origin \<noteq> [] \<and> origin \<in> set allowed then
           [(''Access-Control-Allow-Origin'', [origin]), (''Vary'', [''Origin'']), (''Access-Control-Allow-Credentials'', [''true'']),
            (''Access-Control-Allow-Methods'', [''GET, POST, PUT, DELETE, OPTIONS'']),
            (''Access-Control-Allow-Headers'', [''Content-Type, Authorization'']), (''Access-Control-Max-Age'', [''86400''])]
         else [])"

definition dash_cors :: "('db, 'ps, 'l) dashboard \<Rightarrow> ('db, 'ps, 'l) dash_handler \<Rightarrow> ('db, 'ps, 'l) dash_handler" where
  "dash_cors D next r ctx w =
     (case (if rq_Method r = MethodOptions then (no_content, w) else next r ctx w) of
        (resp, w) \<Rightarrow> (resp\<lparr>rs_Header := cors_headers D r @ rs_Header resp\<rparr>, w))"

definition isPublicPath :: "web_request \<Rightarrow> bool" where
  "isPublicPath r \<longleftrightarrow>
     (if HasPrefix (rq_Path r) ''/api/'' then rq_Method r = MethodPost \<and> rq_Path r = ''/api/v1/auth/login'' else True)"

definition dash_bearerToken :: "string \<Rightarrow> string option" where
  "dash_bearerToken header =
     (case index_byte CHR '' '' header of
        None \<Rightarrow> None
      | Some i \<Rightarrow>
          if \<not> EqualFold (take i header) ''Bearer'' then None
          else let token = TrimSpace (drop (i + 1) header) in if token = [] then None else Some token)"

definition requestToken :: "web_request \<Rightarrow> string option" where
  "requestToken r =
     (case dash_bearerToken (Header_Get (rq_Header r) ''Authorization'') of
        Some token \<Rightarrow> Some token
      | None \<Rightarrow>
          (case map_of (rq_Cookies r) sessionCookieName of
             None \<Rightarrow> None
           | Some v \<Rightarrow> if v = [] then None else Some v))"

definition auth_middleware :: "('db, 'ps, 'l) dashboard \<Rightarrow> call_env \<Rightarrow> ('db, 'ps, 'l) dash_handler \<Rightarrow> ('db, 'ps, 'l) dash_handler" where
  "auth_middleware D E next r ctx =
     (if isPublicPath r then next r ctx
      else case requestToken r of
          None \<Rightarrow> reply missing_authorization
        | Some token \<Rightarrow>
            attempt (dash_store (Authenticate (da_crypto D) (da_authenticator D) (env_now E) token))
              (\<lambda>_. writeError 401 ''invalid or expired token'') (\<lambda>principal.
            if Principal_Kind (Some principal) \<noteq> PrincipalKindUser then reply (writeError 403 ''user principal required'')
            else next r \<lparr>ctx_principal = Some principal, ctx_token = Some token\<rparr>))"

definition ipLimitKey :: "web_request \<Rightarrow> call_ctx \<Rightarrow> string" where
  "ipLimitKey r ctx =
     (let host = (case SplitHostPort (rq_RemoteAddr r) of Inl _ \<Rightarrow> rq_RemoteAddr r | Inr (h, _) \<Rightarrow> h)
      in if host \<noteq> [] then ''ip:'' @ host else ''anon'')"

definition userLimitKey :: "web_request \<Rightarrow> call_ctx \<Rightarrow> string" where
  "userLimitKey r ctx =
     (case context_user ctx of
        Some u \<Rightarrow> if user_Id u \<noteq> [] then ''user:'' @ user_Id u else ipLimitKey r ctx
      | None \<Rightarrow> ipLimitKey r ctx)"

text \<open>The registry of a stage is read and written back by \<open>get\<close> and \<open>put\<close>.\<close>

definition rateLimit ::
  "('db, 'ps, 'l) dashboard \<Rightarrow> call_env \<Rightarrow> (('db, 'ps, 'l) dash_world \<Rightarrow> 'l limiter_registry) \<Rightarrow>
   ('l limiter_registry \<Rightarrow> ('db, 'ps, 'l) dash_world \<Rightarrow> ('db, 'ps, 'l) dash_world) \<Rightarrow>
   (web_request \<Rightarrow> call_ctx \<Rightarrow> string) \<Rightarrow> ('db, 'ps, 'l) dash_handler \<Rightarrow> ('db, 'ps, 'l) dash_handler" where
  "rateLimit D E get put keyFn next r ctx w =
     (if da_RateLimitRPS D \<le> 0 then next r ctx w
      else case allow (da_rate D) (env_now E) (keyFn r ctx) (get w) of
          (ok, R) \<Rightarrow> if \<not> ok then (writeError 429 ''rate limit exceeded'', put R w) else next r ctx (put R w))"

definition recovery :: "('db, 'ps, 'l) dash_handler \<Rightarrow> ('db, 'ps, 'l) dash_handler" where
  "recovery next r ctx w =
     (case next r ctx w of
        (resp, w) \<Rightarrow>
          if rs_Panicked resp
          then ((writeError 500 ''internal server error'')\<lparr>rs_Header := rs_Header resp @ rs_Header (writeError 500 [])\<rparr>, w)
          else (resp, w))"

definition logging :: "('db, 'ps, 'l) dash_handler \<Rightarrow> ('db, 'ps, 'l) dash_handler" where
  "logging next r ctx w =
     (case next r ctx w of
        (resp, w) \<Rightarrow> (resp, w\<lparr>d_log := d_log w @ [(rq_Method r, rq_Path r, rs_Status resp)]\<rparr>))"

section \<open>Static files\<close>

text \<open>\<^verbatim>\<open>http.ServeFileFS\<close>, of which the file system gives status and headers: the file, or a redirect or refusal in its place.\<close>

definition file_response :: "static_fs \<Rightarrow> web_request \<Rightarrow> string \<Rightarrow> dash_body web_response" where
  "file_response F r name =
     (plain_response (fst (fs_ServeFile F r name)) (FileBody name))\<lparr>rs_Header := snd (fs_ServeFile F r name)\<rparr>"

definition serveSPA :: "static_fs \<Rightarrow> ('db, 'ps, 'l) dash_handler" where
  "serveSPA F r ctx =
     (let name = TrimPrefix (rq_Path r) ''/'';
          name = (if name = [] \<or> HasSuffix name ''/'' then ''index.html'' else name)
      in if fs_Stat F name then reply (file_response F r name)
         else if fs_Stat F ''index.html'' then reply (file_response F r ''index.html'')
         else reply (NotFound TextBody))"

definition withSPA :: "static_fs \<Rightarrow> ('db, 'ps, 'l) dash_handler \<Rightarrow> ('db, 'ps, 'l) dash_handler" where
  "withSPA F api r ctx =
     (if HasPrefix (rq_Path r) ''/api/'' then api r ctx
      else if rq_Method r = MethodGet \<or> rq_Method r = MethodHead then serveSPA F r ctx
      else api r ctx)"

section \<open>Routes\<close>

definition api_path :: "segment list \<Rightarrow> segment list" where
  "api_path ss = Lit ''api'' # Lit ''v1'' # ss"

definition dash_routes :: "('db, 'ps, 'l) dashboard \<Rightarrow> call_env \<Rightarrow> (('db, 'ps, 'l) dash_world, dash_body) route list" where
  "dash_routes D E = map (\<lambda>(m, p, h). \<lparr>rt_Method = m, rt_Path = api_path p, rt_Handler = h\<rparr>)
     [(MethodPost, [Lit ''auth'', Lit ''login''], \<lambda>_. dash_login D E),
      (MethodPost, [Lit ''auth'', Lit ''logout''], \<lambda>_. dash_logout D),
      (MethodGet, [Lit ''auth'', Lit ''me''], \<lambda>_. dash_me D),
      (MethodGet, [Lit ''agents''], \<lambda>_. dash_listAgents D E),
      (MethodGet, [Lit ''users''], \<lambda>_. dash_listUsers D),
      (MethodPost, [Lit ''users''], \<lambda>_. dash_createUser D E),
      (MethodDelete, [Lit ''users'', Wild], dash_deleteUser D),
      (MethodPost, [Lit ''users'', Wild, Lit ''password''], dash_changeUserPassword D E),
      (MethodGet, [Lit ''proxies''], \<lambda>_. dash_listProxies D),
      (MethodGet, [Lit ''proxies'', Wild], dash_getProxy D),
      (MethodPost, [Lit ''proxies''], \<lambda>_. dash_applyProxy D E),
      (MethodDelete, [Lit ''proxies'', Wild], dash_deleteProxy D),
      (MethodGet, [Lit ''pools''], \<lambda>_. dash_listPools D),
      (MethodGet, [Lit ''pools'', Wild], dash_getPool D),
      (MethodPost, [Lit ''pools''], \<lambda>_. dash_applyPool D E),
      (MethodDelete, [Lit ''pools'', Wild], dash_deletePool D),
      (MethodGet, [Lit ''balancers''], \<lambda>_. dash_listBalancers D),
      (MethodGet, [Lit ''balancers'', Wild], dash_getBalancer D),
      (MethodPost, [Lit ''balancers''], \<lambda>_. dash_applyBalancer D E),
      (MethodDelete, [Lit ''balancers'', Wild], dash_deleteBalancer D),
      (MethodGet, [Lit ''routers''], \<lambda>_. dash_listRouters D),
      (MethodGet, [Lit ''routers'', Wild], dash_getRouter D),
      (MethodPost, [Lit ''routers''], \<lambda>_. dash_applyRouter D E),
      (MethodDelete, [Lit ''routers'', Wild], dash_deleteRouter D),
      (MethodGet, [Lit ''flows''], \<lambda>_. dash_listFlows D),
      (MethodGet, [Lit ''flows'', Wild], dash_getFlow D),
      (MethodPost, [Lit ''flows''], \<lambda>_. dash_applyFlow D E),
      (MethodDelete, [Lit ''flows'', Wild], dash_deleteFlow D),
      (MethodGet, [Lit ''entrypoints''], \<lambda>_. dash_listEntrypoints D),
      (MethodGet, [Lit ''entrypoints'', Wild], dash_getEntrypoint D),
      (MethodPost, [Lit ''entrypoints''], \<lambda>_. dash_applyEntrypoint D E),
      (MethodDelete, [Lit ''entrypoints'', Wild], dash_deleteEntrypoint D)]"

definition dash_mux :: "('db, 'ps, 'l) dashboard \<Rightarrow> call_env \<Rightarrow> ('db, 'ps, 'l) dash_handler" where
  "dash_mux D E = ServeMux NoBody TextBody (dash_routes D E)"

definition put_user :: "'l limiter_registry \<Rightarrow> ('db, 'ps, 'l) dash_world \<Rightarrow> ('db, 'ps, 'l) dash_world" where
  "put_user R w = w\<lparr>d_user := R\<rparr>"

definition put_ip :: "'l limiter_registry \<Rightarrow> ('db, 'ps, 'l) dash_world \<Rightarrow> ('db, 'ps, 'l) dash_world" where
  "put_ip R w = w\<lparr>d_ip := R\<rparr>"

definition routes :: "('db, 'ps, 'l) dashboard \<Rightarrow> call_env \<Rightarrow> ('db, 'ps, 'l) dash_handler" where
  "routes D E =
     (let handler = (case da_staticFS D of None \<Rightarrow> dash_mux D E | Some F \<Rightarrow> withSPA F (dash_mux D E));
          handler = rateLimit D E d_user put_user userLimitKey handler;
          handler = auth_middleware D E handler;
          handler = rateLimit D E d_ip put_ip ipLimitKey handler;
          handler = dash_cors D handler;
          handler = recovery handler
      in logging handler)"

text \<open>
  A request starts with an empty call context.  The library server refuses one whose path does not
  decode.
\<close>

definition serve_web :: "('db, 'ps, 'l) dashboard \<Rightarrow> call_env \<Rightarrow> web_request \<Rightarrow> ('db, 'ps, 'l) dash_step" where
  "serve_web D E r =
     (if unescape (rq_EscapedPath r) = None then reply (plain_response 400 NoBody) else routes D E r no_ctx)"

end
