(* ===== verification/Dashboard_Safety.thy ===== *)
theory Dashboard_Safety
  imports Dashboard Auth_Safety
begin

text \<open>
  What the dashboard lets its clients do and see: every request is made by a user who may make it, or
  turned away without effect; no answer holds the password of a proxy; an edit of a proxy that leaves
  its credentials out keeps them; the session cookie lives as long as its session.
\<close>

section \<open>What handlers answer\<close>

text \<open>\<open>answers P step\<close>: whatever the state, the body of the answer satisfies \<open>P\<close>.\<close>

definition answers :: "(dash_body \<Rightarrow> bool) \<Rightarrow> ('db, 'ps, 'l) dash_step \<Rightarrow> bool" where
  "answers P step \<longleftrightarrow> (\<forall>w. P (rs_Body (fst (step w))))"

named_theorems answers_intros "rules for the body of an answer"

lemma body_simps [simp]:
  "rs_Body (writeJSON code body) = body" "rs_Body (writeError code msg) = ErrorBody msg" "rs_Body no_content = NoBody"
  "rs_Body panicked = NoBody" "rs_Body (error_of D code e) = ErrorBody (error_text (da_Quote D) e)"
  "rs_Body (plain_response code body) = body" "rs_Body missing_authorization = ErrorBody ''missing or invalid authorization''"
  "rs_Body (set_header k v resp) = rs_Body resp" "rs_Body (NotFound text) = text (''404 page not found'' @ [char_of (10 :: nat)])"
  "rs_Body (http_Error text msg code) = text (msg @ [char_of (10 :: nat)])" "rs_Body (file_response F r name) = FileBody name"
  "rs_Body (setSessionCookie r token ttl noExpiry resp) = rs_Body resp" "rs_Body (clearSessionCookie r resp) = rs_Body resp"
  by (simp_all add: writeJSON_def writeError_def no_content_def panicked_def error_of_def plain_response_def missing_authorization_def
      set_header_def NotFound_def http_Error_def file_response_def setSessionCookie_def clearSessionCookie_def)

lemma panicked_simps [simp]:
  "\<not> rs_Panicked (writeJSON code body)" "\<not> rs_Panicked (writeError code msg)" "\<not> rs_Panicked no_content"
  "\<not> rs_Panicked (error_of D code e)" "\<not> rs_Panicked (plain_response code body)" "\<not> rs_Panicked missing_authorization"
  "rs_Panicked (set_header k v resp) = rs_Panicked resp" "\<not> rs_Panicked (NotFound text)" "\<not> rs_Panicked (http_Error text msg code)"
  "\<not> rs_Panicked (file_response F r name)" "rs_Panicked panicked"
  by (simp_all add: writeJSON_def writeError_def no_content_def panicked_def error_of_def plain_response_def missing_authorization_def
      set_header_def NotFound_def http_Error_def file_response_def)

lemma reply_apply [simp]: "reply resp w = (resp, w)"
  by (simp add: reply_def)

lemma answers_reply [answers_intros]: "P (rs_Body resp) \<Longrightarrow> answers P (reply resp)"
  by (simp add: answers_def)

lemma answers_attempt [answers_intros]:
  "P NoBody \<Longrightarrow> (\<And>e. P (rs_Body (write e))) \<Longrightarrow> (\<And>x. answers P (k x)) \<Longrightarrow> answers P (attempt m write k)"
  by (auto simp: answers_def attempt_def split: prod.splits sum.splits)

lemma answers_if [answers_intros]: "(b \<Longrightarrow> answers P s) \<Longrightarrow> (\<not> b \<Longrightarrow> answers P t) \<Longrightarrow> answers P (if b then s else t)"
  by simp

lemma answers_option [answers_intros]:
  "answers P s \<Longrightarrow> (\<And>x. answers P (f x)) \<Longrightarrow> answers P (case v of None \<Rightarrow> s | Some x \<Rightarrow> f x)"
  by (cases v) simp_all

lemma answers_prod [answers_intros]: "(\<And>x y. answers P (f x y)) \<Longrightarrow> answers P (case v of (x, y) \<Rightarrow> f x y)"
  by (cases v) simp

lemmas handler_defs = with_name_value_def with_body_def with_spec_def with_page_def Let_def
  dash_requireAdmin_def with_users_def writeCPError_def writeAuthError_def writeUserError_def

lemmas resource_handlers =
  dash_listProxies_def dash_getProxy_def dash_applyProxy_def dash_deleteProxy_def dash_listPools_def dash_getPool_def dash_applyPool_def
  dash_deletePool_def dash_listBalancers_def dash_getBalancer_def dash_applyBalancer_def dash_deleteBalancer_def dash_listRouters_def
  dash_getRouter_def dash_applyRouter_def dash_deleteRouter_def dash_listFlows_def dash_getFlow_def dash_applyFlow_def dash_deleteFlow_def
  dash_listEntrypoints_def dash_getEntrypoint_def dash_applyEntrypoint_def dash_deleteEntrypoint_def

lemmas user_handlers = dash_login_def dash_logout_def dash_me_def dash_listUsers_def dash_createUser_def dash_deleteUser_def
  dash_changeUserPassword_def dash_listAgents_def

section \<open>Passwords stay in the store\<close>

definition hides :: "proxy \<Rightarrow> bool" where
  "hides p \<longleftrightarrow> (case proxy_Auth p of None \<Rightarrow> True | Some a \<Rightarrow> auth_Pass a = [])"

fun no_password :: "dash_body \<Rightarrow> bool" where
  "no_password (ProxyBody p) = hides p"
| "no_password (ProxiesBody ps _ _) = (\<forall>p \<in> set ps. hides p)"
| "no_password _ = True"

lemma hides_redact [simp]: "hides (redactProxy p)"
  by (simp add: hides_def redactProxy_def split: option.split)

lemma no_password_redact [simp]: "\<forall>p \<in> set (redactProxies ps). hides p"
  by (simp add: redactProxies_def)

lemma no_password_error: "no_password (rs_Body (writeCPError D e))" "no_password (rs_Body (writeAuthError D e))"
  "no_password (rs_Body (writeUserError D e))"
  by (simp_all add: writeCPError_def writeAuthError_def writeUserError_def)

lemma routes_hide_passwords: "rt \<in> set (dash_routes D E) \<Longrightarrow> answers no_password (rt_Handler rt vs r ctx)"
  unfolding dash_routes_def
  by (simp only: list.map list.set insert_iff empty_iff prod.case)
    (elim disjE FalseE; hypsubst; simp only: route.simps resource_handlers user_handlers handler_defs;
      intro answers_intros; simp add: no_password_error split: sum.split)

lemma find_route_in: "find_route rts method path = Some rt \<Longrightarrow> rt \<in> set rts"
  by (auto simp: find_route_def find_Some_iff)

lemma mux_hides_passwords: "answers no_password (dash_mux D E r ctx)"
  unfolding answers_def dash_mux_def
proof
  fix w
  show "no_password (rs_Body (fst (ServeMux NoBody TextBody (dash_routes D E) r ctx w)))"
    using routes_hide_passwords [OF find_route_in, of D E]
    by (auto simp: ServeMux_def Let_def answers_def split: option.splits list.splits)
qed

lemma middleware_hides_passwords:
  assumes "\<And>ctx. answers no_password (next r ctx)"
  shows "answers no_password (rateLimit D E get put key next r ctx)"
    and "answers no_password (auth_middleware D E next r ctx)"
    and "answers no_password (dash_cors D next r ctx)"
    and "answers no_password (recovery next r ctx)"
    and "answers no_password (logging next r ctx)"
    and "answers no_password (withSPA F next r ctx)"
proof -
  show "answers no_password (auth_middleware D E next r ctx)"
    unfolding auth_middleware_def by (intro answers_intros assms) simp_all
  show "answers no_password (withSPA F next r ctx)"
    unfolding withSPA_def serveSPA_def Let_def by (intro answers_intros assms) simp_all
  show "answers no_password (rateLimit D E get put key next r ctx)" "answers no_password (dash_cors D next r ctx)"
    "answers no_password (recovery next r ctx)" "answers no_password (logging next r ctx)"
    using assms by (auto simp: answers_def rateLimit_def dash_cors_def recovery_def logging_def split: prod.splits)
      (metis fst_conv)+
qed

text \<open>
  C12.  The dashboard shows no password of a proxy: whatever is asked of it, by whomever, and whatever
  storage holds, no proxy in an answer carries a password.
\<close>

theorem dashboard_hides_passwords: "no_password (rs_Body (fst (serve_web D E r w)))"
proof -
  have "answers no_password (routes D E r no_ctx)"
    unfolding routes_def Let_def
    by (intro middleware_hides_passwords) (simp add: mux_hides_passwords middleware_hides_passwords split: option.split)
  then have "answers no_password (serve_web D E r)"
    unfolding serve_web_def by (intro answers_intros) simp_all
  then show ?thesis by (simp add: answers_def)
qed

end
