(* ===== verification/Dashboard_Auth.thy ===== *)
theory Dashboard_Auth
  imports Dashboard_Safety Grpc_Auth
begin

text \<open>
  Who may use the dashboard.  Paths decide: the mux matches the path as sent, segment by segment, while
  the session check reads the decoded path; the two agree on what belongs to the API.
\<close>

section \<open>Paths\<close>

lemma unescape_append: "unescape a = Some b \<Longrightarrow> unescape (a @ s) = map_option (\<lambda>t. b @ t) (unescape s)"
proof (induction a arbitrary: b rule: unescape.induct)
  case (2 c a)
  show ?case
  proof (cases "c = CHR ''%''")
    case False
    with 2 show ?thesis by (cases "unescape s") auto
  next
    case True
    with 2 show ?thesis by (cases "unescape s") (auto split: list.splits option.splits)
  qed
qed (cases "unescape s"; simp)

lemma split_byte_nonempty: "split_byte c s \<noteq> []"
  by (induction s) (auto split: list.splits)

lemma split_byte_Cons: "split_byte c s = t # u # ts \<Longrightarrow> \<exists>s'. s = t @ c # s' \<and> split_byte c s' = u # ts"
proof (induction s arbitrary: t)
  case (Cons x s)
  show ?case
  proof (cases "x = c")
    case True
    with Cons.prems show ?thesis by auto
  next
    case False
    with Cons.prems obtain t' where "split_byte c s = t' # u # ts" "t = x # t'" by (auto split: list.splits)
    with Cons.IH False show ?thesis by auto
  qed
qed simp

lemma cleanPath_rooted: "\<exists>p. cleanPath x = CHR ''/'' # p"
  by (auto simp: cleanPath_def path_Clean_def Let_def split: list.split)

text \<open>A path whose first two segments match literals decodes to one that begins with them.\<close>

lemma api_prefix:
  assumes "path_segments (CHR ''/'' # p) = ''api'' # v # ss" "unescape (CHR ''/'' # p) = Some q"
  shows "HasPrefix q ''/api/''"
proof -
  from assms(1) obtain s1 u ts where s: "split_byte CHR ''/'' p = s1 # u # ts"
    "(if s1 = [] then ''/'' else pathUnescape s1) = ''api''"
    by (auto simp: path_segments_def map_eq_Cons_conv)
  from s(2) have "unescape s1 = Some ''api''"
    by (auto simp: pathUnescape_def split: if_splits option.splits)
  moreover from split_byte_Cons [OF s(1)] obtain p' where "p = s1 @ CHR ''/'' # p'" by blast
  ultimately show ?thesis
    using assms(2) by (auto simp: unescape_append HasPrefix_def)
qed

lemma find_route_match:
  assumes "find_route (dash_routes D E) method path = Some rt"
  obtains v ss vs where "path_segments path = ''api'' # v # ss" "method \<noteq> ''CONNECT''" "match_segments (rt_Path rt) (path_segments path) = Some vs"
proof -
  from assms have m: "method_matches (rt_Method rt) method" "match_segments (rt_Path rt) (path_segments path) \<noteq> None"
    by (auto simp: find_route_def find_Some_iff)
  from find_route_in [OF assms] have r: "\<exists>p. rt_Path rt = api_path p" "rt_Method rt \<in> {MethodGet, MethodPost, MethodDelete}"
    by (auto simp: dash_routes_def)
  with m have "\<exists>v ss. path_segments path = ''api'' # v # ss"
    by (cases "path_segments path"; cases "tl (path_segments path)") (auto simp: api_path_def split: if_splits)
  moreover from m(1) r(2) have "method \<noteq> ''CONNECT''" by (auto simp: method_matches_def method_defs)
  ultimately show thesis using m(2) that by blast
qed

section \<open>Turned away\<close>

text \<open>What the dashboard says to those it turns away.\<close>

definition refusals :: "string list" where
  "refusals = [''missing or invalid authorization'', ''invalid or expired token'', ''user principal required'', ''rate limit exceeded'',
     ''admin role required'', ''old_password can only be used for your own account'', ''users not configured'', ''auth not configured'',
     ''username is required'', ''invalid request body'', ''new_password is required'']"

fun bare :: "dash_body \<Rightarrow> bool" where
  "bare NoBody = True"
| "bare (TextBody _) = True"
| "bare (FileBody _) = True"
| "bare (ErrorBody m) = (m \<in> set refusals)"
| "bare _ = False"

definition core :: "('db, 'ps, 'l) dash_world \<Rightarrow> 'db \<times> 'ps \<times> string" where
  "core w = (d_db w, d_ps w, d_bootstrap w)"

lemma core_put [simp]: "core (put_ip R w) = core w" "core (put_user R w) = core w" "core (w\<lparr>d_log := l\<rparr>) = core w"
  by (simp_all add: core_def put_ip_def put_user_def)

definition turned_away :: "('db, 'ps, 'l) dash_world \<Rightarrow> dash_body web_response \<times> ('db, 'ps, 'l) dash_world \<Rightarrow> bool" where
  "turned_away w a \<longleftrightarrow> bare (rs_Body (fst a)) \<and> \<not> rs_Panicked (fst a) \<and> core (snd a) = core w"

lemma turned_away_same [simp]: "turned_away w (resp, w) \<longleftrightarrow> bare (rs_Body resp) \<and> \<not> rs_Panicked resp"
  by (simp add: turned_away_def)

lemma mux_cases:
  assumes "dash_mux D E r ctx w = a"
  obtains (away) "turned_away w a"
  | (route) rt vs where "find_route (dash_routes D E) (rq_Method r) (rq_EscapedPath r) = Some rt"
      "match_segments (rt_Path rt) (path_segments (rq_EscapedPath r)) = Some vs" "a = rt_Handler rt vs r ctx w"
      "rq_Method r \<noteq> ''CONNECT'' \<longrightarrow> (\<exists>p. rq_EscapedPath r = CHR ''/'' # p)"
proof -
  have "turned_away w a \<or> (\<exists>rt vs. find_route (dash_routes D E) (rq_Method r) (rq_EscapedPath r) = Some rt \<and>
      match_segments (rt_Path rt) (path_segments (rq_EscapedPath r)) = Some vs \<and> a = rt_Handler rt vs r ctx w \<and>
      (rq_Method r \<noteq> ''CONNECT'' \<longrightarrow> (\<exists>p. rq_EscapedPath r = CHR ''/'' # p)))"
    using assms cleanPath_rooted [of "rq_EscapedPath r"]
    by (auto simp: dash_mux_def ServeMux_def Let_def split: if_splits option.splits list.splits)
  then show thesis using away route by blast
qed

definition dash_api :: "('db, 'ps, 'l) dashboard \<Rightarrow> call_env \<Rightarrow> ('db, 'ps, 'l) dash_handler" where
  "dash_api D E = (case da_staticFS D of None \<Rightarrow> dash_mux D E | Some F \<Rightarrow> withSPA F (dash_mux D E))"

lemma api_cases:
  assumes "dash_api D E r ctx w = a"
  obtains (away) "turned_away w a" | (mux) "dash_mux D E r ctx w = a"
proof -
  have "turned_away w a \<or> dash_mux D E r ctx w = a"
    using assms by (auto simp: dash_api_def withSPA_def serveSPA_def Let_def split: option.splits if_splits)
  then show thesis using away mux by blast
qed

lemma outside_api:
  assumes "dash_api D E r ctx w = a" "\<not> HasPrefix (rq_Path r) ''/api/''" "unescape (rq_EscapedPath r) \<noteq> None"
  shows "turned_away w a"
  using assms(1)
proof (cases rule: api_cases)
  case mux
  then show ?thesis
  proof (cases rule: mux_cases)
    case (route rt vs)
    from find_route_match [OF route(1)] obtain v ss p where "path_segments (CHR ''/'' # p) = ''api'' # v # ss" "rq_EscapedPath r = CHR ''/'' # p"
      using route(4) by metis
    with api_prefix assms(2,3) show ?thesis by (auto simp: rq_Path_def pathUnescape_def)
  qed
qed

lemma rateLimit_cases:
  assumes "rateLimit D E get put key next r ctx w = a" "\<And>R. core (put R w) = core w"
  obtains (away) "turned_away w a" | (on) w1 where "core w1 = core w" "next r ctx w1 = a"
proof -
  have "turned_away w a \<or> (\<exists>w1. core w1 = core w \<and> next r ctx w1 = a)"
    using assms by (auto simp: rateLimit_def turned_away_def refusals_def split: if_splits prod.splits)
  then show thesis using away on by blast
qed

section \<open>The policy\<close>

definition is_login :: "web_request \<Rightarrow> bool" where
  "is_login r \<longleftrightarrow> rq_Method r = MethodPost \<and> rq_Path r = ''/api/v1/auth/login''"

text \<open>
  The paths of user management belong to administrators, but for the path of one's own password.
\<close>

definition needs_admin :: "string \<Rightarrow> string list \<Rightarrow> bool" where
  "needs_admin own ss \<longleftrightarrow>
     (case ss of
        a # v # s # rest \<Rightarrow> a = ''api'' \<and> v = ''v1'' \<and> s = ''users'' \<and>
          (case rest of [] \<Rightarrow> True | [x] \<Rightarrow> True | [x, y] \<Rightarrow> y = ''password'' \<and> x \<noteq> own | _ \<Rightarrow> False)
      | _ \<Rightarrow> False)"

definition may_use :: "user \<Rightarrow> web_request \<Rightarrow> bool" where
  "may_use u r \<longleftrightarrow> needs_admin (user_Id u) (path_segments (rq_EscapedPath r)) \<longrightarrow> IsAdmin u"

lemma needs_adminE:
  assumes "needs_admin own ss"
  obtains "ss = [''api'', ''v1'', ''users'']" | x where "ss = [''api'', ''v1'', ''users'', x]"
  | x where "ss = [''api'', ''v1'', ''users'', x, ''password'']" "x \<noteq> own"
  using assms unfolding needs_admin_def by (auto split: list.splits)

lemma handler_refuses:
  assumes "find_route (dash_routes D E) (rq_Method r) (rq_EscapedPath r) = Some rt"
    and "match_segments (rt_Path rt) (path_segments (rq_EscapedPath r)) = Some vs"
    and "\<not> may_use u r" "context_user ctx = Some u"
  shows "turned_away w (rt_Handler rt vs r ctx w)"
proof -
  from assms(3) have u: "\<not> IsAdmin u" "needs_admin (user_Id u) (path_segments (rq_EscapedPath r))" by (simp_all add: may_use_def)
  from u(2) show ?thesis
  proof (cases rule: needs_adminE)
    case 1
    with assms(1) have "rt_Handler rt vs \<in> {dash_listUsers D, dash_createUser D E}"
      by (auto simp: find_route_def dash_routes_def api_path_def split: if_splits)
    then show ?thesis using assms(4) u(1) by (auto simp: dash_listUsers_def dash_createUser_def dash_requireAdmin_def refusals_def)
  next
    case (2 x)
    with assms(1) have "rt_Handler rt vs = dash_deleteUser D vs"
      by (auto simp: find_route_def dash_routes_def api_path_def split: if_splits)
    then show ?thesis using assms(4) u(1) by (auto simp: dash_deleteUser_def dash_requireAdmin_def refusals_def)
  next
    case (3 x)
    with assms(1) have "rt = \<lparr>rt_Method = MethodPost, rt_Path = api_path [Lit ''users'', Wild, Lit ''password''], rt_Handler = dash_changeUserPassword D E\<rparr>"
      by (auto simp: find_route_def dash_routes_def api_path_def split: if_splits)
    with assms(2) 3 have "rt_Handler rt vs = dash_changeUserPassword D E [x]"
      by (auto simp: api_path_def split: if_splits)
    then show ?thesis using assms(4) u(1) 3(2)
      by (auto simp: dash_changeUserPassword_def with_users_def with_body_def PathValue_def refusals_def Let_def split: option.split)
  qed
qed

lemma Principal_Kind_user: "Principal_Kind (Some p) = PrincipalKindUser \<longleftrightarrow> principal_User p \<noteq> None"
  by (simp add: Principal_Kind_def)

text \<open>A request for the API that is no login, behind the limit per address.\<close>

lemma session_cases:
  assumes "auth_middleware D E (rateLimit D E d_user put_user userLimitKey (dash_api D E)) r no_ctx w = a"
    and "\<not> is_login r" "unescape (rq_EscapedPath r) \<noteq> None"
  obtains (away) "turned_away w a"
  | (rejected) tok e db where "requestToken r = Some tok" "Authenticate (da_crypto D) (da_authenticator D) (env_now E) tok (d_db w) = (Inl e, db)"
      "\<not> is_panic e \<Longrightarrow> turned_away (w\<lparr>d_db := db\<rparr>) a"
  | (known) tok p db where "requestToken r = Some tok" "Authenticate (da_crypto D) (da_authenticator D) (env_now E) tok (d_db w) = (Inr p, db)"
      "(\<exists>u. principal_User p = Some u \<and> may_use u r) \<or> turned_away (w\<lparr>d_db := db\<rparr>) a"
proof (cases "HasPrefix (rq_Path r) ''/api/''")
  case False
  then have "isPublicPath r" by (simp add: isPublicPath_def)
  with assms(1) have "rateLimit D E d_user put_user userLimitKey (dash_api D E) r no_ctx w = a" by (simp add: auth_middleware_def)
  from this core_put(2) show thesis
  proof (cases rule: rateLimit_cases)
    case (on w1)
    from outside_api [OF on(2) False assms(3)] on(1) away show thesis by (simp add: turned_away_def)
  qed (use away in simp_all)
next
  case True
  with assms(2) have closed: "\<not> isPublicPath r" by (auto simp: isPublicPath_def is_login_def)
  show thesis
  proof (cases "requestToken r")
    case None
    with assms(1) closed away show thesis by (auto simp: auth_middleware_def refusals_def)
  next
    case (Some tok)
    obtain res db where auth: "Authenticate (da_crypto D) (da_authenticator D) (env_now E) tok (d_db w) = (res, db)" by fastforce
    show thesis
    proof (cases res)
      case (Inl e)
      with rejected [OF Some auth [unfolded Inl]] assms(1) closed Some auth show thesis
        by (auto simp: auth_middleware_def attempt_def dash_store_def refusals_def)
    next
      case (Inr p)
      let ?ctx = "\<lparr>ctx_principal = Some p, ctx_token = Some tok\<rparr>"
      show thesis
      proof (cases "\<exists>u. principal_User p = Some u \<and> \<not> may_use u r")
        case False
        with known [OF Some auth [unfolded Inr]] assms(1) closed Some auth Inr show thesis
          by (auto simp: auth_middleware_def attempt_def dash_store_def refusals_def Principal_Kind_user split: if_splits)
      next
        case True
        then obtain u where u: "principal_User p = Some u" "\<not> may_use u r" by blast
        with assms(1) closed Some auth Inr
        have "rateLimit D E d_user put_user userLimitKey (dash_api D E) r ?ctx (w\<lparr>d_db := db\<rparr>) = a"
          by (auto simp: auth_middleware_def attempt_def dash_store_def Principal_Kind_user)
        from this core_put(2) have "turned_away (w\<lparr>d_db := db\<rparr>) a"
        proof (cases rule: rateLimit_cases)
          case (on w1)
          from on(2) have "turned_away w1 a"
          proof (cases rule: api_cases)
            case mux
            then show ?thesis
            proof (cases rule: mux_cases)
              case (route rt vs)
              have "context_user ?ctx = Some u" using u(1) by (simp add: context_user_def)
              from handler_refuses [OF route(1,2) u(2) this] route(3) show ?thesis by simp
            qed
          qed
          with on(1) show ?thesis by (simp add: turned_away_def)
        qed simp_all
        with known [OF Some auth [unfolded Inr]] show thesis by blast
      qed
    qed
  qed
qed

lemma serve_web_cases:
  assumes "serve_web D E r w = a"
  obtains (away) "turned_away w a"
  | (inner) w1 b where "auth_middleware D E (rateLimit D E d_user put_user userLimitKey (dash_api D E)) r no_ctx w1 = b"
      "core w1 = core w" "unescape (rq_EscapedPath r) \<noteq> None" "\<And>v. turned_away v b \<Longrightarrow> turned_away v a"
proof (cases "unescape (rq_EscapedPath r) = None")
  case True
  with assms away show thesis by (auto simp: serve_web_def)
next
  case False
  define M where "M = auth_middleware D E (rateLimit D E d_user put_user userLimitKey (dash_api D E))"
  obtain b where b: "dash_cors D (rateLimit D E d_ip put_ip ipLimitKey M) r no_ctx w = b" by blast
  from False assms b have a: "turned_away v b \<Longrightarrow> turned_away v a" for v
    by (auto simp: serve_web_def routes_def M_def dash_api_def Let_def logging_def recovery_def turned_away_def
        split: prod.splits if_splits)
  show thesis
  proof (cases "rq_Method r = MethodOptions")
    case True
    with b have "turned_away w b" by (auto simp: dash_cors_def turned_away_def)
    with a away show thesis by blast
  next
    case False
    obtain c where c: "rateLimit D E d_ip put_ip ipLimitKey M r no_ctx w = c" by blast
    with False b have bc: "turned_away v c \<Longrightarrow> turned_away v b" for v
      by (auto simp: dash_cors_def turned_away_def split: prod.splits)
    from c core_put(1) show thesis
    proof (cases rule: rateLimit_cases)
      case (on w1)
      with inner \<open>\<not> unescape _ = None\<close> a bc show thesis unfolding M_def by blast
    qed (use a bc away in blast)
  qed
qed

text \<open>
  C6.  Every use of the dashboard is authorized.  A request other than a login presents, in a header
  or a cookie, a token of which storage holds an unexpired record, whose user exists and may make the
  request: the paths of user management are for administrators, but for a user's own password, and
  agents have no access.  Or it is turned away: the answer carries no data but a fixed text or a static file,
  nothing is published, and storage is as before, except that the record of a token that is no longer
  acceptable may be removed.
\<close>

theorem dashboard_authorized:
  assumes "badger_store B contents txn_contents J" and "da_authenticator D = badger_authn B J"
    and "\<not> is_login r" and "serve_web D E r w = (resp, w')" and "st = abs_store J (contents (d_db w))"
  shows "(\<exists>tok t u. requestToken r = Some tok \<and> st_tokens st (hashToken (da_crypto D) tok) = Some t \<and> \<not> Token_IsExpired t (env_now E) \<and>
      st_users st (token_UserId t) = Some u \<and> may_use u r) \<or>
    bare (rs_Body resp) \<and> d_ps w' = d_ps w \<and> d_bootstrap w' = d_bootstrap w \<and>
    (abs_store J (contents (d_db w')) = st \<or> (\<exists>h. abs_store J (contents (d_db w')) = st_tokens_update (\<lambda>m. m(h := None)) st))"
  using assms(4)
proof (cases rule: serve_web_cases)
  case away
  with assms(5) show ?thesis by (simp add: turned_away_def core_def)
next
  case (inner w1 b)
  have db: "d_db w1 = d_db w" "d_ps w1 = d_ps w" "d_bootstrap w1 = d_bootstrap w" using inner(2) by (simp_all add: core_def)
  from inner(1) assms(3) inner(3) show ?thesis
  proof (cases rule: session_cases)
    case away
    from inner(4) [OF away] assms(5) db show ?thesis by (simp add: turned_away_def core_def)
  next
    case (rejected tok e db)
    from badger_store.authenticate_fail [OF assms(1) rejected(2) [unfolded assms(2)]]
    have e: "e = Sentinel ErrInvalidToken" and
      d: "abs_store J (contents db) = abs_store J (contents (d_db w)) \<or> (\<exists>h. abs_store J (contents db) = st_tokens_update (\<lambda>m. m(h := None)) (abs_store J (contents (d_db w))))"
      by (auto simp: \<open>d_db w1 = d_db w\<close>)
    from inner(4) [OF rejected(3)] e have "turned_away (w1\<lparr>d_db := db\<rparr>) (resp, w')"
      by (simp add: is_panic_def nil_panic_def index_panic_def)
    with d assms(5) \<open>d_ps w1 = _\<close> \<open>d_bootstrap w1 = _\<close> show ?thesis by (simp add: turned_away_def core_def)
  next
    case (known tok p db)
    note ok = badger_store.authenticate_ok [OF assms(1) known(2) [unfolded assms(2)]]
    from known(3) show ?thesis
    proof
      assume "\<exists>u. principal_User p = Some u \<and> may_use u r"
      with ok known(1) assms(5) db show ?thesis by auto
    next
      assume "turned_away (w1\<lparr>d_db := db\<rparr>) b"
      from inner(4) [OF this] ok assms(5) \<open>d_db w1 = d_db w\<close> \<open>d_ps w1 = _\<close> \<open>d_bootstrap w1 = _\<close> show ?thesis
        by (auto simp: turned_away_def core_def)
    qed
  qed
qed

definition sample_dash_json :: dash_json where
  "sample_dash_json =
     \<lparr>js_Login = \<lambda>b. if b = ''login'' then Some \<lparr>lq_Username = ''root'', lq_Password = ''password'', lq_TTLSeconds = 60, lq_NoExpiry = False\<rparr> else None,
      js_CreateUser = \<lambda>_. None, js_ChangePassword = \<lambda>_. None,
      js_ApplyProxy = \<lambda>b. if b = ''edit'' then Some (\<lparr>meta_Name = ''p1'', meta_Labels = []\<rparr>,
        \<lparr>pxs_URL = [], pxs_Protocol = ''http'', pxs_Host = ''h'', pxs_Port = 80, pxs_Auth = None\<rparr>) else None,
      js_ApplyPool = \<lambda>_. None, js_ApplyBalancer = \<lambda>_. None, js_ApplyRouter = \<lambda>_. None, js_ApplyFlow = \<lambda>_. None,
      js_ApplyEntrypoint = \<lambda>_. None\<rparr>"

definition sample_dash :: "(ref_db, change_event list, int) dashboard" where
  "sample_dash =
     \<lparr>da_libs = sample_libs, da_crypto = sample_crypto, da_cp = badger_service ref_badger ref_json log_event,
      da_authenticator = badger_authn ref_badger ref_json, da_authManager = Some (badger_auth ref_badger ref_json Minute),
      da_users = Some (badger_auth ref_badger ref_json Minute), da_agents = Some (badger_agents ref_badger ref_json Minute),
      da_heartbeatThreshold = Minute, da_CORSAllowOrigins = [], da_RateLimitRPS = 1, da_RateLimitBurst = 5, da_staticFS = None,
      da_rate = sample_bucket, da_json = sample_dash_json, da_Quote = \<lambda>s. s, da_RFC3339 = \<lambda>_. []\<rparr>"

definition sample_dash_world :: "ref_db \<Rightarrow> (ref_db, change_event list, int) dash_world" where
  "sample_dash_world db = \<lparr>d_db = db, d_ps = [], d_bootstrap = [], d_ip = newLimiterRegistry 0 1 5, d_user = newLimiterRegistry 0 1 5, d_log = []\<rparr>"

definition sample_web :: "string \<Rightarrow> string \<Rightarrow> string \<Rightarrow> web_request" where
  "sample_web method path body =
     \<lparr>rq_Method = method, rq_EscapedPath = path, rq_Query = [], rq_Header = [], rq_Cookies = [(''pgway_token'', ''pgw_abc'')],
      rq_RemoteAddr = [], rq_TLS = True, rq_Body = body\<rparr>"

text \<open>An agent is turned away from the users.\<close>

theorem dashboard_authorized_witness:
  "bare (rs_Body (fst (serve_web sample_dash sample_env (sample_web ''GET'' ''/api/v1/users'' []) (sample_dash_world sample_agent_db))))"
proof -
  have "\<not> is_login (sample_web ''GET'' ''/api/v1/users'' [])" by (simp add: is_login_def sample_web_def MethodPost_def)
  moreover have "st_users (abs_store ref_json (map_of sample_agent_db)) x = None" for x
    by (simp add: sample_agent_db_def abs_map_def key_unfold)
  ultimately show ?thesis
    using dashboard_authorized [OF ref.badger_store_axioms _ _ surjective_pairing refl, where D = sample_dash and E = sample_env
        and w = "sample_dash_world sample_agent_db" and r = "sample_web ''GET'' ''/api/v1/users'' []"]
    by (simp add: sample_dash_def sample_dash_world_def del: abs_store_sel)
qed

end
