(* ===== verification/Dashboard_Effects.thy ===== *)
theory Dashboard_Effects
  imports Dashboard_Auth
begin

text \<open>
  What the dashboard's answers promise: an edit of a proxy that was read without its password keeps it,
  and the session cookie lives as long as the session.
\<close>

lemma attempt_body:
  assumes "attempt m write k w = (resp, w')" "rs_Body resp \<noteq> NoBody" "\<And>e. rs_Body (write e) \<noteq> rs_Body resp"
  obtains x v where "m w = (Inr x, v)" "k x v = (resp, w')"
  using assms by (auto simp: attempt_def split: prod.splits sum.splits if_splits)

lemma error_body: "\<exists>m. rs_Body (writeCPError D e) = ErrorBody m" "\<exists>m. rs_Body (writeAuthError D e) = ErrorBody m"
  by (simp_all add: writeCPError_def writeAuthError_def)

section \<open>Editing a proxy\<close>

lemma get_proxy_body:
  assumes "dash_getProxy D vs r ctx w = (resp, w')" "rs_Body resp = ProxyBody p"
  shows "w' = w \<and> (\<exists>x. GetProxy (da_cp D) (PathValue vs) (d_db w) = Inr x \<and> p = redactProxy x)"
  using assms by (auto simp: dash_getProxy_def with_name_value_def Let_def attempt_def dash_read_def split: if_splits sum.splits)

lemma apply_proxy_body:
  assumes "dash_applyProxy D E r ctx w = (resp, w')" "rs_Body resp = ProxyBody q"
  shows "\<exists>meta spec x db ps. js_ApplyProxy (da_json D) (rq_Body r) = Some (meta, spec) \<and> meta_Name meta \<noteq> [] \<and>
    ApplyProxyV1 (da_libs D) (da_cp D) (env_ulid E) (env_now E) meta spec (d_db w, d_ps w) = (Inr x, (db, ps)) \<and>
    q = redactProxy x \<and> w' = w\<lparr>d_db := db, d_ps := ps\<rparr>"
proof -
  from assms obtain meta spec where q: "js_ApplyProxy (da_json D) (rq_Body r) = Some (meta, spec)" "meta_Name meta \<noteq> []"
    "attempt (dash_cp (ApplyProxyV1 (da_libs D) (da_cp D) (env_ulid E) (env_now E) meta spec)) (writeCPError D)
       (\<lambda>x. reply (writeJSON 200 (ProxyBody (redactProxy x)))) w = (resp, w')"
    by (auto simp: dash_applyProxy_def with_spec_def with_body_def attempt_def [of "lift_op _"]
        split: option.splits prod.splits if_splits sum.splits)
  from q(3) assms(2) error_body(1) [of D] obtain x v where
    "dash_cp (ApplyProxyV1 (da_libs D) (da_cp D) (env_ulid E) (env_now E) meta spec) w = (Inr x, v)"
    "reply (writeJSON 200 (ProxyBody (redactProxy x))) v = (resp, w')"
    by (elim attempt_body) (simp, metis dash_body.distinct, blast)
  with q(1,2) assms(2) show ?thesis by (auto simp: dash_cp_def split: prod.splits)
qed

lemma apply_manual_proxy:
  assumes "ApplyProxyV1 L S ulid now meta spec s = (Inr p, s')" "pxs_URL spec = []" "meta_Name meta \<noteq> []"
  shows "proxy_Id p = meta_Name meta \<and> proxy_Labels p = meta_Labels meta \<and> proxy_Protocol p = pxs_Protocol spec \<and>
    proxy_Host p = pxs_Host spec \<and> proxy_Port p = pxs_Port spec"
proof -
  from assms obtain p0 where p0: "proxyFromSpecV1 (NewProxyFromURL (lib_url_Parse L) (lib_url_String L)) meta spec = Inr p0"
    and st: "stamp_proxy spec now (port_Find (svc_proxyRepo S) (proxy_Id p0) (fst s)) p0 = Inr p"
    by (auto simp: ApplyProxyV1_def bind_op_Inr_iff wrap_op_Inr_iff run_simps read_db_def on_db_def fire_and_return_def with_name_def
        split: prod.splits sum.splits)
  from st have "p = (keep_auth spec (port_Find (svc_proxyRepo S) (proxy_Id p0) (fst s)) p0)\<lparr>proxy_ts := proxy_ts p\<rparr>"
    by (auto simp: stamp_proxy_def res_simps)
  then have "proxy_Id p = proxy_Id p0 \<and> proxy_Labels p = proxy_Labels p0 \<and> proxy_Protocol p = proxy_Protocol p0 \<and>
      proxy_Host p = proxy_Host p0 \<and> proxy_Port p = proxy_Port p0"
    by (auto simp: keep_auth_def split: sum.splits option.splits if_splits) (metis proxy.select_convs proxy.surjective proxy.update_convs)+
  with p0 assms(2) show ?thesis by (auto simp: proxyFromSpecV1_def)
qed

text \<open>The edit of a proxy that leaves its credentials alone, as the forms of the dashboard send it.\<close>

definition edit_of :: "string \<Rightarrow> proxy \<Rightarrow> metadata \<times> proxy_spec" where
  "edit_of name p =
     (\<lparr>meta_Name = name, meta_Labels = proxy_Labels p\<rparr>,
      \<lparr>pxs_URL = [], pxs_Protocol = proxy_Protocol p, pxs_Host = proxy_Host p, pxs_Port = proxy_Port p, pxs_Auth = None\<rparr>)"

context badger_store
begin

lemma get_proxy_stored: "GetProxy (badger_service B J publish) name db = Inr x \<Longrightarrow> st_proxies (st db) name = Some x"
  using proxy_repo.find_ok [of name db x] by (auto simp: GetProxy_def badger_service_def res_simps split: if_splits)

lemma edit_keeps:
  assumes "da_cp D = badger_service B J publish"
    and "dash_getProxy D [name] r ctx w = (got, w1)" "rs_Body got = ProxyBody p"
    and "js_ApplyProxy (da_json D) (rq_Body r') = Some (edit_of name p')"
    and "dash_applyProxy D E r' ctx' w1 = (resp, w')" "rs_Body resp = ProxyBody q"
  shows "\<exists>old new. st_proxies (st (d_db w)) name = Some old \<and> p = redactProxy old \<and>
    new = p'\<lparr>proxy_Id := name, proxy_Auth := proxy_Auth old, proxy_ts := \<lparr>CreatedAt = CreatedAt (proxy_ts old), UpdatedAt = env_now E\<rparr>\<rparr> \<and>
    st (d_db w') = st_proxies_update (\<lambda>m. m(name \<mapsto> new)) (st (d_db w)) \<and> q = redactProxy new"
proof -
  from get_proxy_body [OF assms(2,3)] obtain old where old: "w1 = w" "st_proxies (st (d_db w)) name = Some old" "p = redactProxy old"
    by (auto simp: assms(1) PathValue_def dest: get_proxy_stored)
  obtain meta spec where ms: "edit_of name p' = (meta, spec)" by fastforce
  from apply_proxy_body [OF assms(5,6)] assms(4) ms obtain x db ps where
    x: "ApplyProxyV1 (da_libs D) (da_cp D) (env_ulid E) (env_now E) meta spec (d_db w, d_ps w) = (Inr x, (db, ps))" "meta_Name meta \<noteq> []"
      "q = redactProxy x" "d_db w' = db"
    using old(1) by auto
  have m: "meta_Name (with_name (env_ulid E) meta) = name" "pxs_URL spec = []" "pxs_Auth spec = None"
    using ms x(2) by (auto simp: edit_of_def with_name_def)
  from service_apply_proxy [OF x(1) [unfolded assms(1)]] m old(2)
  have st': "st db = st_proxies_update (\<lambda>m. m(name \<mapsto> x)) (st (d_db w))" and
    "proxy_ts x = \<lparr>CreatedAt = CreatedAt (proxy_ts old), UpdatedAt = env_now E\<rparr>" "proxy_Auth x = proxy_Auth old" by auto
  moreover from apply_manual_proxy [OF x(1) m(2) x(2)] ms
  have "proxy_Id x = name \<and> proxy_Labels x = proxy_Labels p' \<and> proxy_Protocol x = proxy_Protocol p' \<and> proxy_Host x = proxy_Host p' \<and> proxy_Port x = proxy_Port p'"
    by (auto simp: edit_of_def)
  ultimately have "x = p'\<lparr>proxy_Id := name, proxy_Auth := proxy_Auth old, proxy_ts := \<lparr>CreatedAt = CreatedAt (proxy_ts old), UpdatedAt = env_now E\<rparr>\<rparr>"
    by simp
  with st' x(3,4) old(2,3) show ?thesis by blast
qed

end

text \<open>
  C33.  Redaction loses nothing.  A proxy that was read, changed in labels, protocol, host or port as the
  user likes, and applied again without credentials is stored with those changes, the credentials that
  storage held, though no answer showed them, and its time of creation; nothing else in the store changes,
  and the answer shows the stored proxy without its password.
\<close>

theorem dashboard_edit_keeps_credentials:
  assumes "badger_store B contents txn_contents J" "da_cp D = badger_service B J publish"
    and "dash_getProxy D [name] r ctx w = (got, w1)" "rs_Body got = ProxyBody p"
    and "js_ApplyProxy (da_json D) (rq_Body r') = Some (edit_of name p')"
    and "dash_applyProxy D E r' ctx' w1 = (resp, w')" "rs_Body resp = ProxyBody q"
  shows "\<exists>old new. st_proxies (abs_store J (contents (d_db w))) name = Some old \<and> p = redactProxy old \<and>
    new = p'\<lparr>proxy_Id := name, proxy_Auth := proxy_Auth old, proxy_ts := \<lparr>CreatedAt = CreatedAt (proxy_ts old), UpdatedAt = env_now E\<rparr>\<rparr> \<and>
    abs_store J (contents (d_db w')) = st_proxies_update (\<lambda>m. m(name \<mapsto> new)) (abs_store J (contents (d_db w))) \<and> q = redactProxy new"
  using badger_store.edit_keeps [OF assms] by (simp add: badger_store.st_def [OF assms(1)])

section \<open>Sessions\<close>

lemma login_body:
  assumes "dash_login D E r ctx w = (resp, w')" "rs_Body resp = LoginBody tok u" "da_authManager D = Some A"
  shows "\<exists>q. js_Login (da_json D) (rq_Body r) = Some q \<and>
    (\<exists>db b. Login (da_crypto D) A (env_now E) (env_random E) (lq_Username q) (lq_Password q) (wrap64 (lq_TTLSeconds q * Second)) (lq_NoExpiry q)
        (d_db w, d_bootstrap w) = (Inr tok, (db, b)) \<and>
      (\<exists>p db'. Authenticate (da_crypto D) (da_authenticator D) (env_now E) tok db = (Inr p, db') \<and> d_db w' = db' \<and>
        (\<exists>v. principal_User p = Some v \<and> u = user_response_of v))) \<and>
    rs_Cookies resp = [\<lparr>ck_Name = ''pgway_token'', ck_Value = tok, ck_Path = ''/'', ck_HttpOnly = True, ck_SameSite = ''Lax'', ck_Secure = rq_TLS r,
      ck_MaxAge = (if \<not> lq_NoExpiry q \<and> lq_TTLSeconds q > 0 then lq_TTLSeconds q else 0)\<rparr>]"
  using assms error_body(2) [of D]
  by (auto simp: dash_login_def with_body_def Let_def attempt_def dash_auth_def dash_store_def setSessionCookie_def sessionCookieName_def
      writeJSON_def set_header_def plain_response_def split: option.splits prod.splits if_splits sum.splits)
    (metis dash_body.distinct)+

context badger_store
begin

lemma login_token:
  assumes "Login C (badger_auth B J defaultTTL) now rnd name pw ttl False s = (Inr tok, s')" "Second \<le> ttl"
  shows "tok \<noteq> [] \<and> (\<exists>t. st_tokens (st (fst s')) (hashToken C tok) = Some t \<and> token_ExpiresAt t = Some (now + ttl))"
proof -
  from assms(2) have "0 < ttl" by (simp add: Second_def)
  with assms(1) obtain i where "issueToken C (badger_auth B J defaultTTL) now rnd i ttl s = (Inr tok, s')"
    by (auto simp: Login_def bind_op_Inr_iff read_db_def split: sum.splits if_splits)
  from auth.issueToken_effect [OF this] assms(2) \<open>0 < ttl\<close> show ?thesis by auto
qed

lemma login_cookie:
  assumes "da_authManager D = Some (badger_auth B J defaultTTL)" "da_authenticator D = badger_authn B J"
    and "dash_login D E r ctx w = (resp, w')" "rs_Body resp = LoginBody tok u"
    and "js_Login (da_json D) (rq_Body r) = Some q" "\<not> lq_NoExpiry q" "0 < lq_TTLSeconds q" "lq_TTLSeconds q \<le> 9223372036"
  shows "\<exists>c t. rs_Cookies resp = [c] \<and> ck_HttpOnly c \<and> ck_SameSite c = ''Lax'' \<and> ck_Secure c = rq_TLS r \<and>
    st_tokens (st (d_db w')) (hashToken (da_crypto D) tok) = Some t \<and> token_ExpiresAt t = Some (env_now E + ck_MaxAge c * Second) \<and>
    (\<forall>r'. dash_bearerToken (Header_Get (rq_Header r') ''Authorization'') = None \<and> map_of (rq_Cookies r') (ck_Name c) = Some (ck_Value c) \<longrightarrow>
       requestToken r' = Some tok)"
proof -
  from login_body [OF assms(3,4,1)] assms(2,5,6,7) obtain db b p where
    l: "Login (da_crypto D) (badger_auth B J defaultTTL) (env_now E) (env_random E) (lq_Username q) (lq_Password q) (wrap64 (lq_TTLSeconds q * Second)) False
        (d_db w, d_bootstrap w) = (Inr tok, (db, b))"
    and a: "Authenticate (da_crypto D) (badger_authn B J) (env_now E) tok db = (Inr p, d_db w')"
    and c: "rs_Cookies resp = [\<lparr>ck_Name = ''pgway_token'', ck_Value = tok, ck_Path = ''/'', ck_HttpOnly = True, ck_SameSite = ''Lax'',
      ck_Secure = rq_TLS r, ck_MaxAge = lq_TTLSeconds q\<rparr>]" by auto
  have "wrap64 (lq_TTLSeconds q * Second) = lq_TTLSeconds q * Second"
    using assms(7,8) by (intro wrap64_id) (simp_all add: Second_def min_int64_def max_int64_def)
  with login_token [OF l] assms(7) have "tok \<noteq> []" "\<exists>t. st_tokens (st db) (hashToken (da_crypto D) tok) = Some t \<and> token_ExpiresAt t = Some (env_now E + lq_TTLSeconds q * Second)"
    by (auto simp: Second_def)
  moreover have "d_db w' = db" using authenticate_ok [OF a] by blast
  ultimately show ?thesis using c by (auto simp: requestToken_def sessionCookieName_def)
qed

end


text \<open>
  Beyond that the seconds overflow: a login for 18446744074 seconds sets a cookie for 584 years and
  issues a token that lives 290 milliseconds.
\<close>

lemma session_seconds_overflow:
  assumes "lq_TTLSeconds q = 18446744074" "\<not> lq_NoExpiry q"
  shows "wrap64 (lq_TTLSeconds q * Second) = 290448384"
    and "rs_Cookies (setSessionCookie r tok (lq_TTLSeconds q) (lq_NoExpiry q) (plain_response 200 NoBody)) =
      [\<lparr>ck_Name = ''pgway_token'', ck_Value = tok, ck_Path = ''/'', ck_HttpOnly = True, ck_SameSite = ''Lax'', ck_Secure = rq_TLS r, ck_MaxAge = 18446744074\<rparr>]"
  using assms by (simp_all add: wrap64_def Second_def setSessionCookie_def plain_response_def sessionCookieName_def)

text \<open>The witnesses: a proxy read and edited, and a login for a minute.\<close>

lemma sample_get: "dash_getProxy sample_dash [''p1''] r ctx (sample_dash_world sample_proxy_db) =
    (writeJSON 200 (ProxyBody ((sample_proxy ''p1'')\<lparr>proxy_Auth := Some \<lparr>auth_User = ''u'', auth_Pass = []\<rparr>\<rparr>)), sample_dash_world sample_proxy_db)"
  by (simp add: dash_getProxy_def with_name_value_def PathValue_def attempt_def dash_read_def sample_dash_def sample_dash_world_def GetProxy_def
      badger_service_def ProxyRepository_def ProxyRepository_Find_def badger_unfold sample_proxy_db_def redactProxy_def proxyKey_def Let_def)

theorem dashboard_edit_keeps_credentials_witness:
  "\<exists>q w' new. dash_applyProxy sample_dash sample_env (sample_web ''POST'' ''/api/v1/proxies'' ''edit'') no_ctx (sample_dash_world sample_proxy_db) = (q, w') \<and>
     st_proxies (abs_store ref_json (map_of (d_db w'))) ''p1'' = Some new \<and> proxy_Auth new = Some \<lparr>auth_User = ''u'', auth_Pass = ''w''\<rparr>"
proof -
  let ?w = "sample_dash_world sample_proxy_db" and ?r = "sample_web ''POST'' ''/api/v1/proxies'' ''edit''"
  let ?p = "(sample_proxy ''p1'')\<lparr>proxy_Host := ''h'', proxy_Port := 80, proxy_Labels := []\<rparr>"
  obtain x db ps where "ApplyProxyV1 sample_libs (badger_service ref_badger ref_json log_event) ''01J'' 50 \<lparr>meta_Name = ''p1'', meta_Labels = []\<rparr>
        \<lparr>pxs_URL = [], pxs_Protocol = ''http'', pxs_Host = ''h'', pxs_Port = 80, pxs_Auth = None\<rparr> (sample_proxy_db, []) = (Inr x, (db, ps))"
    by (simp add: ApplyProxyV1_def ProxySpecV1_Validate_def proxyFromSpecV1_def with_name_def Proxy_Validate_def
        Protocol_IsValid_def protocol_defs read_db_def stamp_proxy_def created_at_def resolveCreatedAt_def
        ProxyRepository_def ProxyRepository_Find_def badger_unfold sample_proxy_db_def keep_auth_def sample_proxy_def bind_op_def wrap_op_def
        on_db_def ProxyRepository_Save_def fire_and_return_def fireEvent_def log_event_def)
  then have a: "dash_applyProxy sample_dash sample_env ?r no_ctx ?w =
      (writeJSON 200 (ProxyBody (redactProxy x)), ?w\<lparr>d_db := db, d_ps := ps\<rparr>)"
    by (simp add: dash_applyProxy_def with_spec_def with_body_def attempt_def dash_cp_def sample_dash_def sample_dash_world_def sample_web_def
        sample_dash_json_def sample_env_def ProxySpecV1_Validate_def)
  have j: "js_ApplyProxy (da_json sample_dash) (rq_Body ?r) = Some (edit_of ''p1'' ?p)"
    by (simp add: sample_dash_def sample_dash_json_def sample_web_def edit_of_def sample_proxy_def ProtocolHTTP_def)
  have "st_proxies (abs_store ref_json (map_of sample_proxy_db)) ''p1'' = Some ((sample_proxy ''p1'')\<lparr>proxy_Auth := Some \<lparr>auth_User = ''u'', auth_Pass = ''w''\<rparr>\<rparr>)"
    by (simp add: abs_map_def sample_proxy_db_def proxyKey_def repo_unmarshal_def ref_json_def ref_codec_def)
  with dashboard_edit_keeps_credentials [OF ref.badger_store_axioms _ sample_get _ j a] a show ?thesis
    by (auto simp: sample_dash_def sample_dash_world_def simp del: abs_store_sel)
qed


end
