(* ===== verification/Dashboard_Limits.thy ===== *)
theory Dashboard_Limits
  imports Dashboard_Effects
begin

text \<open>
  The registry of rate limiters forgets clients.  It never holds more of them than were seen in the last
  sixteen minutes, and forgetting is not noticed: with a token bucket that fills up within the idle
  time, every client gets the answers it would have got from a registry that keeps all buckets.
\<close>

section \<open>Sequences of requests\<close>

fun run_allow :: "'l rate_lib \<Rightarrow> (time \<times> string) list \<Rightarrow> 'l limiter_registry \<Rightarrow> bool list \<times> 'l limiter_registry" where
  "run_allow L [] R = ([], R)"
| "run_allow L ((now, key) # cs) R =
     (case allow L now key R of (ok, R) \<Rightarrow> (case run_allow L cs R of (oks, R) \<Rightarrow> (ok # oks, R)))"

text \<open>The reference: one bucket per client, for ever.\<close>

definition keep_allow :: "'l rate_lib \<Rightarrow> rat \<Rightarrow> int \<Rightarrow> time \<Rightarrow> string \<Rightarrow> (string \<rightharpoonup> 'l) \<Rightarrow> bool \<times> (string \<rightharpoonup> 'l)" where
  "keep_allow L limit burst now key Q =
     (case rate_Allow L now (case Q key of Some l \<Rightarrow> l | None \<Rightarrow> rate_NewLimiter L limit burst) of
        (ok, l) \<Rightarrow> (ok, Q(key \<mapsto> l)))"

fun run_keep :: "'l rate_lib \<Rightarrow> rat \<Rightarrow> int \<Rightarrow> (time \<times> string) list \<Rightarrow> (string \<rightharpoonup> 'l) \<Rightarrow> bool list" where
  "run_keep L limit burst [] Q = []"
| "run_keep L limit burst ((now, key) # cs) Q =
     (case keep_allow L limit burst now key Q of (ok, Q) \<Rightarrow> ok # run_keep L limit burst cs Q)"

text \<open>The clock of a sequence of requests: it starts at \<open>t0\<close>, does not go back, and stays in range.\<close>

fun clocked :: "time \<Rightarrow> (time \<times> string) list \<Rightarrow> bool" where
  "clocked t0 [] \<longleftrightarrow> True"
| "clocked t0 ((t, k) # cs) \<longleftrightarrow> t0 \<le> t \<and> t \<le> max_int64 \<and> clocked t cs"

lemma time_Sub_clock: "0 \<le> s \<Longrightarrow> s \<le> t \<Longrightarrow> t \<le> max_int64 \<Longrightarrow> time_Sub t s = t - s"
  by (rule time_Sub_small) (simp_all add: min_int64_def)

section \<open>One request\<close>

text \<open>The lookup of a client's bucket in a registry after a request, in terms of the lookup before it.\<close>

definition lookup :: "'l limiter_registry \<Rightarrow> string \<Rightarrow> 'l limiter_entry option" where
  "lookup R = map_of (reg_entries R)"

definition due :: "time \<Rightarrow> 'l limiter_registry \<Rightarrow> bool" where
  "due now R \<longleftrightarrow> time_Sub now (reg_lastSweep R) \<ge> reg_sweepInterval R"

definition expired :: "time \<Rightarrow> 'l limiter_registry \<Rightarrow> 'l limiter_entry \<Rightarrow> bool" where
  "expired now R e \<longleftrightarrow> time_Sub now (le_lastSeen e) > reg_idleTTL R"

lemma map_of_filter_entries:
  "distinct (map fst xs) \<Longrightarrow> map_of (filter (\<lambda>(k, e). P e) xs) k = (case map_of xs k of Some e \<Rightarrow> if P e then Some e else None | None \<Rightarrow> None)"
  by (induction xs) (auto split: option.split simp: map_of_eq_None_iff image_iff dest: map_of_SomeD)

lemma map_of_map_entry: "map_of (AList.map_entry k f xs) j = (if j = k then map_option f (map_of xs k) else map_of xs j)"
  by (induction xs) auto

definition bucket_of :: "'l rate_lib \<Rightarrow> string \<Rightarrow> 'l limiter_registry \<Rightarrow> 'l" where
  "bucket_of L key R = (case lookup R key of Some e \<Rightarrow> le_limiter e | None \<Rightarrow> rate_NewLimiter L (reg_limit R) (reg_burst R))"

definition settings :: "'l limiter_registry \<Rightarrow> rat \<times> int \<times> duration \<times> duration" where
  "settings R = (reg_limit R, reg_burst R, reg_idleTTL R, reg_sweepInterval R)"

lemma allow_step:
  assumes "allow L now key R = (ok, R')" "distinct (map fst (reg_entries R))" "0 \<le> reg_idleTTL R"
  shows "ok = fst (rate_Allow L now (bucket_of L key R))"
    and "lookup R' k = (if k = key then Some \<lparr>le_limiter = snd (rate_Allow L now (bucket_of L key R)), le_lastSeen = now\<rparr>
      else case lookup R k of Some e \<Rightarrow> if due now R \<and> expired now R e then None else Some e | None \<Rightarrow> None)"
    and "distinct (map fst (reg_entries R'))" "settings R' = settings R"
    and "reg_lastSweep R' = (if due now R then now else reg_lastSweep R)"
proof -
  obtain l where l: "rate_Allow L now (bucket_of L key R) = (ok, l)"
    using assms(1) by (auto simp: allow_def Let_def bucket_of_def lookup_def split: prod.splits)
  let ?u = "AList.update key \<lparr>le_limiter = bucket_of L key R, le_lastSeen = now\<rparr> (reg_entries R)"
  have d: "distinct (map fst ?u)" using assms(2) by (rule distinct_update)
  have z: "time_Sub now now = 0" by (simp add: time_Sub_def min_int64_def max_int64_def)
  have R': "R' = (if due now R then R\<lparr>reg_lastSweep := now,
      reg_entries := AList.map_entry key (\<lambda>e. e\<lparr>le_limiter := l\<rparr>) (filter (\<lambda>(k, e). \<not> expired now R e) ?u)\<rparr>
    else R\<lparr>reg_entries := AList.map_entry key (\<lambda>e. e\<lparr>le_limiter := l\<rparr>) ?u\<rparr>)"
    using assms(1) l by (cases "due now R") (auto simp: allow_def Let_def bucket_of_def lookup_def sweep_def due_def expired_def)
  show "ok = fst (rate_Allow L now (bucket_of L key R))" by (simp add: l)
  show "lookup R' k = (if k = key then Some \<lparr>le_limiter = snd (rate_Allow L now (bucket_of L key R)), le_lastSeen = now\<rparr>
      else case lookup R k of Some e \<Rightarrow> if due now R \<and> expired now R e then None else Some e | None \<Rightarrow> None)"
    using assms(3) d unfolding R' lookup_def
    by (auto simp: map_of_map_entry map_of_filter_entries update_conv' l expired_def z split: option.split)
  show "distinct (map fst (reg_entries R'))" "settings R' = settings R" "reg_lastSweep R' = (if due now R then now else reg_lastSweep R)"
    using d unfolding R' by (auto simp: settings_def distinct_map_entry distinct_map_filter)
qed

section \<open>Memory\<close>

definition bounded :: "(time \<times> string) set \<Rightarrow> time \<Rightarrow> 'l limiter_registry \<Rightarrow> bool" where
  "bounded C now R \<longleftrightarrow> distinct (map fst (reg_entries R)) \<and> 0 \<le> reg_lastSweep R \<and> reg_lastSweep R \<le> now \<and>
     now - reg_lastSweep R < reg_sweepInterval R \<and>
     (\<forall>k e. lookup R k = Some e \<longrightarrow> 0 \<le> le_lastSeen e \<and> le_lastSeen e \<le> now \<and> reg_lastSweep R - reg_idleTTL R \<le> le_lastSeen e \<and>
        (le_lastSeen e, k) \<in> C)"

lemma bounded_step:
  assumes "bounded C t R" "t \<le> now" "now \<le> max_int64" "allow L now key R = (ok, R')" "0 \<le> reg_idleTTL R" "0 < reg_sweepInterval R"
  shows "bounded (insert (now, key) C) now R'"
proof -
  have d: "distinct (map fst (reg_entries R))" "0 \<le> reg_lastSweep R" "reg_lastSweep R \<le> t" using assms(1) by (auto simp: bounded_def)
  note step = allow_step [OF assms(4) d(1) assms(5)]
  have "time_Sub now (reg_lastSweep R) = now - reg_lastSweep R" using d assms(2,3) by (intro time_Sub_clock) auto
  then have due: "due now R \<longleftrightarrow> reg_sweepInterval R \<le> now - reg_lastSweep R" by (simp add: due_def)
  have "0 \<le> le_lastSeen e \<and> le_lastSeen e \<le> now \<and> reg_lastSweep R' - reg_idleTTL R' \<le> le_lastSeen e \<and> (le_lastSeen e, k) \<in> insert (now, key) C"
    if k: "lookup R' k = Some e" for k e
  proof (cases "k = key")
    case True
    with k step d assms(2,5) show ?thesis by (auto simp: settings_def)
  next
    case False
    with k step(2) [of k] have e: "lookup R k = Some e" "\<not> (due now R \<and> expired now R e)" by (auto split: option.splits if_splits)
    from e(1) assms(1) have b: "0 \<le> le_lastSeen e" "le_lastSeen e \<le> t" "reg_lastSweep R - reg_idleTTL R \<le> le_lastSeen e" "(le_lastSeen e, k) \<in> C"
      by (auto simp: bounded_def)
    then have "time_Sub now (le_lastSeen e) = now - le_lastSeen e" using assms(2,3) by (intro time_Sub_clock) auto
    with e(2) b assms(2) step(4,5) show ?thesis by (auto simp: settings_def expired_def)
  qed
  with step(3-5) d due assms(2,6) show ?thesis by (auto simp: bounded_def settings_def)
qed

lemma bounded_run:
  assumes "clocked t cs" "bounded C t R" "run_allow L cs R = (oks, R')" "0 \<le> reg_idleTTL R" "0 < reg_sweepInterval R"
  shows "bounded (C \<union> set cs) (if cs = [] then t else fst (last cs)) R' \<and> settings R' = settings R"
  using assms
proof (induction cs arbitrary: t C R oks)
  case (Cons c cs)
  obtain now key where c: "c = (now, key)" by fastforce
  obtain ok R1 oks1 where a: "allow L now key R = (ok, R1)" and r: "run_allow L cs R1 = (oks1, R')"
    using Cons.prems(3) c by (auto split: prod.splits)
  have d: "distinct (map fst (reg_entries R))" using Cons.prems(2) by (simp add: bounded_def)
  have s: "settings R1 = settings R" by (rule allow_step(4) [OF a d Cons.prems(4)])
  have "bounded (insert (now, key) C) now R1"
    using bounded_step [OF Cons.prems(2) _ _ a Cons.prems(4,5)] Cons.prems(1) c by simp
  from Cons.IH [OF _ this r] Cons.prems(1,4,5) c s show ?case by (auto simp: settings_def)
qed simp


section \<open>Forgetting is not noticed\<close>

text \<open>
  What \<^verbatim>\<open>golang.org/x/time/rate\<close> documents of a limiter, of which \<open>fresh_by s l\<close> says that it may have been last
  used at \<open>s\<close>: it holds at most the burst, and after the time it takes to refill, it answers as a new one.
\<close>

locale token_bucket =
  fixes L :: "'l rate_lib" and limit :: rat and burst :: int and refill :: duration and fresh_by :: "time \<Rightarrow> 'l \<Rightarrow> bool"
  assumes new_wf: "fresh_by s (rate_NewLimiter L limit burst)"
    and allow_wf: "fresh_by s l \<Longrightarrow> s \<le> now \<Longrightarrow> fresh_by now (snd (rate_Allow L now l))"
    and refilled: "fresh_by s l \<Longrightarrow> refill \<le> now - s \<Longrightarrow> rate_Allow L now l = rate_Allow L now (rate_NewLimiter L limit burst)"
begin

definition sim :: "time \<Rightarrow> 'l limiter_registry \<Rightarrow> (string \<rightharpoonup> 'l) \<Rightarrow> bool" where
  "sim now R Q \<longleftrightarrow> distinct (map fst (reg_entries R)) \<and>
     (\<forall>k e. lookup R k = Some e \<longrightarrow> Q k = Some (le_limiter e) \<and> fresh_by (le_lastSeen e) (le_limiter e) \<and> 0 \<le> le_lastSeen e \<and> le_lastSeen e \<le> now) \<and>
     (\<forall>k l. lookup R k = None \<longrightarrow> Q k = Some l \<longrightarrow> (\<exists>s. fresh_by s l \<and> reg_idleTTL R < now - s))"

lemma sim_gone: "sim t R Q \<Longrightarrow> lookup R k = None \<Longrightarrow> Q k = Some l \<Longrightarrow> \<exists>s. fresh_by s l \<and> reg_idleTTL R < t - s"
  unfolding sim_def by blast

lemma sim_bucket:
  assumes "sim t R Q" "t \<le> now" "refill \<le> reg_idleTTL R" "reg_limit R = limit" "reg_burst R = burst"
  shows "rate_Allow L now (case Q key of Some l \<Rightarrow> l | None \<Rightarrow> rate_NewLimiter L limit burst) = rate_Allow L now (bucket_of L key R)"
    and "fresh_by now (snd (rate_Allow L now (bucket_of L key R)))"
proof -
  show "fresh_by now (snd (rate_Allow L now (bucket_of L key R)))"
  proof (cases "lookup R key")
    case None
    with assms(4,5) allow_wf [OF new_wf order_refl] show ?thesis by (simp add: bucket_of_def)
  next
    case (Some e)
    with assms(1,2) have "fresh_by (le_lastSeen e) (le_limiter e)" "le_lastSeen e \<le> now" by (force simp: sim_def)+
    from allow_wf [OF this] Some show ?thesis by (simp add: bucket_of_def)
  qed
  show "rate_Allow L now (case Q key of Some l \<Rightarrow> l | None \<Rightarrow> rate_NewLimiter L limit burst) = rate_Allow L now (bucket_of L key R)"
  proof (cases "lookup R key")
    case (Some e)
    with assms(1) show ?thesis by (auto simp: sim_def bucket_of_def)
  next
    case None
    show ?thesis
    proof (cases "Q key")
      case l: (Some l)
      from sim_gone [OF assms(1) None l] obtain s where "fresh_by s l" "reg_idleTTL R < t - s" by blast
      with refilled [of s l now] assms(2-5) l None show ?thesis by (simp add: bucket_of_def)
    qed (use None assms(4,5) in \<open>simp add: bucket_of_def\<close>)
  qed
qed

lemma sim_step:
  assumes "sim t R Q" "0 \<le> t" "t \<le> now" "now \<le> max_int64" "refill \<le> reg_idleTTL R" "0 \<le> reg_idleTTL R" "reg_limit R = limit" "reg_burst R = burst"
    and "allow L now key R = (ok, R')"
  shows "\<exists>Q'. keep_allow L limit burst now key Q = (ok, Q') \<and> sim now R' Q'"
proof -
  have d: "distinct (map fst (reg_entries R))" using assms(1) by (simp add: sim_def)
  note step = allow_step [OF assms(9) d assms(6)] and b = sim_bucket [OF assms(1,3,5,7,8)]
  let ?l = "snd (rate_Allow L now (bucket_of L key R))"
  have "keep_allow L limit burst now key Q = (ok, Q(key \<mapsto> ?l))"
    using b(1) [of key] step(1) by (simp add: keep_allow_def split: prod.splits)
  moreover have "sim now R' (Q(key \<mapsto> ?l))"
    unfolding sim_def
  proof (intro conjI allI impI)
    show "distinct (map fst (reg_entries R'))" by (rule step(3))
    fix k e assume k: "lookup R' k = Some e"
    show "(Q(key \<mapsto> ?l)) k = Some (le_limiter e)" "fresh_by (le_lastSeen e) (le_limiter e)" "0 \<le> le_lastSeen e" "le_lastSeen e \<le> now"
      using k step(2) [of k] assms(1-3) b(2) [of key] by (force simp: sim_def split: if_splits option.splits)+
  next
    fix k l assume k: "lookup R' k = None" "(Q(key \<mapsto> ?l)) k = Some l"
    with step(2) [of k] have nk: "k \<noteq> key" "Q k = Some l" by (auto split: if_splits)
    show "\<exists>s. fresh_by s l \<and> reg_idleTTL R' < now - s"
    proof (cases "lookup R k")
      case None
      from sim_gone [OF assms(1) None nk(2)] obtain s where "fresh_by s l" "reg_idleTTL R < t - s" by blast
      with assms(3) step(4) show ?thesis by (intro exI [of _ s]) (auto simp: settings_def)
    next
      case (Some e)
      with k(1) nk(1) step(2) [of k] have "expired now R e" by (auto split: if_splits)
      moreover from Some nk(2) assms(1) have "fresh_by (le_lastSeen e) l" "0 \<le> le_lastSeen e" "le_lastSeen e \<le> t" by (auto simp: sim_def)
      moreover from this assms(3,4) have "time_Sub now (le_lastSeen e) = now - le_lastSeen e" by (intro time_Sub_clock) auto
      ultimately show ?thesis using step(4) by (intro exI [of _ "le_lastSeen e"]) (auto simp: expired_def settings_def)
    qed
  qed
  ultimately show ?thesis by blast
qed

lemma sim_run:
  assumes "sim t R Q" "0 \<le> t" "clocked t cs" "refill \<le> reg_idleTTL R" "0 \<le> reg_idleTTL R" "reg_limit R = limit" "reg_burst R = burst"
  shows "fst (run_allow L cs R) = run_keep L limit burst cs Q"
  using assms
proof (induction cs arbitrary: t R Q)
  case (Cons c cs)
  obtain now key where c: "c = (now, key)" by fastforce
  obtain ok R1 where a: "allow L now key R = (ok, R1)" by fastforce
  have d: "distinct (map fst (reg_entries R))" using Cons.prems(1) by (simp add: sim_def)
  have s: "settings R1 = settings R" by (rule allow_step(4) [OF a d Cons.prems(5)])
  from sim_step [OF Cons.prems(1,2) _ _ Cons.prems(4-7) a] Cons.prems(3) c obtain Q1 where
    q: "keep_allow L limit burst now key Q = (ok, Q1)" "sim now R1 Q1" by auto
  from Cons.IH [OF q(2)] Cons.prems c s a q(1) show ?case by (auto simp: settings_def split: prod.splits)
qed simp

lemma forgetting_unnoticed:
  assumes "refill \<le> defaultLimiterIdleTTL" "0 \<le> t0" "clocked t0 calls"
  shows "fst (run_allow L calls (newLimiterRegistry t0 limit burst)) = run_keep L limit burst calls Map.empty"
proof (rule sim_run [OF _ assms(2,3)])
  show "sim t0 (newLimiterRegistry t0 limit burst) Map.empty" by (simp add: sim_def newLimiterRegistry_def lookup_def)
  show "refill \<le> reg_idleTTL (newLimiterRegistry t0 limit burst)" using assms(1) by (simp add: newLimiterRegistry_def)
  show "0 \<le> reg_idleTTL (newLimiterRegistry t0 limit burst)"
    by (simp add: newLimiterRegistry_def defaultLimiterIdleTTL_def Minute_def Second_def)
qed (simp_all add: newLimiterRegistry_def)

end

text \<open>A token bucket, for the interpretation at the default limits.\<close>

record bucket =
  bk_limit :: rat
  bk_burst :: int
  bk_tokens :: rat
  bk_last :: "time option"

definition bucket_tokens :: "time \<Rightarrow> bucket \<Rightarrow> rat" where
  "bucket_tokens now b =
     (case bk_last b of
        None \<Rightarrow> of_int (bk_burst b)
      | Some t \<Rightarrow> min (of_int (bk_burst b)) (bk_tokens b + bk_limit b * of_int (max 0 (now - t)) / of_int Second))"

definition bucket_lib :: "bucket rate_lib" where
  "bucket_lib =
     \<lparr>rate_NewLimiter = \<lambda>limit burst. \<lparr>bk_limit = limit, bk_burst = burst, bk_tokens = 0, bk_last = None\<rparr>,
      rate_Allow = \<lambda>now b. let n = bucket_tokens now b in
        if 1 \<le> n then (True, b\<lparr>bk_tokens := n - 1, bk_last := Some now\<rparr>) else (False, b)\<rparr>"

definition bucket_wf :: "rat \<Rightarrow> int \<Rightarrow> time \<Rightarrow> bucket \<Rightarrow> bool" where
  "bucket_wf limit burst s b \<longleftrightarrow> bk_limit b = limit \<and> bk_burst b = burst \<and> 0 \<le> bk_tokens b \<and>
     (case bk_last b of None \<Rightarrow> True | Some t \<Rightarrow> t \<le> s)"

lemma bucket_refills:
  assumes "0 \<le> limit" "1 \<le> burst" "0 \<le> refill" "of_int burst * of_int Second \<le> limit * of_int refill"
  shows "token_bucket bucket_lib limit burst refill (bucket_wf limit burst)"
proof
  fix s show "bucket_wf limit burst s (rate_NewLimiter bucket_lib limit burst)" by (simp add: bucket_wf_def bucket_lib_def)
next
  fix s l now assume "bucket_wf limit burst s l" "s \<le> now"
  then show "bucket_wf limit burst now (snd (rate_Allow bucket_lib now l))"
    by (auto simp: bucket_wf_def bucket_lib_def Let_def split: option.splits)
next
  fix s l now assume l: "bucket_wf limit burst s l" "refill \<le> now - s"
  have "bucket_tokens now l = of_int burst"
  proof (cases "bk_last l")
    case (Some t)
    with l have t: "t \<le> s" "refill \<le> now - t" "0 \<le> bk_tokens l" by (auto simp: bucket_wf_def)
    have "limit * of_int refill \<le> limit * of_int (now - t)" using assms(1) t(2) by (intro mult_left_mono) simp_all
    with assms(4) have "of_int burst \<le> limit * of_int (now - t) / of_int Second" by (simp add: field_simps Second_def)
    with t assms(3) Some l(1) show ?thesis by (auto simp: bucket_tokens_def bucket_wf_def min_def max_def)
  qed (use l in \<open>simp add: bucket_tokens_def bucket_wf_def\<close>)
  with l(1) assms(2) show "rate_Allow bucket_lib now l = rate_Allow bucket_lib now (rate_NewLimiter bucket_lib limit burst)"
    by (auto simp: bucket_lib_def bucket_tokens_def bucket_wf_def Let_def)
qed

interpretation default_bucket: token_bucket bucket_lib 100 200 "2 * Second" "bucket_wf 100 200"
  by (rule bucket_refills) (simp_all add: Second_def)

text \<open>
  C36.  Dropping idle clients changes no answer.  If limiters fill up within the fifteen minutes after
  which a client is forgotten, then, whatever requests come, each gets the answer that a registry gives that
  keeps one limiter per client for ever.
\<close>

theorem eviction_is_unnoticed:
  assumes "token_bucket L limit burst refill fresh_by" "refill \<le> defaultLimiterIdleTTL" "0 \<le> t0" "clocked t0 calls"
  shows "fst (run_allow L calls (newLimiterRegistry t0 limit burst)) = run_keep L limit burst calls Map.empty"
  by (rule token_bucket.forgetting_unnoticed [OF assms])

definition sample_calls :: "(time \<times> string) list" where
  "sample_calls = [(0, ''ip:1''), (5, ''ip:2''), (17 * Minute, ''ip:2''), (18 * Minute, ''ip:1'')]"

theorem eviction_is_unnoticed_witness:
  "fst (run_allow bucket_lib sample_calls (newLimiterRegistry 0 100 200)) = run_keep bucket_lib 100 200 sample_calls Map.empty \<and>
     fst ` set (reg_entries (snd (run_allow bucket_lib (take 3 sample_calls) (newLimiterRegistry 0 100 200)))) = {''ip:2''}"
proof
  have "clocked 0 sample_calls" "2 * Second \<le> defaultLimiterIdleTTL"
    by (simp_all add: sample_calls_def max_int64_def Minute_def Second_def defaultLimiterIdleTTL_def)
  then show "fst (run_allow bucket_lib sample_calls (newLimiterRegistry 0 100 200)) = run_keep bucket_lib 100 200 sample_calls Map.empty"
    using eviction_is_unnoticed [OF default_bucket.token_bucket_axioms] by blast
  show "fst ` set (reg_entries (snd (run_allow bucket_lib (take 3 sample_calls) (newLimiterRegistry 0 100 200)))) = {''ip:2''}"
    by (simp add: sample_calls_def allow_def bucket_lib_def bucket_tokens_def newLimiterRegistry_def sweep_def Let_def time_Sub_def
        min_int64_def max_int64_def Minute_def Second_def defaultLimiterIdleTTL_def defaultLimiterSweepInterval_def eval_nat_numeral)
qed


text \<open>
  A bucket that takes longer to fill is forgotten too early: with two requests per hour allowed, a client
  that has used both and is idle for fifteen minutes gets a new bucket, once another client's request
  sweeps the old one away.
\<close>

definition slow_calls :: "(time \<times> string) list" where
  "slow_calls = [(0, ''a''), (0, ''a''), (0, ''a''), (905 * Second, ''b''), (906 * Second, ''a'')]"

lemma slow_bucket_forgotten:
  "fst (run_allow bucket_lib slow_calls (newLimiterRegistry 0 (1 / 1800) 2)) = [True, True, False, True, True]"
  "run_keep bucket_lib (1 / 1800) 2 slow_calls Map.empty = [True, True, False, True, False]"
  by (simp_all add: slow_calls_def allow_def keep_allow_def bucket_lib_def bucket_tokens_def newLimiterRegistry_def sweep_def Let_def time_Sub_def
      min_int64_def max_int64_def Minute_def Second_def defaultLimiterIdleTTL_def defaultLimiterSweepInterval_def)

end
