(* ===== verification/Byte_Size.thy ===== *)
theory Byte_Size
  imports HttpProxy Go_Encoding
begin

text \<open>
  \<^verbatim>\<open>platform/config/bytesize.go\<close>: byte counts such as \<^verbatim>\<open>10MiB\<close>, read through \<^verbatim>\<open>strconv.ParseFloat\<close> and
  a product of two \<^verbatim>\<open>float64\<close> values.  Shown are what an accepted text can stand for, and that every size
  below 2 to the 53 is read exactly.
\<close>

section \<open>strings.TrimSpace\<close>

lemma strip_seq_none: "s = [] \<or> byte (hd s) \<notin> hd ` set seqs \<Longrightarrow> [] \<notin> set seqs \<Longrightarrow> strip_seq seqs s = 0"
proof -
  assume s: "s = [] \<or> byte (hd s) \<notin> hd ` set seqs" and n: "[] \<notin> set seqs"
  have "find (\<lambda>p. take (length p) (map byte s) = p) seqs = None"
    unfolding find_None_iff
  proof clarify
    fix p assume p: "p \<in> set seqs" "take (length p) (map byte s) = p"
    with n obtain b q where "p = b # q" by (cases p) auto
    with p s show False by (cases s) force+
  qed
  then show ?thesis by (simp add: strip_seq_def)
qed

lemma trim_with_none: "s = [] \<or> byte (hd s) \<notin> hd ` set seqs \<Longrightarrow> [] \<notin> set seqs \<Longrightarrow> trim_with seqs s = s"
  by (subst trim_with.simps) (simp add: strip_seq_none)

definition graphic :: "char \<Rightarrow> bool" where
  "graphic c \<longleftrightarrow> 33 \<le> byte c \<and> byte c \<le> 126"

lemma space_seqs_ends:
  "\<forall>p \<in> set space_seqs. p \<noteq> [] \<and> (hd p \<le> 32 \<or> 127 \<le> hd p) \<and> (last p \<le> 32 \<or> 127 \<le> last p)"
  by code_simp

lemma graphic_no_space:
  "graphic c \<Longrightarrow> byte c \<notin> hd ` set space_seqs" "graphic c \<Longrightarrow> byte c \<notin> hd ` set (map rev space_seqs)"
  using space_seqs_ends by (force simp: graphic_def hd_rev)+

lemma space_seqs_nonempty: "[] \<notin> set space_seqs" "[] \<notin> set (map rev space_seqs)"
  using space_seqs_ends by auto

lemma trim_front: "s = [] \<or> graphic (hd s) \<Longrightarrow> trim_with space_seqs s = s"
  using graphic_no_space(1) space_seqs_nonempty(1) by (intro trim_with_none) auto

lemma trim_back: "s = [] \<or> graphic (hd s) \<Longrightarrow> trim_with (map rev space_seqs) s = s"
  using graphic_no_space(2) space_seqs_nonempty(2) by (intro trim_with_none) auto

lemma TrimSpace_graphic: "s = [] \<or> graphic (hd s) \<and> graphic (last s) \<Longrightarrow> TrimSpace s = s"
  unfolding TrimSpace_def by (subst trim_front, blast, subst trim_back) (auto simp: hd_rev)

lemma TrimSpace_newline:
  assumes "s \<noteq> []" "graphic (hd s)" "graphic (last s)"
  shows "TrimSpace (s @ [CHR 0x0A]) = s"
proof -
  have "strip_seq (map rev space_seqs) (CHR 0x0A # rev s) = 1"
    by (simp add: strip_seq_def space_seqs_def byte_def)
  then have "trim_with (map rev space_seqs) (CHR 0x0A # rev s) = trim_with (map rev space_seqs) (rev s)"
    by (subst trim_with.simps) simp
  then show ?thesis using assms by (simp add: TrimSpace_def trim_front trim_back hd_rev)
qed

section \<open>Byte sizes\<close>

text \<open>\<^verbatim>\<open>strconv.ParseFloat\<close> on a sign, digits and points: the nearest \<^verbatim>\<open>float64\<close>, if there is a finite one.\<close>

definition ParseFloat :: "string \<Rightarrow> rat result" where
  "ParseFloat s =
     (let neg = (s \<noteq> [] \<and> hd s = CHR ''-'');
          body = (if s \<noteq> [] \<and> hd s \<in> {CHR ''-'', CHR ''+''} then tl s else s);
          digits = filter is_digit body;
          scale = length (takeWhile (\<lambda>c. c \<noteq> CHR ''.'') (rev body))
      in if digits = [] \<or> length body - length digits > 1 then Inl (External ''strconv.ParseFloat: invalid syntax'')
         else let v = float64_of (of_nat (digits_val digits) / (if length digits < length body then 10 ^ scale else 1))
           in if v \<ge> 2 ^ 1024 then Inl (External ''strconv.ParseFloat: value out of range'')
              else Inr (if neg then - v else v))"

definition byteSizeMultiplier :: "string \<Rightarrow> nat result" where
  "byteSizeMultiplier unit =
     (let u = ToLower unit in
      if u \<in> {[], ''b'', ''byte'', ''bytes''} then Inr 1
      else if u \<in> {''k'', ''kib''} then Inr (2 ^ 10)
      else if u \<in> {''m'', ''mib''} then Inr (2 ^ 20)
      else if u \<in> {''g'', ''gib''} then Inr (2 ^ 30)
      else if u \<in> {''t'', ''tib''} then Inr (2 ^ 40)
      else if u = ''kb'' then Inr 1000
      else if u = ''mb'' then Inr (1000 * 1000)
      else if u = ''gb'' then Inr (1000 * 1000 * 1000)
      else if u = ''tb'' then Inr (1000 * 1000 * 1000 * 1000)
      else Inl (Errorf ''byte size: unknown unit %q'' [FStr unit]))"

text \<open>
  The conversion of a \<^verbatim>\<open>float64\<close> to \<^verbatim>\<open>int64\<close> cuts the fraction off; what it gives beyond the range is up
  to the implementation and an argument here.
\<close>

definition to_int64 :: "int \<Rightarrow> rat \<Rightarrow> int" where
  "to_int64 beyond x = (if x < 2 ^ 63 then floor x else beyond)"

text \<open>\<^verbatim>\<open>float64(^uint64(0) >> 1)\<close> is 2 to the 63.\<close>

definition ParseByteSize :: "int \<Rightarrow> string \<Rightarrow> int result" where
  "ParseByteSize beyond s =
     (let s = TrimSpace s in
      if s = [] then Inl (Errorf ''byte size: empty'' [])
      else
        let sign = (if hd s \<in> {CHR ''+'', CHR ''-''} then [hd s] else []);
            digits = takeWhile number_byte (drop (length sign) s);
            numStr = sign @ digits;
            unit = TrimSpace (drop (length numStr) s)
        in if digits = [] then Inl (Errorf ''byte size: missing number: %q'' [FStr s])
           else case ParseFloat numStr of
               Inl e \<Rightarrow> Inl (Wrapf ''byte size: invalid number %q: %w'' [FStr numStr] e)
             | Inr num \<Rightarrow>
                 if num < 0 then Inl (Errorf ''byte size: negative not allowed: %q'' [FStr s])
                 else case byteSizeMultiplier unit of
                     Inl e \<Rightarrow> Inl e
                   | Inr factor \<Rightarrow>
                       let bytes = float64_of (num * float64_of (of_nat factor)) in
                       if bytes > float64_of (2 ^ 63 - 1) then Inl (Errorf ''byte size: overflow: %q'' [FStr s])
                       else Inr (to_int64 beyond bytes))"

lemma max_int64_float [simp]: "float64_of 9223372036854775807 = 9223372036854775808"
  by code_simp

section \<open>What an accepted size stands for\<close>

lemma round_even_nonneg: "0 \<le> x \<Longrightarrow> 0 \<le> round_even x"
  by (simp add: round_even_def Let_def)

lemma float64_of_nonneg: "0 \<le> x \<Longrightarrow> 0 \<le> float64_of x"
  using round_even_nonneg [of "x / 2 powi float_exponent x"] by (simp add: float64_of_def)

lemma ParseFloat_dec:
  assumes "n < 2 ^ 53"
  shows "ParseFloat (dec n) = Inr (of_nat n)"
proof -
  have digits: "\<forall>c \<in> set (dec n). is_digit c" using dec_digits by blast
  then have "hd (dec n) \<notin> {CHR ''-'', CHR ''+''}"
    using hd_in_set [OF dec_nonempty [of n]] by (auto simp: is_digit_def byte_def)
  moreover from digits have "filter is_digit (dec n) = dec n" by (rule filter_True)
  moreover have "(of_nat n :: rat) < 2 ^ 1024"
  proof -
    have "of_nat n < (2::rat) ^ 53" using assms by (metis of_nat_less_iff of_nat_numeral of_nat_power)
    also have "\<dots> \<le> 2 ^ 1024" by (rule power_increasing) simp_all
    finally show ?thesis .
  qed
  ultimately show ?thesis
    by (simp add: ParseFloat_def Let_def dec_nonempty digits_val_dec float64_of_int [OF assms] del: dec.simps power_numeral_reduce)
qed

text \<open>A number with a unit that starts with no digit.\<close>

definition unit_suffix :: "string \<Rightarrow> bool" where
  "unit_suffix u \<longleftrightarrow> u = [] \<or> \<not> number_byte (hd u) \<and> graphic (hd u) \<and> graphic (last u)"

lemma ParseByteSize_dec:
  assumes "n < 2 ^ 53" "unit_suffix u" "byteSizeMultiplier u = Inr factor"
  shows "ParseByteSize beyond (dec n @ u) =
     (let bytes = float64_of (of_nat n * float64_of (of_nat factor)) in
      if bytes > 2 ^ 63 then Inl (Errorf ''byte size: overflow: %q'' [FStr (dec n @ u)]) else Inr (to_int64 beyond bytes))"
proof -
  have digit: "is_digit c" if "c \<in> set (dec n)" for c using that by (rule dec_digits)
  have g: "graphic c" "number_byte c" "c \<noteq> CHR ''-''" "c \<noteq> CHR ''+''" if "c \<in> set (dec n)" for c
    using digit [OF that] by (auto simp: graphic_def number_byte_def is_digit_def byte_def)
  have "hd (dec n) \<in> set (dec n)" "last (dec n) \<in> set (dec n)" by (simp_all add: dec_nonempty del: dec.simps)
  note e = g [OF this(1)] g [OF this(2)]
  have u: "TrimSpace u = u" "takeWhile number_byte u = []"
    using assms(2) by (auto simp: unit_suffix_def intro: TrimSpace_graphic) (cases u; simp)
  have "TrimSpace (dec n @ u) = dec n @ u"
    using e assms(2) by (intro TrimSpace_graphic) (auto simp: unit_suffix_def dec_nonempty last_append simp del: dec.simps)
  moreover have "takeWhile number_byte (dec n @ u) = dec n" using g(2) u(2) by (simp add: takeWhile_append2 del: dec.simps)
  ultimately show ?thesis
    using assms e u dec_nonempty [of n]
    by (simp add: ParseByteSize_def Let_def hd_append ParseFloat_dec del: dec.simps power_numeral_reduce)
qed

lemma byteSizeMultiplier_range: "byteSizeMultiplier u = Inr factor \<Longrightarrow> 0 < factor \<and> factor < 2 ^ 53"
  by (auto simp: byteSizeMultiplier_def Let_def split: if_splits)

text \<open>
  Every size below 2 to the 53 with a unit that is written without spaces is read exactly.
\<close>

theorem byte_size_exact:
  assumes "unit_suffix u" "byteSizeMultiplier u = Inr factor" "n * factor < 2 ^ 53"
  shows "ParseByteSize beyond (dec n @ u) = Inr (int (n * factor))"
proof -
  from byteSizeMultiplier_range [OF assms(2)] have f: "0 < factor" "factor < 2 ^ 53" by auto
  then have "n \<le> n * factor" by simp
  with assms(3) have n: "n < 2 ^ 53" by linarith
  have "float64_of (of_nat n * float64_of (of_nat factor)) = of_nat (n * factor)"
    using float64_of_int [OF f(2)] float64_of_int [OF assms(3)] by simp
  moreover have "(of_nat (n * factor) :: rat) < 2 ^ 63"
  proof -
    have "of_nat (n * factor) < (2::rat) ^ 53" using assms(3) by (metis of_nat_less_iff of_nat_numeral of_nat_power)
    then show ?thesis by simp
  qed
  ultimately show ?thesis
    unfolding ParseByteSize_dec [OF n assms(1,2)] by (simp add: to_int64_def Let_def del: of_nat_mult)
qed

lemma MiB_unit: "unit_suffix ''MiB''" "byteSizeMultiplier ''MiB'' = Inr (2 ^ 20)"
proof -
  have "ToLower ''MiB'' = ''mib''" by code_simp
  then show "byteSizeMultiplier ''MiB'' = Inr (2 ^ 20)" by (simp add: byteSizeMultiplier_def)
qed (simp add: unit_suffix_def number_byte_def graphic_def is_digit_def byte_def)

theorem byte_size_exact_witness: "ParseByteSize 7 (dec 10 @ ''MiB'') = Inr (10 * 2 ^ 20)"
  using byte_size_exact [OF MiB_unit, of 10 7] by (simp del: dec.simps)

lemma byte_size_range:
  assumes "ParseByteSize beyond s = Inr n"
  shows "0 \<le> n \<and> n \<le> max_int64 \<or> n = beyond"
proof -
  from assms obtain num factor where m: "\<not> num < 0" "n = to_int64 beyond (float64_of (num * float64_of (of_nat factor)))"
    unfolding ParseByteSize_def Let_def by (simp only: split: if_splits sum.splits) blast+
  define x where "x = float64_of (num * float64_of (of_nat factor))"
  have "0 \<le> x" unfolding x_def using m(1) by (intro float64_of_nonneg mult_nonneg_nonneg) simp_all
  moreover have "floor x < 2 ^ 63" if "x < 2 ^ 63" using that by (simp add: floor_less_iff)
  ultimately show ?thesis using m(2) by (auto simp: x_def [symmetric] to_int64_def max_int64_def)
qed

text \<open>The check for overflow lets 2 to the 63 through.\<close>

lemma byte_size_overflow_missed: "ParseByteSize beyond (dec 8388608 @ ''TiB'') = Inr beyond"
proof -
  have u: "unit_suffix ''TiB''" by (simp add: unit_suffix_def number_byte_def graphic_def is_digit_def byte_def)
  have m: "byteSizeMultiplier ''TiB'' = Inr (2 ^ 40)"
  proof -
    have "ToLower ''TiB'' = ''tib''" by code_simp
    then show ?thesis by (simp add: byteSizeMultiplier_def)
  qed
  have f: "float64_of (8388608 * float64_of 1099511627776) = 9223372036854775808" by code_simp
  have "ParseByteSize beyond (dec 8388608 @ ''TiB'') = (let bytes = float64_of (of_nat 8388608 * float64_of (of_nat (2 ^ 40))) in
      if bytes > 2 ^ 63 then Inl (Errorf ''byte size: overflow: %q'' [FStr (dec 8388608 @ ''TiB'')]) else Inr (to_int64 beyond bytes))"
    by (rule ParseByteSize_dec [OF _ u m]) simp
  with f show ?thesis by (simp add: to_int64_def del: dec.simps)
qed

end
