(* ===== verification/Config.thy ===== *)
theory Config
  imports Byte_Size
begin

text \<open>
  \<^verbatim>\<open>platform/config\<close>: the settings of the three servers, their defaults, and what \<^verbatim>\<open>Load\<close> accepts.  The
  configuration library that merges defaults, file and environment, and the one that decodes the merged
  settings, are parameters; the decoding hooks named in the code are modelled, and so is every check.
\<close>

section \<open>Settings\<close>

record badger_config =
  bg_Path :: string
  bg_GCInterval :: duration

record grpc_config =
  gr_ListenAddr :: string
  gr_DialAddr :: string
  gr_KeepaliveInterval :: duration
  gr_KeepaliveTimeout :: duration
  gr_RateLimitRPS :: rat
  gr_RateLimitBurst :: int

record dashboard_config =
  db_Enabled :: bool
  db_ListenAddr :: string
  db_CORSAllowOrigins :: "string list"
  db_RateLimitRPS :: rat
  db_RateLimitBurst :: int

record probes_config =
  pb_Enabled :: bool
  pb_ListenAddr :: string

record auth_config =
  at_TokenTTL :: duration
  at_RegistrationTokenTTL :: duration
  at_AgentTokenTTL :: duration

record agent_config =
  ag_Name :: string
  ag_Labels :: labels
  ag_StatePath :: string
  ag_HeartbeatInterval :: duration
  ag_HeartbeatThreshold :: duration
  ag_RegistrationToken :: string

record dns_cache_config =
  dc_Enabled :: bool
  dc_TTL :: duration

record proxy_config =
  px_MaxRequestBodyBytes :: int
  px_MaxIdleConns :: int
  px_MaxIdleConnsPerHost :: int
  px_IdleConnTimeout :: duration
  px_DialTimeout :: duration
  px_DNSCache :: dns_cache_config

record dataplane_config =
  dp_EventCoalesceWindow :: duration
  dp_EventCoalesceMaxBuffer :: int
  dp_CPDisconnectStrategy :: string
  dp_CPDisconnectUnreachableThreshold :: duration
  dp_CPDisconnectRecoverThreshold :: duration
  dp_EventResyncInterval :: duration

record otel_config =
  ot_Enabled :: bool
  ot_Endpoint :: string
  ot_Insecure :: bool
  ot_ServiceName :: string
  ot_ExportInterval :: duration
  ot_TracesEnabled :: bool
  ot_TraceSampleRatio :: rat

record config =
  cfg_LogLevel :: string
  cfg_Badger :: badger_config
  cfg_GRPC :: grpc_config
  cfg_Dashboard :: dashboard_config
  cfg_Probes :: probes_config
  cfg_Auth :: auth_config
  cfg_Agent :: agent_config
  cfg_Proxy :: proxy_config
  cfg_Dataplane :: dataplane_config
  cfg_Otel :: otel_config

text \<open>\<^verbatim>\<open>GRPCConfig.DialTarget\<close>.\<close>

definition DialTarget :: "grpc_config \<Rightarrow> string" where
  "DialTarget c = (if gr_DialAddr c \<noteq> [] then gr_DialAddr c else gr_ListenAddr c)"

section \<open>Sources\<close>

text \<open>A value of the configuration file, of a default, or of the environment, which has strings only.\<close>

datatype setting =
    SString string
  | SInt int
  | SFloat rat
  | SBool bool
  | SDuration duration
  | SStrings "string list"
  | SLabels labels

type_synonym settings = "string \<rightharpoonup> setting"

definition Hour :: duration where "Hour = 60 * Minute"
definition Millisecond :: duration where "Millisecond = 1000000"

definition defaults :: "(string \<times> setting) list" where
  "defaults =
     [(''log_level'', SString ''info''),
      (''badger.path'', SString ''/var/pgway/lib''),
      (''badger.gc_interval'', SDuration (5 * Minute)),
      (''grpc.listen_addr'', SString '':9090''),
      (''grpc.keepalive_interval'', SDuration Minute),
      (''grpc.keepalive_timeout'', SDuration (20 * Second)),
      (''grpc.rate_limit_rps'', SFloat 100),
      (''grpc.rate_limit_burst'', SInt 200),
      (''dashboard.enabled'', SBool True),
      (''dashboard.listen_addr'', SString ''127.0.0.1:8081''),
      (''dashboard.cors_allow_origins'', SStrings []),
      (''dashboard.rate_limit_rps'', SFloat 100),
      (''dashboard.rate_limit_burst'', SInt 200),
      (''probes.enabled'', SBool False),
      (''probes.listen_addr'', SString '':8082''),
      (''auth.token_ttl'', SDuration (720 * Hour)),
      (''auth.registration_token_ttl'', SDuration (24 * Hour)),
      (''auth.agent_token_ttl'', SDuration (168 * Hour)),
      (''agent.name'', SString []),
      (''agent.labels'', SLabels []),
      (''agent.state_path'', SString ''/var/lib/pgway/agent.json''),
      (''agent.heartbeat_interval'', SDuration (10 * Second)),
      (''agent.heartbeat_threshold'', SDuration (30 * Second)),
      (''agent.registration_token'', SString []),
      (''proxy.max_request_body_bytes'', SString ''10MiB''),
      (''proxy.max_idle_conns'', SInt 1024),
      (''proxy.max_idle_conns_per_host'', SInt 128),
      (''proxy.idle_conn_timeout'', SDuration (90 * Second)),
      (''proxy.dial_timeout'', SDuration (10 * Second)),
      (''proxy.dns_cache.enabled'', SBool True),
      (''proxy.dns_cache.ttl'', SDuration (5 * Minute)),
      (''dataplane.event_coalesce_window'', SDuration (100 * Millisecond)),
      (''dataplane.event_coalesce_max_buffer'', SInt 256),
      (''dataplane.cp_disconnect_strategy'', SString ''fail_open''),
      (''dataplane.cp_disconnect_unreachable_threshold'', SDuration (30 * Second)),
      (''dataplane.cp_disconnect_recover_threshold'', SDuration 0),
      (''dataplane.event_resync_interval'', SDuration (5 * Minute)),
      (''otel.enabled'', SBool False),
      (''otel.endpoint'', SString ''localhost:4317''),
      (''otel.insecure'', SBool False),
      (''otel.service_name'', SString []),
      (''otel.export_interval'', SDuration (15 * Second)),
      (''otel.traces_enabled'', SBool False),
      (''otel.trace_sample_ratio'', SFloat (1 / 10))]"

text \<open>
  \<^verbatim>\<open>viper.ReadInConfig\<close> and the settings that \<^verbatim>\<open>viper.Unmarshal\<close> decodes, given the path and the defaults;
  the file is looked for in the usual places when the path is empty.
\<close>

type_synonym viper = "string \<Rightarrow> (string \<times> setting) list \<Rightarrow> settings result"

section \<open>Decoding\<close>

text \<open>\<^verbatim>\<open>mapstructure\<close> reads a value as one of these types, converting loosely.\<close>

record mapstructure =
  ms_string :: "setting \<Rightarrow> string result"
  ms_int :: "setting \<Rightarrow> int result"
  ms_float :: "setting \<Rightarrow> rat result"
  ms_bool :: "setting \<Rightarrow> bool result"
  ms_strings :: "setting \<Rightarrow> string list result"
  ms_labels :: "setting \<Rightarrow> labels result"

text \<open>
  The hooks, each for its target type: byte sizes, durations written as text, lists written with commas.
  An unsigned integer does not occur in a file; a fraction is cut off.
\<close>

definition truncate :: "rat \<Rightarrow> int" where
  "truncate x = (if x < 0 then - floor (- x) else floor x)"

definition byteSizeDecodeHook :: "int \<Rightarrow> setting \<Rightarrow> int result" where
  "byteSizeDecodeHook beyond v =
     (case v of
        SString s \<Rightarrow> ParseByteSize beyond s
      | SInt i \<Rightarrow> Inr i
      | SFloat x \<Rightarrow> Inr (if \<bar>x\<bar> < 2 ^ 63 then truncate x else beyond)
      | _ \<Rightarrow> Inl (External ''byte size: unsupported type''))"

definition StringToTimeDurationHookFunc :: "setting \<Rightarrow> setting result" where
  "StringToTimeDurationHookFunc v =
     (case v of SString s \<Rightarrow> bind_res (ParseDuration s) (\<lambda>d. Inr (SDuration d)) | _ \<Rightarrow> Inr v)"

definition StringToSliceHookFunc :: "setting \<Rightarrow> setting" where
  "StringToSliceHookFunc v =
     (case v of SString s \<Rightarrow> SStrings (if s = [] then [] else split_byte CHR '','' s) | _ \<Rightarrow> v)"

definition as_string :: "mapstructure \<Rightarrow> setting \<Rightarrow> string result" where
  "as_string M = ms_string M"

definition as_duration :: "mapstructure \<Rightarrow> setting \<Rightarrow> duration result" where
  "as_duration M v = bind_res (StringToTimeDurationHookFunc v) (ms_int M)"

definition as_strings :: "mapstructure \<Rightarrow> setting \<Rightarrow> string list result" where
  "as_strings M v = ms_strings M (StringToSliceHookFunc v)"

definition as_bytes :: "mapstructure \<Rightarrow> int \<Rightarrow> setting \<Rightarrow> int result" where
  "as_bytes M beyond v = bind_res (byteSizeDecodeHook beyond v) (\<lambda>n. ms_int M (SInt n))"

text \<open>A key that no source has leaves the zero value; of several errors the first stands for all.\<close>

definition field :: "settings \<Rightarrow> string \<Rightarrow> (setting \<Rightarrow> 'a result) \<Rightarrow> 'a \<Rightarrow> 'a result" where
  "field S key decode zero = (case S key of None \<Rightarrow> Inr zero | Some v \<Rightarrow> decode v)"

definition decode_badger :: "mapstructure \<Rightarrow> settings \<Rightarrow> badger_config result" where
  "decode_badger M S =
     bind_res (field S ''badger.path'' (as_string M) []) (\<lambda>x0.
     bind_res (field S ''badger.gc_interval'' (as_duration M) 0) (\<lambda>x1.
     Inr \<lparr>bg_Path = x0, bg_GCInterval = x1\<rparr>))"

definition decode_grpc :: "mapstructure \<Rightarrow> settings \<Rightarrow> grpc_config result" where
  "decode_grpc M S =
     bind_res (field S ''grpc.listen_addr'' (as_string M) []) (\<lambda>x0.
     bind_res (field S ''grpc.dial_addr'' (as_string M) []) (\<lambda>x1.
     bind_res (field S ''grpc.keepalive_interval'' (as_duration M) 0) (\<lambda>x2.
     bind_res (field S ''grpc.keepalive_timeout'' (as_duration M) 0) (\<lambda>x3.
     bind_res (field S ''grpc.rate_limit_rps'' (ms_float M) 0) (\<lambda>x4.
     bind_res (field S ''grpc.rate_limit_burst'' (ms_int M) 0) (\<lambda>x5.
     Inr \<lparr>gr_ListenAddr = x0, gr_DialAddr = x1, gr_KeepaliveInterval = x2, gr_KeepaliveTimeout = x3, gr_RateLimitRPS = x4, gr_RateLimitBurst = x5\<rparr>))))))"

definition decode_dashboard :: "mapstructure \<Rightarrow> settings \<Rightarrow> dashboard_config result" where
  "decode_dashboard M S =
     bind_res (field S ''dashboard.enabled'' (ms_bool M) False) (\<lambda>x0.
     bind_res (field S ''dashboard.listen_addr'' (as_string M) []) (\<lambda>x1.
     bind_res (field S ''dashboard.cors_allow_origins'' (as_strings M) []) (\<lambda>x2.
     bind_res (field S ''dashboard.rate_limit_rps'' (ms_float M) 0) (\<lambda>x3.
     bind_res (field S ''dashboard.rate_limit_burst'' (ms_int M) 0) (\<lambda>x4.
     Inr \<lparr>db_Enabled = x0, db_ListenAddr = x1, db_CORSAllowOrigins = x2, db_RateLimitRPS = x3, db_RateLimitBurst = x4\<rparr>)))))"

definition decode_probes :: "mapstructure \<Rightarrow> settings \<Rightarrow> probes_config result" where
  "decode_probes M S =
     bind_res (field S ''probes.enabled'' (ms_bool M) False) (\<lambda>x0.
     bind_res (field S ''probes.listen_addr'' (as_string M) []) (\<lambda>x1.
     Inr \<lparr>pb_Enabled = x0, pb_ListenAddr = x1\<rparr>))"

definition decode_auth :: "mapstructure \<Rightarrow> settings \<Rightarrow> auth_config result" where
  "decode_auth M S =
     bind_res (field S ''auth.token_ttl'' (as_duration M) 0) (\<lambda>x0.
     bind_res (field S ''auth.registration_token_ttl'' (as_duration M) 0) (\<lambda>x1.
     bind_res (field S ''auth.agent_token_ttl'' (as_duration M) 0) (\<lambda>x2.
     Inr \<lparr>at_TokenTTL = x0, at_RegistrationTokenTTL = x1, at_AgentTokenTTL = x2\<rparr>)))"

definition decode_agent :: "mapstructure \<Rightarrow> settings \<Rightarrow> agent_config result" where
  "decode_agent M S =
     bind_res (field S ''agent.name'' (as_string M) []) (\<lambda>x0.
     bind_res (field S ''agent.labels'' (ms_labels M) []) (\<lambda>x1.
     bind_res (field S ''agent.state_path'' (as_string M) []) (\<lambda>x2.
     bind_res (field S ''agent.heartbeat_interval'' (as_duration M) 0) (\<lambda>x3.
     bind_res (field S ''agent.heartbeat_threshold'' (as_duration M) 0) (\<lambda>x4.
     bind_res (field S ''agent.registration_token'' (as_string M) []) (\<lambda>x5.
     Inr \<lparr>ag_Name = x0, ag_Labels = x1, ag_StatePath = x2, ag_HeartbeatInterval = x3, ag_HeartbeatThreshold = x4, ag_RegistrationToken = x5\<rparr>))))))"

definition decode_dns_cache :: "mapstructure \<Rightarrow> settings \<Rightarrow> dns_cache_config result" where
  "decode_dns_cache M S =
     bind_res (field S ''proxy.dns_cache.enabled'' (ms_bool M) False) (\<lambda>x0.
     bind_res (field S ''proxy.dns_cache.ttl'' (as_duration M) 0) (\<lambda>x1.
     Inr \<lparr>dc_Enabled = x0, dc_TTL = x1\<rparr>))"

definition decode_proxy :: "mapstructure \<Rightarrow> int \<Rightarrow> settings \<Rightarrow> proxy_config result" where
  "decode_proxy M beyond S =
     bind_res (field S ''proxy.max_request_body_bytes'' (as_bytes M beyond) 0) (\<lambda>x0.
     bind_res (field S ''proxy.max_idle_conns'' (ms_int M) 0) (\<lambda>x1.
     bind_res (field S ''proxy.max_idle_conns_per_host'' (ms_int M) 0) (\<lambda>x2.
     bind_res (field S ''proxy.idle_conn_timeout'' (as_duration M) 0) (\<lambda>x3.
     bind_res (field S ''proxy.dial_timeout'' (as_duration M) 0) (\<lambda>x4.
     bind_res (decode_dns_cache M S) (\<lambda>x5.
     Inr \<lparr>px_MaxRequestBodyBytes = x0, px_MaxIdleConns = x1, px_MaxIdleConnsPerHost = x2, px_IdleConnTimeout = x3, px_DialTimeout = x4, px_DNSCache = x5\<rparr>))))))"

definition decode_dataplane :: "mapstructure \<Rightarrow> settings \<Rightarrow> dataplane_config result" where
  "decode_dataplane M S =
     bind_res (field S ''dataplane.event_coalesce_window'' (as_duration M) 0) (\<lambda>x0.
     bind_res (field S ''dataplane.event_coalesce_max_buffer'' (ms_int M) 0) (\<lambda>x1.
     bind_res (field S ''dataplane.cp_disconnect_strategy'' (as_string M) []) (\<lambda>x2.
     bind_res (field S ''dataplane.cp_disconnect_unreachable_threshold'' (as_duration M) 0) (\<lambda>x3.
     bind_res (field S ''dataplane.cp_disconnect_recover_threshold'' (as_duration M) 0) (\<lambda>x4.
     bind_res (field S ''dataplane.event_resync_interval'' (as_duration M) 0) (\<lambda>x5.
     Inr \<lparr>dp_EventCoalesceWindow = x0, dp_EventCoalesceMaxBuffer = x1, dp_CPDisconnectStrategy = x2, dp_CPDisconnectUnreachableThreshold = x3, dp_CPDisconnectRecoverThreshold = x4, dp_EventResyncInterval = x5\<rparr>))))))"

definition decode_otel :: "mapstructure \<Rightarrow> settings \<Rightarrow> otel_config result" where
  "decode_otel M S =
     bind_res (field S ''otel.enabled'' (ms_bool M) False) (\<lambda>x0.
     bind_res (field S ''otel.endpoint'' (as_string M) []) (\<lambda>x1.
     bind_res (field S ''otel.insecure'' (ms_bool M) False) (\<lambda>x2.
     bind_res (field S ''otel.service_name'' (as_string M) []) (\<lambda>x3.
     bind_res (field S ''otel.export_interval'' (as_duration M) 0) (\<lambda>x4.
     bind_res (field S ''otel.traces_enabled'' (ms_bool M) False) (\<lambda>x5.
     bind_res (field S ''otel.trace_sample_ratio'' (ms_float M) 0) (\<lambda>x6.
     Inr \<lparr>ot_Enabled = x0, ot_Endpoint = x1, ot_Insecure = x2, ot_ServiceName = x3, ot_ExportInterval = x4, ot_TracesEnabled = x5, ot_TraceSampleRatio = x6\<rparr>)))))))"

definition decode_config :: "mapstructure \<Rightarrow> int \<Rightarrow> settings \<Rightarrow> config result" where
  "decode_config M beyond S =
     bind_res (field S ''log_level'' (as_string M) []) (\<lambda>level.
     bind_res (decode_badger M S) (\<lambda>x0.
     bind_res (decode_grpc M S) (\<lambda>x1.
     bind_res (decode_dashboard M S) (\<lambda>x2.
     bind_res (decode_probes M S) (\<lambda>x3.
     bind_res (decode_auth M S) (\<lambda>x4.
     bind_res (decode_agent M S) (\<lambda>x5.
     bind_res (decode_proxy M beyond S) (\<lambda>x6.
     bind_res (decode_dataplane M S) (\<lambda>x7.
     bind_res (decode_otel M S) (\<lambda>x8.
     Inr \<lparr>cfg_LogLevel = level, cfg_Badger = x0, cfg_GRPC = x1, cfg_Dashboard = x2, cfg_Probes = x3, cfg_Auth = x4, cfg_Agent = x5, cfg_Proxy = x6, cfg_Dataplane = x7, cfg_Otel = x8\<rparr>))))))))))"

section \<open>Load\<close>

definition require_setting :: "bool \<Rightarrow> string \<Rightarrow> (unit \<Rightarrow> 'a result) \<Rightarrow> 'a result" where
  "require_setting bad msg k = (if bad then Inl (Errorf msg []) else k ())"

text \<open>The name of the agent, then every check in the code's order.\<close>

definition named_agent :: "string result \<Rightarrow> config \<Rightarrow> config result" where
  "named_agent hostname cfg =
     (if ag_Name (cfg_Agent cfg) = []
      then bind_res hostname (\<lambda>h. Inr (cfg\<lparr>cfg_Agent := (cfg_Agent cfg)\<lparr>ag_Name := h\<rparr>\<rparr>)) else Inr cfg)"

definition check_config :: "config \<Rightarrow> config result" where
  "check_config cfg =
     require_setting (gr_KeepaliveInterval (cfg_GRPC cfg) > 0 \<and> gr_KeepaliveTimeout (cfg_GRPC cfg) \<le> 0)
       ''grpc.keepalive_timeout must be > 0 when grpc.keepalive_interval is enabled'' (\<lambda>_.
     require_setting (gr_RateLimitRPS (cfg_GRPC cfg) > 0 \<and> gr_RateLimitBurst (cfg_GRPC cfg) < 1)
       ''grpc.rate_limit_burst must be >= 1 when grpc.rate_limit_rps is enabled'' (\<lambda>_.
     require_setting (db_RateLimitRPS (cfg_Dashboard cfg) > 0 \<and> db_RateLimitBurst (cfg_Dashboard cfg) < 1)
       ''dashboard.rate_limit_burst must be >= 1 when dashboard.rate_limit_rps is enabled'' (\<lambda>_.
     require_setting (px_MaxIdleConns (cfg_Proxy cfg) < 0) ''proxy.max_idle_conns must be >= 0'' (\<lambda>_.
     require_setting (px_MaxIdleConnsPerHost (cfg_Proxy cfg) \<le> 0) ''proxy.max_idle_conns_per_host must be > 0'' (\<lambda>_.
     require_setting (px_IdleConnTimeout (cfg_Proxy cfg) < 0) ''proxy.idle_conn_timeout must be >= 0'' (\<lambda>_.
     require_setting (px_DialTimeout (cfg_Proxy cfg) \<le> 0) ''proxy.dial_timeout must be > 0'' (\<lambda>_.
     require_setting (dc_Enabled (px_DNSCache (cfg_Proxy cfg)) \<and> dc_TTL (px_DNSCache (cfg_Proxy cfg)) \<le> 0)
       ''proxy.dns_cache.ttl must be > 0 when proxy.dns_cache.enabled is true'' (\<lambda>_.
     require_setting (dp_EventCoalesceWindow (cfg_Dataplane cfg) > 0 \<and> dp_EventCoalesceMaxBuffer (cfg_Dataplane cfg) < 1)
       ''dataplane.event_coalesce_max_buffer must be >= 1 when dataplane.event_coalesce_window is enabled'' (\<lambda>_.
     require_setting (dp_CPDisconnectStrategy (cfg_Dataplane cfg) \<notin> {''fail_open'', ''fail_closed''})
       ''dataplane.cp_disconnect_strategy must be fail_open or fail_closed'' (\<lambda>_.
     require_setting (dp_CPDisconnectUnreachableThreshold (cfg_Dataplane cfg) < 0)
       ''dataplane.cp_disconnect_unreachable_threshold must be >= 0'' (\<lambda>_.
     require_setting (dp_CPDisconnectRecoverThreshold (cfg_Dataplane cfg) < 0)
       ''dataplane.cp_disconnect_recover_threshold must be >= 0'' (\<lambda>_.
     require_setting (pb_Enabled (cfg_Probes cfg) \<and> TrimSpace (pb_ListenAddr (cfg_Probes cfg)) = [])
       ''probes.listen_addr must be non-empty when probes.enabled is true'' (\<lambda>_.
     require_setting (ot_Enabled (cfg_Otel cfg) \<and> TrimSpace (ot_Endpoint (cfg_Otel cfg)) = [])
       ''otel.endpoint must be non-empty when otel.enabled is true'' (\<lambda>_.
     require_setting (ot_Enabled (cfg_Otel cfg) \<and> ot_ExportInterval (cfg_Otel cfg) \<le> 0)
       ''otel.export_interval must be > 0 when otel.enabled is true'' (\<lambda>_.
     require_setting (ot_TracesEnabled (cfg_Otel cfg) \<and> \<not> ot_Enabled (cfg_Otel cfg))
       ''otel.enabled must be true when otel.traces_enabled is true'' (\<lambda>_.
     require_setting (ot_TracesEnabled (cfg_Otel cfg) \<and>
         (ot_TraceSampleRatio (cfg_Otel cfg) < 0 \<or> ot_TraceSampleRatio (cfg_Otel cfg) > 1))
       ''otel.trace_sample_ratio must be between 0 and 1 when otel.traces_enabled is true'' (\<lambda>_.
     Inr cfg)))))))))))))))))"

text \<open>\<^verbatim>\<open>Load\<close> sets the variable that \<^verbatim>\<open>Get\<close> returns, if it gets that far.\<close>

definition Load :: "viper \<Rightarrow> mapstructure \<Rightarrow> int \<Rightarrow> string result \<Rightarrow> string \<Rightarrow> (config option, unit) op" where
  "Load V M beyond hostname path c =
     (case bind_res (V path defaults) (\<lambda>S.
           bind_res (decode_config M beyond S) (\<lambda>cfg.
           bind_res (named_agent hostname cfg) check_config)) of
        Inl e \<Rightarrow> (Inl e, c)
      | Inr cfg \<Rightarrow> (Inr (), Some cfg))"

definition Get :: "config option \<Rightarrow> config option" where
  "Get c = c"

end
