(* ===== verification/Config_Load.thy ===== *)
theory Config_Load
  imports Config
begin

text \<open>
  What \<^verbatim>\<open>Load\<close> guarantees: the defaults, the precedence of the sources, and that a configuration it accepts
  has settings that the components can work with.  The contract of the two libraries is the locale
  \<open>config_sources\<close>, interpreted on a reader of one file and one environment.
\<close>

section \<open>The libraries\<close>

text \<open>The name of a key in the environment: \<^verbatim>\<open>SetEnvPrefix\<close>, \<^verbatim>\<open>SetEnvKeyReplacer\<close> and upper case.\<close>

definition env_key :: "string \<Rightarrow> string" where
  "env_key key = ''PGWAY_'' @ map (\<lambda>c. if c = CHR ''.'' then CHR ''_'' else to_upper c) key"

text \<open>
  The environment wins over X the default.  \<^verbatim>\<open>Unmarshal\<close> decodes the keys that the
  library knows of, which are those of the file and of the defaults; an empty variable counts as unset.
\<close>

definition merge :: "settings \<Rightarrow> (string \<Rightarrow> string) \<Rightarrow> (string \<times> setting) list \<Rightarrow> settings" where
  "merge conf env ds key =
     (if conf key = None \<and> map_of ds key = None then None
      else if env (env_key key) \<noteq> [] then Some (SString (env (env_key key)))
      else case conf key of Some v \<Rightarrow> Some v | None \<Rightarrow> map_of ds key)"

locale config_sources =
  fixes V :: viper and M :: mapstructure and path :: string and conf :: settings and env :: "string \<Rightarrow> string"
  assumes merged: "V path ds = Inr (merge conf env ds)"
    and reads_string: "ms_string M (SString s) = Inr s"
    and reads_int: "ms_int M (SInt i) = Inr i" "ms_int M (SDuration i) = Inr i"
    and reads_float: "ms_float M (SFloat x) = Inr x"
    and reads_bool: "ms_bool M (SBool b) = Inr b"
    and reads_list: "ms_strings M (SStrings l) = Inr l" "ms_labels M (SLabels ls) = Inr ls"
begin

lemmas reads = reads_string reads_int reads_float reads_bool reads_list

lemma load_cases:
  assumes "Load V M beyond hostname path c = (r, c')"
  shows "case r of
      Inr u \<Rightarrow> \<exists>cfg0 cfg. c' = Some cfg \<and> decode_config M beyond (merge conf env defaults) = Inr cfg0 \<and>
        named_agent hostname cfg0 = Inr cfg \<and> check_config cfg = Inr cfg
    | Inl e \<Rightarrow> c' = c"
proof -
  have "check_config cfg = Inr cfg' \<Longrightarrow> cfg' = cfg" for cfg cfg'
    by (simp add: check_config_def require_setting_def split: if_splits)
  with assms show ?thesis by (fastforce simp: Load_def merged bind_res_def split: sum.splits)
qed

end

section \<open>The defaults\<close>

definition default_config :: "string \<Rightarrow> config" where
  "default_config host =
     \<lparr>cfg_LogLevel = ''info'',
      cfg_Badger = \<lparr>bg_Path = ''/var/pgway/lib'', bg_GCInterval = 5 * Minute\<rparr>,
      cfg_GRPC = \<lparr>gr_ListenAddr = '':9090'', gr_DialAddr = [], gr_KeepaliveInterval = Minute, gr_KeepaliveTimeout = 20 * Second, gr_RateLimitRPS = 100, gr_RateLimitBurst = 200\<rparr>,
      cfg_Dashboard = \<lparr>db_Enabled = True, db_ListenAddr = ''127.0.0.1:8081'', db_CORSAllowOrigins = [], db_RateLimitRPS = 100, db_RateLimitBurst = 200\<rparr>,
      cfg_Probes = \<lparr>pb_Enabled = False, pb_ListenAddr = '':8082''\<rparr>,
      cfg_Auth = \<lparr>at_TokenTTL = 720 * Hour, at_RegistrationTokenTTL = 24 * Hour, at_AgentTokenTTL = 168 * Hour\<rparr>,
      cfg_Agent = \<lparr>ag_Name = host, ag_Labels = [], ag_StatePath = ''/var/lib/pgway/agent.json'', ag_HeartbeatInterval = 10 * Second, ag_HeartbeatThreshold = 30 * Second, ag_RegistrationToken = []\<rparr>,
      cfg_Proxy = \<lparr>px_MaxRequestBodyBytes = 10 * 2 ^ 20, px_MaxIdleConns = 1024, px_MaxIdleConnsPerHost = 128, px_IdleConnTimeout = 90 * Second, px_DialTimeout = 10 * Second, px_DNSCache = \<lparr>dc_Enabled = True, dc_TTL = 5 * Minute\<rparr>\<rparr>,
      cfg_Dataplane = \<lparr>dp_EventCoalesceWindow = 100 * Millisecond, dp_EventCoalesceMaxBuffer = 256, dp_CPDisconnectStrategy = ''fail_open'', dp_CPDisconnectUnreachableThreshold = 30 * Second, dp_CPDisconnectRecoverThreshold = 0, dp_EventResyncInterval = 5 * Minute\<rparr>,
      cfg_Otel = \<lparr>ot_Enabled = False, ot_Endpoint = ''localhost:4317'', ot_Insecure = False, ot_ServiceName = [], ot_ExportInterval = 15 * Second, ot_TracesEnabled = False, ot_TraceSampleRatio = 1 / 10\<rparr>\<rparr>"

lemma named_agent_rest:
  "named_agent hostname cfg = Inr cfg' \<Longrightarrow> cfg_GRPC cfg' = cfg_GRPC cfg \<and>
     ag_RegistrationToken (cfg_Agent cfg') = ag_RegistrationToken (cfg_Agent cfg) \<and> (ag_Name (cfg_Agent cfg') = [] \<longrightarrow> hostname = Inr [])"
  by (auto simp: named_agent_def res_simps split: if_splits)

lemma merge_defaults: "\<forall>k \<in> fst ` set ds. env (env_key k) = [] \<Longrightarrow> merge Map.empty env ds = map_of ds"
  by (rule ext) (force simp: merge_def split: option.split dest: map_of_SomeD)

lemma default_values:
  "map_of defaults ''log_level'' = Some (SString ''info'')"
  "map_of defaults ''badger.path'' = Some (SString ''/var/pgway/lib'')"
  "map_of defaults ''badger.gc_interval'' = Some (SDuration (5 * Minute))"
  "map_of defaults ''grpc.listen_addr'' = Some (SString '':9090'')"
  "map_of defaults ''grpc.keepalive_interval'' = Some (SDuration Minute)"
  "map_of defaults ''grpc.keepalive_timeout'' = Some (SDuration (20 * Second))"
  "map_of defaults ''grpc.rate_limit_rps'' = Some (SFloat 100)"
  "map_of defaults ''grpc.rate_limit_burst'' = Some (SInt 200)"
  "map_of defaults ''dashboard.enabled'' = Some (SBool True)"
  "map_of defaults ''dashboard.listen_addr'' = Some (SString ''127.0.0.1:8081'')"
  "map_of defaults ''dashboard.cors_allow_origins'' = Some (SStrings [])"
  "map_of defaults ''dashboard.rate_limit_rps'' = Some (SFloat 100)"
  "map_of defaults ''dashboard.rate_limit_burst'' = Some (SInt 200)"
  "map_of defaults ''probes.enabled'' = Some (SBool False)"
  "map_of defaults ''probes.listen_addr'' = Some (SString '':8082'')"
  "map_of defaults ''auth.token_ttl'' = Some (SDuration (720 * Hour))"
  "map_of defaults ''auth.registration_token_ttl'' = Some (SDuration (24 * Hour))"
  "map_of defaults ''auth.agent_token_ttl'' = Some (SDuration (168 * Hour))"
  "map_of defaults ''agent.name'' = Some (SString [])"
  "map_of defaults ''agent.labels'' = Some (SLabels [])"
  "map_of defaults ''agent.state_path'' = Some (SString ''/var/lib/pgway/agent.json'')"
  "map_of defaults ''agent.heartbeat_interval'' = Some (SDuration (10 * Second))"
  "map_of defaults ''agent.heartbeat_threshold'' = Some (SDuration (30 * Second))"
  "map_of defaults ''agent.registration_token'' = Some (SString [])"
  "map_of defaults ''proxy.max_request_body_bytes'' = Some (SString ''10MiB'')"
  "map_of defaults ''proxy.max_idle_conns'' = Some (SInt 1024)"
  "map_of defaults ''proxy.max_idle_conns_per_host'' = Some (SInt 128)"
  "map_of defaults ''proxy.idle_conn_timeout'' = Some (SDuration (90 * Second))"
  "map_of defaults ''proxy.dial_timeout'' = Some (SDuration (10 * Second))"
  "map_of defaults ''proxy.dns_cache.enabled'' = Some (SBool True)"
  "map_of defaults ''proxy.dns_cache.ttl'' = Some (SDuration (5 * Minute))"
  "map_of defaults ''dataplane.event_coalesce_window'' = Some (SDuration (100 * Millisecond))"
  "map_of defaults ''dataplane.event_coalesce_max_buffer'' = Some (SInt 256)"
  "map_of defaults ''dataplane.cp_disconnect_strategy'' = Some (SString ''fail_open'')"
  "map_of defaults ''dataplane.cp_disconnect_unreachable_threshold'' = Some (SDuration (30 * Second))"
  "map_of defaults ''dataplane.cp_disconnect_recover_threshold'' = Some (SDuration 0)"
  "map_of defaults ''dataplane.event_resync_interval'' = Some (SDuration (5 * Minute))"
  "map_of defaults ''otel.enabled'' = Some (SBool False)"
  "map_of defaults ''otel.endpoint'' = Some (SString ''localhost:4317'')"
  "map_of defaults ''otel.insecure'' = Some (SBool False)"
  "map_of defaults ''otel.service_name'' = Some (SString [])"
  "map_of defaults ''otel.export_interval'' = Some (SDuration (15 * Second))"
  "map_of defaults ''otel.traces_enabled'' = Some (SBool False)"
  "map_of defaults ''otel.trace_sample_ratio'' = Some (SFloat (1 / 10))"
  "map_of defaults ''grpc.dial_addr'' = None"
  by code_simp+

lemmas decoders = decode_config_def decode_badger_def decode_grpc_def decode_dashboard_def decode_probes_def decode_auth_def decode_agent_def decode_dns_cache_def decode_proxy_def decode_dataplane_def decode_otel_def
  field_def as_string_def as_duration_def as_strings_def StringToTimeDurationHookFunc_def StringToSliceHookFunc_def

context config_sources
begin

lemma bytes_10MiB: "as_bytes M beyond (SString ''10MiB'') = Inr (10 * 2 ^ 20)"
proof -
  have "dec 10 = ''10''" by code_simp
  with byte_size_exact [OF MiB_unit, of 10 beyond] have "ParseByteSize beyond ''10MiB'' = Inr (10 * 2 ^ 20)" by simp
  then show ?thesis by (simp add: as_bytes_def byteSizeDecodeHook_def reads)
qed

lemma decode_defaults: "decode_config M beyond (map_of defaults) = Inr (default_config [])"
  by (simp add: decoders default_values reads bytes_10MiB default_config_def)

lemma load_default_config:
  assumes "conf = Map.empty" "\<forall>k \<in> fst ` set defaults. env (env_key k) = []"
  shows "Load V M beyond (Inr host) path c = (Inr (), Some (default_config host))"
proof -
  let ?d = "default_config host"
  have "named_agent (Inr host) (default_config []) = Inr ?d" by (simp add: named_agent_def default_config_def)
  moreover have "check_config ?d = Inr ?d"
    by (simp add: check_config_def require_setting_def default_config_def Minute_def Second_def Hour_def Millisecond_def)
  ultimately show ?thesis by (simp add: Load_def merged assms(1) merge_defaults [OF assms(2)] decode_defaults)
qed

lemma string_setting:
  assumes "env (env_key key) \<noteq> []" "conf key \<noteq> None \<or> map_of defaults key \<noteq> None"
  shows "field (merge conf env defaults) key (as_string M) zero = Inr (env (env_key key))"
  using assms by (auto simp: field_def merge_def as_string_def reads_string)

lemma decoded_dial_addr:
  "decode_config M beyond (merge conf env defaults) = Inr cfg \<Longrightarrow> conf ''grpc.dial_addr'' = None \<Longrightarrow> gr_DialAddr (cfg_GRPC cfg) = []"
  by (auto simp: decode_config_def decode_grpc_def res_simps field_def merge_def default_values)

lemma decoded_registration_token:
  "decode_config M beyond (merge conf env defaults) = Inr cfg \<Longrightarrow> env (env_key ''agent.registration_token'') \<noteq> [] \<Longrightarrow>
   ag_RegistrationToken (cfg_Agent cfg) = env (env_key ''agent.registration_token'')"
  using string_setting [of "''agent.registration_token''"]
  by (auto simp: decode_config_def decode_agent_def res_simps default_values)

end

section \<open>A reader of one file\<close>

definition file_viper :: "settings \<Rightarrow> (string \<Rightarrow> string) \<Rightarrow> viper" where
  "file_viper conf env path ds = Inr (merge conf env ds)"

definition strict_decoder :: mapstructure where
  "strict_decoder =
     \<lparr>ms_string = \<lambda>v. (case v of SString s \<Rightarrow> Inr s | _ \<Rightarrow> Inl (External ''expected a string'')),
      ms_int = \<lambda>v. (case v of SInt i \<Rightarrow> Inr i | SDuration i \<Rightarrow> Inr i | _ \<Rightarrow> Inl (External ''expected an integer'')),
      ms_float = \<lambda>v. (case v of SFloat x \<Rightarrow> Inr x | _ \<Rightarrow> Inl (External ''expected a float'')),
      ms_bool = \<lambda>v. (case v of SBool b \<Rightarrow> Inr b | _ \<Rightarrow> Inl (External ''expected a bool'')),
      ms_strings = \<lambda>v. (case v of SStrings l \<Rightarrow> Inr l | _ \<Rightarrow> Inl (External ''expected a list'')),
      ms_labels = \<lambda>v. (case v of SLabels l \<Rightarrow> Inr l | _ \<Rightarrow> Inl (External ''expected a map''))\<rparr>"

interpretation file_viper: config_sources "file_viper conf env" strict_decoder path conf env
  by unfold_locales (simp_all add: file_viper_def strict_decoder_def)

section \<open>What is loaded\<close>



text \<open>What the components ask of their settings.\<close>

definition usable :: "config \<Rightarrow> bool" where
  "usable cfg \<longleftrightarrow>
     (let g = cfg_GRPC cfg; d = cfg_Dashboard cfg; x = cfg_Proxy cfg; p = cfg_Dataplane cfg; o' = cfg_Otel cfg in
      (0 < gr_RateLimitRPS g \<longrightarrow> 1 \<le> gr_RateLimitBurst g) \<and> (0 < db_RateLimitRPS d \<longrightarrow> 1 \<le> db_RateLimitBurst d) \<and>
      (0 < gr_KeepaliveInterval g \<longrightarrow> 0 < gr_KeepaliveTimeout g) \<and>
      0 \<le> px_MaxIdleConns x \<and> 0 < px_MaxIdleConnsPerHost x \<and> 0 \<le> px_IdleConnTimeout x \<and> 0 < px_DialTimeout x \<and>
      (dc_Enabled (px_DNSCache x) \<longrightarrow> 0 < dc_TTL (px_DNSCache x)) \<and>
      (0 < dp_EventCoalesceWindow p \<longrightarrow> 1 \<le> dp_EventCoalesceMaxBuffer p) \<and>
      dp_CPDisconnectStrategy p \<in> {CPDisconnectFailOpen, CPDisconnectFailClosed} \<and>
      0 \<le> dp_CPDisconnectUnreachableThreshold p \<and> 0 \<le> dp_CPDisconnectRecoverThreshold p \<and>
      (pb_Enabled (cfg_Probes cfg) \<longrightarrow> TrimSpace (pb_ListenAddr (cfg_Probes cfg)) \<noteq> []) \<and>
      (ot_Enabled o' \<longrightarrow> TrimSpace (ot_Endpoint o') \<noteq> [] \<and> 0 < ot_ExportInterval o') \<and>
      (ot_TracesEnabled o' \<longrightarrow> ot_Enabled o' \<and> 0 \<le> ot_TraceSampleRatio o' \<and> ot_TraceSampleRatio o' \<le> 1))"

lemma check_config_usable: "check_config cfg = Inr cfg' \<longleftrightarrow> usable cfg \<and> cfg' = cfg"
  by (auto simp: check_config_def require_setting_def usable_def Let_def not_less not_le link_defs CPDisconnectFailOpen_def CPDisconnectFailClosed_def)



text \<open>
  C39.  The address of the control plane cannot be given by the environment alone: the code sets no default
  for \<^verbatim>\<open>grpc.dial_addr\<close>, so that unless the file has the key a data plane dials the listen address.
\<close>

theorem dial_addr_needs_file:
  assumes "config_sources V M path conf env" "conf ''grpc.dial_addr'' = None"
    and "Load V M beyond hostname path c = (Inr u, Some cfg)"
  shows "DialTarget (cfg_GRPC cfg) = gr_ListenAddr (cfg_GRPC cfg)"
  using config_sources.load_cases [OF assms(1,3)] named_agent_rest config_sources.decoded_dial_addr [OF assms(1) _ assms(2)]
  by (fastforce simp: DialTarget_def)

lemma upper_letters:
  "to_upper CHR ''a'' = CHR ''A''"
  "to_upper CHR ''b'' = CHR ''B''"
  "to_upper CHR ''c'' = CHR ''C''"
  "to_upper CHR ''d'' = CHR ''D''"
  "to_upper CHR ''e'' = CHR ''E''"
  "to_upper CHR ''f'' = CHR ''F''"
  "to_upper CHR ''g'' = CHR ''G''"
  "to_upper CHR ''h'' = CHR ''H''"
  "to_upper CHR ''i'' = CHR ''I''"
  "to_upper CHR ''j'' = CHR ''J''"
  "to_upper CHR ''k'' = CHR ''K''"
  "to_upper CHR ''l'' = CHR ''L''"
  "to_upper CHR ''m'' = CHR ''M''"
  "to_upper CHR ''n'' = CHR ''N''"
  "to_upper CHR ''o'' = CHR ''O''"
  "to_upper CHR ''p'' = CHR ''P''"
  "to_upper CHR ''q'' = CHR ''Q''"
  "to_upper CHR ''r'' = CHR ''R''"
  "to_upper CHR ''s'' = CHR ''S''"
  "to_upper CHR ''t'' = CHR ''T''"
  "to_upper CHR ''u'' = CHR ''U''"
  "to_upper CHR ''v'' = CHR ''V''"
  "to_upper CHR ''w'' = CHR ''W''"
  "to_upper CHR ''x'' = CHR ''X''"
  "to_upper CHR ''y'' = CHR ''Y''"
  "to_upper CHR ''z'' = CHR ''Z''"
  "to_upper CHR ''_'' = CHR ''_''"
  by (simp_all add: to_upper_def is_lower_def byte_def) code_simp+

definition dial_env :: "string \<Rightarrow> string" where
  "dial_env k = (if k = ''PGWAY_GRPC_DIAL_ADDR'' then ''cp.example:9090'' else [])"

theorem dial_addr_needs_file_witness:
  "dial_env (env_key ''grpc.dial_addr'') = ''cp.example:9090'' \<and>
   (\<exists>cfg. Load (file_viper Map.empty dial_env) strict_decoder 7 (Inr ''edge'') [] None = (Inr (), Some cfg) \<and>
      DialTarget (cfg_GRPC cfg) = '':9090'')"
proof -
  have "\<forall>k \<in> set (map fst defaults). env_key k \<noteq> ''PGWAY_GRPC_DIAL_ADDR''"
    by (simp add: defaults_def env_key_def upper_letters)
  then have "\<forall>k \<in> fst ` set defaults. dial_env (env_key k) = []" by (simp add: dial_env_def)
  note load = file_viper.load_default_config [OF refl this, of 7 "''edge''" "[]" None]
  have "dial_env (env_key ''grpc.dial_addr'') = ''cp.example:9090''" by code_simp
  with load dial_addr_needs_file [OF file_viper.config_sources_axioms _ load] show ?thesis
    by (simp add: default_config_def)
qed

text \<open>
  Limits whose buckets take longer than fifteen minutes to fill pass the checks: two requests per hour.
\<close>

definition slow_limits :: "config \<Rightarrow> config" where
  "slow_limits cfg = cfg\<lparr>cfg_Dashboard := (cfg_Dashboard cfg)\<lparr>db_RateLimitRPS := 1 / 1800, db_RateLimitBurst := 2\<rparr>\<rparr>"

lemma slow_limits_accepted: "usable cfg \<Longrightarrow> check_config (slow_limits cfg) = Inr (slow_limits cfg)"
  by (simp add: check_config_usable usable_def slow_limits_def Let_def)

text \<open>A byte size is checked for its sign only where it is written as text.\<close>

lemma negative_bytes_accepted:
  "byteSizeDecodeHook beyond (SInt (-1)) = Inr (-1)" "\<not> is_ok (byteSizeDecodeHook beyond (SString ''-1''))"
proof -
  have "TrimSpace ''-1'' = ''-1''" by (rule TrimSpace_graphic) (simp add: graphic_def byte_def)
  moreover have "ParseFloat ''-1'' = Inr (-1)" by code_simp
  ultimately have "ParseByteSize beyond ''-1'' = Inl (Errorf ''byte size: negative not allowed: %q'' [FStr ''-1''])"
    by (simp add: ParseByteSize_def number_byte_def is_digit_def byte_def TrimSpace_graphic)
  then show "\<not> is_ok (byteSizeDecodeHook beyond (SString ''-1''))" by (simp add: byteSizeDecodeHook_def)
qed (simp add: byteSizeDecodeHook_def)

end
