(* ===== verification/File_System.thy ===== *)
theory File_System
  imports AgentHost HttpProxy Error_Text
begin

text \<open>
  What the programs use of Go's \<^verbatim>\<open>os\<close>, \<^verbatim>\<open>path/filepath\<close> and of \<^verbatim>\<open>flock\<close>.  A file system is a record of
  its operations on a state; the locale \<open>files_contract\<close> says what they do to the files and locks that the
  state stands for.  Every operation may fail.
\<close>

section \<open>path/filepath\<close>

fun clean_rooted :: "bool \<Rightarrow> string list \<Rightarrow> string list \<Rightarrow> string list" where
  "clean_rooted rooted acc [] = rev acc"
| "clean_rooted rooted acc (s # ss) =
     (if s = [] \<or> s = ''.'' then clean_rooted rooted acc ss
      else if s = ''..'' then
        (if acc \<noteq> [] \<and> hd acc \<noteq> ''..'' then clean_rooted rooted (tl acc) ss
         else if rooted then clean_rooted rooted acc ss else clean_rooted rooted (''..'' # acc) ss)
      else clean_rooted rooted (s # acc) ss)"

definition filepath_Clean :: "string \<Rightarrow> string" where
  "filepath_Clean p =
     (let rooted = (p \<noteq> [] \<and> hd p = CHR ''/''); body = join_with ''/'' (clean_rooted rooted [] (split_byte CHR ''/'' p))
      in if rooted then CHR ''/'' # body else if body = [] then ''.'' else body)"

definition filepath_Dir :: "string \<Rightarrow> string" where
  "filepath_Dir p =
     filepath_Clean (case last_index_byte CHR ''/'' p of None \<Rightarrow> [] | Some i \<Rightarrow> take (Suc i) p)"

definition filepath_Join :: "string list \<Rightarrow> string" where
  "filepath_Join elems =
     (let es = filter (\<lambda>e. e \<noteq> []) elems in if es = [] then [] else filepath_Clean (join_with ''/'' es))"

section \<open>Files\<close>

record 'f file_system =
  fs_ReadFile :: "string \<Rightarrow> ('f, string) op"
  fs_WriteFile :: "string \<Rightarrow> string \<Rightarrow> nat \<Rightarrow> ('f, unit) op"
  fs_Rename :: "string \<Rightarrow> string \<Rightarrow> ('f, unit) op"
  fs_Remove :: "string \<Rightarrow> ('f, unit) op"
  fs_MkdirAll :: "string \<Rightarrow> nat \<Rightarrow> ('f, unit) op"
  fs_Chmod :: "string \<Rightarrow> nat \<Rightarrow> ('f, unit) op"
  fs_OpenFile :: "string \<Rightarrow> nat \<Rightarrow> ('f, unit) op"
  fs_Flock :: "string \<Rightarrow> ('f, unit) op"
  fs_Unlock :: "string \<Rightarrow> ('f, unit) op"

definition os_IsNotExist :: "err \<Rightarrow> bool" where
  "os_IsNotExist e = errors_Is_external e fs_ErrNotExist"

text \<open>
  A write that fails may leave anything in its file; a rename replaces its target or changes nothing.  A
  lock is taken by one holder at a time.
\<close>

locale files_contract =
  fixes F :: "'f file_system" and files :: "'f \<Rightarrow> string \<rightharpoonup> string" and locks :: "'f \<Rightarrow> string set"
  assumes reads: "fs_ReadFile F p f = (x, f') \<Longrightarrow> files f' = files f \<and> locks f' = locks f"
    and reads_ok: "fs_ReadFile F p f = (Inr s, f') \<Longrightarrow> files f p = Some s"
    and reads_missing: "fs_ReadFile F p f = (Inl e, f') \<Longrightarrow> os_IsNotExist e \<Longrightarrow> files f p = None"
    and written: "fs_WriteFile F p s m f = (r, f') \<Longrightarrow> (\<exists>v. files f' = (files f)(p := v)) \<and> locks f' = locks f"
    and written_ok: "fs_WriteFile F p s m f = (Inr u, f') \<Longrightarrow> files f' = (files f)(p \<mapsto> s)"
    and rename: "fs_Rename F p q f = (r, f') \<Longrightarrow> locks f' = locks f"
    and rename_ok: "fs_Rename F p q f = (Inr u, f') \<Longrightarrow> files f' = (files f)(p := None, q := files f p)"
    and rename_fail: "fs_Rename F p q f = (Inl e, f') \<Longrightarrow> files f' = files f"
    and remove: "fs_Remove F p f = (r, f') \<Longrightarrow> files f' \<in> {files f, (files f)(p := None)} \<and> locks f' = locks f"
    and remove_ok: "fs_Remove F p f = (Inr u, f') \<Longrightarrow> files f' = (files f)(p := None)"
    and remove_missing: "fs_Remove F p f = (Inl e, f') \<Longrightarrow> os_IsNotExist e \<Longrightarrow> files f p = None"
    and mkdir: "fs_MkdirAll F p m f = (r, f') \<Longrightarrow> files f' = files f \<and> locks f' = locks f"
    and chmod: "fs_Chmod F p m f = (r, f') \<Longrightarrow> files f' = files f \<and> locks f' = locks f"
    and open_file: "fs_OpenFile F p m f = (r, f') \<Longrightarrow> (\<forall>q. q \<noteq> p \<longrightarrow> files f' q = files f q) \<and> locks f' = locks f"
    and flock_ok: "fs_Flock F p f = (Inr u, f') \<Longrightarrow> p \<notin> locks f \<and> locks f' = insert p (locks f) \<and> files f' = files f"
    and flock_fail: "fs_Flock F p f = (Inl e, f') \<Longrightarrow> f' = f"
    and unlock: "fs_Unlock F p f = (r, f') \<Longrightarrow> locks f' = locks f - {p} \<and> files f' = files f"

section \<open>A file system in memory\<close>

record mem_files =
  mem_files :: "(string \<times> string) list"
  mem_locks :: "string list"
  mem_broken :: "string list"

text \<open>Writing to a broken path leaves an empty file; moving to one fails.\<close>

definition mem_fs :: "mem_files file_system" where
  "mem_fs =
     \<lparr>fs_ReadFile = \<lambda>p f. (case map_of (mem_files f) p of None \<Rightarrow> (Inl (External fs_ErrNotExist), f) | Some s \<Rightarrow> (Inr s, f)),
      fs_WriteFile = \<lambda>p s m f.
        if p \<in> set (mem_broken f) then (Inl (External ''no space left on device''), f\<lparr>mem_files := AList.update p [] (mem_files f)\<rparr>)
        else (Inr (), f\<lparr>mem_files := AList.update p s (mem_files f)\<rparr>),
      fs_Rename = \<lambda>p q f. (case map_of (mem_files f) p of
          None \<Rightarrow> (Inl (External fs_ErrNotExist), f)
        | Some s \<Rightarrow>
            if q \<in> set (mem_broken f) then (Inl (External ''input/output error''), f)
            else (Inr (), f\<lparr>mem_files := AList.update q s (AList.delete p (mem_files f))\<rparr>)),
      fs_Remove = \<lambda>p f. if p \<in> fst ` set (mem_files f) then (Inr (), f\<lparr>mem_files := AList.delete p (mem_files f)\<rparr>)
        else (Inl (External fs_ErrNotExist), f),
      fs_MkdirAll = \<lambda>p m f. (Inr (), f),
      fs_Chmod = \<lambda>p m f. (Inr (), f),
      fs_OpenFile = \<lambda>p m f. (Inr (), if p \<in> fst ` set (mem_files f) then f else f\<lparr>mem_files := AList.update p [] (mem_files f)\<rparr>),
      fs_Flock = \<lambda>p f. if p \<in> set (mem_locks f) then (Inl (External ''resource temporarily unavailable''), f)
        else (Inr (), f\<lparr>mem_locks := p # mem_locks f\<rparr>),
      fs_Unlock = \<lambda>p f. (Inr (), f\<lparr>mem_locks := removeAll p (mem_locks f)\<rparr>)\<rparr>"

interpretation mem: files_contract mem_fs "\<lambda>f. map_of (mem_files f)" "\<lambda>f. set (mem_locks f)"
  by unfold_locales
    (auto simp: mem_fs_def os_IsNotExist_def fs_ErrNotExist_def update_conv' delete_conv' map_of_eq_None_iff fun_upd_def
      intro: exI [of _ "Some []"] split: if_splits option.splits)

end
