(* ===== verification/Agent_State.thy ===== *)
theory Agent_State
  imports File_System
begin

text \<open>
  \<^verbatim>\<open>adapters/agentstate\<close>: the file that keeps an agent's credentials and the lock that keeps a second
  process away from it.  Shown are that saving is all or nothing, that an agent that is started again finds the
  identity it was given and does not register a second time, and that the lock is exclusive per directory.
\<close>

section \<open>Store\<close>

text \<open>The JSON object with the two fields, read and written by \<^verbatim>\<open>encoding/json\<close>.\<close>

record state_json =
  sj_MarshalIndent :: "string \<Rightarrow> string \<Rightarrow> string result"
  sj_Unmarshal :: "string \<Rightarrow> (string \<times> string) result"

definition Store_Load :: "'f file_system \<Rightarrow> state_json \<Rightarrow> string \<Rightarrow> ('f, agent_host_credentials) op" where
  "Store_Load F J path =
     bind_op (fs_ReadFile F path) (\<lambda>data.
     bind_op (lift_op (wrap (Wrapf ''parse agent state %s: %w'' [FStr path]) (sj_Unmarshal J data))) (\<lambda>(i, tok).
     bind_op (guard_op (i \<noteq> [] \<and> tok \<noteq> []) (Errorf ''agent state %s: agent_id and agent_token are required'' [FStr path])) (\<lambda>_.
     lift_op (Inr \<lparr>creds_AgentID = i, creds_AgentToken = tok\<rparr>))))"

text \<open>The last step: if the rename fails, the temporary file is removed and the outcome of that ignored.\<close>

definition commit_state :: "'f file_system \<Rightarrow> string \<Rightarrow> string \<Rightarrow> ('f, unit) op" where
  "commit_state F tmp path f =
     (case fs_Rename F tmp path f of
        (Inl e, f) \<Rightarrow> (Inl (Wrapf ''commit agent state: %w'' [] e), snd (fs_Remove F tmp f))
      | (Inr _, f) \<Rightarrow> (Inr (), f))"

definition Store_Save :: "'f file_system \<Rightarrow> state_json \<Rightarrow> string \<Rightarrow> agent_host_credentials \<Rightarrow> ('f, unit) op" where
  "Store_Save F J path creds =
     bind_op (guard_op (creds_AgentID creds \<noteq> [] \<and> creds_AgentToken creds \<noteq> [])
       (Errorf ''agent state: agent_id and agent_token are required'' [])) (\<lambda>_.
     let dir = filepath_Dir path; tmp = path @ ''.tmp'' in
     bind_op (wrap_op (Wrapf ''create agent state dir %s: %w'' [FStr dir]) (fs_MkdirAll F dir 448)) (\<lambda>_.
     bind_op (wrap_op (Wrapf ''chmod agent state dir %s: %w'' [FStr dir]) (fs_Chmod F dir 448)) (\<lambda>_.
     bind_op (lift_op (sj_MarshalIndent J (creds_AgentID creds) (creds_AgentToken creds))) (\<lambda>data.
     bind_op (wrap_op (Wrapf ''write agent state temp: %w'' []) (fs_WriteFile F tmp (data @ [CHR 0x0A]) 384)) (\<lambda>_.
     commit_state F tmp path)))))"

definition state_store :: "'f file_system \<Rightarrow> state_json \<Rightarrow> string \<Rightarrow> 'f agent_state_store" where
  "state_store F J path = \<lparr>store_Load = Store_Load F J path, store_Save = Store_Save F J path\<rparr>"

section \<open>Lock\<close>

definition LockPath :: "string \<Rightarrow> string" where
  "LockPath statePath = filepath_Join [filepath_Dir statePath, ''agent.lock'']"

definition Acquire :: "'f file_system \<Rightarrow> string \<Rightarrow> ('f, unit) op" where
  "Acquire F path =
     bind_op (wrap_op (Wrapf ''create agent lock dir: %w'' []) (fs_MkdirAll F (filepath_Dir path) 448)) (\<lambda>_.
     bind_op (wrap_op (Wrapf ''open agent lock %s: %w'' [FStr path]) (fs_OpenFile F path 384)) (\<lambda>_.
     wrap_op (Wrapf ''another pgway-dp is running (lock %s): %w'' [FStr path]) (fs_Flock F path)))"

definition heldLock_Close :: "'f file_system \<Rightarrow> string \<Rightarrow> 'f \<Rightarrow> 'f" where
  "heldLock_Close F path f = snd (fs_Unlock F path f)"

section \<open>Saving is all or nothing\<close>

definition state_codec :: "state_json \<Rightarrow> bool" where
  "state_codec J \<longleftrightarrow> (\<forall>i tok d. sj_MarshalIndent J i tok = Inr d \<longrightarrow> sj_Unmarshal J (d @ [CHR 0x0A]) = Inr (i, tok))"

context files_contract
begin

lemma commit_cases:
  assumes "commit_state F tmp path f = (r, f')" "tmp \<noteq> path"
  shows "files f' path = (case r of Inl _ \<Rightarrow> files f path | Inr _ \<Rightarrow> files f tmp)"
proof (cases "fs_Rename F tmp path f")
  case (Pair x g)
  then show ?thesis
  proof (cases x)
    case (Inl e)
    obtain y h where "fs_Remove F tmp g = (y, h)" by fastforce
    with assms Inl Pair rename_fail [OF Pair [unfolded Inl]] remove [OF this] show ?thesis by (auto simp: commit_state_def)
  next
    case (Inr u)
    with assms Pair rename_ok [OF Pair [unfolded Inr]] show ?thesis by (auto simp: commit_state_def)
  qed
qed

lemma Save_cases:
  assumes "Store_Save F J path creds f = (r, f')"
  shows "case r of
      Inl e \<Rightarrow> files f' path = files f path
    | Inr u \<Rightarrow> \<exists>d. sj_MarshalIndent J (creds_AgentID creds) (creds_AgentToken creds) = Inr d \<and> files f' path = Some (d @ [CHR 0x0A]) \<and>
        creds_AgentID creds \<noteq> [] \<and> creds_AgentToken creds \<noteq> []"
proof -
  obtain x1 f1 where m: "fs_MkdirAll F (filepath_Dir path) 448 f = (x1, f1)" by fastforce
  obtain x2 f2 where c: "fs_Chmod F (filepath_Dir path) 448 f1 = (x2, f2)" by fastforce
  have same: "files f1 path = files f path" "files f2 path = files f path" using mkdir [OF m] chmod [OF c] by auto
  show ?thesis
  proof (cases "sj_MarshalIndent J (creds_AgentID creds) (creds_AgentToken creds)")
    case (Inl e)
    with assms m c same show ?thesis
      by (auto simp: Store_Save_def bind_op_def wrap_op_def Let_def guard_res_def split: sum.splits if_splits)
  next
    case (Inr d)
    obtain x3 f3 where w: "fs_WriteFile F (path @ ''.tmp'') (d @ [CHR 0x0A]) 384 f2 = (x3, f3)" by fastforce
    obtain x4 f4 where k: "commit_state F (path @ ''.tmp'') path f3 = (x4, f4)" by fastforce
    have "files f3 path = files f path" using written [OF w] same by auto
    moreover have "files f4 path = (case x4 of Inl _ \<Rightarrow> files f3 path | Inr _ \<Rightarrow> files f3 (path @ ''.tmp''))"
      by (rule commit_cases [OF k]) simp
    moreover have "x3 = Inr u \<Longrightarrow> files f3 (path @ ''.tmp'') = Some (d @ [CHR 0x0A])" for u using written_ok w by auto
    ultimately show ?thesis using assms m c same Inr w k
      by (auto simp: Store_Save_def bind_op_def wrap_op_def Let_def guard_res_def res_simps split: sum.splits if_splits)
  qed
qed

definition keeps_creds :: "state_json \<Rightarrow> string \<Rightarrow> agent_host_credentials \<Rightarrow> 'f \<Rightarrow> bool" where
  "keeps_creds J path creds f \<longleftrightarrow>
     (\<exists>s. files f path = Some s \<and> sj_Unmarshal J s = Inr (creds_AgentID creds, creds_AgentToken creds)) \<and>
     creds_AgentID creds \<noteq> [] \<and> creds_AgentToken creds \<noteq> []"

lemma Save_keeps: "state_codec J \<Longrightarrow> Store_Save F J path creds f = (Inr u, f') \<Longrightarrow> keeps_creds J path creds f'"
  using Save_cases [of J path creds f "Inr u" f'] by (auto simp: keeps_creds_def state_codec_def)

lemma Load_keeps:
  assumes "Store_Load F J path f = (Inr creds, f')"
  shows "keeps_creds J path creds f'"
proof -
  obtain x g where r: "fs_ReadFile F path f = (x, g)" by fastforce
  with assms reads [OF r] reads_ok [of path f _ g] show ?thesis
    by (auto simp: Store_Load_def bind_op_def guard_res_def keeps_creds_def res_simps split: sum.splits if_splits)
qed

lemma keeps_Load:
  assumes "keeps_creds J path creds f" "Store_Load F J path f = (r, f')"
  shows "r = Inr creds \<or> (\<exists>e. r = Inl e \<and> \<not> os_IsNotExist e)"
proof -
  obtain x g where q: "fs_ReadFile F path f = (x, g)" by fastforce
  show ?thesis
  proof (cases x)
    case (Inl e)
    with q reads_missing [of path f e g] assms show ?thesis by (auto simp: Store_Load_def bind_op_def keeps_creds_def)
  next
    case (Inr s)
    with q reads_ok [of path f s g] assms show ?thesis
      by (auto simp: Store_Load_def bind_op_def keeps_creds_def guard_res_def)
  qed
qed

lemma keeps_creds_cong: "files g path = files f path \<Longrightarrow> keeps_creds J path creds f \<Longrightarrow> keeps_creds J path creds g"
  by (simp add: keeps_creds_def)

lemma Load_files: "Store_Load F J path f = (r, f') \<Longrightarrow> files f' = files f"
  using reads by (auto simp: Store_Load_def bind_op_def guard_res_def split: prod.splits sum.splits if_splits)

lemma Acquire_locks:
  assumes "Acquire F path f = (r, f')"
  shows "case r of Inl _ \<Rightarrow> locks f' = locks f | Inr _ \<Rightarrow> path \<notin> locks f \<and> locks f' = insert path (locks f)"
proof -
  obtain x1 f1 where m: "fs_MkdirAll F (filepath_Dir path) 448 f = (x1, f1)" by fastforce
  obtain x2 f2 where c: "fs_OpenFile F path 384 f1 = (x2, f2)" by fastforce
  obtain x3 f3 where l: "fs_Flock F path f2 = (x3, f3)" by fastforce
  from mkdir [OF m] open_file [OF c] flock_ok [of path f2 _ f3] flock_fail [of path f2 _ f3] assms m c l show ?thesis
    by (auto simp: Acquire_def bind_op_def wrap_op_def res_simps split: sum.splits)
qed

end

text \<open>
  C23.  Credentials are saved as a whole or not at all: if any step fails the file keeps what it had, and
  if none does the next \<^verbatim>\<open>Load\<close> returns them, unless the file cannot be read then.
\<close>

theorem save_is_atomic:
  assumes "files_contract F files locks" "state_codec J" "Store_Save F J path creds f = (r, f')" "Store_Load F J path f' = (l, f'')"
  shows "case r of
      Inl e \<Rightarrow> files f' path = files f path
    | Inr u \<Rightarrow> l = Inr creds \<or> (\<exists>e. l = Inl e \<and> \<not> os_IsNotExist e)"
  using files_contract.Save_cases [OF assms(1,3)] files_contract.Save_keeps [OF assms(1,2)] assms(3)
    files_contract.keeps_Load [OF assms(1) _ assms(4)]
  by (auto split: sum.splits)

definition pair_json :: state_json where
  "pair_json =
     \<lparr>sj_MarshalIndent = \<lambda>i tok. if CHR '' '' \<in> set i then Inl (External ''json'') else Inr (i @ '' '' @ tok),
      sj_Unmarshal = \<lambda>s. case SplitN CHR '' '' 2 s of [i, tok] \<Rightarrow> Inr (i, butlast tok) | _ \<Rightarrow> Inl (External ''json'')\<rparr>"

lemma pair_json_codec: "state_codec pair_json"
  by (auto simp: state_codec_def pair_json_def SplitN_two_append split: if_splits)

abbreviation sample_creds :: agent_host_credentials where
  "sample_creds \<equiv> \<lparr>creds_AgentID = ''dp'', creds_AgentToken = ''tok''\<rparr>"

abbreviation sample_files :: mem_files where
  "sample_files \<equiv> \<lparr>mem_files = [(''/t/agent.json'', ''old'')], mem_locks = [], mem_broken = [''/t/agent.json'']\<rparr>"

theorem save_is_atomic_witness:
  "\<exists>e f. Store_Save mem_fs pair_json ''/t/agent.json'' sample_creds sample_files = (Inl e, f) \<and>
     map_of (mem_files f) ''/t/agent.json'' = Some ''old''"
proof -
  have "\<not> is_ok (fst (Store_Save mem_fs pair_json ''/t/agent.json'' sample_creds sample_files))" by code_simp
  then obtain e f where "Store_Save mem_fs pair_json ''/t/agent.json'' sample_creds sample_files = (Inl e, f)"
    by (cases "Store_Save mem_fs pair_json ''/t/agent.json'' sample_creds sample_files") (auto simp: is_ok_def split: sum.splits)
  with save_is_atomic [OF mem.files_contract_axioms pair_json_codec this surjective_pairing] show ?thesis by auto
qed

section \<open>An agent that starts again\<close>

text \<open>The world of a data plane: its disk, and everything else, which the control plane changes.\<close>

definition on_disk :: "('f, 'a) op \<Rightarrow> ('f \<times> 'c, 'a) op" where
  "on_disk m w = (case m (fst w) of (r, f) \<Rightarrow> (r, (f, snd w)))"

definition off_disk :: "('c, 'a) op \<Rightarrow> ('f \<times> 'c, 'a) op" where
  "off_disk m w = (case m (snd w) of (r, c) \<Rightarrow> (r, (fst w, c)))"

definition disk_store :: "'f file_system \<Rightarrow> state_json \<Rightarrow> string \<Rightarrow> ('f \<times> 'c) agent_state_store" where
  "disk_store F J path =
     \<lparr>store_Load = on_disk (store_Load (state_store F J path)), store_Save = \<lambda>creds. on_disk (store_Save (state_store F J path) creds)\<rparr>"

lemma disk_store_simps [simp]:
  "store_Load (disk_store F J path) w = (case Store_Load F J path (fst w) of (r, f) \<Rightarrow> (r, (f, snd w)))"
  "store_Save (disk_store F J path) creds w = (case Store_Save F J path creds (fst w) of (r, f) \<Rightarrow> (r, (f, snd w)))"
  by (simp_all add: disk_store_def state_store_def on_disk_def)

context files_contract
begin

lemma bootstrap_keeps:
  assumes "state_codec J"
    and "BootstrapCredentials (disk_store F J path) regToken agent (\<lambda>t a. off_disk (reg t a)) w = (Inr creds, w')"
  shows "keeps_creds J path creds (fst w')"
proof -
  obtain l f where l: "Store_Load F J path (fst w) = (l, f)" by fastforce
  show ?thesis
  proof (cases l)
    case (Inr c)
    with l Load_keeps [of J path "fst w" c f] assms(2) show ?thesis by (auto simp: BootstrapCredentials_def)
  next
    case (Inl e)
    with l assms(2) obtain i tok f1 u where "Store_Save F J path \<lparr>creds_AgentID = i, creds_AgentToken = tok\<rparr> f1 = (Inr u, fst w')"
      "creds = \<lparr>creds_AgentID = i, creds_AgentToken = tok\<rparr>"
      by (force simp: BootstrapCredentials_def Let_def split: if_splits prod.splits sum.splits)
    with Save_keeps [OF assms(1)] show ?thesis by blast
  qed
qed

lemma bootstrap_again:
  assumes "keeps_creds J path creds (fst w)" "BootstrapCredentials (disk_store F J path) regToken agent reg w = (r, w')"
  shows "(r = Inr creds \<or> (\<exists>e. r = Inl e \<and> errors_Is e ErrBootstrapState)) \<and> snd w' = snd w"
proof -
  obtain l f where l: "Store_Load F J path (fst w) = (l, f)" by fastforce
  with keeps_Load [OF assms(1) l] assms(2) show ?thesis by (auto simp: BootstrapCredentials_def os_IsNotExist_def)
qed

end

text \<open>
  C20.  An agent that was given credentials keeps them: started again, with whatever registration token and
  name, as long as its state file is as it was left it is the same agent and does not call the control plane,
  or it stops with an unusable state when the file cannot be read.
\<close>

theorem restart_keeps_identity:
  assumes "files_contract F files locks" "state_codec J"
    and "BootstrapCredentials (disk_store F J path) regToken agent (\<lambda>t a. off_disk (reg t a)) w = (Inr creds, w1)"
    and "files (fst w2) path = files (fst w1) path"
    and "BootstrapCredentials (disk_store F J path) regToken' agent' reg' w2 = (r, w3)"
  shows "(r = Inr creds \<or> (\<exists>e. r = Inl e \<and> errors_Is e ErrBootstrapState)) \<and> snd w3 = snd w2"
  using files_contract.bootstrap_again [OF assms(1) files_contract.keeps_creds_cong [OF assms(1,4) files_contract.bootstrap_keeps [OF assms(1-3)]] assms(5)] .

definition sample_dp_agent :: agent where
  "sample_dp_agent = \<lparr>agent_ts = zero_timestamps, agent_Id = ''dp'', agent_Hostname = ''h'', agent_Version = ''v'', agent_Labels = [], agent_LastHeartbeat = None\<rparr>"

abbreviation empty_disk :: mem_files where
  "empty_disk \<equiv> \<lparr>mem_files = [], mem_locks = [], mem_broken = []\<rparr>"

abbreviation counting_registrar :: "string \<Rightarrow> agent \<Rightarrow> (nat, agent \<times> string) op" where
  "counting_registrar tok a n \<equiv> (Inr (a, ''tok''), Suc n)"

theorem restart_keeps_identity_witness:
  "\<exists>w1. BootstrapCredentials (disk_store mem_fs pair_json ''/s/agent.json'') ''reg'' sample_dp_agent (\<lambda>t a. off_disk (counting_registrar t a)) (empty_disk, 0)
       = (Inr sample_creds, w1) \<and> snd w1 = 1 \<and>
     snd (snd (BootstrapCredentials (disk_store mem_fs pair_json ''/s/agent.json'') [] sample_dp_agent (\<lambda>t a. off_disk (counting_registrar t a)) w1)) = 1"
proof -
  let ?boot = "\<lambda>tok. BootstrapCredentials (disk_store mem_fs pair_json ''/s/agent.json'') tok sample_dp_agent (\<lambda>t a. off_disk (counting_registrar t a))"
  have "fst (?boot ''reg'' (empty_disk, 0)) = Inr sample_creds \<and> snd (snd (?boot ''reg'' (empty_disk, 0))) = 1"
    by code_simp
  then obtain w1 where w1: "?boot ''reg'' (empty_disk, 0) = (Inr sample_creds, w1)" "snd w1 = 1" by (metis prod.collapse)
  with restart_keeps_identity [OF mem.files_contract_axioms pair_json_codec w1(1) refl surjective_pairing, of "[]" sample_dp_agent] show ?thesis
    by auto
qed

section \<open>One process per directory\<close>

text \<open>
  While a process holds the lock of its state file, no other gets the lock for a file in that directory.
\<close>

theorem lock_is_exclusive:
  assumes "files_contract F files locks" "Acquire F (LockPath p) f = (Inr u, f1)" "locks f1 \<subseteq> locks f2"
    and "filepath_Dir q = filepath_Dir p"
  shows "\<exists>e. fst (Acquire F (LockPath q) f2) = Inl e"
proof (cases "Acquire F (LockPath q) f2")
  case (Pair r f3)
  with files_contract.Acquire_locks [OF assms(1) Pair] files_contract.Acquire_locks [OF assms(1,2)] assms(3,4) show ?thesis
    by (auto simp: LockPath_def split: sum.splits)
qed

theorem lock_is_released:
  assumes "files_contract F files locks" "Acquire F path f = (Inr u, f1)"
  shows "locks (heldLock_Close F path f1) = locks f - {path}"
  using files_contract.Acquire_locks [OF assms] files_contract.unlock [OF assms(1) surjective_pairing, of path f1]
  by (auto simp: heldLock_Close_def)

end
