(* ===== verification/Probes.thy ===== *)
theory Probes
  imports LinkState Web
begin

text \<open>
  \<^verbatim>\<open>adapters/probes\<close>: the readiness gate of a process and the two endpoints it answers.  The reasons are
  checked in a fixed order; the link is asked for a snapshot only when everything before it is in order, and
  that snapshot may move the link's state machine.
\<close>

definition ReasonOK :: string where "ReasonOK = ''ok''"
definition ReasonShuttingDown :: string where "ReasonShuttingDown = ''shutting_down''"
definition ReasonBootstrapPending :: string where "ReasonBootstrapPending = ''bootstrap_pending''"
definition ReasonStorageUnavailable :: string where "ReasonStorageUnavailable = ''storage_unavailable''"
definition ReasonGRPCNotServing :: string where "ReasonGRPCNotServing = ''grpc_not_serving''"
definition ReasonCPUnreachable :: string where "ReasonCPUnreachable = ''cp_unreachable''"

lemmas reason_defs = ReasonOK_def ReasonShuttingDown_def ReasonBootstrapPending_def ReasonStorageUnavailable_def
  ReasonGRPCNotServing_def ReasonCPUnreachable_def

text \<open>A pinger is \<^verbatim>\<open>nil\<close> or answers with an error or none; the link is \<^verbatim>\<open>nil\<close> or a link state.\<close>

record ready_gate_config =
  rgc_Storage :: "(unit \<Rightarrow> err option) option"
  rgc_Link :: "link_state option"
  rgc_RequireGRPC :: bool
  rgc_RequireBootstrap :: bool

record ready_gate =
  rg_storage :: "(unit \<Rightarrow> err option) option"
  rg_link :: "link_state option"
  rg_requireGRPC :: bool
  rg_requireBootstrap :: bool
  rg_bootstrapped :: bool
  rg_shuttingDown :: bool
  rg_grpcServing :: bool

definition NewReadyGate :: "ready_gate_config \<Rightarrow> ready_gate" where
  "NewReadyGate cfg =
     \<lparr>rg_storage = rgc_Storage cfg, rg_link = rgc_Link cfg, rg_requireGRPC = rgc_RequireGRPC cfg,
      rg_requireBootstrap = rgc_RequireBootstrap cfg, rg_bootstrapped = False, rg_shuttingDown = False, rg_grpcServing = False\<rparr>"

definition MarkShuttingDown :: "ready_gate \<Rightarrow> ready_gate" where
  "MarkShuttingDown g = g\<lparr>rg_shuttingDown := True\<rparr>"

definition MarkGRPCServing :: "bool \<Rightarrow> ready_gate \<Rightarrow> ready_gate" where
  "MarkGRPCServing serving g = g\<lparr>rg_grpcServing := serving\<rparr>"

definition MarkBootstrapped :: "ready_gate \<Rightarrow> ready_gate" where
  "MarkBootstrapped g = g\<lparr>rg_bootstrapped := True\<rparr>"

definition ready_Check :: "time \<Rightarrow> ready_gate \<Rightarrow> (bool \<times> string) \<times> ready_gate" where
  "ready_Check now g =
     (if rg_shuttingDown g then ((False, ReasonShuttingDown), g)
      else if rg_requireBootstrap g \<and> \<not> rg_bootstrapped g then ((False, ReasonBootstrapPending), g)
      else if (case rg_storage g of None \<Rightarrow> False | Some ping \<Rightarrow> ping () \<noteq> None) then ((False, ReasonStorageUnavailable), g)
      else if rg_requireGRPC g \<and> \<not> rg_grpcServing g then ((False, ReasonGRPCNotServing), g)
      else case rg_link g of
          None \<Rightarrow> ((True, ReasonOK), g)
        | Some l \<Rightarrow>
            (case Snapshot now l of
               (snap, l) \<Rightarrow> (if snap_Rejecting snap then (False, ReasonCPUnreachable) else (True, ReasonOK), g\<lparr>rg_link := Some l\<rparr>)))"

definition writePlain :: "nat \<Rightarrow> string \<Rightarrow> string web_response" where
  "writePlain status body = set_header ''Content-Type'' ''text/plain; charset=utf-8'' (plain_response status body)"

definition liveness :: "(ready_gate, string) web_handler" where
  "liveness r ctx g = (writePlain 200 ReasonOK, g)"

definition readiness :: "time \<Rightarrow> (ready_gate, string) web_handler" where
  "readiness now r ctx g =
     (case ready_Check now g of
        ((ok, reason), g) \<Rightarrow> (if ok then writePlain 200 reason else writePlain 503 reason, g))"

text \<open>The patterns name no method: the paths are matched as they are, and anything else is not found.\<close>

definition probe_handler :: "time \<Rightarrow> (ready_gate, string) web_handler" where
  "probe_handler now r ctx g =
     (if rq_EscapedPath r = ''*'' then (set_header ''Connection'' ''close'' (plain_response 400 []), g)
      else let path = (if rq_Method r = ''CONNECT'' then rq_EscapedPath r else cleanPath (rq_EscapedPath r)) in
        if path \<noteq> rq_EscapedPath r then (plain_response 301 [], g)
        else if path_segments path = [''healthz''] then liveness r ctx g
        else if path_segments path = [''readyz''] then readiness now r ctx g
        else (NotFound (\<lambda>s. s), g))"


definition dp_gate :: "link_state \<Rightarrow> ready_gate" where
  "dp_gate l = NewReadyGate \<lparr>rgc_Storage = None, rgc_Link = Some l, rgc_RequireGRPC = False, rgc_RequireBootstrap = True\<rparr>"

definition silence :: "(time \<times> link_event) list" where
  "silence = [(1, HeartbeatOk), (20 * Second, Read), (25 * Second, WatchDown)]"

definition strict_link :: link_config where
  "strict_link = \<lparr>lc_Strategy = CPDisconnectFailClosed, lc_UnreachableThreshold = 10 * Second, lc_RecoverThreshold = 0\<rparr>"

definition silent_link :: link_state where
  "silent_link = fold link_step silence (NewLinkState strict_link)"


lemma liveness_always: "rs_Status (fst (liveness r ctx g)) = 200"
  by (simp add: liveness_def writePlain_def plain_response_def set_header_def)

text \<open>
  A control plane is ready while it takes calls, its storage answers and it is not told to stop.
\<close>

theorem cp_readiness:
  assumes "rg_storage g = Some ping" "rg_requireGRPC g" "\<not> rg_requireBootstrap g" "rg_link g = None"
  shows "rs_Status (fst (readiness now r ctx g)) = (if \<not> rg_shuttingDown g \<and> ping () = None \<and> rg_grpcServing g then 200 else 503)"
  using assms by (auto simp: readiness_def ready_Check_def writePlain_def plain_response_def set_header_def)

end
