(* ===== verification/Cli.thy ===== *)
theory Cli
  imports File_System Grpc_Client
begin

text \<open>
  \<^verbatim>\<open>adapters/cli\<close> and \<^verbatim>\<open>cmd/pgctl\<close>: the commands of \<^verbatim>\<open>pgctl\<close>, which work through the gRPC client.  A command
  is given its arguments and flags as \<^verbatim>\<open>cobra\<close> parses them.  The YAML library, the file system and the
  connection are parameters; what is printed is kept as data.
\<close>

section \<open>What a command works on\<close>

record 'n raw_yaml =
  ry_Kind :: string
  ry_Version :: string
  ry_Metadata :: metadata
  ry_Spec :: 'n

text \<open>
  The documents of a file that \<^verbatim>\<open>Decoder.Decode\<close> yields, and the error it stops with, \<open>None\<close> for \<^verbatim>\<open>io.EOF\<close>.
\<close>

record 'n yaml_lib =
  ym_Decode :: "string \<Rightarrow> 'n raw_yaml list \<times> err option"
  ym_Marshal :: "'n \<Rightarrow> string result"
  ym_Proxy :: "string \<Rightarrow> proxy_spec result"
  ym_Pool :: "string \<Rightarrow> pool_spec result"
  ym_Balancer :: "string \<Rightarrow> balancer_spec result"
  ym_Router :: "string \<Rightarrow> router_spec result"
  ym_Flow :: "string \<Rightarrow> flow_spec result"
  ym_Entrypoint :: "string \<Rightarrow> entrypoint_spec result"

record agent_row =
  ar_Name :: string
  ar_Status :: string
  ar_Hostname :: string
  ar_Version :: string
  ar_Labels :: labels
  ar_LastHeartbeat :: "time option"

text \<open>What is printed: a line, as its format and arguments, or a value as indented JSON.\<close>

datatype cli_output =
    Printf string "fmt_arg list"
  | PrintProxy proxy
  | PrintProxies "proxy list"
  | PrintPool pool
  | PrintPools "pool list"
  | PrintBalancer load_balancer
  | PrintBalancers "load_balancer list"
  | PrintRouter router
  | PrintRouters "router list"
  | PrintFlow flow
  | PrintFlows "flow list"
  | PrintEntrypoint entrypoint
  | PrintEntrypoints "entrypoint list"
  | PrintUsers "user list"
  | PrintAgents "agent_row list"

text \<open>
  The state of the connection, the disk, what is still to be read from standard input, one element for each
  \<^verbatim>\<open>read\<close> of it, and what was printed.
\<close>

record ('w, 'f) cli_world =
  cw_conn :: 'w
  cw_disk :: 'f
  cw_stdin :: "string list"
  cw_out :: "cli_output list"

type_synonym ('w, 'f, 'a) cli = "(('w, 'f) cli_world, 'a) op"

definition rpc :: "('w, 'a) op \<Rightarrow> ('w, 'f, 'a) cli" where
  "rpc m w = (case m (cw_conn w) of (r, c) \<Rightarrow> (r, w\<lparr>cw_conn := c\<rparr>))"

definition disk :: "('f, 'a) op \<Rightarrow> ('w, 'f, 'a) cli" where
  "disk m w = (case m (cw_disk w) of (r, f) \<Rightarrow> (r, w\<lparr>cw_disk := f\<rparr>))"

definition say :: "cli_output \<Rightarrow> ('w, 'f, unit) cli" where
  "say x w = (Inr (), w\<lparr>cw_out := cw_out w @ [x]\<rparr>)"

text \<open>What the commands run in: the client, the token read for this run and where tokens are kept.\<close>

record 'w deps =
  de_Client :: "'w client"
  de_Token :: string
  de_TokenPath :: string

definition ExactArgs :: "nat \<Rightarrow> string list \<Rightarrow> unit result" where
  "ExactArgs n args = guard_res (length args = n) (External ''accepts a fixed number of args'')"

definition MaximumNArgs :: "nat \<Rightarrow> string list \<Rightarrow> unit result" where
  "MaximumNArgs n args = guard_res (length args \<le> n) (External ''accepts at most a number of args'')"

section \<open>Manifests\<close>

fun parse_documents :: "'n yaml_lib \<Rightarrow> 'n raw_yaml list \<Rightarrow> err option \<Rightarrow> raw_resource list result" where
  "parse_documents Y [] ending =
     (case ending of None \<Rightarrow> Inr [] | Some e \<Rightarrow> Inl (Wrapf ''decode yaml document: %w'' [] e))"
| "parse_documents Y (d # ds) ending =
     (if ry_Kind d = [] then Inl (Errorf ''kind is required'' [])
      else if ry_Version d = [] then Inl (Errorf ''version is required'' [])
      else bind_res (wrap (Wrapf ''marshal spec for %s/%s: %w'' [FStr (ry_Kind d), FStr (ry_Version d)]) (ym_Marshal Y (ry_Spec d))) (\<lambda>spec.
        bind_res (parse_documents Y ds ending) (\<lambda>rs.
          Inr (\<lparr>raw_Kind = ry_Kind d, raw_Version = ry_Version d, raw_Metadata = ry_Metadata d, raw_SpecRaw = spec\<rparr> # rs))))"

definition ParseYAML :: "'n yaml_lib \<Rightarrow> string \<Rightarrow> raw_resource list result" where
  "ParseYAML Y data = (case ym_Decode Y data of (docs, ending) \<Rightarrow> parse_documents Y docs ending)"

definition disp_applyProxyV1 :: "'n yaml_lib \<Rightarrow> 'w client \<Rightarrow> raw_resource \<Rightarrow> ('w, 'f, unit) cli" where
  "disp_applyProxyV1 Y C raw =
     bind_op (lift_op (wrap (Wrapf ''decode proxy spec: %w'' []) (ym_Proxy Y (raw_SpecRaw raw)))) (\<lambda>spec.
     bind_op (rpc (cl_ApplyProxyV1 C (raw_Metadata raw) spec)) (\<lambda>x.
     say (Printf ''proxy/%s applied'' [FStr (proxy_Id x)])))"

definition disp_applyPoolV1 :: "'n yaml_lib \<Rightarrow> 'w client \<Rightarrow> raw_resource \<Rightarrow> ('w, 'f, unit) cli" where
  "disp_applyPoolV1 Y C raw =
     bind_op (lift_op (wrap (Wrapf ''decode pool spec: %w'' []) (ym_Pool Y (raw_SpecRaw raw)))) (\<lambda>spec.
     bind_op (rpc (cl_ApplyPoolV1 C (raw_Metadata raw) spec)) (\<lambda>x.
     say (Printf ''pool/%s applied'' [FStr (pool_Id x)])))"

definition disp_applyBalancerV1 :: "'n yaml_lib \<Rightarrow> 'w client \<Rightarrow> raw_resource \<Rightarrow> ('w, 'f, unit) cli" where
  "disp_applyBalancerV1 Y C raw =
     bind_op (lift_op (wrap (Wrapf ''decode balancer spec: %w'' []) (ym_Balancer Y (raw_SpecRaw raw)))) (\<lambda>spec.
     bind_op (rpc (cl_ApplyBalancerV1 C (raw_Metadata raw) spec)) (\<lambda>x.
     say (Printf ''balancer/%s applied'' [FStr (lb_Id x)])))"

definition disp_applyRouterV1 :: "'n yaml_lib \<Rightarrow> 'w client \<Rightarrow> raw_resource \<Rightarrow> ('w, 'f, unit) cli" where
  "disp_applyRouterV1 Y C raw =
     bind_op (lift_op (wrap (Wrapf ''decode router spec: %w'' []) (ym_Router Y (raw_SpecRaw raw)))) (\<lambda>spec.
     bind_op (rpc (cl_ApplyRouterV1 C (raw_Metadata raw) spec)) (\<lambda>x.
     say (Printf ''router/%s applied'' [FStr (router_Id x)])))"

definition disp_applyFlowV1 :: "'n yaml_lib \<Rightarrow> 'w client \<Rightarrow> raw_resource \<Rightarrow> ('w, 'f, unit) cli" where
  "disp_applyFlowV1 Y C raw =
     bind_op (lift_op (wrap (Wrapf ''decode flow spec: %w'' []) (ym_Flow Y (raw_SpecRaw raw)))) (\<lambda>spec.
     bind_op (rpc (cl_ApplyFlowV1 C (raw_Metadata raw) spec)) (\<lambda>x.
     say (Printf ''flow/%s applied'' [FStr (flow_Id x)])))"

definition disp_applyEntrypointV1 :: "'n yaml_lib \<Rightarrow> 'w client \<Rightarrow> raw_resource \<Rightarrow> ('w, 'f, unit) cli" where
  "disp_applyEntrypointV1 Y C raw =
     bind_op (lift_op (wrap (Wrapf ''decode flow spec: %w'' []) (ym_Entrypoint Y (raw_SpecRaw raw)))) (\<lambda>spec.
     bind_op (rpc (cl_ApplyEntrypointV1 C (raw_Metadata raw) spec)) (\<lambda>x.
     say (Printf ''entrypoint/%s applied'' [FStr (ep_Id x)])))"

definition disp_Apply :: "'n yaml_lib \<Rightarrow> 'w client \<Rightarrow> raw_resource \<Rightarrow> ('w, 'f, unit) cli" where
  "disp_Apply Y C raw =
     (if Key raw = ''Proxy/v1'' then disp_applyProxyV1 Y C raw
      else if Key raw = ''Pool/v1'' then disp_applyPoolV1 Y C raw
      else if Key raw = ''LoadBalancer/v1'' then disp_applyBalancerV1 Y C raw
      else if Key raw = ''Router/v1'' then disp_applyRouterV1 Y C raw
      else if Key raw = ''Flow/v1'' then disp_applyFlowV1 Y C raw
      else if Key raw = ''Entrypoint/v1'' then disp_applyEntrypointV1 Y C raw
      else lift_op (Inl (Errorf ''unknown resource: %s'' [FStr (Key raw)])))"

fun apply_loop :: "'n yaml_lib \<Rightarrow> 'w client \<Rightarrow> nat \<Rightarrow> raw_resource list \<Rightarrow> ('w, 'f, unit) cli" where
  "apply_loop Y C i [] = lift_op (Inr ())"
| "apply_loop Y C i (raw # rs) =
     bind_op (wrap_op (Wrapf ''resource[%d] (%s): %w'' [FInt (int i), FStr (Key raw)]) (disp_Apply Y C raw)) (\<lambda>_.
     apply_loop Y C (Suc i) rs)"

definition ApplyAll :: "'n yaml_lib \<Rightarrow> 'w client \<Rightarrow> raw_resource list \<Rightarrow> ('w, 'f, unit) cli" where
  "ApplyAll Y C resources = apply_loop Y C 0 (SortByApplyOrder resources)"

definition cmd_apply :: "'f file_system \<Rightarrow> 'n yaml_lib \<Rightarrow> 'w deps \<Rightarrow> string \<Rightarrow> ('w, 'f, unit) cli" where
  "cmd_apply F Y d filePath =
     bind_op (guard_op (filePath \<noteq> []) (Errorf ''file path is required (-f)'' [])) (\<lambda>_.
     bind_op (wrap_op (Wrapf ''read file: %w'' []) (disk (fs_ReadFile F filePath))) (\<lambda>data.
     bind_op (lift_op (wrap (Wrapf ''parse yaml: %w'' []) (ParseYAML Y data))) (\<lambda>resources.
     if resources = [] then say (Printf ''no resources found in file'' [])
     else ApplyAll Y (de_Client d) resources)))"

section \<open>Reading and deleting\<close>

definition cmd_getProxy :: "'w deps \<Rightarrow> string list \<Rightarrow> ('w, 'f, unit) cli" where
  "cmd_getProxy d args =
     (case args of
        name # _ \<Rightarrow> bind_op (rpc (cl_GetProxy (de_Client d) name)) (\<lambda>x. say (PrintProxy x))
      | [] \<Rightarrow>
          bind_op (rpc (cl_ListProxies (de_Client d) all_params (\<lparr>pf_Search = [], pf_Protocol = [], pf_Labels = []\<rparr>))) (\<lambda>result.
          if Items result = [] then say (Printf ''no proxies found'' []) else say (PrintProxies (Items result))))"

definition cmd_deleteProxy :: "'w deps \<Rightarrow> string list \<Rightarrow> ('w, 'f, unit) cli" where
  "cmd_deleteProxy d args =
     bind_op (lift_op (ExactArgs 1 args)) (\<lambda>_.
     bind_op (rpc (cl_DeleteProxy (de_Client d) (hd args))) (\<lambda>_.
     say (Printf ''proxy/%s deleted'' [FStr (hd args)])))"

definition cmd_getPool :: "'w deps \<Rightarrow> string list \<Rightarrow> ('w, 'f, unit) cli" where
  "cmd_getPool d args =
     (case args of
        name # _ \<Rightarrow> bind_op (rpc (cl_GetPool (de_Client d) name)) (\<lambda>x. say (PrintPool x))
      | [] \<Rightarrow>
          bind_op (rpc (cl_ListPools (de_Client d) all_params no_pool_filter)) (\<lambda>result.
          if Items result = [] then say (Printf ''no pools found'' []) else say (PrintPools (Items result))))"

definition cmd_deletePool :: "'w deps \<Rightarrow> string list \<Rightarrow> ('w, 'f, unit) cli" where
  "cmd_deletePool d args =
     bind_op (lift_op (ExactArgs 1 args)) (\<lambda>_.
     bind_op (rpc (cl_DeletePool (de_Client d) (hd args))) (\<lambda>_.
     say (Printf ''pool/%s deleted'' [FStr (hd args)])))"

definition cmd_getBalancer :: "'w deps \<Rightarrow> string list \<Rightarrow> ('w, 'f, unit) cli" where
  "cmd_getBalancer d args =
     (case args of
        name # _ \<Rightarrow> bind_op (rpc (cl_GetBalancer (de_Client d) name)) (\<lambda>x. say (PrintBalancer x))
      | [] \<Rightarrow>
          bind_op (rpc (cl_ListBalancers (de_Client d) all_params no_balancer_filter)) (\<lambda>result.
          if Items result = [] then say (Printf ''no load balancer found'' []) else say (PrintBalancers (Items result))))"

definition cmd_deleteBalancer :: "'w deps \<Rightarrow> string list \<Rightarrow> ('w, 'f, unit) cli" where
  "cmd_deleteBalancer d args =
     bind_op (lift_op (ExactArgs 1 args)) (\<lambda>_.
     bind_op (rpc (cl_DeleteBalancer (de_Client d) (hd args))) (\<lambda>_.
     say (Printf ''balancer/%s deleted'' [FStr (hd args)])))"

definition cmd_getRouter :: "'w deps \<Rightarrow> string list \<Rightarrow> ('w, 'f, unit) cli" where
  "cmd_getRouter d args =
     (case args of
        name # _ \<Rightarrow> bind_op (rpc (cl_GetRouter (de_Client d) name)) (\<lambda>x. say (PrintRouter x))
      | [] \<Rightarrow>
          bind_op (rpc (cl_ListRouters (de_Client d) all_params no_router_filter)) (\<lambda>result.
          if Items result = [] then say (Printf ''no router found'' []) else say (PrintRouters (Items result))))"

definition cmd_deleteRouter :: "'w deps \<Rightarrow> string list \<Rightarrow> ('w, 'f, unit) cli" where
  "cmd_deleteRouter d args =
     bind_op (lift_op (ExactArgs 1 args)) (\<lambda>_.
     bind_op (rpc (cl_DeleteRouter (de_Client d) (hd args))) (\<lambda>_.
     say (Printf ''router/%s deleted'' [FStr (hd args)])))"

definition cmd_getFlow :: "'w deps \<Rightarrow> string list \<Rightarrow> ('w, 'f, unit) cli" where
  "cmd_getFlow d args =
     (case args of
        name # _ \<Rightarrow> bind_op (rpc (cl_GetFlow (de_Client d) name)) (\<lambda>x. say (PrintFlow x))
      | [] \<Rightarrow>
          bind_op (rpc (cl_ListFlows (de_Client d) all_params no_flow_filter)) (\<lambda>result.
          if Items result = [] then say (Printf ''no flow found'' []) else say (PrintFlows (Items result))))"

definition cmd_deleteFlow :: "'w deps \<Rightarrow> string list \<Rightarrow> ('w, 'f, unit) cli" where
  "cmd_deleteFlow d args =
     bind_op (lift_op (ExactArgs 1 args)) (\<lambda>_.
     bind_op (rpc (cl_DeleteFlow (de_Client d) (hd args))) (\<lambda>_.
     say (Printf ''flow/%s deleted'' [FStr (hd args)])))"

definition cmd_getEntrypoint :: "'w deps \<Rightarrow> string list \<Rightarrow> ('w, 'f, unit) cli" where
  "cmd_getEntrypoint d args =
     (case args of
        name # _ \<Rightarrow> bind_op (rpc (cl_GetEntrypoint (de_Client d) name)) (\<lambda>x. say (PrintEntrypoint x))
      | [] \<Rightarrow>
          bind_op (rpc (cl_ListEntrypoints (de_Client d) all_params no_entrypoint_filter)) (\<lambda>result.
          if Items result = [] then say (Printf ''no entrypoint found'' []) else say (PrintEntrypoints (Items result))))"

definition cmd_deleteEntrypoint :: "'w deps \<Rightarrow> string list \<Rightarrow> ('w, 'f, unit) cli" where
  "cmd_deleteEntrypoint d args =
     bind_op (lift_op (ExactArgs 1 args)) (\<lambda>_.
     bind_op (rpc (cl_DeleteEntrypoint (de_Client d) (hd args))) (\<lambda>_.
     say (Printf ''entrypoint/%s deleted'' [FStr (hd args)])))"

section \<open>Prompts\<close>

text \<open>
  \<^verbatim>\<open>bufio.Reader.ReadString\<close> on a reader of its own: it takes whole reads of the input until one has the
  newline, and what that read has after it is gone with the reader.
\<close>

fun read_line :: "string \<Rightarrow> string list \<Rightarrow> string result \<times> string list" where
  "read_line acc [] = (Inl (External ''EOF''), [])"
| "read_line acc (chunk # rest) =
     (if CHR 0x0A \<in> set chunk then (Inr (acc @ takeWhile (\<lambda>c. c \<noteq> CHR 0x0A) chunk @ [CHR 0x0A]), rest)
      else read_line (acc @ chunk) rest)"

definition promptLine :: "string \<Rightarrow> ('w, 'f, string) cli" where
  "promptLine label w =
     (case read_line [] (cw_stdin w) of
        (Inl e, rest) \<Rightarrow> (Inl (Wrapf ''read input: %w'' [] e), w\<lparr>cw_stdin := rest\<rparr>)
      | (Inr line, rest) \<Rightarrow> (Inr (TrimSpace line), w\<lparr>cw_stdin := rest\<rparr>))"

text \<open>
  \<^verbatim>\<open>term.ReadPassword\<close> reads one byte at a time up to the newline; a backspace takes the last one back.
\<close>

fun read_password :: "string \<Rightarrow> string \<Rightarrow> string result \<times> string" where
  "read_password acc [] = ((if acc = [] then Inl (External ''EOF'') else Inr acc), [])"
| "read_password acc (c # cs) =
     (if c = CHR 0x0A then (Inr acc, cs)
      else if c = CHR 0x08 then read_password (butlast acc) cs
      else read_password (acc @ [c]) cs)"

definition promptPassword :: "bool \<Rightarrow> string \<Rightarrow> ('w, 'f, string) cli" where
  "promptPassword is_terminal label w =
     (if \<not> is_terminal then promptLine label w
      else case read_password [] (concat (cw_stdin w)) of
          (Inl e, rest) \<Rightarrow> (Inl (Wrapf ''read password: %w'' [] e), w\<lparr>cw_stdin := [rest]\<rparr>)
        | (Inr raw, rest) \<Rightarrow> (Inr (TrimSpace raw), w\<lparr>cw_stdin := [rest]\<rparr>))"

text \<open>A value given by its flag, or asked for.\<close>

definition or_ask :: "string \<Rightarrow> ('w, 'f, string) cli \<Rightarrow> ('w, 'f, string) cli" where
  "or_ask given ask = (if given = [] then ask else lift_op (Inr given))"

section \<open>The token file\<close>

definition defaultTokenPath :: "string result \<Rightarrow> string result" where
  "defaultTokenPath home =
     bind_res (wrap (Wrapf ''resolve home dir: %w'' []) home) (\<lambda>h. Inr (filepath_Join [h, ''.pgctl'', ''credentials'']))"

definition readTokenFile :: "'f file_system \<Rightarrow> string \<Rightarrow> ('w, 'f, string) cli" where
  "readTokenFile F path w =
     (case disk (fs_ReadFile F path) w of (Inl _, w) \<Rightarrow> (Inr [], w) | (Inr data, w) \<Rightarrow> (Inr (TrimSpace data), w))"

definition requireTokenFile :: "'f file_system \<Rightarrow> string \<Rightarrow> ('w, 'f, string) cli" where
  "requireTokenFile F path w =
     (case disk (fs_ReadFile F path) w of
        (Inl e, w) \<Rightarrow>
          (if os_IsNotExist e then Inl (Errorf ''no token file at %s (run pgctl login, or pass --token-path)'' [FStr path])
           else Inl (Wrapf ''read token file: %w'' [] e), w)
      | (Inr data, w) \<Rightarrow>
          (let token = TrimSpace data in
           if token \<noteq> [] then Inr token else Inl (Errorf ''token file %s is empty (run pgctl login to rewrite it)'' [FStr path]), w))"

definition writeTokenFile :: "'f file_system \<Rightarrow> string \<Rightarrow> string \<Rightarrow> ('w, 'f, unit) cli" where
  "writeTokenFile F path token =
     bind_op (wrap_op (Wrapf ''create %s: %w'' [FStr (filepath_Dir path)]) (disk (fs_MkdirAll F (filepath_Dir path) 448))) (\<lambda>_.
     wrap_op (Wrapf ''write token file: %w'' []) (disk (fs_WriteFile F path (token @ [CHR 0x0A]) 384)))"

definition removeTokenFile :: "'f file_system \<Rightarrow> string \<Rightarrow> ('w, 'f, unit) cli" where
  "removeTokenFile F path w =
     (case disk (fs_Remove F path) w of
        (Inl e, w) \<Rightarrow> (if os_IsNotExist e then Inr () else Inl (Wrapf ''remove token file: %w'' [] e), w)
      | (Inr _, w) \<Rightarrow> (Inr (), w))"

section \<open>Sessions\<close>

definition cmd_login ::
  "'f file_system \<Rightarrow> bool \<Rightarrow> 'w deps \<Rightarrow> string \<Rightarrow> string \<Rightarrow> duration \<Rightarrow> bool \<Rightarrow> ('w, 'f, unit) cli" where
  "cmd_login F is_terminal d username password ttl noExpiry =
     bind_op (or_ask username (promptLine ''username'')) (\<lambda>username.
     bind_op (or_ask password (promptPassword is_terminal ''password'')) (\<lambda>password.
     bind_op (rpc (cl_Login (de_Client d) username password ttl noExpiry)) (\<lambda>token.
     bind_op (wrap_op (Wrapf ''login succeeded but storing token failed: %w'' []) (writeTokenFile F (de_TokenPath d) token)) (\<lambda>_.
     bind_op (say (Printf ''logged in as %q'' [FStr username])) (\<lambda>_.
     bind_op (say (Printf ''token stored in %s'' [FStr (de_TokenPath d)])) (\<lambda>_.
     say (Printf ''token: %s'' [FStr token])))))))"

definition cmd_logout :: "'f file_system \<Rightarrow> 'w deps \<Rightarrow> ('w, 'f, unit) cli" where
  "cmd_logout F d =
     bind_op (guard_op (de_Token d \<noteq> []) (Errorf ''no token to revoke'' [])) (\<lambda>_.
     bind_op (rpc (cl_Logout (de_Client d) (de_Token d))) (\<lambda>_.
     bind_op (removeTokenFile F (de_TokenPath d)) (\<lambda>_.
     say (Printf ''logged out'' []))))"

definition cmd_init ::
  "'f file_system \<Rightarrow> bool \<Rightarrow> string \<Rightarrow> 'w deps \<Rightarrow> string \<Rightarrow> string \<Rightarrow> string \<Rightarrow> ('w, 'f, unit) cli" where
  "cmd_init F is_terminal env_token d bootstrapToken username password =
     (let bootstrapToken = (if bootstrapToken = [] then env_token else bootstrapToken) in
     bind_op (guard_op (bootstrapToken \<noteq> []) (Errorf ''bootstrap token is required (--bootstrap-token or PGWAY_BOOTSTRAP_TOKEN)'' [])) (\<lambda>_.
     bind_op (or_ask username (promptLine ''admin username'')) (\<lambda>username.
     bind_op (or_ask password (promptPassword is_terminal ''admin password'')) (\<lambda>password.
     bind_op (rpc (cl_InitAdmin (de_Client d) bootstrapToken username password)) (\<lambda>(user, token).
     bind_op (wrap_op (Wrapf ''admin created but storing token failed: %w'' []) (writeTokenFile F (de_TokenPath d) token)) (\<lambda>_.
     bind_op (say (Printf ''admin user %q created'' [FStr (user_Id user)])) (\<lambda>_.
     bind_op (say (Printf ''token stored in %s'' [FStr (de_TokenPath d)])) (\<lambda>_.
     say (Printf ''token: %s'' [FStr token])))))))))"

section \<open>Users\<close>

definition cmd_userCreate :: "'w deps \<Rightarrow> string list \<Rightarrow> string \<Rightarrow> role \<Rightarrow> ('w, 'f, unit) cli" where
  "cmd_userCreate d args password role =
     bind_op (lift_op (ExactArgs 1 args)) (\<lambda>_.
     bind_op (rpc (cl_CreateUser (de_Client d) (hd args) password role)) (\<lambda>(user, generated).
     bind_op (say (Printf ''user/%s created (role: %s)'' [FStr (user_Id user), FStr (user_Role user)])) (\<lambda>_.
     if generated \<noteq> [] then say (Printf ''temporary password (shown once): %s'' [FStr generated]) else lift_op (Inr ()))))"

definition cmd_userList :: "'w deps \<Rightarrow> ('w, 'f, unit) cli" where
  "cmd_userList d =
     bind_op (rpc (cl_ListUsers (de_Client d) all_params \<lparr>uf_Search = [], uf_Role = []\<rparr>)) (\<lambda>result.
     if Items result = [] then say (Printf ''no users found'' []) else say (PrintUsers (Items result)))"

definition cmd_userDelete :: "'w deps \<Rightarrow> string list \<Rightarrow> ('w, 'f, unit) cli" where
  "cmd_userDelete d args =
     bind_op (lift_op (ExactArgs 1 args)) (\<lambda>_.
     bind_op (rpc (cl_DeleteUser (de_Client d) (hd args))) (\<lambda>_.
     say (Printf ''user/%s deleted'' [FStr (hd args)])))"

definition cmd_userChangePassword :: "bool \<Rightarrow> 'w deps \<Rightarrow> string list \<Rightarrow> string \<Rightarrow> string \<Rightarrow> ('w, 'f, unit) cli" where
  "cmd_userChangePassword is_terminal d args oldPassword newPassword =
     bind_op (lift_op (MaximumNArgs 1 args)) (\<lambda>_.
     let target = (case args of [] \<Rightarrow> [] | a # _ \<Rightarrow> a) in
     bind_op (or_ask newPassword (promptPassword is_terminal ''new password'')) (\<lambda>newPassword.
     bind_op
       (if target \<noteq> [] then rpc (cl_ResetPassword (de_Client d) target newPassword)
        else bind_op (or_ask oldPassword (promptPassword is_terminal ''current password'')) (\<lambda>oldPassword.
             rpc (cl_ChangePassword (de_Client d) [] oldPassword newPassword))) (\<lambda>_.
     say (Printf ''password changed'' []))))"

section \<open>Agents\<close>

definition agentHeartbeatThreshold :: duration where "agentHeartbeatThreshold = 30 * Second"

definition cmd_agentTokenCreate :: "'w deps \<Rightarrow> duration \<Rightarrow> ('w, 'f, unit) cli" where
  "cmd_agentTokenCreate d ttl =
     bind_op (guard_op (\<not> ttl \<le> 0) (Errorf ''--ttl must be positive'' [])) (\<lambda>_.
     bind_op (rpc (cl_CreateRegistrationToken (de_Client d) ttl)) (\<lambda>token.
     bind_op (say (Printf ''registration token (shown once): %s'' [FStr token])) (\<lambda>_.
     say (Printf ''expires in: %s'' [FStr (Duration_String ttl)]))))"

definition agent_row_of :: "time \<Rightarrow> agent \<Rightarrow> agent_row" where
  "agent_row_of now a =
     \<lparr>ar_Name = agent_Id a, ar_Status = agent_status_text (Agent_Status a now agentHeartbeatThreshold),
      ar_Hostname = agent_Hostname a, ar_Version = agent_Version a, ar_Labels = agent_Labels a,
      ar_LastHeartbeat = agent_LastHeartbeat a\<rparr>"

definition cmd_agentList :: "time \<Rightarrow> 'w deps \<Rightarrow> ('w, 'f, unit) cli" where
  "cmd_agentList now d =
     bind_op (rpc (cl_ListAgents (de_Client d) all_params \<lparr>af_Search = [], af_Labels = []\<rparr>)) (\<lambda>result.
     if Items result = [] then say (Printf ''no agents found'' []) else say (PrintAgents (map (agent_row_of now) (Items result))))"

definition cmd_agentDelete :: "'w deps \<Rightarrow> string list \<Rightarrow> ('w, 'f, unit) cli" where
  "cmd_agentDelete d args =
     bind_op (lift_op (ExactArgs 1 args)) (\<lambda>_.
     bind_op (rpc (cl_DeleteAgent (de_Client d) (hd args))) (\<lambda>_.
     say (Printf ''agent/%s deleted'' [FStr (hd args)])))"

section \<open>The root command\<close>

text \<open>
  What \<^verbatim>\<open>PersistentPreRunE\<close> asks of the command that is run: its name, its parent's, whether it is annotated
  as one that needs no token, and whether \<^verbatim>\<open>--version\<close> is set.
\<close>

record cobra_command =
  cc_Name :: string
  cc_Parent :: "string option"
  cc_Tokenless :: bool
  cc_Version :: bool

definition skipsDial :: "cobra_command \<Rightarrow> bool" where
  "skipsDial cmd \<longleftrightarrow>
     (if cc_Name cmd \<in> {''version'', ''help'', ''completion''} then True
      else if HasPrefix (cc_Name cmd) ''__'' then True
      else cc_Parent cmd = Some ''completion'')"

text \<open>\<^verbatim>\<open>net.ParseIP\<close> is a parameter, as is dialing.\<close>

definition PersistentPreRunE ::
  "'f file_system \<Rightarrow> (string \<Rightarrow> bool) \<Rightarrow> (string \<Rightarrow> string \<Rightarrow> 'w client result) \<Rightarrow> string result \<Rightarrow> cobra_command \<Rightarrow>
     string \<Rightarrow> int \<Rightarrow> string \<Rightarrow> ('w, 'f, 'w deps option) cli" where
  "PersistentPreRunE F ParseIP connect home cmd host port tokenPath =
     (if skipsDial cmd then lift_op (Inr None)
      else if cc_Version cmd then lift_op (Inr None)
      else
        bind_op (guard_op (\<not> (port < 1 \<or> port > 65535)) (Errorf ''--port must be between 1 and 65535, got %d'' [FInt port])) (\<lambda>_.
        bind_op (guard_op (\<not> (Contains host '':'' \<and> \<not> ParseIP host))
                   (Errorf ''--host must be a bare host or IP (got %q; set the port with --port)'' [FStr host])) (\<lambda>_.
        bind_op (lift_op (if tokenPath = [] then defaultTokenPath home else Inr tokenPath)) (\<lambda>tokenPath.
        bind_op (if cc_Tokenless cmd then readTokenFile F tokenPath else requireTokenFile F tokenPath) (\<lambda>token.
        bind_op (lift_op (connect (JoinHostPort host (int_text port)) token)) (\<lambda>client.
        lift_op (Inr (Some \<lparr>de_Client = client, de_Token = token, de_TokenPath = tokenPath\<rparr>))))))))"

text \<open>A command runs with the dependencies that this leaves.\<close>

definition run_command ::
  "'f file_system \<Rightarrow> (string \<Rightarrow> bool) \<Rightarrow> (string \<Rightarrow> string \<Rightarrow> 'w client result) \<Rightarrow> string result \<Rightarrow> cobra_command \<Rightarrow>
     string \<Rightarrow> int \<Rightarrow> string \<Rightarrow> ('w deps \<Rightarrow> ('w, 'f, unit) cli) \<Rightarrow> ('w, 'f, unit) cli" where
  "run_command F ParseIP connect home cmd host port tokenPath RunE =
     bind_op (PersistentPreRunE F ParseIP connect home cmd host port tokenPath) (\<lambda>d.
     case d of None \<Rightarrow> lift_op (Inr ()) | Some d \<Rightarrow> RunE d)"

end
