(* ===== verification/Cli_Session.thy ===== *)
theory Cli_Session
  imports Cli Byte_Size
begin

text \<open>
  Sessions of \<^verbatim>\<open>pgctl\<close>: the token that a login stores is the one the next commands present, a logout
  leaves nothing to present, and what becomes of credentials that are piped in.
\<close>

section \<open>Running the parts of a command\<close>

text \<open>How a run goes that ends well, before the simplifier's rules for a first step that only checks.\<close>

lemma lift_Inr: "lift_op r w = (Inr x, w') \<longleftrightarrow> r = Inr x \<and> w' = w"
  by auto

lemma guard_Inr: "guard_op b e w = (Inr x, w') \<longleftrightarrow> b \<and> w' = w"
  by (auto simp: guard_res_def split: if_splits)

lemmas run_ok = bind_op_Inr_iff wrap_op_Inr_iff lift_Inr guard_Inr

lemma rpc_Inr: "rpc m w = (Inr x, w') \<longleftrightarrow> (\<exists>c. m (cw_conn w) = (Inr x, c) \<and> w' = w\<lparr>cw_conn := c\<rparr>)"
  by (auto simp: rpc_def split: prod.splits)

lemma disk_eq: "disk m w = (r, w') \<longleftrightarrow> (\<exists>f. m (cw_disk w) = (r, f) \<and> w' = w\<lparr>cw_disk := f\<rparr>)"
  by (auto simp: disk_def split: prod.splits)

lemma promptLine_disk: "promptLine label w = (r, w') \<Longrightarrow> cw_disk w' = cw_disk w"
  by (auto simp: promptLine_def split: prod.splits sum.splits)

lemma promptPassword_disk: "promptPassword tm label w = (r, w') \<Longrightarrow> cw_disk w' = cw_disk w"
  by (auto simp: promptPassword_def promptLine_disk split: prod.splits sum.splits if_splits)

context files_contract begin

lemma writeTokenFile_ok:
  assumes "writeTokenFile F path token w = (Inr u, w')"
  shows "files (cw_disk w') path = Some (token @ [CHR 0x0A]) \<and> cw_conn w' = cw_conn w"
  using assms unfolding writeTokenFile_def run_ok disk_eq by (auto dest: written_ok)

lemma removeTokenFile_ok:
  assumes "removeTokenFile F path w = (Inr u, w')"
  shows "files (cw_disk w') path = None"
proof -
  obtain r f where q: "fs_Remove F path (cw_disk w) = (r, f)" by fastforce
  show ?thesis
  proof (cases r)
    case (Inl e)
    with assms q have "os_IsNotExist e" "cw_disk w' = f" by (auto simp: removeTokenFile_def disk_def split: if_splits)
    with q Inl remove [OF q] remove_missing [of path "cw_disk w" e f] show ?thesis by auto
  next
    case (Inr v)
    with assms q remove_ok [of path "cw_disk w" v f] show ?thesis by (auto simp: removeTokenFile_def disk_def)
  qed
qed

text \<open>What is read back from a token file: the token, or an error of the read.\<close>

lemma readTokenFile_stored:
  assumes "readTokenFile F path w = (r, w')" "files (cw_disk w) path = Some s"
  shows "r = Inr (TrimSpace s) \<or> r = Inr []"
  using assms by (auto simp: readTokenFile_def disk_eq dest: reads_ok split: prod.splits sum.splits)

lemma requireTokenFile_stored:
  assumes "requireTokenFile F path w = (r, w')" "files (cw_disk w) path = Some s" "TrimSpace s \<noteq> []"
  shows "r = Inr (TrimSpace s) \<or> (\<exists>e. r = Inl (Wrapf ''read token file: %w'' [] e) \<and> \<not> os_IsNotExist e)"
  using assms
  by (auto simp: requireTokenFile_def disk_eq Let_def dest: reads_ok reads_missing split: prod.splits sum.splits if_splits)

lemma requireTokenFile_gone:
  assumes "requireTokenFile F path w = (r, w')" "files (cw_disk w) path = None"
  shows "\<exists>e. r = Inl e"
  using assms
  by (auto simp: requireTokenFile_def disk_eq Let_def dest: reads_ok split: prod.splits sum.splits if_splits)

lemma login_stores_token:
  assumes "cmd_login F tm d u p ttl never w = (Inr x, w')"
  obtains t name pw c c' where "cl_Login (de_Client d) name pw ttl never c = (Inr t, c')"
    "cw_conn w' = c'" "files (cw_disk w') (de_TokenPath d) = Some (t @ [CHR 0x0A])"
  using assms unfolding cmd_login_def run_ok
  by (auto simp: say_def dest!: writeTokenFile_ok iffD1 [OF rpc_Inr])

end

section \<open>A login and the commands after it\<close>

definition cli_token_text :: "string \<Rightarrow> bool" where
  "cli_token_text t \<longleftrightarrow> t \<noteq> [] \<and> graphic (hd t) \<and> graphic (last t)"

definition same_path :: "string result \<Rightarrow> string \<Rightarrow> string \<Rightarrow> bool" where
  "same_path home tokenPath path \<longleftrightarrow> (if tokenPath = [] then defaultTokenPath home else Inr tokenPath) = Inr path"

definition presents :: "cobra_command \<Rightarrow> bool" where
  "presents cmd \<longleftrightarrow> \<not> skipsDial cmd \<and> \<not> cc_Version cmd \<and> \<not> cc_Tokenless cmd"

lemma PreRun_cases:
  assumes "PersistentPreRunE F ParseIP connect home cmd host port tokenPath w = (Inr x, w')" "\<not> skipsDial cmd" "\<not> cc_Version cmd"
  obtains d where "x = Some d" "same_path home tokenPath (de_TokenPath d)"
    "connect (JoinHostPort host (int_text port)) (de_Token d) = Inr (de_Client d)"
    "(if cc_Tokenless cmd then readTokenFile F (de_TokenPath d) else requireTokenFile F (de_TokenPath d)) w = (Inr (de_Token d), w')"
proof -
  obtain path token C where "(if tokenPath = [] then defaultTokenPath home else Inr tokenPath) = Inr path"
      "(if cc_Tokenless cmd then readTokenFile F path else requireTokenFile F path) w = (Inr token, w')"
      "connect (JoinHostPort host (int_text port)) token = Inr C"
      "x = Some \<lparr>de_Client = C, de_Token = token, de_TokenPath = path\<rparr>"
    using assms(1) unfolding PersistentPreRunE_def if_not_P [OF assms(2)] if_not_P [OF assms(3)] run_ok by auto
  then show thesis by (intro that) (auto simp: same_path_def)
qed

lemma run_command_path:
  assumes "run_command F ParseIP connect home cmd host port tokenPath RunE w = (Inr (), w')" "\<not> skipsDial cmd" "\<not> cc_Version cmd"
  obtains d w1 where "RunE d w1 = (Inr (), w')" "same_path home tokenPath (de_TokenPath d)"
    "connect (JoinHostPort host (int_text port)) (de_Token d) = Inr (de_Client d)"
proof -
  obtain x w1 where x: "PersistentPreRunE F ParseIP connect home cmd host port tokenPath w = (Inr x, w1)"
      "(case x of None \<Rightarrow> lift_op (Inr ()) | Some d \<Rightarrow> RunE d) w1 = (Inr (), w')"
    using assms(1) unfolding run_command_def run_ok by blast
  obtain d where d: "x = Some d" "same_path home tokenPath (de_TokenPath d)"
      "connect (JoinHostPort host (int_text port)) (de_Token d) = Inr (de_Client d)"
    using PreRun_cases [OF x(1) assms(2,3)] by blast
  with x(2) that show thesis by simp
qed

lemma PreRun_token:
  assumes "PersistentPreRunE F ParseIP connect home cmd host port tokenPath w = (Inr (Some d), w')" "presents cmd"
    "same_path home tokenPath path"
  shows "requireTokenFile F path w = (Inr (de_Token d), w') \<and> de_TokenPath d = path \<and>
     connect (JoinHostPort host (int_text port)) (de_Token d) = Inr (de_Client d)"
  using PreRun_cases [OF assms(1)] assms(2,3) unfolding presents_def same_path_def by (auto split: if_splits)

lemma PreRun_gone:
  assumes "files_contract F files locks" "PersistentPreRunE F ParseIP connect home cmd host port tokenPath w = (r, w')"
    "presents cmd" "same_path home tokenPath path" "files (cw_disk w) path = None"
  shows "\<exists>e. r = Inl e"
proof (cases r)
  case (Inr x)
  then obtain d where x: "x = Some d" using PreRun_cases assms(2,3) unfolding presents_def by metis
  with Inr assms have "requireTokenFile F path w = (Inr (de_Token d), w')" using PreRun_token by blast
  with files_contract.requireTokenFile_gone [OF assms(1)] assms(5) show ?thesis by fastforce
qed simp

text \<open>C18. After a login that succeeds, a command that needs a token and uses the same token file presents
  exactly the token that this login was issued: it connects with it, or it fails.  The token is stored with a
  newline behind it and read back without, so this asks of the issued token that it has no white space at its
  ends.\<close>

theorem login_token_is_used:
  fixes connect :: "string \<Rightarrow> string \<Rightarrow> 'w client result"
  assumes "files_contract F files locks"
    and "\<forall>addr old C name pw c t c'. connect addr old = Inr C \<longrightarrow> cl_Login C name pw ttl never c = (Inr t, c') \<longrightarrow> cli_token_text t"
    and "run_command F ParseIP connect home login host port tokenPath
           (\<lambda>d. cmd_login F tm d username password ttl never) w = (Inr (), w1)"
    and "\<not> skipsDial login" "\<not> cc_Version login" "presents cmd"
    and "same_path home tokenPath path" "same_path home tokenPath2 path"
    and "files (cw_disk w2) path = files (cw_disk w1) path"
    and "PersistentPreRunE F ParseIP connect home cmd host2 port2 tokenPath2 w2 = (Inr (Some d), w3)"
  shows "\<exists>addr old C name pw c. connect addr old = Inr C \<and> cl_Login C name pw ttl never c = (Inr (de_Token d), cw_conn w1) \<and>
           connect (JoinHostPort host2 (int_text port2)) (de_Token d) = Inr (de_Client d)"
proof -
  obtain d1 v where d1: "cmd_login F tm d1 username password ttl never v = (Inr (), w1)"
      "same_path home tokenPath (de_TokenPath d1)" "connect (JoinHostPort host (int_text port)) (de_Token d1) = Inr (de_Client d1)"
    using run_command_path [OF assms(3-5)] by blast
  with assms(7) have path: "de_TokenPath d1 = path" by (auto simp: same_path_def split: if_splits)
  obtain t name pw c where t: "cl_Login (de_Client d1) name pw ttl never c = (Inr t, cw_conn w1)"
      "files (cw_disk w1) path = Some (t @ [CHR 0x0A])"
    using files_contract.login_stores_token [OF assms(1) d1(1)] path by metis
  have "cli_token_text t" using assms(2) t(1) d1(3) by blast
  then have "TrimSpace (t @ [CHR 0x0A]) = t" "t \<noteq> []" by (auto simp: cli_token_text_def TrimSpace_newline)
  moreover have "requireTokenFile F path w2 = (Inr (de_Token d), w3)"
      "connect (JoinHostPort host2 (int_text port2)) (de_Token d) = Inr (de_Client d)"
    using PreRun_token [OF assms(10,6,8)] by auto
  ultimately show ?thesis using files_contract.requireTokenFile_stored [OF assms(1)] t d1(3) assms(9) by fastforce
qed

text \<open>A server that answers a login with a token, and a command line before and after it.\<close>

definition demo_connect :: "string \<Rightarrow> string \<Rightarrow> unit client result" where
  "demo_connect addr token = Inr \<lparr>cl_token = token, cl_invoke = \<lambda>md req w. (Inr (RespToken ''pgway_u1''), w)\<rparr>"

definition demo_world :: "(unit, mem_files) cli_world" where
  "demo_world = \<lparr>cw_conn = (), cw_disk = \<lparr>mem_files = [], mem_locks = [], mem_broken = []\<rparr>, cw_stdin = [], cw_out = []\<rparr>"

definition demo_login :: cobra_command where
  "demo_login = \<lparr>cc_Name = ''login'', cc_Parent = Some ''pgctl'', cc_Tokenless = True, cc_Version = False\<rparr>"

definition demo_get :: cobra_command where
  "demo_get = \<lparr>cc_Name = ''proxies'', cc_Parent = Some ''get'', cc_Tokenless = False, cc_Version = False\<rparr>"

definition demo_stored :: "(unit, mem_files) cli_world" where
  "demo_stored = demo_world\<lparr>cw_disk := \<lparr>mem_files = [(''/t'', ''pgway_u1'' @ [CHR 0x0A])], mem_locks = [], mem_broken = []\<rparr>,
     cw_out := [Printf ''logged in as %q'' [FStr ''ada''], Printf ''token stored in %s'' [FStr ''/t''],
       Printf ''token: %s'' [FStr ''pgway_u1'']]\<rparr>"

lemma demo_calls [simp]:
  "demo_connect addr token = Inr C \<Longrightarrow> cl_Login C name pw ttl never c = (Inr t, c') \<longleftrightarrow> t = ''pgway_u1'' \<and> c' = c"
  by (auto simp: demo_connect_def cl_Login_def call_def bind_op_def)

lemma demo_host [simp]: "\<not> Contains ''cp'' '':''"
  by code_simp

lemma demo_token_text: "cli_token_text ''pgway_u1''"
  by code_simp

lemma demo_trim [simp]: "TrimSpace (''pgway_u1'' @ [CHR 0x0A]) = ''pgway_u1''"
  using demo_token_text by (intro TrimSpace_newline) (auto simp: cli_token_text_def)

lemma demo_stored_eq:
  "run_command mem_fs (\<lambda>_. False) demo_connect (Inl nil_panic) demo_login ''cp'' 50051 ''/t''
     (\<lambda>d. cmd_login mem_fs True d ''ada'' ''secret'' 0 False) demo_world = (Inr (), demo_stored)"
  by (simp add: run_command_def PersistentPreRunE_def skipsDial_def demo_login_def demo_world_def demo_stored_def demo_connect_def
      readTokenFile_def disk_def mem_fs_def bind_op_def cmd_login_def or_ask_def rpc_def cl_Login_def call_def writeTokenFile_def wrap_op_def
      say_def HasPrefix_def guard_res_def)

definition demo_deps :: "unit deps" where
  "demo_deps = \<lparr>de_Client = \<lparr>cl_token = ''pgway_u1'', cl_invoke = \<lambda>md req w. (Inr (RespToken ''pgway_u1''), w)\<rparr>,
     de_Token = ''pgway_u1'', de_TokenPath = ''/t''\<rparr>"

lemma demo_prerun:
  "PersistentPreRunE mem_fs (\<lambda>_. False) demo_connect (Inl nil_panic) demo_get ''cp'' 50051 ''/t'' demo_stored = (Inr (Some demo_deps), demo_stored)"
  using demo_trim
  by (simp add: PersistentPreRunE_def skipsDial_def demo_get_def demo_world_def demo_stored_def demo_connect_def demo_deps_def
      requireTokenFile_def disk_def mem_fs_def bind_op_def HasPrefix_def guard_res_def)

theorem login_token_is_used_witness:
  "\<exists>addr old C name pw c. demo_connect addr old = Inr C \<and>
     cl_Login C name pw 0 False c = (Inr (de_Token demo_deps), cw_conn demo_stored) \<and>
     demo_connect (JoinHostPort ''cp'' (int_text 50051)) (de_Token demo_deps) = Inr (de_Client demo_deps)"
  by (rule login_token_is_used [OF mem.files_contract_axioms _ demo_stored_eq _ _ _ _ _ _ demo_prerun, of "''/t''"])
    (auto simp: demo_token_text demo_login_def demo_get_def presents_def skipsDial_def same_path_def HasPrefix_def)

section \<open>Credentials from a pipe\<close>

text \<open>C40. When the user name and the password are piped in as two lines and arrive in one read, a login that asks
  for both fails without calling the server: the reader made for the name takes both lines, and the reader made
  for the password finds the input at its end.\<close>

theorem piped_credentials_lost:
  assumes "CHR 0x0A \<notin> set name" "cw_stdin w = [name @ [CHR 0x0A] @ password @ [CHR 0x0A]]" "TrimSpace (name @ [CHR 0x0A]) \<noteq> []"
  shows "cmd_login F False d [] [] ttl never w =
     (Inl (Wrapf ''read input: %w'' [] (External ''EOF'')), w\<lparr>cw_stdin := []\<rparr>)"
proof -
  have "takeWhile (\<lambda>c. c \<noteq> CHR 0x0A) (name @ CHR 0x0A # rest) = name" for rest
    using assms(1) by (subst takeWhile_append2) auto
  then show ?thesis using assms
    by (simp add: cmd_login_def or_ask_def bind_op_def promptLine_def promptPassword_def)
qed

theorem piped_credentials_lost_witness:
  "cmd_login mem_fs False demo_deps [] [] 0 False (demo_world\<lparr>cw_stdin := [''ada'' @ [CHR 0x0A] @ ''secret'' @ [CHR 0x0A]]\<rparr>) =
     (Inl (Wrapf ''read input: %w'' [] (External ''EOF'')), demo_world)"
  using piped_credentials_lost [of "''ada''" "demo_world\<lparr>cw_stdin := [''ada'' @ [CHR 0x0A] @ ''secret'' @ [CHR 0x0A]]\<rparr>" "''secret''" mem_fs demo_deps 0 False]
    TrimSpace_newline [of "''ada''"]
  by (simp add: demo_world_def graphic_def byte_def)

text \<open>A lifetime below a second is printed as it was given and sent as none, which the server reads as its default.\<close>

lemma short_ttl_sent_as_none:
  "0 < ttl \<Longrightarrow> ttl < Second \<Longrightarrow> cl_CreateRegistrationToken C ttl = cl_CreateRegistrationToken C 0"
  by (simp add: cl_CreateRegistrationToken_def whole_seconds_def fun_eq_iff)

end
