(* ===== verification/Spec2Isabelle.thy ===== *)
theory Spec2Isabelle
  imports Auth_Safety System AgentHost HttpProxy Listeners Transport Remote_Agents Grpc_Replies Dashboard_Limits Config_Load
    Agent_State Probes Cli_Session
begin

text \<open>
  A verification of pgway, a forward-proxy gateway written in Go.

  \<^bold>\<open>The program.\<close>  A control plane keeps six kinds of resources: proxies, pools of proxies, balancers
  over pools, routers that pick a target by rules, flows and entrypoints.  It validates what is
  applied, checks references between resources, stores them in the key-value store Badger and
  publishes a change event for each change.  A data plane caches the entrypoints and flows, keeps one
  balancer instance per balancer, listens on an address per entrypoint, and sends each request that
  arrives there through the flow's router and balancer to an upstream proxy.  It learns of changes
  through the event bus, a coalescing consumer and an event handler, and resynchronises in full when
  its link to a remote control plane is restored.  Users, sessions, agents and registration tokens
  are kept by the auth and agent services of the control plane.  The control plane is reached over gRPC, by
  remote data planes and by the command line \<^verbatim>\<open>pgctl\<close>, and over HTTP through the dashboard.

  \<^bold>\<open>Theories and sources\<close> (paths under \<^verbatim>\<open>src/internal/\<close>).

  \<^item> \<^verbatim>\<open>Prelude\<close>: errors of Go as a datatype with wrapping (\<^verbatim>\<open>errors.Is\<close> walks the chain), results as a
    sum type, association maps, times and durations, generic lemmas and the collections of
    simplification rules the other theories fill.
  \<^item> \<^verbatim>\<open>Go_Strings\<close>, \<^verbatim>\<open>Glob\<close>: the functions of Go's \<^verbatim>\<open>strings\<close>, \<^verbatim>\<open>strconv\<close>, \<^verbatim>\<open>net\<close>, \<^verbatim>\<open>net/textproto\<close> and
    \<^verbatim>\<open>filepath\<close> that the sources call.
  \<^item> \<^verbatim>\<open>Domain\<close>, \<^verbatim>\<open>Routing\<close>: \<^verbatim>\<open>application/core/domain\<close>.  Structs are records, enumerations datatypes,
    \<^verbatim>\<open>Validate\<close> a function into a result.
  \<^item> \<^verbatim>\<open>Schema\<close>: \<^verbatim>\<open>schema\<close>, the versioned specifications and the order in which a manifest is applied.
  \<^item> \<^verbatim>\<open>Balancer\<close>: \<^verbatim>\<open>application/dataplane/balancer\<close> (the algorithms and \<^verbatim>\<open>Build\<close>).
  \<^item> \<^verbatim>\<open>Ports\<close>: \<^verbatim>\<open>ports\<close> and \<^verbatim>\<open>domain/filters.go\<close>; the contracts of the repositories.
  \<^item> \<^verbatim>\<open>Badger\<close>, \<^verbatim>\<open>Badger_Store\<close>: \<^verbatim>\<open>adapters/repository/badger\<close>, and its proof against the contracts.
  \<^item> \<^verbatim>\<open>ControlPlane\<close>, \<^verbatim>\<open>Integrity\<close>: \<^verbatim>\<open>application/controlplane/api\<close>, and referential integrity.
  \<^item> \<^verbatim>\<open>Auth\<close>, \<^verbatim>\<open>Auth_Safety\<close>: \<^verbatim>\<open>application/controlplane/auth\<close> and \<^verbatim>\<open>application/controlplane/agent\<close>, and
    what they guarantee.
  \<^item> \<^verbatim>\<open>Dataplane\<close>, \<^verbatim>\<open>Dataplane_Correct\<close>: \<^verbatim>\<open>application/dataplane/balancer/service.go\<close> and
    \<^verbatim>\<open>application/dataplane/api\<close>, and the refinement of the store by what is served.
  \<^item> \<^verbatim>\<open>Consumer\<close>: \<^verbatim>\<open>application/dataplane/consumer\<close>; \<^verbatim>\<open>PubSub\<close>: \<^verbatim>\<open>adapters/pubsub/memory\<close>.
  \<^item> \<^verbatim>\<open>LinkState\<close>, \<^verbatim>\<open>AgentHost\<close>: \<^verbatim>\<open>application/dataplane/agenthost\<close> and \<^verbatim>\<open>ports/cplink.go\<close>.
  \<^item> \<^verbatim>\<open>HttpProxy\<close>, \<^verbatim>\<open>Listeners\<close>: \<^verbatim>\<open>adapters/http\<close>; \<^verbatim>\<open>Transport\<close>: \<^verbatim>\<open>adapters/proxy/net\<close>.
  \<^item> \<^verbatim>\<open>System\<close>: the composition of control plane, bus, consumer and data plane.
  \<^item> \<^verbatim>\<open>Go_Encoding\<close>: base64, Go's durations as text, floating point rounding; \<^verbatim>\<open>Error_Text\<close>: the text of an error.
  \<^item> \<^verbatim>\<open>Wire\<close>: the messages of \<^verbatim>\<open>gen\<close> as records and the conversions of both sides.  \<^verbatim>\<open>Grpc_Server\<close>:
    \<^verbatim>\<open>adapters/grpc/server\<close> and \<^verbatim>\<open>adapters/grpc/interceptor\<close>, one function per method, \<open>handle\<close> for the
    dispatch and \<open>serve\<close> for the whole chain.  \<^verbatim>\<open>Grpc_Client\<close>: \<^verbatim>\<open>adapters/grpc/client\<close>.  \<^verbatim>\<open>Grpc_Auth\<close> and
    \<^verbatim>\<open>Grpc_Replies\<close> say who may call what and what is answered; \<^verbatim>\<open>Remote\<close>, \<^verbatim>\<open>Remote_Calls\<close> and
    \<^verbatim>\<open>Remote_Agents\<close> compose client and server with the data plane, the control plane and the agent host.
  \<^item> \<^verbatim>\<open>Web\<close>: what the sources use of \<^verbatim>\<open>net/http\<close>: requests, cookies, \<^verbatim>\<open>ServeMux\<close> patterns.  \<^verbatim>\<open>Dashboard\<close>:
    \<^verbatim>\<open>adapters/dashboard\<close>, a handler per route, the middleware and the whole server \<open>serve_web\<close>.
    \<^verbatim>\<open>Dashboard_Safety\<close>, \<^verbatim>\<open>Dashboard_Auth\<close>, \<^verbatim>\<open>Dashboard_Effects\<close> and \<^verbatim>\<open>Dashboard_Limits\<close>: what its answers
    show, who is served, what its requests do, and its rate limiter.
  \<^item> \<^verbatim>\<open>Byte_Size\<close>, \<^verbatim>\<open>Config\<close>, \<^verbatim>\<open>Config_Load\<close>: \<^verbatim>\<open>platform/config\<close>.
  \<^item> \<^verbatim>\<open>File_System\<close>: files, locks and paths; \<^verbatim>\<open>Agent_State\<close>: \<^verbatim>\<open>adapters/agentstate\<close>; \<^verbatim>\<open>Probes\<close>: \<^verbatim>\<open>adapters/probes\<close>.
  \<^item> \<^verbatim>\<open>Cli\<close>, \<^verbatim>\<open>Cli_Session\<close>: \<^verbatim>\<open>adapters/cli\<close>, a function per command on a state of connection, disk, input and
    output.

  \<^bold>\<open>Interfaces.\<close>  \<open>repo_contract\<close>, \<open>create_contract\<close>, \<open>token_contract\<close> and \<open>registration_token_contract\<close>
  say what a repository promises over an abstract store of finite maps.  \<open>badger_db\<close> states Badger's
  documented behaviour and \<open>badger_store\<close> adds that the codec decodes what it encoded; every
  repository of \<^verbatim>\<open>Badger\<close> is shown to meet its contract by a \<^theory_text>\<open>sublocale\<close> of \<open>badger_store\<close>, and both are
  interpreted on executable databases, one of which fails at chosen operations.  The clients rest on
  contracts of their own: \<open>cp_repos\<close> for the control plane, \<open>auth_repos\<close> for the auth and agent
  services, \<open>dp_source\<close> for the data plane's view of the control plane; each is again a \<^theory_text>\<open>sublocale\<close>
  of \<open>badger_store\<close>.  \<open>lb_contract\<close> is what a balancing algorithm promises, interpreted on the three
  algorithms and on the tagged instance that \<^verbatim>\<open>Build\<close> returns.  \<open>grpc_conn\<close> and \<open>remote_source\<close> say that a
  connection delivers to the server or fails as a transport error, and are interpreted on the model of the
  server.  \<open>token_bucket\<close>, \<open>config_sources\<close> and \<open>files_contract\<close> state what is documented of
  \<^verbatim>\<open>golang.org/x/time/rate\<close>, of viper and of the operating system's files; each is interpreted on an
  executable instance on which the theorems that rest on it are run.

  \<^bold>\<open>What is shown.\<close>

  \<^item> Control plane: every operation keeps all references resolved, whatever fails; a referenced resource
    is not deleted; one event is published per successful change and none otherwise; an update keeps
    creation times and the credentials the specification leaves out; paging through a listing
    yields the listing.
  \<^item> Auth: a token is accepted only when unexpired and its subject exists; a user with the admin role remains;
    changing a password and deleting a user or agent end the sessions; a registration token
    registers one agent; what a login returns authenticates.
  \<^item> Routing and balancing: the first matching rule decides; validation accepts exactly the routers
    that compile; weighted balancing gives each proxy its weight in every period; least-bytes picks
    a least loaded proxy; what is returned is a member of the pool.
  \<^item> Data plane: after a bootstrap requests go to proxies of the pool the store configures, and an
    error of the lookup is returned as such; the consumer loses no update and holds a bounded
    buffer; the bus delivers a subsequence in order; and the composed system serves what the
    store says whenever nothing is in flight.
  \<^item> Agent: the link becomes unreachable after the silence threshold and not before; retries end, with
    backoffs within their bound; a permanent error ends registration at once; a watch ends with the
    link marked down.
  \<^item> HTTP: hop-by-hop headers are removed; each request is counted once and its balancer slot given back
    on every path; an unreachable control plane refuses requests when so configured; listeners
    follow the entrypoints; a cached address is used only while fresh.
  \<^item> gRPC: every call but the open ones is made for the live subject of its token who may make it, or is refused
    without effect; a call through client and server has the effect and the result of the call made
    directly; a data plane that reads over gRPC serves what the control plane stores; resources survive their
    messages up to what these do not carry; every reply is of its method's type.
  \<^item> Dashboard: the same authorization over HTTP; no answer shows a password of a proxy, and editing a redacted
    proxy keeps it; the cookie of a session ends with it; forgetting idle clients bounds the limiter's memory
    and changes no answer as long as buckets refill within the idle time.
  \<^item> Processes' surroundings: the defaults of the configuration, and that what it accepts is usable; credentials of
    an agent are replaced whole and identify it after a restart; a data plane is ready exactly when it serves;
    \<^verbatim>\<open>pgctl\<close> presents the token of the last login, and none after a logout.

  \<^bold>\<open>Conventions and bounds.\<close>  A method that reads or writes its receiver takes and returns the record of
  the receiver's fields.  An operation reads the clock once: the time is an argument.  Strings are
  lists of bytes.  Go maps and \<^verbatim>\<open>sync.Map\<close> are association lists with one entry per key where the
  order of iteration does not reach the result.  Parallel loads of an \<^verbatim>\<open>errgroup\<close> run in sequence.
  Integers are unbounded except where wrap-around is reachable: the round-robin counter is a
  32-bit word, ports are 16-bit words, and weights, durations and byte counters wrap at 64 bits.  The
  loops of \<^verbatim>\<open>AgentHost\<close>
  are \<^theory_text>\<open>partial_function\<close>s, whose return is proved from a rank of the environment's answers (the
  context is cancelled at last, or an attempt succeeds); the backoff bound of \<open>2 ^ 62\<close>
  nanoseconds keeps doubling within 64 bits.  Pools are assumed to hold fewer than \<open>2 ^ 32\<close> proxies,
  the range of the round-robin counter.  In \<^verbatim>\<open>System\<close> an event dropped by a full subscriber or a failed reload marks the state stale until the next successful resync.

  \<^bold>\<open>Parameters.\<close>  Badger, \<^verbatim>\<open>encoding/json\<close>, bcrypt, \<^verbatim>\<open>crypto/rand\<close>, \<^verbatim>\<open>regexp\<close>, \<^verbatim>\<open>net/url\<close>, the resolver, the
  dialers and sockets, the remote control plane as the agent host sees it, the token bucket, JSON bodies,
  \<^verbatim>\<open>strconv.Quote\<close>, viper and mapstructure, the YAML library, \<^verbatim>\<open>net.ParseIP\<close>, the file system, the terminal and the
  embedded static files are arguments.  Floating point numbers are rationals with their rounding; settings that
  are not a number or infinite are not considered.

  \<^bold>\<open>Not modelled.\<close>  Tracing spans, the OpenTelemetry instruments, logging and version output, which only
  observe; keepalive, dialing, timeouts, starting and stopping of the servers, which are the libraries'; the targets
  of the dashboard's redirects; the parsing of flags by cobra; copying of tunnelled bytes; the garbage collection
  of Badger; the wiring and the signals of the three processes, whose order of start and stop is that of
  goroutines; and the generated code under \<^verbatim>\<open>gen\<close>.
\<close>

end
